(* ===== verification/Prelude.thy ===== *)
theory Prelude
  imports Complex_Main "HOL-Library.List_Lexorder" "HOL-Library.Char_ord" "HOL-Library.Sublist"
begin

text \<open>
  Shared vocabulary of the development: exceptions, Python strings and their operations, decimal
  notation and \<open>repr\<close>, UUID strings. JSON-like values are in \<open>Py_Values\<close>, tables and the generic
  interfaces (a keyed row store, a state machine with an invariant) in \<open>Tables\<close>.

  \<^item> A Python \<open>str\<close> is a HOL \<open>string\<close>: the model covers the code points below 256, with the
    classification (white space, letters, digits) and lower-casing that Python gives them.
  \<^item> An operation that may raise returns \<open>exc + 'a\<close>, with \<open>Inl\<close> for the raised exception.
  \<^item> Instants (\<open>datetime\<close>) and Python floats are exact rationals; an instant counts seconds.
\<close>

named_theorems py_simps \<open>evaluation of the Python string and value operations\<close>
named_theorems row_simps \<open>reading a table back after it was written\<close>

section \<open>Exceptions\<close>

text \<open>
  The exception classes the modelled code raises or distinguishes. \<open>HTTPStatusError\<close> carries its
  text, the status code and the \<open>Retry-After\<close> header of the response; \<open>TransportError\<close> stands for
  \<open>httpx.TimeoutException\<close>, \<open>ConnectError\<close>, \<open>NetworkError\<close> and \<open>TimeoutError\<close>; \<open>OtherError\<close> for
  every other \<open>Exception\<close>.
\<close>

datatype exc =
    KeyError string
  | ValueError string
  | RuntimeError string
  | PermissionError string
  | TypeError string
  | NotImplementedError string
  | ZeroDivisionError
  | PolicyViolation string
  | CircuitOpenError string
  | RateLimitExceeded string string int int
  | ToolApprovalRequired string string string
  | HTTPStatusError string int "string option"
  | TransportError string
  | OtherError string

text \<open>\<open>isinstance(exc, PermissionError)\<close> and \<open>isinstance(exc, RuntimeError)\<close> with the subclasses
  of the code and of the standard library.\<close>

fun is_permission_error :: "exc \<Rightarrow> bool" where
  "is_permission_error (PermissionError _) = True"
| "is_permission_error (ToolApprovalRequired _ _ _) = True"
| "is_permission_error _ = False"

fun is_runtime_error :: "exc \<Rightarrow> bool" where
  "is_runtime_error (RuntimeError _) = True"
| "is_runtime_error (NotImplementedError _) = True"
| "is_runtime_error (CircuitOpenError _) = True"
| "is_runtime_error (RateLimitExceeded _ _ _ _) = True"
| "is_runtime_error _ = False"

section \<open>Strings\<close>

definition ordc :: "char \<Rightarrow> int" where
  "ordc c = of_char c"

definition newline :: char where
  "newline = CHR 0x0A"

text \<open>\<open>str.isspace\<close> (also the \<open>\s\<close> of \<open>re\<close>), \<open>str.isalnum\<close>, ASCII digits, \<open>str.lower\<close>.\<close>

definition is_space :: "char \<Rightarrow> bool" where
  "is_space c = (let n = ordc c in (9 \<le> n \<and> n \<le> 13) \<or> (28 \<le> n \<and> n \<le> 32) \<or> n = 133 \<or> n = 160)"

definition is_digit :: "char \<Rightarrow> bool" where
  "is_digit c = (let n = ordc c in 48 \<le> n \<and> n \<le> 57)"

definition is_ascii_alnum :: "char \<Rightarrow> bool" where
  "is_ascii_alnum c = (let n = ordc c in
     (48 \<le> n \<and> n \<le> 57) \<or> (65 \<le> n \<and> n \<le> 90) \<or> (97 \<le> n \<and> n \<le> 122))"

definition is_alnum :: "char \<Rightarrow> bool" where
  "is_alnum c = (let n = ordc c in is_ascii_alnum c \<or>
     n \<in> {170, 178, 179, 181, 185, 186, 188, 189, 190} \<or>
     (192 \<le> n \<and> n \<noteq> 215 \<and> n \<noteq> 247))"

definition lower_char :: "char \<Rightarrow> char" where
  "lower_char c = (let n = ordc c in
     if (65 \<le> n \<and> n \<le> 90) \<or> (192 \<le> n \<and> n \<le> 222 \<and> n \<noteq> 215) then char_of (n + 32) else c)"

definition py_lower :: "string \<Rightarrow> string" where
  "py_lower s = map lower_char s"

text \<open>\<open>str.upper\<close>: code point 223 becomes \<open>SS\<close>; 181 and 255 have their capitals outside the
  modelled range and stay.\<close>

definition upper_char :: "char \<Rightarrow> string" where
  "upper_char c = (let n = ordc c in
     if (97 \<le> n \<and> n \<le> 122) \<or> (224 \<le> n \<and> n \<le> 254 \<and> n \<noteq> 247) then [char_of (n - 32)]
     else if n = 223 then ''SS'' else [c])"

definition py_upper :: "string \<Rightarrow> string" where
  "py_upper s = concat (map upper_char s)"

definition lstrip_of :: "(char \<Rightarrow> bool) \<Rightarrow> string \<Rightarrow> string" where
  "lstrip_of p s = dropWhile p s"

definition rstrip_of :: "(char \<Rightarrow> bool) \<Rightarrow> string \<Rightarrow> string" where
  "rstrip_of p s = rev (dropWhile p (rev s))"

definition strip_of :: "(char \<Rightarrow> bool) \<Rightarrow> string \<Rightarrow> string" where
  "strip_of p s = rstrip_of p (lstrip_of p s)"

definition py_strip :: "string \<Rightarrow> string" where
  "py_strip s = strip_of is_space s"

text \<open>\<open>s.startswith(p)\<close>, \<open>s.endswith(p)\<close>, \<open>s.removeprefix(p)\<close>, \<open>needle in hay\<close>.\<close>

abbreviation startswith :: "string \<Rightarrow> string \<Rightarrow> bool" where
  "startswith s p \<equiv> prefix p s"

abbreviation endswith :: "string \<Rightarrow> string \<Rightarrow> bool" where
  "endswith s p \<equiv> suffix p s"

abbreviation py_in :: "string \<Rightarrow> string \<Rightarrow> bool" where
  "py_in needle hay \<equiv> sublist needle hay"

definition removeprefix :: "string \<Rightarrow> string \<Rightarrow> string" where
  "removeprefix s p = (if prefix p s then drop (length p) s else s)"

definition replace_char :: "char \<Rightarrow> string \<Rightarrow> string \<Rightarrow> string" where
  "replace_char c r s = concat (map (\<lambda>x. if x = c then r else [x]) s)"

text \<open>\<open>s.split(c)\<close> for a one-character separator, and \<open>sep.join(xs)\<close>.\<close>

fun split_on :: "char \<Rightarrow> string \<Rightarrow> string list" where
  "split_on c [] = [[]]"
| "split_on c (x # xs) =
     (if x = c then [] # split_on c xs
      else (case split_on c xs of [] \<Rightarrow> [[x]] | y # ys \<Rightarrow> (x # y) # ys))"

fun join :: "string \<Rightarrow> string list \<Rightarrow> string" where
  "join sep [] = []"
| "join sep [x] = x"
| "join sep (x # y # ys) = x @ sep @ join sep (y # ys)"

text \<open>\<open>str.splitlines()\<close>: the line boundaries below 256, with \<open>\r\n\<close> as one.\<close>

definition is_linebreak :: "char \<Rightarrow> bool" where
  "is_linebreak c = (let n = ordc c in n \<in> {10, 11, 12, 13, 28, 29, 30, 133})"

fun splitlines_acc :: "string \<Rightarrow> string \<Rightarrow> string list" where
  "splitlines_acc acc [] = (if acc = [] then [] else [rev acc])"
| "splitlines_acc acc [c] = (if is_linebreak c then [rev acc] else [rev (c # acc)])"
| "splitlines_acc acc (c # d # cs) =
     (if c = CHR 0x0D \<and> d = CHR 0x0A then rev acc # splitlines_acc [] cs
      else if is_linebreak c then rev acc # splitlines_acc [] (d # cs)
      else splitlines_acc (c # acc) (d # cs))"

definition splitlines :: "string \<Rightarrow> string list" where
  "splitlines s = splitlines_acc [] s"

lemma split_on_no_sep: "c \<notin> set s \<Longrightarrow> split_on c s = [s]"
  by (induction s) auto

lemma split_on_append: "c \<notin> set s \<Longrightarrow> split_on c (s @ c # r) = s # split_on c r"
  by (induction s) auto

lemma strip_none: "list_all (\<lambda>c. \<not> p c) s \<Longrightarrow> strip_of p s = s"
proof -
  assume a: "list_all (\<lambda>c. \<not> p c) s"
  then have "dropWhile p s = s" by (cases s) auto
  moreover have "dropWhile p (rev s) = rev s" using a by (cases s rule: rev_cases) auto
  ultimately show ?thesis by (simp add: strip_of_def lstrip_of_def rstrip_of_def)
qed

lemma dropWhile_hd: "s \<noteq> [] \<Longrightarrow> \<not> p (hd s) \<Longrightarrow> dropWhile p s = s"
  by (cases s) auto

lemma strip_ends: "s \<noteq> [] \<Longrightarrow> \<not> p (hd s) \<Longrightarrow> \<not> p (last s) \<Longrightarrow> strip_of p s = s"
  by (simp add: strip_of_def lstrip_of_def rstrip_of_def dropWhile_hd hd_rev)

lemma strip_idem_ends:
  assumes "strip_of p s \<noteq> []"
  shows "\<not> p (hd (strip_of p s)) \<and> \<not> p (last (strip_of p s))"
proof -
  let ?a = "dropWhile p s"
  have ne: "?a \<noteq> []"
  proof
    assume a: "?a = []"
    have "strip_of p s = []" unfolding strip_of_def lstrip_of_def rstrip_of_def by (subst a) simp
    then show False using assms by simp
  qed
  have r: "strip_of p s = rev (dropWhile p (rev ?a))" by (simp add: strip_of_def lstrip_of_def rstrip_of_def)
  then have ne2: "dropWhile p (rev ?a) \<noteq> []" using assms by auto
  have "\<not> p (hd (dropWhile p (rev ?a)))" by (rule hd_dropWhile [OF ne2])
  moreover have "hd (rev (dropWhile p (rev ?a))) = hd ?a"
  proof -
    obtain pre where "rev ?a = pre @ dropWhile p (rev ?a)" by (metis takeWhile_dropWhile_id)
    then have "?a = rev (dropWhile p (rev ?a)) @ rev pre" by (metis rev_append rev_rev_ident)
    then show ?thesis using ne2 by (metis hd_append2 rev_is_Nil_conv)
  qed
  ultimately show ?thesis using hd_dropWhile [OF ne] by (simp add: r last_rev ne2)
qed

section \<open>Decimal notation and \<open>repr\<close>\<close>

definition digit_char :: "int \<Rightarrow> char" where
  "digit_char d = char_of (48 + d)"

function dec_str :: "int \<Rightarrow> string" where
  "dec_str n = (if n < 10 then [digit_char n] else dec_str (n div 10) @ [digit_char (n mod 10)])"
  by pat_completeness auto
termination by (relation "measure nat") (auto simp: nat_less_eq_zless)

declare dec_str.simps [simp del]

definition int_str :: "int \<Rightarrow> string" where
  "int_str i = (if i < 0 then ''-'' @ dec_str (- i) else dec_str i)"

lemma int_str_0 [simp]: "int_str 0 = ''0''"
  by code_simp

text \<open>\<open>str\<close> of a float in positional notation, with at most seventeen fractional digits (the
  exponent form of very large and very small floats is not modelled).\<close>

fun frac_digits :: "nat \<Rightarrow> int \<Rightarrow> int \<Rightarrow> string" where
  "frac_digits 0 num den = []"
| "frac_digits (Suc k) num den =
     (if num = 0 then []
      else digit_char (10 * num div den) # frac_digits k (10 * num mod den) den)"

definition float_str :: "rat \<Rightarrow> string" where
  "float_str r =
     (case quotient_of r of (p, q) \<Rightarrow>
       (let a = \<bar>p\<bar>; fd = frac_digits 17 (a mod q) q
        in (if p < 0 then ''-'' else '''') @ dec_str (a div q) @ ''.'' @
           (if fd = [] then ''0'' else fd)))"

definition hex_digit :: "int \<Rightarrow> char" where
  "hex_digit d = (if d < 10 then char_of (48 + d) else char_of (87 + d))"

text \<open>\<open>repr\<close> of a string: the quote character, the escaped characters.\<close>

definition repr_char :: "char \<Rightarrow> char \<Rightarrow> string" where
  "repr_char q c = (let n = ordc c in
     if c = q \<or> n = 92 then [CHR 0x5C, c]
     else if n = 9 then [CHR 0x5C, CHR ''t'']
     else if n = 10 then [CHR 0x5C, CHR ''n'']
     else if n = 13 then [CHR 0x5C, CHR ''r'']
     else if n < 32 \<or> (127 \<le> n \<and> n \<le> 160) \<or> n = 173
       then [CHR 0x5C, CHR ''x'', hex_digit (n div 16), hex_digit (n mod 16)]
     else [c])"

definition py_repr_str :: "string \<Rightarrow> string" where
  "py_repr_str s =
     (let q = (if CHR 0x27 \<in> set s \<and> CHR 0x22 \<notin> set s then CHR 0x22 else CHR 0x27)
      in q # concat (map (repr_char q) s) @ [q])"

text \<open>\<open>str(exc)\<close>: the message, except that \<open>KeyError\<close> shows the \<open>repr\<close> of its argument.\<close>

fun exc_str :: "exc \<Rightarrow> string" where
  "exc_str (KeyError m) = py_repr_str m"
| "exc_str (ValueError m) = m"
| "exc_str (RuntimeError m) = m"
| "exc_str (PermissionError m) = m"
| "exc_str (TypeError m) = m"
| "exc_str (NotImplementedError m) = m"
| "exc_str ZeroDivisionError = ''integer modulo by zero''"
| "exc_str (PolicyViolation m) = m"
| "exc_str (CircuitOpenError m) = m"
| "exc_str (RateLimitExceeded k p l r) = ''rate limit exceeded for '' @ p"
| "exc_str (ToolApprovalRequired m t a) = m"
| "exc_str (HTTPStatusError m c r) = m"
| "exc_str (TransportError m) = m"
| "exc_str (OtherError m) = m"

section \<open>Writing an association list\<close>

text \<open>\<open>d[k] = v\<close> on a dictionary in insertion order, with keys and values of any type.\<close>

fun put_assoc :: "'k \<Rightarrow> 'v \<Rightarrow> ('k \<times> 'v) list \<Rightarrow> ('k \<times> 'v) list" where
  "put_assoc k v [] = [(k, v)]"
| "put_assoc k v ((k', v') # xs) = (if k = k' then (k, v) # xs else (k', v') # put_assoc k v xs)"

lemma map_of_put_assoc [simp]: "map_of (put_assoc k v xs) k' = (if k' = k then Some v else map_of xs k')"
  by (induction k v xs rule: put_assoc.induct) auto

section \<open>UUID strings\<close>

text \<open>\<open>uuid.UUID(s)\<close>: the markers \<open>urn:\<close> and \<open>uuid:\<close>, surrounding braces and all hyphens are dropped, and
  thirty-two hexadecimal digits have to remain (the further spellings \<open>int(s, 16)\<close> accepts are not
  modelled). The value is kept in its canonical text form, which is what \<open>str\<close> of it gives.\<close>

definition is_hex :: "char \<Rightarrow> bool" where
  "is_hex c = (let n = ordc c in
     (48 \<le> n \<and> n \<le> 57) \<or> (65 \<le> n \<and> n \<le> 70) \<or> (97 \<le> n \<and> n \<le> 102))"

fun remove_all :: "string \<Rightarrow> string \<Rightarrow> string" where
  "remove_all p [] = []"
| "remove_all p (c # cs) =
     (if p \<noteq> [] \<and> prefix p (c # cs) then remove_all p (drop (length p) (c # cs))
      else c # remove_all p cs)"

definition uuid_text :: "string \<Rightarrow> string" where
  "uuid_text h = take 8 h @ ''-'' @ take 4 (drop 8 h) @ ''-'' @ take 4 (drop 12 h) @ ''-'' @
     take 4 (drop 16 h) @ ''-'' @ drop 20 h"

definition uuid_parse :: "string \<Rightarrow> string option" where
  "uuid_parse s =
     (let h = filter (\<lambda>c. c \<noteq> CHR ''-'')
                (strip_of (\<lambda>c. c = CHR 0x7B \<or> c = CHR 0x7D)
                  (remove_all ''uuid:'' (remove_all ''urn:'' s)))
      in if length h = 32 \<and> list_all is_hex h then Some (uuid_text (py_lower h)) else None)"

end
