(* ===== verification/Py_Values.thy ===== *)
theory Py_Values
  imports Prelude "HOL-Library.Multiset"
begin

text \<open>
  JSON-like Python values (\<open>Any\<close>, \<open>dict[str, Any]\<close>): the datatype, dictionary operations on
  insertion-ordered association lists, truthiness, \<open>str\<close>, \<open>repr\<close>, \<open>int(...)\<close> and \<open>json.dumps\<close>.
\<close>

section \<open>Values and dictionaries\<close>

datatype json =
    JNull
  | JBool bool
  | JInt int
  | JFloat rat
  | JStr string
  | JList "json list"
  | JObj "(string \<times> json) list"

type_synonym dict = "(string \<times> json) list"

text \<open>\<open>d.get(k)\<close> (\<open>JNull\<close> when absent), \<open>d[k] = v\<close>, \<open>d.setdefault(k, v)\<close>, \<open>{**d, **e}\<close>,
  \<open>k in d\<close>.\<close>

definition dget :: "string \<Rightarrow> dict \<Rightarrow> json" where
  "dget k d = (case map_of d k of None \<Rightarrow> JNull | Some v \<Rightarrow> v)"

fun dset :: "string \<Rightarrow> json \<Rightarrow> dict \<Rightarrow> dict" where
  "dset k v [] = [(k, v)]"
| "dset k v ((k', v') # d) = (if k = k' then (k, v) # d else (k', v') # dset k v d)"

definition dhas :: "string \<Rightarrow> dict \<Rightarrow> bool" where
  "dhas k d = (map_of d k \<noteq> None)"

definition dsetdefault :: "string \<Rightarrow> json \<Rightarrow> dict \<Rightarrow> dict" where
  "dsetdefault k v d = (if dhas k d then d else dset k v d)"

definition dmerge :: "dict \<Rightarrow> dict \<Rightarrow> dict" where
  "dmerge d e = fold (\<lambda>(k, v) acc. dset k v acc) e d"

definition is_dict :: "json \<Rightarrow> bool" where
  "is_dict v = (case v of JObj _ \<Rightarrow> True | _ \<Rightarrow> False)"

text \<open>\<open>x if isinstance(x, dict) else {}\<close> and \<open>x if isinstance(x, list) else []\<close>.\<close>

definition dict_or_empty :: "json \<Rightarrow> dict" where
  "dict_or_empty v = (case v of JObj d \<Rightarrow> d | _ \<Rightarrow> [])"

definition list_or_empty :: "json \<Rightarrow> json list" where
  "list_or_empty v = (case v of JList xs \<Rightarrow> xs | _ \<Rightarrow> [])"

text \<open>\<open>bool(x)\<close> and \<open>x or y\<close>.\<close>

fun truthy :: "json \<Rightarrow> bool" where
  "truthy JNull = False"
| "truthy (JBool b) = b"
| "truthy (JInt i) = (i \<noteq> 0)"
| "truthy (JFloat r) = (r \<noteq> 0)"
| "truthy (JStr s) = (s \<noteq> [])"
| "truthy (JList xs) = (xs \<noteq> [])"
| "truthy (JObj d) = (d \<noteq> [])"

definition py_or :: "json \<Rightarrow> json \<Rightarrow> json" where
  "py_or a b = (if truthy a then a else b)"

text \<open>\<open>a or b\<close> on strings.\<close>

definition str_or :: "string \<Rightarrow> string \<Rightarrow> string" where
  "str_or a b = (if a = [] then b else a)"

section \<open>\<open>str\<close>, \<open>repr\<close>, \<open>int\<close>\<close>

lemma size_dict_mem [termination_simp]:
  "(k, v) \<in> set d \<Longrightarrow> size v < Suc (size_list (size_prod (\<lambda>x. 0) size) d)"
  by (induction d) auto

fun py_repr :: "json \<Rightarrow> string" where
  "py_repr JNull = ''None''"
| "py_repr (JBool b) = (if b then ''True'' else ''False'')"
| "py_repr (JInt i) = int_str i"
| "py_repr (JFloat r) = float_str r"
| "py_repr (JStr s) = py_repr_str s"
| "py_repr (JList xs) = ''['' @ join '', '' (map py_repr xs) @ '']''"
| "py_repr (JObj d) =
     ''{'' @ join '', '' (map (\<lambda>(k, v). py_repr_str k @ '': '' @ py_repr v) d) @ ''}''"

definition py_str :: "json \<Rightarrow> string" where
  "py_str v = (case v of JStr s \<Rightarrow> s | _ \<Rightarrow> py_repr v)"

text \<open>\<open>str(d.get(k) or default)\<close>, the idiom the code reads string settings with.\<close>

definition dstr_or :: "string \<Rightarrow> string \<Rightarrow> dict \<Rightarrow> string" where
  "dstr_or k df d = (if truthy (dget k d) then py_str (dget k d) else df)"

definition dstr :: "string \<Rightarrow> dict \<Rightarrow> string" where
  "dstr k d = dstr_or k '''' d"

text \<open>\<open>int(s)\<close> on a string: optional white space and sign, then digits (a single underscore between
  digits is accepted too).\<close>

fun digits_val :: "int \<Rightarrow> bool \<Rightarrow> string \<Rightarrow> int option" where
  "digits_val acc ok [] = (if ok then Some acc else None)"
| "digits_val acc ok (c # cs) =
     (if is_digit c then digits_val (10 * acc + (ordc c - 48)) True cs
      else if c = CHR ''_'' \<and> ok then digits_val acc False cs
      else None)"

definition int_of_str :: "string \<Rightarrow> int option" where
  "int_of_str s = (case py_strip s of
     [] \<Rightarrow> None
   | c # cs \<Rightarrow>
       if c = CHR ''-'' then map_option uminus (digits_val 0 False cs)
       else if c = CHR ''+'' then (digits_val 0 False cs)
       else (digits_val 0 False (c # cs)))"

text \<open>\<open>int(x)\<close>: truncation of a float towards zero; \<open>None\<close>, lists and dictionaries raise
  \<open>TypeError\<close>, an unreadable string \<open>ValueError\<close>.\<close>

definition trunc_rat :: "rat \<Rightarrow> int" where
  "trunc_rat r = (if r < 0 then - \<lfloor>- r\<rfloor> else \<lfloor>r\<rfloor>)"

fun py_int :: "json \<Rightarrow> exc + int" where
  "py_int JNull = Inl (TypeError ''int() argument must be a string or a real number'')"
| "py_int (JBool b) = Inr (if b then 1 else 0)"
| "py_int (JInt i) = Inr i"
| "py_int (JFloat r) = Inr (trunc_rat r)"
| "py_int (JStr s) = (case int_of_str s of
     None \<Rightarrow> Inl (ValueError (''invalid literal for int() with base 10: '' @ py_repr_str s))
   | Some i \<Rightarrow> Inr i)"
| "py_int (JList xs) = Inl (TypeError ''int() argument must be a string or a real number'')"
| "py_int (JObj d) = Inl (TypeError ''int() argument must be a string or a real number'')"

text \<open>\<open>int(d.get(k) or default)\<close>.\<close>

definition dint_or :: "string \<Rightarrow> int \<Rightarrow> dict \<Rightarrow> exc + int" where
  "dint_or k df d = py_int (py_or (dget k d) (JInt df))"

section \<open>\<open>json.dumps\<close>\<close>

text \<open>\<open>json.dumps(v, ensure_ascii=False)\<close>; with \<open>sort_keys=True\<close> the items of every dictionary are
  sorted by key first.\<close>

definition json_char :: "char \<Rightarrow> string" where
  "json_char c = (let n = ordc c in
     if n = 34 \<or> n = 92 then [CHR 0x5C, c]
     else if n = 10 then [CHR 0x5C, CHR ''n'']
     else if n = 13 then [CHR 0x5C, CHR ''r'']
     else if n = 9 then [CHR 0x5C, CHR ''t'']
     else if n = 8 then [CHR 0x5C, CHR ''b'']
     else if n = 12 then [CHR 0x5C, CHR ''f'']
     else if n < 32 then CHR 0x5C # ''u00'' @ [hex_digit (n div 16), hex_digit (n mod 16)]
     else [c])"

definition json_string :: "string \<Rightarrow> string" where
  "json_string s = CHR 0x22 # concat (map json_char s) @ [CHR 0x22]"

fun json_dumps :: "json \<Rightarrow> string" where
  "json_dumps JNull = ''null''"
| "json_dumps (JBool b) = (if b then ''true'' else ''false'')"
| "json_dumps (JInt i) = int_str i"
| "json_dumps (JFloat r) = float_str r"
| "json_dumps (JStr s) = json_string s"
| "json_dumps (JList xs) = ''['' @ join '', '' (map json_dumps xs) @ '']''"
| "json_dumps (JObj d) =
     ''{'' @ join '', '' (map (\<lambda>(k, v). json_string k @ '': '' @ json_dumps v) d) @ ''}''"

fun sort_keys :: "json \<Rightarrow> json" where
  "sort_keys JNull = JNull"
| "sort_keys (JBool b) = JBool b"
| "sort_keys (JInt i) = JInt i"
| "sort_keys (JFloat r) = JFloat r"
| "sort_keys (JStr s) = JStr s"
| "sort_keys (JList xs) = JList (map sort_keys xs)"
| "sort_keys (JObj d) = JObj (sort_key fst (map (\<lambda>(k, v). (k, sort_keys v)) d))"

definition json_dumps_sorted :: "json \<Rightarrow> string" where
  "json_dumps_sorted v = json_dumps (sort_keys v)"

section \<open>Laws of the dictionary operations\<close>

lemma map_of_dset [simp]: "map_of (dset k v d) k' = (if k' = k then Some v else map_of d k')"
  by (induction k v d rule: dset.induct) auto

lemma dget_dset [simp]: "dget k' (dset k v d) = (if k' = k then v else dget k' d)"
  by (simp add: dget_def)

lemma dhas_dset [simp]: "dhas k' (dset k v d) = (k' = k \<or> dhas k' d)"
  by (simp add: dhas_def)

lemma fst_dset: "fst ` set (dset k v d) = insert k (fst ` set d)"
  by (induction k v d rule: dset.induct) auto

lemma distinct_dset: "distinct (map fst d) \<Longrightarrow> distinct (map fst (dset k v d))"
proof (induction k v d rule: dset.induct)
  case (2 k v k' v' d)
  then show ?case using fst_dset [of k v d] by (auto simp: image_iff)
qed simp

lemma dget_dsetdefault [simp]:
  "dget k' (dsetdefault k v d) = (if k' = k \<and> \<not> dhas k d then v else dget k' d)"
  by (simp add: dsetdefault_def)

lemma map_of_dmerge: "map_of (dmerge d e) k = (case map_of (rev e) k of None \<Rightarrow> map_of d k | Some v \<Rightarrow> Some v)"
proof (induction e arbitrary: d)
  case (Cons a e)
  obtain k' v where a: "a = (k', v)" by (cases a)
  show ?case using Cons.IH [of "dset k' v d"]
    by (auto simp: dmerge_def a map_add_def split: option.splits)
qed (simp add: dmerge_def)

text \<open>\<open>json.dumps(..., sort_keys=True)\<close> of a dictionary does not depend on the order in which its
  (distinct) keys were inserted.\<close>

lemma sort_key_perm:
  fixes xs ys :: "(string \<times> json) list"
  assumes "distinct (map fst xs)" and "distinct (map fst ys)" and "set xs = set ys"
  shows "sort_key fst xs = sort_key fst ys"
proof -
  have d: "distinct xs" "distinct ys" using assms(1,2) by (auto simp: distinct_map)
  have "mset xs = mset ys" using assms(3) d by (simp add: set_eq_iff_mset_eq_distinct)
  moreover have "inj_on fst (set xs)" using assms(1) by (simp add: distinct_map)
  ultimately show ?thesis
    by (intro sort_key_inj_key_eq) (simp_all add: sorted_sort_key)
qed

lemma json_dumps_sorted_cong:
  assumes "distinct (map fst d)" and "distinct (map fst e)" and "set d = set e"
  shows "json_dumps_sorted (JObj d) = json_dumps_sorted (JObj e)"
proof -
  let ?f = "\<lambda>(k, v). (k, sort_keys v)"
  have m: "map fst (map ?f xs) = map fst xs" for xs :: dict
    by (induction xs) auto
  have "sort_key fst (map ?f d) = sort_key fst (map ?f e)"
  proof (rule sort_key_perm)
    show "distinct (map fst (map ?f d))" using assms(1) by (simp only: m)
    show "distinct (map fst (map ?f e))" using assms(2) by (simp only: m)
    show "set (map ?f d) = set (map ?f e)" using assms(3) by simp
  qed
  then show ?thesis by (simp add: json_dumps_sorted_def)
qed

lemma truthy_py_or: "truthy (py_or a b) = (truthy a \<or> truthy b)"
  by (simp add: py_or_def)

text \<open>\<open>for x in v\<close>: lists, the characters of a string, the keys of a dictionary.\<close>

fun py_iter :: "json \<Rightarrow> exc + json list" where
  "py_iter (JList xs) = Inr xs"
| "py_iter (JObj d) = Inr (map (JStr \<circ> fst) d)"
| "py_iter (JStr s) = Inr (map (\<lambda>c. JStr [c]) s)"
| "py_iter _ = Inl (TypeError ''object is not iterable'')"

text \<open>An optional value as \<open>json\<close>, \<open>None\<close> as null.\<close>

definition opt_json :: "('a \<Rightarrow> json) \<Rightarrow> 'a option \<Rightarrow> json" where
  "opt_json f x = (case x of None \<Rightarrow> JNull | Some v \<Rightarrow> f v)"

end
