(* ===== verification/Tables.thy ===== *)
theory Tables
  imports Py_Values "HOL-Library.Option_ord" "HOL-Library.Product_Lexorder"
begin

text \<open>
  Database tables and state machines, as the component theories use them.

  A table is a list of rows in insertion order. An ORM object is a reference to its row, so the
  operations take and return row keys and write a row through \<open>upd_row\<close>. The interface a service
  relies on is the locale \<open>row_store\<close>: look a row up, modify it, insert one. The locale
  \<open>list_table\<close> (one list-valued field of the state, with its record update) provides it, and each
  table of the model is an interpretation of \<open>list_table\<close>. The locale \<open>machine\<close> lifts an invariant
  of one step to every reachable state.
\<close>

section \<open>Rows\<close>

definition get_row :: "('r \<Rightarrow> 'k) \<Rightarrow> 'k \<Rightarrow> 'r list \<Rightarrow> 'r option" where
  "get_row key k rs = find (\<lambda>r. key r = k) rs"

definition upd_row :: "('r \<Rightarrow> 'k) \<Rightarrow> 'k \<Rightarrow> ('r \<Rightarrow> 'r) \<Rightarrow> 'r list \<Rightarrow> 'r list" where
  "upd_row key k f rs = map (\<lambda>r. if key r = k then f r else r) rs"

text \<open>\<open>.limit(max(1, min(limit, hi)))\<close>.\<close>

definition clamp_limit :: "int \<Rightarrow> int \<Rightarrow> nat" where
  "clamp_limit hi n = nat (max 1 (min n hi))"

lemma clamp_limit_pos: "1 \<le> hi \<Longrightarrow> 1 \<le> clamp_limit hi n \<and> int (clamp_limit hi n) \<le> hi"
  by (auto simp: clamp_limit_def)

text \<open>\<open>where(c IS NULL or c <= now)\<close>.\<close>

definition due :: "rat option \<Rightarrow> rat \<Rightarrow> bool" where
  "due t now = (case t of None \<Rightarrow> True | Some u \<Rightarrow> u \<le> now)"

lemma get_row_key: "get_row key k rs = Some r \<Longrightarrow> key r = k"
  by (auto simp: get_row_def find_Some_iff)

lemma get_row_mem: "get_row key k rs = Some r \<Longrightarrow> r \<in> set rs"
  by (auto simp: get_row_def find_Some_iff)

lemma get_row_None [row_simps]: "get_row key k rs = None \<longleftrightarrow> k \<notin> key ` set rs"
  by (auto simp: get_row_def find_None_iff)

lemma get_row_Nil [simp]: "get_row key k [] = None"
  by (simp add: get_row_def)

lemma get_row_Cons [simp]:
  "get_row key k (r # rs) = (if key r = k then Some r else get_row key k rs)"
  by (simp add: get_row_def)

lemma get_row_append:
  "get_row key k (rs @ qs) = (case get_row key k rs of None \<Rightarrow> get_row key k qs | Some r \<Rightarrow> Some r)"
  by (induction rs) auto

lemma get_row_upd:
  assumes "\<And>r. key (f r) = key r"
  shows "get_row key k' (upd_row key k f rs)
       = (if k' = k then map_option f (get_row key k rs) else get_row key k' rs)"
  by (induction rs) (auto simp: upd_row_def assms)

lemma map_key_upd_row:
  assumes "\<And>r. g (f r) = g r"
  shows "map g (upd_row key k f rs) = map g rs"
  by (simp add: upd_row_def assms)

lemma length_upd_row [simp]: "length (upd_row key k f rs) = length rs"
  by (simp add: upd_row_def)

lemma set_upd_row:
  "r \<in> set (upd_row key k f rs) \<Longrightarrow>
     (r \<in> set rs \<and> key r \<noteq> k) \<or> (\<exists>q \<in> set rs. key q = k \<and> r = f q)"
  by (auto simp: upd_row_def split: if_splits)

lemma get_row_distinct:
  "distinct (map key rs) \<Longrightarrow> r \<in> set rs \<Longrightarrow> get_row key (key r) rs = Some r"
  by (induction rs) (auto simp: image_iff)

lemma upd_row_cong_distinct:
  "distinct (map key rs) \<Longrightarrow> get_row key k rs = Some r \<Longrightarrow> q \<in> set rs \<Longrightarrow> key q = k \<Longrightarrow> q = r"
  using get_row_distinct by fastforce

section \<open>The row-store interface\<close>

locale row_store =
  fixes key :: "'r \<Rightarrow> 'k"
    and look :: "'w \<Rightarrow> 'k \<Rightarrow> 'r option"
    and modify :: "'k \<Rightarrow> ('r \<Rightarrow> 'r) \<Rightarrow> 'w \<Rightarrow> 'w"
    and ins :: "'r \<Rightarrow> 'w \<Rightarrow> 'w"
  assumes look_key: "look w k = Some r \<Longrightarrow> key r = k"
    and look_modify: "(\<And>r. key (f r) = key r) \<Longrightarrow>
       look (modify k f w) k' = (if k' = k then map_option f (look w k) else look w k')"
    and look_ins: "look w (key r) = None \<Longrightarrow>
       look (ins r w) k = (if k = key r then Some r else look w k)"
begin

lemma look_modify_same:
  "(\<And>r. key (f r) = key r) \<Longrightarrow> look w k = Some r \<Longrightarrow> look (modify k f w) k = Some (f r)"
  by (simp add: look_modify)

lemma look_modify_other:
  "(\<And>r. key (f r) = key r) \<Longrightarrow> k' \<noteq> k \<Longrightarrow> look (modify k f w) k' = look w k'"
  by (simp add: look_modify)

lemma look_modify_twice:
  assumes "\<And>r. key (f r) = key r" and "\<And>r. key (g r) = key r"
  shows "look (modify k g (modify k f w)) k = map_option (g \<circ> f) (look w k)"
  by (simp add: look_modify assms option.map_comp)

lemma look_modify_exists:
  "(\<And>r. key (f r) = key r) \<Longrightarrow> (look (modify k f w) k' = None) = (look w k' = None)"
  by (auto simp: look_modify)

lemma look_ins_new: "look w (key r) = None \<Longrightarrow> look (ins r w) (key r) = Some r"
  by (simp add: look_ins)

lemma look_ins_keeps:
  "look w (key r) = None \<Longrightarrow> look w k = Some q \<Longrightarrow> look (ins r w) k = Some q"
  by (auto simp: look_ins)

end

text \<open>A list-valued field of the state with its update function provides the interface.\<close>

locale list_table =
  fixes key :: "'r \<Rightarrow> 'k"
    and tab :: "'w \<Rightarrow> 'r list"
    and tab_update :: "('r list \<Rightarrow> 'r list) \<Rightarrow> 'w \<Rightarrow> 'w"
  assumes tab_tab_update: "tab (tab_update g w) = g (tab w)"
begin

lemma get_after_upd:
  "(\<And>r. key (f r) = key r) \<Longrightarrow>
     get_row key k' (tab (tab_update (upd_row key k f) w))
       = (if k' = k then map_option f (get_row key k (tab w)) else get_row key k' (tab w))"
  by (simp add: tab_tab_update get_row_upd)

lemma get_after_ins:
  "get_row key (key r) (tab w) = None \<Longrightarrow>
     get_row key k (tab (tab_update (\<lambda>rs. rs @ [r]) w))
       = (if k = key r then Some r else get_row key k (tab w))"
  by (auto simp: tab_tab_update get_row_append split: option.splits)

lemma keys_after_upd:
  "(\<And>r. key (f r) = key r) \<Longrightarrow>
     map key (tab (tab_update (upd_row key k f) w)) = map key (tab w)"
  by (simp add: tab_tab_update map_key_upd_row)

lemma distinct_after_ins:
  "distinct (map key (tab w)) \<Longrightarrow> get_row key (key r) (tab w) = None \<Longrightarrow>
     distinct (map key (tab (tab_update (\<lambda>rs. rs @ [r]) w)))"
  by (auto simp: tab_tab_update get_row_None)

lemma row_after_upd:
  "r \<in> set (tab (tab_update (upd_row key k f) w)) \<Longrightarrow>
     (r \<in> set (tab w) \<and> key r \<noteq> k) \<or> (\<exists>q \<in> set (tab w). key q = k \<and> r = f q)"
  by (auto simp: tab_tab_update dest: set_upd_row)

end

sublocale list_table \<subseteq> row_store key "\<lambda>w k. get_row key k (tab w)"
  "\<lambda>k f. tab_update (upd_row key k f)" "\<lambda>r. tab_update (\<lambda>rs. rs @ [r])"
proof unfold_locales
  show "key r = k" if "get_row key k (tab w) = Some r" for w k r
    using that by (rule get_row_key)
next
  show "get_row key k' (tab (tab_update (upd_row key k f) w))
      = (if k' = k then map_option f (get_row key k (tab w)) else get_row key k' (tab w))"
    if "\<And>r. key (f r) = key r" for f k w k'
    using that by (rule get_after_upd)
next
  show "get_row key k (tab (tab_update (\<lambda>rs. rs @ [r]) w))
      = (if k = key r then Some r else get_row key k (tab w))"
    if "get_row key (key r) (tab w) = None" for w r k
    using that by (rule get_after_ins)
qed

section \<open>State machines\<close>

locale machine =
  fixes init :: "'s \<Rightarrow> bool"
    and step :: "'s \<Rightarrow> 's \<Rightarrow> bool"
    and inv :: "'s \<Rightarrow> bool"
  assumes init_inv: "init s \<Longrightarrow> inv s"
    and step_inv: "inv s \<Longrightarrow> step s t \<Longrightarrow> inv t"
begin

lemma steps_inv: "step\<^sup>*\<^sup>* s t \<Longrightarrow> inv s \<Longrightarrow> inv t"
  by (induction rule: rtranclp_induct) (auto intro: step_inv)

lemma reachable_inv: "init s \<Longrightarrow> step\<^sup>*\<^sup>* s t \<Longrightarrow> inv t"
  using init_inv steps_inv by blast

end

end
