(* ===== verification/Models.thy ===== *)
theory Models
  imports Tables
begin

text \<open>
  The tables of \<open>backend/infra/models.py\<close> that the modelled services read and write, one record per
  class with its columns, and the record \<open>world\<close> that holds them all. Primary keys are UUID strings.
  Column names carry a prefix, since record fields are global names. Left out are columns no
  modelled code reads (surrogate ids of the event rows, \<open>updated_at\<close>).

  \<open>emit\<close> and \<open>audit\<close> are the event bus of \<open>backend/infra/events.py\<close>. A service built without an
  event bus (\<open>events=None\<close>) passes \<open>False\<close> and writes nothing. Events are kept in the order of
  writing.
\<close>

type_synonym uuid = string
type_synonym instant = rat

section \<open>Event rows\<close>

record runtime_event =
  re_trace_id :: string
  re_request_id :: string
  re_event_type :: string
  re_severity :: string
  re_session_id :: string
  re_turn_id :: string
  re_payload :: dict

record audit_event =
  ae_trace_id :: string
  ae_request_id :: string
  ae_action :: string
  ae_target_type :: string
  ae_target_id :: string
  ae_payload :: dict

section \<open>Sessions\<close>

record session_message =
  sm_id :: uuid
  sm_session_id :: string
  sm_turn_id :: string
  sm_role :: string
  sm_content :: string
  sm_metadata :: dict
  sm_created_at :: instant

record session_summary =
  ss_id :: uuid
  ss_session_id :: string
  ss_summary :: string
  ss_count :: int
  ss_metadata :: dict

section \<open>Long-term memory\<close>

record memory =
  me_id :: uuid
  me_kind :: string
  me_content :: string
  me_source :: string
  me_status :: string
  me_pinned :: bool
  me_archived :: bool
  me_importance :: rat
  me_confidence :: rat
  me_stability :: rat
  me_supersedes_id :: "uuid option"
  me_superseded_by :: "uuid option"
  me_source_turn_id :: string
  me_source_file_marker :: string
  me_valid_to :: "instant option"
  me_provenance :: dict
  me_metadata :: dict
  me_last_verified_at :: "instant option"
  me_created_at :: instant
  me_updated_at :: instant

record memory_conflict =
  mc_left :: uuid
  mc_right :: uuid
  mc_status :: string
  mc_reason :: string
  mc_created_at :: instant

record memory_history =
  mh_id :: uuid
  mh_memory_id :: "uuid option"
  mh_action :: string
  mh_before :: dict
  mh_after :: dict
  mh_actor :: string
  mh_created_at :: instant

record fts_row =
  fts_memory_id :: string
  fts_kind :: string
  fts_content :: string
  fts_source :: string
  fts_metadata :: string

record memory_probe =
  mp_id :: uuid
  mp_question :: string
  mp_expected :: string
  mp_status :: string
  mp_last_result :: dict
  mp_created_at :: instant

section \<open>Skills\<close>

record skill =
  skl_key :: string
  skl_name :: string
  skl_description :: string
  skl_path :: string
  skl_status :: string
  skl_pinned :: bool
  skl_metadata :: dict

record skill_file =
  skf_key :: string
  skf_path :: string
  skf_checksum :: string
  skf_content :: string

record skill_history =
  skh_key :: string
  skh_action :: string
  skh_before :: dict
  skh_after :: dict
  skh_actor :: string
  skh_created_at :: instant

record skill_test =
  skt_key :: string
  skt_name :: string
  skt_spec :: dict
  skt_last_status :: string
  skt_last_result :: dict
  skt_last_run_at :: "instant option"

section \<open>Background jobs\<close>

record bg_job =
  job_id :: uuid
  job_trace_id :: string
  job_request_id :: string
  job_task_name :: string
  job_queue_id :: string
  job_status :: string
  job_idempotency_key :: string
  job_payload :: dict
  job_result :: dict
  job_error :: string
  job_triggered_by :: string
  job_cron_job_id :: "uuid option"
  job_attempt_count :: int
  job_max_attempts :: int
  job_next_retry_at :: "instant option"
  job_locked_at :: "instant option"
  job_lock_owner :: string
  job_dead_letter_reason :: string
  job_created_at :: instant
  job_started_at :: "instant option"
  job_finished_at :: "instant option"

record outbox_message =
  ob_id :: uuid
  ob_trace_id :: string
  ob_request_id :: string
  ob_topic :: string
  ob_aggregate_type :: string
  ob_aggregate_id :: string
  ob_idempotency_key :: string
  ob_status :: string
  ob_payload :: dict
  ob_attempt_count :: int
  ob_max_attempts :: int
  ob_next_attempt_at :: "instant option"
  ob_last_error :: string
  ob_created_at :: instant
  ob_dispatched_at :: "instant option"

record idempotency_record =
  ir_scope :: string
  ir_key :: string
  ir_request_hash :: string
  ir_status :: string
  ir_response :: dict

record cron_job =
  cj_id :: uuid
  cj_name :: string
  cj_cron_expr :: string
  cj_timezone :: string
  cj_instruction :: string
  cj_enabled :: bool
  cj_last_run_at :: "instant option"
  cj_next_run_at :: "instant option"
  cj_backoff_until :: "instant option"
  cj_last_status :: string
  cj_last_result :: dict
  cj_run_count :: int
  cj_failure_count :: int
  cj_last_enqueue_key :: string
  cj_metadata :: dict

section \<open>Tools and approvals\<close>

record tool_run =
  tr_id :: uuid
  tr_turn_id :: string
  tr_tool_name :: string
  tr_status :: string
  tr_arguments :: dict
  tr_result :: dict
  tr_started_at :: instant
  tr_finished_at :: "instant option"

record approval =
  ap_id :: uuid
  ap_status :: string
  ap_subject_type :: string
  ap_subject_id :: string
  ap_payload :: dict
  ap_turn_checkpoint :: dict
  ap_original_tool_call :: dict
  ap_allowed_decisions :: "string list"
  ap_edited_arguments :: dict
  ap_resume_state :: dict
  ap_created_at :: instant
  ap_resolved_at :: "instant option"

section \<open>MCP servers, gateways\<close>

record mcp_server =
  mcp_name :: string
  mcp_transport :: string
  mcp_command :: string
  mcp_url :: string
  mcp_config :: dict
  mcp_config_source :: string
  mcp_permission_policy :: dict
  mcp_session_mode :: string
  mcp_health_status :: string
  mcp_last_imported_checksum :: string
  mcp_enabled :: bool
  mcp_status :: string
  mcp_last_connected_at :: "instant option"
  mcp_last_error :: string
  mcp_tool_count :: int
  mcp_tools_cache :: "dict list"

record gateway_connection =
  gw_name :: string
  gw_kind :: string
  gw_status :: string
  gw_endpoint :: string
  gw_config :: dict
  gw_enabled :: bool
  gw_last_inbound_at :: "instant option"
  gw_last_outbound_at :: "instant option"
  gw_last_heartbeat_at :: "instant option"
  gw_instance_id :: string
  gw_version :: string
  gw_capabilities :: "string list"
  gw_last_error :: string
  gw_inbound_count :: int
  gw_outbound_count :: int
  gw_failure_count :: int

section \<open>A2A\<close>

record a2a_connection =
  ac_name :: string
  ac_kind :: string
  ac_endpoint :: string
  ac_rpc_url :: string
  ac_agent_card :: dict
  ac_config :: dict
  ac_enabled :: bool
  ac_status :: string
  ac_capabilities :: "string list"
  ac_skills :: "dict list"
  ac_last_discovered_at :: "instant option"
  ac_last_error :: string

record a2a_task =
  at_task_id :: string
  at_connection_name :: string
  at_capability :: string
  at_context_id :: string
  at_remote_task_id :: string
  at_remote_context_id :: string
  at_status :: string
  at_input_text :: string
  at_result :: dict
  at_error :: string
  at_metadata :: dict
  at_created_at :: instant
  at_started_at :: "instant option"
  at_finished_at :: "instant option"

record a2a_artifact =
  aa_task_id :: string
  aa_artifact_id :: string
  aa_name :: string
  aa_mime_type :: string
  aa_uri :: string
  aa_content :: string
  aa_parts :: "json list"
  aa_metadata :: dict
  aa_created_at :: instant

record a2a_event =
  av_task_id :: string
  av_event_type :: string
  av_sequence :: int
  av_payload :: dict

section \<open>Evolution proposals\<close>

record evolution_proposal =
  ep_id :: uuid
  ep_target_type :: string
  ep_action :: string
  ep_status :: string
  ep_risk_level :: string
  ep_payload :: dict
  ep_evidence :: dict
  ep_before_snapshot :: dict
  ep_after_snapshot :: dict
  ep_result :: dict
  ep_target_checksum :: string
  ep_stale_reason :: string
  ep_created_at :: instant
  ep_applied_at :: "instant option"

section \<open>The wiki\<close>

record wiki_source =
  wsrc_key :: string
  wsrc_kind :: string
  wsrc_uri :: string
  wsrc_checksum :: string
  wsrc_metadata :: dict

record wiki_page =
  wpg_key :: string
  wpg_title :: string
  wpg_type :: string
  wpg_path :: string
  wpg_summary :: string
  wpg_body :: string
  wpg_aliases :: "string list"
  wpg_tags :: "string list"
  wpg_confidence :: rat
  wpg_claims :: "dict list"
  wpg_source_refs :: "dict list"
  wpg_stale_after :: "instant option"
  wpg_checksum :: string
  wpg_metadata :: dict

record wiki_link =
  wl_src :: string
  wl_dst :: string
  wl_type :: string
  wl_status :: string
  wl_anchor :: string
  wl_metadata :: dict
  wl_created_at :: instant

record wiki_error =
  we_id :: uuid
  we_type :: string
  we_page_key :: string
  we_root_cause :: string
  we_constraint :: string
  we_constraint_rule :: string
  we_verification :: string
  we_source_refs :: "json list"
  we_lifecycle :: string
  we_status :: string
  we_payload :: dict
  we_created_at :: instant
  we_fixed_at :: "instant option"

record wiki_compile_run =
  wcr_status :: string
  wcr_pages_seen :: int
  wcr_pages_indexed :: int
  wcr_errors :: int
  wcr_payload :: dict
  wcr_started_at :: instant
  wcr_finished_at :: "instant option"

text \<open>A row of the full-text table \<open>wiki_pages_fts\<close>.\<close>

record wiki_fts_row =
  wfts_page_key :: string
  wfts_title :: string
  wfts_summary :: string
  wfts_body :: string
  wfts_aliases :: string
  wfts_tags :: string
  wfts_path :: string
  wfts_page_type :: string

section \<open>Users\<close>

record user =
  us_id :: uuid
  us_username :: string
  us_password_hash :: string
  us_role :: string
  us_is_active :: bool

section \<open>The state of the platform\<close>

text \<open>
  Besides the tables: the trace context of the running request (\<open>ContextVar\<close>s of
  \<open>backend/infra/trace.py\<close>), and the session's bookkeeping for outbox messages to dispatch after
  commit (\<open>db.info\<close>: the pending ids, in the order they were added, and the listener flag), and the
  text files of the workspace, skills and wiki directories (path below the directory and
  contents), which are not part of a database transaction. \<open>memories_fts\<close> and \<open>wiki_pages_fts\<close> are the full-text tables of
  SQLite, absent until they are first created.
\<close>

record world =
  runtime_events :: "runtime_event list"
  audit_events :: "audit_event list"
  session_messages :: "session_message list"
  session_summaries :: "session_summary list"
  background_jobs :: "bg_job list"
  outbox_messages :: "outbox_message list"
  idempotency_records :: "idempotency_record list"
  cron_jobs :: "cron_job list"
  tool_runs :: "tool_run list"
  approvals :: "approval list"
  mcp_servers :: "mcp_server list"
  gateway_connections :: "gateway_connection list"
  a2a_connections :: "a2a_connection list"
  a2a_tasks :: "a2a_task list"
  a2a_artifacts :: "a2a_artifact list"
  a2a_events :: "a2a_event list"
  evolution_proposals :: "evolution_proposal list"
  memories :: "memory list"
  memory_conflicts :: "memory_conflict list"
  memory_histories :: "memory_history list"
  memory_probes :: "memory_probe list"
  memories_fts :: "fts_row list option"
  skills :: "skill list"
  skill_files :: "skill_file list"
  skill_histories :: "skill_history list"
  skill_tests :: "skill_test list"
  wiki_sources :: "wiki_source list"
  wiki_pages :: "wiki_page list"
  wiki_links :: "wiki_link list"
  wiki_error_book :: "wiki_error list"
  wiki_compile_runs :: "wiki_compile_run list"
  wiki_pages_fts :: "wiki_fts_row list option"
  users :: "user list"
  workspace_fs :: "(string \<times> string) list"
  skills_fs :: "(string \<times> string) list"
  wiki_fs :: "(string \<times> string) list"
  trace_id :: string
  request_id :: string
  pending_outbox_ids :: "uuid list"
  outbox_listener :: bool

definition empty_world :: world where
  "empty_world = \<lparr>runtime_events = [], audit_events = [], session_messages = [],
     session_summaries = [], background_jobs = [], outbox_messages = [],
     idempotency_records = [], cron_jobs = [], tool_runs = [], approvals = [],
     mcp_servers = [], gateway_connections = [], a2a_connections = [], a2a_tasks = [],
     a2a_artifacts = [], a2a_events = [], evolution_proposals = [],
     memories = [], memory_conflicts = [], memory_histories = [], memory_probes = [], memories_fts = None,
     skills = [], skill_files = [], skill_histories = [], skill_tests = [],
     wiki_sources = [], wiki_pages = [], wiki_links = [], wiki_error_book = [], wiki_compile_runs = [], wiki_pages_fts = None, users = [],
     workspace_fs = [], skills_fs = [], wiki_fs = [],
     trace_id = '''', request_id = '''', pending_outbox_ids = [], outbox_listener = False\<rparr>"

section \<open>The event bus\<close>

definition emit_full :: "bool \<Rightarrow> string \<Rightarrow> dict \<Rightarrow> string \<Rightarrow> string \<Rightarrow> string \<Rightarrow> world \<Rightarrow> world" where
  "emit_full on event_type payload severity session_id turn_id w =
     (if on then w\<lparr>runtime_events := runtime_events w @
        [\<lparr>re_trace_id = trace_id w, re_request_id = request_id w, re_event_type = event_type,
          re_severity = severity, re_session_id = session_id, re_turn_id = turn_id,
          re_payload = payload\<rparr>]\<rparr>
      else w)"

text \<open>With the default severity, session and turn; and as a warning.\<close>

definition emit :: "bool \<Rightarrow> string \<Rightarrow> dict \<Rightarrow> world \<Rightarrow> world" where
  "emit on event_type payload w = emit_full on event_type payload ''info'' '''' '''' w"

definition emit_warning :: "bool \<Rightarrow> string \<Rightarrow> dict \<Rightarrow> world \<Rightarrow> world" where
  "emit_warning on event_type payload w = emit_full on event_type payload ''warning'' '''' '''' w"

definition audit :: "bool \<Rightarrow> string \<Rightarrow> string \<Rightarrow> string \<Rightarrow> dict \<Rightarrow> world \<Rightarrow> world" where
  "audit on action target_type target_id payload w =
     (if on then w\<lparr>audit_events := audit_events w @
        [\<lparr>ae_trace_id = trace_id w, ae_request_id = request_id w, ae_action = action,
          ae_target_type = target_type, ae_target_id = target_id, ae_payload = payload\<rparr>]\<rparr>
      else w)"

lemmas bus_defs = emit_def emit_warning_def emit_full_def audit_def

text \<open>Writing an event changes the event tables only: the frame facts every component uses.\<close>

definition same_state :: "world \<Rightarrow> world \<Rightarrow> bool" where
  "same_state w w' = (w'\<lparr>runtime_events := [], audit_events := []\<rparr>
                     = w\<lparr>runtime_events := [], audit_events := []\<rparr>)"

lemma same_state_refl [simp]: "same_state w w"
  by (simp add: same_state_def)

lemma same_state_trans: "same_state a b \<Longrightarrow> same_state b c \<Longrightarrow> same_state a c"
  by (simp add: same_state_def)

lemma same_state_emit [simp]:
  "same_state w (emit on t p w)" "same_state w (emit_warning on t p w)"
  "same_state w (emit_full on t p sv se tu w)" "same_state w (audit on a tt ti p w)"
  by (simp_all add: bus_defs same_state_def)

lemma bus_frame [simp]:
  "background_jobs (emit_full on t p sv se tu w) = background_jobs w"
  "outbox_messages (emit_full on t p sv se tu w) = outbox_messages w"
  "idempotency_records (emit_full on t p sv se tu w) = idempotency_records w"
  "cron_jobs (emit_full on t p sv se tu w) = cron_jobs w"
  "tool_runs (emit_full on t p sv se tu w) = tool_runs w"
  "approvals (emit_full on t p sv se tu w) = approvals w"
  "mcp_servers (emit_full on t p sv se tu w) = mcp_servers w"
  "gateway_connections (emit_full on t p sv se tu w) = gateway_connections w"
  "a2a_connections (emit_full on t p sv se tu w) = a2a_connections w"
  "a2a_tasks (emit_full on t p sv se tu w) = a2a_tasks w"
  "a2a_artifacts (emit_full on t p sv se tu w) = a2a_artifacts w"
  "a2a_events (emit_full on t p sv se tu w) = a2a_events w"
  "evolution_proposals (emit_full on t p sv se tu w) = evolution_proposals w"
  "session_messages (emit_full on t p sv se tu w) = session_messages w"
  "session_summaries (emit_full on t p sv se tu w) = session_summaries w"
  "trace_id (emit_full on t p sv se tu w) = trace_id w"
  "request_id (emit_full on t p sv se tu w) = request_id w"
  "pending_outbox_ids (emit_full on t p sv se tu w) = pending_outbox_ids w"
  "outbox_listener (emit_full on t p sv se tu w) = outbox_listener w"
  "audit_events (emit_full on t p sv se tu w) = audit_events w"
  "memories (emit_full on t p sv se tu w) = memories w"
  "memory_conflicts (emit_full on t p sv se tu w) = memory_conflicts w"
  "memory_histories (emit_full on t p sv se tu w) = memory_histories w"
  "memory_probes (emit_full on t p sv se tu w) = memory_probes w"
  "memories_fts (emit_full on t p sv se tu w) = memories_fts w"
  "skills (emit_full on t p sv se tu w) = skills w"
  "skill_files (emit_full on t p sv se tu w) = skill_files w"
  "skill_histories (emit_full on t p sv se tu w) = skill_histories w"
  "skill_tests (emit_full on t p sv se tu w) = skill_tests w"
  "workspace_fs (emit_full on t p sv se tu w) = workspace_fs w"
  "skills_fs (emit_full on t p sv se tu w) = skills_fs w"
  "wiki_sources (emit_full on t p sv se tu w) = wiki_sources w"
  "wiki_pages (emit_full on t p sv se tu w) = wiki_pages w"
  "wiki_links (emit_full on t p sv se tu w) = wiki_links w"
  "wiki_error_book (emit_full on t p sv se tu w) = wiki_error_book w"
  "wiki_compile_runs (emit_full on t p sv se tu w) = wiki_compile_runs w"
  "wiki_pages_fts (emit_full on t p sv se tu w) = wiki_pages_fts w"
  "users (emit_full on t p sv se tu w) = users w"
  "wiki_fs (emit_full on t p sv se tu w) = wiki_fs w"
  by (simp_all add: emit_full_def)

lemma audit_frame [simp]:
  "background_jobs (audit on a tt ti p w) = background_jobs w"
  "outbox_messages (audit on a tt ti p w) = outbox_messages w"
  "idempotency_records (audit on a tt ti p w) = idempotency_records w"
  "cron_jobs (audit on a tt ti p w) = cron_jobs w"
  "tool_runs (audit on a tt ti p w) = tool_runs w"
  "approvals (audit on a tt ti p w) = approvals w"
  "mcp_servers (audit on a tt ti p w) = mcp_servers w"
  "gateway_connections (audit on a tt ti p w) = gateway_connections w"
  "a2a_connections (audit on a tt ti p w) = a2a_connections w"
  "a2a_tasks (audit on a tt ti p w) = a2a_tasks w"
  "a2a_artifacts (audit on a tt ti p w) = a2a_artifacts w"
  "a2a_events (audit on a tt ti p w) = a2a_events w"
  "evolution_proposals (audit on a tt ti p w) = evolution_proposals w"
  "session_messages (audit on a tt ti p w) = session_messages w"
  "session_summaries (audit on a tt ti p w) = session_summaries w"
  "trace_id (audit on a tt ti p w) = trace_id w"
  "request_id (audit on a tt ti p w) = request_id w"
  "pending_outbox_ids (audit on a tt ti p w) = pending_outbox_ids w"
  "outbox_listener (audit on a tt ti p w) = outbox_listener w"
  "runtime_events (audit on a tt ti p w) = runtime_events w"
  "memories (audit on a tt ti p w) = memories w"
  "memory_conflicts (audit on a tt ti p w) = memory_conflicts w"
  "memory_histories (audit on a tt ti p w) = memory_histories w"
  "memory_probes (audit on a tt ti p w) = memory_probes w"
  "memories_fts (audit on a tt ti p w) = memories_fts w"
  "skills (audit on a tt ti p w) = skills w"
  "skill_files (audit on a tt ti p w) = skill_files w"
  "skill_histories (audit on a tt ti p w) = skill_histories w"
  "skill_tests (audit on a tt ti p w) = skill_tests w"
  "workspace_fs (audit on a tt ti p w) = workspace_fs w"
  "skills_fs (audit on a tt ti p w) = skills_fs w"
  "wiki_sources (audit on a tt ti p w) = wiki_sources w"
  "wiki_pages (audit on a tt ti p w) = wiki_pages w"
  "wiki_links (audit on a tt ti p w) = wiki_links w"
  "wiki_error_book (audit on a tt ti p w) = wiki_error_book w"
  "wiki_compile_runs (audit on a tt ti p w) = wiki_compile_runs w"
  "wiki_pages_fts (audit on a tt ti p w) = wiki_pages_fts w"
  "users (audit on a tt ti p w) = users w"
  "wiki_fs (audit on a tt ti p w) = wiki_fs w"
  by (simp_all add: audit_def)

lemmas short_emits [simp] = emit_def emit_warning_def

section \<open>Sessions: commit and rollback\<close>

text \<open>
  \<open>with session_scope() as db\<close> of \<open>backend/infra/db.py\<close>: the body's writes are kept when it returns
  and undone when it raises. Events written through the bound session (\<open>bind_session\<close>) share the
  transaction; unbound events are committed by sessions of their own and survive.
\<close>

definition rollback :: "bool \<Rightarrow> world \<Rightarrow> world \<Rightarrow> world" where
  "rollback bound before after =
     (let kept = before\<lparr>workspace_fs := workspace_fs after, skills_fs := skills_fs after, wiki_fs := wiki_fs after\<rparr>
      in if bound then kept
         else kept\<lparr>runtime_events := runtime_events after, audit_events := audit_events after\<rparr>)"

definition session_scope :: "bool \<Rightarrow> (world \<Rightarrow> (exc + 'a) \<times> world) \<Rightarrow> world \<Rightarrow> (exc + 'a) \<times> world" where
  "session_scope bound body w =
     (case body w of
        (Inr x, w') \<Rightarrow> (Inr x, w')
      | (Inl e, w') \<Rightarrow> (Inl e, rollback bound w w'))"

section \<open>The tables as row stores\<close>

interpretation jobs_tab: list_table job_id background_jobs background_jobs_update
  by unfold_locales simp

interpretation outbox_tab: list_table ob_id outbox_messages outbox_messages_update
  by unfold_locales simp

interpretation cron_tab: list_table cj_id cron_jobs cron_jobs_update
  by unfold_locales simp

interpretation runs_tab: list_table tr_id tool_runs tool_runs_update
  by unfold_locales simp

interpretation approvals_tab: list_table ap_id approvals approvals_update
  by unfold_locales simp

interpretation memories_tab: list_table me_id memories memories_update
  by unfold_locales simp

interpretation memory_history_tab: list_table mh_id memory_histories memory_histories_update
  by unfold_locales simp

interpretation skills_tab: list_table skl_key skills skills_update
  by unfold_locales simp

interpretation gateways_tab: list_table gw_name gateway_connections gateway_connections_update
  by unfold_locales simp

interpretation mcp_tab: list_table mcp_name mcp_servers mcp_servers_update
  by unfold_locales simp

interpretation a2a_conn_tab: list_table ac_name a2a_connections a2a_connections_update
  by unfold_locales simp

interpretation a2a_tasks_tab: list_table at_task_id a2a_tasks a2a_tasks_update
  by unfold_locales simp

interpretation wiki_errors_tab: list_table we_id wiki_error_book wiki_error_book_update
  by unfold_locales simp

interpretation users_tab: list_table us_id users users_update
  by unfold_locales simp_all

interpretation wiki_pages_tab: list_table wpg_key wiki_pages wiki_pages_update
  by unfold_locales simp

interpretation proposals_tab: list_table ep_id evolution_proposals evolution_proposals_update
  by unfold_locales simp

end
