(* ===== verification/Jobs.thy ===== *)
theory Jobs
  imports Models
begin

text \<open>
  Background jobs: \<open>backend/domain/jobs.py\<close> (\<open>BackgroundJobService\<close>, \<open>enqueue_background_job\<close>,
  \<open>replay_outbox\<close>) and \<open>dispatch_task\<close> of \<open>backend/worker/tasks.py\<close>.

  Fresh identifiers (\<open>uuid.uuid4()\<close>, primary keys) and clock readings (\<open>datetime.now(UTC)\<close>) are
  arguments. \<open>ev\<close> says whether the service has an event bus. Two functions are parameters:
  \<open>sha\<close>, the hexadecimal SHA-256 digest, and \<open>broker\<close>, what Celery does with a task that is handed
  to it (\<open>apply_async\<close>, or \<open>delay\<close> when the queue id is empty).
\<close>

section \<open>Statuses and helpers\<close>

definition TERMINAL_JOB_STATUSES :: "string list" where
  "TERMINAL_JOB_STATUSES = [''succeeded'', ''failed'', ''dead_letter'', ''cancelled'']"

definition RETRYABLE_JOB_STATUSES :: "string list" where
  "RETRYABLE_JOB_STATUSES = [''queued'', ''retrying'']"

definition retry_delay_seconds :: "int \<Rightarrow> int" where
  "retry_delay_seconds attempt_count =
     (let attempt = max 1 attempt_count in min 300 (2 ^ nat (min attempt 8)))"

definition stable_hash :: "(string \<Rightarrow> string) \<Rightarrow> dict \<Rightarrow> string" where
  "stable_hash sha payload = sha (json_dumps_sorted (JObj payload))"

definition opt_str :: "uuid option \<Rightarrow> string" where
  "opt_str x = (case x of None \<Rightarrow> '''' | Some i \<Rightarrow> i)"

text \<open>The dictionary that is hashed: the default idempotency key and the request of
  \<open>idempotency_status\<close> use the same one.\<close>

definition request_dict :: "string \<Rightarrow> dict \<Rightarrow> string \<Rightarrow> uuid option \<Rightarrow> dict" where
  "request_dict task_name payload triggered_by cron_job_id =
     [(''task_name'', JStr task_name), (''payload'', JObj payload),
      (''triggered_by'', JStr triggered_by), (''cron_job_id'', JStr (opt_str cron_job_id))]"

definition default_idempotency_key :: "(string \<Rightarrow> string) \<Rightarrow> string \<Rightarrow> dict \<Rightarrow> string \<Rightarrow> uuid option \<Rightarrow> string" where
  "default_idempotency_key sha task_name payload triggered_by cron_job_id =
     ''job:'' @ task_name @ '':'' @
     stable_hash sha (request_dict task_name payload triggered_by cron_job_id)"

definition job_to_response :: "bg_job \<Rightarrow> dict" where
  "job_to_response j =
     [(''job_id'', JStr (job_id j)), (''task_name'', JStr (job_task_name j)),
      (''queue_id'', JStr (job_queue_id j)), (''status'', JStr (job_status j)),
      (''trace_id'', JStr (job_trace_id j)), (''request_id'', JStr (job_request_id j)),
      (''result'', JObj (job_result j)), (''error'', JStr (job_error j))]"

section \<open>Job rows\<close>

definition get_job :: "world \<Rightarrow> uuid \<Rightarrow> bg_job option" where
  "get_job w i = get_row job_id i (background_jobs w)"

definition upd_job :: "uuid \<Rightarrow> (bg_job \<Rightarrow> bg_job) \<Rightarrow> world \<Rightarrow> world" where
  "upd_job i f w = background_jobs_update (upd_row job_id i f) w"

text \<open>\<open>_get\<close> raises \<open>KeyError\<close> when there is no row.\<close>

definition with_job :: "uuid \<Rightarrow> (bg_job \<Rightarrow> world \<Rightarrow> world) \<Rightarrow> world \<Rightarrow> (exc + uuid) \<times> world" where
  "with_job i f w =
     (case get_job w i of
        None \<Rightarrow> (Inl (KeyError (''background job not found: '' @ i)), w)
      | Some j \<Rightarrow> (Inr i, f j w))"

section \<open>Idempotency records\<close>

definition find_idem :: "string \<Rightarrow> string \<Rightarrow> world \<Rightarrow> idempotency_record option" where
  "find_idem scope key w = find (\<lambda>r. ir_scope r = scope \<and> ir_key r = key) (idempotency_records w)"

definition complete_idempotency :: "string \<Rightarrow> string \<Rightarrow> dict \<Rightarrow> string \<Rightarrow> world \<Rightarrow> world" where
  "complete_idempotency scope key response status w =
     (if key = [] then w
      else case find_idem scope key w of
        None \<Rightarrow> w\<lparr>idempotency_records := idempotency_records w @
          [\<lparr>ir_scope = scope, ir_key = key, ir_request_hash = '''', ir_status = status,
            ir_response = response\<rparr>]\<rparr>
      | Some _ \<Rightarrow> w\<lparr>idempotency_records := map (\<lambda>r.
          if ir_scope r = scope \<and> ir_key r = key
          then r\<lparr>ir_status := status, ir_response := response\<rparr> else r) (idempotency_records w)\<rparr>)"

record idem_outcome =
  io_replayed :: bool
  io_conflict :: bool

definition idempotency_status ::
  "(string \<Rightarrow> string) \<Rightarrow> string \<Rightarrow> string \<Rightarrow> dict \<Rightarrow> world \<Rightarrow> idem_outcome \<times> world" where
  "idempotency_status sha scope key request_payload w =
     (if key = [] then (\<lparr>io_replayed = False, io_conflict = False\<rparr>, w)
      else let request_hash = stable_hash sha request_payload
      in case find_idem scope key w of
        None \<Rightarrow> (\<lparr>io_replayed = False, io_conflict = False\<rparr>,
          w\<lparr>idempotency_records := idempotency_records w @
            [\<lparr>ir_scope = scope, ir_key = key, ir_request_hash = request_hash,
              ir_status = ''processing'', ir_response = []\<rparr>]\<rparr>)
      | Some r \<Rightarrow>
          if ir_request_hash r \<noteq> [] \<and> request_hash \<noteq> [] \<and> ir_request_hash r \<noteq> request_hash
          then (\<lparr>io_replayed = False, io_conflict = True\<rparr>, w)
          else (\<lparr>io_replayed = ir_status r \<in> {''succeeded'', ''failed''}, io_conflict = False\<rparr>, w))"

section \<open>The job service\<close>

definition find_job_by_key :: "string \<Rightarrow> world \<Rightarrow> bg_job option" where
  "find_job_by_key key w = find (\<lambda>j. job_idempotency_key j = key) (background_jobs w)"

definition new_job ::
  "uuid \<Rightarrow> instant \<Rightarrow> string \<Rightarrow> dict \<Rightarrow> string \<Rightarrow> uuid option \<Rightarrow> string \<Rightarrow> int \<Rightarrow> world \<Rightarrow> bg_job" where
  "new_job i now task_name payload triggered_by cron_job_id key max_attempts w =
     \<lparr>job_id = i, job_trace_id = trace_id w, job_request_id = request_id w,
      job_task_name = task_name, job_queue_id = '''', job_status = ''queued'',
      job_idempotency_key = key, job_payload = payload, job_result = [], job_error = '''',
      job_triggered_by = triggered_by, job_cron_job_id = cron_job_id, job_attempt_count = 0,
      job_max_attempts = max 1 (if max_attempts = 0 then 3 else max_attempts),
      job_next_retry_at = None, job_locked_at = None, job_lock_owner = '''',
      job_dead_letter_reason = '''', job_created_at = now, job_started_at = None,
      job_finished_at = None\<rparr>"

definition create_job ::
  "bool \<Rightarrow> uuid \<Rightarrow> instant \<Rightarrow> string \<Rightarrow> dict \<Rightarrow> string \<Rightarrow> uuid option \<Rightarrow> string \<Rightarrow> int \<Rightarrow> world \<Rightarrow>
   uuid \<times> world" where
  "create_job ev i now task_name payload triggered_by cron_job_id key max_attempts w =
     (case (if key = [] then None else find_job_by_key key w) of
        Some existing \<Rightarrow>
          (job_id existing,
           emit ev ''job.idempotent_replay''
             [(''job_id'', JStr (job_id existing)), (''task_name'', JStr (job_task_name existing)),
              (''idempotency_key'', JStr key)] w)
      | None \<Rightarrow>
          (i, audit ev ''job.create'' ''background_job'' i
                [(''task_name'', JStr task_name), (''triggered_by'', JStr triggered_by),
                 (''idempotency_key'', JStr key)]
             (emit ev ''job.created''
                [(''job_id'', JStr i), (''task_name'', JStr task_name),
                 (''triggered_by'', JStr triggered_by)]
               (background_jobs_update (\<lambda>js. js @
                  [new_job i now task_name payload triggered_by cron_job_id key max_attempts w]) w))))"

definition mark_enqueued :: "bool \<Rightarrow> uuid \<Rightarrow> string \<Rightarrow> world \<Rightarrow> (exc + uuid) \<times> world" where
  "mark_enqueued ev i queue_id = with_job i (\<lambda>j w.
     emit ev ''job.enqueued'' [(''job_id'', JStr i), (''queue_id'', JStr queue_id)]
       (upd_job i (\<lambda>j. j\<lparr>job_queue_id := queue_id, job_status := ''queued''\<rparr>) w))"

definition mark_started ::
  "bool \<Rightarrow> uuid \<Rightarrow> string \<Rightarrow> instant \<Rightarrow> instant \<Rightarrow> world \<Rightarrow> (exc + uuid) \<times> world" where
  "mark_started ev i lock_owner started locked = with_job i (\<lambda>j w.
     if job_status j \<in> set TERMINAL_JOB_STATUSES then w
     else emit ev ''job.started''
       [(''job_id'', JStr i), (''task_name'', JStr (job_task_name j)),
        (''attempt'', JInt (job_attempt_count j + 1))]
       (upd_job i (\<lambda>j. j\<lparr>job_status := ''running'', job_attempt_count := job_attempt_count j + 1,
          job_started_at := Some started, job_finished_at := None, job_error := '''',
          job_locked_at := Some locked, job_lock_owner := lock_owner\<rparr>) w))"

definition mark_succeeded ::
  "bool \<Rightarrow> uuid \<Rightarrow> dict \<Rightarrow> instant \<Rightarrow> world \<Rightarrow> (exc + uuid) \<times> world" where
  "mark_succeeded ev i result now = with_job i (\<lambda>j w.
     let f = (\<lambda>j. j\<lparr>job_status := ''succeeded'', job_result := result,
                job_finished_at := Some now, job_next_retry_at := None,
                job_dead_letter_reason := '''', job_locked_at := None, job_lock_owner := ''''\<rparr>)
     in emit ev ''job.succeeded''
          [(''job_id'', JStr i), (''task_name'', JStr (job_task_name j))]
          (complete_idempotency ''background_job'' (job_idempotency_key j)
             (job_to_response (f j)) ''succeeded'' (upd_job i f w)))"

definition mark_failed :: "bool \<Rightarrow> uuid \<Rightarrow> string \<Rightarrow> instant \<Rightarrow> world \<Rightarrow> (exc + uuid) \<times> world" where
  "mark_failed ev i error now = with_job i (\<lambda>j w.
     emit_warning ev ''job.failed''
       [(''job_id'', JStr i), (''task_name'', JStr (job_task_name j)), (''error'', JStr error)]
       (upd_job i (\<lambda>j. j\<lparr>job_status := ''failed'', job_error := error,
          job_finished_at := Some now, job_locked_at := None, job_lock_owner := ''''\<rparr>) w))"

definition mark_retrying ::
  "bool \<Rightarrow> uuid \<Rightarrow> string \<Rightarrow> int option \<Rightarrow> instant \<Rightarrow> world \<Rightarrow> (exc + uuid) \<times> world" where
  "mark_retrying ev i error delay_seconds now = with_job i (\<lambda>j w.
     let delay = (case delay_seconds of
                    Some d \<Rightarrow> d | None \<Rightarrow> retry_delay_seconds (job_attempt_count j))
     in emit_warning ev ''job.retry_scheduled''
          [(''job_id'', JStr i), (''task_name'', JStr (job_task_name j)),
           (''attempt'', JInt (job_attempt_count j)), (''delay_seconds'', JInt delay)]
          (upd_job i (\<lambda>j. j\<lparr>job_status := ''retrying'', job_error := error,
             job_next_retry_at := Some (now + of_int delay),
             job_locked_at := None, job_lock_owner := ''''\<rparr>) w))"

definition mark_dead_letter :: "bool \<Rightarrow> uuid \<Rightarrow> string \<Rightarrow> instant \<Rightarrow> world \<Rightarrow> (exc + uuid) \<times> world" where
  "mark_dead_letter ev i error now = with_job i (\<lambda>j w.
     let f = (\<lambda>j. j\<lparr>job_status := ''dead_letter'', job_error := error,
                job_dead_letter_reason := error, job_finished_at := Some now,
                job_next_retry_at := None, job_locked_at := None, job_lock_owner := ''''\<rparr>)
     in emit_full ev ''job.dead_letter''
          [(''job_id'', JStr i), (''task_name'', JStr (job_task_name j)), (''error'', JStr error)]
          ''error'' '''' ''''
          (complete_idempotency ''background_job'' (job_idempotency_key j)
             (job_to_response (f j)) ''failed'' (upd_job i f w)))"

definition should_run :: "bg_job \<Rightarrow> instant \<Rightarrow> bool" where
  "should_run j now =
     (if job_status j \<in> set TERMINAL_JOB_STATUSES \<or> job_status j = ''running'' then False
      else case job_next_retry_at j of None \<Rightarrow> True | Some t \<Rightarrow> \<not> now < t)"

text \<open>\<open>cancel\<close> revokes the queued Celery task (no effect on the state) and closes the job.\<close>

definition cancel_job :: "bool \<Rightarrow> uuid \<Rightarrow> instant \<Rightarrow> world \<Rightarrow> (exc + uuid) \<times> world" where
  "cancel_job ev i now w =
     (case get_job w i of
        None \<Rightarrow> (Inl (KeyError (''background job not found: '' @ i)), w)
      | Some j \<Rightarrow>
          if job_status j \<notin> {''queued'', ''retrying'', ''running''}
          then (Inl (ValueError (''job is not cancellable: '' @ job_status j)), w)
          else (Inr i,
            audit ev ''job.cancel'' ''background_job'' i []
              (emit ev ''job.cancelled''
                [(''job_id'', JStr i), (''task_name'', JStr (job_task_name j))]
                (upd_job i (\<lambda>j. j\<lparr>job_status := ''cancelled'', job_finished_at := Some now,
                   job_locked_at := None, job_lock_owner := ''''\<rparr>) w))))"

definition list_jobs :: "string \<Rightarrow> int \<Rightarrow> world \<Rightarrow> bg_job list" where
  "list_jobs status limit w =
     take (clamp_limit 500 limit)
       (sort_key (\<lambda>j. - job_created_at j)
         (filter (\<lambda>j. status = [] \<or> job_status j = status) (background_jobs w)))"

definition ready_for_retry :: "instant \<Rightarrow> int \<Rightarrow> world \<Rightarrow> bg_job list" where
  "ready_for_retry now limit w =
     take (clamp_limit 500 limit)
       (sort_key (\<lambda>j. (job_next_retry_at j, job_created_at j))
         (filter (\<lambda>j. job_status j = ''retrying'' \<and> due (job_next_retry_at j) now)
           (background_jobs w)))"

section \<open>The outbox\<close>

definition get_ob :: "world \<Rightarrow> uuid \<Rightarrow> outbox_message option" where
  "get_ob w i = get_row ob_id i (outbox_messages w)"

definition upd_ob :: "uuid \<Rightarrow> (outbox_message \<Rightarrow> outbox_message) \<Rightarrow> world \<Rightarrow> world" where
  "upd_ob i f w = outbox_messages_update (upd_row ob_id i f) w"

definition find_ob_by_key :: "string \<Rightarrow> world \<Rightarrow> outbox_message option" where
  "find_ob_by_key key w = find (\<lambda>m. ob_idempotency_key m = key) (outbox_messages w)"

definition new_outbox :: "uuid \<Rightarrow> instant \<Rightarrow> bg_job \<Rightarrow> string \<Rightarrow> string \<Rightarrow> outbox_message" where
  "new_outbox oid now j queue_id key =
     \<lparr>ob_id = oid, ob_trace_id = job_trace_id j, ob_request_id = job_request_id j,
      ob_topic = ''celery.dispatch'', ob_aggregate_type = ''background_job'',
      ob_aggregate_id = job_id j, ob_idempotency_key = key, ob_status = ''pending'',
      ob_payload =
        [(''task_name'', JStr (job_task_name j)), (''job_id'', JStr (job_id j)),
         (''payload'', JObj (job_payload j)), (''queue_id'', JStr queue_id),
         (''trace_id'', JStr (job_trace_id j)), (''request_id'', JStr (job_request_id j))],
      ob_attempt_count = 0, ob_max_attempts = 5, ob_next_attempt_at = None,
      ob_last_error = '''', ob_created_at = now, ob_dispatched_at = None\<rparr>"

definition create_outbox ::
  "bool \<Rightarrow> uuid \<Rightarrow> instant \<Rightarrow> bg_job \<Rightarrow> string \<Rightarrow> string \<Rightarrow> world \<Rightarrow> uuid \<times> world" where
  "create_outbox ev oid now j queue_id key w =
     (case find_ob_by_key key w of
        Some existing \<Rightarrow> (ob_id existing, w)
      | None \<Rightarrow>
          (oid,
           emit ev ''outbox.created''
             [(''outbox_id'', JStr oid), (''job_id'', JStr (job_id j)),
              (''topic'', JStr ''celery.dispatch'')]
             (outbox_messages_update (\<lambda>ms. ms @ [new_outbox oid now j queue_id key]) w)))"

text \<open>\<open>_dispatch_outbox_after_commit\<close> for a SQLAlchemy session: remember the message, register the
  listener once.\<close>

definition dispatch_outbox_after_commit :: "uuid \<Rightarrow> world \<Rightarrow> world" where
  "dispatch_outbox_after_commit oid w =
     w\<lparr>pending_outbox_ids := List.insert oid (pending_outbox_ids w), outbox_listener := True\<rparr>"

definition schedule_dispatch ::
  "bool \<Rightarrow> string \<Rightarrow> uuid \<Rightarrow> instant \<Rightarrow> uuid \<Rightarrow> string \<Rightarrow> world \<Rightarrow> (exc + uuid) \<times> world" where
  "schedule_dispatch ev queue_id oid now i reason w =
     (case mark_enqueued ev i queue_id w of
        (Inl e, w1) \<Rightarrow> (Inl e, w1)
      | (Inr _, w1) \<Rightarrow>
          (case get_job w1 i of
             None \<Rightarrow> (Inl (KeyError (''background job not found: '' @ i)), w1)
           | Some j \<Rightarrow>
               let key_base = str_or (job_idempotency_key j) (''job:'' @ i);
                   key = ''dispatch:'' @ key_base @ '':'' @ reason @ '':'' @ int_str (job_attempt_count j)
               in case create_outbox ev oid now j queue_id key w1 of
                    (o1, w2) \<Rightarrow> (Inr o1, dispatch_outbox_after_commit o1 w2)))"

definition reschedule_job ::
  "bool \<Rightarrow> string \<Rightarrow> uuid \<Rightarrow> instant \<Rightarrow> uuid \<Rightarrow> string \<Rightarrow> world \<Rightarrow> (exc + uuid) \<times> world" where
  "reschedule_job ev queue_id oid now i reason w =
     (case get_job w i of
        None \<Rightarrow> (Inl (KeyError (''background job not found: '' @ i)), w)
      | Some j \<Rightarrow>
          if job_status j \<notin> set RETRYABLE_JOB_STATUSES
          then (Inl (ValueError (''job is not retryable: '' @ job_status j)), w)
          else schedule_dispatch ev queue_id oid now i reason w)"

section \<open>Dispatch\<close>

type_synonym broker = "string \<Rightarrow> string \<Rightarrow> dict \<Rightarrow> string \<Rightarrow> world \<Rightarrow> (exc + unit) \<times> world"

definition task_names :: "string list" where
  "task_names = [''dream_review'', ''wiki_compile'', ''wiki_lint'', ''wiki_repair'',
     ''skill_scan'', ''mcp_refresh'', ''heartbeat_check'']"

definition dispatch_task ::
  "broker \<Rightarrow> string \<Rightarrow> string \<Rightarrow> dict \<Rightarrow> string \<Rightarrow> string \<Rightarrow> string \<Rightarrow> world \<Rightarrow> (exc + unit) \<times> world" where
  "dispatch_task broker task_name jid payload queue_id trace request w =
     (if task_name \<notin> set task_names
      then (Inl (ValueError (''unsupported background task: '' @ task_name)), w)
      else
        let p1 = (if trace = [] then payload else dsetdefault ''_trace_id'' (JStr trace) payload);
            p2 = (if request = [] then p1 else dsetdefault ''_request_id'' (JStr request) p1)
        in broker task_name jid p2 queue_id w)"

text \<open>\<open>_dispatch_outbox_message\<close>; \<open>now\<close> is the clock while the message is handled. A failure to mark
  the job is swallowed.\<close>

definition dead_letter_aggregate :: "bool \<Rightarrow> outbox_message \<Rightarrow> exc \<Rightarrow> instant \<Rightarrow> world \<Rightarrow> world" where
  "dead_letter_aggregate ev m e now w =
     (case uuid_parse (ob_aggregate_id m) of
        None \<Rightarrow> w
      | Some i \<Rightarrow> snd (mark_dead_letter ev i (exc_str e) now w))"

definition dispatch_outbox_message ::
  "broker \<Rightarrow> bool \<Rightarrow> instant \<Rightarrow> outbox_message \<Rightarrow> world \<Rightarrow> (exc + unit) \<times> world" where
  "dispatch_outbox_message broker ev now m w =
     (if ob_topic m \<noteq> ''celery.dispatch''
      then (Inl (ValueError (''unsupported outbox topic: '' @ ob_topic m)), w)
      else
        let p = ob_payload m;
            n = ob_attempt_count m + 1;
            w1 = upd_ob (ob_id m) (\<lambda>m. m\<lparr>ob_attempt_count := n\<rparr>) w
        in case dispatch_task broker (dstr ''task_name'' p) (dstr ''job_id'' p)
                  (dict_or_empty (dget ''payload'' p)) (dstr ''queue_id'' p)
                  (str_or (dstr ''trace_id'' p) (ob_trace_id m))
                  (str_or (dstr ''request_id'' p) (ob_request_id m)) w1 of
             (Inl e, w2) \<Rightarrow>
               (Inl e,
                if n \<ge> (if ob_max_attempts m = 0 then 5 else ob_max_attempts m)
                then dead_letter_aggregate ev m e now
                       (upd_ob (ob_id m) (\<lambda>m. m\<lparr>ob_last_error := exc_str e,
                          ob_status := ''dead_letter'', ob_dispatched_at := Some now\<rparr>) w2)
                else upd_ob (ob_id m) (\<lambda>m. m\<lparr>ob_last_error := exc_str e, ob_status := ''retrying'',
                       ob_next_attempt_at := Some (now + of_int (retry_delay_seconds n))\<rparr>) w2)
           | (Inr _, w2) \<Rightarrow>
               (Inr (),
                emit ev ''outbox.dispatched''
                  [(''outbox_id'', JStr (ob_id m)), (''topic'', JStr (ob_topic m))]
                  (upd_ob (ob_id m) (\<lambda>m. m\<lparr>ob_status := ''dispatched'', ob_last_error := '''',
                     ob_next_attempt_at := None, ob_dispatched_at := Some now\<rparr>) w2)))"

definition due_messages :: "instant \<Rightarrow> int \<Rightarrow> world \<Rightarrow> outbox_message list" where
  "due_messages now limit w =
     take (clamp_limit 500 limit)
       (sort_key ob_created_at
         (filter (\<lambda>m. ob_status m \<in> {''pending'', ''retrying''} \<and> due (ob_next_attempt_at m) now)
           (outbox_messages w)))"

record dispatch_counts =
  dc_scanned :: int
  dc_dispatched :: int
  dc_failed :: int
  dc_dead_letter :: int

text \<open>The loop over the selected messages. A message object is read when its turn comes, so its
  current row is looked up; the clock is read once per message (\<open>clk\<close>).\<close>

fun dispatch_loop ::
  "broker \<Rightarrow> bool \<Rightarrow> (uuid \<Rightarrow> instant) \<Rightarrow> outbox_message list \<Rightarrow> dispatch_counts \<Rightarrow> world \<Rightarrow>
   dispatch_counts \<times> world" where
  "dispatch_loop broker ev clk [] c w = (c, w)"
| "dispatch_loop broker ev clk (m0 # ms) c w =
     (let m = (case get_ob w (ob_id m0) of None \<Rightarrow> m0 | Some m \<Rightarrow> m)
      in case dispatch_outbox_message broker ev (clk (ob_id m)) m w of
           (Inr _, w1) \<Rightarrow>
             dispatch_loop broker ev clk ms (c\<lparr>dc_dispatched := dc_dispatched c + 1\<rparr>) w1
         | (Inl e, w1) \<Rightarrow>
             let st = (case get_ob w1 (ob_id m) of None \<Rightarrow> ob_status m | Some m' \<Rightarrow> ob_status m');
                 c1 = c\<lparr>dc_failed := dc_failed c + 1,
                        dc_dead_letter := dc_dead_letter c + (if st = ''dead_letter'' then 1 else 0)\<rparr>
             in dispatch_loop broker ev clk ms c1
                  (emit_warning ev ''outbox.dispatch.failed''
                    [(''outbox_id'', JStr (ob_id m)), (''error'', JStr (exc_str e)),
                     (''status'', JStr st)] w1))"

definition dispatch_outbox ::
  "broker \<Rightarrow> bool \<Rightarrow> instant \<Rightarrow> (uuid \<Rightarrow> instant) \<Rightarrow> int \<Rightarrow> world \<Rightarrow> dispatch_counts \<times> world" where
  "dispatch_outbox broker ev now clk limit w =
     (let items = due_messages now limit w
      in dispatch_loop broker ev clk items
           \<lparr>dc_scanned = int (length items), dc_dispatched = 0, dc_failed = 0, dc_dead_letter = 0\<rparr> w)"

text \<open>The after-commit listener: replay the outbox with a service of its own (no event bus).\<close>

definition replay_outbox ::
  "broker \<Rightarrow> bool \<Rightarrow> instant \<Rightarrow> (uuid \<Rightarrow> instant) \<Rightarrow> int \<Rightarrow> world \<Rightarrow> dispatch_counts \<times> world" where
  "replay_outbox broker ev now clk limit w = dispatch_outbox broker ev now clk limit w"

definition after_commit :: "broker \<Rightarrow> instant \<Rightarrow> (uuid \<Rightarrow> instant) \<Rightarrow> world \<Rightarrow> world" where
  "after_commit broker now clk w =
     (let ids = pending_outbox_ids w;
          w1 = w\<lparr>pending_outbox_ids := [], outbox_listener := False\<rparr>
      in if ids = [] then w1
         else snd (replay_outbox broker False now clk (max 100 (int (length ids))) w1))"

section \<open>Enqueueing\<close>

definition enqueue_background_job ::
  "(string \<Rightarrow> string) \<Rightarrow> bool \<Rightarrow> uuid \<Rightarrow> uuid \<Rightarrow> string \<Rightarrow> instant \<Rightarrow> string \<Rightarrow> dict \<Rightarrow> string \<Rightarrow>
   uuid option \<Rightarrow> string \<Rightarrow> int \<Rightarrow> world \<Rightarrow> (exc + uuid) \<times> world" where
  "enqueue_background_job sha ev i oid queue_id now task_name payload triggered_by cron_job_id key0
     max_attempts w =
     (let key = (if key0 = [] then default_idempotency_key sha task_name payload triggered_by cron_job_id
                 else key0)
      in case idempotency_status sha ''background_job'' key
                (request_dict task_name payload triggered_by cron_job_id) w of
           (st, w1) \<Rightarrow>
             if io_conflict st
             then (Inl (ValueError (''idempotency key reused with different payload: '' @ key)), w1)
             else case find_job_by_key key w1 of
               Some existing \<Rightarrow> (Inr (job_id existing), w1)
             | None \<Rightarrow>
                 (case create_job ev i now task_name payload triggered_by cron_job_id key max_attempts w1 of
                    (j, w2) \<Rightarrow>
                      (case schedule_dispatch ev queue_id oid now j ''enqueue'' w2 of
                         (Inl e, w3) \<Rightarrow> (Inl e, w3)
                       | (Inr _, w3) \<Rightarrow> (Inr j, w3))))"

section \<open>Facts about the job table\<close>

lemma get_job_upd:
  "(\<And>j. job_id (f j) = job_id j) \<Longrightarrow>
     get_job (upd_job i f w) i' = (if i' = i then map_option f (get_job w i) else get_job w i')"
  unfolding get_job_def upd_job_def by (rule jobs_tab.look_modify)

lemma get_job_ins:
  "get_job w (job_id j) = None \<Longrightarrow>
     get_job (background_jobs_update (\<lambda>js. js @ [j]) w) i = (if i = job_id j then Some j else get_job w i)"
  unfolding get_job_def by (rule jobs_tab.look_ins)

lemma get_job_cong: "background_jobs w = background_jobs w' \<Longrightarrow> get_job w i = get_job w' i"
  by (simp add: get_job_def)

lemma get_job_id: "get_job w i = Some j \<Longrightarrow> job_id j = i"
  unfolding get_job_def by (rule jobs_tab.look_key)

lemma get_job_mem: "get_job w i = Some j \<Longrightarrow> j \<in> set (background_jobs w)"
  unfolding get_job_def by (rule get_row_mem)

lemma get_job_bus [simp]:
  "get_job (emit_full on t p sv se tu w) i = get_job w i"
  "get_job (audit on a tt ti p w) i = get_job w i"
  by (simp_all add: get_job_def)

lemma upd_job_frame [simp]:
  "outbox_messages (upd_job i f w) = outbox_messages w"
  "idempotency_records (upd_job i f w) = idempotency_records w"
  "cron_jobs (upd_job i f w) = cron_jobs w"
  "trace_id (upd_job i f w) = trace_id w"
  "request_id (upd_job i f w) = request_id w"
  "pending_outbox_ids (upd_job i f w) = pending_outbox_ids w"
  by (simp_all add: upd_job_def)

lemma jobs_upd_job [simp]: "background_jobs (upd_job i f w) = upd_row job_id i f (background_jobs w)"
  by (simp add: upd_job_def)

lemma complete_idempotency_frame [simp]:
  "background_jobs (complete_idempotency s k r st w) = background_jobs w"
  "outbox_messages (complete_idempotency s k r st w) = outbox_messages w"
  "cron_jobs (complete_idempotency s k r st w) = cron_jobs w"
  "trace_id (complete_idempotency s k r st w) = trace_id w"
  "pending_outbox_ids (complete_idempotency s k r st w) = pending_outbox_ids w"
  by (auto simp: complete_idempotency_def split: option.splits)

lemma idempotency_status_frame [simp]:
  "background_jobs (snd (idempotency_status sha s k p w)) = background_jobs w"
  "outbox_messages (snd (idempotency_status sha s k p w)) = outbox_messages w"
  "cron_jobs (snd (idempotency_status sha s k p w)) = cron_jobs w"
  "trace_id (snd (idempotency_status sha s k p w)) = trace_id w"
  "request_id (snd (idempotency_status sha s k p w)) = request_id w"
  "pending_outbox_ids (snd (idempotency_status sha s k p w)) = pending_outbox_ids w"
  by (auto simp: idempotency_status_def Let_def split: option.splits)

text \<open>What each \<open>mark_*\<close> does to the job table: one row update.\<close>

lemmas mark_defs = mark_enqueued_def mark_started_def mark_succeeded_def mark_failed_def
  mark_retrying_def mark_dead_letter_def with_job_def

lemma mark_missing:
  assumes "get_job w i = None"
  shows "mark_enqueued ev i q w = (Inl (KeyError (''background job not found: '' @ i)), w)"
    and "mark_started ev i o1 t t' w = (Inl (KeyError (''background job not found: '' @ i)), w)"
    and "mark_succeeded ev i r t w = (Inl (KeyError (''background job not found: '' @ i)), w)"
    and "mark_failed ev i e t w = (Inl (KeyError (''background job not found: '' @ i)), w)"
    and "mark_retrying ev i e d t w = (Inl (KeyError (''background job not found: '' @ i)), w)"
    and "mark_dead_letter ev i e t w = (Inl (KeyError (''background job not found: '' @ i)), w)"
  using assms by (simp_all add: mark_defs)

lemma jobs_mark_enqueued:
  "background_jobs (snd (mark_enqueued ev i q w))
     = upd_row job_id i (\<lambda>j. j\<lparr>job_queue_id := q, job_status := ''queued''\<rparr>) (background_jobs w)"
  by (auto simp: mark_defs get_job_def upd_row_def get_row_None split: option.splits intro!: map_idI [symmetric])

section \<open>Enqueueing is idempotent\<close>

lemma find_idem_cong:
  "idempotency_records w = idempotency_records w' \<Longrightarrow> find_idem s k w = find_idem s k w'"
  by (simp add: find_idem_def)

lemma find_job_by_key_cong:
  "background_jobs w = background_jobs w' \<Longrightarrow> find_job_by_key k w = find_job_by_key k w'"
  by (simp add: find_job_by_key_def)

lemma find_append_None: "find P xs = None \<Longrightarrow> find P (xs @ ys) = find P ys"
  by (induction xs) (auto split: if_splits)

lemma find_append_Some: "find P xs = Some x \<Longrightarrow> find P (xs @ ys) = Some x"
  by (induction xs) (auto split: if_splits)

lemma default_key_nonempty [simp]: "default_idempotency_key sha t p tb c \<noteq> []"
  by (simp add: default_idempotency_key_def)

text \<open>After a request that is no conflict, the same request finds its record and changes nothing.\<close>

lemma idempotency_status_again:
  assumes "idempotency_status sha s k p w = (st, w1)" and "\<not> io_conflict st" and "k \<noteq> []"
    and "idempotency_records w2 = idempotency_records w1"
  shows "\<exists>st'. idempotency_status sha s k p w2 = (st', w2) \<and> \<not> io_conflict st'"
proof (cases "find_idem s k w")
  case None
  with assms have "find_idem s k w2 = Some \<lparr>ir_scope = s, ir_key = k,
      ir_request_hash = stable_hash sha p, ir_status = ''processing'', ir_response = []\<rparr>"
    by (auto simp: idempotency_status_def find_idem_def find_append_None Let_def)
  with assms(3) show ?thesis
    by (auto simp: idempotency_status_def Let_def)
next
  case (Some r)
  with assms have "w1 = w" "find_idem s k w2 = Some r"
    by (auto simp: idempotency_status_def find_idem_def Let_def split: if_splits)
  with Some assms show ?thesis
    by (auto simp: idempotency_status_def Let_def split: if_splits)
qed

lemma create_outbox_frame [simp]:
  "background_jobs (snd (create_outbox ev oid now j q key w)) = background_jobs w"
  "idempotency_records (snd (create_outbox ev oid now j q key w)) = idempotency_records w"
  "cron_jobs (snd (create_outbox ev oid now j q key w)) = cron_jobs w"
  by (auto simp: create_outbox_def split: option.splits)

lemma create_outbox_eq:
  assumes "create_outbox ev oid now j q key w = (o1, w')"
  shows "background_jobs w' = background_jobs w \<and> idempotency_records w' = idempotency_records w
    \<and> cron_jobs w' = cron_jobs w"
  using create_outbox_frame [of ev oid now j q key w] assms by simp

lemma schedule_dispatch_frame:
  assumes "schedule_dispatch ev q oid now i r w = (res, w')"
  shows "idempotency_records w' = idempotency_records w"
    and "cron_jobs w' = cron_jobs w"
    and "background_jobs w' = upd_row job_id i (\<lambda>j. j\<lparr>job_queue_id := q, job_status := ''queued''\<rparr>)
           (background_jobs w)"
proof -
  note sp = prod.splits sum.splits option.splits
  define w1 where "w1 = snd (mark_enqueued ev i q w)"
  have 1: "idempotency_records w1 = idempotency_records w" "cron_jobs w1 = cron_jobs w"
    by (auto simp: w1_def mark_defs split: sp)
  have 2: "background_jobs w' = background_jobs w1 \<and> idempotency_records w' = idempotency_records w1
      \<and> cron_jobs w' = cron_jobs w1"
    using assms
    by (auto simp: schedule_dispatch_def w1_def Let_def dispatch_outbox_after_commit_def
      dest: create_outbox_eq split: sp)
  show "idempotency_records w' = idempotency_records w" "cron_jobs w' = cron_jobs w"
    and "background_jobs w' = upd_row job_id i (\<lambda>j. j\<lparr>job_queue_id := q, job_status := ''queued''\<rparr>)
           (background_jobs w)"
    using 1 2 by (simp_all add: w1_def jobs_mark_enqueued)
qed

text \<open>The key an enqueue works with, and the world after its idempotency check.\<close>

definition effective_key :: "(string \<Rightarrow> string) \<Rightarrow> string \<Rightarrow> dict \<Rightarrow> string \<Rightarrow> uuid option \<Rightarrow> string \<Rightarrow> string" where
  "effective_key sha t p tb c key0 = (if key0 = [] then default_idempotency_key sha t p tb c else key0)"

lemma effective_key_nonempty [simp]: "effective_key sha t p tb c k \<noteq> []"
  by (simp add: effective_key_def)

lemma enqueue_unfold:
  "enqueue_background_job sha ev i oid q now t p tb c key0 n w =
     (let key = effective_key sha t p tb c key0
      in case idempotency_status sha ''background_job'' key (request_dict t p tb c) w of (st, w1) \<Rightarrow>
           if io_conflict st
           then (Inl (ValueError (''idempotency key reused with different payload: '' @ key)), w1)
           else case find_job_by_key key w1 of
             Some existing \<Rightarrow> (Inr (job_id existing), w1)
           | None \<Rightarrow> (case create_job ev i now t p tb c key n w1 of (j, w2) \<Rightarrow>
               (case schedule_dispatch ev q oid now j ''enqueue'' w2 of
                  (Inl e, w3) \<Rightarrow> (Inl e, w3) | (Inr _, w3) \<Rightarrow> (Inr j, w3))))"
  unfolding enqueue_background_job_def effective_key_def ..

lemma create_job_new:
  assumes "find_job_by_key key w = None"
  shows "fst (create_job ev i now t p tb c key n w) = i"
    and "background_jobs (snd (create_job ev i now t p tb c key n w))
           = background_jobs w @ [new_job i now t p tb c key n w]"
    and "idempotency_records (snd (create_job ev i now t p tb c key n w)) = idempotency_records w"
    and "outbox_messages (snd (create_job ev i now t p tb c key n w)) = outbox_messages w"
    and "cron_jobs (snd (create_job ev i now t p tb c key n w)) = cron_jobs w"
  using assms by (simp_all add: create_job_def)

text \<open>The three ways an enqueue ends.\<close>

lemma enqueue_cases:
  assumes "enqueue_background_job sha ev i oid q now t p tb c key0 n w = (res, w')"
  obtains
    (conflict) "res = Inl (ValueError (''idempotency key reused with different payload: '' @
        effective_key sha t p tb c key0))" "w' = w"
  | (existing) st e where "idempotency_status sha ''background_job'' (effective_key sha t p tb c key0)
        (request_dict t p tb c) w = (st, w')" "\<not> io_conflict st"
      "find_job_by_key (effective_key sha t p tb c key0) w' = Some e" "res = Inr (job_id e)"
  | (created) st w1 w2 r where "idempotency_status sha ''background_job'' (effective_key sha t p tb c key0)
        (request_dict t p tb c) w = (st, w1)" "\<not> io_conflict st"
      "find_job_by_key (effective_key sha t p tb c key0) w1 = None"
      "create_job ev i now t p tb c (effective_key sha t p tb c key0) n w1 = (i, w2)"
      "schedule_dispatch ev q oid now i ''enqueue'' w2 = (r, w')"
      "res = (case r of Inl e \<Rightarrow> Inl e | Inr _ \<Rightarrow> Inr i)"
proof -
  let ?k = "effective_key sha t p tb c key0"
  obtain st w1 where st: "idempotency_status sha ''background_job'' ?k (request_dict t p tb c) w = (st, w1)"
    by fastforce
  consider "io_conflict st" | e where "\<not> io_conflict st" "find_job_by_key ?k w1 = Some e"
    | "\<not> io_conflict st" "find_job_by_key ?k w1 = None" by (cases "find_job_by_key ?k w1") auto
  then show thesis
  proof cases
    case 1
    with st have "w1 = w"
      by (auto simp: idempotency_status_def Let_def split: option.splits if_splits)
    with 1 st assms conflict show thesis by (simp add: enqueue_unfold Let_def)
  next
    case 2
    with st assms existing show thesis by (simp add: enqueue_unfold Let_def)
  next
    case 3
    obtain j w2 where cj: "create_job ev i now t p tb c ?k n w1 = (j, w2)" by fastforce
    obtain r w3 where sd: "schedule_dispatch ev q oid now j ''enqueue'' w2 = (r, w3)" by fastforce
    have "j = i" using create_job_new(1) [OF 3(2), of ev i now t p tb c n] cj by simp
    moreover have "res = (case r of Inl e \<Rightarrow> Inl e | Inr _ \<Rightarrow> Inr j)" "w' = w3"
      using 3 st cj sd assms by (auto simp: enqueue_unfold Let_def split: sum.splits)
    ultimately show thesis using created 3 st cj sd by blast
  qed
qed

lemma find_upd_row:
  "(\<And>r. P (f r) = P r) \<Longrightarrow>
     find P (upd_row key k f rs) = map_option (\<lambda>r. if key r = k then f r else r) (find P rs)"
  by (induction rs) (auto simp: upd_row_def)

lemma enqueue_finds_job:
  assumes "enqueue_background_job sha ev i oid q now t p tb c key0 n w = (Inr j, w')"
  shows "\<exists>e. find_job_by_key (effective_key sha t p tb c key0) w' = Some e \<and> job_id e = j"
  using assms
proof (cases rule: enqueue_cases)
  case (created st w1 w2 r)
  let ?k = "effective_key sha t p tb c key0"
  have "background_jobs w' = upd_row job_id i (\<lambda>j. j\<lparr>job_queue_id := q, job_status := ''queued''\<rparr>)
      (background_jobs w1 @ [new_job i now t p tb c ?k n w1])"
    using create_job_new(2) [OF created(3), of ev i now t p tb c n] created(4)
      schedule_dispatch_frame(3) [OF created(5)] by simp
  moreover have "find (\<lambda>j. job_idempotency_key j = ?k)
      (background_jobs w1 @ [new_job i now t p tb c ?k n w1]) = Some (new_job i now t p tb c ?k n w1)"
    using created(3) by (simp add: find_job_by_key_def find_append_None new_job_def)
  ultimately show ?thesis
    using created(6)
    by (auto simp: find_job_by_key_def find_upd_row new_job_def split: sum.splits)
qed auto

lemma enqueue_again:
  assumes "enqueue_background_job sha ev i oid q now t p tb c key0 n w = (Inr j, w')"
  shows "enqueue_background_job sha ev' i' oid' q' now' t p tb c key0 n' w' = (Inr j, w')"
proof -
  let ?k = "effective_key sha t p tb c key0"
  obtain e where e: "find_job_by_key ?k w' = Some e" "job_id e = j"
    using enqueue_finds_job [OF assms] by blast
  obtain st w1 where st: "idempotency_status sha ''background_job'' ?k (request_dict t p tb c) w = (st, w1)"
      "\<not> io_conflict st" and rec: "idempotency_records w' = idempotency_records w1"
    using assms
  proof (cases rule: enqueue_cases)
    case (created st w1 w2 r)
    have "idempotency_records w' = idempotency_records w1"
      using create_job_new(3) [OF created(3), of ev i now t p tb c n] created(4)
        schedule_dispatch_frame(1) [OF created(5)] by simp
    with created that show thesis by blast
  qed (use that in auto)
  obtain st' where "idempotency_status sha ''background_job'' ?k (request_dict t p tb c) w' = (st', w')"
      "\<not> io_conflict st'"
    using idempotency_status_again [OF st effective_key_nonempty rec] by blast
  with e show ?thesis by (simp add: enqueue_unfold Let_def)
qed

text \<open>C9: Enqueueing is idempotent. Once an enqueue has returned job \<open>j\<close>, enqueueing the same task, payload,
  trigger and key again (with any fresh identifiers, clock and attempt limit) returns the same \<open>j\<close> and
  leaves the whole state as it is: no second job, no second outbox message.\<close>

theorem enqueue_idempotent:
  assumes "enqueue_background_job sha ev i oid q now t p tb c key0 n w = (Inr j, w')"
  shows "enqueue_background_job sha ev' i' oid' q' now' t p tb c key0 n' w' = (Inr j, w')"
  using assms by (rule enqueue_again)

theorem enqueue_idempotent_witness:
  "enqueue_background_job id True ''b'' ''p'' ''q2'' 7 ''wiki_lint'' [] ''admin'' None [] 3
     (snd (enqueue_background_job id True ''a'' ''o'' ''q1'' 5 ''wiki_lint'' [] ''admin'' None [] 3 empty_world))
   = (Inr ''a'', snd (enqueue_background_job id True ''a'' ''o'' ''q1'' 5 ''wiki_lint'' [] ''admin'' None [] 3
       empty_world))"
  by (rule enqueue_idempotent [where w = empty_world and i = "''a''" and ev = True and oid = "''o''"
        and q = "''q1''" and now = 5 and n = 3]) code_simp

text \<open>The key of a dispatch message, and the effect of scheduling one.\<close>

definition dispatch_key :: "bg_job \<Rightarrow> string \<Rightarrow> string" where
  "dispatch_key j reason = ''dispatch:'' @ str_or (job_idempotency_key j) (''job:'' @ job_id j) @ '':'' @
     reason @ '':'' @ int_str (job_attempt_count j)"

lemma schedule_dispatch_new:
  assumes g: "get_job w i = Some j" and f: "find_ob_by_key (dispatch_key j r) w = None"
  shows "fst (schedule_dispatch ev q oid now i r w) = Inr oid"
    and "outbox_messages (snd (schedule_dispatch ev q oid now i r w)) = outbox_messages w @
           [new_outbox oid now (j\<lparr>job_queue_id := q, job_status := ''queued''\<rparr>) q (dispatch_key j r)]"
    and "oid \<in> set (pending_outbox_ids (snd (schedule_dispatch ev q oid now i r w)))"
proof -
  let ?j = "j\<lparr>job_queue_id := q, job_status := ''queued''\<rparr>"
  define w1 where "w1 = snd (mark_enqueued ev i q w)"
  have m: "mark_enqueued ev i q w = (Inr i, w1)"
    using g by (simp add: w1_def mark_defs)
  have g1: "get_job w1 i = Some ?j" and o1: "outbox_messages w1 = outbox_messages w"
    using g by (auto simp: w1_def mark_defs get_job_upd)
  have k: "''dispatch:'' @ str_or (job_idempotency_key ?j) (''job:'' @ i) @ '':'' @ r @ '':'' @
      int_str (job_attempt_count ?j) = dispatch_key j r"
    using get_job_id [OF g] by (simp add: dispatch_key_def)
  have f1: "find_ob_by_key (dispatch_key j r) w1 = None" using f o1 by (simp add: find_ob_by_key_def)
  have eq: "schedule_dispatch ev q oid now i r w =
      (case create_outbox ev oid now ?j q (dispatch_key j r) w1 of
         (o1, w2) \<Rightarrow> (Inr o1, dispatch_outbox_after_commit o1 w2))"
    unfolding schedule_dispatch_def m k [symmetric] by (simp add: g1 Let_def)
  show "fst (schedule_dispatch ev q oid now i r w) = Inr oid"
    and "outbox_messages (snd (schedule_dispatch ev q oid now i r w)) = outbox_messages w @
           [new_outbox oid now ?j q (dispatch_key j r)]"
    and "oid \<in> set (pending_outbox_ids (snd (schedule_dispatch ev q oid now i r w)))"
    using f1 o1 by (simp_all add: eq create_outbox_def dispatch_outbox_after_commit_def)
qed

text \<open>A fresh request creates exactly one queued job and one pending outbox message that carries
  it, and registers the message for dispatch after the commit. The new job has used no attempt and
  may be tried at least once.\<close>

theorem enqueue_fresh:
  assumes "find_idem ''background_job'' (effective_key sha t p tb c key0) w = None"
    and "find_job_by_key (effective_key sha t p tb c key0) w = None"
    and "get_job w i = None"
    and "find_ob_by_key (''dispatch:'' @ effective_key sha t p tb c key0 @ '':enqueue:0'') w = None"
  shows "\<exists>w' j m. enqueue_background_job sha ev i oid q now t p tb c key0 n w = (Inr i, w')
    \<and> get_job w' i = Some j \<and> job_status j = ''queued'' \<and> job_task_name j = t \<and> job_payload j = p
    \<and> job_attempt_count j = 0 \<and> 1 \<le> job_max_attempts j
    \<and> background_jobs w' = background_jobs w @ [j]
    \<and> outbox_messages w' = outbox_messages w @ [m]
    \<and> ob_status m = ''pending'' \<and> ob_aggregate_id m = i \<and> dget ''job_id'' (ob_payload m) = JStr i
    \<and> oid \<in> set (pending_outbox_ids w') \<and> ob_id m = oid"
proof -
  let ?k = "effective_key sha t p tb c key0"
  obtain st w1 where st: "idempotency_status sha ''background_job'' ?k (request_dict t p tb c) w = (st, w1)"
    by fastforce
  note f = idempotency_status_frame [of sha "''background_job''" ?k "request_dict t p tb c" w]
  have nc: "\<not> io_conflict st" and b1: "background_jobs w1 = background_jobs w"
    and o1: "outbox_messages w1 = outbox_messages w"
    using st assms(1) f by (auto simp: idempotency_status_def Let_def)
  have nk: "find_job_by_key ?k w1 = None" using assms(2) b1 by (simp add: find_job_by_key_def)
  have fresh: "i \<notin> job_id ` set (background_jobs w)"
    using assms(3) by (simp add: get_job_def get_row_None)
  obtain w2 where cj: "create_job ev i now t p tb c ?k n w1 = (i, w2)"
    and b2: "background_jobs w2 = background_jobs w @ [new_job i now t p tb c ?k n w1]"
    and o2: "outbox_messages w2 = outbox_messages w"
    using create_job_new [OF nk, of ev i now t p tb c n] b1 o1
    by (cases "create_job ev i now t p tb c ?k n w1") auto
  have g2: "get_job w2 i = Some (new_job i now t p tb c ?k n w1)"
    using assms(3) b2 by (simp add: get_job_def get_row_append new_job_def)
  let ?j = "new_job i now t p tb c ?k n w1"
  have dk: "dispatch_key ?j ''enqueue'' = ''dispatch:'' @ ?k @ '':enqueue:0''"
    by (simp add: dispatch_key_def new_job_def str_or_def)
  have no: "find_ob_by_key (dispatch_key ?j ''enqueue'') w2 = None"
    using assms(4) o2 unfolding dk by (simp add: find_ob_by_key_def)
  obtain r w3 where sd: "schedule_dispatch ev q oid now i ''enqueue'' w2 = (r, w3)" by fastforce
  note s = schedule_dispatch_new [OF g2 no, where ev = ev and q = q and oid = oid and now = now, unfolded sd fst_conv snd_conv]
  have b3: "background_jobs w3 = background_jobs w @ [?j\<lparr>job_queue_id := q\<rparr>]"
    using schedule_dispatch_frame(3) [OF sd] b2 fresh
    by (auto simp: upd_row_def new_job_def intro!: map_idI)
  have "enqueue_background_job sha ev i oid q now t p tb c key0 n w = (Inr i, w3)"
    using st nc nk cj sd s(1) by (simp add: enqueue_unfold Let_def)
  moreover have "get_job w3 i = Some (?j\<lparr>job_queue_id := q\<rparr>)"
    using assms(3) b3 by (simp add: get_job_def get_row_append new_job_def)
  moreover have "1 \<le> job_max_attempts ?j" by (simp add: new_job_def)
  ultimately show ?thesis
    using s b3 o2 by (intro exI [of _ w3] exI) (auto simp: new_job_def new_outbox_def dget_def)
qed

theorem enqueue_fresh_witness:
  "\<exists>w' j m. enqueue_background_job id True ''a'' ''o'' ''q1'' 5 ''wiki_lint'' [] ''admin'' None [] 3 empty_world
      = (Inr ''a'', w')
    \<and> get_job w' ''a'' = Some j \<and> job_status j = ''queued'' \<and> job_task_name j = ''wiki_lint'' \<and> job_payload j = []
    \<and> job_attempt_count j = 0 \<and> 1 \<le> job_max_attempts j
    \<and> background_jobs w' = background_jobs empty_world @ [j]
    \<and> outbox_messages w' = outbox_messages empty_world @ [m]
    \<and> ob_status m = ''pending'' \<and> ob_aggregate_id m = ''a''
    \<and> dget ''job_id'' (ob_payload m) = JStr ''a''
    \<and> ''o'' \<in> set (pending_outbox_ids w') \<and> ob_id m = ''o''"
  by (rule enqueue_fresh) code_simp+

text \<open>A key that was used for one request cannot be used for another: when the stored request
  hash differs from the new one, the enqueue raises \<open>ValueError\<close> and changes nothing.\<close>

theorem enqueue_conflict:
  assumes "key \<noteq> []"
    and "find_idem ''background_job'' key w = Some r"
    and "ir_request_hash r \<noteq> []"
    and "stable_hash sha (request_dict t p tb c) \<notin> {[], ir_request_hash r}"
  shows "enqueue_background_job sha ev i oid q now t p tb c key n w
       = (Inl (ValueError (''idempotency key reused with different payload: '' @ key)), w)"
  using assms by (auto simp: enqueue_background_job_def idempotency_status_def)

theorem enqueue_conflict_witness:
  "let w = snd (enqueue_background_job id True ''a'' ''o'' ''q'' 5 ''wiki_lint'' [] ''u'' None ''K'' 3 empty_world)
   in enqueue_background_job id True ''b'' ''p'' ''q'' 6 ''wiki_repair'' [] ''u'' None ''K'' 3 w
      = (Inl (ValueError (''idempotency key reused with different payload: '' @ ''K'')), w)"
  unfolding Let_def
  by (rule enqueue_conflict [where r = "\<lparr>ir_scope = ''background_job'', ir_key = ''K'',
        ir_request_hash = stable_hash id (request_dict ''wiki_lint'' [] ''u'' None),
        ir_status = ''processing'', ir_response = []\<rparr>"]) code_simp+

section \<open>Dispatching the outbox\<close>

lemma dispatch_loop_counts:
  "dispatch_loop broker ev clk ms c w = (c', w') \<Longrightarrow>
     dc_scanned c' = dc_scanned c
   \<and> dc_dispatched c' + dc_failed c' = dc_dispatched c + dc_failed c + int (length ms)
   \<and> dc_dispatched c \<le> dc_dispatched c'
   \<and> dc_dead_letter c \<le> dc_dead_letter c'
   \<and> dc_dead_letter c' - dc_dead_letter c \<le> dc_failed c' - dc_failed c"
proof (induction ms arbitrary: c w)
  case (Cons m0 ms)
  let ?m = "case get_ob w (ob_id m0) of None \<Rightarrow> m0 | Some m \<Rightarrow> m"
  obtain r w1 where d: "dispatch_outbox_message broker ev (clk (ob_id ?m)) ?m w = (r, w1)" by fastforce
  show ?case
    using Cons(2) d by (cases r) (auto simp: Let_def dest!: Cons(1) split: if_splits)
qed auto

text \<open>Every run of the outbox accounts for each message it selected: the messages dispatched and
  the messages failed add up to the messages scanned, a dead letter is one of the failures, and at
  most \<open>min(limit, 500)\<close> (at least one) are scanned. This holds for every behaviour of the broker.\<close>

theorem dispatch_outbox_counts:
  "\<exists>c w'. dispatch_outbox broker ev now clk limit w = (c, w')
     \<and> dc_scanned c = dc_dispatched c + dc_failed c
     \<and> 0 \<le> dc_dispatched c \<and> 0 \<le> dc_dead_letter c \<and> dc_dead_letter c \<le> dc_failed c
     \<and> dc_scanned c \<le> max 1 (min limit 500)"
proof -
  let ?ms = "due_messages now limit w"
  obtain c w' where d: "dispatch_outbox broker ev now clk limit w = (c, w')" by fastforce
  have "int (length ?ms) \<le> max 1 (min limit 500)"
    by (simp add: due_messages_def clamp_limit_def)
  with dispatch_loop_counts [OF d [unfolded dispatch_outbox_def Let_def]] d show ?thesis by auto
qed

lemma get_ob_upd:
  "(\<And>m. ob_id (f m) = ob_id m) \<Longrightarrow>
     get_ob (upd_ob i f w) i' = (if i' = i then map_option f (get_ob w i) else get_ob w i')"
  unfolding get_ob_def upd_ob_def by (rule outbox_tab.look_modify)

lemma get_ob_cong: "outbox_messages w = outbox_messages w' \<Longrightarrow> get_ob w i = get_ob w' i"
  by (simp add: get_ob_def)

lemma get_ob_key: "get_ob w i = Some m \<Longrightarrow> ob_id m = i"
  unfolding get_ob_def by (rule outbox_tab.look_key)

lemma get_ob_bus [simp]: "get_ob (emit_full on t p sv se tu w) i = get_ob w i"
  by (simp add: get_ob_def)

lemma upd_ob_frame [simp]:
  "background_jobs (upd_ob i f w) = background_jobs w"
  "idempotency_records (upd_ob i f w) = idempotency_records w"
  "cron_jobs (upd_ob i f w) = cron_jobs w"
  by (simp_all add: upd_ob_def)

lemma dead_letter_aggregate_outbox [simp]:
  "outbox_messages (dead_letter_aggregate ev m e now w) = outbox_messages w"
  by (simp add: dead_letter_aggregate_def mark_defs split: option.splits)

text \<open>Celery's own effect: the broker does not write the outbox table.\<close>

definition broker_ok :: "broker \<Rightarrow> bool" where
  "broker_ok broker = (\<forall>t j p q w. outbox_messages (snd (broker t j p q w)) = outbox_messages w)"

lemma dispatch_task_outbox:
  "broker_ok broker \<Longrightarrow> dispatch_task broker t j p q tr rq w = (r, w') \<Longrightarrow>
     outbox_messages w' = outbox_messages w"
  unfolding broker_ok_def dispatch_task_def Let_def by (metis snd_conv)

lemma retry_delay_bounds: "2 \<le> retry_delay_seconds n \<and> retry_delay_seconds n \<le> 256"
proof -
  have "(2::int) ^ 1 \<le> 2 ^ nat (min (max 1 n) 8)" "(2::int) ^ nat (min (max 1 n) 8) \<le> 2 ^ 8"
    by (intro power_increasing; auto)+
  then show ?thesis by (auto simp: retry_delay_seconds_def)
qed

text \<open>How one dispatch leaves the message.\<close>

definition outbox_after :: "exc + unit \<Rightarrow> instant \<Rightarrow> outbox_message \<Rightarrow> outbox_message" where
  "outbox_after r now m =
     (let n = ob_attempt_count m + 1 in
      case r of
        Inr _ \<Rightarrow> m\<lparr>ob_attempt_count := n, ob_status := ''dispatched'', ob_last_error := '''',
                   ob_next_attempt_at := None, ob_dispatched_at := Some now\<rparr>
      | Inl e \<Rightarrow>
          if n \<ge> (if ob_max_attempts m = 0 then 5 else ob_max_attempts m)
          then m\<lparr>ob_attempt_count := n, ob_last_error := exc_str e, ob_status := ''dead_letter'',
                 ob_dispatched_at := Some now\<rparr>
          else m\<lparr>ob_attempt_count := n, ob_last_error := exc_str e, ob_status := ''retrying'',
                 ob_next_attempt_at := Some (now + of_int (retry_delay_seconds n))\<rparr>)"

lemma dispatch_message_rows:
  assumes b: "broker_ok broker" and g: "get_ob w (ob_id m) = Some m" and t: "ob_topic m = ''celery.dispatch''"
    and d: "dispatch_outbox_message broker ev now m w = (r, w')"
  shows "get_ob w' i = (if i = ob_id m then Some (outbox_after r now m) else get_ob w i)"
proof -
  let ?p = "ob_payload m"
  let ?w1 = "upd_ob (ob_id m) (\<lambda>m'. m'\<lparr>ob_attempt_count := ob_attempt_count m + 1\<rparr>) w"
  obtain r' w2 where dt: "dispatch_task broker (dstr ''task_name'' ?p) (dstr ''job_id'' ?p)
      (dict_or_empty (dget ''payload'' ?p)) (dstr ''queue_id'' ?p)
      (str_or (dstr ''trace_id'' ?p) (ob_trace_id m)) (str_or (dstr ''request_id'' ?p) (ob_request_id m)) ?w1
      = (r', w2)" by fastforce
  have g2: "get_ob w2 k = get_ob ?w1 k" for k
    using get_ob_cong [OF dispatch_task_outbox [OF b dt]] by simp
  show ?thesis
    using d t g g2 by (cases r')
      (auto simp: dispatch_outbox_message_def dt Let_def outbox_after_def get_ob_upd
        get_ob_cong [OF dead_letter_aggregate_outbox] split: if_splits)
qed

text \<open>C10: One dispatch of an outbox message counts one attempt and leaves every other message alone.
  When the broker takes the task the message is dispatched. When it refuses, the message is
  retried after a delay of 2 to 256 seconds as long as attempts remain, and becomes a dead letter with
  the last one.\<close>

theorem outbox_attempt:
  assumes "broker_ok broker" and "get_ob w (ob_id m) = Some m" and "ob_topic m = ''celery.dispatch''"
    and "dispatch_outbox_message broker ev now m w = (r, w')" and "1 \<le> ob_max_attempts m"
  shows "\<exists>m'. get_ob w' (ob_id m) = Some m' \<and> ob_attempt_count m' = ob_attempt_count m + 1
    \<and> (r = Inr () \<longrightarrow> ob_status m' = ''dispatched'')
    \<and> (\<forall>e. r = Inl e \<longrightarrow> ob_last_error m' = exc_str e \<and>
         (if ob_attempt_count m' < ob_max_attempts m
          then ob_status m' = ''retrying'' \<and>
               (\<exists>d. 2 \<le> d \<and> d \<le> 256 \<and> ob_next_attempt_at m' = Some (now + d))
          else ob_status m' = ''dead_letter''))
    \<and> (\<forall>i. i \<noteq> ob_id m \<longrightarrow> get_ob w' i = get_ob w i)"
proof -
  have "\<exists>d::rat. 2 \<le> d \<and> d \<le> 256 \<and> d = of_int (retry_delay_seconds n)" for n
    using retry_delay_bounds [of n] by (intro exI [of _ "of_int (retry_delay_seconds n)"]) linarith
  then show ?thesis
    using dispatch_message_rows [OF assms(1-4)] assms(5)
    by (intro exI [of _ "outbox_after r now m"])
      (auto simp: outbox_after_def Let_def split: sum.splits)
qed

definition refusing_broker :: broker where
  "refusing_broker t j p q w = (Inl (OtherError ''broker down''), w)"

definition sample_message :: outbox_message where
  "sample_message = new_outbox ''o'' 0 (new_job ''a'' 0 ''wiki_lint'' [] ''u'' None ''K'' 3 empty_world) ''q'' ''D''"

lemma refusing_broker_ok: "broker_ok refusing_broker"
  by (simp add: broker_ok_def refusing_broker_def)

theorem outbox_attempt_witness:
  "let w = empty_world\<lparr>outbox_messages := [sample_message]\<rparr>;
       out = dispatch_outbox_message refusing_broker True 10 sample_message w
   in \<exists>m'. get_ob (snd out) ''o'' = Some m' \<and> ob_attempt_count m' = 1 \<and> ob_status m' = ''retrying''"
proof -
  have "\<exists>m'. get_ob (snd (dispatch_outbox_message refusing_broker True 10 sample_message
        (empty_world\<lparr>outbox_messages := [sample_message]\<rparr>))) (ob_id sample_message) = Some m'
      \<and> ob_attempt_count m' = ob_attempt_count sample_message + 1
      \<and> (Inl (OtherError ''broker down'') = Inr () \<longrightarrow> ob_status m' = ''dispatched'')
      \<and> (\<forall>e. Inl (OtherError ''broker down'') = (Inl e :: exc + unit) \<longrightarrow> ob_last_error m' = exc_str e \<and>
         (if ob_attempt_count m' < ob_max_attempts sample_message
          then ob_status m' = ''retrying'' \<and>
               (\<exists>d. 2 \<le> d \<and> d \<le> 256 \<and> ob_next_attempt_at m' = Some (10 + d))
          else ob_status m' = ''dead_letter''))
      \<and> (\<forall>i. i \<noteq> ob_id sample_message \<longrightarrow>
          get_ob (snd (dispatch_outbox_message refusing_broker True 10 sample_message
            (empty_world\<lparr>outbox_messages := [sample_message]\<rparr>))) i
          = get_ob (empty_world\<lparr>outbox_messages := [sample_message]\<rparr>) i)"
    by (rule outbox_attempt [OF refusing_broker_ok, where ev = True]) code_simp+
  then show ?thesis by (auto simp: sample_message_def new_outbox_def)
qed

text \<open>A message that left the queue is never selected again, so no later run touches it.\<close>

definition outbox_done :: "outbox_message \<Rightarrow> bool" where
  "outbox_done m = (ob_status m \<in> {''dispatched'', ''dead_letter''})"

lemma dispatch_message_other:
  assumes "broker_ok broker" and "i \<noteq> ob_id m"
    and "dispatch_outbox_message broker ev now m w = (r, w')"
  shows "get_ob w' i = get_ob w i"
proof (cases "ob_topic m = ''celery.dispatch''")
  case True
  let ?p = "ob_payload m"
  let ?w1 = "upd_ob (ob_id m) (\<lambda>m'. m'\<lparr>ob_attempt_count := ob_attempt_count m + 1\<rparr>) w"
  obtain r' w2 where dt: "dispatch_task broker (dstr ''task_name'' ?p) (dstr ''job_id'' ?p)
      (dict_or_empty (dget ''payload'' ?p)) (dstr ''queue_id'' ?p)
      (str_or (dstr ''trace_id'' ?p) (ob_trace_id m)) (str_or (dstr ''request_id'' ?p) (ob_request_id m)) ?w1
      = (r', w2)" by fastforce
  have "get_ob w2 i = get_ob w i"
    using get_ob_cong [OF dispatch_task_outbox [OF assms(1) dt]] assms(2) by (simp add: get_ob_upd)
  then show ?thesis
    using assms True by (cases r')
      (auto simp: dispatch_outbox_message_def dt Let_def get_ob_upd
        get_ob_cong [OF dead_letter_aggregate_outbox] split: if_splits)
qed (use assms in \<open>simp add: dispatch_outbox_message_def\<close>)

lemma dispatch_loop_other:
  assumes "broker_ok broker"
  shows "i \<notin> ob_id ` set ms \<Longrightarrow> dispatch_loop broker ev clk ms c w = (c', w') \<Longrightarrow> get_ob w' i = get_ob w i"
proof (induction ms arbitrary: c w)
  case (Cons m0 ms)
  let ?m = "case get_ob w (ob_id m0) of None \<Rightarrow> m0 | Some m \<Rightarrow> m"
  have id: "ob_id ?m = ob_id m0"
    by (cases "get_ob w (ob_id m0)") (simp_all add: get_ob_key)
  obtain r w1 where d: "dispatch_outbox_message broker ev (clk (ob_id ?m)) ?m w = (r, w1)" by fastforce
  have eq: "get_ob w1 i = get_ob w i"
    using dispatch_message_other [OF assms _ d] Cons(2) id by simp
  have "\<exists>c1 w2. dispatch_loop broker ev clk ms c1 w2 = (c', w') \<and> get_ob w2 i = get_ob w1 i"
  proof (cases r)
    case (Inl e)
    with Cons(3) d show ?thesis
      by (simp only: dispatch_loop.simps Let_def prod.case sum.case short_emits) (blast intro: get_ob_bus)
  next
    case (Inr u)
    with Cons(3) d show ?thesis by (auto simp: Let_def)
  qed
  with Cons(1,2) eq show ?case by fastforce
qed auto

lemma due_messages_mem: "m \<in> set (due_messages now limit w) \<Longrightarrow>
    m \<in> set (outbox_messages w) \<and> ob_status m \<in> {''pending'', ''retrying''} \<and> due (ob_next_attempt_at m) now"
  by (auto simp: due_messages_def dest: in_set_takeD)

text \<open>Dispatch is final. A message that was dispatched or became a dead letter is left exactly as
  it is by every later run of the outbox, whatever the broker does with the other messages: no task is
  handed to the broker twice for one message.\<close>

theorem dispatch_final:
  assumes "broker_ok broker" and "distinct (map ob_id (outbox_messages w))"
    and "get_ob w i = Some m" and "outbox_done m"
  shows "get_ob (snd (dispatch_outbox broker ev now clk limit w)) i = Some m"
proof -
  have "i \<notin> ob_id ` set (due_messages now limit w)"
  proof
    assume "i \<in> ob_id ` set (due_messages now limit w)"
    then obtain m' where "m' \<in> set (due_messages now limit w)" "ob_id m' = i" by auto
    then have "m' = m" "ob_status m' \<in> {''pending'', ''retrying''}"
      using due_messages_mem upd_row_cong_distinct [OF assms(2)] assms(3) by (auto simp: get_ob_def)
    with assms(4) show False by (auto simp: outbox_done_def)
  qed
  then show ?thesis
    using dispatch_loop_other [OF assms(1)] assms(3)
    unfolding dispatch_outbox_def Let_def by (metis prod.collapse)
qed

theorem dispatch_final_witness:
  "let m = sample_message\<lparr>ob_status := ''dispatched''\<rparr>
   in get_ob (snd (dispatch_outbox refusing_broker True 10 (\<lambda>_. 11) 100
        (empty_world\<lparr>outbox_messages := [m]\<rparr>))) ''o'' = Some m"
  unfolding Let_def by (rule dispatch_final [OF refusing_broker_ok]) code_simp+

section \<open>What a run of the outbox preserves\<close>

text \<open>
  A property of the world that the row updates of the outbox, the dead-lettering of a job and the
  event bus preserve is preserved by a whole run, for every broker that preserves it.
\<close>

locale outbox_frame =
  fixes P :: "world \<Rightarrow> bool"
  assumes keeps_upd_ob: "P v \<Longrightarrow> P (upd_ob i f v)"
    and keeps_dead_letter: "P v \<Longrightarrow> P (snd (mark_dead_letter ev i e now v))"
    and keeps_emit: "P v \<Longrightarrow> P (emit_full ev t p sv se tu v)"
begin

lemma dispatch_task_keeps:
  assumes "\<And>t j p q v. P v \<Longrightarrow> P (snd (broker t j p q v))" and "P w"
  shows "P (snd (dispatch_task broker t j p q tr rq w))"
  using assms by (simp add: dispatch_task_def Let_def)

lemma dispatch_message_keeps:
  assumes b: "\<And>t j p q v. P v \<Longrightarrow> P (snd (broker t j p q v))" and w: "P w"
    and d: "dispatch_outbox_message broker ev now m w = (r, w')"
  shows "P w'"
proof (cases "ob_topic m = ''celery.dispatch''")
  case True
  let ?p = "ob_payload m"
  let ?w1 = "upd_ob (ob_id m) (\<lambda>m'. m'\<lparr>ob_attempt_count := ob_attempt_count m + 1\<rparr>) w"
  obtain r' w2 where dt: "dispatch_task broker (dstr ''task_name'' ?p) (dstr ''job_id'' ?p)
      (dict_or_empty (dget ''payload'' ?p)) (dstr ''queue_id'' ?p)
      (str_or (dstr ''trace_id'' ?p) (ob_trace_id m)) (str_or (dstr ''request_id'' ?p) (ob_request_id m)) ?w1
      = (r', w2)" by fastforce
  have "P (snd (r', w2))" unfolding dt [symmetric] by (rule dispatch_task_keeps [OF b keeps_upd_ob [OF w]])
  then have p2: "P w2" by simp
  show ?thesis
    using d True p2 by (cases r')
      (auto simp: dispatch_outbox_message_def dt Let_def dead_letter_aggregate_def
        intro: keeps_upd_ob keeps_dead_letter keeps_emit split: if_splits option.splits)
qed (use d w in \<open>simp add: dispatch_outbox_message_def\<close>)

lemma dispatch_loop_keeps:
  assumes b: "\<And>t j p q v. P v \<Longrightarrow> P (snd (broker t j p q v))"
  shows "P w \<Longrightarrow> dispatch_loop broker ev clk ms c w = (c', w') \<Longrightarrow> P w'"
proof (induction ms arbitrary: c w)
  case (Cons m0 ms)
  let ?m = "case get_ob w (ob_id m0) of None \<Rightarrow> m0 | Some m \<Rightarrow> m"
  obtain r w1 where d: "dispatch_outbox_message broker ev (clk (ob_id ?m)) ?m w = (r, w1)" by fastforce
  have p1: "P w1" by (rule dispatch_message_keeps [OF b Cons(2) d])
  show ?case
  proof (cases r)
    case (Inl e)
    with Cons(3) d obtain c1 t p where
      "dispatch_loop broker ev clk ms c1 (emit_full ev t p ''warning'' '''' '''' w1) = (c', w')"
      by (simp only: dispatch_loop.simps Let_def prod.case sum.case short_emits)
    then show ?thesis by (rule Cons(1) [OF keeps_emit [OF p1]])
  next
    case (Inr u)
    with Cons(3) d obtain c1 where "dispatch_loop broker ev clk ms c1 w1 = (c', w')"
      by (auto simp: Let_def)
    then show ?thesis by (rule Cons(1) [OF p1])
  qed
qed simp

lemma dispatch_outbox_keeps:
  assumes "\<And>t j p q v. P v \<Longrightarrow> P (snd (broker t j p q v))" and "P w"
  shows "P (snd (dispatch_outbox broker ev now clk limit w))"
proof -
  obtain c' w' where "dispatch_outbox broker ev now clk limit w = (c', w')" by fastforce
  then show ?thesis
    using dispatch_loop_keeps [OF assms] by (simp add: dispatch_outbox_def Let_def)
qed

end

text \<open>That the cron table has a given content is such a property.\<close>

interpretation cron_frame: outbox_frame "\<lambda>v. cron_jobs v = C" for C
  by unfold_locales (auto simp: mark_defs upd_ob_def Let_def split: option.splits)

end
