(* ===== verification/Trace.thy ===== *)
theory Trace
  imports Models
begin

text \<open>
  Trace context of \<open>backend/infra/trace.py\<close>. The two \<open>ContextVar\<close>s are fields of \<open>world\<close>; a fresh
  \<open>uuid.uuid4().hex\<close> is an argument.
\<close>

definition token_char :: "char \<Rightarrow> bool" where
  "token_char c = (is_ascii_alnum c \<or> c \<in> set ''_.:-'')"

definition clean_token :: "string \<Rightarrow> string" where
  "clean_token value = (let token = py_strip value in
     if token = [] then [] else take 128 (filter token_char token))"

record trace_context =
  tc_trace_id :: string
  tc_request_id :: string

definition normalize_trace_context :: "string \<Rightarrow> string \<Rightarrow> string \<Rightarrow> trace_context" where
  "normalize_trace_context fresh trace request =
     (let t = str_or (clean_token trace) (str_or (clean_token request) fresh);
          r = str_or (clean_token request) t
      in \<lparr>tc_trace_id = t, tc_request_id = r\<rparr>)"

text \<open>\<open>with bind_trace_context(...)\<close>: the block runs in the new context, the old one is restored on
  both exits.\<close>

definition bind_trace_context ::
  "string \<Rightarrow> string \<Rightarrow> string \<Rightarrow> (world \<Rightarrow> 'a \<times> world) \<Rightarrow> world \<Rightarrow> 'a \<times> world" where
  "bind_trace_context fresh trace request block w =
     (let c = normalize_trace_context fresh trace request
      in case block (w\<lparr>trace_id := tc_trace_id c, request_id := tc_request_id c\<rparr>) of
           (x, w') \<Rightarrow> (x, w'\<lparr>trace_id := trace_id w, request_id := request_id w\<rparr>))"

definition trace_id_from_traceparent :: "string \<Rightarrow> string" where
  "trace_id_from_traceparent value =
     (let parts = split_on CHR ''-'' (py_strip value)
      in if 4 \<le> length parts \<and> length (parts ! 1) = 32 \<and> list_all is_hex (parts ! 1)
         then py_lower (parts ! 1) else [])"

definition ljust :: "nat \<Rightarrow> char \<Rightarrow> string \<Rightarrow> string" where
  "ljust n c s = s @ replicate (n - length s) c"

definition traceparent_from_trace_id :: "string \<Rightarrow> string \<Rightarrow> string \<Rightarrow> string" where
  "traceparent_from_trace_id fresh spanid trace =
     (let t = str_or (clean_token trace) fresh
      in ''00-'' @ ljust 32 CHR ''0'' (take 32 t) @ ''-'' @ take 16 spanid @ ''-01'')"

section \<open>Facts\<close>

lemma clean_token_safe: "list_all token_char (clean_token s) \<and> length (clean_token s) \<le> 128"
  by (auto simp: clean_token_def Let_def list_all_iff dest: in_set_takeD)

lemma hex_facts:
  assumes "is_hex c"
  shows "c \<noteq> CHR ''-''" and "\<not> is_space c" and "token_char c"
  using assms by (auto simp: is_hex_def is_space_def token_char_def is_ascii_alnum_def ordc_def Let_def)

lemma clean_token_hex: "list_all is_hex s \<Longrightarrow> length s \<le> 128 \<Longrightarrow> clean_token s = s"
proof -
  assume s: "list_all is_hex s" and l: "length s \<le> 128"
  have "py_strip s = s"
    unfolding py_strip_def by (rule strip_none) (use s hex_facts(2) in \<open>auto simp: list_all_iff\<close>)
  moreover have "filter token_char s = s" using s hex_facts(3) by (auto simp: list_all_iff filter_id_conv)
  ultimately show ?thesis using l by (simp add: clean_token_def Let_def)
qed

section \<open>Properties\<close>

text \<open>The normalised trace context is always usable: both identifiers are non-empty, at most 128
  characters long and made of letters, digits and \<open>_ . : -\<close> only, whatever the caller sent in the
  headers, and the block of \<open>bind_trace_context\<close> leaves the caller's context as it was.\<close>

theorem trace_context_safe:
  assumes "fresh \<noteq> []" and "length fresh \<le> 128" and "list_all token_char fresh"
  shows "let c = normalize_trace_context fresh t r in
      (\<forall>x \<in> {tc_trace_id c, tc_request_id c}. x \<noteq> [] \<and> length x \<le> 128 \<and> list_all token_char x)
    \<and> trace_id (snd (bind_trace_context fresh t r block w)) = trace_id w
    \<and> request_id (snd (bind_trace_context fresh t r block w)) = request_id w"
  using assms clean_token_safe [of t] clean_token_safe [of r]
  by (auto simp: normalize_trace_context_def bind_trace_context_def Let_def str_or_def split: prod.splits)

theorem trace_context_safe_witness:
  "let c = normalize_trace_context ''f0'' '' <x> '' ''a b'' in
      (\<forall>x \<in> {tc_trace_id c, tc_request_id c}. x \<noteq> [] \<and> length x \<le> 128 \<and> list_all token_char x)
    \<and> trace_id (snd (bind_trace_context ''f0'' '' <x> '' ''a b'' (\<lambda>w. ((), w)) empty_world)) = trace_id empty_world
    \<and> request_id (snd (bind_trace_context ''f0'' '' <x> '' ''a b'' (\<lambda>w. ((), w)) empty_world)) = request_id empty_world"
  by (rule trace_context_safe) code_simp+

text \<open>A 32-digit hexadecimal trace id survives the trip through a \<open>traceparent\<close> header: parsing
  the header that was built from it gives the trace id back, in lower case.\<close>

theorem traceparent_roundtrip:
  assumes "length t = 32" and "list_all is_hex t" and "list_all is_hex spanid" and "spanid \<noteq> []"
  shows "trace_id_from_traceparent (traceparent_from_trace_id fresh spanid t) = py_lower t"
proof -
  let ?sp = "take 16 spanid"
  have dash: "CHR ''-'' \<notin> set t" "CHR ''-'' \<notin> set ?sp"
    using assms hex_facts(1) by (auto simp: list_all_iff dest: in_set_takeD)
  have eq: "traceparent_from_trace_id fresh spanid t = ''00'' @ CHR ''-'' # t @ CHR ''-'' # ?sp @ CHR ''-'' # ''01''"
    using assms by (auto simp: traceparent_from_trace_id_def clean_token_hex str_or_def ljust_def)
  have "py_strip (traceparent_from_trace_id fresh spanid t) = traceparent_from_trace_id fresh spanid t"
    unfolding eq py_strip_def
    by (rule strip_none) (use assms hex_facts(2) in
      \<open>auto simp: list_all_iff is_space_def ordc_def Let_def dest: in_set_takeD\<close>)
  moreover have "split_on CHR ''-'' (traceparent_from_trace_id fresh spanid t) = [''00'', t, ?sp, ''01'']"
    unfolding eq by (subst split_on_append, simp)+ (simp add: dash split_on_append)
  ultimately show ?thesis using assms by (simp add: trace_id_from_traceparent_def Let_def)
qed

theorem traceparent_roundtrip_witness:
  "trace_id_from_traceparent (traceparent_from_trace_id ''f'' ''0123456789abcdef''
     ''0123456789ABCDEF0123456789abcdef'') = py_lower ''0123456789ABCDEF0123456789abcdef''"
  by (rule traceparent_roundtrip) code_simp+

end
