(* ===== verification/Clock.thy ===== *)
theory Clock
  imports Py_Values
begin

text \<open>
  Instants in text form: \<open>datetime.isoformat()\<close> of an aware UTC \<open>datetime\<close>, for an instant given as
  the number of seconds since 1970-01-01T00:00Z (resolution one microsecond). And \<open>float(s)\<close>.
\<close>

section \<open>ISO timestamps\<close>

text \<open>The proleptic Gregorian date of a day number (day 0 is 1970-01-01).\<close>

definition civil_of_days :: "int \<Rightarrow> int \<times> int \<times> int" where
  "civil_of_days n =
     (let z = n + 719468; era = z div 146097; doe = z mod 146097;
          yoe = (doe - doe div 1460 + doe div 36524 - doe div 146096) div 365;
          doy = doe - (365 * yoe + yoe div 4 - yoe div 100);
          mp = (5 * doy + 2) div 153;
          d = doy - (153 * mp + 2) div 5 + 1;
          m = (if mp < 10 then mp + 3 else mp - 9)
      in (yoe + era * 400 + (if m \<le> 2 then 1 else 0), m, d))"

definition pad_int :: "nat \<Rightarrow> int \<Rightarrow> string" where
  "pad_int n i = (let s = int_str i in replicate (n - length s) CHR ''0'' @ s)"

definition isoformat :: "rat \<Rightarrow> string" where
  "isoformat t =
     (let us = \<lfloor>t * 1000000\<rfloor>; secs = us div 1000000; frac = us mod 1000000;
          days = secs div 86400; rest = secs mod 86400
      in case civil_of_days days of (y, m, d) \<Rightarrow>
        pad_int 4 y @ ''-'' @ pad_int 2 m @ ''-'' @ pad_int 2 d @ ''T'' @
        pad_int 2 (rest div 3600) @ '':'' @ pad_int 2 (rest div 60 mod 60) @ '':'' @ pad_int 2 (rest mod 60) @
        (if frac = 0 then '''' else ''.'' @ pad_int 6 frac) @ ''+00:00'')"

lemma isoformat_examples:
  "isoformat 0 = ''1970-01-01T00:00:00+00:00''"
  "isoformat 951826554 = ''2000-02-29T12:15:54+00:00''"
  "isoformat (1767225599 + 1 / 2) = ''2025-12-31T23:59:59.500000+00:00''"
  by code_simp+

text \<open>\<open>datetime.fromisoformat\<close> of the extended format \<open>YYYY-MM-DD[*HH[:MM[:SS[.f]]][+HH:MM[:SS]]]\<close>, where
  \<open>*\<close> is any one character; a text without offset is taken as UTC, which is what the callers do with it.
  The compact and week-date spellings are not modelled.\<close>

definition days_of_civil :: "int \<Rightarrow> int \<Rightarrow> int \<Rightarrow> int" where
  "days_of_civil y m d =
     (let y1 = (if m \<le> 2 then y - 1 else y); era = y1 div 400; yoe = y1 mod 400;
          doy = (153 * (if m > 2 then m - 3 else m + 9) + 2) div 5 + d - 1;
          doe = yoe * 365 + yoe div 4 - yoe div 100 + doy
      in era * 146097 + doe - 719468)"

definition month_days :: "int \<Rightarrow> int \<Rightarrow> int" where
  "month_days y m =
     (if m = 2 then (if y mod 4 = 0 \<and> (y mod 100 \<noteq> 0 \<or> y mod 400 = 0) then 29 else 28)
      else if m \<in> {4, 6, 9, 11} then 30 else 31)"

definition fixed_digits :: "nat \<Rightarrow> string \<Rightarrow> int option" where
  "fixed_digits n s = (if length s = n \<and> list_all is_digit s
     then Some (foldl (\<lambda>a c. 10 * a + (ordc c - 48)) 0 s) else None)"

definition parse_date :: "string \<Rightarrow> int option" where
  "parse_date s = (case split_on CHR ''-'' s of
     [a, b, c] \<Rightarrow> (case (fixed_digits 4 a, fixed_digits 2 b, fixed_digits 2 c) of
        (Some y, Some m, Some d) \<Rightarrow>
          if 1 \<le> y \<and> 1 \<le> m \<and> m \<le> 12 \<and> 1 \<le> d \<and> d \<le> month_days y m then Some (days_of_civil y m d) else None
      | _ \<Rightarrow> None)
   | _ \<Rightarrow> None)"

definition below :: "int \<Rightarrow> int option \<Rightarrow> rat option" where
  "below hi x = (case x of Some n \<Rightarrow> if n < hi then Some (of_int n) else None | None \<Rightarrow> None)"

definition parse_seconds :: "string \<Rightarrow> rat option" where
  "parse_seconds s =
     (let whole = takeWhile (\<lambda>c. c \<noteq> CHR ''.'' \<and> c \<noteq> CHR '','') s; rest = drop (length whole) s
      in case below 60 (fixed_digits 2 whole) of
           None \<Rightarrow> None
         | Some n \<Rightarrow>
             if rest = [] then Some n
             else let f = take 6 (tl rest)
                  in if tl rest \<noteq> [] \<and> list_all is_digit (tl rest)
                     then map_option (\<lambda>k. n + of_int k / 10 ^ length f) (fixed_digits (length f) f) else None)"

definition parse_time :: "string \<Rightarrow> rat option" where
  "parse_time s = (case split_on CHR '':'' s of
     [h] \<Rightarrow> map_option (\<lambda>x. 3600 * x) (below 24 (fixed_digits 2 h))
   | [h, m] \<Rightarrow> (case (below 24 (fixed_digits 2 h), below 60 (fixed_digits 2 m)) of
        (Some x, Some y) \<Rightarrow> Some (3600 * x + 60 * y) | _ \<Rightarrow> None)
   | [h, m, sec] \<Rightarrow> (case (below 24 (fixed_digits 2 h), below 60 (fixed_digits 2 m), parse_seconds sec) of
        (Some x, Some y, Some z) \<Rightarrow> Some (3600 * x + 60 * y + z) | _ \<Rightarrow> None)
   | _ \<Rightarrow> None)"

definition fromisoformat :: "string \<Rightarrow> rat option" where
  "fromisoformat s = (case parse_date (take 10 s) of
     None \<Rightarrow> None
   | Some days \<Rightarrow>
       if length s = 10 then Some (86400 * of_int days)
       else
         let rest = drop 11 s; t = takeWhile (\<lambda>c. c \<noteq> CHR ''+'' \<and> c \<noteq> CHR ''-'') rest; z = drop (length t) rest
         in case parse_time t of
              None \<Rightarrow> None
            | Some x \<Rightarrow>
                if z = [] then Some (86400 * of_int days + x)
                else map_option (\<lambda>off. 86400 * of_int days + x - (if hd z = CHR ''-'' then - off else off))
                       (parse_time (tl z)))"

lemma fromisoformat_examples:
  "fromisoformat (isoformat 951826554) = Some 951826554"
  "fromisoformat (isoformat (1767225599 + 1 / 2)) = Some (1767225599 + 1 / 2)"
  "fromisoformat ''2026-01-01'' = Some 1767225600" "fromisoformat ''2026-01-01T02:00+02:00'' = Some 1767225600"
  "fromisoformat ''2026-02-29'' = None" "fromisoformat ''tomorrow'' = None"
  by code_simp+

text \<open>\<open>now.replace(second=0, microsecond=0)\<close>.\<close>

definition minute_of :: "rat \<Rightarrow> int" where
  "minute_of now = \<lfloor>now / 60\<rfloor>"

definition minute_start :: "rat \<Rightarrow> rat" where
  "minute_start now = of_int (60 * minute_of now)"

section \<open>\<open>float(s)\<close>\<close>

datatype pyfloat = Fin rat | PosInf | NegInf | NaN

definition digits_only :: "string \<Rightarrow> bool" where
  "digits_only s = (s \<noteq> [] \<and> list_all is_digit s)"

definition int_of_digits :: "string \<Rightarrow> int" where
  "int_of_digits s = foldl (\<lambda>n c. 10 * n + (ordc c - 48)) 0 s"

text \<open>Unsigned decimal notation \<open>digits[.digits][e[sign]digits]\<close> with at least one digit in the mantissa
  (underscores between digits are not modelled).\<close>

definition mantissa_val :: "string \<Rightarrow> rat option" where
  "mantissa_val s = (case split_on CHR ''.'' s of
     [a] \<Rightarrow> if digits_only a then Some (of_int (int_of_digits a)) else None
   | [a, b] \<Rightarrow>
       if list_all is_digit (a @ b) \<and> a @ b \<noteq> []
       then Some (of_int (int_of_digits (a @ b)) / 10 ^ length b) else None
   | _ \<Rightarrow> None)"

definition exponent_val :: "string \<Rightarrow> int option" where
  "exponent_val s = (case s of
     [] \<Rightarrow> None
   | c # cs \<Rightarrow>
       if c = CHR ''-'' then (if digits_only cs then Some (- int_of_digits cs) else None)
       else if c = CHR ''+'' then (if digits_only cs then Some (int_of_digits cs) else None)
       else if digits_only s then Some (int_of_digits s) else None)"

definition decimal_val :: "string \<Rightarrow> rat option" where
  "decimal_val s = (case split_on CHR ''e'' (py_lower s) of
     [m] \<Rightarrow> mantissa_val m
   | [m, e] \<Rightarrow> (case (mantissa_val m, exponent_val e) of
        (Some x, Some k) \<Rightarrow> Some (if 0 \<le> k then x * 10 ^ nat k else x / 10 ^ nat (- k))
      | _ \<Rightarrow> None)
   | _ \<Rightarrow> None)"

definition unsigned_float :: "string \<Rightarrow> pyfloat option" where
  "unsigned_float s =
     (if py_lower s \<in> {''inf'', ''infinity''} then Some PosInf
      else if py_lower s = ''nan'' then Some NaN
      else map_option Fin (decimal_val s))"

fun neg_float :: "pyfloat \<Rightarrow> pyfloat" where
  "neg_float (Fin r) = Fin (- r)"
| "neg_float PosInf = NegInf"
| "neg_float NegInf = PosInf"
| "neg_float NaN = NaN"

definition float_of_str :: "string \<Rightarrow> pyfloat option" where
  "float_of_str s = (case py_strip s of
     [] \<Rightarrow> None
   | c # cs \<Rightarrow>
       if c = CHR ''-'' then map_option neg_float (unsigned_float cs)
       else if c = CHR ''+'' then unsigned_float cs
       else unsigned_float (c # cs))"

lemma float_of_str_examples:
  "float_of_str '' 2.5 '' = Some (Fin (5 / 2))" "float_of_str ''-1e2'' = Some (Fin (- 100))"
  "float_of_str ''.5'' = Some (Fin (1 / 2))" "float_of_str ''Wed, 21 Oct'' = None" "float_of_str ''inf'' = Some PosInf"
  by code_simp+

end
