(* ===== verification/Ops.thy ===== *)
theory Ops
  imports Models Clock
begin

text \<open>
  Operations that may raise, as functions from a state to a result or an exception and a new state, with
  sequencing (\<open>op_bind\<close>), and the Python conversions the services share: \<open>d[k]\<close>, \<open>d.get(k, default)\<close>,
  \<open>float(x)\<close>, iteration over lists. The lemmas of \<open>op_simps\<close> read the outcome of a sequence off its parts.
\<close>

named_theorems op_simps \<open>outcomes of sequenced operations\<close>

section \<open>Operations that may raise\<close>

type_synonym 'a op = "world \<Rightarrow> (exc + 'a) \<times> world"

definition op_bind :: "'a op \<Rightarrow> ('a \<Rightarrow> 'b op) \<Rightarrow> 'b op" where
  "op_bind m f w = (case m w of (Inl e, w1) \<Rightarrow> (Inl e, w1) | (Inr x, w1) \<Rightarrow> f x w1)"

definition op_ok :: "'a \<Rightarrow> 'a op" where
  "op_ok x w = (Inr x, w)"

definition op_raise :: "exc \<Rightarrow> 'a op" where
  "op_raise e w = (Inl e, w)"

definition op_lift :: "exc + 'a \<Rightarrow> 'a op" where
  "op_lift r w = (r, w)"

fun op_traverse :: "('a \<Rightarrow> exc + 'b) \<Rightarrow> 'a list \<Rightarrow> exc + 'b list" where
  "op_traverse f [] = Inr []"
| "op_traverse f (x # xs) =
     (case f x of Inl e \<Rightarrow> Inl e | Inr y \<Rightarrow> map_sum id ((#) y) (op_traverse f xs))"

text \<open>\<open>d[k]\<close>; \<open>d.get(k, default)\<close>; \<open>float(x)\<close>; \<open>{k: d[k] or d.get(k, default), ...}\<close>.\<close>

definition dreq :: "string \<Rightarrow> dict \<Rightarrow> exc + json" where
  "dreq k d = (case map_of d k of None \<Rightarrow> Inl (KeyError k) | Some v \<Rightarrow> Inr v)"

definition dget_default :: "string \<Rightarrow> json \<Rightarrow> dict \<Rightarrow> json" where
  "dget_default k df d = (case map_of d k of None \<Rightarrow> df | Some v \<Rightarrow> v)"

fun py_float :: "json \<Rightarrow> exc + pyfloat" where
  "py_float (JBool b) = Inr (Fin (if b then 1 else 0))"
| "py_float (JInt i) = Inr (Fin (of_int i))"
| "py_float (JFloat r) = Inr (Fin r)"
| "py_float (JStr s) = (case float_of_str s of
     None \<Rightarrow> Inl (ValueError (''could not convert string to float: '' @ py_repr_str s)) | Some x \<Rightarrow> Inr x)"
| "py_float _ = Inl (TypeError ''float() argument must be a string or a real number'')"

definition pick :: "(string \<times> json option) list \<Rightarrow> dict \<Rightarrow> exc + dict" where
  "pick keys d = op_traverse (\<lambda>(k, df). map_sum id (Pair k)
     (case df of None \<Rightarrow> dreq k d | Some v \<Rightarrow> Inr (dget_default k v d))) keys"

section \<open>Outcomes\<close>

lemma op_prims [simp]: "op_ok x w = (Inr x, w)" "op_raise e w = (Inl e, w)" "op_lift r w = (r, w)"
  by (simp_all add: op_ok_def op_raise_def op_lift_def)

lemma op_bind_Inr [op_simps]:
  "op_bind m f w = (Inr y, w') \<longleftrightarrow> (\<exists>x w1. m w = (Inr x, w1) \<and> f x w1 = (Inr y, w'))"
  by (auto simp: op_bind_def split: prod.splits sum.splits)

lemma op_bind_Inl [op_simps]:
  "op_bind m f w = (Inl e, w') \<longleftrightarrow> m w = (Inl e, w') \<or> (\<exists>x w1. m w = (Inr x, w1) \<and> f x w1 = (Inl e, w'))"
  by (auto simp: op_bind_def split: prod.splits sum.splits)

text \<open>What every step keeps, the sequence keeps.\<close>

lemma op_bind_keeps:
  assumes "\<And>w. keep w (snd (m w))" and "\<And>x w. keep w (snd (f x w))" and "\<And>a b c. keep a b \<Longrightarrow> keep b c \<Longrightarrow> keep a c"
  shows "keep w (snd (op_bind m f w))"
  using assms(1) [of w] assms(2,3) by (auto simp: op_bind_def split: prod.split sum.split)

lemma op_traverse_length: "op_traverse f xs = Inr ys \<Longrightarrow> length ys = length xs"
proof (induction xs arbitrary: ys)
  case (Cons x xs)
  then show ?case by (cases "f x"; cases "op_traverse f xs") auto
qed simp

section \<open>Results of the maintenance runtimes\<close>

text \<open>What \<open>DreamRuntime.run_review\<close> and \<open>HeartbeatRuntime.run_check\<close> hand to their callers, the worker tasks.\<close>

record dream_result =
  dr_scanned_memories :: int
  dr_failed_tool_runs :: int
  dr_proposals_created :: int
  dr_proposal_ids :: "string list"

record heartbeat_result =
  hb_status :: string
  hb_active_tasks :: int
  hb_proposals_created :: int
  hb_proposal_ids :: "string list"

end
