(* ===== verification/Worker.thy ===== *)
theory Worker
  imports Jobs Trace Ops
begin

text \<open>
  The worker of \<open>backend/worker/tasks.py\<close>: \<open>_run_job\<close> and the Celery tasks, and the life of a
  job as a state machine over the transactions of the scheduler, the API and the workers.

  \<open>_run_job\<close> runs three transactions: it claims the job, runs the task body and settles the job.
  The services the bodies call (dream, wiki, skills, mcp, heartbeat) are parameters, collected in the
  record \<open>task_services\<close>. Each transaction is one step of the machine, so two workers' transactions
  are interleaved in any order but each is atomic: claiming reads and writes the job row in one
  transaction without a row lock, and a database that lets two claims read the row at the same time
  is outside the model.
\<close>

section \<open>\<open>_run_job\<close>\<close>

text \<open>The claiming transaction: \<open>Inl\<close> of the result is the \<open>skipped\<close> answer, \<open>Inr\<close> the attempt and the
  limit the worker goes on with.\<close>

definition claim_job ::
  "string \<Rightarrow> instant \<Rightarrow> instant \<Rightarrow> instant \<Rightarrow> uuid \<Rightarrow> world \<Rightarrow> (exc + (dict + int \<times> int)) \<times> world" where
  "claim_job lock_owner now started locked i = session_scope True (\<lambda>w.
     case get_job w i of
       None \<Rightarrow> (Inl (KeyError (''background job not found: '' @ i)), w)
     | Some j \<Rightarrow>
         if \<not> should_run j now
         then (Inr (Inl [(''status'', JStr ''skipped''), (''job_status'', JStr (job_status j)),
                (''reason'', JStr ''not runnable or waiting for retry window'')]), w)
         else (case mark_started True i lock_owner started locked w of
             (Inl e, w1) \<Rightarrow> (Inl e, w1)
           | (Inr _, w1) \<Rightarrow>
               (case get_job w1 i of
                  None \<Rightarrow> (Inl (KeyError (''background job not found: '' @ i)), w1)
                | Some j1 \<Rightarrow>
                    (Inr (Inr (job_attempt_count j1,
                       if job_max_attempts j1 = 0 then 3 else job_max_attempts j1)), w1))))"

definition settle_failed :: "int \<Rightarrow> int \<Rightarrow> exc \<Rightarrow> instant \<Rightarrow> uuid \<Rightarrow> world \<Rightarrow> (exc + uuid) \<times> world" where
  "settle_failed attempt max_attempts e now i = session_scope True
     (if attempt \<ge> max_attempts then mark_dead_letter True i (exc_str e) now
      else mark_retrying True i (exc_str e) None now)"

definition settle_succeeded :: "dict \<Rightarrow> instant \<Rightarrow> uuid \<Rightarrow> world \<Rightarrow> (exc + uuid) \<times> world" where
  "settle_succeeded result now i = session_scope True (mark_succeeded True i result now)"

text \<open>The clock readings of one run, in the order they are taken, and a fresh trace id.\<close>

record run_env =
  rn_now :: instant
  rn_started :: instant
  rn_locked :: instant
  rn_settled :: instant
  rn_owner :: string
  rn_fresh :: string

type_synonym body = "world \<Rightarrow> (exc + dict) \<times> world"

definition run_body :: "run_env \<Rightarrow> uuid \<Rightarrow> int \<Rightarrow> int \<Rightarrow> body \<Rightarrow> world \<Rightarrow> (exc + dict) \<times> world" where
  "run_body env i attempt max_attempts fn w =
     (case session_scope True fn w of
        (Inl e, w2) \<Rightarrow>
          (case settle_failed attempt max_attempts e (rn_settled env) i w2 of
             (Inl e', w3) \<Rightarrow> (Inl e', w3)
           | (Inr _, w3) \<Rightarrow> (Inl e, w3))
      | (Inr result, w2) \<Rightarrow>
          (case settle_succeeded result (rn_settled env) i w2 of
             (Inl e', w3) \<Rightarrow> (Inl e', w3)
           | (Inr _, w3) \<Rightarrow> (Inr result, w3)))"

definition run_job :: "run_env \<Rightarrow> string \<Rightarrow> body \<Rightarrow> world \<Rightarrow> (exc + dict) \<times> world" where
  "run_job env job_id_text fn w =
     (case uuid_parse job_id_text of
        None \<Rightarrow> (Inl (ValueError ''badly formed hexadecimal UUID string''), w)
      | Some i \<Rightarrow>
          (case claim_job (rn_owner env) (rn_now env) (rn_started env) (rn_locked env) i w of
             (Inl e, w1) \<Rightarrow> (Inl e, w1)
           | (Inr (Inl skipped), w1) \<Rightarrow> (Inr skipped, w1)
           | (Inr (Inr (attempt, max_attempts)), w1) \<Rightarrow>
               (case get_job w i of
                  None \<Rightarrow> (Inl (KeyError (''background job not found: '' @ i)), w1)
                | Some j \<Rightarrow>
                    bind_trace_context (rn_fresh env) (job_trace_id j) (job_request_id j)
                      (run_body env i attempt max_attempts fn) w1)))"

section \<open>The tasks\<close>

record task_services =
  sv_run_review :: "int \<Rightarrow> int \<Rightarrow> world \<Rightarrow> (exc + dream_result) \<times> world"
  sv_wiki_compile :: body
  sv_wiki_lint :: body
  sv_wiki_repair :: "bool \<Rightarrow> string list \<Rightarrow> body"
  sv_skill_scan :: body
  sv_mcp_refresh_server :: "string \<Rightarrow> body"
  sv_mcp_refresh_all :: body
  sv_heartbeat_check :: "world \<Rightarrow> (exc + heartbeat_result) \<times> world"

definition dream_review_task :: "task_services \<Rightarrow> run_env \<Rightarrow> string \<Rightarrow> dict \<Rightarrow> world \<Rightarrow> (exc + dict) \<times> world" where
  "dream_review_task sv env jid payload = run_job env jid (\<lambda>w.
     case dint_or ''window_hours'' 24 payload of
       Inl e \<Rightarrow> (Inl e, w)
     | Inr window_hours \<Rightarrow>
         (case dint_or ''limit'' 50 payload of
            Inl e \<Rightarrow> (Inl e, w)
          | Inr limit \<Rightarrow>
              (case sv_run_review sv window_hours limit w of
                 (Inl e, w1) \<Rightarrow> (Inl e, w1)
               | (Inr r, w1) \<Rightarrow>
                   (Inr [(''scanned_memories'', JInt (dr_scanned_memories r)),
                         (''failed_tool_runs'', JInt (dr_failed_tool_runs r)),
                         (''proposals_created'', JInt (dr_proposals_created r)),
                         (''proposal_ids'', JList (map JStr (dr_proposal_ids r)))], w1))))"

definition wiki_compile_task :: "task_services \<Rightarrow> run_env \<Rightarrow> string \<Rightarrow> dict \<Rightarrow> world \<Rightarrow> (exc + dict) \<times> world" where
  "wiki_compile_task sv env jid payload = run_job env jid (sv_wiki_compile sv)"

definition wiki_lint_task :: "task_services \<Rightarrow> run_env \<Rightarrow> string \<Rightarrow> dict \<Rightarrow> world \<Rightarrow> (exc + dict) \<times> world" where
  "wiki_lint_task sv env jid payload = run_job env jid (sv_wiki_lint sv)"

definition wiki_repair_task :: "task_services \<Rightarrow> run_env \<Rightarrow> string \<Rightarrow> dict \<Rightarrow> world \<Rightarrow> (exc + dict) \<times> world" where
  "wiki_repair_task sv env jid payload =
     (let error_ids = map py_str (list_or_empty (dget ''error_ids'' payload));
          apply_safe = (if dhas ''apply_safe'' payload then truthy (dget ''apply_safe'' payload) else True)
      in run_job env jid (sv_wiki_repair sv apply_safe error_ids))"

definition skill_scan_task :: "task_services \<Rightarrow> run_env \<Rightarrow> string \<Rightarrow> dict \<Rightarrow> world \<Rightarrow> (exc + dict) \<times> world" where
  "skill_scan_task sv env jid payload = run_job env jid (sv_skill_scan sv)"

definition mcp_refresh_task :: "task_services \<Rightarrow> run_env \<Rightarrow> string \<Rightarrow> dict \<Rightarrow> world \<Rightarrow> (exc + dict) \<times> world" where
  "mcp_refresh_task sv env jid payload =
     (let server_name = dstr ''server_name'' payload
      in run_job env jid
           (if server_name \<noteq> [] then sv_mcp_refresh_server sv server_name else sv_mcp_refresh_all sv))"

definition heartbeat_check_task :: "task_services \<Rightarrow> run_env \<Rightarrow> string \<Rightarrow> dict \<Rightarrow> world \<Rightarrow> (exc + dict) \<times> world" where
  "heartbeat_check_task sv env jid payload = run_job env jid (\<lambda>w.
     case sv_heartbeat_check sv w of
       (Inl e, w1) \<Rightarrow> (Inl e, w1)
     | (Inr r, w1) \<Rightarrow>
         (Inr [(''status'', JStr (hb_status r)), (''active_tasks'', JInt (hb_active_tasks r)),
               (''proposals_created'', JInt (hb_proposals_created r)),
               (''proposal_ids'', JList (map JStr (hb_proposal_ids r)))], w1))"

section \<open>The life of a job as a state machine\<close>

text \<open>
  A state is the world and the workers in flight: job, attempt and limit of every worker between its
  claim and its settlement. A worker may also die (\<open>crash\<close>), and other code may write other tables
  (\<open>other\<close>), the task bodies among it.
\<close>

type_synonym flight = "(uuid \<times> int \<times> int) list"

inductive job_step :: "(string \<Rightarrow> string) \<Rightarrow> world \<times> flight \<Rightarrow> world \<times> flight \<Rightarrow> bool" for sha where
  enqueue: "get_job w i = None \<Longrightarrow>
     session_scope b (enqueue_background_job sha ev i oid q now t p tb c k n) w = (r, w') \<Longrightarrow>
     job_step sha (w, f) (w', f)"
| retry: "session_scope b (reschedule_job ev q oid now i reason) w = (r, w') \<Longrightarrow>
     job_step sha (w, f) (w', f)"
| cancel: "session_scope b (cancel_job ev i now) w = (r, w') \<Longrightarrow> job_step sha (w, f) (w', f)"
| dispatch: "(\<And>t j p q v. background_jobs (snd (broker t j p q v)) = background_jobs v) \<Longrightarrow>
     dispatch_outbox broker ev now clk limit w = (counts, w') \<Longrightarrow> job_step sha (w, f) (w', f)"
| claim: "claim_job owner now t1 t2 i w = (Inr (Inr (a, m)), w') \<Longrightarrow>
     job_step sha (w, f) (w', (i, a, m) # f)"
| skip: "claim_job owner now t1 t2 i w = (r, w') \<Longrightarrow> (\<And>x. r \<noteq> Inr (Inr x)) \<Longrightarrow>
     job_step sha (w, f) (w', f)"
| succeed: "(i, a, m) \<in> set f \<Longrightarrow> settle_succeeded res now i w = (r, w') \<Longrightarrow>
     job_step sha (w, f) (w', filter (\<lambda>x. fst x \<noteq> i) f)"
| fail: "(i, a, m) \<in> set f \<Longrightarrow> settle_failed a m e now i w = (r, w') \<Longrightarrow>
     job_step sha (w, f) (w', filter (\<lambda>x. fst x \<noteq> i) f)"
| crash: "job_step sha (w, f) (w, filter (\<lambda>x. fst x \<noteq> i) f)"
| other: "background_jobs w' = background_jobs w \<Longrightarrow> job_step sha (w, f) (w', f)"

definition job_statuses :: "string list" where
  "job_statuses = [''queued'', ''retrying'', ''running''] @ TERMINAL_JOB_STATUSES"

definition job_row_ok :: "bg_job \<Rightarrow> bool" where
  "job_row_ok j \<longleftrightarrow>
     job_status j \<in> set job_statuses \<and> 0 \<le> job_attempt_count j \<and> job_attempt_count j \<le> job_max_attempts j \<and>
     1 \<le> job_max_attempts j \<and>
     (job_status j \<in> set RETRYABLE_JOB_STATUSES \<longrightarrow> job_attempt_count j < job_max_attempts j) \<and>
     (job_locked_at j \<noteq> None \<longleftrightarrow> job_status j = ''running'')"

definition flight_ok :: "bg_job \<Rightarrow> int \<Rightarrow> int \<Rightarrow> bool" where
  "flight_ok j a m \<longleftrightarrow> job_attempt_count j = a \<and> job_max_attempts j = m \<and>
     job_status j \<in> {''running'', ''cancelled'', ''dead_letter''}"

definition job_inv :: "world \<times> flight \<Rightarrow> bool" where
  "job_inv s = (case s of (w, f) \<Rightarrow>
     distinct (map job_id (background_jobs w)) \<and> list_all job_row_ok (background_jobs w) \<and>
     distinct (map fst f) \<and>
     (\<forall>(i, a, m) \<in> set f. \<exists>j. get_job w i = Some j \<and> flight_ok j a m))"

lemmas job_inv_defs = job_row_ok_def flight_ok_def job_statuses_def TERMINAL_JOB_STATUSES_def
  RETRYABLE_JOB_STATUSES_def

lemma job_inv_row: "job_inv (w, f) \<Longrightarrow> get_job w i = Some j \<Longrightarrow> job_row_ok j"
  using get_job_mem by (auto simp: job_inv_def list_all_iff)

lemma job_inv_flight: "job_inv (w, f) \<Longrightarrow> (i, a, m) \<in> set f \<Longrightarrow> \<exists>j. get_job w i = Some j \<and> flight_ok j a m"
  by (auto simp: job_inv_def)

text \<open>Every step rewrites one row, adds one row, or leaves the table alone.\<close>

lemma job_inv_same:
  "job_inv (w, f) \<Longrightarrow> background_jobs w' = background_jobs w \<Longrightarrow> job_inv (w', f)"
  by (auto simp: job_inv_def get_job_def)

lemma job_inv_filter: "job_inv (w, f) \<Longrightarrow> job_inv (w, filter P f)"
  by (auto simp: job_inv_def distinct_map_filter)

lemma job_inv_upd:
  assumes inv: "job_inv (w, f)" and jobs: "background_jobs w' = upd_row job_id i g (background_jobs w)"
    and id: "\<And>j. job_id (g j) = job_id j"
    and row: "\<And>j. get_job w i = Some j \<Longrightarrow> job_row_ok (g j)"
    and fl: "\<And>j a m. get_job w i = Some j \<Longrightarrow> (i, a, m) \<in> set f \<Longrightarrow> flight_ok j a m \<Longrightarrow> flight_ok (g j) a m"
  shows "job_inv (w', f)"
proof -
  have d: "distinct (map job_id (background_jobs w))" using inv by (simp add: job_inv_def)
  have get: "get_job w' k = (if k = i then map_option g (get_job w i) else get_job w k)" for k
    using jobs by (simp add: get_job_def get_row_upd id)
  have "job_row_ok j" if "j \<in> set (background_jobs w')" for j
  proof -
    from that [unfolded jobs] consider "j \<in> set (background_jobs w)"
      | q where "q \<in> set (background_jobs w)" "job_id q = i" "j = g q"
      by (blast dest: set_upd_row)
    then show ?thesis
    proof cases
      case 2
      then have "get_job w i = Some q" using get_row_distinct [OF d] by (auto simp: get_job_def)
      then show ?thesis using row 2 by simp
    qed (use inv in \<open>auto simp: job_inv_def list_all_iff\<close>)
  qed
  moreover have "\<exists>j. get_job w' k = Some j \<and> flight_ok j a m" if k: "(k, a, m) \<in> set f" for k a m
    using job_inv_flight [OF inv k] fl k by (auto simp: get)
  moreover have "distinct (map job_id (background_jobs w'))"
    using d by (simp add: jobs map_key_upd_row id)
  ultimately show ?thesis using inv by (auto simp: job_inv_def list_all_iff)
qed

lemma upd_row_absent: "get_row key k rs = None \<Longrightarrow> upd_row key k g rs = rs"
  by (auto simp: upd_row_def get_row_None intro!: map_idI)

lemma jobs_mark:
  "background_jobs (snd (mark_succeeded ev i res now w)) = upd_row job_id i
     (\<lambda>j. j\<lparr>job_status := ''succeeded'', job_result := res, job_finished_at := Some now,
        job_next_retry_at := None, job_dead_letter_reason := '''', job_locked_at := None,
        job_lock_owner := ''''\<rparr>) (background_jobs w)"
  "background_jobs (snd (mark_dead_letter ev i e now w)) = upd_row job_id i
     (\<lambda>j. j\<lparr>job_status := ''dead_letter'', job_error := e, job_dead_letter_reason := e,
        job_finished_at := Some now, job_next_retry_at := None, job_locked_at := None,
        job_lock_owner := ''''\<rparr>) (background_jobs w)"
  by (auto simp: mark_defs get_job_def upd_row_absent Let_def split: option.splits)

lemma session_scope_jobs:
  assumes "session_scope b body w = (r, w')"
  shows "background_jobs w' = background_jobs w \<or> body w = (r, w') \<and> (\<exists>x. r = Inr x)"
  using assms by (auto simp: session_scope_def rollback_def Let_def split: prod.splits sum.splits if_splits)

lemma inv_dead_letter:
  assumes inv: "job_inv (w, f)"
  shows "job_inv (snd (mark_dead_letter ev i e now w), f)"
  by (rule job_inv_upd [OF inv jobs_mark(2)]) (use job_inv_row [OF inv] in \<open>auto simp: job_inv_defs\<close>)

interpretation job_inv_frame: outbox_frame "\<lambda>v. job_inv (v, f)" for f
  by unfold_locales (rule inv_dead_letter | erule job_inv_same, simp | assumption)+

lemma inv_reschedule:
  assumes inv: "job_inv (w, f)" and s: "session_scope b (reschedule_job ev q oid now i reason) w = (r, w')"
  shows "job_inv (w', f)"
  using session_scope_jobs [OF s]
proof
  assume r: "reschedule_job ev q oid now i reason w = (r, w') \<and> (\<exists>x. r = Inr x)"
  then obtain j where j: "get_job w i = Some j" "job_status j \<in> set RETRYABLE_JOB_STATUSES"
    and sd: "schedule_dispatch ev q oid now i reason w = (r, w')"
    by (auto simp: reschedule_job_def split: option.splits if_splits)
  show ?thesis
    by (rule job_inv_upd [OF inv schedule_dispatch_frame(3) [OF sd]])
      (use j job_inv_row [OF inv] in \<open>auto simp: job_inv_defs\<close>)
qed (use job_inv_same [OF inv] in simp)

lemma inv_cancel:
  assumes inv: "job_inv (w, f)" and s: "session_scope b (cancel_job ev i now) w = (r, w')"
  shows "job_inv (w', f)"
  using session_scope_jobs [OF s]
proof
  assume r: "cancel_job ev i now w = (r, w') \<and> (\<exists>x. r = Inr x)"
  then have jobs: "background_jobs w' = upd_row job_id i (\<lambda>j. j\<lparr>job_status := ''cancelled'',
      job_finished_at := Some now, job_locked_at := None, job_lock_owner := ''''\<rparr>) (background_jobs w)"
    by (auto simp: cancel_job_def split: option.splits if_splits)
  show ?thesis
    by (rule job_inv_upd [OF inv jobs]) (use job_inv_row [OF inv] in \<open>auto simp: job_inv_defs\<close>)
qed (use job_inv_same [OF inv] in simp)

lemma inv_enqueue:
  assumes inv: "job_inv (w, f)" and fresh: "get_job w i = None"
    and s: "session_scope b (enqueue_background_job sha ev i oid q now t p tb c k n) w = (r, w')"
  shows "job_inv (w', f)"
  using session_scope_jobs [OF s]
proof
  assume r: "enqueue_background_job sha ev i oid q now t p tb c k n w = (r, w') \<and> (\<exists>x. r = Inr x)"
  then have eq: "enqueue_background_job sha ev i oid q now t p tb c k n w = (r, w')" by simp
  let ?k = "effective_key sha t p tb c k"
  note f = idempotency_status_frame [of sha "''background_job''" ?k "request_dict t p tb c" w]
  from eq show ?thesis
  proof (cases rule: enqueue_cases)
    case (created st w1 w2 r')
    let ?j = "new_job i now t p tb c ?k n w1"
    have b1: "background_jobs w1 = background_jobs w" using f created(1) by simp
    have b2: "background_jobs w2 = background_jobs w @ [?j]"
      using create_job_new(2) [OF created(3), of ev i now t p tb c n] created(4) b1 by simp
    have "job_row_ok ?j" by (auto simp: new_job_def job_inv_defs)
    then have inv2: "job_inv (w2, f)"
      using inv fresh b2
      by (auto simp: job_inv_def get_job_def get_row_append get_row_None new_job_def split: option.splits)
    have g2: "get_job w2 i = Some ?j"
      using fresh b2 by (simp add: get_job_def get_row_append new_job_def)
    show ?thesis
      by (rule job_inv_upd [OF inv2 schedule_dispatch_frame(3) [OF created(5)]])
        (use g2 in \<open>auto simp: new_job_def job_inv_defs\<close>)
  qed (use r f job_inv_same [OF inv] in auto)
qed (use job_inv_same [OF inv] in simp)

lemma inv_claim:
  assumes inv: "job_inv (w, f)" and c: "claim_job owner now t1 t2 i w = (Inr (Inr (a, m)), w')"
  shows "job_inv (w', (i, a, m) # f)" and "i \<notin> fst ` set f"
proof -
  obtain j where j: "get_job w i = Some j" "should_run j now"
    using c by (auto simp: claim_job_def session_scope_def split: option.splits if_splits sum.splits prod.splits)
  have row: "job_row_ok j" using job_inv_row [OF inv j(1)] .
  have live: "job_status j \<notin> set TERMINAL_JOB_STATUSES" "job_status j \<noteq> ''running''"
    using j(2) by (auto simp: should_run_def split: if_splits)
  have nf: "(i, a', m') \<notin> set f" for a' m'
    using job_inv_flight [OF inv, of i a' m'] j(1) live by (auto simp: flight_ok_def TERMINAL_JOB_STATUSES_def)
  then show "i \<notin> fst ` set f" by auto
  let ?g = "\<lambda>j. j\<lparr>job_status := ''running'', job_attempt_count := job_attempt_count j + 1,
          job_started_at := Some t1, job_finished_at := None, job_error := '''',
          job_locked_at := Some t2, job_lock_owner := owner\<rparr>"
  have jobs: "background_jobs w' = upd_row job_id i ?g (background_jobs w)"
    and am: "a = job_attempt_count j + 1" "m = job_max_attempts j"
    using c j live row
    by (auto simp: claim_job_def session_scope_def mark_started_def with_job_def get_job_upd job_row_ok_def
      split: if_splits)
  have run: "job_row_ok (?g j)" "flight_ok (?g j) a m"
    using row live am by (auto simp: job_inv_defs)
  have inv': "job_inv (w', f)"
    by (rule job_inv_upd [OF inv jobs]) (use j(1) run nf in auto)
  moreover have "get_job w' i = Some (?g j)"
    using j(1) by (simp add: get_job_def jobs get_row_upd)
  ultimately show "job_inv (w', (i, a, m) # f)"
    using run(2) \<open>i \<notin> fst ` set f\<close> by (auto simp: job_inv_def)
qed

lemma inv_skip:
  assumes "job_inv (w, f)" and "claim_job owner now t1 t2 i w = (r, w')" and "\<And>x. r \<noteq> Inr (Inr x)"
  shows "job_inv (w', f)"
proof (rule job_inv_same [OF assms(1)])
  show "background_jobs w' = background_jobs w"
    using assms(2,3) by (auto simp: claim_job_def session_scope_def rollback_def Let_def
      split: option.splits if_splits sum.splits prod.splits)
qed

lemma inv_succeed:
  assumes inv: "job_inv (w, f)" and s: "settle_succeeded res now i w = (r, w')"
  shows "job_inv (w', filter (\<lambda>x. fst x \<noteq> i) f)"
proof -
  have inv': "job_inv (w, filter (\<lambda>x. fst x \<noteq> i) f)" by (rule job_inv_filter [OF inv])
  from session_scope_jobs [OF s [unfolded settle_succeeded_def]] show ?thesis
  proof
    assume "mark_succeeded True i res now w = (r, w') \<and> (\<exists>x. r = Inr x)"
    then have "w' = snd (mark_succeeded True i res now w)" by simp
    then show ?thesis
      using job_inv_upd [OF inv' jobs_mark(1) [of True i res now w]] job_inv_row [OF inv]
      by (auto simp: job_inv_defs)
  qed (use job_inv_same [OF inv'] in simp)
qed

lemma inv_fail:
  assumes inv: "job_inv (w, f)" and fl: "(i, a, m) \<in> set f" and s: "settle_failed a m e now i w = (r, w')"
  shows "job_inv (w', filter (\<lambda>x. fst x \<noteq> i) f)"
proof -
  have inv': "job_inv (w, filter (\<lambda>x. fst x \<noteq> i) f)" by (rule job_inv_filter [OF inv])
  obtain j where j: "get_job w i = Some j" "flight_ok j a m" using job_inv_flight [OF inv fl] by blast
  show ?thesis
  proof (cases "a \<ge> m")
    case True
    then have "background_jobs w' = background_jobs w \<or> w' = snd (mark_dead_letter True i (exc_str e) now w)"
      using session_scope_jobs [OF s [unfolded settle_failed_def]] by auto
    then show ?thesis using inv_dead_letter [OF inv'] job_inv_same [OF inv'] by auto
  next
    case False
    let ?d = "retry_delay_seconds (job_attempt_count j)"
    have "background_jobs w' = background_jobs w \<or> background_jobs w' = upd_row job_id i
       (\<lambda>j. j\<lparr>job_status := ''retrying'', job_error := exc_str e, job_next_retry_at := Some (now + of_int ?d),
          job_locked_at := None, job_lock_owner := ''''\<rparr>) (background_jobs w)"
      using session_scope_jobs [OF s [unfolded settle_failed_def]] False j(1)
      by (auto simp: mark_retrying_def with_job_def Let_def)
    then show ?thesis
    proof
      assume jobs: "background_jobs w' = upd_row job_id i
       (\<lambda>j. j\<lparr>job_status := ''retrying'', job_error := exc_str e, job_next_retry_at := Some (now + of_int ?d),
          job_locked_at := None, job_lock_owner := ''''\<rparr>) (background_jobs w)"
      show ?thesis
        by (rule job_inv_upd [OF inv' jobs])
          (use j False job_inv_row [OF inv j(1)] in \<open>auto simp: job_inv_defs\<close>)
    qed (use job_inv_same [OF inv'] in simp)
  qed
qed

lemma job_step_inv: "job_step sha s s' \<Longrightarrow> job_inv s \<Longrightarrow> job_inv s'"
proof (induction rule: job_step.induct)
  case (dispatch broker ev now clk limit w counts w' f)
  have "job_inv (snd (dispatch_outbox broker ev now clk limit w), f)"
    by (rule job_inv_frame.dispatch_outbox_keeps)
      (use dispatch(1,3) job_inv_same in blast)+
  then show ?case using dispatch(2) by simp
next
  case (skip owner now t1 t2 i w r w' f)
  then show ?case using inv_skip by blast
qed (auto intro: inv_enqueue inv_reschedule inv_cancel inv_claim inv_succeed inv_fail
    job_inv_filter elim: job_inv_same)

definition job_init :: "world \<times> flight \<Rightarrow> bool" where
  "job_init s = (background_jobs (fst s) = [] \<and> snd s = [])"

interpretation jobs_machine: machine job_init "job_step sha" job_inv for sha
proof
  show "job_inv s" if "job_init s" for s
    using that by (cases s) (simp add: job_init_def job_inv_def)
  show "job_inv t" if "job_inv s" "job_step sha s t" for s t
    using job_step_inv that by blast
qed

section \<open>Properties of the worker\<close>

definition uuid_a :: uuid where
  "uuid_a = ''00000000-0000-0000-0000-00000000000a''"

definition queued_world :: world where
  "queued_world = snd (enqueue_background_job id True uuid_a ''o'' ''q1'' 5 ''wiki_lint'' [] ''admin'' None [] 1
     empty_world)"

lemma queued_reachable: "(job_step id)\<^sup>*\<^sup>* (empty_world, []) (queued_world, [])"
proof -
  have r: "session_scope True (enqueue_background_job id True uuid_a ''o'' ''q1'' 5 ''wiki_lint'' [] ''admin''
      None [] 1) empty_world = (Inr uuid_a, queued_world)"
    by code_simp
  have "job_step id (empty_world, []) (queued_world, [])"
    by (rule job_step.enqueue [OF _ r]) code_simp
  then show ?thesis by simp
qed

lemma empty_init: "job_init (empty_world, [])"
  by (simp add: job_init_def empty_world_def)

text \<open>C1: Attempts are bounded. In every state that the scheduler, the API and any number of
  workers can reach, under every interleaving of their transactions and with workers that die, no job
  was started more than \<open>max_attempts\<close> times, a job that waits to run still has an attempt left, and
  the lock of a job is held exactly while it is running.\<close>

theorem job_attempts_bounded:
  assumes "job_init s" and "(job_step sha)\<^sup>*\<^sup>* s (w, f)" and "j \<in> set (background_jobs w)"
  shows "0 \<le> job_attempt_count j \<and> job_attempt_count j \<le> job_max_attempts j
    \<and> (job_status j \<in> {''queued'', ''retrying''} \<longrightarrow> job_attempt_count j < job_max_attempts j)
    \<and> (job_locked_at j \<noteq> None \<longleftrightarrow> job_status j = ''running'')"
proof -
  have "job_inv (w, f)" by (rule jobs_machine.reachable_inv [OF assms(1,2)])
  then show ?thesis
    using assms(3) by (auto simp: job_inv_def job_row_ok_def list_all_iff RETRYABLE_JOB_STATUSES_def)
qed

theorem job_attempts_bounded_witness:
  "let j = hd (background_jobs queued_world)
   in 0 \<le> job_attempt_count j \<and> job_attempt_count j \<le> job_max_attempts j
    \<and> (job_status j \<in> {''queued'', ''retrying''} \<longrightarrow> job_attempt_count j < job_max_attempts j)
    \<and> (job_locked_at j \<noteq> None \<longleftrightarrow> job_status j = ''running'')"
  unfolding Let_def by (rule job_attempts_bounded [OF empty_init queued_reachable]) code_simp



text \<open>What settling does to the row of the job.\<close>

lemma settle_succeeded_row:
  assumes "get_job w i = Some j"
  shows "fst (settle_succeeded res now i w) = Inr i"
    and "get_job (snd (settle_succeeded res now i w)) i = Some (j\<lparr>job_status := ''succeeded'',
        job_result := res, job_finished_at := Some now, job_next_retry_at := None,
        job_dead_letter_reason := '''', job_locked_at := None, job_lock_owner := ''''\<rparr>)"
  using assms get_job_cong [OF complete_idempotency_frame(1)]
  by (auto simp: settle_succeeded_def session_scope_def mark_succeeded_def with_job_def Let_def get_job_upd)

lemma settle_failed_row:
  assumes "get_job w i = Some j"
  shows "fst (settle_failed a m e now i w) = Inr i"
    and "get_job (snd (settle_failed a m e now i w)) i = Some (if a \<ge> m
      then j\<lparr>job_status := ''dead_letter'', job_error := exc_str e, job_dead_letter_reason := exc_str e,
             job_finished_at := Some now, job_next_retry_at := None, job_locked_at := None, job_lock_owner := ''''\<rparr>
      else j\<lparr>job_status := ''retrying'', job_error := exc_str e,
             job_next_retry_at := Some (now + of_int (retry_delay_seconds (job_attempt_count j))),
             job_locked_at := None, job_lock_owner := ''''\<rparr>)"
  using assms get_job_cong [OF complete_idempotency_frame(1)]
  by (auto simp: settle_failed_def session_scope_def mark_retrying_def mark_dead_letter_def with_job_def
    Let_def get_job_upd)

lemma claim_row:
  assumes "get_job w i = Some j" and "should_run j now"
  shows "\<exists>w1 j1. claim_job owner now t1 t2 i w =
      (Inr (Inr (job_attempt_count j + 1, if job_max_attempts j = 0 then 3 else job_max_attempts j)), w1)
    \<and> get_job w1 i = Some j1 \<and> job_attempt_count j1 = job_attempt_count j + 1 \<and> job_status j1 = ''running''"
  using assms
  by (auto simp: claim_job_def session_scope_def mark_started_def with_job_def get_job_upd should_run_def
    split: if_splits)

definition body_keeps_jobs :: "body \<Rightarrow> bool" where
  "body_keeps_jobs fn = (\<forall>w. background_jobs (snd (fn w)) = background_jobs w)"

lemma session_scope_body:
  assumes "body_keeps_jobs fn" and "session_scope True fn w = (r, w')"
  shows "get_job w' i = get_job w i" and "fst (fn w) = r"
proof -
  obtain r0 w0 where f: "fn w = (r0, w0)" by fastforce
  have "background_jobs w0 = background_jobs w" using assms(1) f unfolding body_keeps_jobs_def by (metis snd_conv)
  then show "get_job w' i = get_job w i" "fst (fn w) = r"
    using assms(2) f by (auto simp: session_scope_def rollback_def Let_def get_job_def split: sum.splits)
qed

text \<open>The row of the job after a body that ended with \<open>r\<close>.\<close>

definition settled_row :: "instant \<Rightarrow> int \<Rightarrow> int \<Rightarrow> exc + dict \<Rightarrow> bg_job \<Rightarrow> bg_job" where
  "settled_row now a m r j = (case r of
     Inr res \<Rightarrow> j\<lparr>job_status := ''succeeded'', job_result := res, job_finished_at := Some now,
        job_next_retry_at := None, job_dead_letter_reason := '''', job_locked_at := None, job_lock_owner := ''''\<rparr>
   | Inl e \<Rightarrow> if a \<ge> m
      then j\<lparr>job_status := ''dead_letter'', job_error := exc_str e, job_dead_letter_reason := exc_str e,
             job_finished_at := Some now, job_next_retry_at := None, job_locked_at := None, job_lock_owner := ''''\<rparr>
      else j\<lparr>job_status := ''retrying'', job_error := exc_str e,
             job_next_retry_at := Some (now + of_int (retry_delay_seconds (job_attempt_count j))),
             job_locked_at := None, job_lock_owner := ''''\<rparr>)"

lemma run_body_row:
  assumes "body_keeps_jobs fn" and g: "get_job wb i = Some j1"
  shows "\<exists>w'. run_body env i a m fn wb = (fst (fn wb), w')
    \<and> get_job w' i = Some (settled_row (rn_settled env) a m (fst (fn wb)) j1)"
proof -
  obtain r w2 where b: "session_scope True fn wb = (r, w2)" by fastforce
  have r: "fst (fn wb) = r" and g2: "get_job w2 i = Some j1"
    using session_scope_body [OF assms(1) b] g by auto
  show ?thesis
  proof (cases r)
    case (Inr res)
    then show ?thesis
      using settle_succeeded_row [OF g2, of res "rn_settled env"] b r
      by (auto simp: run_body_def settled_row_def split: prod.splits)
  next
    case (Inl e)
    then show ?thesis
      using settle_failed_row [OF g2, of a m e "rn_settled env"] b r
      by (auto simp: run_body_def settled_row_def split: prod.splits)
  qed
qed

text \<open>The bookkeeping around a body leaves the proposals alone; those a body makes are kept exactly when it returns.\<close>

lemma claim_proposals: "evolution_proposals (snd (claim_job ow n s l i w)) = evolution_proposals w"
  by (auto simp: claim_job_def session_scope_def rollback_def mark_started_def with_job_def upd_job_def Let_def
      split: option.splits sum.splits prod.splits)

lemma settle_proposals:
  "evolution_proposals (snd (settle_failed a m e t i w)) = evolution_proposals w"
  "evolution_proposals (snd (settle_succeeded res t i w)) = evolution_proposals w"
  by (auto simp: settle_failed_def settle_succeeded_def session_scope_def rollback_def mark_defs Let_def
      upd_job_def complete_idempotency_def split: option.splits sum.splits prod.splits)

definition kept_proposals :: "body \<Rightarrow> world \<Rightarrow> evolution_proposal list" where
  "kept_proposals fn w = (case fn w of (Inl e, w') \<Rightarrow> evolution_proposals w | (Inr r, w') \<Rightarrow> evolution_proposals w')"

lemma run_body_proposals: "evolution_proposals (snd (run_body env i a m fn w)) = kept_proposals fn w"
proof (cases "fn w")
  case (Pair r w')
  then show ?thesis
  proof (cases r)
    case (Inl e)
    let ?w = "rollback True w w'"
    have "evolution_proposals (snd (settle_failed a m e (rn_settled env) i ?w)) = evolution_proposals w"
      by (simp add: settle_proposals rollback_def Let_def)
    then show ?thesis using Pair Inl
      by (cases "settle_failed a m e (rn_settled env) i ?w")
        (auto simp: run_body_def kept_proposals_def session_scope_def split: sum.split)
  next
    case (Inr res)
    then show ?thesis using Pair settle_proposals(2) [of res "rn_settled env" i w']
      by (cases "settle_succeeded res (rn_settled env) i w'")
        (auto simp: run_body_def kept_proposals_def session_scope_def split: sum.split)
  qed
qed

lemma run_job_row:
  assumes "uuid_parse jid = Some i" and "get_job w i = Some j" and "should_run j (rn_now env)"
    and "1 \<le> job_max_attempts j" and "body_keeps_jobs fn"
  shows "\<exists>wb w' j1. run_job env jid fn w = (fst (fn wb), w')
    \<and> job_attempt_count j1 = job_attempt_count j + 1
    \<and> get_job w' i = Some (settled_row (rn_settled env) (job_attempt_count j + 1) (job_max_attempts j)
        (fst (fn wb)) j1)
    \<and> evolution_proposals wb = evolution_proposals w \<and> evolution_proposals w' = kept_proposals fn wb"
proof -
  obtain w1 j1 where c: "claim_job (rn_owner env) (rn_now env) (rn_started env) (rn_locked env) i w =
      (Inr (Inr (job_attempt_count j + 1, job_max_attempts j)), w1)"
    and j1: "get_job w1 i = Some j1" "job_attempt_count j1 = job_attempt_count j + 1"
    using claim_row [OF assms(2,3), of "rn_owner env" "rn_started env" "rn_locked env"] assms(4) by auto
  define tc where "tc = normalize_trace_context (rn_fresh env) (job_trace_id j) (job_request_id j)"
  define wb where "wb = w1\<lparr>trace_id := tc_trace_id tc, request_id := tc_request_id tc\<rparr>"
  have "get_job wb i = Some j1" using j1(1) by (simp add: wb_def get_job_def)
  from run_body_row [OF assms(5) this, of env "job_attempt_count j + 1" "job_max_attempts j"]
  obtain w' where w': "run_body env i (job_attempt_count j + 1) (job_max_attempts j) fn wb = (fst (fn wb), w')"
      "get_job w' i = Some (settled_row (rn_settled env) (job_attempt_count j + 1) (job_max_attempts j)
        (fst (fn wb)) j1)" by blast
  let ?w = "w'\<lparr>trace_id := trace_id w1, request_id := request_id w1\<rparr>"
  have "run_job env jid fn w = (fst (fn wb), ?w)"
    using assms(1,2) c w'(1)
    by (simp add: run_job_def bind_trace_context_def wb_def tc_def Let_def)
  moreover have "get_job ?w i = get_job w' i" by (simp add: get_job_def)
  moreover have "evolution_proposals wb = evolution_proposals w"
    using claim_proposals [of "rn_owner env" "rn_now env" "rn_started env" "rn_locked env" i w] by (simp add: c wb_def)
  moreover have "evolution_proposals ?w = kept_proposals fn wb"
    using run_body_proposals [of env i "job_attempt_count j + 1" "job_max_attempts j" fn wb] by (simp add: w'(1))
  ultimately show ?thesis using w'(2) j1(2) by metis
qed

text \<open>C8: A run of a runnable job starts exactly one attempt and settles it. If the task body returns,
  the job has succeeded with that result and the result is returned; if it raises, the exception is
  raised again and the job is retried after 2 to 256 seconds while attempts remain, and is a dead
  letter after the last one. Either way the lock is released.\<close>

theorem run_job_settles:
  assumes "uuid_parse jid = Some i" and "get_job w i = Some j" and "should_run j (rn_now env)"
    and "1 \<le> job_max_attempts j" and "body_keeps_jobs fn"
  shows "\<exists>wb w' j'. run_job env jid fn w = (fst (fn wb), w') \<and> get_job w' i = Some j'
    \<and> job_attempt_count j' = job_attempt_count j + 1 \<and> job_locked_at j' = None
    \<and> (\<forall>res. fst (fn wb) = Inr res \<longrightarrow> job_status j' = ''succeeded'' \<and> job_result j' = res)
    \<and> (\<forall>e. fst (fn wb) = Inl e \<longrightarrow> job_error j' = exc_str e \<and>
         (if job_attempt_count j + 1 < job_max_attempts j
          then job_status j' = ''retrying'' \<and>
               (\<exists>d. 2 \<le> d \<and> d \<le> 256 \<and> job_next_retry_at j' = Some (rn_settled env + d))
          else job_status j' = ''dead_letter''))"
proof -
  have d: "\<exists>d::rat. 2 \<le> d \<and> d \<le> 256 \<and> d = of_int (retry_delay_seconds n)" for n
    using retry_delay_bounds [of n] by (intro exI [of _ "of_int (retry_delay_seconds n)"]) linarith
  obtain wb w' j1 where r: "run_job env jid fn w = (fst (fn wb), w')"
    "job_attempt_count j1 = job_attempt_count j + 1"
    "get_job w' i = Some (settled_row (rn_settled env) (job_attempt_count j + 1) (job_max_attempts j)
        (fst (fn wb)) j1)"
    using run_job_row [OF assms] by blast
  show ?thesis
    by (rule exI [of _ wb], rule exI [of _ w'], rule exI, rule conjI [OF r(1)], rule conjI [OF r(3)])
      (use r(2) d in \<open>auto simp: settled_row_def split: sum.splits\<close>)
qed

definition sample_env :: run_env where
  "sample_env = \<lparr>rn_now = 9, rn_started = 9, rn_locked = 9, rn_settled = 12, rn_owner = ''w'', rn_fresh = ''f''\<rparr>"

definition failing_body :: body where
  "failing_body w = (Inl (OtherError ''x''), w)"

definition sample_job :: bg_job where
  "sample_job = the (get_job queued_world uuid_a)"

theorem run_job_settles_witness:
  "\<exists>w' j'. run_job sample_env uuid_a failing_body queued_world = (Inl (OtherError ''x''), w')
    \<and> get_job w' uuid_a = Some j' \<and> job_attempt_count j' = 1 \<and> job_status j' = ''dead_letter''"
proof -
  have "uuid_parse uuid_a = Some uuid_a" "get_job queued_world uuid_a = Some sample_job"
    "should_run sample_job (rn_now sample_env)" "1 \<le> job_max_attempts sample_job"
    by code_simp+
  moreover have "body_keeps_jobs failing_body" by (simp add: body_keeps_jobs_def failing_body_def)
  moreover have "job_attempt_count sample_job = 0" "job_max_attempts sample_job = 1" by code_simp+
  ultimately show ?thesis
    using run_job_settles [of uuid_a uuid_a queued_world sample_job sample_env failing_body]
    by (auto simp: failing_body_def)
qed

text \<open>Cancelling does not stop a running job. When the worker of a cancelled job fails with
  attempts left, settling the failure puts the job back to \<open>retrying\<close>, and it is runnable again as soon
  as its retry window (at most 256 seconds) is over.\<close>

theorem cancelled_job_revived:
  assumes "get_job w i = Some j" and "job_status j = ''running''" and "a < m"
  shows "\<exists>w1 w2 j2. cancel_job ev i now w = (Inr i, w1) \<and> settle_failed a m e t i w1 = (Inr i, w2)
    \<and> get_job w2 i = Some j2 \<and> job_status j2 = ''retrying'' \<and> should_run j2 (t + 256)"
proof -
  let ?c = "j\<lparr>job_status := ''cancelled'', job_finished_at := Some now, job_locked_at := None, job_lock_owner := ''''\<rparr>"
  obtain w1 where c: "cancel_job ev i now w = (Inr i, w1)" "get_job w1 i = Some ?c"
    using assms(1,2) by (auto simp: cancel_job_def get_job_upd)
  obtain w2 where s: "settle_failed a m e t i w1 = (Inr i, w2)"
    using settle_failed_row(1) [OF c(2), of a m e t] by (cases "settle_failed a m e t i w1") auto
  have "(of_int (retry_delay_seconds (job_attempt_count j)) :: rat) \<le> 256"
    using retry_delay_bounds [of "job_attempt_count j"] by linarith
  then show ?thesis
    using c s settle_failed_row(2) [OF c(2), of a m e t] assms(3)
    by (auto simp: should_run_def TERMINAL_JOB_STATUSES_def)
qed

theorem cancelled_job_revived_witness:
  "\<exists>w1 w2 j2. cancel_job True uuid_a 10 (background_jobs_update (map (job_status_update (\<lambda>_. ''running''))) queued_world)
      = (Inr uuid_a, w1) \<and> settle_failed 1 3 (OtherError ''x'') 12 uuid_a w1 = (Inr uuid_a, w2)
    \<and> get_job w2 uuid_a = Some j2 \<and> job_status j2 = ''retrying'' \<and> should_run j2 (12 + 256)"
  by (rule cancelled_job_revived [where j = "sample_job\<lparr>job_status := ''running''\<rparr>"]) code_simp+

end
