(* ===== verification/Json.thy ===== *)
theory Json
  imports Clock
begin

text \<open>
  \<open>json.loads\<close>: a recursive-descent reader for JSON text, and the round trip with \<open>json.dumps\<close>.

  The reader takes fuel; \<open>json_loads\<close> gives it more than twice the length of the text, and every two steps
  consume a character (for printed text this is \<open>read_value_dumps\<close>). Outside the model, and \<open>None\<close> here, are the
  escapes of code points above 255 and the non-standard numbers \<open>NaN\<close> and \<open>Infinity\<close>. A repeated key
  keeps its first position and takes the last value, as in a Python dictionary.
\<close>

section \<open>Reading\<close>

definition json_space :: "char \<Rightarrow> bool" where
  "json_space c = (let n = ordc c in n = 32 \<or> n = 9 \<or> n = 10 \<or> n = 13)"

definition skip_ws :: "string \<Rightarrow> string" where
  "skip_ws s = dropWhile json_space s"

definition hex_val :: "char \<Rightarrow> int option" where
  "hex_val c = (let n = ordc c in
     if 48 \<le> n \<and> n \<le> 57 then Some (n - 48)
     else if 65 \<le> n \<and> n \<le> 70 then Some (n - 55)
     else if 97 \<le> n \<and> n \<le> 102 then Some (n - 87) else None)"

definition unescape :: "char \<Rightarrow> char option" where
  "unescape c = (let n = ordc c in
     if n = 34 \<or> n = 92 \<or> n = 47 then Some c
     else if c = CHR ''b'' then Some (char_of (8 :: int))
     else if c = CHR ''f'' then Some (char_of (12 :: int))
     else if c = CHR ''n'' then Some (char_of (10 :: int))
     else if c = CHR ''r'' then Some (char_of (13 :: int))
     else if c = CHR ''t'' then Some (char_of (9 :: int)) else None)"

text \<open>The rest of a string literal, after the opening quote.\<close>

fun read_string :: "string \<Rightarrow> (string \<times> string) option" where
  "read_string [] = None"
| "read_string (c # cs) =
     (if ordc c = 34 then Some ([], cs)
      else if ordc c = 92 then
        (case cs of
           [] \<Rightarrow> None
         | d # ds \<Rightarrow>
             if d = CHR ''u'' then
               (case ds of
                  a # b # x # y # rest \<Rightarrow>
                    (case (hex_val a, hex_val b, hex_val x, hex_val y) of
                       (Some p, Some q, Some h, Some l) \<Rightarrow>
                         if p = 0 \<and> q = 0
                         then map_option (\<lambda>(s, r). (char_of (16 * h + l) # s, r)) (read_string rest) else None
                     | _ \<Rightarrow> None)
                | _ \<Rightarrow> None)
             else (case unescape d of
                 None \<Rightarrow> None
               | Some e \<Rightarrow> map_option (\<lambda>(s, r). (e # s, r)) (read_string ds)))
      else if ordc c < 32 then None
      else map_option (\<lambda>(s, r). (c # s, r)) (read_string cs))"

text \<open>A number: sign, integer part without leading zeros, optional fraction and exponent; an integer
  without them.\<close>

definition int_part :: "string \<Rightarrow> (string \<times> string) option" where
  "int_part s = (case s of
     [] \<Rightarrow> None
   | c # cs \<Rightarrow> if c = CHR ''0'' then Some ([c], cs)
       else if is_digit c then Some (takeWhile is_digit s, dropWhile is_digit s) else None)"

definition frac_part :: "string \<Rightarrow> string \<times> string" where
  "frac_part s = (case s of
     c # d # ds \<Rightarrow> if c = CHR ''.'' \<and> is_digit d
        then (c # takeWhile is_digit (d # ds), dropWhile is_digit (d # ds)) else ([], s)
   | _ \<Rightarrow> ([], s))"

definition exp_part :: "string \<Rightarrow> string \<times> string" where
  "exp_part s = (case s of
     c # cs \<Rightarrow>
       if c = CHR ''e'' \<or> c = CHR ''E'' then
         (let (sg, ds) = (case cs of x # xs \<Rightarrow> if x = CHR ''+'' \<or> x = CHR ''-'' then ([x], xs) else ([], cs) | [] \<Rightarrow> ([], []))
          in case ds of d # _ \<Rightarrow> if is_digit d then (c # sg @ takeWhile is_digit ds, dropWhile is_digit ds) else ([], s)
             | [] \<Rightarrow> ([], s))
       else ([], s)
   | [] \<Rightarrow> ([], s))"

definition read_number :: "string \<Rightarrow> (json \<times> string) option" where
  "read_number s =
     (let (neg, t) = (case s of c # cs \<Rightarrow> if c = CHR ''-'' then (True, cs) else (False, s) | [] \<Rightarrow> (False, s))
      in case int_part t of
           None \<Rightarrow> None
         | Some (ip, t1) \<Rightarrow>
             (case frac_part t1 of (fp, t2) \<Rightarrow>
                (case exp_part t2 of (ep, t3) \<Rightarrow>
                   if fp = [] \<and> ep = []
                   then Some (JInt (if neg then - int_of_digits ip else int_of_digits ip), t3)
                   else map_option (\<lambda>r. (JFloat (if neg then - r else r), t3)) (decimal_val (ip @ fp @ ep)))))"

definition read_literal :: "string \<Rightarrow> json \<Rightarrow> string \<Rightarrow> (json \<times> string) option" where
  "read_literal w v s = (if prefix w s then Some (v, drop (length w) s) else None)"

text \<open>Values, the elements of an array after the bracket, the members of an object after the brace.\<close>

fun read_value :: "nat \<Rightarrow> string \<Rightarrow> (json \<times> string) option"
  and read_elems :: "nat \<Rightarrow> string \<Rightarrow> (json list \<times> string) option"
  and read_members :: "nat \<Rightarrow> dict \<Rightarrow> string \<Rightarrow> (dict \<times> string) option" where
  "read_value 0 s = None"
| "read_value (Suc n) s = (case s of
     [] \<Rightarrow> None
   | c # cs \<Rightarrow>
       if ordc c = 34 then map_option (\<lambda>(t, r). (JStr t, r)) (read_string cs)
       else if c = CHR ''['' then
         (case skip_ws cs of
            [] \<Rightarrow> None
          | d # ds \<Rightarrow> if d = CHR '']'' then Some (JList [], ds)
              else map_option (\<lambda>(xs, r). (JList xs, r)) (read_elems n (d # ds)))
       else if ordc c = 123 then
         (case skip_ws cs of
            [] \<Rightarrow> None
          | d # ds \<Rightarrow> if ordc d = 125 then Some (JObj [], ds)
              else map_option (\<lambda>(o1, r). (JObj o1, r)) (read_members n [] (d # ds)))
       else if c = CHR ''n'' then read_literal ''null'' JNull s
       else if c = CHR ''t'' then read_literal ''true'' (JBool True) s
       else if c = CHR ''f'' then read_literal ''false'' (JBool False) s
       else read_number s)"
| "read_elems 0 s = None"
| "read_elems (Suc n) s = (case read_value n s of
     None \<Rightarrow> None
   | Some (v, r) \<Rightarrow>
       (case skip_ws r of
          [] \<Rightarrow> None
        | d # ds \<Rightarrow>
            if d = CHR '']'' then Some ([v], ds)
            else if d = CHR '','' then map_option (\<lambda>(xs, q). (v # xs, q)) (read_elems n (skip_ws ds))
            else None))"
| "read_members 0 acc s = None"
| "read_members (Suc n) acc s = (case s of
     [] \<Rightarrow> None
   | c # cs \<Rightarrow>
       if ordc c \<noteq> 34 then None
       else (case read_string cs of
          None \<Rightarrow> None
        | Some (k, r) \<Rightarrow>
            (case skip_ws r of
               [] \<Rightarrow> None
             | d # ds \<Rightarrow>
                 if d \<noteq> CHR '':'' then None
                 else (case read_value n (skip_ws ds) of
                    None \<Rightarrow> None
                  | Some (v, r2) \<Rightarrow>
                      (case skip_ws r2 of
                         [] \<Rightarrow> None
                       | e # es \<Rightarrow>
                           if ordc e = 125 then Some (dset k v acc, es)
                           else if e = CHR '','' then read_members n (dset k v acc) (skip_ws es)
                           else None)))))"

definition json_loads :: "string \<Rightarrow> json option" where
  "json_loads s = (case read_value (2 * length s + 2) (skip_ws s) of
     Some (v, r) \<Rightarrow> if skip_ws r = [] then Some v else None
   | None \<Rightarrow> None)"

lemma json_loads_examples:
  "json_loads ''{\"a\": [1, -20, true], \"b\": {\"c\": null}, \"a\": 2.5}''
     = Some (JObj [(''a'', JFloat (5 / 2)), (''b'', JObj [(''c'', JNull)])])"
  "json_loads ''[1, 2'' = None" "json_loads ''01'' = None"
  by code_simp+

section \<open>Reading back what was printed\<close>

text \<open>Values whose printed form determines them: no floats (their printed form is rounded), and no key
  twice in a dictionary.\<close>

fun exact :: "json \<Rightarrow> bool" where
  "exact (JFloat r) = False"
| "exact (JList xs) = (\<forall>x \<in> set xs. exact x)"
| "exact (JObj d) = (distinct (map fst d) \<and> (\<forall>(k, v) \<in> set d. exact v))"
| "exact _ = True"

lemma char_of_ordc [simp]: "char_of (ordc c) = c"
  by (simp add: ordc_def)

lemma ordc_range: "0 \<le> ordc c \<and> ordc c < 256"
  by (simp add: ordc_def of_char_def)

lemma ordc_char_of: "0 \<le> n \<Longrightarrow> n < 256 \<Longrightarrow> ordc (char_of n) = n"
  by (simp add: ordc_def)

lemma hex_val_digit: "0 \<le> d \<Longrightarrow> d < 16 \<Longrightarrow> hex_val (hex_digit d) = Some d"
  by (auto simp: hex_val_def hex_digit_def ordc_char_of Let_def)

lemma hex_val_zero: "hex_val CHR ''0'' = Some 0"
  by code_simp

lemma ordc_literals: "ordc CHR ''u'' = 117" "ordc (CHR 0x5C) = 92" "ordc (CHR 0x22) = 34"
  by code_simp+

lemma unescape_letters:
  "unescape CHR ''n'' = Some (char_of (10 :: int))" "unescape CHR ''r'' = Some (char_of (13 :: int))"
  "unescape CHR ''t'' = Some (char_of (9 :: int))" "unescape CHR ''b'' = Some (char_of (8 :: int))"
  "unescape CHR ''f'' = Some (char_of (12 :: int))"
  by code_simp+

lemma read_json_char:
  "read_string (json_char c @ rest) = map_option (\<lambda>(s, r). (c # s, r)) (read_string rest)"
proof -
  let ?n = "ordc c"
  have eq: "c = char_of k" if "?n = k" for k using that char_of_ordc [of c] by simp
  consider (quote) "?n = 34 \<or> ?n = 92" | (esc) "?n \<in> {8, 9, 10, 12, 13}"
    | (hex) "?n < 32" "?n \<notin> {8, 9, 10, 12, 13}" | (plain) "32 \<le> ?n" "?n \<noteq> 34" "?n \<noteq> 92" by fastforce
  then show ?thesis
  proof cases
    case quote
    then have "c \<noteq> CHR ''u''" using ordc_literals(1) by auto
    then show ?thesis using quote by (auto simp: json_char_def Let_def ordc_literals unescape_def)
  next
    case esc
    then show ?thesis
      by (auto simp: json_char_def Let_def ordc_literals unescape_letters dest: eq)
  next
    case hex
    have h: "hex_val (hex_digit (?n div 16)) = Some (?n div 16)" "hex_val (hex_digit (?n mod 16)) = Some (?n mod 16)"
      using ordc_range [of c] by (auto intro!: hex_val_digit)
    have "char_of (16 * (?n div 16) + ?n mod 16) = c" by simp
    then show ?thesis using hex h by (simp add: json_char_def Let_def ordc_literals hex_val_zero)
  next
    case plain
    then show ?thesis by (simp add: json_char_def Let_def)
  qed
qed

lemma read_json_string:
  "read_string (concat (map json_char s) @ CHR 0x22 # rest) = Some (s, rest)"
  by (induction s) (simp_all add: read_json_char ordc_literals)

subsection \<open>Integers\<close>

lemma digit_char_facts:
  assumes "0 \<le> d" and "d < 10"
  shows "is_digit (digit_char d)" and "ordc (digit_char d) = 48 + d"
  using assms by (auto simp: digit_char_def ordc_char_of is_digit_def Let_def)

lemma digits_dec_str: "0 \<le> n \<Longrightarrow> dec_str n \<noteq> [] \<and> list_all is_digit (dec_str n)"
proof (induction n rule: dec_str.induct)
  case (1 n)
  then show ?case using digit_char_facts by (subst (1 2) dec_str.simps) (auto simp: pos_imp_zdiv_nonneg_iff)
qed

lemma hd_dec_str: "0 < n \<Longrightarrow> hd (dec_str n) \<noteq> CHR ''0''"
proof (induction n rule: dec_str.induct)
  case (1 n)
  show ?case
  proof (cases "n < 10")
    case True
    have "ordc CHR ''0'' = 48" by code_simp
    then show ?thesis using 1 True digit_char_facts(2) [of n] by (subst dec_str.simps) auto
  next
    case False
    then have "hd (dec_str n) = hd (dec_str (n div 10))"
      using digits_dec_str [of "n div 10"] by (subst dec_str.simps) simp
    then show ?thesis using 1 False by simp
  qed
qed

lemma int_of_dec_str: "0 \<le> n \<Longrightarrow> int_of_digits (dec_str n) = n"
proof (induction n rule: dec_str.induct)
  case (1 n)
  then show ?case using digit_char_facts(2) [of n] digit_char_facts(2) [of "n mod 10"]
    by (subst dec_str.simps) (auto simp: int_of_digits_def)
qed

text \<open>What may follow a value in printed text.\<close>

definition stops :: "string \<Rightarrow> bool" where
  "stops rest = (case rest of [] \<Rightarrow> True | c # _ \<Rightarrow> c = CHR '','' \<or> c = CHR '']'' \<or> ordc c = 125)"

lemma stops_no_number:
  assumes "stops rest"
  shows "frac_part rest = ([], rest)" and "exp_part rest = ([], rest)"
    and "\<And>ds. list_all is_digit ds \<Longrightarrow> takeWhile is_digit (ds @ rest) = ds \<and> dropWhile is_digit (ds @ rest) = rest"
proof -
  have c: "\<not> is_digit c \<and> c \<noteq> CHR ''.'' \<and> c \<noteq> CHR ''e'' \<and> c \<noteq> CHR ''E''"
    if "c = CHR '','' \<or> c = CHR '']'' \<or> ordc c = 125" for c
  proof -
    have "\<not> is_digit CHR '',''" "\<not> is_digit CHR '']''" "ordc CHR ''.'' = 46" "ordc CHR ''e'' = 101" "ordc CHR ''E'' = 69"
      by code_simp+
    then show ?thesis using that by (auto simp: is_digit_def)
  qed
  show "frac_part rest = ([], rest)" "exp_part rest = ([], rest)"
    using assms c by (auto simp: stops_def frac_part_def exp_part_def split: list.splits)
  show "takeWhile is_digit (ds @ rest) = ds \<and> dropWhile is_digit (ds @ rest) = rest" if "list_all is_digit ds" for ds
    using that assms c by (cases rest) (auto simp: stops_def takeWhile_append dropWhile_append list_all_iff takeWhile_eq_all_conv)
qed

lemma int_part_dec_str:
  assumes "0 \<le> n" and "stops rest"
  shows "int_part (dec_str n @ rest) = Some (dec_str n, rest)"
proof (cases "n = 0")
  case True
  have "dec_str 0 = ''0''" by code_simp
  then show ?thesis by (simp add: True int_part_def)
next
  case False
  note d = digits_dec_str [OF assms(1)]
  then obtain c cs where cs: "dec_str n = c # cs" by (cases "dec_str n") auto
  then have "is_digit c" "c \<noteq> CHR ''0''" using d hd_dec_str [of n] assms(1) False by auto
  then show ?thesis using stops_no_number(3) [OF assms(2) conjunct2 [OF d]] by (simp add: int_part_def cs)
qed

lemma read_int: "stops rest \<Longrightarrow> read_number (int_str i @ rest) = Some (JInt i, rest)"
proof -
  assume r: "stops rest"
  have minus: "c \<noteq> CHR ''-''" if "is_digit c" for c
  proof -
    have "\<not> is_digit CHR ''-''" by code_simp
    then show ?thesis using that by auto
  qed
  show ?thesis
  proof (cases "i < 0")
    case True
    then show ?thesis using r int_part_dec_str [of "- i" rest] stops_no_number [OF r] int_of_dec_str [of "- i"]
      by (simp add: int_str_def read_number_def)
  next
    case False
    then obtain c cs where cs: "dec_str i = c # cs" "is_digit c"
      using digits_dec_str [of i] by (cases "dec_str i") auto
    then show ?thesis using False minus r int_part_dec_str [of i rest] stops_no_number [OF r] int_of_dec_str [of i]
      by (simp add: int_str_def read_number_def)
  qed
qed

subsection \<open>Values\<close>

lemma json_dumps_head:
  "\<exists>c cs. json_dumps v = c # cs \<and> \<not> json_space c \<and> c \<noteq> CHR '']''"
proof -
  have k: "\<not> json_space CHR ''n''" "\<not> json_space CHR ''t''" "\<not> json_space CHR ''f''" "\<not> json_space (CHR 0x22)"
    "\<not> json_space CHR ''[''" "\<not> json_space (CHR 0x7B)" "\<not> json_space CHR ''-''" "\<not> is_digit CHR '']''" by code_simp+
  have dig: "\<not> json_space c \<and> c \<noteq> CHR '']''" if "is_digit c" for c
    using that k(8) by (auto simp: is_digit_def json_space_def Let_def)
  have dec: "\<exists>c cs. dec_str n @ t = c # cs \<and> \<not> json_space c \<and> c \<noteq> CHR '']''" if "0 \<le> n" for n t
    using digits_dec_str [OF that] dig by (cases "dec_str n") auto
  show ?thesis
  proof (cases v)
    case (JInt i)
    then show ?thesis using dec [of i "[]"] k by (simp add: int_str_def)
  next
    case (JFloat r)
    obtain p q where pq: "quotient_of r = (p, q)" by fastforce
    have "0 \<le> \<bar>p\<bar> div q" using quotient_of_denom_pos [OF pq] by (simp add: pos_imp_zdiv_nonneg_iff)
    then show ?thesis using dec k JFloat by (auto simp: float_str_def pq Let_def)
  qed (use k in \<open>auto simp: json_string_def\<close>)
qed

lemma skip_ws_dumps [simp]: "skip_ws (json_dumps v @ rest) = json_dumps v @ rest"
  using json_dumps_head [of v] by (auto simp: skip_ws_def)

lemma json_dumps_nonempty: "1 \<le> length (json_dumps v)"
  using json_dumps_head [of v] by auto

lemma skip_ws_stop:
  "skip_ws (CHR '','' # s) = CHR '','' # s" "skip_ws (CHR '']'' # s) = CHR '']'' # s"
  "skip_ws (CHR '' '' # s) = skip_ws s" "skip_ws (CHR '':'' # s) = CHR '':'' # s"
  "skip_ws (CHR 0x7D # s) = CHR 0x7D # s" "skip_ws (CHR 0x22 # s) = CHR 0x22 # s"
proof -
  have "\<not> json_space CHR '',''" "\<not> json_space CHR '']''" "json_space CHR '' ''" "\<not> json_space CHR '':''"
    "\<not> json_space (CHR 0x7D)" "\<not> json_space (CHR 0x22)" by code_simp+
  then show "skip_ws (CHR '','' # s) = CHR '','' # s" "skip_ws (CHR '']'' # s) = CHR '']'' # s"
    "skip_ws (CHR '' '' # s) = skip_ws s" "skip_ws (CHR '':'' # s) = CHR '':'' # s"
    "skip_ws (CHR 0x7D # s) = CHR 0x7D # s" "skip_ws (CHR 0x22 # s) = CHR 0x22 # s"
    by (simp_all add: skip_ws_def)
qed

lemma stops_simps:
  "stops []" "stops (CHR '','' # s)" "stops (CHR '']'' # s)" "stops (CHR 0x7D # s)"
proof -
  have "ordc (CHR 0x7D) = 125" by code_simp
  then show "stops []" "stops (CHR '','' # s)" "stops (CHR '']'' # s)" "stops (CHR 0x7D # s)"
    by (simp_all add: stops_def)
qed

lemma read_elems_dumps:
  assumes "\<And>x n rest. x \<in> set xs \<Longrightarrow> stops rest \<Longrightarrow> 2 * length (json_dumps x) \<le> n \<Longrightarrow>
      read_value n (json_dumps x @ rest) = Some (x, rest)"
    and "xs \<noteq> []" and "2 * length (join '', '' (map json_dumps xs)) + 1 \<le> n"
  shows "read_elems n (join '', '' (map json_dumps xs) @ CHR '']'' # rest) = Some (xs, rest)"
  using assms
proof (induction xs arbitrary: n)
  case (Cons x xs)
  then obtain m where n: "n = Suc m" by (cases n) auto
  show ?case
  proof (cases xs)
    case Nil
    then show ?thesis using Cons(2) [of x] Cons(4) by (simp add: n stops_simps skip_ws_stop)
  next
    case (Cons y ys)
    let ?j = "join '', '' (map json_dumps xs)"
    have j: "join '', '' (map json_dumps (x # xs)) = json_dumps x @ '', '' @ ?j" by (simp add: Cons)
    have m: "2 * length (json_dumps x) \<le> m" "2 * length ?j + 1 \<le> m" using Cons.prems(3) unfolding j n by simp_all
    have "read_value m (json_dumps x @ '', '' @ ?j @ CHR '']'' # rest) = Some (x, '', '' @ ?j @ CHR '']'' # rest)"
      using m(1) by (intro Cons.prems(1)) (simp_all add: stops_simps)
    moreover have "read_elems m (?j @ CHR '']'' # rest) = Some (xs, rest)"
      using m(2) by (intro Cons.IH Cons.prems(1)) (simp_all add: Cons)
    moreover have "skip_ws (?j @ CHR '']'' # rest) = ?j @ CHR '']'' # rest"
      using json_dumps_head [of y] by (cases ys) (auto simp: Cons skip_ws_def)
    ultimately show ?thesis unfolding j by (simp add: n skip_ws_stop)
  qed
qed simp

definition dump_member :: "string \<times> json \<Rightarrow> string" where
  "dump_member = (\<lambda>(k, v). json_string k @ '': '' @ json_dumps v)"

lemma dump_member_simp [simp]: "dump_member (k, v) = json_string k @ '': '' @ json_dumps v"
  by (simp add: dump_member_def)

lemma json_dumps_obj: "json_dumps (JObj d) = CHR 0x7B # join '', '' (map dump_member d) @ [CHR 0x7D]"
  by (simp add: dump_member_def)

lemma dset_fresh: "k \<notin> fst ` set acc \<Longrightarrow> dset k v acc = acc @ [(k, v)]"
  by (induction acc) auto

lemma read_members_dumps:
  assumes "\<And>k v n rest. (k, v) \<in> set d \<Longrightarrow> stops rest \<Longrightarrow> 2 * length (json_dumps v) \<le> n \<Longrightarrow>
      read_value n (json_dumps v @ rest) = Some (v, rest)"
    and "d \<noteq> []" and "distinct (map fst (acc @ d))"
    and "2 * length (join '', '' (map dump_member d)) + 1 \<le> n"
  shows "read_members n acc (join '', '' (map dump_member d) @ CHR 0x7D # rest) = Some (acc @ d, rest)"
  using assms
proof (induction d arbitrary: n acc)
  case (Cons x d)
  obtain k v where x: "x = (k, v)" by fastforce
  obtain m where n: "n = Suc m" using Cons.prems(4) by (cases n) auto
  have ds: "dset k v acc = acc @ [(k, v)]" using Cons.prems(3) by (intro dset_fresh) (auto simp: x)
  have brace: "ordc (CHR 0x7D) = 125" "ordc CHR '','' = 44" by code_simp+
  have key: "read_string (concat (map json_char k) @ CHR 0x22 # t) = Some (k, t)" for t by (rule read_json_string)
  show ?case
  proof (cases d)
    case Nil
    have "2 * length (json_dumps v) \<le> m" using Cons.prems(4) by (simp add: x Nil n)
    then have "read_value m (json_dumps v @ CHR 0x7D # rest) = Some (v, CHR 0x7D # rest)"
      by (intro Cons.prems(1) [of k]) (simp_all add: x stops_simps)
    then show ?thesis by (simp add: x Nil n json_string_def key ds ordc_literals skip_ws_stop brace)
  next
    case (Cons y ys)
    let ?j = "join '', '' (map dump_member d)"
    have j: "join '', '' (map dump_member (x # d)) = json_string k @ '': '' @ json_dumps v @ '', '' @ ?j" by (simp add: Cons x)
    have m: "2 * length (json_dumps v) \<le> m" "2 * length ?j + 1 \<le> m" using Cons.prems(4) unfolding j n by simp_all
    have "read_value m (json_dumps v @ '', '' @ ?j @ CHR 0x7D # rest) = Some (v, '', '' @ ?j @ CHR 0x7D # rest)"
      using m(1) by (intro Cons.prems(1) [of k]) (simp_all add: x stops_simps)
    moreover have "read_members m (acc @ [(k, v)]) (?j @ CHR 0x7D # rest) = Some ((acc @ [(k, v)]) @ d, rest)"
    proof (intro Cons.IH)
      show "read_value n' (json_dumps v' @ rest') = Some (v', rest')"
        if "(k', v') \<in> set d" "stops rest'" "2 * length (json_dumps v') \<le> n'" for k' v' n' rest'
        using that by (intro Cons.prems(1) [of k']) simp_all
    qed (use m(2) Cons.prems(3) in \<open>auto simp: Cons x\<close>)
    moreover have "skip_ws (?j @ CHR 0x7D # rest) = ?j @ CHR 0x7D # rest"
      by (cases ys; cases y) (simp_all add: Cons json_string_def skip_ws_stop)
    ultimately show ?thesis unfolding j by (simp add: x n json_string_def key ds ordc_literals skip_ws_stop brace)
  qed
qed simp

lemma read_value_dumps:
  "exact v \<Longrightarrow> stops rest \<Longrightarrow> 2 * length (json_dumps v) \<le> n \<Longrightarrow> read_value n (json_dumps v @ rest) = Some (v, rest)"
proof (induction v arbitrary: n rest rule: json_dumps.induct)
  case (3 i)
  obtain m where n: "n = Suc m" using 3(3) json_dumps_nonempty [of "JInt i"] by (cases n) auto
  obtain c cs where cs: "int_str i = c # cs" "is_digit c \<or> c = CHR ''-''"
    using digits_dec_str [of i] digits_dec_str [of "- i"]
    by (cases "i < 0"; cases "dec_str i"; cases "dec_str (- i)") (auto simp: int_str_def)
  have "ordc CHR ''-'' = 45" "ordc CHR ''['' = 91" "ordc CHR ''n'' = 110" "ordc CHR ''t'' = 116" "ordc CHR ''f'' = 102" by code_simp+
  then have "ordc c \<noteq> 34 \<and> c \<noteq> CHR ''['' \<and> ordc c \<noteq> 123 \<and> c \<noteq> CHR ''n'' \<and> c \<noteq> CHR ''t'' \<and> c \<noteq> CHR ''f''"
    using cs(2) by (auto simp: is_digit_def Let_def)
  then show ?case using read_int [OF 3(2), of i] by (simp add: n cs)
next
  case (6 xs)
  obtain m where n: "n = Suc m" using 6(4) by (cases n) auto
  have o: "ordc CHR ''['' = 91" by code_simp
  show ?case
  proof (cases "xs = []")
    case False
    then obtain x ys where xs: "xs = x # ys" by (cases xs) auto
    obtain c cs where c: "json_dumps x = c # cs" "\<not> json_space c" "c \<noteq> CHR '']''" using json_dumps_head [of x] by blast
    obtain t where t: "join '', '' (map json_dumps xs) @ CHR '']'' # rest = c # t"
      by (cases ys) (auto simp: xs c)
    have "read_elems m (join '', '' (map json_dumps xs) @ CHR '']'' # rest) = Some (xs, rest)"
      using 6(1,2,4) False by (intro read_elems_dumps) (auto simp: n)
    then show ?thesis using c(2,3) by (simp add: n o t skip_ws_def)
  qed (simp add: n o skip_ws_stop)
next
  case (7 d)
  obtain m where n: "n = Suc m" using 7(4) by (cases n) auto
  have o: "ordc (CHR 0x7B) = 123" "CHR 0x7B \<noteq> CHR ''[''" "ordc (CHR 0x7D) = 125" by code_simp+
  show ?case
  proof (cases "d = []")
    case False
    then obtain t where t: "join '', '' (map dump_member d) @ CHR 0x7D # rest = CHR 0x22 # t"
      by (cases d; cases "tl d") (auto simp: json_string_def)
    have "read_members m [] (join '', '' (map dump_member d) @ CHR 0x7D # rest) = Some ([] @ d, rest)"
    proof (intro read_members_dumps)
      show "2 * length (join '', '' (map dump_member d)) + 1 \<le> m"
        using 7(4) by (simp add: n json_dumps_obj del: json_dumps.simps)
    qed (use 7(1,2) False in auto)
    then show ?thesis
      using t by (simp add: n o json_dumps_obj skip_ws_stop ordc_literals del: json_dumps.simps)
  qed (simp add: n o skip_ws_stop)
next
  case 1
  have "ordc CHR ''n'' = 110" by code_simp
  then show ?case using 1 by (cases n) (simp_all add: read_literal_def)
next
  case (2 b)
  have "ordc CHR ''t'' = 116" "ordc CHR ''f'' = 102" by code_simp+
  then show ?case using 2 by (cases n; cases b) (simp_all add: read_literal_def)
next
  case (5 s)
  then show ?case by (cases n) (simp_all add: json_string_def read_json_string ordc_literals)
qed simp

text \<open>Reading the printed form of a value gives the value back, for every value without floats and
  without repeated keys; trailing text of white space does not matter.\<close>

lemma json_loads_dumps: "exact v \<Longrightarrow> json_loads (json_dumps v) = Some v"
  using read_value_dumps [of v "[]" "2 * length (json_dumps v) + 2"] skip_ws_dumps [of v "[]"]
  by (simp add: json_loads_def stops_simps skip_ws_def)

end
