(* ===== verification/Workspace.thy ===== *)
theory Workspace
  imports Ops Json
begin

text \<open>
  The Markdown files of the agent's long-lived state: \<open>WorkspaceService\<close> of
  \<open>backend/domain/workspace.py\<close>.

  The workspace directory is the field \<open>workspace_fs\<close> of the world: the path of each text file below the
  directory, and its contents as they are on disk. Directories are not kept on their own. Reading in text
  mode (\<open>read_text\<close>) turns every line end into a line feed, as Python does; writing leaves the text as it is.
  The seed directory is a parameter, a tree of named files and directories, absent when the directory does
  not exist. Modification times are not modelled.
\<close>

type_synonym fs = "(string \<times> string) list"

section \<open>Files\<close>

definition fs_exists :: "fs \<Rightarrow> string \<Rightarrow> bool" where
  "fs_exists fs p = (map_of fs p \<noteq> None)"

text \<open>\<open>Path.read_text\<close>: universal newlines.\<close>

fun universal_newlines :: "string \<Rightarrow> string" where
  "universal_newlines [] = []"
| "universal_newlines [c] = (if c = CHR 0x0D then [newline] else [c])"
| "universal_newlines (c # d # cs) =
     (if c = CHR 0x0D
      then newline # (if d = CHR 0x0A then universal_newlines cs else universal_newlines (d # cs))
      else c # universal_newlines (d # cs))"

definition read_text :: "fs \<Rightarrow> string \<Rightarrow> string" where
  "read_text fs p = (case map_of fs p of None \<Rightarrow> [] | Some s \<Rightarrow> universal_newlines s)"

datatype seed_tree = Seed_File string | Seed_Dir "(string \<times> seed_tree) list"

type_synonym seed = "(string \<times> seed_tree) list option"

fun copy_missing_tree :: "(string \<times> seed_tree) list \<Rightarrow> string \<Rightarrow> fs \<Rightarrow> int \<times> fs" where
  "copy_missing_tree [] dst fs = (0, fs)"
| "copy_missing_tree ((name, Seed_Dir items) # rest) dst fs =
     (case copy_missing_tree items (dst @ name @ ''/'') fs of (a, fs1) \<Rightarrow>
        (case copy_missing_tree rest dst fs1 of (b, fs2) \<Rightarrow> (a + b, fs2)))"
| "copy_missing_tree ((name, Seed_File c) # rest) dst fs =
     (if fs_exists fs (dst @ name) then copy_missing_tree rest dst fs
      else (case copy_missing_tree rest dst (put_assoc (dst @ name) c fs) of (b, fs2) \<Rightarrow> (1 + b, fs2)))"

definition seed_from_template :: "seed \<Rightarrow> fs \<Rightarrow> int \<times> fs" where
  "seed_from_template seed fs = (case seed of None \<Rightarrow> (0, fs) | Some items \<Rightarrow> copy_missing_tree items '''' fs)"

section \<open>The known files\<close>

definition WORKSPACE_FILE_MAP :: "(string \<times> string) list" where
  "WORKSPACE_FILE_MAP =
     [(''soul'', ''SOUL.md''), (''user'', ''USER.md''), (''memory'', ''memory/MEMORY.md''),
      (''heartbeat'', ''HEARTBEAT.md'')]"

definition history_path :: string where
  "history_path = ''memory/history.jsonl''"

definition DEFAULT_WORKSPACE_FILES :: "(string \<times> string) list" where
  "DEFAULT_WORKSPACE_FILES =
     [(''soul'', ''# SOUL'' @ [newline, newline] @
        ''SoulClaw is a local-first long-term personal assistant. It should be careful, useful, '' @
        ''transparent about uncertainty, and respectful of the user'' @ [CHR 0x27] @ ''s preferences.'' @ [newline]),
      (''user'', ''# USER'' @ [newline, newline] @
        ''This file stores durable user preferences, profile facts, and relationship context. '' @
        ''Only write stable information here after review.'' @ [newline]),
      (''memory'', ''# MEMORY'' @ [newline, newline] @
        ''Durable lessons, user facts, project knowledge, and recurring patterns live here. '' @
        ''Use readable Markdown; the database is only a searchable mirror.'' @ [newline]),
      (''heartbeat'', ''# HEARTBEAT'' @ [newline, newline] @ ''## Active Tasks'' @ [newline, newline] @
        ''- Keep this section empty when no proactive background check is needed.'' @ [newline])]"

definition put_missing :: "string \<Rightarrow> string \<Rightarrow> fs \<Rightarrow> fs" where
  "put_missing p s fs = (if fs_exists fs p then fs else put_assoc p s fs)"

definition ensure_files_fs :: "seed \<Rightarrow> fs \<Rightarrow> fs" where
  "ensure_files_fs seed fs =
     put_missing history_path ''''
       (fold (\<lambda>(kind, p). put_missing p (the (map_of DEFAULT_WORKSPACE_FILES kind))) WORKSPACE_FILE_MAP
          (snd (seed_from_template seed fs)))"

definition ensure_files :: "seed \<Rightarrow> world \<Rightarrow> world" where
  "ensure_files seed w = w\<lparr>workspace_fs := ensure_files_fs seed (workspace_fs w)\<rparr>"

section \<open>Reading and writing\<close>

record workspace_file =
  wf_kind :: string
  wf_path :: string
  wf_content :: string

definition path_for :: "string \<Rightarrow> exc + string" where
  "path_for kind = (case map_of WORKSPACE_FILE_MAP (py_lower (py_strip kind)) of
     None \<Rightarrow> Inl (KeyError (''unsupported workspace file kind: '' @ kind)) | Some p \<Rightarrow> Inr p)"

definition ws_read :: "seed \<Rightarrow> string \<Rightarrow> workspace_file op" where
  "ws_read seed kind w = (case path_for kind of
     Inl e \<Rightarrow> (Inl e, w)
   | Inr p \<Rightarrow>
       let w1 = (if fs_exists (workspace_fs w) p then w else ensure_files seed w)
       in (Inr \<lparr>wf_kind = kind, wf_path = p, wf_content = read_text (workspace_fs w1) p\<rparr>, w1))"

fun ws_read_kinds :: "seed \<Rightarrow> string list \<Rightarrow> (string \<times> workspace_file) list op" where
  "ws_read_kinds seed [] w = (Inr [], w)"
| "ws_read_kinds seed (k # ks) w =
     op_bind (ws_read seed k) (\<lambda>f. op_bind (ws_read_kinds seed ks) (\<lambda>fs. op_ok ((k, f) # fs))) w"

definition read_all :: "seed \<Rightarrow> (string \<times> workspace_file) list op" where
  "read_all seed w = ws_read_kinds seed (map fst WORKSPACE_FILE_MAP) (ensure_files seed w)"

definition ws_write :: "bool \<Rightarrow> seed \<Rightarrow> string \<Rightarrow> string \<Rightarrow> string \<Rightarrow> workspace_file op" where
  "ws_write ev seed kind content actor w = (case path_for kind of
     Inl e \<Rightarrow> (Inl e, w)
   | Inr p \<Rightarrow>
       let before = read_text (workspace_fs w) p;
           w1 = w\<lparr>workspace_fs := put_assoc p content (workspace_fs w)\<rparr>
       in op_bind (ws_read seed kind) (\<lambda>item w2.
            (Inr item,
             audit ev ''workspace.file.update'' ''workspace_file'' kind
               [(''path'', JStr (wf_path item)), (''actor'', JStr actor),
                (''before_len'', JInt (int (length before))), (''after_len'', JInt (int (length content)))]
              (emit ev ''workspace.file.updated''
                 [(''kind'', JStr kind), (''path'', JStr (wf_path item)), (''actor'', JStr actor)] w2))) w1)"

section \<open>History\<close>

text \<open>\<open>{"created_at": now, **record}\<close> as one line.\<close>

definition history_payload :: "instant \<Rightarrow> dict \<Rightarrow> dict" where
  "history_payload now entry = dmerge [(''created_at'', JStr (isoformat now))] entry"

definition append_history :: "seed \<Rightarrow> instant \<Rightarrow> dict \<Rightarrow> world \<Rightarrow> world" where
  "append_history seed now entry w =
     (let w1 = ensure_files seed w;
          old = (case map_of (workspace_fs w1) history_path of None \<Rightarrow> [] | Some s \<Rightarrow> s)
      in w1\<lparr>workspace_fs := put_assoc history_path
              (old @ json_dumps (JObj (history_payload now entry)) @ [newline]) (workspace_fs w1)\<rparr>)"

definition history_item :: "string \<Rightarrow> dict option" where
  "history_item line =
     (if py_strip line = [] then None
      else let loaded = (case json_loads line of None \<Rightarrow> JObj [(''raw'', JStr line)] | Some v \<Rightarrow> v)
           in if is_dict loaded then Some (dict_or_empty loaded) else None)"

text \<open>\<open>xs[-n:]\<close>.\<close>

definition last_n :: "nat \<Rightarrow> 'a list \<Rightarrow> 'a list" where
  "last_n n xs = drop (length xs - n) xs"

definition read_history :: "seed \<Rightarrow> int \<Rightarrow> world \<Rightarrow> dict list \<times> world" where
  "read_history seed limit w =
     (let w1 = ensure_files seed w
      in (List.map_filter history_item
            (last_n (clamp_limit 500 limit) (splitlines (read_text (workspace_fs w1) history_path))), w1))"

section \<open>The heartbeat list\<close>

fun heartbeat_lines :: "bool \<Rightarrow> string list \<Rightarrow> string list" where
  "heartbeat_lines in_active [] = []"
| "heartbeat_lines in_active (line # rest) =
     (let stripped = py_strip line
      in if startswith stripped ''## ''
         then heartbeat_lines (py_lower stripped = ''## active tasks'') rest
         else if in_active \<and> startswith stripped ''-''
         then (let item = py_strip (removeprefix stripped ''-'')
               in if item \<noteq> [] \<and> \<not> py_in ''empty when no proactive'' (py_lower item)
                  then item # heartbeat_lines in_active rest else heartbeat_lines in_active rest)
         else heartbeat_lines in_active rest)"

definition active_heartbeat_tasks :: "seed \<Rightarrow> string list op" where
  "active_heartbeat_tasks seed =
     op_bind (ws_read seed ''heartbeat'') (\<lambda>f. op_ok (heartbeat_lines False (splitlines (wf_content f))))"

section \<open>Applying a proposal\<close>

definition kind_for_target :: "string \<Rightarrow> string" where
  "kind_for_target target_type =
     (if target_type = ''persona'' then ''soul'' else if target_type = ''workspace_file'' then ''memory'' else target_type)"

definition file_snapshot :: "string \<Rightarrow> workspace_file \<Rightarrow> dict" where
  "file_snapshot kind f = [(''kind'', JStr kind), (''path'', JStr (wf_path f)), (''content'', JStr (wf_content f))]"

definition proposal_content :: "string \<Rightarrow> dict \<Rightarrow> string \<Rightarrow> exc + string" where
  "proposal_content action payload before =
     (if action \<in> {''replace_file'', ''update_file''} then Inr (dstr ''content'' payload)
      else if action = ''append_file''
      then Inr (rstrip_of is_space before @ [newline, newline] @ py_strip (dstr ''content'' payload) @ [newline])
      else Inl (ValueError ''workspace proposal action must be replace_file, update_file, or append_file''))"

definition ws_apply_proposal :: "bool \<Rightarrow> seed \<Rightarrow> instant \<Rightarrow> uuid \<Rightarrow> string \<Rightarrow> uuid op" where
  "ws_apply_proposal ev seed now pid actor w = (case get_row ep_id pid (evolution_proposals w) of
     None \<Rightarrow> (Inl (KeyError (''proposal not found: '' @ pid)), w)
   | Some p \<Rightarrow>
       if ep_status p \<notin> {''pending'', ''approved''}
       then (Inl (ValueError (''proposal is not applyable: '' @ ep_status p)), w)
       else if ep_target_type p \<notin> {''persona'', ''user'', ''heartbeat'', ''workspace_file''}
       then (Inl (ValueError (''unsupported workspace proposal target_type: '' @ ep_target_type p)), w)
       else
         let kind = dstr_or ''kind'' (kind_for_target (ep_target_type p)) (ep_payload p)
         in op_bind (ws_read seed kind) (\<lambda>before.
              op_bind (op_lift (proposal_content (ep_action p) (ep_payload p) (wf_content before))) (\<lambda>content.
              op_bind (ws_write ev seed kind content actor) (\<lambda>after w1.
                let outcome = [(''ok'', JBool True), (''kind'', JStr kind), (''path'', JStr (wf_path after)),
                               (''actor'', JStr actor), (''action'', JStr (ep_action p))];
                    w2 = w1\<lparr>evolution_proposals := upd_row ep_id pid (\<lambda>q. q\<lparr>ep_status := ''applied'',
                            ep_before_snapshot := file_snapshot kind before,
                            ep_after_snapshot := file_snapshot kind after,
                            ep_result := outcome, ep_applied_at := Some now\<rparr>) (evolution_proposals w1)\<rparr>
                in (Inr pid,
                    audit ev ''workspace.proposal.apply'' ''evolution_proposal'' pid outcome
                      (emit ev ''workspace.proposal.applied'' ((''proposal_id'', JStr pid) # outcome) w2))))) w)"

section \<open>Files keep their contents\<close>

lemma fs_exists_put [simp]: "fs_exists (put_assoc p s fs) q = (q = p \<or> fs_exists fs q)"
  by (simp add: fs_exists_def)

lemma fs_exists_put_missing [simp]: "fs_exists (put_missing p s fs) q = (q = p \<or> fs_exists fs q)"
  by (auto simp: put_missing_def)

lemma put_missing_keeps: "map_of fs q = Some c \<Longrightarrow> map_of (put_missing p s fs) q = Some c"
  by (auto simp: put_missing_def fs_exists_def)

lemma put_missing_present: "fs_exists fs p \<Longrightarrow> put_missing p s fs = fs"
  by (simp add: put_missing_def)

lemma copy_missing_tree_keeps:
  "map_of fs q = Some c \<Longrightarrow> map_of (snd (copy_missing_tree items dst fs)) q = Some c"
proof (induction items dst fs rule: copy_missing_tree.induct)
  case (3 name d rest dst fs)
  then show ?case by (cases "q = dst @ name") (auto simp: fs_exists_def split: prod.splits)
qed (auto split: prod.splits)

text \<open>Copying the seed a second time copies nothing.\<close>

lemma copy_missing_tree_exists:
  "fs_exists fs q \<Longrightarrow> fs_exists (snd (copy_missing_tree items dst fs)) q"
  using copy_missing_tree_keeps by (fastforce simp: fs_exists_def)

lemma copy_missing_tree_absorbs:
  "(\<And>q. fs_exists (snd (copy_missing_tree items dst fs)) q \<Longrightarrow> fs_exists fs' q) \<Longrightarrow>
     copy_missing_tree items dst fs' = (0, fs')"
proof (induction items dst fs arbitrary: fs' rule: copy_missing_tree.induct)
  case (2 name items rest dst fs)
  obtain a fs1 where 1: "copy_missing_tree items (dst @ name @ ''/'') fs = (a, fs1)" by fastforce
  obtain b fs2 where b: "copy_missing_tree rest dst fs1 = (b, fs2)" by fastforce
  have fs2: "fs_exists fs' q" if "fs_exists fs2 q" for q using 2(3) that by (simp add: 1 b)
  moreover have "fs_exists fs2 q" if "fs_exists fs1 q" for q
    using copy_missing_tree_exists [OF that, of rest dst] b by simp
  ultimately have "copy_missing_tree items (dst @ name @ ''/'') fs' = (0, fs')"
    using 2(1) [of fs'] 1 by simp
  moreover have "copy_missing_tree rest dst fs' = (0, fs')"
    using 2(2) [OF 1 [symmetric], of fs'] fs2 b by simp
  ultimately show ?case by simp
next
  case (3 name c rest dst fs)
  show ?case
  proof (cases "fs_exists fs (dst @ name)")
    case True
    have "fs_exists (snd (copy_missing_tree rest dst fs)) (dst @ name)" by (rule copy_missing_tree_exists [OF True])
    then show ?thesis using 3 True by simp
  next
    case False
    obtain b fs2 where b: "copy_missing_tree rest dst (put_assoc (dst @ name) c fs) = (b, fs2)" by fastforce
    have fs2: "fs_exists fs' q" if "fs_exists fs2 q" for q using 3(3) that by (simp add: b False)
    have "fs_exists fs2 (dst @ name)"
      using copy_missing_tree_exists [of "put_assoc (dst @ name) c fs" "dst @ name" rest dst] b by simp
    then have "fs_exists fs' (dst @ name)" by (rule fs2)
    moreover have "copy_missing_tree rest dst fs' = (0, fs')" using 3(2) [OF False, of fs'] fs2 by (simp add: b)
    ultimately show ?thesis by simp
  qed
qed simp

definition known_paths :: "string list" where
  "known_paths = [''SOUL.md'', ''USER.md'', ''memory/MEMORY.md'', ''HEARTBEAT.md'', ''memory/history.jsonl'']"

lemma ensure_files_fs_unfold:
  "\<exists>a b c d. ensure_files_fs seed fs =
     put_missing ''memory/history.jsonl'' '''' (put_missing ''HEARTBEAT.md'' a (put_missing ''memory/MEMORY.md'' b
       (put_missing ''USER.md'' c (put_missing ''SOUL.md'' d (snd (seed_from_template seed fs))))))"
  unfolding ensure_files_fs_def WORKSPACE_FILE_MAP_def history_path_def by (simp only: fold_simps prod.case) blast

lemma seed_from_template_keeps:
  "map_of fs q = Some c \<Longrightarrow> map_of (snd (seed_from_template seed fs)) q = Some c"
  by (auto simp: seed_from_template_def copy_missing_tree_keeps split: option.splits)

lemma ensure_files_fs_keeps:
  "map_of fs q = Some c \<Longrightarrow> map_of (ensure_files_fs seed fs) q = Some c"
  using ensure_files_fs_unfold [of seed fs] by (auto intro!: put_missing_keeps seed_from_template_keeps)

lemma ensure_files_fs_exists:
  "fs_exists (ensure_files_fs seed fs) q
     = (q \<in> set known_paths \<or> fs_exists (snd (seed_from_template seed fs)) q)"
  using ensure_files_fs_unfold [of seed fs] by (auto simp: known_paths_def)

lemma ensure_files_fs_fixed:
  assumes "\<And>q. q \<in> set known_paths \<Longrightarrow> fs_exists fs q" and "snd (seed_from_template seed fs) = fs"
  shows "ensure_files_fs seed fs = fs"
  using ensure_files_fs_unfold [of seed fs] assms by (auto simp: known_paths_def put_missing_present)

lemma ensure_files_fs_known: "q \<in> set known_paths \<Longrightarrow> fs_exists (workspace_fs (ensure_files seed w)) q"
  by (simp add: ensure_files_def ensure_files_fs_exists)

text \<open>A directory that holds at least what set-up made needs no further set-up.\<close>

lemma ensure_files_fs_done:
  assumes "\<And>q. fs_exists (ensure_files_fs seed fs) q \<Longrightarrow> fs_exists fs' q"
  shows "ensure_files_fs seed fs' = fs'"
proof (rule ensure_files_fs_fixed)
  show "snd (seed_from_template seed fs') = fs'"
  proof (cases seed)
    case (Some items)
    have "fs_exists fs' q" if "fs_exists (snd (copy_missing_tree items '''' fs)) q" for q
      using that assms by (simp add: ensure_files_fs_exists seed_from_template_def Some)
    then show ?thesis by (simp add: seed_from_template_def Some copy_missing_tree_absorbs [of items "''''" fs])
  qed (simp add: seed_from_template_def)
qed (use assms in \<open>simp add: ensure_files_fs_exists\<close>)

text \<open>Setting up the workspace never changes a file that exists, creates the four known files and the
  history, and a second run changes nothing.\<close>

theorem ensure_files_safe:
  "(\<forall>q c. map_of (workspace_fs w) q = Some c \<longrightarrow> map_of (workspace_fs (ensure_files seed w)) q = Some c)
   \<and> (\<forall>q \<in> set known_paths. fs_exists (workspace_fs (ensure_files seed w)) q)
   \<and> ensure_files seed (ensure_files seed w) = ensure_files seed w"
  by (simp add: ensure_files_fs_known) (simp add: ensure_files_def ensure_files_fs_keeps ensure_files_fs_done [of seed "workspace_fs w"])

section \<open>Reading back what was written\<close>

lemma universal_newlines_id: "CHR 0x0D \<notin> set s \<Longrightarrow> universal_newlines s = s"
  by (induction s rule: universal_newlines.induct) auto

lemma path_for_known: "path_for kind = Inr p \<Longrightarrow> p \<in> set known_paths"
  by (auto simp: path_for_def WORKSPACE_FILE_MAP_def known_paths_def split: option.splits if_splits)

lemma ws_write_result:
  assumes "path_for kind = Inr p"
  shows "ws_write ev seed kind content actor w =
    (Inr \<lparr>wf_kind = kind, wf_path = p, wf_content = universal_newlines content\<rparr>,
     audit ev ''workspace.file.update'' ''workspace_file'' kind
       [(''path'', JStr p), (''actor'', JStr actor),
        (''before_len'', JInt (int (length (read_text (workspace_fs w) p)))), (''after_len'', JInt (int (length content)))]
      (emit ev ''workspace.file.updated'' [(''kind'', JStr kind), (''path'', JStr p), (''actor'', JStr actor)]
        (w\<lparr>workspace_fs := put_assoc p content (workspace_fs w)\<rparr>)))"
  by (simp add: ws_write_def ws_read_def assms op_bind_def read_text_def Let_def)

text \<open>A file written is read back (its line ends as line feeds), every other file keeps its contents, and
  nothing but the workspace directory and the event tables changes.\<close>

theorem ws_write_read:
  assumes "path_for kind = Inr p" and "ws_write ev seed kind content actor w = (r, w')"
  shows "fst (ws_read seed kind w') = Inr \<lparr>wf_kind = kind, wf_path = p, wf_content = universal_newlines content\<rparr>
    \<and> snd (ws_read seed kind w') = w'
    \<and> (CHR 0x0D \<notin> set content \<longrightarrow> wf_content (projr (fst (ws_read seed kind w'))) = content)
    \<and> (\<forall>q. q \<noteq> p \<longrightarrow> map_of (workspace_fs w') q = map_of (workspace_fs w) q)
    \<and> same_state (w\<lparr>workspace_fs := workspace_fs w'\<rparr>) w'"
  using assms(2) unfolding ws_write_result [OF assms(1)]
  by (auto simp: ws_read_def assms(1) read_text_def universal_newlines_id same_state_def bus_defs)

theorem ws_write_read_witness:
  "let w' = snd (ws_write True None '' Soul'' ''be kind'' ''admin'' empty_world)
   in path_for '' Soul'' = Inr ''SOUL.md'' \<and> wf_content (projr (fst (ws_read None '' Soul'' w'))) = ''be kind''"
proof -
  have p: "path_for '' Soul'' = Inr ''SOUL.md''" by code_simp
  show ?thesis
    using ws_write_read [OF p prod.collapse [symmetric], where ev = True and seed = None and content = "''be kind''"
      and actor = "''admin''" and w = empty_world] p
    by (simp add: Let_def)
qed

section \<open>The history\<close>

text \<open>No string and no key of a value contains the next-line character (code point 133), the one line
  boundary of \<open>str.splitlines\<close> below 256 that \<open>json.dumps\<close> leaves unescaped.\<close>

definition no_nel :: "string \<Rightarrow> bool" where
  "no_nel s = (\<forall>c \<in> set s. ordc c \<noteq> 133)"

fun nel_free :: "json \<Rightarrow> bool" where
  "nel_free (JStr s) = no_nel s"
| "nel_free (JList xs) = (\<forall>x \<in> set xs. nel_free x)"
| "nel_free (JObj d) = (\<forall>(k, v) \<in> set d. no_nel k \<and> nel_free v)"
| "nel_free _ = True"

definition unbroken :: "string \<Rightarrow> bool" where
  "unbroken s = (\<forall>c \<in> set s. 32 \<le> ordc c \<and> ordc c \<noteq> 133)"

lemma unbroken_simps [simp]:
  "unbroken []" "unbroken (c # s) = (32 \<le> ordc c \<and> ordc c \<noteq> 133 \<and> unbroken s)"
  "unbroken (s @ t) = (unbroken s \<and> unbroken t)"
  by (auto simp: unbroken_def)

lemma unbroken_literals:
  "unbroken ''null''" "unbroken ''true''" "unbroken ''false''" "unbroken '', ''" "unbroken '': ''" "unbroken ''[''"
  "unbroken '']''" "unbroken ''-''" "unbroken ''.''" "unbroken ''0''" "unbroken [CHR 0x22]"
  "unbroken [CHR 0x7B]" "unbroken [CHR 0x7D]" "unbroken [CHR 0x5C]" "unbroken ''u00''" "unbroken ''nrtbf''"
  by code_simp+

lemma unbroken_digits: "list_all is_digit s \<Longrightarrow> unbroken s"
  by (induction s) (auto simp: is_digit_def Let_def)

lemma unbroken_join: "unbroken sep \<Longrightarrow> (\<forall>s \<in> set xs. unbroken s) \<Longrightarrow> unbroken (join sep xs)"
  by (induction sep xs rule: join.induct) auto

lemma ordc_hex_digit: "0 \<le> d \<Longrightarrow> d < 16 \<Longrightarrow> 32 \<le> ordc (hex_digit d) \<and> ordc (hex_digit d) \<noteq> 133"
  by (auto simp: hex_digit_def ordc_char_of)

lemma unbroken_json_char: "ordc c \<noteq> 133 \<Longrightarrow> unbroken (json_char c)"
proof -
  have "0 \<le> ordc c div 16" "ordc c div 16 < 16" using ordc_range [of c] by auto
  then show "ordc c \<noteq> 133 \<Longrightarrow> ?thesis"
    using unbroken_literals(14-16) ordc_hex_digit [of "ordc c div 16"] ordc_hex_digit [of "ordc c mod 16"]
    by (simp add: json_char_def Let_def)
qed

lemma unbroken_json_string: "no_nel s \<Longrightarrow> unbroken (json_string s)"
  using unbroken_literals(11) by (induction s) (auto simp: json_string_def no_nel_def unbroken_json_char)

lemma unbroken_int: "unbroken (int_str i)"
  using digits_dec_str [of i] digits_dec_str [of "- i"] unbroken_literals(8) by (auto simp: int_str_def unbroken_digits)

lemma unbroken_dumps: "exact v \<Longrightarrow> nel_free v \<Longrightarrow> unbroken (json_dumps v)"
proof (induction v rule: json_dumps.induct)
  case (6 xs)
  then have "unbroken (join '', '' (map json_dumps xs))"
    using unbroken_literals by (intro unbroken_join) auto
  then show ?case using unbroken_literals(6,7) by simp
next
  case (7 d)
  have "unbroken (json_string k @ '': '' @ json_dumps v)" if "(k, v) \<in> set d" for k v
  proof -
    have "unbroken (json_dumps v)" using 7 that by fastforce
    moreover have "unbroken (json_string k)" using 7(3) that by (auto intro: unbroken_json_string)
    ultimately show ?thesis using unbroken_literals(5) by simp
  qed
  then have "unbroken (join '', '' (map (\<lambda>(k, v). json_string k @ '': '' @ json_dumps v) d))"
    using unbroken_literals(4) by (intro unbroken_join) auto
  then show ?case using unbroken_literals(12,13) by simp
qed (use unbroken_literals in \<open>simp_all add: unbroken_int unbroken_json_string\<close>)

lemma unbroken_no_breaks: "unbroken s \<Longrightarrow> c \<in> set s \<Longrightarrow> \<not> is_linebreak c \<and> c \<noteq> CHR 0x0D"
proof -
  have "ordc (CHR 0x0D) = 13" by code_simp
  then show "unbroken s \<Longrightarrow> c \<in> set s \<Longrightarrow> ?thesis" by (auto simp: unbroken_def is_linebreak_def Let_def)
qed

text \<open>A text of whole lines followed by one more line.\<close>

definition whole_lines :: "string \<Rightarrow> bool" where
  "whole_lines s = (s = [] \<or> last s = newline)"

lemma splitlines_acc_line:
  "\<forall>c \<in> set s. \<not> is_linebreak c \<and> c \<noteq> CHR 0x0D \<Longrightarrow> splitlines_acc acc (s @ [newline]) = [rev acc @ s]"
proof (induction s arbitrary: acc)
  case Nil
  have "is_linebreak newline" by code_simp
  then show ?case by (cases acc) auto
next
  case (Cons c s)
  then show ?case by (cases s) auto
qed

lemma splitlines_acc_append:
  "s \<noteq> [] \<Longrightarrow> last s = newline \<Longrightarrow> splitlines_acc acc (s @ t) = splitlines_acc acc s @ splitlines_acc [] t"
proof (induction acc s rule: splitlines_acc.induct)
  case (2 acc c)
  have "is_linebreak newline" "newline \<noteq> CHR 0x0D" by code_simp+
  then show ?case using 2 by (cases t) auto
next
  case (3 acc c d cs)
  show ?case
  proof (cases "c = CHR 0x0D \<and> d = CHR 0x0A \<and> cs = []")
    case True
    then show ?thesis by (cases t) auto
  next
    case False
    then show ?thesis using 3 by (cases "cs = []") auto
  qed
qed simp

lemma universal_newlines_append:
  "s = [] \<or> last s = newline \<Longrightarrow> universal_newlines (s @ t) = universal_newlines s @ universal_newlines t"
proof (induction s rule: universal_newlines.induct)
  case (2 c)
  have "newline \<noteq> CHR 0x0D" by code_simp
  then show ?case using 2 by (cases t) auto
next
  case (3 c d cs)
  then show ?case by (cases "cs = []") (auto simp: newline_def)
qed simp

lemma universal_newlines_Nil [simp]: "universal_newlines s = [] \<longleftrightarrow> s = []"
  by (induction s rule: universal_newlines.induct) auto

lemma whole_lines_universal: "whole_lines s \<Longrightarrow> whole_lines (universal_newlines s)"
  by (induction s rule: universal_newlines.induct) (auto simp: whole_lines_def newline_def split: if_splits)

lemma splitlines_add_line:
  assumes "whole_lines s" and "unbroken l"
  shows "splitlines (s @ l @ [newline]) = splitlines s @ [l]"
proof -
  have "\<forall>c \<in> set l. \<not> is_linebreak c \<and> c \<noteq> CHR 0x0D" using unbroken_no_breaks [OF assms(2)] by blast
  note line = splitlines_acc_line [OF this, of "[]"]
  show ?thesis
  proof (cases "s = []")
    case False
    then show ?thesis using assms(1) splitlines_acc_append [of s "[]" "l @ [newline]"] line
      by (simp add: whole_lines_def splitlines_def)
  qed (use line in \<open>simp add: splitlines_def\<close>)
qed

definition history_text :: "world \<Rightarrow> string" where
  "history_text w = (case map_of (workspace_fs w) history_path of None \<Rightarrow> [] | Some s \<Rightarrow> s)"

lemma ensure_append_history: "ensure_files seed (append_history seed now r w) = append_history seed now r w"
proof -
  have "ensure_files_fs seed (put_assoc history_path s (ensure_files_fs seed (workspace_fs w)))
      = put_assoc history_path s (ensure_files_fs seed (workspace_fs w))" for s
    by (rule ensure_files_fs_done [of seed "workspace_fs w"]) simp
  then show ?thesis by (simp add: append_history_def Let_def ensure_files_def)
qed

lemma last_n_snoc: "0 < n \<Longrightarrow> last_n n (xs @ [x]) = last_n (n - 1) xs @ [x]"
  by (auto simp: last_n_def Suc_diff_le)

lemma last_n_mono: "k \<le> n \<Longrightarrow> suffix (last_n k xs) (last_n n xs)"
proof -
  assume "k \<le> n"
  then have "length xs - k = (length xs - k - (length xs - n)) + (length xs - n)" by arith
  then have "last_n k xs = drop (length xs - k - (length xs - n)) (last_n n xs)"
    unfolding last_n_def drop_drop by (rule arg_cong)
  then show ?thesis by (metis suffix_drop)
qed

lemma suffix_map_filter: "suffix xs ys \<Longrightarrow> suffix (List.map_filter f xs) (List.map_filter f ys)"
  by (auto simp: suffix_def map_filter_def)

lemma exact_dmerge:
  assumes "exact (JObj d)" and "exact (JObj e)"
  shows "exact (JObj (dmerge d e))"
  using assms
proof (induction e arbitrary: d)
  case (Cons a e)
  obtain k v where a: "a = (k, v)" by fastforce
  have set: "set (dset k v d) \<subseteq> insert (k, v) (set d)" for d by (induction k v d rule: dset.induct) auto
  have "exact (JObj (dset k v d))"
    using Cons.prems distinct_dset [of d k v] set [of d] by (auto simp: a)
  moreover have "exact (JObj e)" using Cons.prems by (simp add: a)
  ultimately show ?case using Cons.IH [of "dset k v d"] by (simp add: dmerge_def a)
qed (simp add: dmerge_def)

lemma nel_free_dmerge:
  assumes "nel_free (JObj d)" and "nel_free (JObj e)"
  shows "nel_free (JObj (dmerge d e))"
  using assms
proof (induction e arbitrary: d)
  case (Cons a e)
  obtain k v where a: "a = (k, v)" by fastforce
  have set: "set (dset k v d) \<subseteq> insert (k, v) (set d)" for d by (induction k v d rule: dset.induct) auto
  have "nel_free (JObj (dset k v d))" using Cons.prems set [of d] by (auto simp: a)
  moreover have "nel_free (JObj e)" using Cons.prems by (simp add: a)
  ultimately show ?case using Cons.IH [of "dset k v d"] by (simp add: dmerge_def a)
qed (simp add: dmerge_def)

lemma no_nel_isoformat: "no_nel (isoformat t)"
proof -
  have unb: "no_nel s" if "unbroken s" for s using that by (auto simp: unbroken_def no_nel_def)
  have "unbroken (replicate k CHR ''0'')" for k using unbroken_literals(10) by (induction k) auto
  then have pad: "unbroken (pad_int n i)" for n i by (simp add: pad_int_def Let_def unbroken_int)
  have "unbroken ''T''" "unbroken '':''" "unbroken ''+00:00''" by code_simp+
  then have "unbroken (isoformat t)"
    using pad unbroken_literals(8,9) by (simp add: isoformat_def Let_def split: prod.splits)
  then show ?thesis by (rule unb)
qed

lemma history_item_dumps:
  assumes "exact (JObj d)"
  shows "history_item (json_dumps (JObj d)) = Some d"
proof -
  have "\<not> is_space (CHR 0x7B)" "\<not> is_space (CHR 0x7D)" by code_simp+
  then have "py_strip (json_dumps (JObj d)) \<noteq> []"
    by (simp add: py_strip_def strip_of_def lstrip_of_def rstrip_of_def)
  then show ?thesis
    by (simp add: history_item_def json_loads_dumps [OF assms] is_dict_def dict_or_empty_def del: json_dumps.simps)
qed

text \<open>A record appended to the history is the last one read back, after what was there, whatever the limit:
  for records without floats, without repeated keys and without the character \<open>U+0085\<close>, when the file
  held whole lines. The file then holds whole lines again.\<close>

theorem history_roundtrip:
  assumes "exact (JObj entry)" and "nel_free (JObj entry)"
    and "whole_lines (history_text (ensure_files seed w))"
  shows "(\<exists>earlier. fst (read_history seed limit (append_history seed now entry w))
           = earlier @ [history_payload now entry]
         \<and> suffix earlier (fst (read_history seed limit w)))
    \<and> whole_lines (history_text (append_history seed now entry w))"
proof -
  let ?d = "json_dumps (JObj (history_payload now entry))"
  let ?old = "history_text (ensure_files seed w)"
  let ?w = "append_history seed now entry w"
  have ex: "exact (JObj (history_payload now entry))"
    unfolding history_payload_def by (rule exact_dmerge) (use assms(1) in auto)
  have "no_nel ''created_at''" by code_simp
  then have "nel_free (JObj (history_payload now entry))"
    unfolding history_payload_def by (intro nel_free_dmerge) (use assms(2) no_nel_isoformat in auto)
  then have d: "unbroken ?d" using ex by (intro unbroken_dumps)
  have ht: "history_text ?w = ?old @ ?d @ [newline]"
    by (simp add: history_text_def append_history_def Let_def)
  have whole: "whole_lines (history_text ?w)" by (simp add: ht whole_lines_def)
  have rd: "read_text (workspace_fs v) history_path = universal_newlines (history_text v)" for v
    by (simp add: read_text_def history_text_def split: option.splits)
  have "CHR 0x0D \<notin> set (?d @ [newline])" using unbroken_no_breaks [OF d] by (auto simp: newline_def)
  then have "universal_newlines (history_text ?w) = universal_newlines ?old @ ?d @ [newline]"
    using assms(3) unfolding ht
    by (subst universal_newlines_append) (simp_all add: whole_lines_def universal_newlines_id)
  then have sl: "splitlines (read_text (workspace_fs ?w) history_path) = splitlines (universal_newlines ?old) @ [?d]"
    using splitlines_add_line [OF whole_lines_universal [OF assms(3)] d] by (simp add: rd)
  let ?n = "clamp_limit 500 limit"
  let ?e = "List.map_filter history_item (last_n (?n - 1) (splitlines (universal_newlines ?old)))"
  have n: "0 < ?n" using clamp_limit_pos [of 500 limit] by simp
  have "fst (read_history seed limit ?w) = ?e @ [history_payload now entry]"
    using history_item_dumps [OF ex]
    by (simp add: read_history_def Let_def ensure_append_history sl last_n_snoc [OF n] map_filter_def del: json_dumps.simps)
  moreover have "suffix ?e (fst (read_history seed limit w))"
    by (simp add: read_history_def Let_def rd suffix_map_filter last_n_mono)
  ultimately show ?thesis using whole by blast
qed

theorem history_roundtrip_witness:
  "last (fst (read_history None 50 (append_history None 0 [(''event'', JStr ''note'')] empty_world)))
     = [(''created_at'', JStr ''1970-01-01T00:00:00+00:00''), (''event'', JStr ''note'')]"
proof -
  have 1: "exact (JObj [(''event'', JStr ''note'')])" by simp
  have 2: "nel_free (JObj [(''event'', JStr ''note'')])" by code_simp
  have 3: "whole_lines (history_text (ensure_files None empty_world))" by code_simp
  have "history_payload 0 [(''event'', JStr ''note'')]
     = [(''created_at'', JStr ''1970-01-01T00:00:00+00:00''), (''event'', JStr ''note'')]" by code_simp
  then show ?thesis using history_roundtrip [OF 1 2 3, of 50 0] by auto
qed

text \<open>With \<open>U+0085\<close> in a string the record is read back as two broken lines.\<close>

lemma history_nel_broken:
  "fst (read_history None 50 (append_history None 0 [(''t'', JStr [CHR ''a'', CHR 0x85, CHR ''b''])] empty_world))
     = [[(''raw'', JStr (''{'' @ [CHR 0x22] @ ''created_at'' @ [CHR 0x22] @ '': '' @ [CHR 0x22] @
           ''1970-01-01T00:00:00+00:00'' @ [CHR 0x22] @ '', '' @ [CHR 0x22] @ ''t'' @ [CHR 0x22] @ '': '' @ [CHR 0x22] @ ''a''))],
        [(''raw'', JStr (''b'' @ [CHR 0x22] @ ''}''))]]"
  by code_simp

section \<open>Proposals are applied once\<close>

text \<open>Applying a proposal to a workspace file succeeds only for a pending or approved proposal of a
  workspace target; it writes the file, records the contents before and after in the proposal and marks it
  applied, so that applying it again raises and changes nothing.\<close>

theorem ws_apply_proposal_once:
  assumes "ws_apply_proposal ev seed now pid actor w = (Inr r, w')"
  shows "\<exists>p q kind path content.
      get_row ep_id pid (evolution_proposals w) = Some p \<and> ep_status p \<in> {''pending'', ''approved''}
    \<and> get_row ep_id pid (evolution_proposals w') = Some q \<and> ep_status q = ''applied''
    \<and> path_for kind = Inr path \<and> map_of (workspace_fs w') path = Some content
    \<and> dget ''content'' (ep_after_snapshot q) = JStr (universal_newlines content)
    \<and> (fs_exists (workspace_fs w) path \<longrightarrow>
         dget ''content'' (ep_before_snapshot q) = JStr (read_text (workspace_fs w) path))
    \<and> ws_apply_proposal ev seed now2 pid actor2 w'
        = (Inl (ValueError ''proposal is not applyable: applied''), w')"
proof -
  obtain p where p: "get_row ep_id pid (evolution_proposals w) = Some p" "ep_status p \<in> {''pending'', ''approved''}"
    "ep_target_type p \<in> {''persona'', ''user'', ''heartbeat'', ''workspace_file''}"
    using assms by (auto simp: ws_apply_proposal_def split: option.splits if_splits)
  let ?kind = "dstr_or ''kind'' (kind_for_target (ep_target_type p)) (ep_payload p)"
  obtain before w0 content after w1 where
    rd: "ws_read seed ?kind w = (Inr before, w0)" and
    wr: "ws_write ev seed ?kind content actor w0 = (Inr after, w1)" and
    ct: "proposal_content (ep_action p) (ep_payload p) (wf_content before) = Inr content"
    using assms p by (auto simp: ws_apply_proposal_def Let_def op_bind_Inr)
  obtain path where path: "path_for ?kind = Inr path"
    using rd by (cases "path_for ?kind") (auto simp: ws_read_def)
  let ?res = "[(''ok'', JBool True), (''kind'', JStr ?kind), (''path'', JStr (wf_path after)),
               (''actor'', JStr actor), (''action'', JStr (ep_action p))]"
  let ?f = "\<lambda>q. q\<lparr>ep_status := ''applied'', ep_before_snapshot := file_snapshot ?kind before,
              ep_after_snapshot := file_snapshot ?kind after, ep_result := ?res, ep_applied_at := Some now\<rparr>"
  have w': "w' = audit ev ''workspace.proposal.apply'' ''evolution_proposal'' pid ?res
      (emit ev ''workspace.proposal.applied'' ((''proposal_id'', JStr pid) # ?res)
        (w1\<lparr>evolution_proposals := upd_row ep_id pid ?f (evolution_proposals w1)\<rparr>))"
    using assms p rd wr ct by (auto simp: ws_apply_proposal_def Let_def op_bind_def)
  have after: "after = \<lparr>wf_kind = ?kind, wf_path = path, wf_content = universal_newlines content\<rparr>"
    and w1: "evolution_proposals w1 = evolution_proposals w0" "map_of (workspace_fs w1) path = Some content"
    using wr unfolding ws_write_result [OF path] by auto
  have w0: "evolution_proposals w0 = evolution_proposals w"
    "fs_exists (workspace_fs w) path \<Longrightarrow> wf_content before = read_text (workspace_fs w) path"
    using rd path by (auto simp: ws_read_def ensure_files_def Let_def split: if_splits)
  have q: "get_row ep_id pid (evolution_proposals w') = Some (?f p)"
    using p(1) by (simp add: w' w0 w1 get_row_upd)
  have "ws_apply_proposal ev seed now2 pid actor2 w' = (Inl (ValueError ''proposal is not applyable: applied''), w')"
    using q by (simp add: ws_apply_proposal_def)
  then show ?thesis
    using p(1,2) q path w0(2) by (intro exI [of _ p] exI [of _ "?f p"] exI [of _ ?kind] exI [of _ path] exI [of _ content])
      (simp add: w' w1 after file_snapshot_def dget_def)
qed

definition sample_proposal :: evolution_proposal where
  "sample_proposal = \<lparr>ep_id = ''p1'', ep_target_type = ''persona'', ep_action = ''append_file'', ep_status = ''pending'',
     ep_risk_level = ''low'', ep_payload = [(''content'', JStr ''Be brief.'')], ep_evidence = [], ep_before_snapshot = [],
     ep_after_snapshot = [], ep_result = [], ep_target_checksum = '''', ep_stale_reason = '''', ep_created_at = 0,
     ep_applied_at = None\<rparr>"

theorem ws_apply_proposal_once_witness:
  "let w = empty_world\<lparr>evolution_proposals := [sample_proposal], workspace_fs := [(''SOUL.md'', ''Be kind.'')]\<rparr>;
       w' = snd (ws_apply_proposal True None 5 ''p1'' ''admin'' w)
   in map_of (workspace_fs w') ''SOUL.md'' = Some (''Be kind.'' @ [newline, newline] @ ''Be brief.'' @ [newline])
      \<and> ws_apply_proposal True None 6 ''p1'' ''admin'' w'
          = (Inl (ValueError ''proposal is not applyable: applied''), w')"
proof -
  let ?w = "empty_world\<lparr>evolution_proposals := [sample_proposal], workspace_fs := [(''SOUL.md'', ''Be kind.'')]\<rparr>"
  have "isl (fst (ws_apply_proposal True None 5 ''p1'' ''admin'' ?w)) = False" by code_simp
  then obtain r where "ws_apply_proposal True None 5 ''p1'' ''admin'' ?w
      = (Inr r, snd (ws_apply_proposal True None 5 ''p1'' ''admin'' ?w))" by (metis prod.collapse sum.collapse(2))
  from ws_apply_proposal_once [OF this, of 6 "''admin''"]
  have "ws_apply_proposal True None 6 ''p1'' ''admin'' (snd (ws_apply_proposal True None 5 ''p1'' ''admin'' ?w))
     = (Inl (ValueError ''proposal is not applyable: applied''), snd (ws_apply_proposal True None 5 ''p1'' ''admin'' ?w))" by blast
  moreover have "map_of (workspace_fs (snd (ws_apply_proposal True None 5 ''p1'' ''admin'' ?w))) ''SOUL.md''
     = Some (''Be kind.'' @ [newline, newline] @ ''Be brief.'' @ [newline])" by code_simp
  ultimately show ?thesis by (simp only: Let_def simp_thms)
qed

text \<open>The default heartbeat file has no active task.\<close>

lemma default_heartbeat_idle: "fst (active_heartbeat_tasks None empty_world) = Inr []"
  by code_simp

end
