(* ===== verification/Conversation.thy ===== *)
theory Conversation
  imports Ops Workspace
begin

text \<open>
  Conversation history: \<open>ConversationService\<close> of \<open>backend/domain/conversation.py\<close>. Messages are appended
  rows; the context of a session is its summary, its newest messages in order and their total number; the
  summary is renewed by the language model when enough messages have come since the last one.

  The language model is the parameter \<open>llm\<close>: absent or not configured, or an operation that maps the prompt to the
  text of the completion or raises (the client writes events, so it may change the state).
\<close>

section \<open>Data\<close>

record conversation_service =
  cs_events :: bool
  cs_summary_threshold :: int
  cs_recent_limit :: int

definition default_conversation :: "bool \<Rightarrow> conversation_service" where
  "default_conversation ev = \<lparr>cs_events = ev, cs_summary_threshold = 24, cs_recent_limit = 12\<rparr>"

record session_context =
  sc_summary :: string
  sc_messages :: "session_message list"
  sc_total :: int

type_synonym llm = "(dict list \<Rightarrow> string op) option"

section \<open>Operations\<close>

definition record_message ::
  "conversation_service \<Rightarrow> uuid \<Rightarrow> instant \<Rightarrow> string \<Rightarrow> string \<Rightarrow> string \<Rightarrow> string \<Rightarrow> dict \<Rightarrow> world \<Rightarrow> session_message \<times> world" where
  "record_message cs mid now session_id turn_id role content metadata w =
     (let m = \<lparr>sm_id = mid, sm_session_id = session_id, sm_turn_id = turn_id, sm_role = role, sm_content = content,
               sm_metadata = metadata, sm_created_at = now\<rparr>
      in (m, emit_full (cs_events cs) ''conversation.message.recorded''
               [(''role'', JStr role), (''message_id'', JStr mid)] ''info'' session_id turn_id
               (w\<lparr>session_messages := session_messages w @ [m]\<rparr>)))"

definition record_user_message where
  "record_user_message cs mid now session_id turn_id content metadata w =
     record_message cs mid now session_id turn_id ''user'' content metadata w"

definition record_assistant_message where
  "record_assistant_message cs mid now session_id turn_id content metadata w =
     record_message cs mid now session_id turn_id ''assistant'' content metadata w"

definition record_tool_message where
  "record_tool_message cs mid now session_id turn_id content metadata w =
     record_message cs mid now session_id turn_id ''tool'' content metadata w"

definition session_rows :: "world \<Rightarrow> string \<Rightarrow> session_message list" where
  "session_rows w session_id = filter (\<lambda>m. sm_session_id m = session_id) (session_messages w)"

text \<open>\<open>order_by(desc(created_at)).limit(n)\<close>, reversed.\<close>

definition newest_rows :: "nat \<Rightarrow> session_message list \<Rightarrow> session_message list" where
  "newest_rows n ms = rev (take n (sort_key (\<lambda>m. - sm_created_at m) ms))"

definition get_summary :: "world \<Rightarrow> string \<Rightarrow> session_summary option" where
  "get_summary w session_id = get_row ss_session_id session_id (session_summaries w)"

definition recent_context :: "conversation_service \<Rightarrow> string \<Rightarrow> int option \<Rightarrow> world \<Rightarrow> session_context" where
  "recent_context cs session_id limit w =
     (let n = (case limit of None \<Rightarrow> cs_recent_limit cs | Some k \<Rightarrow> if k = 0 then cs_recent_limit cs else k)
      in \<lparr>sc_summary = (case get_summary w session_id of None \<Rightarrow> '''' | Some s \<Rightarrow> ss_summary s),
          sc_messages = newest_rows (clamp_limit 50 n) (session_rows w session_id),
          sc_total = int (length (session_rows w session_id))\<rparr>)"

definition list_messages :: "world \<Rightarrow> string \<Rightarrow> int \<Rightarrow> session_message list" where
  "list_messages w session_id limit = newest_rows (clamp_limit 500 limit) (session_rows w session_id)"

record session_row =
  sr_session_id :: string
  sr_last_message_at :: instant
  sr_message_count :: int

definition list_sessions :: "world \<Rightarrow> int \<Rightarrow> session_row list" where
  "list_sessions w limit =
     take (clamp_limit 500 limit) (sort_key (\<lambda>r. - sr_last_message_at r)
       (map (\<lambda>s. \<lparr>sr_session_id = s, sr_last_message_at = Max (set (map sm_created_at (session_rows w s))),
                 sr_message_count = int (length (session_rows w s))\<rparr>)
         (remdups (map sm_session_id (session_messages w)))))"

definition summary_prompt :: "session_message list \<Rightarrow> dict list" where
  "summary_prompt ms =
     [[(''role'', JStr ''system''),
       (''content'', JStr (''Summarize this SoulClaw session for future short-term context. Keep durable facts, '' @
          ''goals, decisions, and unresolved threads. Be concise.''))],
      [(''role'', JStr ''user''), (''content'', JStr (join [newline] (map (\<lambda>m. sm_role m @ '': '' @ sm_content m) (last_n 80 ms))))]]"

definition put_summary :: "uuid \<Rightarrow> string \<Rightarrow> string \<Rightarrow> int \<Rightarrow> world \<Rightarrow> world" where
  "put_summary sid session_id content seen w =
     (let md = [(''message_count'', JInt seen)]
      in case get_summary w session_id of
           None \<Rightarrow> w\<lparr>session_summaries := session_summaries w @
              [\<lparr>ss_id = sid, ss_session_id = session_id, ss_summary = content, ss_count = seen, ss_metadata = md\<rparr>]\<rparr>
         | Some _ \<Rightarrow> w\<lparr>session_summaries := upd_row ss_session_id session_id
              (\<lambda>r. r\<lparr>ss_summary := content, ss_count := seen, ss_metadata := md\<rparr>) (session_summaries w)\<rparr>)"

definition update_summary_if_needed ::
  "conversation_service \<Rightarrow> uuid \<Rightarrow> string \<Rightarrow> llm \<Rightarrow> world \<Rightarrow> session_summary option \<times> world" where
  "update_summary_if_needed cs sid session_id llm w = (case llm of
     None \<Rightarrow> (None, w)
   | Some answer \<Rightarrow>
       let total = int (length (session_rows w session_id));
           summarized = (case get_summary w session_id of None \<Rightarrow> 0 | Some s \<Rightarrow> ss_count s)
       in if total < cs_summary_threshold cs then (None, w)
          else if total - summarized < cs_summary_threshold cs then (None, w)
          else (case answer (summary_prompt (list_messages w session_id 80)) w of
             (Inl e, v) \<Rightarrow> (None, emit_full (cs_events cs) ''conversation.summary.failed''
                [(''session_id'', JStr session_id), (''error'', JStr (exc_str e))] ''warning'' session_id '''' v)
           | (Inr response, v) \<Rightarrow>
               let w1 = put_summary sid session_id (py_strip response) total v
               in (get_summary w1 session_id,
                   emit_full (cs_events cs) ''conversation.summary.updated''
                     [(''session_id'', JStr session_id), (''message_count'', JInt total)] ''info'' session_id '''' w1)))"

section \<open>The newest messages\<close>

lemma sort_desc_rev:
  fixes f :: "'a \<Rightarrow> rat"
  shows "sorted_wrt (\<lambda>a b. f a < f b) xs \<Longrightarrow> sort_key (\<lambda>x. - f x) xs = rev xs"
proof -
  assume s: "sorted_wrt (\<lambda>a b. f a < f b) xs"
  then have inj: "inj_on (\<lambda>x. - f x) (set xs)"
    by (induction xs) (fastforce simp: inj_on_def)+
  have "sorted_wrt (\<lambda>a b. - f a < - f b) (rev xs)" using s by (simp add: sorted_wrt_rev)
  then have "sorted (map (\<lambda>x. - f x) (rev xs))"
    by (simp add: sorted_map sorted_wrt_mono_rel [of _ "\<lambda>a b. - f a < - f b"])
  then show ?thesis by (intro sort_key_inj_key_eq) (use inj in \<open>simp_all\<close>)
qed

lemma newest_rows_last:
  "sorted_wrt (\<lambda>a b. sm_created_at a < sm_created_at b) ms \<Longrightarrow> newest_rows n ms = last_n n ms"
  by (simp add: newest_rows_def sort_desc_rev take_rev last_n_def)

lemma session_rows_record:
  "session_rows (snd (record_message cs mid now s t role c md w)) k
     = session_rows w k @ (if s = k then [fst (record_message cs mid now s t role c md w)] else [])"
  by (simp add: session_rows_def record_message_def Let_def)


definition chat_world :: "nat \<Rightarrow> world" where
  "chat_world n = empty_world\<lparr>session_messages := map (\<lambda>i. \<lparr>sm_id = ''m'', sm_session_id = ''s'', sm_turn_id = '''',
     sm_role = ''user'', sm_content = ''hi'', sm_metadata = [], sm_created_at = of_nat i\<rparr>) [0..<n]\<rparr>"


section \<open>Summaries\<close>

lemma get_put_summary:
  "\<exists>s. get_summary (put_summary sid session_id c n w) session_id = Some s \<and> ss_count s = n \<and> ss_summary s = c"
  by (auto simp: put_summary_def get_summary_def Let_def get_row_append get_row_upd split: option.split)

text \<open>Whatever the model answers (asking it changes neither messages nor summaries), an update leaves the messages alone, and the stored summary changes only when at
  least the threshold of messages has come since the last one. Then it covers all messages of the session, and
  asking again at once changes nothing.\<close>

theorem summary_updated_once:
  assumes "update_summary_if_needed cs sid session_id (Some answer) w = (x, w')" and "0 < cs_summary_threshold cs"
    and "\<And>p v. session_messages (snd (answer p v)) = session_messages v \<and> session_summaries (snd (answer p v)) = session_summaries v"
  shows "session_rows w' session_id = session_rows w session_id
    \<and> (session_summaries w' \<noteq> session_summaries w \<longrightarrow>
        (let total = int (length (session_rows w session_id));
             done = (case get_summary w session_id of None \<Rightarrow> 0 | Some s \<Rightarrow> ss_count s)
         in cs_summary_threshold cs \<le> total \<and> cs_summary_threshold cs \<le> total - done
            \<and> (\<exists>s. get_summary w' session_id = Some s \<and> ss_count s = total)
            \<and> update_summary_if_needed cs sid2 session_id (Some answer2) w' = (None, w')))"
proof -
  let ?total = "int (length (session_rows w session_id))"
  have rows: "session_rows (put_summary sid session_id c t v) k = session_rows v k" for c t v k
    by (simp add: session_rows_def put_summary_def Let_def split: option.split)
  have rows2: "session_rows (emit_full on t p sv se tu v) k = session_rows v k"
    "get_summary (emit_full on t p sv se tu v) k = get_summary v k" for on t p sv se tu v k
    by (simp_all add: session_rows_def get_summary_def)
  let ?p = "summary_prompt (list_messages w session_id 80)"
  obtain a v where a: "answer ?p w = (a, v)" by fastforce
  have v: "session_messages v = session_messages w" "session_summaries v = session_summaries w" using assms(3) [of ?p w] a by simp_all
  have v2: "session_rows v k = session_rows w k" "get_summary v k = get_summary w k" for k
    by (simp_all add: session_rows_def get_summary_def v)
  have r: "session_rows w' session_id = session_rows w session_id"
    using assms(1) by (auto simp: update_summary_if_needed_def Let_def a rows rows2 v2 split: if_splits sum.splits)
  show ?thesis
  proof (cases "session_summaries w' = session_summaries w")
    case False
    then obtain resp where t: "cs_summary_threshold cs \<le> ?total"
      "cs_summary_threshold cs \<le> ?total - (case get_summary w session_id of None \<Rightarrow> 0 | Some s \<Rightarrow> ss_count s)"
      and w': "get_summary w' session_id = get_summary (put_summary sid session_id (py_strip resp) ?total v) session_id"
      using assms(1) by (auto simp: update_summary_if_needed_def Let_def a rows2 v split: if_splits sum.splits)
    then obtain s where s: "get_summary w' session_id = Some s" "ss_count s = ?total" using get_put_summary by metis
    then have "update_summary_if_needed cs sid2 session_id (Some answer2) w' = (None, w')"
      using assms(2) by (simp add: update_summary_if_needed_def Let_def r)
    then show ?thesis using r t s by (simp add: Let_def)
  qed (simp add: r)
qed

theorem summary_updated_once_witness:
  "let cs = (default_conversation True)\<lparr>cs_summary_threshold := 2\<rparr>; w = chat_world 3;
       w' = snd (update_summary_if_needed cs ''id'' ''s'' (Some (\<lambda>_ v. (Inr ''short'', v))) w)
   in map_option ss_summary (get_summary w' ''s'') = Some ''short''
      \<and> update_summary_if_needed cs ''id2'' ''s'' (Some (\<lambda>_ v. (Inr ''again'', v))) w' = (None, w')"
proof -
  let ?cs = "(default_conversation True)\<lparr>cs_summary_threshold := 2\<rparr>"
  let ?u = "update_summary_if_needed ?cs ''id'' ''s'' (Some (\<lambda>_ v. (Inr ''short'', v))) (chat_world 3)"
  have 1: "map_option ss_summary (get_summary (snd ?u) ''s'') = Some ''short''" by code_simp
  have 2: "session_summaries (chat_world 3) = []" by code_simp
  have 3: "session_summaries (snd ?u) \<noteq> session_summaries (chat_world 3)"
    using 1 by (auto simp: 2 get_summary_def)
  have 4: "0 < cs_summary_threshold ?cs" by simp
  show ?thesis
    using summary_updated_once [OF prod.collapse [symmetric] 4, of "\<lambda>_ v. (Inr ''short'', v)" "''id''" "''s''" "chat_world 3"] 1 3
    unfolding Let_def by simp
qed

end
