(* ===== verification/Schema.thy ===== *)
theory Schema
  imports Json Ops
begin

text \<open>
  The schema of a SQLite database: \<open>backend/infra/db.py\<close>.

  \<open>catalog\<close> is what the code reads and changes of a database: the columns of every table, the names of the indexes and the rows of
  \<open>alembic_version\<close>. \<open>apply_ddl\<close> is what SQLite does with a statement it accepts; \<open>refuse\<close> says which ones it does
  not accept and with which exception. The driver runs every such statement at once, without a transaction, so the statements before a refused
  one stay. \<open>Base.metadata.create_all\<close>, Alembic's upgrade and its head revision are arguments.
\<close>

section \<open>Statements\<close>

datatype sql_type = Varchar int | Fixed_Char int | Text_Type | Integer_Type | Datetime_Type | Json_Type

datatype sql_default = Nullable | Required | Default string | Now

type_synonym column = "string \<times> sql_type \<times> sql_default"

datatype ddl = Add_Column string column | Create_Table string "column list" | Create_Index bool string string "string list"

record catalog =
  db_tables :: "(string \<times> string list) list"
  db_indexes :: "string list"
  db_versions :: "string list"

definition sql_quote :: string where "sql_quote = [CHR 0x27]"

fun type_text :: "sql_type \<Rightarrow> string" where
  "type_text (Varchar n) = ''VARCHAR('' @ int_str n @ '')''"
| "type_text (Fixed_Char n) = ''CHAR('' @ int_str n @ '')''"
| "type_text Text_Type = ''TEXT''"
| "type_text Integer_Type = ''INTEGER''"
| "type_text Datetime_Type = ''DATETIME''"
| "type_text Json_Type = ''JSON''"

fun default_text :: "sql_type \<Rightarrow> sql_default \<Rightarrow> string" where
  "default_text t Nullable = ''''"
| "default_text t Required = '' NOT NULL''"
| "default_text t (Default v) = '' NOT NULL DEFAULT '' @ (if t = Integer_Type then v else sql_quote @ v @ sql_quote)"
| "default_text t Now = '' DEFAULT CURRENT_TIMESTAMP''"

definition column_text :: "column \<Rightarrow> string" where
  "column_text c = (case c of (n, t, d) \<Rightarrow> n @ '' '' @ type_text t @ default_text t d)"

fun ddl_text :: "ddl \<Rightarrow> string" where
  "ddl_text (Add_Column table c) = ''ALTER TABLE '' @ table @ '' ADD COLUMN '' @ column_text c"
| "ddl_text (Create_Table table cs) = ''CREATE TABLE '' @ table @ '' ('' @ join '', '' (map column_text cs) @ '', PRIMARY KEY (id))''"
| "ddl_text (Create_Index unique name table cols) =
     ''CREATE '' @ (if unique then ''UNIQUE '' else '''') @ ''INDEX IF NOT EXISTS '' @ name @ '' ON '' @ table @ ''('' @ join '', '' cols @ '')''"

fun apply_ddl :: "ddl \<Rightarrow> catalog \<Rightarrow> catalog" where
  "apply_ddl (Add_Column table c) db = db\<lparr>db_tables := map (\<lambda>(t, cs). if t = table then (t, cs @ [fst c]) else (t, cs)) (db_tables db)\<rparr>"
| "apply_ddl (Create_Table table cs) db = db\<lparr>db_tables := db_tables db @ [(table, map fst cs)]\<rparr>"
| "apply_ddl (Create_Index unique name table cols) db =
     (if name \<in> set (db_indexes db) then db else db\<lparr>db_indexes := db_indexes db @ [name]\<rparr>)"

type_synonym refusal = "ddl \<Rightarrow> catalog \<Rightarrow> exc option"

type_synonym schema_op = "catalog \<Rightarrow> exc option \<times> catalog"

definition then_schema :: "schema_op \<Rightarrow> schema_op \<Rightarrow> schema_op" where
  "then_schema f g db = (case f db of (Some e, db1) \<Rightarrow> (Some e, db1) | (None, db1) \<Rightarrow> g db1)"

definition exec_ddl :: "refusal \<Rightarrow> ddl \<Rightarrow> schema_op" where
  "exec_ddl refuse d db = (case refuse d db of Some e \<Rightarrow> (Some e, db) | None \<Rightarrow> (None, apply_ddl d db))"

fun exec_ddls :: "refusal \<Rightarrow> ddl list \<Rightarrow> schema_op" where
  "exec_ddls refuse [] db = (None, db)"
| "exec_ddls refuse (d # ds) db = then_schema (exec_ddl refuse d) (exec_ddls refuse ds) db"

definition table_columns :: "catalog \<Rightarrow> string \<Rightarrow> string list option" where
  "table_columns db t = map_of (db_tables db) t"

section \<open>The additive schema\<close>

definition ADDITIVE_COLUMNS :: "(string \<times> column list) list" where
  "ADDITIVE_COLUMNS =
    [(''cron_jobs'',
       [(''last_run_at'', Datetime_Type, Nullable), (''next_run_at'', Datetime_Type, Nullable),
       (''last_status'', Varchar 32, Default ''never_run''), (''last_result'', Json_Type, Default ''{}''),
       (''run_count'', Integer_Type, Default ''0''), (''failure_count'', Integer_Type, Default ''0''),
       (''backoff_until'', Datetime_Type, Nullable), (''last_enqueue_key'', Varchar 256, Default '''')]),
     (''mcp_servers'',
       [(''status'', Varchar 32, Default ''disabled''), (''last_connected_at'', Datetime_Type, Nullable),
       (''last_error'', Text_Type, Default ''''), (''tool_count'', Integer_Type, Default ''0''),
       (''tools_cache'', Json_Type, Default ''[]''), (''config_source'', Varchar 256, Default ''manual''),
       (''permission_policy'', Json_Type, Default ''{}''), (''session_mode'', Varchar 32, Default ''transient''),
       (''health_status'', Varchar 32, Default ''unknown''), (''last_imported_checksum'', Varchar 128, Default '''')]),
     (''gateway_connections'',
       [(''last_inbound_at'', Datetime_Type, Nullable), (''last_outbound_at'', Datetime_Type, Nullable),
       (''last_heartbeat_at'', Datetime_Type, Nullable), (''instance_id'', Varchar 128, Default ''''),
       (''version'', Varchar 80, Default ''''), (''capabilities'', Json_Type, Default ''[]''),
       (''last_error'', Text_Type, Default ''''), (''inbound_count'', Integer_Type, Default ''0''),
       (''outbound_count'', Integer_Type, Default ''0''), (''failure_count'', Integer_Type, Default ''0'')]),
     (''wiki_error_book'',
       [(''constraint_rule'', Text_Type, Default ''''), (''verification_method'', Text_Type, Default ''''),
       (''source_refs'', Json_Type, Default ''[]''), (''lifecycle_status'', Varchar 32, Default ''open'')]),
     (''wiki_pages'',
       [(''claims'', Json_Type, Default ''[]''), (''source_refs'', Json_Type, Default ''[]''),
       (''stale_after'', Datetime_Type, Nullable)]),
     (''memories'',
       [(''status'', Varchar 32, Default ''active''), (''superseded_by'', Fixed_Char 32, Nullable),
       (''source_file_marker'', Varchar 256, Default ''''), (''valid_from'', Datetime_Type, Nullable),
       (''valid_to'', Datetime_Type, Nullable), (''provenance'', Json_Type, Default ''{}'')]),
     (''approvals'',
       [(''turn_checkpoint'', Json_Type, Default ''{}''), (''original_tool_call'', Json_Type, Default ''{}''),
       (''allowed_decisions'', Json_Type, Default ''[]''), (''edited_arguments'', Json_Type, Default ''{}''),
       (''resume_state'', Json_Type, Default ''{}'')]),
     (''evolution_proposals'',
       [(''target_checksum'', Varchar 128, Default ''''), (''stale_reason'', Text_Type, Default '''')]),
     (''background_jobs'',
       [(''trace_id'', Varchar 128, Default ''''), (''request_id'', Varchar 128, Default ''''),
       (''idempotency_key'', Varchar 256, Default ''''), (''attempt_count'', Integer_Type, Default ''0''),
       (''max_attempts'', Integer_Type, Default ''3''), (''next_retry_at'', Datetime_Type, Nullable),
       (''locked_at'', Datetime_Type, Nullable), (''lock_owner'', Varchar 128, Default ''''),
       (''dead_letter_reason'', Text_Type, Default '''')]),
     (''runtime_events'',
       [(''trace_id'', Varchar 128, Default ''''), (''request_id'', Varchar 128, Default '''')]),
     (''audit_events'',
       [(''trace_id'', Varchar 128, Default ''''), (''request_id'', Varchar 128, Default '''')]),
     (''outbox_messages'',
       [(''trace_id'', Varchar 128, Default ''''), (''request_id'', Varchar 128, Default ''''),
       (''topic'', Varchar 128, Default ''''), (''aggregate_type'', Varchar 64, Default ''''),
       (''aggregate_id'', Varchar 128, Default ''''), (''idempotency_key'', Varchar 256, Default ''''),
       (''status'', Varchar 32, Default ''pending''), (''payload'', Json_Type, Default ''{}''),
       (''attempt_count'', Integer_Type, Default ''0''), (''max_attempts'', Integer_Type, Default ''5''),
       (''next_attempt_at'', Datetime_Type, Nullable), (''last_error'', Text_Type, Default ''''),
       (''created_at'', Datetime_Type, Now), (''dispatched_at'', Datetime_Type, Nullable)]),
     (''idempotency_records'',
       [(''scope'', Varchar 128, Default ''''), (''idempotency_key'', Varchar 256, Default ''''),
       (''request_hash'', Varchar 128, Default ''''), (''status'', Varchar 32, Default ''processing''),
       (''response'', Json_Type, Default ''{}''), (''created_at'', Datetime_Type, Now), (''updated_at'', Datetime_Type, Now),
       (''expires_at'', Datetime_Type, Nullable)])]"

definition ADDITIVE_TABLES :: "(string \<times> column list) list" where
  "ADDITIVE_TABLES =
    [(''memory_history'',
       [(''id'', Fixed_Char 32, Required), (''memory_id'', Fixed_Char 32, Nullable), (''action'', Varchar 64, Required),
       (''before_snapshot'', Json_Type, Default ''{}''), (''after_snapshot'', Json_Type, Default ''{}''),
       (''actor'', Varchar 80, Default ''system''), (''created_at'', Datetime_Type, Now)]),
     (''outbox_messages'',
       [(''id'', Fixed_Char 32, Required), (''trace_id'', Varchar 128, Default ''''), (''request_id'', Varchar 128, Default ''''),
       (''topic'', Varchar 128, Required), (''aggregate_type'', Varchar 64, Required), (''aggregate_id'', Varchar 128, Required),
       (''idempotency_key'', Varchar 256, Default ''''), (''status'', Varchar 32, Default ''pending''),
       (''payload'', Json_Type, Default ''{}''), (''attempt_count'', Integer_Type, Default ''0''),
       (''max_attempts'', Integer_Type, Default ''5''), (''next_attempt_at'', Datetime_Type, Nullable),
       (''last_error'', Text_Type, Default ''''), (''created_at'', Datetime_Type, Now),
       (''dispatched_at'', Datetime_Type, Nullable)]),
     (''idempotency_records'',
       [(''id'', Fixed_Char 32, Required), (''scope'', Varchar 128, Required), (''idempotency_key'', Varchar 256, Required),
       (''request_hash'', Varchar 128, Default ''''), (''status'', Varchar 32, Default ''processing''),
       (''response'', Json_Type, Default ''{}''), (''created_at'', Datetime_Type, Now), (''updated_at'', Datetime_Type, Now),
       (''expires_at'', Datetime_Type, Nullable)])]"

text \<open>Table, index, columns and whether the index is unique.\<close>

definition ADDITIVE_INDEXES :: "(string \<times> string \<times> string list \<times> bool) list" where
  "ADDITIVE_INDEXES =
    [(''cron_jobs'', ''ix_cron_jobs_next_run_at'', [''next_run_at''], False),
     (''cron_jobs'', ''ix_cron_jobs_last_status'', [''last_status''], False),
     (''cron_jobs'', ''ix_cron_jobs_backoff_until'', [''backoff_until''], False),
     (''cron_jobs'', ''ix_cron_jobs_last_enqueue_key'', [''last_enqueue_key''], False),
     (''mcp_servers'', ''ix_mcp_servers_status'', [''status''], False),
     (''mcp_servers'', ''ix_mcp_servers_config_source'', [''config_source''], False),
     (''mcp_servers'', ''ix_mcp_servers_session_mode'', [''session_mode''], False),
     (''mcp_servers'', ''ix_mcp_servers_health_status'', [''health_status''], False),
     (''wiki_error_book'', ''ix_wiki_error_book_lifecycle_status'', [''lifecycle_status''], False),
     (''wiki_pages'', ''ix_wiki_pages_stale_after'', [''stale_after''], False),
     (''memories'', ''ix_memories_status'', [''status''], False),
     (''memories'', ''ix_memories_superseded_by'', [''superseded_by''], False),
     (''memories'', ''ix_memories_source_file_marker'', [''source_file_marker''], False),
     (''evolution_proposals'', ''ix_evolution_proposals_target_checksum'', [''target_checksum''], False),
     (''background_jobs'', ''ix_background_jobs_trace_id'', [''trace_id''], False),
     (''background_jobs'', ''ix_background_jobs_request_id'', [''request_id''], False),
     (''background_jobs'', ''ix_background_jobs_idempotency_key'', [''idempotency_key''], False),
     (''background_jobs'', ''ix_background_jobs_next_retry_at'', [''next_retry_at''], False),
     (''runtime_events'', ''ix_runtime_events_trace_id'', [''trace_id''], False),
     (''runtime_events'', ''ix_runtime_events_request_id'', [''request_id''], False),
     (''audit_events'', ''ix_audit_events_trace_id'', [''trace_id''], False),
     (''audit_events'', ''ix_audit_events_request_id'', [''request_id''], False),
     (''memory_history'', ''ix_memory_history_memory_id'', [''memory_id''], False),
     (''memory_history'', ''ix_memory_history_action'', [''action''], False),
     (''memory_history'', ''ix_memory_history_actor'', [''actor''], False),
     (''memory_history'', ''ix_memory_history_created_at'', [''created_at''], False),
     (''outbox_messages'', ''ix_outbox_messages_trace_id'', [''trace_id''], False),
     (''outbox_messages'', ''ix_outbox_messages_request_id'', [''request_id''], False),
     (''outbox_messages'', ''uq_outbox_messages_idempotency_key'', [''idempotency_key''], True),
     (''outbox_messages'', ''ix_outbox_messages_idempotency_key'', [''idempotency_key''], False),
     (''outbox_messages'', ''ix_outbox_messages_topic'', [''topic''], False),
     (''outbox_messages'', ''ix_outbox_messages_aggregate_type'', [''aggregate_type''], False),
     (''outbox_messages'', ''ix_outbox_messages_aggregate_id'', [''aggregate_id''], False),
     (''outbox_messages'', ''ix_outbox_messages_status'', [''status''], False),
     (''outbox_messages'', ''ix_outbox_messages_next_attempt_at'', [''next_attempt_at''], False),
     (''outbox_messages'', ''ix_outbox_messages_created_at'', [''created_at''], False),
     (''idempotency_records'', ''uq_idempotency_scope_key'', [''scope'', ''idempotency_key''], True),
     (''idempotency_records'', ''ix_idempotency_records_scope'', [''scope''], False),
     (''idempotency_records'', ''ix_idempotency_records_idempotency_key'', [''idempotency_key''], False),
     (''idempotency_records'', ''ix_idempotency_records_status'', [''status''], False),
     (''idempotency_records'', ''ix_idempotency_records_created_at'', [''created_at''], False),
     (''idempotency_records'', ''ix_idempotency_records_expires_at'', [''expires_at''], False)]"

definition column_statements :: "catalog \<Rightarrow> (string \<times> column list) list \<Rightarrow> ddl list" where
  "column_statements db specs = concat (map (\<lambda>(t, cs). case table_columns db t of
     None \<Rightarrow> [] | Some existing \<Rightarrow> map (Add_Column t) (filter (\<lambda>c. fst c \<notin> set existing) cs)) specs)"

definition table_statements :: "catalog \<Rightarrow> (string \<times> column list) list \<Rightarrow> ddl list" where
  "table_statements db specs = map (\<lambda>(t, cs). Create_Table t cs) (filter (\<lambda>(t, cs). table_columns db t = None) specs)"

definition ensure_sqlite_index :: "refusal \<Rightarrow> string \<times> string \<times> string list \<times> bool \<Rightarrow> schema_op" where
  "ensure_sqlite_index refuse spec db = (case spec of (t, name, cols, unique) \<Rightarrow> (case table_columns db t of
     None \<Rightarrow> (None, db)
   | Some existing \<Rightarrow> if \<not> set cols \<subseteq> set existing then (None, db) else exec_ddl refuse (Create_Index unique name t cols) db))"

fun ensure_indexes :: "refusal \<Rightarrow> (string \<times> string \<times> string list \<times> bool) list \<Rightarrow> schema_op" where
  "ensure_indexes refuse [] db = (None, db)"
| "ensure_indexes refuse (i # is) db = then_schema (ensure_sqlite_index refuse i) (ensure_indexes refuse is) db"

text \<open>\<open>_ensure_sqlite_additive_schema\<close>: the inspector reads the tables once, before the first statement; the indexes look at the
  tables as they are then.\<close>

definition ensure_additive_schema :: "refusal \<Rightarrow> schema_op" where
  "ensure_additive_schema refuse db =
     then_schema (exec_ddls refuse (column_statements db ADDITIVE_COLUMNS @ table_statements db ADDITIVE_TABLES))
       (ensure_indexes refuse ADDITIVE_INDEXES) db"

section \<open>Migrations\<close>

definition database_backend :: "string \<Rightarrow> string" where
  "database_backend url = (if startswith url ''sqlite'' then ''sqlite'' else if startswith url ''postgresql'' then ''postgresql''
     else str_or (takeWhile (\<lambda>c. c \<noteq> CHR '':'') url) ''unknown'')"

record migration_env =
  mg_create_all :: schema_op
  mg_refuse :: refusal
  mg_upgrade :: schema_op
  mg_head :: "exc + string option"

definition reconcile_sqlite_schema :: "migration_env \<Rightarrow> schema_op" where
  "reconcile_sqlite_schema env = then_schema (mg_create_all env) (ensure_additive_schema (mg_refuse env))"

definition stamp_sqlite_revision :: "string option \<Rightarrow> catalog \<Rightarrow> catalog" where
  "stamp_sqlite_revision revision db =
     (let db1 = (if table_columns db ''alembic_version'' = None
            then db\<lparr>db_tables := db_tables db @ [(''alembic_version'', [''version_num''])]\<rparr> else db)
      in db1\<lparr>db_versions := (case revision of None \<Rightarrow> [] | Some r \<Rightarrow> if r = [] then [] else [r])\<rparr>)"

definition run_alembic_upgrade :: "migration_env \<Rightarrow> string \<Rightarrow> schema_op" where
  "run_alembic_upgrade env url =
     (if startswith url ''sqlite''
      then then_schema (reconcile_sqlite_schema env) (\<lambda>db. case mg_head env of
         Inl e \<Rightarrow> (Some e, db) | Inr head \<Rightarrow> (None, stamp_sqlite_revision head db))
      else mg_upgrade env)"

definition current_revision :: "catalog \<Rightarrow> string option" where
  "current_revision db = (if table_columns db ''alembic_version'' = None then None
     else case db_versions db of [] \<Rightarrow> None | r # _ \<Rightarrow> if r = [] then None else Some r)"

definition migration_status :: "migration_env \<Rightarrow> string \<Rightarrow> catalog \<Rightarrow> exc + dict" where
  "migration_status env url db = (case mg_head env of Inl e \<Rightarrow> Inl e
   | Inr head0 \<Rightarrow>
       let current = current_revision db; head = (case head0 of None \<Rightarrow> None | Some h \<Rightarrow> if h = [] then None else Some h)
       in Inr [(''database_backend'', JStr (database_backend url)), (''current_revision'', opt_json JStr current),
               (''head_revision'', opt_json JStr head), (''is_current'', JBool (current \<noteq> None \<and> current = head))])"

section \<open>The reconciled schema\<close>

lemma exec_ddls_done: "exec_ddls refuse ds db = (None, db') \<Longrightarrow> db' = fold apply_ddl ds db"
  by (induction ds arbitrary: db) (auto simp: then_schema_def exec_ddl_def split: prod.splits option.splits)

lemma table_columns_apply:
  "table_columns (apply_ddl (Add_Column u c) db) t = map_option (\<lambda>cs. if t = u then cs @ [fst c] else cs) (table_columns db t)"
  "table_columns (apply_ddl (Create_Table u cs) db) t =
     (case table_columns db t of Some x \<Rightarrow> Some x | None \<Rightarrow> if t = u then Some (map fst cs) else None)"
  "table_columns (apply_ddl (Create_Index un n v cols) db) t = table_columns db t"
proof -
  have "map_of (map (\<lambda>(t, cs). if t = u then (t, cs @ [fst c]) else (t, cs)) xs) t
      = map_option (\<lambda>cs. if t = u then cs @ [fst c] else cs) (map_of xs t)" for xs :: "(string \<times> string list) list"
    by (induction xs) auto
  then show "table_columns (apply_ddl (Add_Column u c) db) t = map_option (\<lambda>cs. if t = u then cs @ [fst c] else cs) (table_columns db t)"
    by (simp add: table_columns_def)
qed (auto simp: table_columns_def map_add_def split: option.split)

lemma table_columns_add:
  "table_columns (fold apply_ddl (map (Add_Column u) cs) db) t = map_option (\<lambda>ex. if t = u then ex @ map fst cs else ex) (table_columns db t)"
proof (induction cs arbitrary: db)
  case Nil
  then show ?case by (cases "table_columns db t") simp_all
next
  case (Cons c cs)
  then show ?case by (cases "table_columns db t") (simp_all add: table_columns_apply del: apply_ddl.simps)
qed

definition added :: "catalog \<Rightarrow> (string \<times> column list) list \<Rightarrow> string \<Rightarrow> string list" where
  "added db specs t = (case (map_of specs t, table_columns db t) of
     (Some cs, Some ex) \<Rightarrow> map fst (filter (\<lambda>c. fst c \<notin> set ex) cs) | _ \<Rightarrow> [])"

lemma table_columns_statements:
  "distinct (map fst specs) \<Longrightarrow>
     table_columns (fold apply_ddl (column_statements db0 specs) db) t = map_option (\<lambda>ex. ex @ added db0 specs t) (table_columns db t)"
proof (induction specs arbitrary: db)
  case Nil
  then show ?case by (cases "table_columns db t") (simp_all add: column_statements_def added_def)
next
  case (Cons s specs)
  obtain u cs where s: "s = (u, cs)" by fastforce
  have step: "column_statements db0 ((u, cs) # specs) = (case table_columns db0 u of None \<Rightarrow> []
      | Some ex \<Rightarrow> map (Add_Column u) (filter (\<lambda>c. fst c \<notin> set ex) cs)) @ column_statements db0 specs"
    by (simp add: column_statements_def)
  have u: "map_of specs u = None" using Cons.prems by (simp add: s map_of_eq_None_iff)
  show ?case
    unfolding s step using Cons.IH Cons.prems u
    by (cases "table_columns db0 u"; cases "table_columns db t")
      (auto simp: s added_def table_columns_add split: option.split)
qed

lemma table_columns_create:
  "table_columns (fold apply_ddl (table_statements db0 specs) db) t = (case table_columns db t of Some x \<Rightarrow> Some x
     | None \<Rightarrow> if table_columns db0 t = None then map_option (map fst) (map_of specs t) else None)"
proof (induction specs arbitrary: db)
  case Nil
  then show ?case by (cases "table_columns db t") (simp_all add: table_statements_def)
next
  case (Cons s specs)
  obtain u cs where s: "s = (u, cs)" by fastforce
  have step: "table_statements db0 ((u, cs) # specs) = (if table_columns db0 u = None then [Create_Table u cs] else []) @ table_statements db0 specs"
    by (simp add: table_statements_def)
  show ?case unfolding s step using Cons.IH by (auto simp: table_columns_apply simp del: apply_ddl.simps split: option.split)
qed

lemma ensure_indexes_done:
  "ensure_indexes refuse is db = (None, db') \<Longrightarrow> db_tables db' = db_tables db \<and> set (db_indexes db) \<subseteq> set (db_indexes db')
     \<and> (\<forall>(t, name, cols, unique) \<in> set is. \<forall>cs. table_columns db t = Some cs \<and> set cols \<subseteq> set cs \<longrightarrow> name \<in> set (db_indexes db'))"
proof (induction "is" arbitrary: db)
  case (Cons i js)
  obtain db1 where i: "ensure_sqlite_index refuse i db = (None, db1)" and r: "ensure_indexes refuse js db1 = (None, db')"
    using Cons.prems by (auto simp: then_schema_def split: prod.splits option.splits)
  obtain t n cols un where s: "i = (t, n, cols, un)" by (cases i) auto
  have d: "db_tables db1 = db_tables db" "set (db_indexes db) \<subseteq> set (db_indexes db1)"
    "\<And>cs. table_columns db t = Some cs \<Longrightarrow> set cols \<subseteq> set cs \<Longrightarrow> n \<in> set (db_indexes db1)"
    using i by (auto simp: ensure_sqlite_index_def s exec_ddl_def split: option.splits if_splits)
  then have tc: "table_columns db1 u = table_columns db u" for u by (simp add: table_columns_def)
  show ?case using Cons.IH [OF r] d unfolding tc s by auto
qed simp

lemma ensure_indexes_again:
  "(\<forall>(t, name, cols, unique) \<in> set is. \<forall>cs. table_columns db t = Some cs \<and> set cols \<subseteq> set cs \<longrightarrow> name \<in> set (db_indexes db))
     \<Longrightarrow> ensure_indexes (\<lambda>_ _. None) is db = (None, db)"
proof (induction "is")
  case (Cons i js)
  obtain t n cols un where s: "i = (t, n, cols, un)" by (cases i) auto
  have "ensure_sqlite_index (\<lambda>_ _. None) i db = (None, db)"
    using Cons.prems by (auto simp: ensure_sqlite_index_def s exec_ddl_def split: option.split)
  then show ?case using Cons by (simp add: then_schema_def)
qed simp

lemma additive_specs:
  "distinct (map fst ADDITIVE_COLUMNS)"
  "list_all (\<lambda>(t, cs). list_all (\<lambda>(u, ds). u \<noteq> t \<or> set (map fst cs) \<subseteq> set (map fst ds)) ADDITIVE_TABLES) ADDITIVE_COLUMNS"
  by code_simp+

lemma additive_created:
  assumes "(t, cs) \<in> set ADDITIVE_COLUMNS" and "(t, ds) \<in> set ADDITIVE_TABLES"
  shows "set (map fst cs) \<subseteq> set (map fst ds)"
proof -
  have "\<forall>(u, ds) \<in> set ADDITIVE_TABLES. u = t \<longrightarrow> fst ` set cs \<subseteq> fst ` set ds"
    using bspec [OF additive_specs(2) [unfolded list_all_iff] assms(1)] by simp
  from bspec [OF this assms(2)] show ?thesis by simp
qed

lemma ensure_additive_columns:
  assumes "ensure_additive_schema refuse db = (None, db')"
  shows "table_columns db' t = (case table_columns db t of Some ex \<Rightarrow> Some (ex @ added db ADDITIVE_COLUMNS t)
     | None \<Rightarrow> map_option (map fst) (map_of ADDITIVE_TABLES t))"
proof -
  let ?ds = "column_statements db ADDITIVE_COLUMNS @ table_statements db ADDITIVE_TABLES"
  obtain db1 where e: "exec_ddls refuse ?ds db = (None, db1)" and i: "ensure_indexes refuse ADDITIVE_INDEXES db1 = (None, db')"
    using assms by (auto simp: ensure_additive_schema_def then_schema_def split: prod.splits option.splits)
  have "table_columns db' t = table_columns db1 t" using ensure_indexes_done [OF i] by (simp add: table_columns_def)
  then show ?thesis using exec_ddls_done [OF e]
    by (simp add: table_columns_create table_columns_statements [OF additive_specs(1)] split: option.split)
qed

text \<open>C29: A successful reconciliation brings an old database up to date and is idempotent: no table loses a column, every table that exists
  afterwards has all the columns listed for it, the tables that had to be created exist, every listed index whose columns exist
  is there, and running it again changes nothing.\<close>

theorem schema_reconciled:
  assumes "ensure_additive_schema refuse db = (None, db')"
  shows "(\<forall>t ex. table_columns db t = Some ex \<longrightarrow> (\<exists>more. table_columns db' t = Some (ex @ more)))
    \<and> (\<forall>(t, cs) \<in> set ADDITIVE_COLUMNS. \<forall>ex. table_columns db' t = Some ex \<longrightarrow> set (map fst cs) \<subseteq> set ex)
    \<and> (\<forall>(t, cs) \<in> set ADDITIVE_TABLES. table_columns db' t \<noteq> None)
    \<and> (\<forall>(t, name, cols, unique) \<in> set ADDITIVE_INDEXES. \<forall>ex. table_columns db' t = Some ex \<and> set cols \<subseteq> set ex \<longrightarrow> name \<in> set (db_indexes db'))
    \<and> ensure_additive_schema (\<lambda>_ _. None) db' = (None, db')"
proof (intro conjI)
  note tc = ensure_additive_columns [OF assms]
  show "\<forall>t ex. table_columns db t = Some ex \<longrightarrow> (\<exists>more. table_columns db' t = Some (ex @ more))" by (simp add: tc)
  show tabs: "\<forall>(t, cs) \<in> set ADDITIVE_TABLES. table_columns db' t \<noteq> None"
    by (auto simp: tc split: option.split dest: weak_map_of_SomeI)
  show cols: "\<forall>(t, cs) \<in> set ADDITIVE_COLUMNS. \<forall>ex. table_columns db' t = Some ex \<longrightarrow> set (map fst cs) \<subseteq> set ex"
  proof clarify
    fix t cs ex c assume m: "(t, cs) \<in> set ADDITIVE_COLUMNS" and x: "table_columns db' t = Some ex" and c: "c \<in> set (map fst cs)"
    show "c \<in> set ex"
    proof (cases "table_columns db t")
      case (Some old)
      have "map_of ADDITIVE_COLUMNS t = Some cs" using m additive_specs(1) by (simp add: map_of_eq_Some_iff)
      then have ex: "ex = old @ map fst (filter (\<lambda>c. fst c \<notin> set old) cs)" using x Some by (simp add: tc added_def)
      obtain d where d: "d \<in> set cs" "c = fst d" using c by auto
      show ?thesis unfolding ex d(2) using d(1) by (cases "fst d \<in> set old") auto
    next
      case None
      then obtain ds where d: "(t, ds) \<in> set ADDITIVE_TABLES" "ex = map fst ds" using x by (auto simp: tc dest: map_of_SomeD)
      then have "set (map fst cs) \<subseteq> set (map fst ds)" by (intro additive_created [OF m d(1)])
      then show ?thesis using c d(2) by blast
    qed
  qed
  show idx: "\<forall>(t, name, cols, unique) \<in> set ADDITIVE_INDEXES. \<forall>ex. table_columns db' t = Some ex \<and> set cols \<subseteq> set ex \<longrightarrow> name \<in> set (db_indexes db')"
  proof -
    obtain db1 where i: "ensure_indexes refuse ADDITIVE_INDEXES db1 = (None, db')"
      using assms by (auto simp: ensure_additive_schema_def then_schema_def split: prod.splits option.splits)
    note e = ensure_indexes_done [OF i]
    then have "table_columns db' u = table_columns db1 u" for u by (simp add: table_columns_def)
    then show ?thesis using e by simp
  qed
  have kept: "filter (\<lambda>c. fst c \<notin> set ex) cs = []" if "(t, cs) \<in> set ADDITIVE_COLUMNS" "table_columns db' t = Some ex" for t cs ex
    using bspec [OF cols that(1)] that(2) by (auto simp: filter_empty_conv)
  have "column_statements db' ADDITIVE_COLUMNS = []"
    unfolding column_statements_def concat_eq_Nil_conv by (simp split: prod.split option.split) (blast intro: kept)
  moreover have "table_statements db' ADDITIVE_TABLES = []"
    using tabs by (auto simp: table_statements_def filter_empty_conv)
  ultimately show "ensure_additive_schema (\<lambda>_ _. None) db' = (None, db')"
    using ensure_indexes_again [OF idx] by (simp add: ensure_additive_schema_def then_schema_def)
qed

lemma stamped:
  "table_columns (stamp_sqlite_revision r db) ''alembic_version'' \<noteq> None"
  "db_versions (stamp_sqlite_revision r db) = (case r of None \<Rightarrow> [] | Some r \<Rightarrow> if r = [] then [] else [r])"
  by (auto simp: stamp_sqlite_revision_def table_columns_def Let_def map_add_def split: option.split)

text \<open>After a successful upgrade of a SQLite database the migration check reports the head revision as current, unless there is no head.\<close>

theorem upgrade_makes_current:
  assumes "startswith url ''sqlite''" and "run_alembic_upgrade env url db = (None, db')"
  shows "\<exists>d. migration_status env url db' = Inr d \<and> dget ''is_current'' d = JBool (\<exists>h. mg_head env = Inr (Some h) \<and> h \<noteq> [])"
proof -
  obtain db1 head where h: "mg_head env = Inr head" "db' = stamp_sqlite_revision head db1"
    using assms by (auto simp: run_alembic_upgrade_def then_schema_def split: prod.splits option.splits sum.splits)
  have "current_revision db' = (case head of None \<Rightarrow> None | Some r \<Rightarrow> if r = [] then None else Some r)"
    by (simp add: current_revision_def h(2) stamped split: option.split)
  then show ?thesis by (cases head) (auto simp: migration_status_def h(1) Let_def dget_def)
qed

section \<open>An old database\<close>

lemma accepted: "ensure_additive_schema (\<lambda>_ _. None) db = (None, snd (ensure_additive_schema (\<lambda>_ _. None) db))"
proof -
  have "fst (exec_ddls (\<lambda>_ _. None) ds db) = None" for ds db
    by (induction ds arbitrary: db) (simp_all add: then_schema_def exec_ddl_def)
  moreover have "fst (ensure_indexes (\<lambda>_ _. None) is db) = None" for "is" db
  proof (induction "is" arbitrary: db)
    case (Cons i js)
    have "fst (ensure_sqlite_index (\<lambda>_ _. None) i db) = None"
      by (auto simp: ensure_sqlite_index_def exec_ddl_def split: prod.split option.split)
    then show ?case using Cons by (auto simp: then_schema_def split: prod.split option.split)
  qed simp
  ultimately have "fst (ensure_additive_schema (\<lambda>_ _. None) db) = None"
    by (auto simp: ensure_additive_schema_def then_schema_def split: prod.split option.split) (metis fst_conv option.distinct(1))+
  then show ?thesis by (metis prod.collapse)
qed

definition old_database :: catalog where
  "old_database = \<lparr>db_tables = [(''approvals'', [''id'', ''status'']), (''cron_jobs'', [''id'', ''name'', ''next_run_at''])],
     db_indexes = [], db_versions = []\<rparr>"

theorem schema_reconciled_witness:
  "\<exists>db'. ensure_additive_schema (\<lambda>_ _. None) old_database = (None, db') \<and> ensure_additive_schema (\<lambda>_ _. None) db' = (None, db')
     \<and> table_columns db' ''approvals'' = Some [''id'', ''status'', ''turn_checkpoint'', ''original_tool_call'', ''allowed_decisions'',
          ''edited_arguments'', ''resume_state'']"
proof -
  let ?r = "ensure_additive_schema (\<lambda>_ _. None) old_database"
  have a: "added old_database ADDITIVE_COLUMNS ''approvals'' = [''turn_checkpoint'', ''original_tool_call'', ''allowed_decisions'',
      ''edited_arguments'', ''resume_state'']" by code_simp
  have "table_columns old_database ''approvals'' = Some [''id'', ''status'']" by code_simp
  then have "table_columns (snd ?r) ''approvals'' = Some ([''id'', ''status''] @ added old_database ADDITIVE_COLUMNS ''approvals'')"
    by (simp add: ensure_additive_columns [OF accepted])
  then show ?thesis using schema_reconciled [OF accepted, of old_database] accepted [of old_database] unfolding a by auto
qed

definition old_migrations :: migration_env where
  "old_migrations = \<lparr>mg_create_all = (\<lambda>db. (None, db)), mg_refuse = (\<lambda>_ _. None), mg_upgrade = (\<lambda>db. (None, db)), mg_head = Inr (Some ''0009'')\<rparr>"

theorem upgrade_makes_current_witness:
  "\<exists>d. migration_status old_migrations ''sqlite://'' (snd (run_alembic_upgrade old_migrations ''sqlite://'' old_database)) = Inr d
     \<and> dget ''is_current'' d = JBool True"
proof -
  let ?r = "run_alembic_upgrade old_migrations ''sqlite://'' old_database"
  have "startswith ''sqlite://'' ''sqlite''" by code_simp
  moreover from this have "?r = (None, snd ?r)"
    using accepted [of old_database] by (auto simp: run_alembic_upgrade_def reconcile_sqlite_schema_def old_migrations_def then_schema_def split: prod.splits)
  ultimately have "\<exists>d. migration_status old_migrations ''sqlite://'' (snd ?r) = Inr d
      \<and> dget ''is_current'' d = JBool (\<exists>h. mg_head old_migrations = Inr (Some h) \<and> h \<noteq> [])"
    by (intro upgrade_makes_current)
  then show ?thesis by (simp add: old_migrations_def)
qed

end
