(* ===== verification/Resilience.thy ===== *)
theory Resilience
  imports Models Clock
begin

text \<open>
  Retry and circuit breaker: \<open>backend/infra/resilience.py\<close>.

  The protected function is the parameter \<open>fn\<close>: \<open>fn k\<close> is what its \<open>k\<close>-th invocation returns or
  raises. \<open>unif k lo hi\<close> is what \<open>random.uniform(lo, hi)\<close> returns after attempt \<open>k\<close>. The clock is read
  at the start (\<open>now\<close>) and when a failure is recorded (\<open>fail_now\<close>). Sleeping has no effect on the state.
  The manager keeps one circuit per policy name (\<open>rs_states\<close>, in insertion order), the calls reported to
  the observability service (\<open>rs_external\<close>), and writes events to the world.
\<close>

section \<open>Data\<close>

record resilience_policy =
  rp_name :: string
  rp_max_attempts :: int
  rp_base_delay :: rat
  rp_max_delay :: rat
  rp_jitter_ratio :: rat
  rp_failure_threshold :: int
  rp_recovery :: rat
  rp_retry_status_codes :: "int list"

definition default_policy :: "string \<Rightarrow> resilience_policy" where
  "default_policy name = \<lparr>rp_name = name, rp_max_attempts = 3, rp_base_delay = 1 / 4, rp_max_delay = 4,
     rp_jitter_ratio = 1 / 5, rp_failure_threshold = 5, rp_recovery = 30,
     rp_retry_status_codes = [408, 409, 425, 429, 500, 502, 503, 504]\<rparr>"

record circuit =
  ct_failures :: int
  ct_opened_until :: "instant option"
  ct_last_error :: string

definition new_circuit :: circuit where
  "new_circuit = \<lparr>ct_failures = 0, ct_opened_until = None, ct_last_error = ''''\<rparr>"

record resilience =
  rs_states :: "(string \<times> circuit) list"
  rs_external :: "(string \<times> string \<times> string) list"
  rs_world :: world

text \<open>The circuit of a policy, and writing it (\<open>setdefault\<close> creates it at the end of the dictionary).\<close>

definition get_circuit :: "resilience \<Rightarrow> string \<Rightarrow> circuit" where
  "get_circuit s name = (case map_of (rs_states s) name of None \<Rightarrow> new_circuit | Some c \<Rightarrow> c)"

definition put_circuit :: "string \<Rightarrow> circuit \<Rightarrow> resilience \<Rightarrow> resilience" where
  "put_circuit name c s = s\<lparr>rs_states := put_assoc name c (rs_states s)\<rparr>"

definition rs_emit :: "bool \<Rightarrow> string \<Rightarrow> dict \<Rightarrow> string \<Rightarrow> resilience \<Rightarrow> resilience" where
  "rs_emit ev t p severity s = s\<lparr>rs_world := emit_full ev t p severity '''' '''' (rs_world s)\<rparr>"

section \<open>Operations\<close>

text \<open>\<open>policy.name.split(".", 1)\<close>.\<close>

definition split_first :: "char \<Rightarrow> string \<Rightarrow> string \<times> string option" where
  "split_first c s = (case dropWhile (\<lambda>x. x \<noteq> c) s of
     [] \<Rightarrow> (s, None) | _ # rest \<Rightarrow> (takeWhile (\<lambda>x. x \<noteq> c) s, Some rest))"

definition record_observability :: "bool \<Rightarrow> resilience_policy \<Rightarrow> string \<Rightarrow> resilience \<Rightarrow> resilience" where
  "record_observability obs policy status s =
     (if \<not> obs then s
      else case split_first CHR ''.'' (rp_name policy) of (subsystem, rest) \<Rightarrow>
        let operation = (case rest of None \<Rightarrow> rp_name policy | Some r \<Rightarrow> r)
        in s\<lparr>rs_external := rs_external s @ [(subsystem, operation, status)]\<rparr>)"

definition should_retry :: "exc \<Rightarrow> resilience_policy \<Rightarrow> bool" where
  "should_retry e policy = (case e of
     CircuitOpenError _ \<Rightarrow> False
   | TransportError _ \<Rightarrow> True
   | HTTPStatusError _ code _ \<Rightarrow> code \<in> set (rp_retry_status_codes policy)
   | _ \<Rightarrow> False)"

text \<open>\<open>max(0.0, float(value))\<close>; \<open>max\<close> keeps its first argument when the second is not a number.\<close>

definition retry_after_seconds :: "exc \<Rightarrow> pyfloat option" where
  "retry_after_seconds e = (case e of
     HTTPStatusError _ _ (Some value) \<Rightarrow>
       if value = [] then None
       else (case float_of_str value of
          None \<Rightarrow> None
        | Some (Fin r) \<Rightarrow> Some (Fin (max 0 r))
        | Some PosInf \<Rightarrow> Some PosInf
        | Some NegInf \<Rightarrow> Some (Fin 0)
        | Some NaN \<Rightarrow> Some (Fin 0))
   | _ \<Rightarrow> None)"

definition retry_delay :: "(int \<Rightarrow> rat \<Rightarrow> rat \<Rightarrow> rat) \<Rightarrow> resilience_policy \<Rightarrow> int \<Rightarrow> exc \<Rightarrow> rat" where
  "retry_delay unif policy attempt e = (case retry_after_seconds e of
     Some (Fin r) \<Rightarrow> min (rp_max_delay policy) r
   | Some _ \<Rightarrow> rp_max_delay policy
   | None \<Rightarrow>
       let base = min (rp_max_delay policy) (rp_base_delay policy * 2 ^ nat (max 0 (attempt - 1)));
           jitter = base * max 0 (rp_jitter_ratio policy)
       in max 0 (base + unif attempt (- jitter) jitter))"

definition record_failure ::
  "bool \<Rightarrow> bool \<Rightarrow> instant \<Rightarrow> resilience_policy \<Rightarrow> exc \<Rightarrow> resilience \<Rightarrow> resilience" where
  "record_failure ev obs fail_now policy e s =
     (let c = get_circuit s (rp_name policy);
          c1 = c\<lparr>ct_failures := ct_failures c + 1, ct_last_error := exc_str e\<rparr>
      in record_observability obs policy ''failed''
           (if ct_failures c1 \<ge> max 1 (rp_failure_threshold policy)
            then rs_emit ev ''resilience.circuit_tripped''
                   [(''name'', JStr (rp_name policy)), (''failures'', JInt (ct_failures c1)),
                    (''error'', JStr (exc_str e))] ''error''
                   (put_circuit (rp_name policy)
                     (c1\<lparr>ct_opened_until := Some (fail_now + max 1 (rp_recovery policy))\<rparr>) s)
            else put_circuit (rp_name policy) c1 s))"

text \<open>The loop \<open>for attempt in range(1, max(1, max_attempts) + 1)\<close>; the first argument counts the
  iterations left, \<open>last_exc\<close> is the exception of the attempt before. The code after the loop is the case \<open>0\<close>.\<close>

fun attempt_loop ::
  "nat \<Rightarrow> bool \<Rightarrow> bool \<Rightarrow> instant \<Rightarrow> (int \<Rightarrow> rat \<Rightarrow> rat \<Rightarrow> rat) \<Rightarrow> resilience_policy \<Rightarrow> (int \<Rightarrow> exc + 'a) \<Rightarrow>
   exc option \<Rightarrow> int \<Rightarrow> resilience \<Rightarrow> (exc + 'a) \<times> resilience" where
  "attempt_loop 0 ev obs fail_now unif policy fn last_exc attempt s =
     (case last_exc of
        None \<Rightarrow> (Inl (OtherError ''''), s)
      | Some e \<Rightarrow> (Inl e, record_failure ev obs fail_now policy e s))"
| "attempt_loop (Suc k) ev obs fail_now unif policy fn last_exc attempt s =
     (case fn attempt of
        Inl e \<Rightarrow>
          if \<not> should_retry e policy \<or> attempt \<ge> rp_max_attempts policy
          then (Inl e, record_failure ev obs fail_now policy e s)
          else attempt_loop k ev obs fail_now unif policy fn (Some e) (attempt + 1)
            (rs_emit ev ''resilience.retry''
              [(''name'', JStr (rp_name policy)), (''attempt'', JInt attempt),
               (''delay_seconds'', JFloat (retry_delay unif policy attempt e)),
               (''error'', JStr (exc_str e))] ''warning'' s)
      | Inr result \<Rightarrow>
          (Inr result, record_observability obs policy ''succeeded'' (put_circuit (rp_name policy) new_circuit s)))"

definition call ::
  "bool \<Rightarrow> bool \<Rightarrow> instant \<Rightarrow> instant \<Rightarrow> (int \<Rightarrow> rat \<Rightarrow> rat \<Rightarrow> rat) \<Rightarrow> resilience_policy \<Rightarrow> (int \<Rightarrow> exc + 'a) \<Rightarrow>
   resilience \<Rightarrow> (exc + 'a) \<times> resilience" where
  "call ev obs now fail_now unif policy fn s =
     (let name = rp_name policy; c = get_circuit s name; s1 = put_circuit name c s
      in case ct_opened_until c of
           Some t \<Rightarrow>
             if now < t
             then (Inl (CircuitOpenError (''circuit open for '' @ name @ '' until '' @ isoformat t)),
                   record_observability obs policy ''circuit_open''
                     (rs_emit ev ''resilience.circuit_open''
                       [(''name'', JStr name), (''opened_until'', JStr (isoformat t)),
                        (''last_error'', JStr (ct_last_error c))] ''warning'' s1))
             else attempt_loop (nat (max 1 (rp_max_attempts policy))) ev obs fail_now unif policy fn None 1
                    (put_circuit name (c\<lparr>ct_opened_until := None\<rparr>) s1)
         | None \<Rightarrow>
             attempt_loop (nat (max 1 (rp_max_attempts policy))) ev obs fail_now unif policy fn None 1 s1)"

text \<open>\<open>async_call\<close> has the same statements with \<open>await fn()\<close> and \<open>await asyncio.sleep(delay)\<close>.\<close>

definition async_call ::
  "bool \<Rightarrow> bool \<Rightarrow> instant \<Rightarrow> instant \<Rightarrow> (int \<Rightarrow> rat \<Rightarrow> rat \<Rightarrow> rat) \<Rightarrow> resilience_policy \<Rightarrow> (int \<Rightarrow> exc + 'a) \<Rightarrow>
   resilience \<Rightarrow> (exc + 'a) \<times> resilience" where
  "async_call ev obs now fail_now unif policy fn s = call ev obs now fail_now unif policy fn s"

definition resilience_state :: "resilience \<Rightarrow> (string \<times> dict) list" where
  "resilience_state s = map (\<lambda>(name, c).
     (name, [(''failures'', JInt (ct_failures c)),
             (''opened_until'', case ct_opened_until c of None \<Rightarrow> JNull | Some t \<Rightarrow> JStr (isoformat t)),
             (''last_error'', JStr (ct_last_error c))])) (sort_key fst (rs_states s))"

section \<open>Facts\<close>

lemma get_put_circuit [simp]: "get_circuit (put_circuit n c s) n' = (if n' = n then c else get_circuit s n')"
  by (simp add: get_circuit_def put_circuit_def)

lemma get_circuit_frame [simp]:
  "get_circuit (rs_emit ev t p v s) n = get_circuit s n"
  "get_circuit (record_observability obs policy st s) n = get_circuit s n"
  by (simp_all add: get_circuit_def rs_emit_def record_observability_def split: prod.splits)

text \<open>The circuit after a recorded failure, and the circuit a call starts its attempts with.\<close>

definition failed_circuit :: "resilience_policy \<Rightarrow> instant \<Rightarrow> exc \<Rightarrow> circuit \<Rightarrow> circuit" where
  "failed_circuit policy fail_now e c =
     \<lparr>ct_failures = ct_failures c + 1,
      ct_opened_until = (if ct_failures c + 1 \<ge> max 1 (rp_failure_threshold policy)
        then Some (fail_now + max 1 (rp_recovery policy)) else ct_opened_until c),
      ct_last_error = exc_str e\<rparr>"

lemma get_record_failure [simp]:
  "get_circuit (record_failure ev obs fn policy e s) n =
     (if n = rp_name policy then failed_circuit policy fn e (get_circuit s n) else get_circuit s n)"
  by (auto simp: record_failure_def Let_def failed_circuit_def)

definition circuit_is_open :: "instant \<Rightarrow> circuit \<Rightarrow> bool" where
  "circuit_is_open now c = (case ct_opened_until c of None \<Rightarrow> False | Some t \<Rightarrow> now < t)"

text \<open>The loop ends with the outcome of one attempt \<open>k\<close>: every attempt before it failed in a way
  that is retried.\<close>

definition final_attempt :: "resilience_policy \<Rightarrow> (int \<Rightarrow> exc + 'a) \<Rightarrow> int \<Rightarrow> int \<Rightarrow> bool" where
  "final_attempt policy fn a k \<longleftrightarrow> a \<le> k \<and> k \<le> max a (rp_max_attempts policy) \<and>
     (\<forall>i. a \<le> i \<and> i < k \<longrightarrow> (\<exists>e. fn i = Inl e \<and> should_retry e policy)) \<and>
     (\<forall>e. fn k = Inl e \<longrightarrow> \<not> should_retry e policy \<or> k \<ge> rp_max_attempts policy)"

definition outcome_circuit :: "resilience_policy \<Rightarrow> instant \<Rightarrow> exc + 'a \<Rightarrow> circuit \<Rightarrow> circuit" where
  "outcome_circuit policy fail_now r c =
     (case r of Inr _ \<Rightarrow> new_circuit | Inl e \<Rightarrow> failed_circuit policy fail_now e c)"

lemma attempt_loop_outcome:
  assumes "k = nat (max 1 (rp_max_attempts policy - attempt + 1))"
  shows "\<exists>j s'. attempt_loop k ev obs fail_now unif policy fn last_exc attempt s = (fn j, s')
     \<and> final_attempt policy fn attempt j
     \<and> (\<forall>n. get_circuit s' n = (if n = rp_name policy
          then outcome_circuit policy fail_now (fn j) (get_circuit s n) else get_circuit s n))"
  using assms
proof (induction k arbitrary: attempt last_exc s)
  case (Suc k)
  consider (ok) x where "fn attempt = Inr x"
    | (stop) e where "fn attempt = Inl e" "\<not> should_retry e policy \<or> attempt \<ge> rp_max_attempts policy"
    | (again) e where "fn attempt = Inl e" "should_retry e policy" "attempt < rp_max_attempts policy"
    by (metis not_le sum.exhaust)
  then show ?case
  proof cases
    case again
    then have "k = nat (max 1 (rp_max_attempts policy - (attempt + 1) + 1))" using Suc(2) by auto
    from Suc(1) [OF this, of "Some e" "rs_emit ev ''resilience.retry''
              [(''name'', JStr (rp_name policy)), (''attempt'', JInt attempt),
               (''delay_seconds'', JFloat (retry_delay unif policy attempt e)),
               (''error'', JStr (exc_str e))] ''warning'' s"]
    obtain j s' where j: "attempt_loop (Suc k) ev obs fail_now unif policy fn last_exc attempt s = (fn j, s')"
      "final_attempt policy fn (attempt + 1) j"
      "\<forall>n. get_circuit s' n = (if n = rp_name policy
          then outcome_circuit policy fail_now (fn j) (get_circuit s n) else get_circuit s n)"
      using again by auto
    have "\<exists>e. fn i = Inl e \<and> should_retry e policy" if "attempt \<le> i" "i < j" for i
      using j(2) again(1,2) that by (cases "i = attempt") (auto simp: final_attempt_def)
    then have "final_attempt policy fn attempt j"
      using j(2) again(3) unfolding final_attempt_def by auto
    then show ?thesis using j by blast
  qed (auto simp: final_attempt_def outcome_circuit_def intro!: exI [of _ attempt])
qed simp

lemma call_closed:
  assumes "\<not> circuit_is_open now (get_circuit s (rp_name policy))"
  shows "\<exists>k s'. call ev obs now fail_now unif policy fn s = (fn k, s') \<and> final_attempt policy fn 1 k
    \<and> (\<forall>n. get_circuit s' n = (if n = rp_name policy
         then outcome_circuit policy fail_now (fn k) ((get_circuit s n)\<lparr>ct_opened_until := None\<rparr>)
         else get_circuit s n))"
proof -
  let ?n = "rp_name policy"
  let ?c = "get_circuit s ?n"
  let ?s0 = "put_circuit ?n (?c\<lparr>ct_opened_until := None\<rparr>) (put_circuit ?n ?c s)"
  let ?k = "nat (max 1 (rp_max_attempts policy))"
  have start: "\<exists>s1. call ev obs now fail_now unif policy fn s
        = attempt_loop ?k ev obs fail_now unif policy fn None 1 s1
      \<and> (\<forall>n. get_circuit s1 n = (if n = ?n then ?c\<lparr>ct_opened_until := None\<rparr> else get_circuit s n))"
  proof (cases "ct_opened_until ?c")
    case None
    then have "?c\<lparr>ct_opened_until := None\<rparr> = ?c" by simp
    then show ?thesis using None by (intro exI [of _ "put_circuit ?n ?c s"]) (simp add: call_def Let_def)
  next
    case (Some t)
    then show ?thesis using assms
      by (intro exI [of _ ?s0]) (simp add: call_def Let_def circuit_is_open_def)
  qed
  then obtain s1 where s1: "call ev obs now fail_now unif policy fn s
        = attempt_loop ?k ev obs fail_now unif policy fn None 1 s1"
      "\<And>n. get_circuit s1 n = (if n = ?n then ?c\<lparr>ct_opened_until := None\<rparr> else get_circuit s n)" by blast
  have "?k = nat (max 1 (rp_max_attempts policy - 1 + 1))" by simp
  from attempt_loop_outcome [OF this, of ev obs fail_now unif fn None s1] s1 show ?thesis by auto
qed

lemma call_returned:
  assumes "call ev obs now fail_now unif policy fn s = (Inr x, s')"
  shows "\<exists>k. fn k = Inr x \<and> final_attempt policy fn 1 k"
proof (cases "circuit_is_open now (get_circuit s (rp_name policy))")
  case True
  then show ?thesis using assms by (auto simp: call_def Let_def circuit_is_open_def split: option.splits)
next
  case False
  then show ?thesis using call_closed [OF False, of ev obs fail_now unif fn] assms by (metis prod.inject)
qed

text \<open>Only the first \<open>max(1, max_attempts)\<close> outcomes of the function matter.\<close>

lemma attempt_loop_cong:
  assumes "\<And>i. a \<le> i \<and> i < a + int n \<Longrightarrow> f i = f' i"
  shows "attempt_loop n ev obs t u pol f l a s = attempt_loop n ev obs t u pol f' l a s"
  using assms
proof (induction n arbitrary: l a s)
  case (Suc n)
  have "f a = f' a" using Suc(2) by simp
  moreover have "attempt_loop n ev obs t u pol f l (a + 1) s = attempt_loop n ev obs t u pol f' l (a + 1) s" for l s
    using Suc(2) by (intro Suc(1)) simp
  ultimately show ?case by (simp split: sum.splits)
qed simp

lemma call_cong:
  assumes "\<And>i. 1 \<le> i \<and> i \<le> max 1 (rp_max_attempts pol) \<Longrightarrow> f i = f' i"
  shows "call ev obs now fail_now u pol f s = call ev obs now fail_now u pol f' s"
proof -
  have n: "int (nat (max 1 (rp_max_attempts pol))) = max 1 (rp_max_attempts pol)" by (simp add: le_max_iff_disj)
  have "attempt_loop (nat (max 1 (rp_max_attempts pol))) ev obs fail_now u pol f l 1 t
      = attempt_loop (nat (max 1 (rp_max_attempts pol))) ev obs fail_now u pol f' l 1 t" for l t
    by (rule attempt_loop_cong) (simp only: n, rule assms, linarith)
  then show ?thesis by (simp add: call_def Let_def split: option.splits)
qed

section \<open>Properties\<close>

text \<open>An open circuit fails fast. While it is open the call raises \<open>CircuitOpenError\<close> at once: the
  answer and the state after it are the same for every protected function, so the function is not
  invoked, and no circuit changes.\<close>

theorem open_circuit_fails_fast:
  assumes "circuit_is_open now (get_circuit s (rp_name policy))"
  shows "\<exists>m s'. (\<forall>fn :: int \<Rightarrow> exc + 'a. call ev obs now fail_now unif policy fn s = (Inl (CircuitOpenError m), s'))
    \<and> (\<forall>n. get_circuit s' n = get_circuit s n)"
proof -
  obtain t where "ct_opened_until (get_circuit s (rp_name policy)) = Some t" "now < t"
    using assms by (auto simp: circuit_is_open_def split: option.splits)
  then show ?thesis by (simp add: call_def Let_def)
qed

definition tripped :: resilience where
  "tripped = \<lparr>rs_states = [(''llm.chat'', \<lparr>ct_failures = 5, ct_opened_until = Some 40, ct_last_error = ''x''\<rparr>)],
     rs_external = [], rs_world = empty_world\<rparr>"

theorem open_circuit_fails_fast_witness:
  "\<exists>m s'. (\<forall>fn :: int \<Rightarrow> exc + int. call True True 10 11 (\<lambda>_ lo _. lo) (default_policy ''llm.chat'') fn tripped
      = (Inl (CircuitOpenError m), s')) \<and> (\<forall>n. get_circuit s' n = get_circuit tripped n)"
  by (rule open_circuit_fails_fast) code_simp

text \<open>C18: A closed (or recovered) circuit tries the function at most \<open>max(1, max_attempts)\<close> times and
  returns what the last attempt gave: every attempt before it failed with a retryable error, and a
  failed last attempt was not retryable or the last one allowed. Success resets the circuit; a
  failure counts once however many attempts it took, and opens the circuit for at least
  \<open>max(1, recovery_seconds)\<close> when the count reaches the threshold. No other circuit changes.\<close>

theorem call_attempts_bounded:
  assumes "\<not> circuit_is_open now (get_circuit s (rp_name policy))"
  shows "\<exists>k s' c. call ev obs now fail_now unif policy fn s = (fn k, s')
    \<and> 1 \<le> k \<and> k \<le> max 1 (rp_max_attempts policy)
    \<and> (\<forall>i. 1 \<le> i \<and> i < k \<longrightarrow> (\<exists>e. fn i = Inl e \<and> should_retry e policy))
    \<and> (\<forall>e. fn k = Inl e \<longrightarrow> \<not> should_retry e policy \<or> k \<ge> rp_max_attempts policy)
    \<and> c = get_circuit s' (rp_name policy)
    \<and> (\<forall>x. fn k = Inr x \<longrightarrow> c = new_circuit)
    \<and> (\<forall>e. fn k = Inl e \<longrightarrow> ct_failures c = ct_failures (get_circuit s (rp_name policy)) + 1
         \<and> ct_opened_until c = (if ct_failures c \<ge> max 1 (rp_failure_threshold policy)
              then Some (fail_now + max 1 (rp_recovery policy)) else None))
    \<and> (\<forall>n. n \<noteq> rp_name policy \<longrightarrow> get_circuit s' n = get_circuit s n)"
proof -
  obtain k s' where k: "call ev obs now fail_now unif policy fn s = (fn k, s')" "final_attempt policy fn 1 k"
    "\<And>n. get_circuit s' n = (if n = rp_name policy
         then outcome_circuit policy fail_now (fn k) ((get_circuit s n)\<lparr>ct_opened_until := None\<rparr>)
         else get_circuit s n)"
    using call_closed [OF assms, of ev obs fail_now unif fn] by blast
  show ?thesis
    by (rule exI [of _ k], rule exI [of _ s'], rule exI [of _ "get_circuit s' (rp_name policy)"])
      (use k in \<open>auto simp: final_attempt_def outcome_circuit_def failed_circuit_def\<close>)
qed

definition flaky :: "int \<Rightarrow> exc + int" where
  "flaky i = (if i < 2 then Inl (TransportError ''t'') else Inr 7)"

theorem call_attempts_bounded_witness:
  "\<exists>k s'. call True True 50 51 (\<lambda>_ lo _. lo) (default_policy ''llm.chat'') flaky tripped = (flaky k, s')
     \<and> 1 \<le> k \<and> k \<le> 3"
proof -
  have "\<not> circuit_is_open 50 (get_circuit tripped (rp_name (default_policy ''llm.chat'')))" by code_simp
  moreover have "max 1 (rp_max_attempts (default_policy ''llm.chat'')) = 3" by code_simp
  ultimately show ?thesis
    using call_attempts_bounded [of 50 tripped "default_policy ''llm.chat''" True True 51 "\<lambda>_ lo _. lo" flaky]
    by metis
qed

text \<open>A run of calls under one policy, each with its own clock readings and function.\<close>

fun run_calls ::
  "bool \<Rightarrow> bool \<Rightarrow> (int \<Rightarrow> rat \<Rightarrow> rat \<Rightarrow> rat) \<Rightarrow> resilience_policy \<Rightarrow> (instant \<times> instant \<times> (int \<Rightarrow> exc + 'a)) list \<Rightarrow>
   resilience \<Rightarrow> resilience" where
  "run_calls ev obs unif policy [] s = s"
| "run_calls ev obs unif policy ((now, fail_now, fn) # cs) s =
     run_calls ev obs unif policy cs (snd (call ev obs now fail_now unif policy fn s))"

definition always_fails :: "instant \<times> instant \<times> (int \<Rightarrow> exc + 'a) \<Rightarrow> bool" where
  "always_fails x = (\<forall>k. \<exists>e. snd (snd x) k = Inl e)"

lemma failing_call:
  assumes "\<not> circuit_is_open now (get_circuit s (rp_name policy))" and "\<forall>k. \<exists>e. fn k = Inl e"
    and "ct_opened_until (get_circuit s (rp_name policy)) = None"
  shows "ct_failures (get_circuit (snd (call ev obs now fail_now unif policy fn s)) (rp_name policy))
      = ct_failures (get_circuit s (rp_name policy)) + 1"
    and "ct_opened_until (get_circuit (snd (call ev obs now fail_now unif policy fn s)) (rp_name policy))
      = (if ct_failures (get_circuit s (rp_name policy)) + 1 \<ge> max 1 (rp_failure_threshold policy)
         then Some (fail_now + max 1 (rp_recovery policy)) else None)"
proof -
  obtain k s' where k: "call ev obs now fail_now unif policy fn s = (fn k, s')"
    "get_circuit s' (rp_name policy) = outcome_circuit policy fail_now (fn k)
       ((get_circuit s (rp_name policy))\<lparr>ct_opened_until := None\<rparr>)"
    using call_closed [OF assms(1), of ev obs fail_now unif fn] by auto
  obtain e where "fn k = Inl e" using assms(2) by blast
  with k show "ct_failures (get_circuit (snd (call ev obs now fail_now unif policy fn s)) (rp_name policy))
      = ct_failures (get_circuit s (rp_name policy)) + 1"
    and "ct_opened_until (get_circuit (snd (call ev obs now fail_now unif policy fn s)) (rp_name policy))
      = (if ct_failures (get_circuit s (rp_name policy)) + 1 \<ge> max 1 (rp_failure_threshold policy)
         then Some (fail_now + max 1 (rp_recovery policy)) else None)"
    by (auto simp: outcome_circuit_def failed_circuit_def)
qed

lemma failing_calls_below:
  assumes "list_all always_fails cs" and "ct_opened_until (get_circuit s (rp_name policy)) = None"
    and "ct_failures (get_circuit s (rp_name policy)) + int (length cs) < max 1 (rp_failure_threshold policy)"
  shows "ct_opened_until (get_circuit (run_calls ev obs unif policy cs s) (rp_name policy)) = None
    \<and> ct_failures (get_circuit (run_calls ev obs unif policy cs s) (rp_name policy))
      = ct_failures (get_circuit s (rp_name policy)) + int (length cs)"
  using assms
proof (induction cs arbitrary: s)
  case (Cons x cs)
  obtain now fail_now fn where x: "x = (now, fail_now, fn)" by (cases x) auto
  have "\<not> circuit_is_open now (get_circuit s (rp_name policy))" using Cons(3) by (simp add: circuit_is_open_def)
  note f = failing_call [OF this _ Cons(3), of fn ev obs fail_now unif]
  have "\<forall>k. \<exists>e. fn k = Inl e" using Cons(2) by (simp add: x always_fails_def)
  note f = f [OF this]
  let ?s = "snd (call ev obs now fail_now unif policy fn s)"
  have lt: "ct_failures (get_circuit s (rp_name policy)) + 1 < max 1 (rp_failure_threshold policy)"
    using Cons(4) by (auto simp: less_max_iff_disj)
  have "ct_opened_until (get_circuit ?s (rp_name policy)) = None"
    unfolding f(2) using lt by (subst if_not_P) (simp_all only: not_le)
  moreover have "ct_failures (get_circuit ?s (rp_name policy)) + int (length cs) < max 1 (rp_failure_threshold policy)"
    using f(1) Cons(4) by simp
  ultimately show ?case
    using Cons(1) [of ?s] Cons(2) f(1) by (simp add: x)
qed simp

lemma run_calls_append:
  "run_calls ev obs unif policy (cs @ ds) s = run_calls ev obs unif policy ds (run_calls ev obs unif policy cs s)"
  by (induction cs arbitrary: s) auto

text \<open>The breaker trips exactly at its threshold. From a manager with no failures, a run of failing
  calls shorter than \<open>max(1, failure_threshold)\<close> leaves the circuit closed, and the call that makes the
  run that long opens it until \<open>max(1, recovery_seconds)\<close> after that failure.\<close>

theorem breaker_trips_at_threshold:
  assumes "list_all always_fails cs" and "get_circuit s (rp_name policy) = new_circuit"
    and "int (length cs) = max 1 (rp_failure_threshold policy) - 1" and "\<forall>k. \<exists>e. fn k = Inl e"
  shows "(\<forall>m \<le> length cs. \<not> circuit_is_open now' (get_circuit (run_calls ev obs unif policy (take m cs) s) (rp_name policy)))
    \<and> ct_opened_until (get_circuit (run_calls ev obs unif policy (cs @ [(now, fail_now, fn)]) s) (rp_name policy))
      = Some (fail_now + max 1 (rp_recovery policy))"
proof -
  have new: "ct_opened_until (get_circuit s (rp_name policy)) = None" "ct_failures (get_circuit s (rp_name policy)) = 0"
    by (simp_all add: assms(2) new_circuit_def)
  have pre: "ct_opened_until (get_circuit (run_calls ev obs unif policy (take m cs) s) (rp_name policy)) = None
      \<and> ct_failures (get_circuit (run_calls ev obs unif policy (take m cs) s) (rp_name policy)) = int m"
    if "m \<le> length cs" for m
    using failing_calls_below [of "take m cs" s policy ev obs unif] assms(1,3) new that
    by (auto simp: list_all_iff dest: in_set_takeD)
  then have "\<forall>m \<le> length cs. \<not> circuit_is_open now' (get_circuit (run_calls ev obs unif policy (take m cs) s) (rp_name policy))"
    by (simp add: circuit_is_open_def)
  moreover
  let ?s = "run_calls ev obs unif policy cs s"
  have s: "ct_opened_until (get_circuit ?s (rp_name policy)) = None"
    "ct_failures (get_circuit ?s (rp_name policy)) = int (length cs)"
    using pre [of "length cs"] by simp_all
  have "\<not> circuit_is_open now (get_circuit ?s (rp_name policy))" using s by (simp add: circuit_is_open_def)
  from failing_call(2) [OF this assms(4) s(1), of ev obs fail_now unif]
  have "ct_opened_until (get_circuit (run_calls ev obs unif policy (cs @ [(now, fail_now, fn)]) s) (rp_name policy))
      = Some (fail_now + max 1 (rp_recovery policy))"
    using s(2) assms(3) by (simp add: run_calls_append)
  ultimately show ?thesis ..
qed

definition fresh_manager :: resilience where
  "fresh_manager = \<lparr>rs_states = [], rs_external = [], rs_world = empty_world\<rparr>"

theorem breaker_trips_at_threshold_witness:
  "ct_opened_until (get_circuit (run_calls True True (\<lambda>_ lo _. lo) ((default_policy ''mcp'')\<lparr>rp_failure_threshold := 2\<rparr>)
     ([(1, 2, \<lambda>_. Inl (OtherError ''x'') :: exc + int)] @ [(3, 4, \<lambda>_. Inl (OtherError ''y''))]) fresh_manager) ''mcp'')
   = Some 34"
  using breaker_trips_at_threshold [of "[(1, 2, \<lambda>_. Inl (OtherError ''x'') :: exc + int)]" fresh_manager
      "(default_policy ''mcp'')\<lparr>rp_failure_threshold := 2\<rparr>" "\<lambda>_. Inl (OtherError ''y'')" 0 True True "\<lambda>_ lo _. lo" 3 4]
  by (simp add: always_fails_def default_policy_def fresh_manager_def get_circuit_def)

text \<open>The pause before a retry is never negative and stays within the policy: at most
  \<open>max_delay\<close> stretched by the jitter ratio, and at most \<open>max_delay\<close> when the server sent a usable
  \<open>Retry-After\<close>, however large.\<close>

theorem retry_delay_within_policy:
  assumes "0 \<le> rp_base_delay policy" and "0 \<le> rp_max_delay policy"
    and "\<And>k lo hi. lo \<le> hi \<Longrightarrow> lo \<le> unif k lo hi \<and> unif k lo hi \<le> hi"
  shows "0 \<le> retry_delay unif policy attempt e
    \<and> retry_delay unif policy attempt e \<le> rp_max_delay policy * (1 + max 0 (rp_jitter_ratio policy))
    \<and> (retry_after_seconds e \<noteq> None \<longrightarrow> retry_delay unif policy attempt e \<le> rp_max_delay policy)"
proof -
  define j where "j = max 0 (rp_jitter_ratio policy)"
  define b where "b = min (rp_max_delay policy) (rp_base_delay policy * 2 ^ nat (max 0 (attempt - 1)))"
  define u where "u = unif attempt (- (b * j)) (b * j)"
  have b: "0 \<le> b" "b \<le> rp_max_delay policy" using assms(1,2) by (auto simp: b_def)
  have j: "0 \<le> j" by (simp add: j_def)
  have bj: "0 \<le> b * j" "b * j \<le> rp_max_delay policy * j" using b j by (auto intro: mult_right_mono)
  have "u \<le> b * j" using assms(3) [of "- (b * j)" "b * j"] bj by (simp add: u_def)
  then have "b + u \<le> rp_max_delay policy * (1 + j)" using b bj by (simp add: distrib_left)
  moreover have m: "rp_max_delay policy \<le> rp_max_delay policy * (1 + j)" "0 \<le> rp_max_delay policy * (1 + j)"
    using assms(2) j by (simp_all add: distrib_left)
  moreover have "0 \<le> r" if "retry_after_seconds e = Some (Fin r)" for r
    using that by (cases e) (auto simp: retry_after_seconds_def split: option.splits if_splits pyfloat.splits)
  moreover have "retry_delay unif policy attempt e = (case retry_after_seconds e of
     Some (Fin r) \<Rightarrow> min (rp_max_delay policy) r | Some _ \<Rightarrow> rp_max_delay policy | None \<Rightarrow> max 0 (b + u))"
    unfolding retry_delay_def Let_def b_def j_def u_def ..
  ultimately show ?thesis
    using assms(2) unfolding j_def [symmetric]
    by (auto split: option.splits pyfloat.splits intro: min.coboundedI1)
qed

theorem retry_delay_within_policy_witness:
  "0 \<le> retry_delay (\<lambda>_ lo _. lo) (default_policy ''llm'') 2 (HTTPStatusError ''busy'' 429 (Some ''1e9''))
    \<and> retry_delay (\<lambda>_ lo _. lo) (default_policy ''llm'') 2 (HTTPStatusError ''busy'' 429 (Some ''1e9''))
         \<le> rp_max_delay (default_policy ''llm'')"
proof -
  have "retry_after_seconds (HTTPStatusError ''busy'' 429 (Some ''1e9'')) \<noteq> None" by code_simp
  then show ?thesis
    using retry_delay_within_policy [of "default_policy ''llm''" "\<lambda>_ lo _. lo" 2 "HTTPStatusError ''busy'' 429 (Some ''1e9'')"]
    by (simp add: default_policy_def)
qed

end
