(* ===== verification/Rate_Limit.thy ===== *)
theory Rate_Limit
  imports Resilience
begin

text \<open>
  The fixed-window rate limiter: \<open>backend/infra/rate_limit.py\<close>.

  The Redis client is a parameter: a record of its three operations on a Redis state \<open>'r\<close>. The
  limiter keeps its in-memory counters, the hit and block counts, the Redis state it talks to and the
  world it writes events to. \<open>int(time.time())\<close> is the argument \<open>now\<close> (with \<open>now'\<close> for the second reading
  on the Redis error path). The lock makes the in-memory update atomic.
\<close>

section \<open>Data\<close>

record decision =
  dn_allowed :: bool
  dn_policy :: string
  dn_key :: string
  dn_limit :: int
  dn_remaining :: int
  dn_retry_after :: int
  dn_reset_at :: int
  dn_backend :: string

record 'r redis_client =
  rc_incr :: "string \<Rightarrow> 'r \<Rightarrow> (exc + int) \<times> 'r"
  rc_expire :: "string \<Rightarrow> int \<Rightarrow> 'r \<Rightarrow> (exc + unit) \<times> 'r"
  rc_ttl :: "string \<Rightarrow> 'r \<Rightarrow> (exc + int) \<times> 'r"

record 'r limiter =
  lm_memory :: "(string \<times> (int \<times> int)) list"
  lm_hits :: "(string \<times> int) list"
  lm_blocked :: "(string \<times> int) list"
  lm_redis :: 'r
  lm_world :: world

record limit_settings =
  ls_enabled :: bool
  ls_memory_fallback :: bool
  ls_admin_per_minute :: int
  ls_turn_per_minute :: int
  ls_gateway_per_minute :: int
  ls_llm_per_minute :: int

section \<open>Operations\<close>

definition safe_char :: "char \<Rightarrow> bool" where
  "safe_char c = (is_alnum c \<or> c \<in> set ''_.:-'')"

definition safe_identity :: "string \<Rightarrow> string" where
  "safe_identity identity =
     take 160 (map (\<lambda>c. if safe_char c then c else CHR ''_'') (str_or identity ''anonymous''))"

definition limit_key :: "string \<Rightarrow> string \<Rightarrow> string" where
  "limit_key policy identity = ''soulclaw:rl:'' @ policy @ '':'' @ safe_identity identity"

definition count_of :: "string \<Rightarrow> (string \<times> int) list \<Rightarrow> int" where
  "count_of k xs = (case map_of xs k of None \<Rightarrow> 0 | Some n \<Rightarrow> n)"

definition record_decision :: "decision \<Rightarrow> 'r limiter \<Rightarrow> 'r limiter" where
  "record_decision d s =
     (let p = dn_policy d;
          s1 = s\<lparr>lm_hits := put_assoc p (count_of p (lm_hits s) + 1) (lm_hits s)\<rparr>
      in if dn_allowed d then s1
         else s1\<lparr>lm_blocked := put_assoc p (count_of p (lm_blocked s) + 1) (lm_blocked s)\<rparr>)"

definition check_redis ::
  "'r redis_client \<Rightarrow> int \<Rightarrow> string \<Rightarrow> string \<Rightarrow> int \<Rightarrow> int \<Rightarrow> 'r \<Rightarrow> (exc + decision) \<times> 'r" where
  "check_redis client now key policy limit window_seconds r =
     (case rc_incr client key r of
        (Inl e, r1) \<Rightarrow> (Inl e, r1)
      | (Inr hits, r1) \<Rightarrow>
          (case (if hits = 1 then rc_expire client key window_seconds r1 else (Inr (), r1)) of
             (Inl e, r2) \<Rightarrow> (Inl e, r2)
           | (Inr _, r2) \<Rightarrow>
               (case rc_ttl client key r2 of
                  (Inl e, r3) \<Rightarrow> (Inl e, r3)
                | (Inr ttl0, r3) \<Rightarrow>
                    let ttl1 = (if ttl0 = 0 then window_seconds else ttl0);
                        ttl = (if ttl1 < 0 then window_seconds else ttl1);
                        allowed = (hits \<le> limit)
                    in (Inr \<lparr>dn_allowed = allowed, dn_policy = policy, dn_key = key, dn_limit = limit,
                          dn_remaining = max 0 (limit - hits),
                          dn_retry_after = (if allowed then 0 else ttl), dn_reset_at = now + ttl,
                          dn_backend = ''redis''\<rparr>, r3))))"

text \<open>The counter of a key after a request at \<open>now\<close>, and the in-memory check. \<open>now % 0\<close> raises.\<close>

definition next_counter :: "int \<Rightarrow> int \<Rightarrow> (int \<times> int) option \<Rightarrow> int \<times> int" where
  "next_counter window_seconds now entry =
     (let reset_at = now - now mod window_seconds + window_seconds;
          (hits, stored_reset) = (case entry of None \<Rightarrow> (0, reset_at) | Some x \<Rightarrow> x)
      in if stored_reset \<le> now then (1, reset_at) else (hits + 1, stored_reset))"

definition check_memory ::
  "int \<Rightarrow> string \<Rightarrow> string \<Rightarrow> int \<Rightarrow> int \<Rightarrow> (string \<times> (int \<times> int)) list \<Rightarrow>
   (exc + decision) \<times> (string \<times> (int \<times> int)) list" where
  "check_memory now key policy limit window_seconds mem =
     (if window_seconds = 0 then (Inl ZeroDivisionError, mem)
      else case next_counter window_seconds now (map_of mem key) of (hits, stored_reset) \<Rightarrow>
        let allowed = (hits \<le> limit)
        in (Inr \<lparr>dn_allowed = allowed, dn_policy = policy, dn_key = key, dn_limit = limit,
               dn_remaining = max 0 (limit - hits),
               dn_retry_after = (if allowed then 0 else max 1 (stored_reset - now)),
               dn_reset_at = stored_reset, dn_backend = ''memory''\<rparr>,
            put_assoc key (hits, stored_reset) mem))"

definition memory_decision ::
  "int \<Rightarrow> string \<Rightarrow> string \<Rightarrow> int \<Rightarrow> int \<Rightarrow> 'r limiter \<Rightarrow> (exc + decision) \<times> 'r limiter" where
  "memory_decision now key policy limit window_seconds s =
     (case check_memory now key policy limit window_seconds (lm_memory s) of
        (Inl e, m) \<Rightarrow> (Inl e, s\<lparr>lm_memory := m\<rparr>)
      | (Inr d, m) \<Rightarrow> (Inr d, record_decision d (s\<lparr>lm_memory := m\<rparr>)))"

definition check_limit ::
  "limit_settings \<Rightarrow> 'r redis_client option \<Rightarrow> bool \<Rightarrow> int \<Rightarrow> int \<Rightarrow> string \<Rightarrow> string \<Rightarrow> int \<Rightarrow> int \<Rightarrow>
   'r limiter \<Rightarrow> (exc + decision) \<times> 'r limiter" where
  "check_limit cfg redis ev now now' policy identity limit0 window_seconds s =
     (if \<not> ls_enabled cfg
      then (Inr \<lparr>dn_allowed = True, dn_policy = policy, dn_key = identity, dn_limit = limit0,
              dn_remaining = limit0, dn_retry_after = 0, dn_reset_at = now + window_seconds,
              dn_backend = ''disabled''\<rparr>, s)
      else
        let limit = max 1 (if limit0 = 0 then 1 else limit0);
            key = limit_key policy identity
        in case redis of
             None \<Rightarrow> memory_decision now key policy limit window_seconds s
           | Some client \<Rightarrow>
               (case check_redis client now key policy limit window_seconds (lm_redis s) of
                  (Inr d, r) \<Rightarrow> (Inr d, record_decision d (s\<lparr>lm_redis := r\<rparr>))
                | (Inl e, r) \<Rightarrow>
                    let s1 = s\<lparr>lm_redis := r, lm_world := emit_warning ev ''rate_limit.redis_unavailable''
                           [(''policy'', JStr policy), (''error'', JStr (exc_str e))] (lm_world s)\<rparr>
                    in if ls_memory_fallback cfg
                       then memory_decision now' key policy limit window_seconds s1
                       else let d = \<lparr>dn_allowed = True, dn_policy = policy, dn_key = key, dn_limit = limit,
                                  dn_remaining = limit, dn_retry_after = 0,
                                  dn_reset_at = now' + window_seconds, dn_backend = ''redis_unavailable_open''\<rparr>
                            in (Inr d, record_decision d s1)))"

definition enforce_limit ::
  "limit_settings \<Rightarrow> 'r redis_client option \<Rightarrow> bool \<Rightarrow> int \<Rightarrow> int \<Rightarrow> string \<Rightarrow> string \<Rightarrow> int \<Rightarrow> int \<Rightarrow>
   'r limiter \<Rightarrow> (exc + decision) \<times> 'r limiter" where
  "enforce_limit cfg redis ev now now' policy identity limit window_seconds s =
     (case check_limit cfg redis ev now now' policy identity limit window_seconds s of
        (Inl e, s1) \<Rightarrow> (Inl e, s1)
      | (Inr d, s1) \<Rightarrow>
          if dn_allowed d then (Inr d, s1)
          else (Inl (RateLimitExceeded (dn_key d) policy limit (dn_retry_after d)),
                s1\<lparr>lm_world := emit_warning ev ''rate_limit.blocked''
                  [(''policy'', JStr policy), (''key'', JStr (dn_key d)), (''limit'', JInt limit),
                   (''retry_after'', JInt (dn_retry_after d))] (lm_world s1)\<rparr>))"

definition limiter_state :: "limit_settings \<Rightarrow> 'r redis_client option \<Rightarrow> 'r limiter \<Rightarrow> dict" where
  "limiter_state cfg redis s =
     [(''enabled'', JBool (ls_enabled cfg)),
      (''backend'', JStr (if redis \<noteq> None then ''redis'' else if ls_memory_fallback cfg then ''memory'' else ''none'')),
      (''hits'', JObj (map (\<lambda>(k, n). (k, JInt n)) (sort_key fst (lm_hits s)))),
      (''blocked'', JObj (map (\<lambda>(k, n). (k, JInt n)) (sort_key fst (lm_blocked s)))),
      (''policies'', JObj (map (\<lambda>(k, n). (k, JObj [(''limit'', JInt n), (''window_seconds'', JInt 60)]))
         [(''admin'', ls_admin_per_minute cfg), (''turn'', ls_turn_per_minute cfg),
          (''gateway'', ls_gateway_per_minute cfg), (''llm'', ls_llm_per_minute cfg)]))]"

section \<open>The abstract fixed-window counter\<close>

text \<open>
  The specification keeps the whole history of requests and allows a request when fewer than
  \<open>limit\<close> earlier requests of the same key fell into the same window of \<open>W\<close> seconds.
\<close>

definition window_hits :: "int \<Rightarrow> (string \<times> int) list \<Rightarrow> string \<Rightarrow> int \<Rightarrow> int" where
  "window_hits W hist key u = int (length (filter (\<lambda>(k, t). k = key \<and> t div W = u) hist))"

fun spec_serve :: "int \<Rightarrow> int \<Rightarrow> (string \<times> int) list \<Rightarrow> (string \<times> string \<times> int) list \<Rightarrow> bool list" where
  "spec_serve W limit hist [] = []"
| "spec_serve W limit hist ((policy, identity, now) # rs) =
     (let key = limit_key policy identity
      in (window_hits W hist key (now div W) < limit) # spec_serve W limit (hist @ [(key, now)]) rs)"

text \<open>The limiter without Redis on a sequence of requests: the answers in order.\<close>

fun serve :: "limit_settings \<Rightarrow> bool \<Rightarrow> int \<Rightarrow> int \<Rightarrow> (string \<times> string \<times> int) list \<Rightarrow> 'r limiter \<Rightarrow> bool list" where
  "serve cfg ev W limit [] s = []"
| "serve cfg ev W limit ((policy, identity, now) # rs) s =
     (case check_limit cfg None ev now now policy identity limit W s of
        (r, s1) \<Rightarrow> (case r of Inl _ \<Rightarrow> False | Inr d \<Rightarrow> dn_allowed d) # serve cfg ev W limit rs s1)"

definition counter_rel :: "int \<Rightarrow> (string \<times> int) list \<Rightarrow> (string \<times> (int \<times> int)) list \<Rightarrow> bool" where
  "counter_rel W hist mem = (\<forall>k. case map_of mem k of
     None \<Rightarrow> k \<notin> fst ` set hist
   | Some (c, r) \<Rightarrow> (\<exists>u. r = (u + 1) * W \<and> c = window_hits W hist k u \<and> (\<exists>t. (k, t) \<in> set hist \<and> t div W = u)
       \<and> (\<forall>t. (k, t) \<in> set hist \<longrightarrow> t div W \<le> u)))"

lemma window_hits_snoc:
  "window_hits W (hist @ [(k', t)]) k u = window_hits W hist k u + (if k' = k \<and> t div W = u then 1 else 0)"
  by (simp add: window_hits_def)

lemma window_hits_none: "(\<And>t. (k, t) \<in> set hist \<Longrightarrow> t div W \<noteq> u) \<Longrightarrow> window_hits W hist k u = 0"
  by (auto simp: window_hits_def filter_empty_conv)

lemma window_start: "now - now mod W + W = (now div W + 1) * (W::int)"
  by (simp add: minus_mod_eq_mult_div [symmetric] algebra_simps)

lemma window_passed: "0 < W \<Longrightarrow> (u + 1) * W \<le> now \<longleftrightarrow> u < now div (W::int)"
proof -
  assume W: "0 < W"
  have "(u + 1) * W \<le> now \<longleftrightarrow> u + 1 \<le> now div W"
  proof
    assume "(u + 1) * W \<le> now"
    then have "((u + 1) * W) div W \<le> now div W" using W by (simp only: zdiv_mono1)
    then show "u + 1 \<le> now div W" using W by simp
  next
    assume "u + 1 \<le> now div W"
    then have "(u + 1) * W \<le> now div W * W" using W by (simp add: mult_right_mono)
    also have "\<dots> \<le> now" using W by (simp add: minus_mod_eq_div_mult [symmetric])
    finally show "(u + 1) * W \<le> now" .
  qed
  then show ?thesis by linarith
qed

lemma next_counter_spec:
  assumes W: "0 < W" and rel: "counter_rel W hist mem" and past: "\<forall>x \<in> set hist. snd x \<le> now"
  shows "next_counter W now (map_of mem key) = (window_hits W hist key (now div W) + 1, (now div W + 1) * W)"
proof (cases "map_of mem key")
  case None
  then have "key \<notin> fst ` set hist" using spec [OF rel [unfolded counter_rel_def], of key] by simp
  then have "window_hits W hist key (now div W) = 0" by (intro window_hits_none) force
  moreover have "\<not> (now div W + 1) * W \<le> now" using window_passed [OF W, of "now div W" now] by simp
  ultimately show ?thesis using None by (simp add: next_counter_def window_start Let_def)
next
  case (Some x)
  then obtain u t where x: "x = (window_hits W hist key u, (u + 1) * W)" and t: "(key, t) \<in> set hist" "t div W = u"
    and le: "\<And>t. (key, t) \<in> set hist \<Longrightarrow> t div W \<le> u"
    using spec [OF rel [unfolded counter_rel_def], of key] by (cases x) auto
  have "u \<le> now div W" using t bspec [OF past t(1)] W by (auto intro: zdiv_mono1)
  then consider "u < now div W" | "u = now div W" by linarith
  then show ?thesis
  proof cases
    case 1
    then have "window_hits W hist key (now div W) = 0" using le by (intro window_hits_none) force
    then show ?thesis using 1 Some x window_passed [OF W, of u now] by (simp add: next_counter_def window_start Let_def)
  next
    case 2
    then show ?thesis using Some x window_passed [OF W, of u now] by (simp add: next_counter_def window_start Let_def)
  qed
qed

lemma counter_rel_step:
  assumes W: "0 < W" and rel: "counter_rel W hist mem" and past: "\<forall>x \<in> set hist. snd x \<le> now"
  shows "counter_rel W (hist @ [(key, now)])
    (put_assoc key (window_hits W hist key (now div W) + 1, (now div W + 1) * W) mem)"
  unfolding counter_rel_def
proof
  fix k
  show "case map_of (put_assoc key (window_hits W hist key (now div W) + 1, (now div W + 1) * W) mem) k of
      None \<Rightarrow> k \<notin> fst ` set (hist @ [(key, now)])
    | Some (c, r) \<Rightarrow> (\<exists>u. r = (u + 1) * W \<and> c = window_hits W (hist @ [(key, now)]) k u
        \<and> (\<exists>t. (k, t) \<in> set (hist @ [(key, now)]) \<and> t div W = u)
        \<and> (\<forall>t. (k, t) \<in> set (hist @ [(key, now)]) \<longrightarrow> t div W \<le> u))"
  proof (cases "k = key")
    case True
    have "t div W \<le> now div W" if "(key, t) \<in> set hist" for t using bspec [OF past that] W by (simp add: zdiv_mono1)
    then show ?thesis using True
      by (simp add: window_hits_snoc) (rule exI [of _ "now div W"], auto)
  next
    case False
    then show ?thesis
      using spec [OF rel [unfolded counter_rel_def], of k]
      by (auto simp: window_hits_snoc split: option.splits)
  qed
qed

lemma check_limit_memory:
  assumes "ls_enabled cfg" and "0 < W" and "1 \<le> limit"
    and "counter_rel W hist (lm_memory s)" and "\<forall>x \<in> set hist. snd x \<le> now"
  shows "\<exists>d s1. check_limit cfg None ev now now' policy identity limit W s = (Inr d, s1)
    \<and> dn_allowed d = (window_hits W hist (limit_key policy identity) (now div W) < limit)
    \<and> dn_retry_after d = (if dn_allowed d then 0 else max 1 (dn_reset_at d - now))
    \<and> now < dn_reset_at d \<and> dn_reset_at d \<le> now + W
    \<and> lm_memory s1 = put_assoc (limit_key policy identity)
        (window_hits W hist (limit_key policy identity) (now div W) + 1, (now div W + 1) * W) (lm_memory s)"
proof -
  have "now < (now div W + 1) * W" using window_passed [OF assms(2), of "now div W" now] by linarith
  moreover have "(now div W + 1) * W \<le> now + W"
    using assms(2) by (simp add: distrib_right minus_mod_eq_div_mult [symmetric])
  ultimately show ?thesis
    using assms(1-3) next_counter_spec [OF assms(2,4,5), of "limit_key policy identity"]
    by (simp add: check_limit_def memory_decision_def check_memory_def record_decision_def Let_def)
qed

lemma serve_spec:
  assumes "ls_enabled cfg" and "0 < W" and "1 \<le> limit"
  shows "counter_rel W hist (lm_memory s) \<Longrightarrow> sorted (map (\<lambda>(_, _, t). t) rs) \<Longrightarrow>
    (\<forall>(k, t) \<in> set hist. \<forall>(_, _, t') \<in> set rs. t \<le> t') \<Longrightarrow>
    serve cfg ev W limit rs s = spec_serve W limit hist rs"
proof (induction rs arbitrary: hist s)
  case (Cons r rs)
  obtain policy identity now where r: "r = (policy, identity, now)" by (cases r) auto
  have past: "\<forall>x \<in> set hist. snd x \<le> now" using Cons(4) r by auto
  let ?k = "limit_key policy identity"
  obtain d s1 where c: "check_limit cfg None ev now now policy identity limit W s = (Inr d, s1)"
    and d: "dn_allowed d = (window_hits W hist ?k (now div W) < limit)"
    and m: "lm_memory s1 = put_assoc ?k (window_hits W hist ?k (now div W) + 1, (now div W + 1) * W) (lm_memory s)"
    using check_limit_memory [OF assms Cons(2) past] by blast
  have rel: "counter_rel W (hist @ [(?k, now)]) (lm_memory s1)"
    unfolding m by (rule counter_rel_step [OF assms(2) Cons(2) past])
  have "serve cfg ev W limit rs s1 = spec_serve W limit (hist @ [(?k, now)]) rs"
    using Cons(3,4) r by (intro Cons(1) [OF rel]) auto
  then show ?case using c d by (simp add: r Let_def)
qed simp

section \<open>Properties\<close>

text \<open>The in-memory limiter implements the fixed-window counter. On every sequence of requests with a
  clock that does not go back, from any callers and policies and interleaved in any way, a request is
  allowed exactly when fewer than \<open>limit\<close> requests of the same policy and identity came before it in
  the same window: no caller gets more than \<open>limit\<close> requests per window and none is refused for
  another caller's requests.\<close>

theorem limiter_refines_fixed_window:
  assumes "ls_enabled cfg" and "0 < W" and "1 \<le> limit" and "lm_memory s = []"
    and "sorted (map (\<lambda>(_, _, t). t) rs)"
  shows "serve cfg ev W limit rs s = spec_serve W limit [] rs"
  by (rule serve_spec [OF assms(1-3)]) (use assms(4,5) in \<open>simp_all add: counter_rel_def\<close>)

definition sample_settings :: limit_settings where
  "sample_settings = \<lparr>ls_enabled = True, ls_memory_fallback = True, ls_admin_per_minute = 120,
     ls_turn_per_minute = 30, ls_gateway_per_minute = 60, ls_llm_per_minute = 60\<rparr>"

definition fresh_limiter :: "unit limiter" where
  "fresh_limiter = \<lparr>lm_memory = [], lm_hits = [], lm_blocked = [], lm_redis = (), lm_world = empty_world\<rparr>"

theorem limiter_refines_fixed_window_witness:
  "serve sample_settings True 60 2 [(''turn'', ''a'', 61), (''turn'', ''b'', 62), (''turn'', ''a'', 70),
      (''turn'', ''a'', 119), (''turn'', ''a'', 120)] fresh_limiter = [True, True, True, False, True]"
proof -
  let ?rs = "[(''turn'', ''a'', 61), (''turn'', ''b'', 62), (''turn'', ''a'', 70), (''turn'', ''a'', 119), (''turn'', ''a'', 120)]"
  have "serve sample_settings True 60 2 ?rs fresh_limiter = spec_serve 60 2 [] ?rs"
    by (rule limiter_refines_fixed_window) code_simp+
  also have "\<dots> = [True, True, True, False, True]" by code_simp
  finally show ?thesis .
qed

text \<open>A refused request is told when to come back: \<open>enforce\<close> raises \<open>RateLimitExceeded\<close> exactly when
  the check refuses, and with the in-memory counters the wait is between one second and the window.\<close>

theorem enforce_retry_after:
  assumes "ls_enabled cfg" and "0 < W" and "1 \<le> limit"
    and "counter_rel W hist (lm_memory s)" and "\<forall>x \<in> set hist. snd x \<le> now"
  shows "(window_hits W hist (limit_key policy identity) (now div W) < limit
      \<and> (\<exists>d s1. enforce_limit cfg None ev now now' policy identity limit W s = (Inr d, s1) \<and> dn_allowed d))
    \<or> (\<exists>retry s1. window_hits W hist (limit_key policy identity) (now div W) \<ge> limit
      \<and> enforce_limit cfg None ev now now' policy identity limit W s
        = (Inl (RateLimitExceeded (limit_key policy identity) policy limit retry), s1)
      \<and> 1 \<le> retry \<and> retry \<le> W)"
proof -
  obtain d s1 where c: "check_limit cfg None ev now now' policy identity limit W s = (Inr d, s1)"
    and d: "dn_allowed d = (window_hits W hist (limit_key policy identity) (now div W) < limit)"
      "dn_retry_after d = (if dn_allowed d then 0 else max 1 (dn_reset_at d - now))"
      "now < dn_reset_at d" "dn_reset_at d \<le> now + W"
    using check_limit_memory [OF assms] by blast
  have "dn_key d = limit_key policy identity"
    using c assms(1,2) by (auto simp: check_limit_def memory_decision_def check_memory_def Let_def
      split: prod.splits)
  then show ?thesis using c d by (auto simp: enforce_limit_def)
qed

theorem enforce_retry_after_witness:
  "(window_hits 60 [] (limit_key ''turn'' ''a'') (61 div 60) < 1
      \<and> (\<exists>d s1. enforce_limit sample_settings None True 61 61 ''turn'' ''a'' 1 60 fresh_limiter = (Inr d, s1)
          \<and> dn_allowed d))
    \<or> (\<exists>retry s1. window_hits 60 [] (limit_key ''turn'' ''a'') (61 div 60) \<ge> 1
      \<and> enforce_limit sample_settings None True 61 61 ''turn'' ''a'' 1 60 fresh_limiter
        = (Inl (RateLimitExceeded (limit_key ''turn'' ''a'') ''turn'' 1 retry), s1) \<and> 1 \<le> retry \<and> retry \<le> 60)"
  by (rule enforce_retry_after) (simp_all add: sample_settings_def fresh_limiter_def counter_rel_def)

text \<open>The identity part of a limiter key is safe and bounded for every caller-supplied string: it is
  never empty, has at most 160 characters, and holds only letters, digits and \<open>_ . : -\<close>.\<close>

theorem safe_identity_bounded:
  "safe_identity x \<noteq> [] \<and> length (safe_identity x) \<le> 160 \<and> list_all safe_char (safe_identity x)"
proof -
  have "safe_char CHR ''_''" by code_simp
  then show ?thesis by (auto simp: safe_identity_def str_or_def list_all_iff dest!: in_set_takeD)
qed

text \<open>Without the in-memory fallback the limiter fails open: when Redis raises, every request is
  allowed, whatever its limit and however often the caller came.\<close>

theorem redis_failure_fails_open:
  assumes "ls_enabled cfg" and "\<not> ls_memory_fallback cfg"
    and "fst (check_redis client now (limit_key policy identity) policy (max 1 (if limit = 0 then 1 else limit)) W (lm_redis s))
      = Inl e"
  shows "\<exists>d s1. enforce_limit cfg (Some client) ev now now' policy identity limit W s = (Inr d, s1)
    \<and> dn_backend d = ''redis_unavailable_open'' \<and> lm_memory s1 = lm_memory s"
proof -
  define l where "l = max 1 (if limit = 0 then 1 else limit)"
  obtain r where "check_redis client now (limit_key policy identity) policy l W (lm_redis s) = (Inl e, r)"
    using assms(3) by (metis l_def prod.collapse)
  then show ?thesis
    using assms(1,2) by (simp add: enforce_limit_def check_limit_def l_def [symmetric] Let_def record_decision_def)
qed

definition broken_redis :: "unit redis_client" where
  "broken_redis = \<lparr>rc_incr = (\<lambda>k r. (Inl (OtherError ''connection refused''), r)),
     rc_expire = (\<lambda>k n r. (Inr (), r)), rc_ttl = (\<lambda>k r. (Inr (-1), r))\<rparr>"

theorem redis_failure_fails_open_witness:
  "\<exists>d s1. enforce_limit (sample_settings\<lparr>ls_memory_fallback := False\<rparr>) (Some broken_redis) True 1 1 ''turn'' ''a'' 1 60
      fresh_limiter = (Inr d, s1) \<and> dn_backend d = ''redis_unavailable_open'' \<and> lm_memory s1 = lm_memory fresh_limiter"
  by (rule redis_failure_fails_open [where e = "OtherError ''connection refused''"]) code_simp+

end
