(* ===== verification/Llm.thy ===== *)
theory Llm
  imports Rate_Limit Ops Json
begin

text \<open>
  The chat client: \<open>backend/runtime/llm.py\<close>.

  A completion passes the rate limiter, then the resilience manager, which posts the request; the state is the
  resilience manager (with the world) and the limiter. The HTTP client is the argument \<open>lc_post\<close>: what the k-th
  attempt to post a body returns or raises (\<open>raise_for_status\<close> included). The content of a message is text or
  null, as the API documents; another value is modelled as an exception. \<open>dict(xs)\<close> of a list of pairs is modelled for
  text keys.
\<close>

section \<open>Data\<close>

record llm_tool_call =
  tc_name :: string
  tc_arguments :: json
  tc_id :: string

record llm_response =
  lr_content :: string
  lr_tool_calls :: "llm_tool_call list"
  lr_raw :: json

record llm_provider =
  lp_name :: string
  lp_model :: string
  lp_base_url :: string
  lp_context_window_tokens :: int
  lp_supports_tools :: bool
  lp_supports_streaming :: bool

record llm_settings =
  lt_provider :: string
  lt_model :: "string option"
  lt_base_url :: string
  lt_api_key :: "string option"
  lt_context_window_tokens :: int
  lt_rate_limit_per_minute :: int

record 'r llm_env =
  lc_settings :: llm_settings
  lc_limiter :: "(limit_settings \<times> 'r redis_client option) option"
  lc_events :: bool
  lc_time :: int
  lc_time2 :: int
  lc_now :: instant
  lc_fail_now :: instant
  lc_unif :: "int \<Rightarrow> rat \<Rightarrow> rat \<Rightarrow> rat"
  lc_post :: "string \<Rightarrow> (string \<times> string) list \<Rightarrow> dict \<Rightarrow> int \<Rightarrow> exc + json"

record 'r llm_state =
  ll_resilience :: resilience
  ll_limiter :: "'r limiter"

definition env_str :: "string option \<Rightarrow> string" where
  "env_str x = (case x of None \<Rightarrow> '''' | Some s \<Rightarrow> s)"

definition provider_list :: "llm_settings \<Rightarrow> llm_provider list" where
  "provider_list cfg = [\<lparr>lp_name = lt_provider cfg, lp_model = env_str (lt_model cfg), lp_base_url = lt_base_url cfg,
     lp_context_window_tokens = lt_context_window_tokens cfg, lp_supports_tools = True, lp_supports_streaming = False\<rparr>]"

definition active_provider :: "llm_settings \<Rightarrow> llm_provider" where
  "active_provider cfg = provider_list cfg ! 0"

definition llm_policy :: resilience_policy where
  "llm_policy = (default_policy ''llm.openai_compatible'')\<lparr>rp_max_attempts := 3, rp_base_delay := 1 / 2, rp_max_delay := 8,
     rp_failure_threshold := 5, rp_recovery := 60\<rparr>"

definition configured :: "llm_settings \<Rightarrow> bool" where
  "configured cfg = (env_str (lt_api_key cfg) \<noteq> [] \<and> env_str (lt_model cfg) \<noteq> [])"

section \<open>Reading the response\<close>

text \<open>\<open>x[key]\<close>, \<open>x[0]\<close> and \<open>x.get(key)\<close> on a JSON value of unknown type.\<close>

definition index_key :: "string \<Rightarrow> json \<Rightarrow> exc + json" where
  "index_key k v = (case v of
     JObj d \<Rightarrow> (case map_of d k of None \<Rightarrow> Inl (KeyError k) | Some x \<Rightarrow> Inr x)
   | _ \<Rightarrow> Inl (TypeError ''indices must be integers''))"

definition index_first :: "json \<Rightarrow> exc + json" where
  "index_first v = (case v of
     JList (x # _) \<Rightarrow> Inr x
   | JList [] \<Rightarrow> Inl (OtherError ''list index out of range'')
   | JStr (c # _) \<Rightarrow> Inr (JStr [c])
   | JStr [] \<Rightarrow> Inl (OtherError ''string index out of range'')
   | JObj _ \<Rightarrow> Inl (KeyError ''0'')
   | _ \<Rightarrow> Inl (TypeError ''object is not subscriptable''))"

definition attr_get :: "string \<Rightarrow> json \<Rightarrow> exc + json" where
  "attr_get k v = (case v of JObj d \<Rightarrow> Inr (dget k d) | _ \<Rightarrow> Inl (OtherError ''object has no attribute 'get' ''))"

definition res_bind :: "exc + 'a \<Rightarrow> ('a \<Rightarrow> exc + 'b) \<Rightarrow> exc + 'b" where
  "res_bind m f = (case m of Inl e \<Rightarrow> Inl e | Inr x \<Rightarrow> f x)"

text \<open>\<open>dict(x)\<close>; \<open>None\<close> when it raises \<open>TypeError\<close> or \<open>ValueError\<close>.\<close>

fun pair_of :: "json \<Rightarrow> (string \<times> json) option" where
  "pair_of (JList [JStr k, v]) = Some (k, v)"
| "pair_of (JStr [a, b]) = Some ([a], JStr [b])"
| "pair_of _ = None"

definition dict_of :: "json \<Rightarrow> dict option" where
  "dict_of v = (case v of
     JObj d \<Rightarrow> Some d
   | JList xs \<Rightarrow> map_option (\<lambda>ps. fold (\<lambda>(k, x). dset k x) ps []) (those (map pair_of xs))
   | _ \<Rightarrow> None)"

definition parse_arguments :: "json \<Rightarrow> json" where
  "parse_arguments raw = (case (case raw of JStr s \<Rightarrow> json_loads s | _ \<Rightarrow> map_option JObj (dict_of raw)) of
     Some v \<Rightarrow> v | None \<Rightarrow> JObj [(''_raw'', raw)])"

text \<open>One raw call; \<open>None\<close> when it has no name.\<close>

definition parse_tool_call :: "json \<Rightarrow> exc + llm_tool_call option" where
  "parse_tool_call c =
     res_bind (attr_get ''function'' c) (\<lambda>f0. let f = py_or f0 (JObj []) in
     res_bind (attr_get ''name'' f) (\<lambda>n. let name = py_str (py_or n (JStr '''')) in
     if name = [] then Inr None
     else res_bind (attr_get ''arguments'' f) (\<lambda>a.
          res_bind (attr_get ''id'' c) (\<lambda>i.
            Inr (Some \<lparr>tc_name = name, tc_arguments = parse_arguments (py_or a (JStr ''{}'')), tc_id = py_str (py_or i (JStr ''''))\<rparr>)))))"

definition parse_tool_calls :: "json \<Rightarrow> exc + llm_tool_call list" where
  "parse_tool_calls raw_calls =
     res_bind (py_iter raw_calls) (\<lambda>cs. map_sum id (List.map_filter id) (op_traverse parse_tool_call cs))"

definition parse_response :: "json \<Rightarrow> exc + llm_response" where
  "parse_response raw =
     res_bind (index_key ''choices'' raw) (\<lambda>cs. res_bind (index_first cs) (\<lambda>c. res_bind (index_key ''message'' c) (\<lambda>m.
     res_bind (attr_get ''tool_calls'' m) (\<lambda>calls. res_bind (parse_tool_calls (py_or calls (JList []))) (\<lambda>tcs.
     res_bind (attr_get ''content'' m) (\<lambda>content.
       case py_or content (JStr '''') of
         JStr s \<Rightarrow> Inr \<lparr>lr_content = s, lr_tool_calls = tcs, lr_raw = raw\<rparr>
       | _ \<Rightarrow> Inl (OtherError ''message content is not text'')))))))"

section \<open>Completing\<close>

definition rstrip_slash :: "string \<Rightarrow> string" where
  "rstrip_slash s = rstrip_of (\<lambda>c. c = CHR ''/'') s"

definition request_body :: "llm_settings \<Rightarrow> dict list \<Rightarrow> dict list \<Rightarrow> rat \<Rightarrow> dict" where
  "request_body cfg messages tools temperature =
     [(''model'', opt_json JStr (lt_model cfg)), (''messages'', JList (map JObj messages)), (''temperature'', JFloat temperature)] @
     (if tools = [] then [] else [(''tools'', JList (map JObj tools)), (''tool_choice'', JStr ''auto'')])"

definition request_headers :: "llm_settings \<Rightarrow> (string \<times> string) list" where
  "request_headers cfg = [(''Authorization'', ''Bearer '' @ env_str (lt_api_key cfg)), (''Content-Type'', ''application/json'')]"

definition limit_completion :: "'r llm_env \<Rightarrow> 'r llm_state \<Rightarrow> (exc + unit) \<times> 'r llm_state" where
  "limit_completion env s = (case lc_limiter env of
     None \<Rightarrow> (Inr (), s)
   | Some (limits, redis) \<Rightarrow>
       (case enforce_limit limits redis (lc_events env) (lc_time env) (lc_time2 env) ''llm''
               (str_or (env_str (lt_model (lc_settings env))) (lt_provider (lc_settings env)))
               (lt_rate_limit_per_minute (lc_settings env)) 60 ((ll_limiter s)\<lparr>lm_world := rs_world (ll_resilience s)\<rparr>) of
          (r, l) \<Rightarrow> (map_sum id (\<lambda>_. ()) r, s\<lparr>ll_limiter := l, ll_resilience := (ll_resilience s)\<lparr>rs_world := lm_world l\<rparr>\<rparr>)))"

text \<open>\<open>tools=None\<close> and an empty list are treated alike.\<close>

definition complete :: "'r llm_env \<Rightarrow> dict list \<Rightarrow> dict list \<Rightarrow> rat \<Rightarrow> 'r llm_state \<Rightarrow> (exc + llm_response) \<times> 'r llm_state" where
  "complete env messages tools temperature s =
     (let cfg = lc_settings env in
      if \<not> configured cfg then (Inl (RuntimeError ''LLM is not configured''), s)
      else case limit_completion env s of
        (Inl e, s1) \<Rightarrow> (Inl e, s1)
      | (Inr _, s1) \<Rightarrow>
          (case call (lc_events env) True (lc_now env) (lc_fail_now env) (lc_unif env) llm_policy
                  (lc_post env (rstrip_slash (lt_base_url cfg) @ ''/chat/completions'') (request_headers cfg)
                    (request_body cfg messages tools temperature)) (ll_resilience s1) of
             (Inl e, r) \<Rightarrow> (Inl e, s1\<lparr>ll_resilience := r\<rparr>)
           | (Inr raw, r) \<Rightarrow> (parse_response raw, s1\<lparr>ll_resilience := r\<rparr>)))"

section \<open>What a completion does\<close>

lemma parsed_names: "parse_tool_calls v = Inr cs \<Longrightarrow> c \<in> set cs \<Longrightarrow> tc_name c \<noteq> []"
proof -
  have one: "tc_name c \<noteq> []" if "parse_tool_call x = Inr (Some c)" for x
    using that by (auto simp: parse_tool_call_def res_bind_def Let_def split: sum.splits if_splits)
  have all: "\<forall>r \<in> set rs. \<exists>x. parse_tool_call x = Inr r" if "op_traverse parse_tool_call xs = Inr rs" for xs rs
    using that by (induction xs arbitrary: rs) (auto simp: map_sum_def split: sum.splits)
  have filt: "y \<in> set (List.map_filter id rs) \<longleftrightarrow> Some y \<in> set rs" for y and rs :: "llm_tool_call option list"
    by (induction rs) (auto simp: List.map_filter_simps split: option.split)
  assume "parse_tool_calls v = Inr cs" "c \<in> set cs"
  then obtain xs rs where "op_traverse parse_tool_call xs = Inr rs" "Some c \<in> set rs"
    by (auto simp: parse_tool_calls_def res_bind_def map_sum_def filt split: sum.splits)
  then show ?thesis using all one by metis
qed

text \<open>A completion that returns was requested at most three times: it is the parsed answer of the last request, every
  request before it failed in a retryable way, and each of its tool calls has a name.\<close>

theorem completion_returned:
  assumes "complete env messages tools temperature s = (Inr r, s')"
  shows "configured (lc_settings env)
    \<and> (\<exists>k raw. 1 \<le> k \<and> k \<le> 3 \<and> parse_response raw = Inr r
        \<and> lc_post env (rstrip_slash (lt_base_url (lc_settings env)) @ ''/chat/completions'') (request_headers (lc_settings env))
            (request_body (lc_settings env) messages tools temperature) k = Inr raw
        \<and> (\<forall>i. 1 \<le> i \<and> i < k \<longrightarrow> (\<exists>e. lc_post env (rstrip_slash (lt_base_url (lc_settings env)) @ ''/chat/completions'')
              (request_headers (lc_settings env)) (request_body (lc_settings env) messages tools temperature) i = Inl e
              \<and> should_retry e llm_policy)))
    \<and> (\<forall>c \<in> set (lr_tool_calls r). tc_name c \<noteq> [])"
proof -
  let ?fn = "lc_post env (rstrip_slash (lt_base_url (lc_settings env)) @ ''/chat/completions'') (request_headers (lc_settings env))
            (request_body (lc_settings env) messages tools temperature)"
  obtain s1 raw s2 where c: "configured (lc_settings env)" "parse_response raw = Inr r"
    "call (lc_events env) True (lc_now env) (lc_fail_now env) (lc_unif env) llm_policy ?fn s1 = (Inr raw, s2)"
    using assms by (auto simp: complete_def Let_def split: if_splits prod.splits sum.splits)
  obtain k where k: "?fn k = Inr raw" "final_attempt llm_policy ?fn 1 k" using call_returned [OF c(3)] by blast
  have "rp_max_attempts llm_policy = 3" by (simp add: llm_policy_def default_policy_def)
  then have "1 \<le> k" "k \<le> 3" "\<forall>i. 1 \<le> i \<and> i < k \<longrightarrow> (\<exists>e. ?fn i = Inl e \<and> should_retry e llm_policy)"
    using k(2) by (auto simp: final_attempt_def)
  moreover have "tc_name x \<noteq> []" if "x \<in> set (lr_tool_calls r)" for x
    using c(2) that parsed_names
    by (auto simp: parse_response_def res_bind_def split: sum.splits json.splits)
  ultimately show ?thesis using c(1,2) k(1) by blast
qed

text \<open>A completion the rate limiter refuses sends no request: its outcome does not depend on the HTTP client.\<close>

theorem limited_completion_sends_nothing:
  assumes "configured (lc_settings env)" and "limit_completion env s = (Inl e, s1)"
  shows "complete (env\<lparr>lc_post := post\<rparr>) messages tools temperature s = (Inl e, s1)"
proof -
  have "limit_completion (env\<lparr>lc_post := post\<rparr>) s = limit_completion env s"
    by (cases "lc_limiter env") (simp_all add: limit_completion_def case_prod_beta)
  then show ?thesis using assms by (simp add: complete_def Let_def)
qed

definition sample_llm_env :: "unit llm_env" where
  "sample_llm_env = \<lparr>lc_settings = \<lparr>lt_provider = ''openai'', lt_model = Some ''m'', lt_base_url = ''http://x/'', lt_api_key = Some ''k'',
       lt_context_window_tokens = 100, lt_rate_limit_per_minute = 60\<rparr>, lc_limiter = None, lc_events = False, lc_time = 0, lc_time2 = 0,
     lc_now = 1, lc_fail_now = 2, lc_unif = (\<lambda>_ lo _. lo), lc_post = (\<lambda>_ _ _ k. if k = 1 then Inl (TransportError ''down'')
       else Inr (JObj [(''choices'', JList [JObj [(''message'', JObj [(''content'', JStr ''hi''), (''tool_calls'', JList
          [JObj [(''id'', JStr ''c1''), (''function'', JObj [(''name'', JStr ''wiki_read''), (''arguments'', JStr ''{}'')])]])])]])]))\<rparr>"

definition fresh_llm_state :: "unit llm_state" where
  "fresh_llm_state = \<lparr>ll_resilience = \<lparr>rs_states = [], rs_external = [], rs_world = empty_world\<rparr>,
     ll_limiter = \<lparr>lm_memory = [], lm_hits = [], lm_blocked = [], lm_redis = (), lm_world = empty_world\<rparr>\<rparr>"

theorem completion_returned_witness:
  "map tc_name (lr_tool_calls (projr (fst (complete sample_llm_env [] [] (1 / 5) fresh_llm_state)))) = [''wiki_read'']
    \<and> configured (lc_settings sample_llm_env)"
proof
  let ?r = "complete sample_llm_env [] [] (1 / 5) fresh_llm_state"
  show "map tc_name (lr_tool_calls (projr (fst ?r))) = [''wiki_read'']" by code_simp
  have "\<not> isl (fst ?r)" by code_simp
  then obtain r where "?r = (Inr r, snd ?r)" by (metis prod.collapse sum.collapse(2))
  from completion_returned [OF this] show "configured (lc_settings sample_llm_env)" by blast
qed

theorem limited_completion_sends_nothing_witness:
  "fst (complete (sample_llm_env\<lparr>lc_limiter := Some (sample_settings, None), lc_post := \<lambda>_ _ _ _. Inr JNull\<rparr>) [] [] (1 / 5)
     (fresh_llm_state\<lparr>ll_limiter := (ll_limiter fresh_llm_state)\<lparr>lm_memory := [(''soulclaw:rl:llm:m'', 60, 60)]\<rparr>\<rparr>))
   = Inl (RateLimitExceeded ''soulclaw:rl:llm:m'' ''llm'' 60 60)"
proof -
  let ?env = "sample_llm_env\<lparr>lc_limiter := Some (sample_settings, None)\<rparr>"
  let ?s = "fresh_llm_state\<lparr>ll_limiter := (ll_limiter fresh_llm_state)\<lparr>lm_memory := [(''soulclaw:rl:llm:m'', 60, 60)]\<rparr>\<rparr>"
  have c: "configured (lc_settings ?env)" by code_simp
  have "fst (limit_completion ?env ?s) = Inl (RateLimitExceeded ''soulclaw:rl:llm:m'' ''llm'' 60 60)" by code_simp
  then have "limit_completion ?env ?s = (Inl (RateLimitExceeded ''soulclaw:rl:llm:m'' ''llm'' 60 60), snd (limit_completion ?env ?s))"
    by (metis prod.collapse)
  from limited_completion_sends_nothing [OF c this, of "\<lambda>_ _ _ _. Inr JNull" "[]" "[]" "1 / 5"] show ?thesis by simp
qed

end
