(* ===== verification/Cron.thy ===== *)
theory Cron
  imports Jobs Clock
begin

text \<open>
  The cron scheduler: \<open>backend/runtime/cron.py\<close> and \<open>backend/domain/cron_schedule.py\<close>.

  The time-zone database (\<open>ZoneInfo\<close>) and \<open>croniter\<close> are parameters: \<open>zone tz\<close> says whether the zone
  exists and \<open>croniter expr tz base\<close> gives the next run after \<open>base\<close>, or the exception the library
  raises. An instant is the number of seconds since the epoch in UTC. The polling loop around \<open>tick\<close>
  (an asyncio task that logs the exceptions of \<open>tick\<close>) is not modelled.
\<close>

section \<open>Schedules\<close>

definition compute_next_run ::
  "(string \<Rightarrow> exc + unit) \<Rightarrow> (string \<Rightarrow> string \<Rightarrow> instant \<Rightarrow> exc + instant) \<Rightarrow> string \<Rightarrow> string \<Rightarrow> instant \<Rightarrow>
   exc + instant" where
  "compute_next_run zone croniter cron_expr timezone base =
     (case zone timezone of Inl e \<Rightarrow> Inl e | Inr _ \<Rightarrow> croniter cron_expr timezone base)"

definition cron_backoff_seconds :: "int \<Rightarrow> int" where
  "cron_backoff_seconds failure_count = min 900 (2 ^ nat (min (max 1 failure_count) 10))"

definition cron_enqueue_key :: "(string \<Rightarrow> string) \<Rightarrow> cron_job \<Rightarrow> instant \<Rightarrow> string" where
  "cron_enqueue_key sha job now =
     (let payload = [(''cron_job_id'', JStr (cj_id job)), (''name'', JStr (cj_name job)),
            (''window'', JStr (isoformat (minute_start now))), (''metadata'', JObj (cj_metadata job))]
      in ''cron:'' @ cj_name job @ '':'' @ sha (json_dumps_sorted (JObj payload)))"

definition is_dream_review_job :: "cron_job \<Rightarrow> bool" where
  "is_dream_review_job job = (dget ''system_task'' (cj_metadata job) = JStr ''dream_review'')"

definition is_heartbeat_job :: "cron_job \<Rightarrow> bool" where
  "is_heartbeat_job job = (dget ''system_task'' (cj_metadata job) = JStr ''heartbeat'')"

section \<open>Running one cron job\<close>

text \<open>Fresh identifiers for the background job, the outbox message and the queue entry of a row.\<close>

record fresh_ids =
  fi_job :: "uuid \<Rightarrow> uuid"
  fi_outbox :: "uuid \<Rightarrow> uuid"
  fi_queue :: "uuid \<Rightarrow> uuid"

text \<open>The task name and payload of a cron job; \<open>int(...)\<close> of the metadata may raise.\<close>

definition cron_request :: "cron_job \<Rightarrow> exc + (string \<times> dict)" where
  "cron_request job =
     (let md = cj_metadata job in
      if is_dream_review_job job
      then (case dint_or ''window_hours'' 24 md of
              Inl e \<Rightarrow> Inl e
            | Inr h \<Rightarrow> (case dint_or ''limit'' 50 md of
                Inl e \<Rightarrow> Inl e
              | Inr l \<Rightarrow> Inr (''dream_review'', [(''window_hours'', JInt h), (''limit'', JInt l)])))
      else if is_heartbeat_job job then Inr (''heartbeat_check'', [])
      else Inr (dstr_or ''task_name'' ''dream_review'' md, dict_or_empty (dget ''payload'' md)))"

text \<open>The \<open>try\<close> block: enqueue and build the result.\<close>

definition cron_enqueue ::
  "(string \<Rightarrow> string) \<Rightarrow> bool \<Rightarrow> fresh_ids \<Rightarrow> cron_job \<Rightarrow> instant \<Rightarrow> world \<Rightarrow> (exc + dict) \<times> world" where
  "cron_enqueue sha ev ids job now w =
     (case cron_request job of
        Inl e \<Rightarrow> (Inl e, w)
      | Inr (task_name, payload) \<Rightarrow>
          (case enqueue_background_job sha ev (fi_job ids (cj_id job)) (fi_outbox ids (cj_id job))
                  (fi_queue ids (cj_id job)) now task_name payload (''cron:'' @ cj_name job) (Some (cj_id job))
                  (cron_enqueue_key sha job now) 3 w of
             (Inl e, w1) \<Rightarrow> (Inl e, w1)
           | (Inr i, w1) \<Rightarrow>
               (Inr [(''mode'', JStr ''enqueue''),
                     (''task_name'', JStr (if is_dream_review_job job \<or> is_heartbeat_job job then task_name
                        else case get_job w1 i of None \<Rightarrow> task_name | Some b \<Rightarrow> job_task_name b)),
                     (''job_id'', JStr i)], w1)))"

definition upd_cron :: "uuid \<Rightarrow> (cron_job \<Rightarrow> cron_job) \<Rightarrow> world \<Rightarrow> world" where
  "upd_cron i f w = cron_jobs_update (upd_row cj_id i f) w"

definition cron_emit :: "cron_job \<Rightarrow> string \<Rightarrow> dict \<Rightarrow> string \<Rightarrow> world \<Rightarrow> world" where
  "cron_emit job event extra severity w =
     emit_full True event ([(''job_id'', JStr (cj_id job)), (''name'', JStr (cj_name job))] @ extra)
       severity (''cron:'' @ cj_name job) '''' w"

text \<open>\<open>_run_job\<close>: an exception of the enqueue is recorded in the row; an exception of
  \<open>compute_next_run\<close> in the \<open>finally\<close> clause leaves the function.\<close>

definition cron_run_job ::
  "(string \<Rightarrow> string) \<Rightarrow> (string \<Rightarrow> exc + unit) \<Rightarrow> (string \<Rightarrow> string \<Rightarrow> instant \<Rightarrow> exc + instant) \<Rightarrow> bool \<Rightarrow>
   fresh_ids \<Rightarrow> instant \<Rightarrow> cron_job \<Rightarrow> world \<Rightarrow> (exc + unit) \<times> world" where
  "cron_run_job sha zone croniter ev ids now job w =
     (let i = cj_id job;
          w0 = cron_emit job ''cron.job.started'' [] ''info'' w;
          w2 = (case cron_enqueue sha ev ids job now w0 of
                  (Inl e, w1) \<Rightarrow>
                    cron_emit job ''cron.job.failed'' [(''error'', JStr (exc_str e))] ''warning''
                      (upd_cron i (\<lambda>c. c\<lparr>cj_last_status := ''failed'',
                         cj_failure_count := cj_failure_count c + 1,
                         cj_last_result := [(''error'', JStr (exc_str e))],
                         cj_backoff_until := Some (now + of_int (cron_backoff_seconds (cj_failure_count c + 1)))\<rparr>) w1)
                | (Inr result, w1) \<Rightarrow>
                    cron_emit job ''cron.job.succeeded'' [(''mode'', JStr (dstr ''mode'' result))] ''info''
                      (upd_cron i (\<lambda>c. c\<lparr>cj_last_status := ''succeeded'', cj_last_result := result,
                         cj_backoff_until := None, cj_last_enqueue_key := cron_enqueue_key sha job now\<rparr>) w1));
          w3 = upd_cron i (\<lambda>c. c\<lparr>cj_last_run_at := Some now, cj_run_count := cj_run_count c + 1\<rparr>) w2
      in case compute_next_run zone croniter (cj_cron_expr job) (cj_timezone job) now of
           Inl e \<Rightarrow> (Inl e, w3)
         | Inr t \<Rightarrow> (Inr (), upd_cron i (\<lambda>c. c\<lparr>cj_next_run_at := Some t\<rparr>) w3))"

section \<open>A tick\<close>

fun reschedule_loop :: "bool \<Rightarrow> fresh_ids \<Rightarrow> instant \<Rightarrow> bg_job list \<Rightarrow> world \<Rightarrow> (exc + unit) \<times> world" where
  "reschedule_loop ev ids now [] w = (Inr (), w)"
| "reschedule_loop ev ids now (j # js) w =
     (case reschedule_job ev (fi_queue ids (job_id j)) (fi_outbox ids (job_id j)) now (job_id j)
             (''retry:'' @ int_str (job_attempt_count j)) w of
        (Inl e, w1) \<Rightarrow> (Inl e, w1)
      | (Inr _, w1) \<Rightarrow> reschedule_loop ev ids now js w1)"

definition dispatch_retryable_jobs :: "bool \<Rightarrow> fresh_ids \<Rightarrow> instant \<Rightarrow> world \<Rightarrow> (exc + int) \<times> world" where
  "dispatch_retryable_jobs ev ids now w =
     (let ready = ready_for_retry now 100 w
      in case reschedule_loop ev ids now ready w of
           (Inl e, w1) \<Rightarrow> (Inl e, w1)
         | (Inr _, w1) \<Rightarrow> (Inr (int (length ready)), w1))"

definition due_cron_jobs :: "instant \<Rightarrow> int \<Rightarrow> world \<Rightarrow> cron_job list" where
  "due_cron_jobs now limit w =
     take (nat limit)
       (sort_key (\<lambda>c. (cj_next_run_at c, cj_name c))
         (filter (\<lambda>c. cj_enabled c \<and> due (cj_next_run_at c) now \<and> due (cj_backoff_until c) now)
           (cron_jobs w)))"

fun cron_loop ::
  "(string \<Rightarrow> string) \<Rightarrow> (string \<Rightarrow> exc + unit) \<Rightarrow> (string \<Rightarrow> string \<Rightarrow> instant \<Rightarrow> exc + instant) \<Rightarrow> bool \<Rightarrow>
   fresh_ids \<Rightarrow> instant \<Rightarrow> cron_job list \<Rightarrow> world \<Rightarrow> (exc + unit) \<times> world" where
  "cron_loop sha zone croniter ev ids now [] w = (Inr (), w)"
| "cron_loop sha zone croniter ev ids now (c # cs) w =
     (case cron_run_job sha zone croniter ev ids now c w of
        (Inl e, w1) \<Rightarrow> (Inl e, w1)
      | (Inr _, w1) \<Rightarrow> cron_loop sha zone croniter ev ids now cs w1)"

text \<open>The transaction of a tick, and the tick with the dispatch that follows its commit. The two runs of the
  outbox read the clock themselves (\<open>wall\<close>, \<open>wall'\<close>).\<close>

definition tick_transaction ::
  "(string \<Rightarrow> string) \<Rightarrow> (string \<Rightarrow> exc + unit) \<Rightarrow> (string \<Rightarrow> string \<Rightarrow> instant \<Rightarrow> exc + instant) \<Rightarrow> broker \<Rightarrow> bool \<Rightarrow>
   fresh_ids \<Rightarrow> instant \<Rightarrow> (uuid \<Rightarrow> instant) \<Rightarrow> instant \<Rightarrow> int \<Rightarrow> world \<Rightarrow> (exc + int) \<times> world" where
  "tick_transaction sha zone croniter broker ev ids wall clk now limit = session_scope True (\<lambda>w.
     let w1 = snd (dispatch_outbox broker ev wall clk 100 w)
     in case dispatch_retryable_jobs ev ids now w1 of
          (Inl e, w2) \<Rightarrow> (Inl e, w2)
        | (Inr _, w2) \<Rightarrow>
            (let jobs = due_cron_jobs now limit w2
             in case cron_loop sha zone croniter ev ids now jobs w2 of
                  (Inl e, w3) \<Rightarrow> (Inl e, w3)
                | (Inr _, w3) \<Rightarrow> (Inr (int (length jobs)), w3)))"

definition tick ::
  "(string \<Rightarrow> string) \<Rightarrow> (string \<Rightarrow> exc + unit) \<Rightarrow> (string \<Rightarrow> string \<Rightarrow> instant \<Rightarrow> exc + instant) \<Rightarrow> broker \<Rightarrow> bool \<Rightarrow>
   fresh_ids \<Rightarrow> instant \<Rightarrow> instant \<Rightarrow> (uuid \<Rightarrow> instant) \<Rightarrow> instant \<Rightarrow> int \<Rightarrow> world \<Rightarrow> (exc + int) \<times> world" where
  "tick sha zone croniter broker ev ids wall wall' clk now limit w =
     (case tick_transaction sha zone croniter broker ev ids wall clk now limit w of
        (Inl e, w1) \<Rightarrow> (Inl e, w1)
      | (Inr n, w1) \<Rightarrow> (Inr n, after_commit broker wall' clk w1))"

fun schedule_missing_loop ::
  "(string \<Rightarrow> exc + unit) \<Rightarrow> (string \<Rightarrow> string \<Rightarrow> instant \<Rightarrow> exc + instant) \<Rightarrow> instant \<Rightarrow> cron_job list \<Rightarrow> world \<Rightarrow>
   (exc + unit) \<times> world" where
  "schedule_missing_loop zone croniter now [] w = (Inr (), w)"
| "schedule_missing_loop zone croniter now (c # cs) w =
     (case compute_next_run zone croniter (cj_cron_expr c) (cj_timezone c) now of
        Inl e \<Rightarrow> (Inl e, w)
      | Inr t \<Rightarrow> schedule_missing_loop zone croniter now cs
                  (upd_cron (cj_id c) (\<lambda>c. c\<lparr>cj_next_run_at := Some t\<rparr>) w))"

definition schedule_missing ::
  "(string \<Rightarrow> exc + unit) \<Rightarrow> (string \<Rightarrow> string \<Rightarrow> instant \<Rightarrow> exc + instant) \<Rightarrow> instant \<Rightarrow> world \<Rightarrow>
   (exc + int) \<times> world" where
  "schedule_missing zone croniter now = session_scope True (\<lambda>w.
     let jobs = filter (\<lambda>c. cj_enabled c \<and> cj_next_run_at c = None) (cron_jobs w)
     in case schedule_missing_loop zone croniter now jobs w of
          (Inl e, w1) \<Rightarrow> (Inl e, w1)
        | (Inr _, w1) \<Rightarrow> (Inr (int (length jobs)), w1))"

section \<open>Facts\<close>

definition get_cron :: "world \<Rightarrow> uuid \<Rightarrow> cron_job option" where
  "get_cron w i = get_row cj_id i (cron_jobs w)"

lemma get_cron_upd:
  "(\<And>c. cj_id (f c) = cj_id c) \<Longrightarrow>
     get_cron (upd_cron i f w) i' = (if i' = i then map_option f (get_cron w i) else get_cron w i')"
  unfolding get_cron_def upd_cron_def by (rule cron_tab.look_modify)

lemma get_cron_cong: "cron_jobs w = cron_jobs w' \<Longrightarrow> get_cron w i = get_cron w' i"
  by (simp add: get_cron_def)

lemma cron_emit_frame [simp]: "cron_jobs (cron_emit c e x s w) = cron_jobs w"
  by (simp add: cron_emit_def)

lemma get_cron_emit [simp]: "get_cron (cron_emit c e x s w) i = get_cron w i"
  by (simp add: get_cron_def)

lemma enqueue_cron_frame:
  assumes "enqueue_background_job sha ev i oid q now t p tb c k n w = (r, w')"
  shows "cron_jobs w' = cron_jobs w"
  using assms
proof (cases rule: enqueue_cases)
  case (existing st e)
  then show ?thesis
    using idempotency_status_frame(3) [of sha "''background_job''" "effective_key sha t p tb c k"
        "request_dict t p tb c" w] by simp
next
  case (created st w1 w2 r')
  then show ?thesis
    using idempotency_status_frame(3) [of sha "''background_job''" "effective_key sha t p tb c k"
        "request_dict t p tb c" w] create_job_new(5) [OF created(3), of ev i now t p tb c n]
      schedule_dispatch_frame(2) [OF created(5)] by simp
qed simp

lemma cron_enqueue_frame:
  "cron_enqueue sha ev ids c now w = (r, w') \<Longrightarrow> cron_jobs w' = cron_jobs w"
  by (auto simp: cron_enqueue_def dest: enqueue_cron_frame split: sum.splits prod.splits)

lemma cron_backoff_bounds: "2 \<le> cron_backoff_seconds n \<and> cron_backoff_seconds n \<le> 900"
proof -
  have "(2::int) ^ 1 \<le> 2 ^ nat (min (max 1 n) 10)" by (intro power_increasing) auto
  then show ?thesis by (auto simp: cron_backoff_seconds_def)
qed

text \<open>The row after a run, from the outcome of the enqueue.\<close>

definition cron_after :: "(string \<Rightarrow> string) \<Rightarrow> instant \<Rightarrow> exc + dict \<Rightarrow> instant \<Rightarrow> cron_job \<Rightarrow> cron_job" where
  "cron_after sha now r t c =
     (case r of
        Inl e \<Rightarrow> c\<lparr>cj_last_status := ''failed'', cj_failure_count := cj_failure_count c + 1,
           cj_last_result := [(''error'', JStr (exc_str e))],
           cj_backoff_until := Some (now + of_int (cron_backoff_seconds (cj_failure_count c + 1)))\<rparr>
      | Inr res \<Rightarrow> c\<lparr>cj_last_status := ''succeeded'', cj_last_result := res, cj_backoff_until := None,
           cj_last_enqueue_key := cron_enqueue_key sha c now\<rparr>)
     \<lparr>cj_last_run_at := Some now, cj_run_count := cj_run_count c + 1, cj_next_run_at := Some t\<rparr>"

lemma cron_run_job_row:
  assumes g: "get_cron w (cj_id c) = Some c"
    and t: "compute_next_run zone croniter (cj_cron_expr c) (cj_timezone c) now = Inr t"
  shows "\<exists>w'. cron_run_job sha zone croniter ev ids now c w = (Inr (), w')
    \<and> (\<forall>i. get_cron w' i = (if i = cj_id c
         then Some (cron_after sha now
           (fst (cron_enqueue sha ev ids c now (cron_emit c ''cron.job.started'' [] ''info'' w))) t c)
         else get_cron w i))"
proof -
  define w0 where "w0 = cron_emit c ''cron.job.started'' [] ''info'' w"
  obtain r w1 where e: "cron_enqueue sha ev ids c now w0 = (r, w1)" by fastforce
  have g1: "get_cron w1 i = get_cron w i" for i
    using get_cron_cong [OF cron_enqueue_frame [OF e]] by (simp add: w0_def)
  show ?thesis
    using t e g g1
    by (cases r) (auto simp: cron_run_job_def w0_def [symmetric] Let_def get_cron_upd cron_after_def)
qed

lemma cron_run_job_other:
  assumes "cron_run_job sha zone croniter ev ids now c w = (r, w')" and "i \<noteq> cj_id c"
  shows "get_cron w' i = get_cron w i"
proof -
  define w0 where "w0 = cron_emit c ''cron.job.started'' [] ''info'' w"
  obtain r1 w1 where e: "cron_enqueue sha ev ids c now w0 = (r1, w1)" by fastforce
  have "get_cron w1 i = get_cron w i"
    using get_cron_cong [OF cron_enqueue_frame [OF e]] by (simp add: w0_def)
  then show ?thesis
    using assms e by (cases r1)
      (auto simp: cron_run_job_def w0_def [symmetric] Let_def get_cron_upd split: sum.splits)
qed

lemma cron_loop_other:
  "cron_loop sha zone croniter ev ids now cs w = (r, w') \<Longrightarrow> i \<notin> cj_id ` set cs \<Longrightarrow>
     get_cron w' i = get_cron w i"
proof (induction cs arbitrary: w)
  case (Cons c cs)
  obtain r1 w1 where d: "cron_run_job sha zone croniter ev ids now c w = (r1, w1)" by fastforce
  with Cons show ?case using cron_run_job_other [OF d, of i] by (cases r1) auto
qed simp

text \<open>Every job of the batch is run once, and its row is the row after its run.\<close>

lemma cron_loop_rows:
  assumes "cron_loop sha zone croniter ev ids now cs w = (Inr (), w')"
    and "distinct (map cj_id cs)" and "\<forall>c \<in> set cs. get_cron w (cj_id c) = Some c" and "c \<in> set cs"
  shows "\<exists>r t. compute_next_run zone croniter (cj_cron_expr c) (cj_timezone c) now = Inr t
    \<and> get_cron w' (cj_id c) = Some (cron_after sha now r t c)"
  using assms
proof (induction cs arbitrary: w)
  case (Cons c0 cs)
  obtain t where t: "compute_next_run zone croniter (cj_cron_expr c0) (cj_timezone c0) now = Inr t"
    using Cons(2) by (auto simp: cron_run_job_def Let_def split: sum.splits)
  obtain w1 r where d: "cron_run_job sha zone croniter ev ids now c0 w = (Inr (), w1)"
    and g: "\<And>i. get_cron w1 i = (if i = cj_id c0 then Some (cron_after sha now r t c0) else get_cron w i)"
    using cron_run_job_row [OF _ t] Cons(4) by (metis list.set_intros(1))
  have l: "cron_loop sha zone croniter ev ids now cs w1 = (Inr (), w')" using Cons(2) d by simp
  show ?case
  proof (cases "c = c0")
    case True
    then have "get_cron w' (cj_id c) = Some (cron_after sha now r t c0)"
      using cron_loop_other [OF l, of "cj_id c0"] Cons(3) g by auto
    then show ?thesis using t True by blast
  next
    case False
    have "get_cron w1 (cj_id x) = Some x" if "x \<in> set cs" for x
    proof -
      have "cj_id x \<noteq> cj_id c0" using Cons(3) that by (metis distinct.simps(2) image_eqI list.simps(9) list.set_map)
      then show ?thesis using Cons(4) that by (simp add: g)
    qed
    then show ?thesis using Cons(1) [OF l] Cons(3,5) False by auto
  qed
qed simp

lemma reschedule_loop_frame:
  "reschedule_loop ev ids now js w = (r, w') \<Longrightarrow> cron_jobs w' = cron_jobs w"
proof (induction js arbitrary: w)
  case (Cons j js)
  obtain r1 w1 where d: "reschedule_job ev (fi_queue ids (job_id j)) (fi_outbox ids (job_id j)) now (job_id j)
      (''retry:'' @ int_str (job_attempt_count j)) w = (r1, w1)" by fastforce
  have "cron_jobs w1 = cron_jobs w"
    using d by (auto simp: reschedule_job_def dest: schedule_dispatch_frame(2) split: option.splits if_splits)
  with Cons d show ?case by (cases r1) auto
qed simp

lemma dispatch_retryable_frame:
  "dispatch_retryable_jobs ev ids now w = (r, w') \<Longrightarrow> cron_jobs w' = cron_jobs w"
  by (auto simp: dispatch_retryable_jobs_def Let_def dest: reschedule_loop_frame split: prod.splits sum.splits)

lemma due_cron_jobs_cong: "cron_jobs w = cron_jobs w' \<Longrightarrow> due_cron_jobs now l w = due_cron_jobs now l w'"
  by (simp add: due_cron_jobs_def)

lemma due_cron_jobs_mem:
  assumes "c \<in> set (due_cron_jobs now l w)"
  shows "c \<in> set (cron_jobs w)" and "cj_enabled c"
    and "due (cj_next_run_at c) now" and "due (cj_backoff_until c) now"
  using assms by (auto simp: due_cron_jobs_def dest: in_set_takeD)

lemma due_cron_jobs_distinct:
  assumes "distinct (map cj_id (cron_jobs w))"
  shows "distinct (map cj_id (due_cron_jobs now l w))"
  using distinct_map_filter [OF assms]
  unfolding due_cron_jobs_def take_map [symmetric] by (intro distinct_take) (simp add: distinct_map)

text \<open>A committed tick is a run of the loop on the cron table it started from.\<close>

lemma tick_transaction_loop:
  assumes b: "\<And>t j p q v. cron_jobs (snd (broker t j p q v)) = cron_jobs v"
    and t: "tick_transaction sha zone croniter broker ev ids wall clk now limit w = (Inr n, w')"
  shows "n = int (length (due_cron_jobs now limit w))"
    and "\<exists>w2. cron_jobs w2 = cron_jobs w \<and>
      cron_loop sha zone croniter ev ids now (due_cron_jobs now limit w) w2 = (Inr (), w')"
proof -
  define w1 where "w1 = snd (dispatch_outbox broker ev wall clk 100 w)"
  have c1: "cron_jobs w1 = cron_jobs w"
    unfolding w1_def by (rule cron_frame.dispatch_outbox_keeps) (simp_all add: b)
  obtain r w2 where d: "dispatch_retryable_jobs ev ids now w1 = (r, w2)" by fastforce
  have c2: "cron_jobs w2 = cron_jobs w" using dispatch_retryable_frame [OF d] c1 by simp
  obtain k where r: "r = Inr k"
    using t d by (cases r) (auto simp: tick_transaction_def session_scope_def w1_def [symmetric])
  obtain r3 w3 where l: "cron_loop sha zone croniter ev ids now (due_cron_jobs now limit w) w2 = (r3, w3)"
    by fastforce
  have "r3 = Inr () \<and> w3 = w' \<and> n = int (length (due_cron_jobs now limit w))"
    using t d r l due_cron_jobs_cong [OF c2, of now limit]
    by (cases r3) (auto simp: tick_transaction_def session_scope_def w1_def [symmetric] Let_def)
  then show "n = int (length (due_cron_jobs now limit w))"
    and "\<exists>w2. cron_jobs w2 = cron_jobs w \<and>
      cron_loop sha zone croniter ev ids now (due_cron_jobs now limit w) w2 = (Inr (), w')"
    using l c2 by auto
qed

section \<open>Properties\<close>


definition sample_cron :: cron_job where
  "sample_cron = \<lparr>cj_id = ''c1'', cj_name = ''nightly'', cj_cron_expr = ''* * * * *'', cj_timezone = ''UTC'',
     cj_instruction = '''', cj_enabled = True, cj_last_run_at = None, cj_next_run_at = Some 60,
     cj_backoff_until = None, cj_last_status = '''', cj_last_result = [], cj_run_count = 0,
     cj_failure_count = 0, cj_last_enqueue_key = '''',
     cj_metadata = [(''system_task'', JStr ''heartbeat'')]\<rparr>"

definition cron_world :: world where
  "cron_world = empty_world\<lparr>cron_jobs := [sample_cron]\<rparr>"

definition every_minute :: "string \<Rightarrow> string \<Rightarrow> instant \<Rightarrow> exc + instant" where
  "every_minute e z b = Inr (b + 60)"

definition accepting_broker :: broker where
  "accepting_broker t j p q w = (Inr (), w)"

definition sample_ids :: fresh_ids where
  "sample_ids = \<lparr>fi_job = (\<lambda>i. ''j-'' @ i), fi_outbox = (\<lambda>i. ''o-'' @ i), fi_queue = (\<lambda>i. ''q-'' @ i)\<rparr>"


text \<open>A cron job whose enqueue fails is not lost: the run is counted as a failure, the error is
  kept, the job backs off for 2 to 900 seconds, and its schedule still moves on. A successful enqueue
  clears the backoff and leaves the failure counter.\<close>

theorem cron_run_outcome:
  assumes "get_cron w (cj_id c) = Some c"
    and "compute_next_run zone croniter (cj_cron_expr c) (cj_timezone c) now = Inr t"
  shows "\<exists>w' c' r. cron_run_job sha zone croniter ev ids now c w = (Inr (), w')
    \<and> r = fst (cron_enqueue sha ev ids c now (cron_emit c ''cron.job.started'' [] ''info'' w))
    \<and> get_cron w' (cj_id c) = Some c'
    \<and> cj_next_run_at c' = Some t \<and> cj_last_run_at c' = Some now \<and> cj_run_count c' = cj_run_count c + 1
    \<and> (\<forall>e. r = Inl e \<longrightarrow> cj_last_status c' = ''failed'' \<and> cj_failure_count c' = cj_failure_count c + 1
          \<and> cj_last_result c' = [(''error'', JStr (exc_str e))]
          \<and> (\<exists>d. 2 \<le> d \<and> d \<le> 900 \<and> cj_backoff_until c' = Some (now + d)))
    \<and> (\<forall>res. r = Inr res \<longrightarrow> cj_last_status c' = ''succeeded'' \<and> cj_failure_count c' = cj_failure_count c
          \<and> cj_last_result c' = res \<and> cj_backoff_until c' = None)"
proof -
  have d: "\<exists>d::rat. 2 \<le> d \<and> d \<le> 900 \<and> d = of_int (cron_backoff_seconds n)" for n
    using cron_backoff_bounds [of n] by (intro exI [of _ "of_int (cron_backoff_seconds n)"]) linarith
  obtain w' where w': "cron_run_job sha zone croniter ev ids now c w = (Inr (), w')"
    "get_cron w' (cj_id c) = Some (cron_after sha now
       (fst (cron_enqueue sha ev ids c now (cron_emit c ''cron.job.started'' [] ''info'' w))) t c)"
    using cron_run_job_row [OF assms, of sha ev ids] by auto
  show ?thesis
    by (rule exI [of _ w'], rule exI, rule exI, rule conjI [OF w'(1)], rule conjI [OF refl], rule conjI [OF w'(2)])
      (use d in \<open>auto simp: cron_after_def split: sum.splits\<close>)
qed

theorem cron_run_outcome_witness:
  "\<exists>w' c'. cron_run_job id (\<lambda>_. Inr ()) every_minute True sample_ids 61 sample_cron cron_world = (Inr (), w')
    \<and> get_cron w' (cj_id sample_cron) = Some c' \<and> cj_next_run_at c' = Some 121"
  using cron_run_outcome [of cron_world sample_cron "\<lambda>_. Inr ()" every_minute 61 121 id True sample_ids]
  by (auto simp: cron_world_def get_cron_def compute_next_run_def every_minute_def)

text \<open>One background job per cron job and minute: enqueueing the same cron job again at another
  instant of the same minute finds the job of the first time and changes nothing.\<close>

theorem cron_minute_window:
  assumes "cron_enqueue sha ev ids c now w = (Inr res, w')" and "minute_of now' = minute_of now"
  shows "\<exists>res'. cron_enqueue sha ev' ids' c now' w' = (Inr res', w') \<and> dget ''job_id'' res' = dget ''job_id'' res"
proof -
  have k: "cron_enqueue_key sha c now' = cron_enqueue_key sha c now"
    using assms(2) by (simp add: cron_enqueue_key_def minute_start_def)
  obtain tn p where rq: "cron_request c = Inr (tn, p)"
    using assms(1) by (auto simp: cron_enqueue_def split: sum.splits)
  obtain i where e: "enqueue_background_job sha ev (fi_job ids (cj_id c)) (fi_outbox ids (cj_id c))
      (fi_queue ids (cj_id c)) now tn p (''cron:'' @ cj_name c) (Some (cj_id c)) (cron_enqueue_key sha c now) 3 w
      = (Inr i, w')" and i: "dget ''job_id'' res = JStr i"
    using assms(1) rq by (auto simp: cron_enqueue_def dget_def split: prod.splits sum.splits)
  have "enqueue_background_job sha ev' (fi_job ids' (cj_id c)) (fi_outbox ids' (cj_id c))
      (fi_queue ids' (cj_id c)) now' tn p (''cron:'' @ cj_name c) (Some (cj_id c)) (cron_enqueue_key sha c now') 3 w'
      = (Inr i, w')"
    unfolding k by (rule enqueue_again [OF e])
  then show ?thesis using i rq by (simp add: cron_enqueue_def dget_def)
qed

theorem cron_minute_window_witness:
  "\<exists>res'. cron_enqueue id True sample_ids sample_cron 119
      (snd (cron_enqueue id True sample_ids sample_cron 61 cron_world))
    = (Inr res', snd (cron_enqueue id True sample_ids sample_cron 61 cron_world)) \<and> dget ''job_id'' res' = JStr ''j-c1''"
proof -
  let ?r = "[(''mode'', JStr ''enqueue''), (''task_name'', JStr ''heartbeat_check''), (''job_id'', JStr ''j-c1'')]"
  have "cron_enqueue id True sample_ids sample_cron 61 cron_world
      = (Inr ?r, snd (cron_enqueue id True sample_ids sample_cron 61 cron_world))" by code_simp
  moreover have "minute_of 119 = minute_of 61" by code_simp
  ultimately show ?thesis
    using cron_minute_window [of id True sample_ids sample_cron 61 cron_world ?r _ 119 True sample_ids]
    by (simp add: dget_def)
qed

lemma cron_loop_bad_schedule:
  "c \<in> set cs \<Longrightarrow> compute_next_run zone croniter (cj_cron_expr c) (cj_timezone c) now = Inl e \<Longrightarrow>
     \<exists>e' w'. cron_loop sha zone croniter ev ids now cs w = (Inl e', w')"
proof (induction cs arbitrary: w)
  case (Cons c0 cs)
  obtain r1 w1 where d: "cron_run_job sha zone croniter ev ids now c0 w = (r1, w1)" by fastforce
  show ?case
  proof (cases "c = c0")
    case True
    then show ?thesis using Cons(3) by (simp add: cron_run_job_def Let_def)
  next
    case False
    then show ?thesis using Cons d by (cases r1) auto
  qed
qed simp

text \<open>A tick is all or nothing. If the schedule of one due cron job of the batch cannot be computed
  (an expression \<open>croniter\<close> refuses, an unknown time zone), the whole tick raises and every row it had
  written is rolled back, the runs of the other jobs of the batch included.\<close>

theorem tick_bad_schedule_aborts:
  assumes "\<And>t j p q v. cron_jobs (snd (broker t j p q v)) = cron_jobs v"
    and "c \<in> set (due_cron_jobs now limit w)"
    and "compute_next_run zone croniter (cj_cron_expr c) (cj_timezone c) now = Inl e"
  shows "\<exists>e' v. tick sha zone croniter broker ev ids wall wall' clk now limit w = (Inl e', rollback True w v)"
proof -
  obtain r w' where t: "tick_transaction sha zone croniter broker ev ids wall clk now limit w = (r, w')"
    by fastforce
  show ?thesis
  proof (cases r)
    case (Inl e')
    then show ?thesis using t
      by (auto simp: tick_def tick_transaction_def session_scope_def split: prod.splits sum.splits)
  next
    case (Inr n)
    then obtain w2 where "cron_loop sha zone croniter ev ids now (due_cron_jobs now limit w) w2 = (Inr (), w')"
      using tick_transaction_loop(2) [of broker, OF assms(1)] t by blast
    then show ?thesis using cron_loop_bad_schedule [OF assms(2,3), of sha ev ids w2] by simp
  qed
qed

theorem tick_bad_schedule_aborts_witness:
  "\<exists>e' v. tick id (\<lambda>_. Inl (KeyError ''No time zone found'')) every_minute accepting_broker True sample_ids 61 62
     (\<lambda>_. 61) 61 10 cron_world = (Inl e', rollback True cron_world v)"
proof (rule tick_bad_schedule_aborts)
  show "sample_cron \<in> set (due_cron_jobs 61 10 cron_world)" by code_simp
qed (simp_all add: accepting_broker_def compute_next_run_def)

end
