(* ===== verification/Gateway.thy ===== *)
theory Gateway
  imports Resilience
begin

text \<open>
  The gateway runtime: \<open>backend/runtime/gateway.py\<close>.

  Parameters: \<open>hmac secret text\<close>, the hexadecimal HMAC-SHA256; \<open>run_turn text session w\<close>, the agent's turn
  in the same database session; \<open>post url payload key k\<close>, the status code of the \<open>k\<close>-th HTTP attempt or the
  exception it raised. \<open>handle_inbound\<close> works on the world; \<open>send\<close> works on the state of the resilience
  manager, whose world it is (circuits are kept in memory and survive a rollback). The event bus is not
  bound to the session here, so events survive a rollback too.
\<close>

section \<open>Data\<close>

record inbound_message =
  in_gateway_name :: string
  in_external_user_id :: string
  in_text :: string
  in_channel_id :: string
  in_metadata :: dict

record outbound_message =
  om_gateway_name :: string
  om_target_id :: string
  om_text :: string
  om_metadata :: dict

record turn_result =
  tu_turn_id :: string
  tu_answer :: string
  tu_context :: dict
  tu_status :: string
  tu_approval_id :: string
  tu_pending_tool_call :: "dict option"
  tu_resume_available :: bool

record gateway_config =
  gc_max_skew :: int
  gc_nonce_cache_size :: int

definition default_gateway_config :: gateway_config where
  "default_gateway_config = \<lparr>gc_max_skew = 300, gc_nonce_cache_size = 200\<rparr>"

definition http_policy :: resilience_policy where
  "http_policy = (default_policy ''gateway.outbound_http'')\<lparr>rp_max_attempts := 3, rp_base_delay := 3 / 10,
     rp_max_delay := 5, rp_failure_threshold := 5, rp_recovery := 45\<rparr>"

definition get_gateway :: "world \<Rightarrow> string \<Rightarrow> gateway_connection option" where
  "get_gateway w name = get_row gw_name name (gateway_connections w)"

definition upd_gateway :: "string \<Rightarrow> (gateway_connection \<Rightarrow> gateway_connection) \<Rightarrow> world \<Rightarrow> world" where
  "upd_gateway name f w = gateway_connections_update (upd_row gw_name name f) w"

definition require_gateway :: "string \<Rightarrow> world \<Rightarrow> exc + gateway_connection" where
  "require_gateway name w = (case get_gateway w name of
     None \<Rightarrow> Inl (KeyError (''gateway not found: '' @ name))
   | Some g \<Rightarrow> if gw_enabled g then Inr g else Inl (RuntimeError (''gateway disabled: '' @ name)))"

section \<open>Signatures\<close>

definition nonce_items :: "json \<Rightarrow> string list" where
  "nonce_items cache = [n. JObj d \<leftarrow> list_or_empty cache, JStr n \<leftarrow> [dget ''nonce'' d]]"

text \<open>\<open>_verify_replay_window\<close>. A comparison with a timestamp that is not a number is false, so \<open>nan\<close> passes the
  window check.\<close>

definition outside_window :: "rat \<Rightarrow> int \<Rightarrow> pyfloat \<Rightarrow> bool" where
  "outside_window now skew ts = (case ts of
     Fin r \<Rightarrow> of_int skew < \<bar>now - r\<bar> | PosInf \<Rightarrow> True | NegInf \<Rightarrow> True | NaN \<Rightarrow> False)"

definition verify_replay_window ::
  "gateway_config \<Rightarrow> rat \<Rightarrow> gateway_connection \<Rightarrow> string \<Rightarrow> string \<Rightarrow> exc option" where
  "verify_replay_window cfg now g timestamp nonce =
     (if timestamp = [] \<or> nonce = []
      then Some (RuntimeError ''public gateway webhook requires timestamp and nonce'')
      else case float_of_str timestamp of
        None \<Rightarrow> Some (RuntimeError ''invalid gateway timestamp'')
      | Some ts \<Rightarrow>
          if outside_window now (gc_max_skew cfg) ts
          then Some (RuntimeError ''gateway timestamp outside allowed window'')
          else if nonce \<in> set (nonce_items (dget ''nonce_cache'' (gw_config g)))
          then Some (RuntimeError ''replayed gateway nonce'')
          else None)"

text \<open>\<open>_record_nonce\<close>: the cache keeps its last \<open>max(1, size)\<close> entries. A cached value that cannot be iterated
  over raises \<open>TypeError\<close>.\<close>

definition record_nonce :: "gateway_config \<Rightarrow> string \<Rightarrow> string \<Rightarrow> dict \<Rightarrow> exc + dict" where
  "record_nonce cfg timestamp nonce config =
     (let entry = JObj [(''nonce'', JStr nonce), (''timestamp'', JStr timestamp)];
          keep = (\<lambda>old. let cache = filter is_dict old @ [entry]
                       in dset ''nonce_cache''
                            (JList (drop (length cache - nat (max 1 (gc_nonce_cache_size cfg))) cache)) config)
      in if \<not> dhas ''nonce_cache'' config then Inr (keep [])
         else case dget ''nonce_cache'' config of
           JList xs \<Rightarrow> Inr (keep xs)
         | JStr _ \<Rightarrow> Inr (keep [])
         | JObj _ \<Rightarrow> Inr (keep [])
         | _ \<Rightarrow> Inl (TypeError ''object is not iterable''))"

definition signed_text :: "string \<Rightarrow> string \<Rightarrow> string \<Rightarrow> string" where
  "signed_text timestamp nonce text =
     (if timestamp \<noteq> [] \<or> nonce \<noteq> [] then timestamp @ ''.'' @ nonce @ ''.'' @ text else text)"

definition is_ascii :: "string \<Rightarrow> bool" where
  "is_ascii s = list_all (\<lambda>c. ordc c < 128) s"

definition message_signature :: "inbound_message \<Rightarrow> string" where
  "message_signature m = removeprefix
     (if truthy (dget ''signature'' (in_metadata m)) then dstr ''signature'' (in_metadata m)
      else dstr ''x_soulclaw_signature'' (in_metadata m)) ''sha256=''"

text \<open>\<open>_verify_signature\<close>: the new configuration of the gateway (with the nonce recorded) or an exception.
  \<open>hmac.compare_digest\<close> refuses strings that are not ASCII.\<close>

definition verify_signature ::
  "gateway_config \<Rightarrow> (string \<Rightarrow> string \<Rightarrow> string) \<Rightarrow> rat \<Rightarrow> gateway_connection \<Rightarrow> inbound_message \<Rightarrow> exc + dict" where
  "verify_signature cfg hmac now g m =
     (let config = gw_config g; md = in_metadata m; secret = dstr ''secret'' config;
          public_webhook = truthy (dget ''public_webhook'' md);
          timestamp = dstr ''timestamp'' md; nonce = dstr ''nonce'' md
      in if public_webhook \<and> secret = []
         then Inl (RuntimeError ''public gateway webhook requires a configured secret'')
         else if secret = [] then Inr config
         else case (if public_webhook then verify_replay_window cfg now g timestamp nonce else None) of
           Some e \<Rightarrow> Inl e
         | None \<Rightarrow>
             let expected = hmac secret (signed_text timestamp nonce (in_text m))
             in if \<not> is_ascii (message_signature m)
                then Inl (TypeError ''comparing strings with non-ASCII characters is not supported'')
                else if message_signature m \<noteq> expected then Inl (RuntimeError ''invalid gateway signature'')
                else if public_webhook then record_nonce cfg timestamp nonce config else Inr config)"

definition session_id_of :: "string \<Rightarrow> string \<Rightarrow> string \<Rightarrow> string" where
  "session_id_of gateway_name channel_id external_user_id =
     ''gateway:'' @ join '':'' (map (replace_char CHR '':'' ''_'')
       [gateway_name, str_or channel_id ''default'', str_or external_user_id ''anonymous''])"

section \<open>Inbound\<close>

definition inbound_body ::
  "gateway_config \<Rightarrow> (string \<Rightarrow> string \<Rightarrow> string) \<Rightarrow> (string \<Rightarrow> string \<Rightarrow> world \<Rightarrow> (exc + turn_result) \<times> world) \<Rightarrow>
   rat \<Rightarrow> instant \<Rightarrow> inbound_message \<Rightarrow> world \<Rightarrow> (exc + dict) \<times> world" where
  "inbound_body cfg hmac run_turn now inbound_at m w =
     (case require_gateway (in_gateway_name m) w of
        Inl e \<Rightarrow> (Inl e, w)
      | Inr g \<Rightarrow>
          (case verify_signature cfg hmac now g m of
             Inl e \<Rightarrow> (Inl e, w)
           | Inr config \<Rightarrow>
               let name = gw_name g;
                   session = session_id_of name (in_channel_id m) (in_external_user_id m);
                   w1 = upd_gateway name (\<lambda>g. g\<lparr>gw_config := config, gw_last_inbound_at := Some inbound_at,
                          gw_inbound_count := gw_inbound_count g + 1, gw_status := ''online''\<rparr>) w;
                   w2 = emit_full True ''gateway.inbound''
                          [(''gateway'', JStr name), (''kind'', JStr (gw_kind g)),
                           (''external_user_id'', JStr (in_external_user_id m)),
                           (''channel_id'', JStr (in_channel_id m))] ''info'' session '''' w1
               in case run_turn (in_text m) session w2 of
                    (Inl e, w3) \<Rightarrow>
                      (Inl e,
                       emit_full True ''gateway.inbound.failed''
                         [(''gateway'', JStr name), (''error'', JStr (exc_str e))] ''warning'' session ''''
                         (upd_gateway name (\<lambda>g. g\<lparr>gw_failure_count := gw_failure_count g + 1,
                            gw_last_error := exc_str e, gw_status := ''failed''\<rparr>) w3))
                  | (Inr t, w3) \<Rightarrow>
                      (Inr [(''gateway'', JStr name), (''session_id'', JStr session),
                            (''turn_id'', JStr (tu_turn_id t)), (''answer'', JStr (tu_answer t)),
                            (''context'', JObj (tu_context t))], w3)))"

definition handle_inbound ::
  "gateway_config \<Rightarrow> (string \<Rightarrow> string \<Rightarrow> string) \<Rightarrow> (string \<Rightarrow> string \<Rightarrow> world \<Rightarrow> (exc + turn_result) \<times> world) \<Rightarrow>
   rat \<Rightarrow> instant \<Rightarrow> inbound_message \<Rightarrow> world \<Rightarrow> (exc + dict) \<times> world" where
  "handle_inbound cfg hmac run_turn now inbound_at m =
     session_scope False (inbound_body cfg hmac run_turn now inbound_at m)"

section \<open>Outbound\<close>

text \<open>What sending needs from outside: the clock readings of the resilience manager, the jitter, the HTTP
  client.\<close>

record send_env =
  se_now :: instant
  se_fail_now :: instant
  se_sent_at :: instant
  se_unif :: "int \<Rightarrow> rat \<Rightarrow> rat \<Rightarrow> rat"
  se_post :: "string \<Rightarrow> dict \<Rightarrow> string \<Rightarrow> int \<Rightarrow> exc + int"

definition delivery_key :: "dict \<Rightarrow> string" where
  "delivery_key md = (if truthy (dget ''idempotency_key'' md) then dstr ''idempotency_key'' md
     else dstr ''message_id'' md)"

definition delivery_policy :: "string \<Rightarrow> resilience_policy" where
  "delivery_policy key = (if key \<noteq> [] then http_policy
     else (default_policy ''gateway.outbound_http.non_idempotent'')\<lparr>rp_max_attempts := 1,
        rp_failure_threshold := rp_failure_threshold http_policy, rp_recovery := rp_recovery http_policy\<rparr>)"

definition deliver ::
  "send_env \<Rightarrow> gateway_connection \<Rightarrow> outbound_message \<Rightarrow> resilience \<Rightarrow> (exc + dict) \<times> resilience" where
  "deliver env g m s =
     (if gw_kind g = ''local''
      then (Inr [(''mode'', JStr ''local''), (''gateway'', JStr (gw_name g)), (''target_id'', JStr (om_target_id m)),
                 (''text'', JStr (om_text m)), (''metadata'', JObj (om_metadata m))], s)
      else if gw_kind g \<in> {''webhook'', ''slack''}
      then let url = str_or (om_target_id m) (gw_endpoint g) in
        if \<not> (startswith url ''http://'' \<or> startswith url ''https://'')
        then (Inl (ValueError ''webhook/slack gateway requires an http target_id or endpoint''), s)
        else
          let payload = [(''text'', JStr (om_text m)), (''metadata'', JObj (om_metadata m)),
                 (''gateway'', JStr (gw_name g)), (''kind'', JStr (gw_kind g))];
              key = delivery_key (om_metadata m)
          in case call True True (se_now env) (se_fail_now env) (se_unif env) (delivery_policy key)
                    (se_post env url payload key) s of
               (Inl e, s1) \<Rightarrow> (Inl e, s1)
             | (Inr code, s1) \<Rightarrow>
                 (Inr [(''mode'', JStr ''http_post''), (''status_code'', JInt code),
                       (''idempotency_key'', JStr key)], s1)
      else (Inl (NotImplementedError (''gateway kind '' @ [CHR 0x27] @ gw_kind g @ [CHR 0x27] @
              '' is configured but no outbound adapter is active'')), s))"

definition rs_upd :: "(world \<Rightarrow> world) \<Rightarrow> resilience \<Rightarrow> resilience" where
  "rs_upd f s = s\<lparr>rs_world := f (rs_world s)\<rparr>"

text \<open>\<open>send\<close>: the session is rolled back when delivery fails; the circuits and the events are not.\<close>

definition send_message :: "send_env \<Rightarrow> outbound_message \<Rightarrow> resilience \<Rightarrow> (exc + dict) \<times> resilience" where
  "send_message env m s =
     (case require_gateway (om_gateway_name m) (rs_world s) of
        Inl e \<Rightarrow> (Inl e, s)
      | Inr g \<Rightarrow>
          (case deliver env g m s of
             (Inl e, s1) \<Rightarrow>
               let s2 = rs_upd (\<lambda>w. emit_warning True ''gateway.outbound.failed''
                          [(''gateway'', JStr (gw_name g)), (''target_id'', JStr (om_target_id m)),
                           (''error'', JStr (exc_str e))]
                          (upd_gateway (gw_name g) (\<lambda>g. g\<lparr>gw_failure_count := gw_failure_count g + 1,
                             gw_last_error := exc_str e, gw_status := ''failed''\<rparr>) w)) s1
               in (Inl e, rs_upd (rollback False (rs_world s)) s2)
           | (Inr d, s1) \<Rightarrow>
               (Inr d, rs_upd (\<lambda>w. emit True ''gateway.outbound.succeeded''
                  [(''gateway'', JStr (gw_name g)), (''target_id'', JStr (om_target_id m))]
                  (upd_gateway (gw_name g) (\<lambda>g. g\<lparr>gw_last_outbound_at := Some (se_sent_at env),
                     gw_outbound_count := gw_outbound_count g + 1, gw_last_error := '''',
                     gw_status := ''online''\<rparr>) w)) s1)))"

section \<open>Facts\<close>

definition is_public :: "inbound_message \<Rightarrow> bool" where
  "is_public m = truthy (dget ''public_webhook'' (in_metadata m))"

definition nonce_of :: "inbound_message \<Rightarrow> string" where
  "nonce_of m = dstr ''nonce'' (in_metadata m)"

definition timestamp_of :: "inbound_message \<Rightarrow> string" where
  "timestamp_of m = dstr ''timestamp'' (in_metadata m)"

definition cached :: "dict \<Rightarrow> string list" where
  "cached config = nonce_items (dget ''nonce_cache'' config)"

lemma verify_public:
  assumes "verify_signature cfg hmac now g m = Inr config" and "is_public m"
  shows "dstr ''secret'' (gw_config g) \<noteq> []"
    and "verify_replay_window cfg now g (timestamp_of m) (nonce_of m) = None"
    and "message_signature m = hmac (dstr ''secret'' (gw_config g)) (signed_text (timestamp_of m) (nonce_of m) (in_text m))"
    and "record_nonce cfg (timestamp_of m) (nonce_of m) (gw_config g) = Inr config"
  using assms
  by (auto simp: verify_signature_def is_public_def nonce_of_def timestamp_of_def Let_def
    split: if_splits option.splits)

lemma replay_window_cached:
  "n \<in> set (cached (gw_config g)) \<Longrightarrow> verify_replay_window cfg now g t n \<noteq> None"
  by (auto simp: verify_replay_window_def cached_def split: option.splits)

lemma nonce_items_append: "nonce_items (JList (xs @ ys)) = nonce_items (JList xs) @ nonce_items (JList ys)"
  by (simp add: nonce_items_def list_or_empty_def)

lemma nonce_items_dicts: "nonce_items (JList (filter is_dict xs)) = nonce_items (JList xs)"
  by (induction xs) (auto simp: nonce_items_def list_or_empty_def is_dict_def split: json.splits)

lemma nonce_items_entry: "nonce_items (JList [JObj [(''nonce'', JStr n), (''timestamp'', JStr t)]]) = [n]"
  by (simp add: nonce_items_def list_or_empty_def dget_def)

text \<open>The entries of the cache that record a nonce: recording appends one and drops from the front.\<close>

definition cache_dicts :: "dict \<Rightarrow> json list" where
  "cache_dicts config = filter is_dict (list_or_empty (dget ''nonce_cache'' config))"

lemma cached_dicts: "cached config = nonce_items (JList (cache_dicts config))"
  by (simp add: cached_def cache_dicts_def nonce_items_dicts) (simp add: nonce_items_def list_or_empty_def)

lemma record_nonce_dicts:
  assumes "record_nonce cfg t n c = Inr c'"
  shows "\<exists>k. cache_dicts c' = drop k (cache_dicts c @ [JObj [(''nonce'', JStr n), (''timestamp'', JStr t)]])
    \<and> length (cache_dicts c) + 1 - k = min (length (cache_dicts c) + 1) (nat (max 1 (gc_nonce_cache_size cfg)))"
proof -
  let ?e = "JObj [(''nonce'', JStr n), (''timestamp'', JStr t)]"
  let ?N = "nat (max 1 (gc_nonce_cache_size cfg))"
  let ?cache = "cache_dicts c @ [?e]"
  have "cache_dicts c' = drop (length ?cache - ?N) ?cache"
    using assms
    by (auto simp: record_nonce_def Let_def cache_dicts_def list_or_empty_def dhas_def dget_def is_dict_def
      split: if_splits json.splits option.splits intro!: filter_True dest!: in_set_dropD)
  then show ?thesis by (intro exI [of _ "length ?cache - ?N"]) auto
qed

text \<open>\<open>recent n j c\<close>: nonce \<open>n\<close> is in the cache with at most \<open>j\<close> entries after it.\<close>

definition recent :: "string \<Rightarrow> nat \<Rightarrow> dict \<Rightarrow> bool" where
  "recent n j c = (\<exists>pre t post. cache_dicts c = pre @ [JObj [(''nonce'', JStr n), (''timestamp'', JStr t)]] @ post
     \<and> length post \<le> j)"

lemma recent_cached: "recent n j c \<Longrightarrow> n \<in> set (cached c)"
  by (auto simp: recent_def cached_dicts nonce_items_append nonce_items_entry nonce_items_def list_or_empty_def dget_def)

lemma drop_keeps_suffix:
  assumes "length xs + length ys - k = min (length xs + length ys) N" and "length ys \<le> N"
  shows "\<exists>zs. drop k (xs @ ys) = zs @ ys"
proof -
  have "k \<le> length xs \<or> ys = []" using assms by (cases ys) auto
  then show ?thesis by auto
qed

lemma record_nonce_recent:
  assumes "record_nonce cfg t n c = Inr c'"
  shows "recent n 0 c'"
proof -
  let ?e = "JObj [(''nonce'', JStr n), (''timestamp'', JStr t)]"
  obtain k where k: "cache_dicts c' = drop k (cache_dicts c @ [?e])"
    "length (cache_dicts c) + length [?e] - k = min (length (cache_dicts c) + length [?e]) (nat (max 1 (gc_nonce_cache_size cfg)))"
    using record_nonce_dicts [OF assms] by auto
  have "length [?e] \<le> nat (max 1 (gc_nonce_cache_size cfg))" by simp
  from drop_keeps_suffix [OF k(2) this] obtain zs where "cache_dicts c' = zs @ [?e]" using k(1) by metis
  then show ?thesis unfolding recent_def by fastforce
qed

lemma record_nonce_keeps_recent:
  assumes r: "record_nonce cfg t' n' c = Inr c'" and "recent n j c" and "int j + 1 < gc_nonce_cache_size cfg"
  shows "recent n (Suc j) c'"
proof -
  let ?e' = "JObj [(''nonce'', JStr n'), (''timestamp'', JStr t')]"
  obtain pre t post where c: "cache_dicts c = pre @ [JObj [(''nonce'', JStr n), (''timestamp'', JStr t)]] @ post"
    and j: "length post \<le> j" using assms(2) by (auto simp: recent_def)
  let ?e = "JObj [(''nonce'', JStr n), (''timestamp'', JStr t)]"
  let ?ys = "[?e] @ post @ [?e']"
  obtain k where k: "cache_dicts c' = drop k (cache_dicts c @ [?e'])"
    "length (cache_dicts c) + 1 - k = min (length (cache_dicts c) + 1) (nat (max 1 (gc_nonce_cache_size cfg)))"
    using record_nonce_dicts [OF r] by auto
  have "length pre + length ?ys - k = min (length pre + length ?ys) (nat (max 1 (gc_nonce_cache_size cfg)))"
    using k(2) by (simp add: c)
  moreover have "length ?ys \<le> nat (max 1 (gc_nonce_cache_size cfg))" using j assms(3) by simp
  ultimately obtain zs where "drop k (pre @ ?ys) = zs @ ?ys" using drop_keeps_suffix by blast
  then have "cache_dicts c' = zs @ [?e] @ (post @ [?e'])" using k(1) by (simp add: c)
  moreover have "length (post @ [?e']) \<le> Suc j" using j by simp
  ultimately show ?thesis unfolding recent_def by blast
qed

text \<open>Public messages the gateway accepts one after the other; the second component is its
  configuration at the end.\<close>

fun accepts ::
  "gateway_config \<Rightarrow> (string \<Rightarrow> string \<Rightarrow> string) \<Rightarrow> (rat \<times> inbound_message) list \<Rightarrow> gateway_connection \<Rightarrow>
   gateway_connection option" where
  "accepts cfg hmac [] g = Some g"
| "accepts cfg hmac ((now, m) # ms) g =
     (if \<not> is_public m then None
      else case verify_signature cfg hmac now g m of
        Inl e \<Rightarrow> None
      | Inr config \<Rightarrow> accepts cfg hmac ms (g\<lparr>gw_config := config\<rparr>))"

lemma accepts_recent:
  assumes "accepts cfg hmac ms g = Some g'" and "recent n j (gw_config g)"
    and "int j + int (length ms) < gc_nonce_cache_size cfg"
  shows "recent n (j + length ms) (gw_config g')"
  using assms
proof (induction ms arbitrary: g j)
  case (Cons x ms)
  obtain now m where x: "x = (now, m)" by fastforce
  obtain config where v: "verify_signature cfg hmac now g m = Inr config" and p: "is_public m"
    and a: "accepts cfg hmac ms (g\<lparr>gw_config := config\<rparr>) = Some g'"
    using Cons(2) by (auto simp: x split: if_splits sum.splits)
  have "recent n (Suc j) config"
    using record_nonce_keeps_recent [OF verify_public(4) [OF v p] Cons(3)] Cons(4) by simp
  then show ?case using Cons(1) [OF a, of "Suc j"] Cons(4) by simp
qed simp

section \<open>Properties\<close>

text \<open>C16: Replay protection. Once a public webhook message was accepted, no message with the same nonce is
  accepted, whatever its text, sender and signature, as long as fewer than \<open>webhook_nonce_cache_size\<close>
  messages were accepted after it (199 with the default configuration).\<close>

theorem nonce_replay_rejected:
  assumes "verify_signature cfg hmac now g m = Inr config" and "is_public m"
    and "accepts cfg hmac ms (g\<lparr>gw_config := config\<rparr>) = Some g'"
    and "int (length ms) < gc_nonce_cache_size cfg"
    and "is_public m'" and "nonce_of m' = nonce_of m"
  shows "\<exists>e. verify_signature cfg hmac now' g' m' = Inl e"
proof -
  have "recent (nonce_of m) 0 config" by (rule record_nonce_recent [OF verify_public(4) [OF assms(1,2)]])
  then have "recent (nonce_of m) (length ms) (gw_config g')"
    using accepts_recent [OF assms(3), of "nonce_of m" 0] assms(4) by simp
  then have "nonce_of m' \<in> set (cached (gw_config g'))" using recent_cached assms(6) by simp
  from replay_window_cached [OF this, of cfg now' "timestamp_of m'"]
  show ?thesis
    using verify_public(2) [of cfg hmac now' g' m', OF _ assms(5)] by (cases "verify_signature cfg hmac now' g' m'") auto
qed

definition toy_hmac :: "string \<Rightarrow> string \<Rightarrow> string" where
  "toy_hmac secret text = secret @ '':'' @ text"

definition sample_gateway :: gateway_connection where
  "sample_gateway = \<lparr>gw_name = ''hook'', gw_kind = ''webhook'', gw_status = '''', gw_endpoint = '''',
     gw_config = [(''secret'', JStr ''k'')], gw_enabled = True, gw_last_inbound_at = None,
     gw_last_outbound_at = None, gw_last_heartbeat_at = None, gw_instance_id = '''', gw_version = '''',
     gw_capabilities = [], gw_last_error = '''', gw_inbound_count = 0, gw_outbound_count = 0, gw_failure_count = 0\<rparr>"

definition webhook :: "string \<Rightarrow> string \<Rightarrow> string \<Rightarrow> string \<Rightarrow> string \<Rightarrow> inbound_message" where
  "webhook user timestamp nonce text signature =
     \<lparr>in_gateway_name = ''hook'', in_external_user_id = user, in_text = text, in_channel_id = '''',
      in_metadata = [(''timestamp'', JStr timestamp), (''nonce'', JStr nonce), (''signature'', JStr signature),
        (''public_webhook'', JBool True)]\<rparr>"

theorem nonce_replay_rejected_witness:
  "let m = webhook ''u'' ''100'' ''n1'' ''pay bob'' ''k:100.n1.pay bob'';
       config = projr (verify_signature default_gateway_config toy_hmac 120 sample_gateway m)
   in \<exists>e. verify_signature default_gateway_config toy_hmac 121 (sample_gateway\<lparr>gw_config := config\<rparr>) m = Inl e"
  unfolding Let_def
  by (rule nonce_replay_rejected [where ms = "[]" and now = 120 and g = sample_gateway
      and m = "webhook ''u'' ''100'' ''n1'' ''pay bob'' ''k:100.n1.pay bob''"
      and config = "projr (verify_signature default_gateway_config toy_hmac 120 sample_gateway
        (webhook ''u'' ''100'' ''n1'' ''pay bob'' ''k:100.n1.pay bob''))"]) code_simp+

text \<open>A public webhook message reaches the agent only if it is authentic and fresh: the gateway exists
  and is enabled, a secret is configured, the signature is the HMAC of timestamp, nonce and text under
  that secret, the timestamp reads as a number within the allowed skew (or as \<open>nan\<close>), and the nonce is
  not in the cache.\<close>

theorem inbound_requires_signature:
  assumes "handle_inbound cfg hmac run_turn now received m w = (Inr res, w')" and "is_public m"
  shows "\<exists>g ts. get_gateway w (in_gateway_name m) = Some g \<and> gw_enabled g \<and> dstr ''secret'' (gw_config g) \<noteq> []
    \<and> message_signature m = hmac (dstr ''secret'' (gw_config g)) (timestamp_of m @ ''.'' @ nonce_of m @ ''.'' @ in_text m)
    \<and> float_of_str (timestamp_of m) = Some ts
    \<and> (ts = NaN \<or> (\<exists>r. ts = Fin r \<and> \<bar>now - r\<bar> \<le> of_int (gc_max_skew cfg)))
    \<and> nonce_of m \<noteq> [] \<and> nonce_of m \<notin> set (cached (gw_config g))"
proof -
  obtain w1 where b: "inbound_body cfg hmac run_turn now received m w = (Inr res, w1)"
    using assms(1) by (auto simp: handle_inbound_def session_scope_def split: prod.splits sum.splits)
  obtain g config where g: "require_gateway (in_gateway_name m) w = Inr g"
    and v: "verify_signature cfg hmac now g m = Inr config"
    using b by (auto simp: inbound_body_def split: sum.splits)
  note p = verify_public [OF v assms(2)]
  have g': "get_gateway w (in_gateway_name m) = Some g" "gw_enabled g"
    using g by (auto simp: require_gateway_def split: option.splits if_splits)
  from p(2) obtain ts where ts: "float_of_str (timestamp_of m) = Some ts" "\<not> outside_window now (gc_max_skew cfg) ts"
      "timestamp_of m \<noteq> []" "nonce_of m \<noteq> []" "nonce_of m \<notin> set (cached (gw_config g))"
    by (auto simp: verify_replay_window_def cached_def split: if_splits option.splits)
  then show ?thesis
    using p g' by (cases ts) (auto simp: signed_text_def outside_window_def not_less)
qed

definition gateway_world :: world where
  "gateway_world = empty_world\<lparr>gateway_connections := [sample_gateway]\<rparr>"

definition echo_turn :: "string \<Rightarrow> string \<Rightarrow> world \<Rightarrow> (exc + turn_result) \<times> world" where
  "echo_turn text session w = (Inr \<lparr>tu_turn_id = ''t'', tu_answer = text, tu_context = [], tu_status = ''completed'',
     tu_approval_id = '''', tu_pending_tool_call = None, tu_resume_available = False\<rparr>, w)"

theorem inbound_requires_signature_witness:
  "\<exists>g ts. get_gateway gateway_world ''hook'' = Some g \<and> gw_enabled g \<and> dstr ''secret'' (gw_config g) \<noteq> []
    \<and> float_of_str ''100'' = Some ts"
proof -
  let ?m = "webhook ''u'' ''100'' ''n1'' ''pay bob'' ''k:100.n1.pay bob''"
  let ?h = "handle_inbound default_gateway_config toy_hmac echo_turn 120 120 ?m gateway_world"
  have "?h = (Inr (projr (fst ?h)), snd ?h)" "is_public ?m" "in_gateway_name ?m = ''hook''" "timestamp_of ?m = ''100''"
    by code_simp+
  then show ?thesis
    using inbound_requires_signature [of default_gateway_config toy_hmac echo_turn 120 120 ?m gateway_world] by metis
qed

text \<open>The signature does not fix where the nonce ends. If \<open>a.b\<close> was sent with nonce \<open>n\<close>, then \<open>b\<close> alone with
  nonce \<open>n.a\<close> has the same signed text: after the first message was accepted, the same signature is
  accepted again for the shorter text, from any sender and in any channel, within the time window.\<close>

theorem nonce_text_shift_accepted:
  assumes "m = webhook user t n (a @ ''.'' @ b) sig" and "n \<noteq> []"
    and "verify_signature cfg hmac now g m = Inr config"
    and "(n @ ''.'' @ a) \<notin> set (cached config)"
    and "dstr ''secret'' config = dstr ''secret'' (gw_config g)"
    and "\<not> outside_window now' (gc_max_skew cfg) (the (float_of_str t))"
    and "dget ''nonce_cache'' config = JList xs"
  shows "\<exists>config'. verify_signature cfg hmac now' (g\<lparr>gw_config := config\<rparr>) (webhook user' t (n @ ''.'' @ a) b sig)
    = Inr config'"
proof -
  let ?m' = "webhook user' t (n @ ''.'' @ a) b sig"
  have pm: "is_public m" "timestamp_of m = t" "nonce_of m = n" "in_text m = a @ ''.'' @ b"
    and pm': "dget ''public_webhook'' (in_metadata ?m') = JBool True" "dstr ''timestamp'' (in_metadata ?m') = t"
      "dstr ''nonce'' (in_metadata ?m') = n @ ''.'' @ a" "in_text ?m' = b"
      "message_signature ?m' = message_signature m"
    by (simp_all add: assms(1) webhook_def is_public_def timestamp_of_def nonce_of_def dstr_def dstr_or_def dget_def
      py_str_def message_signature_def)
  note v = verify_public [OF assms(3) pm(1), unfolded pm]
  have w: "t \<noteq> []" "float_of_str t \<noteq> None"
    using v(2) by (auto simp: verify_replay_window_def split: if_splits option.splits)
  have win: "verify_replay_window cfg now' (g\<lparr>gw_config := config\<rparr>) t (n @ ''.'' @ a) = None"
    using w assms(4,6) by (auto simp: verify_replay_window_def cached_def)
  have st: "signed_text t (n @ ''.'' @ a) b = signed_text t n (a @ ''.'' @ b)"
    using assms(2) by (simp add: signed_text_def)
  have asc: "is_ascii (message_signature m)"
    using assms(3) v(1) by (auto simp: verify_signature_def Let_def split: if_splits option.splits)
  have "\<exists>c. record_nonce cfg t (n @ ''.'' @ a) config = Inr c"
    using assms(7) by (simp add: record_nonce_def Let_def)
  then show ?thesis
    using v(1,3) assms(5) win st asc unfolding verify_signature_def Let_def pm' by auto
qed

theorem nonce_text_shift_accepted_witness:
  "let m = webhook ''alice'' ''100'' ''n1'' ''no. pay bob'' ''k:100.n1.no. pay bob'';
       config = projr (verify_signature default_gateway_config toy_hmac 120 sample_gateway m)
   in \<exists>config'. verify_signature default_gateway_config toy_hmac 130 (sample_gateway\<lparr>gw_config := config\<rparr>)
        (webhook ''mallory'' ''100'' (''n1'' @ ''.'' @ ''no'') '' pay bob'' ''k:100.n1.no. pay bob'') = Inr config'"
  unfolding Let_def
  by (rule nonce_text_shift_accepted [where user = "''alice''" and now = 120 and
      m = "webhook ''alice'' ''100'' ''n1'' (''no'' @ ''.'' @ '' pay bob'') ''k:100.n1.no. pay bob''" and
      xs = "[JObj [(''nonce'', JStr ''n1''), (''timestamp'', JStr ''100'')]]"]) code_simp+

lemma gateways_bus [simp]: "get_gateway (emit_full on t p sv se tu w) n = get_gateway w n"
  by (simp add: get_gateway_def)

lemma get_gateway_upd:
  "(\<And>g. gw_name (f g) = gw_name g) \<Longrightarrow>
     get_gateway (upd_gateway k f w) k' = (if k' = k then map_option f (get_gateway w k) else get_gateway w k')"
  unfolding get_gateway_def upd_gateway_def by (rule gateways_tab.look_modify)

lemma get_gateway_rollback [simp]: "get_gateway (rollback b w w') n = get_gateway w n"
  by (simp add: rollback_def Let_def get_gateway_def)

text \<open>Failures are never recorded. Both \<open>handle_inbound\<close> and \<open>send\<close> raise the failure counter of the gateway
  and set its status to \<open>failed\<close>, but they raise the exception inside the same session, which is rolled
  back: after any call, successful or not, the failure counter of every gateway is what it was.\<close>

theorem gateway_failures_not_recorded:
  assumes "\<And>t s v. gateway_connections (snd (run_turn t s v)) = gateway_connections v"
    and "handle_inbound cfg hmac run_turn now received m w = (r, w')"
    and "send_message env om s = (r2, s')"
  shows "map_option gw_failure_count (get_gateway w' n) = map_option gw_failure_count (get_gateway w n)
    \<and> (\<forall>e. r = Inl e \<longrightarrow> get_gateway w' n = get_gateway w n)
    \<and> (\<forall>e. r2 = Inl e \<longrightarrow> get_gateway (rs_world s') n = get_gateway (rs_world s) n)"
proof (intro conjI allI impI)
  have run: "get_gateway (snd (run_turn t se v)) n = get_gateway v n" for t se v
    using assms(1) by (simp add: get_gateway_def)
  show "map_option gw_failure_count (get_gateway w' n) = map_option gw_failure_count (get_gateway w n)"
  proof (cases r)
    case (Inl e)
    then show ?thesis using assms(2) by (auto simp: handle_inbound_def session_scope_def split: prod.splits sum.splits)
  next
    case (Inr res)
    then have b: "inbound_body cfg hmac run_turn now received m w = (Inr res, w')"
      using assms(2) by (auto simp: handle_inbound_def session_scope_def split: prod.splits sum.splits)
    obtain tx se v t where "run_turn tx se v = (Inr t, w')"
      and "map_option gw_failure_count (get_gateway v n) = map_option gw_failure_count (get_gateway w n)"
      using b by (auto simp: inbound_body_def Let_def get_gateway_upd option.map_comp comp_def
        split: sum.splits prod.splits intro: that)
    then show ?thesis using run [of tx se v] by simp
  qed
  show "get_gateway w' n = get_gateway w n" if "r = Inl e" for e
    using assms(2) that by (auto simp: handle_inbound_def session_scope_def split: prod.splits sum.splits)
  show "get_gateway (rs_world s') n = get_gateway (rs_world s) n" if "r2 = Inl e" for e
    using assms(3) that by (auto simp: send_message_def rs_upd_def Let_def split: prod.splits sum.splits)
qed

theorem gateway_failures_not_recorded_witness:
  "let out = handle_inbound default_gateway_config toy_hmac (\<lambda>_ _ w. (Inl (RuntimeError ''llm down''), w)) 120 120
        (webhook ''u'' ''100'' ''n1'' ''hi'' ''k:100.n1.hi'') gateway_world
   in fst out = Inl (RuntimeError ''llm down'') \<and> get_gateway (snd out) ''hook'' = get_gateway gateway_world ''hook''"
proof -
  let ?out = "handle_inbound default_gateway_config toy_hmac (\<lambda>_ _ w. (Inl (RuntimeError ''llm down''), w)) 120 120
        (webhook ''u'' ''100'' ''n1'' ''hi'' ''k:100.n1.hi'') gateway_world"
  let ?env = "\<lparr>se_now = 0, se_fail_now = 0, se_sent_at = 0, se_unif = (\<lambda>_ lo _. lo), se_post = (\<lambda>_ _ _ _. Inr 200)\<rparr>"
  let ?om = "\<lparr>om_gateway_name = ''hook'', om_target_id = '''', om_text = '''', om_metadata = []\<rparr>"
  have f: "fst ?out = Inl (RuntimeError ''llm down'')" by code_simp
  then have o: "?out = (Inl (RuntimeError ''llm down''), snd ?out)" by (metis prod.collapse)
  show ?thesis
    using gateway_failures_not_recorded [OF _ o, of ?env ?om "\<lparr>rs_states = [], rs_external = [], rs_world = gateway_world\<rparr>"
        _ _ "''hook''"] f
    unfolding Let_def by (metis prod.collapse snd_conv)
qed

text \<open>Users do not share a session: with identifiers that are not empty and hold no colon, messages from
  different gateways, channels or users run in different sessions.\<close>

theorem session_id_injective:
  assumes "list_all (\<lambda>x. x \<noteq> [] \<and> CHR '':'' \<notin> set x) [g, c, u, g', c', u']"
    and "session_id_of g c u = session_id_of g' c' u'"
  shows "g = g' \<and> c = c' \<and> u = u'"
proof -
  have r: "replace_char CHR '':'' ''_'' x = x" if "CHR '':'' \<notin> set x" for x
    using that by (induction x) (auto simp: replace_char_def)
  have s: "session_id_of g c u = ''gateway:'' @ g @ CHR '':'' # c @ CHR '':'' # u"
    "session_id_of g' c' u' = ''gateway:'' @ g' @ CHR '':'' # c' @ CHR '':'' # u'"
    using assms(1) by (simp_all add: session_id_of_def r str_or_def)
  have c: "xs = ys \<and> as = bs" if "xs @ x # as = ys @ x # bs" "x \<notin> set xs" "x \<notin> set ys" for xs ys as bs and x :: char
    using that by (induction xs arbitrary: ys) (auto simp: Cons_eq_append_conv)
  show ?thesis
    using assms(2)[unfolded s] assms(1) c [of g "CHR '':''" "c @ CHR '':'' # u" g' "c' @ CHR '':'' # u'"]
      c [of c "CHR '':''" u c' u'] by auto
qed

theorem session_id_injective_witness:
  "''slack'' = ''slack'' \<and> ''c1'' = ''c1'' \<and> ''u1'' = ''u1''"
  by (rule session_id_injective) code_simp+

text \<open>A message without an idempotency key is posted at most once: what later attempts would return makes
  no difference to the outcome of the delivery and to the state after it. A message with a key is
  posted at most three times.\<close>

theorem delivery_attempts_bounded:
  assumes "\<forall>k. 1 \<le> k \<and> k \<le> (if delivery_key (om_metadata m) = [] then 1 else 3) \<longrightarrow>
      (\<forall>url payload key. se_post env url payload key k = se_post env' url payload key k)"
    and "env' = env\<lparr>se_post := p\<rparr>"
  shows "deliver env g m s = deliver env' g m s"
proof -
  have "max 1 (rp_max_attempts (delivery_policy (delivery_key (om_metadata m))))
      = (if delivery_key (om_metadata m) = [] then 1 else 3)"
    by (simp add: delivery_policy_def http_policy_def)
  then have "call True True a b u (delivery_policy (delivery_key (om_metadata m))) (se_post env url payload key) s
      = call True True a b u (delivery_policy (delivery_key (om_metadata m))) (se_post env' url payload key) s"
    for a b u url payload key
    using assms(1) by (intro call_cong) simp
  moreover have "se_now env' = se_now env" "se_fail_now env' = se_fail_now env" "se_unif env' = se_unif env"
    using assms(2) by simp_all
  ultimately show ?thesis using assms(1) by (simp add: deliver_def Let_def)
qed

theorem delivery_attempts_bounded_witness:
  "deliver \<lparr>se_now = 0, se_fail_now = 0, se_sent_at = 0, se_unif = (\<lambda>_ lo _. lo), se_post = (\<lambda>_ _ _ k. Inl (TransportError ''t''))\<rparr>
      (sample_gateway\<lparr>gw_endpoint := ''https://x''\<rparr>) \<lparr>om_gateway_name = ''hook'', om_target_id = '''', om_text = ''hi'', om_metadata = []\<rparr> fresh_manager
   = deliver \<lparr>se_now = 0, se_fail_now = 0, se_sent_at = 0, se_unif = (\<lambda>_ lo _. lo),
        se_post = (\<lambda>_ _ _ k. if k \<le> 1 then Inl (TransportError ''t'') else Inr 200)\<rparr>
      (sample_gateway\<lparr>gw_endpoint := ''https://x''\<rparr>) \<lparr>om_gateway_name = ''hook'', om_target_id = '''', om_text = ''hi'', om_metadata = []\<rparr> fresh_manager"
  by (rule delivery_attempts_bounded [where p = "\<lambda>_ _ _ k. if k \<le> 1 then Inl (TransportError ''t'') else Inr 200"])
    (simp_all add: delivery_key_def dget_def dstr_def dstr_or_def)

end
