(* ===== verification/Platform.thy ===== *)
theory Platform
  imports Cron Gateway
begin

text \<open>
  The control plane: \<open>PlatformService\<close> of \<open>backend/domain/platform.py\<close> (approvals, cron jobs, MCP servers,
  gateways).

  Parameters: \<open>is_valid\<close> for \<open>croniter.is_valid\<close>, \<open>zone\<close> and \<open>croniter\<close> as in the cron theory, \<open>sha\<close> for SHA-256.
  The MCP seed file is an argument (\<open>None\<close> when it does not exist, otherwise its parsed YAML document).
  An operation that raises returns the state with the writes made before: the caller's session decides
  about the rollback.
\<close>

section \<open>Approvals\<close>

definition get_approval :: "world \<Rightarrow> uuid \<Rightarrow> approval option" where
  "get_approval w i = get_row ap_id i (approvals w)"

definition upd_approval :: "uuid \<Rightarrow> (approval \<Rightarrow> approval) \<Rightarrow> world \<Rightarrow> world" where
  "upd_approval i f w = approvals_update (upd_row ap_id i f) w"

definition default_decisions :: "string list" where
  "default_decisions = [''approve'', ''edit'', ''reject'', ''respond'']"

definition create_approval ::
  "bool \<Rightarrow> uuid \<Rightarrow> instant \<Rightarrow> string \<Rightarrow> string \<Rightarrow> dict \<Rightarrow> dict \<Rightarrow> dict \<Rightarrow> string list \<Rightarrow> dict \<Rightarrow> world \<Rightarrow>
   uuid \<times> world" where
  "create_approval ev i now subject_type subject_id payload turn_checkpoint original_tool_call allowed resume_state w =
     (i,
      audit ev ''approval.create'' ''approval'' i payload
        (emit ev ''approval.created''
          [(''approval_id'', JStr i), (''subject_type'', JStr subject_type), (''subject_id'', JStr subject_id)]
          (approvals_update (\<lambda>as. as @
            [\<lparr>ap_id = i, ap_status = ''pending'', ap_subject_type = subject_type, ap_subject_id = subject_id,
              ap_payload = payload, ap_turn_checkpoint = turn_checkpoint,
              ap_original_tool_call = original_tool_call,
              ap_allowed_decisions = (if allowed = [] then default_decisions else allowed),
              ap_edited_arguments = [], ap_resume_state = resume_state, ap_created_at = now,
              ap_resolved_at = None\<rparr>]) w)))"

definition list_approvals :: "string \<Rightarrow> int \<Rightarrow> world \<Rightarrow> approval list" where
  "list_approvals status limit w =
     take (clamp_limit 500 limit)
       (sort_key (\<lambda>a. - ap_created_at a)
         (filter (\<lambda>a. status = [] \<or> ap_status a = status) (approvals w)))"

definition resolve_approval :: "bool \<Rightarrow> uuid \<Rightarrow> instant \<Rightarrow> string \<Rightarrow> world \<Rightarrow> (exc + uuid) \<times> world" where
  "resolve_approval ev i now status w =
     (if status \<notin> {''approved'', ''rejected'', ''cancelled''}
      then (Inl (ValueError ''approval status must be approved, rejected, or cancelled''), w)
      else case get_approval w i of
        None \<Rightarrow> (Inl (KeyError (''approval not found: '' @ i)), w)
      | Some a \<Rightarrow>
          (Inr i,
           audit ev ''approval.resolve'' ''approval'' i [(''status'', JStr status)]
             (emit ev ''approval.resolved'' [(''approval_id'', JStr i), (''status'', JStr status)]
               (upd_approval i (\<lambda>a. a\<lparr>ap_status := status, ap_resolved_at := Some now\<rparr>) w))))"

section \<open>Cron jobs\<close>

definition find_cron :: "string \<Rightarrow> world \<Rightarrow> cron_job option" where
  "find_cron name w = find (\<lambda>c. cj_name c = name) (cron_jobs w)"

definition new_cron :: "uuid \<Rightarrow> string \<Rightarrow> string \<Rightarrow> cron_job" where
  "new_cron i name cron_expr =
     \<lparr>cj_id = i, cj_name = name, cj_cron_expr = cron_expr, cj_timezone = ''Asia/Hong_Kong'',
      cj_instruction = '''', cj_enabled = True, cj_last_run_at = None, cj_next_run_at = None,
      cj_backoff_until = None, cj_last_status = ''never_run'', cj_last_result = [], cj_run_count = 0,
      cj_failure_count = 0, cj_last_enqueue_key = '''', cj_metadata = []\<rparr>"

definition list_cron_jobs :: "bool option \<Rightarrow> int \<Rightarrow> world \<Rightarrow> cron_job list" where
  "list_cron_jobs enabled limit w =
     take (clamp_limit 500 limit)
       (sort_key cj_name (filter (\<lambda>c. case enabled of None \<Rightarrow> True | Some b \<Rightarrow> cj_enabled c = b) (cron_jobs w)))"

definition upsert_cron_job ::
  "(string \<Rightarrow> bool) \<Rightarrow> (string \<Rightarrow> exc + unit) \<Rightarrow> (string \<Rightarrow> string \<Rightarrow> instant \<Rightarrow> exc + instant) \<Rightarrow> bool \<Rightarrow> uuid \<Rightarrow>
   instant \<Rightarrow> string \<Rightarrow> string \<Rightarrow> string \<Rightarrow> string \<Rightarrow> bool \<Rightarrow> dict \<Rightarrow> world \<Rightarrow> (exc + uuid) \<times> world" where
  "upsert_cron_job is_valid zone croniter ev fresh now name cron_expr timezone instruction enabled metadata w =
     (if \<not> is_valid cron_expr then (Inl (ValueError ''invalid cron expression''), w)
      else
        let (i, w0) = (case find_cron name w of
              Some c \<Rightarrow> (cj_id c, w)
            | None \<Rightarrow> (fresh, cron_jobs_update (\<lambda>cs. cs @ [new_cron fresh name cron_expr]) w));
            w1 = upd_cron i (\<lambda>c. c\<lparr>cj_cron_expr := cron_expr, cj_timezone := timezone,
                   cj_instruction := instruction, cj_enabled := enabled, cj_metadata := metadata\<rparr>) w0
        in case (if enabled then map_sum id Some (compute_next_run zone croniter cron_expr timezone now) else Inr None) of
             Inl e \<Rightarrow> (Inl e, w1)
           | Inr t \<Rightarrow>
               (Inr i,
                audit ev ''cron.upsert'' ''cron_job'' name [(''enabled'', JBool enabled)]
                  (emit ev ''cron.upsert'' [(''name'', JStr name), (''enabled'', JBool enabled)]
                    (upd_cron i (\<lambda>c. c\<lparr>cj_next_run_at := t\<rparr>) w1))))"

definition ensure_system_cron_job ::
  "(string \<Rightarrow> bool) \<Rightarrow> (string \<Rightarrow> exc + unit) \<Rightarrow> (string \<Rightarrow> string \<Rightarrow> instant \<Rightarrow> exc + instant) \<Rightarrow> bool \<Rightarrow> uuid \<Rightarrow>
   instant \<Rightarrow> string \<Rightarrow> string \<Rightarrow> string \<Rightarrow> string \<Rightarrow> dict \<Rightarrow> bool \<Rightarrow> world \<Rightarrow> (exc + uuid) \<times> world" where
  "ensure_system_cron_job is_valid zone croniter ev fresh now name cron_expr timezone instruction metadata enabled w =
     (if \<not> is_valid cron_expr then (Inl (ValueError ''invalid cron expression''), w)
      else
        let next_run = (\<lambda>_::unit. map_sum id Some (compute_next_run zone croniter cron_expr timezone now));
            created = (case find_cron name w of
              Some c \<Rightarrow> Inr (c, w)
            | None \<Rightarrow>
                (case (if enabled then next_run () else Inr None) of
                   Inl e \<Rightarrow> Inl e
                 | Inr t \<Rightarrow>
                     let c = (new_cron fresh name cron_expr)\<lparr>cj_enabled := enabled, cj_next_run_at := t\<rparr>
                     in Inr (c, cron_jobs_update (\<lambda>cs. cs @ [c]) w)))
        in case created of
             Inl e \<Rightarrow> (Inl e, cron_jobs_update (\<lambda>cs. cs @ [(new_cron fresh name cron_expr)\<lparr>cj_enabled := enabled\<rparr>]) w)
           | Inr (c, w0) \<Rightarrow>
               let changed = (cj_cron_expr c \<noteq> cron_expr \<or> cj_timezone c \<noteq> timezone);
                   w1 = upd_cron (cj_id c) (\<lambda>c. c\<lparr>cj_cron_expr := cron_expr, cj_timezone := timezone,
                          cj_instruction := instruction, cj_metadata := metadata\<rparr>) w0;
                   finish = (\<lambda>w2. (Inr (cj_id c), emit ev ''cron.system.ensure''
                          [(''name'', JStr name), (''enabled'', JBool (cj_enabled c))] w2))
               in if cj_enabled c \<and> (changed \<or> cj_next_run_at c = None)
                  then (case next_run () of
                      Inl e \<Rightarrow> (Inl e, w1)
                    | Inr t \<Rightarrow> finish (upd_cron (cj_id c) (\<lambda>c. c\<lparr>cj_next_run_at := t\<rparr>) w1))
                  else finish w1)"

section \<open>MCP servers\<close>

definition get_mcp :: "world \<Rightarrow> string \<Rightarrow> mcp_server option" where
  "get_mcp w name = get_row mcp_name name (mcp_servers w)"

definition list_mcp_servers :: "bool option \<Rightarrow> int \<Rightarrow> world \<Rightarrow> mcp_server list" where
  "list_mcp_servers enabled limit w =
     take (clamp_limit 500 limit)
       (sort_key mcp_name (filter (\<lambda>s. case enabled of None \<Rightarrow> True | Some b \<Rightarrow> mcp_enabled s = b) (mcp_servers w)))"

definition new_mcp :: "string \<Rightarrow> mcp_server" where
  "new_mcp name =
     \<lparr>mcp_name = name, mcp_transport = ''stdio'', mcp_command = '''', mcp_url = '''', mcp_config = [],
      mcp_config_source = ''manual'', mcp_permission_policy = [], mcp_session_mode = ''transient'',
      mcp_health_status = ''unknown'', mcp_last_imported_checksum = '''', mcp_enabled = True,
      mcp_status = ''disabled'', mcp_last_connected_at = None, mcp_last_error = '''', mcp_tool_count = 0,
      mcp_tools_cache = []\<rparr>"

record mcp_request =
  mq_name :: string
  mq_transport :: string
  mq_command :: string
  mq_url :: string
  mq_config :: dict
  mq_enabled :: bool
  mq_config_source :: string
  mq_permission_policy :: dict
  mq_session_mode :: string
  mq_health_status :: string
  mq_last_imported_checksum :: string

definition mcp_error :: "mcp_request \<Rightarrow> string option" where
  "mcp_error q =
     (if mq_transport q \<notin> {''stdio'', ''sse'', ''streamable_http'', ''http''} then Some ''unsupported MCP transport''
      else if mq_session_mode q \<notin> {''transient'', ''managed''} then Some ''unsupported MCP session_mode''
      else if mq_transport q = ''stdio'' \<and> mq_command q = [] then Some ''stdio MCP servers require a command''
      else if mq_transport q \<noteq> ''stdio'' \<and> mq_url q = [] then Some ''network MCP servers require a url''
      else None)"

definition write_mcp :: "mcp_request \<Rightarrow> mcp_server \<Rightarrow> mcp_server" where
  "write_mcp q s =
     (let s1 = s\<lparr>mcp_transport := mq_transport q, mcp_command := mq_command q, mcp_url := mq_url q,
            mcp_config := mq_config q, mcp_config_source := str_or (mq_config_source q) ''manual'',
            mcp_permission_policy := mq_permission_policy q, mcp_session_mode := mq_session_mode q,
            mcp_health_status := mq_health_status q, mcp_last_imported_checksum := mq_last_imported_checksum q,
            mcp_enabled := mq_enabled q, mcp_status := (if mq_enabled q then ''pending'' else ''disabled'')\<rparr>
      in if mq_enabled q then s1 else s1\<lparr>mcp_last_error := '''', mcp_tool_count := 0, mcp_tools_cache := []\<rparr>)"

definition upsert_mcp_server :: "bool \<Rightarrow> mcp_request \<Rightarrow> world \<Rightarrow> (exc + string) \<times> world" where
  "upsert_mcp_server ev q w =
     (case mcp_error q of
        Some m \<Rightarrow> (Inl (ValueError m), w)
      | None \<Rightarrow>
          let name = mq_name q;
              w0 = (if get_mcp w name = None then mcp_servers_update (\<lambda>ss. ss @ [new_mcp name]) w else w);
              shown = [(''transport'', JStr (mq_transport q)), (''enabled'', JBool (mq_enabled q))]
          in (Inr name,
              audit ev ''mcp.upsert'' ''mcp_server'' name shown
                (emit ev ''mcp.upsert'' ((''name'', JStr name) # shown)
                  (mcp_servers_update (upd_row mcp_name name (write_mcp q)) w0))))"

text \<open>The seed file: entries that are no mapping, that an operator owns (a source other than \<open>yaml:\<close>) or
  whose checksum is unchanged are skipped.\<close>

definition seed_checksum :: "(string \<Rightarrow> string) \<Rightarrow> dict \<Rightarrow> string" where
  "seed_checksum sha raw = sha (json_dumps_sorted (JObj raw))"

definition seed_request :: "(string \<Rightarrow> string) \<Rightarrow> string \<Rightarrow> string \<Rightarrow> dict \<Rightarrow> mcp_request" where
  "seed_request sha path name raw =
     (let config = filter (\<lambda>(k, v). k \<notin> {''transport'', ''command'', ''url'', ''enabled''}) raw
      in \<lparr>mq_name = name, mq_transport = dstr_or ''transport'' ''stdio'' raw, mq_command = dstr ''command'' raw,
          mq_url = dstr ''url'' raw, mq_config = config,
          mq_enabled = (if dhas ''enabled'' raw then truthy (dget ''enabled'' raw) else True),
          mq_config_source = ''yaml:'' @ path,
          mq_permission_policy = dict_or_empty (dget ''tools'' config),
          mq_session_mode = (if truthy (dget ''session_mode'' raw) then dstr ''session_mode'' raw
             else dstr_or ''session_mode'' ''transient'' config),
          mq_health_status = ''unknown'', mq_last_imported_checksum = seed_checksum sha raw\<rparr>)"

definition seed_skips :: "(string \<Rightarrow> string) \<Rightarrow> string \<Rightarrow> dict \<Rightarrow> world \<Rightarrow> bool" where
  "seed_skips sha name raw w = (case get_mcp w name of
     None \<Rightarrow> False
   | Some s \<Rightarrow> \<not> startswith (mcp_config_source s) ''yaml:'' \<or> mcp_last_imported_checksum s = seed_checksum sha raw)"

fun seed_loop ::
  "(string \<Rightarrow> string) \<Rightarrow> bool \<Rightarrow> string \<Rightarrow> dict \<Rightarrow> int \<Rightarrow> int \<Rightarrow> world \<Rightarrow> (exc + int \<times> int) \<times> world" where
  "seed_loop sha ev path [] imported skipped w = (Inr (imported, skipped), w)"
| "seed_loop sha ev path ((name, v) # rest) imported skipped w =
     (case v of
        JObj raw \<Rightarrow>
          if seed_skips sha name raw w then seed_loop sha ev path rest imported (skipped + 1) w
          else (case upsert_mcp_server ev (seed_request sha path name raw) w of
              (Inl e, w1) \<Rightarrow> (Inl e, w1)
            | (Inr _, w1) \<Rightarrow> seed_loop sha ev path rest (imported + 1) skipped w1)
      | _ \<Rightarrow> seed_loop sha ev path rest imported (skipped + 1) w)"

definition import_mcp_seed ::
  "(string \<Rightarrow> string) \<Rightarrow> bool \<Rightarrow> string \<Rightarrow> json option \<Rightarrow> world \<Rightarrow> (exc + dict) \<times> world" where
  "import_mcp_seed sha ev path file w =
     (case file of
        None \<Rightarrow> (Inr [(''path'', JStr path), (''imported'', JInt 0), (''skipped'', JInt 0), (''missing'', JBool True)], w)
      | Some doc \<Rightarrow>
          (case (case py_or doc (JObj []) of JObj d \<Rightarrow> dget ''servers'' d | _ \<Rightarrow> JObj []) of
             JObj servers \<Rightarrow>
               (case seed_loop sha ev path servers 0 0 w of
                  (Inl e, w1) \<Rightarrow> (Inl e, w1)
                | (Inr (imported, skipped), w1) \<Rightarrow>
                    (Inr [(''path'', JStr path), (''imported'', JInt imported), (''skipped'', JInt skipped),
                          (''missing'', JBool False)],
                     emit ev ''mcp.seed.imported''
                       [(''path'', JStr path), (''imported'', JInt imported), (''skipped'', JInt skipped)] w1))
           | _ \<Rightarrow> (Inl (ValueError ''MCP seed file must contain a mapping at `servers`''), w)))"

section \<open>Gateways\<close>

definition list_gateways :: "string \<Rightarrow> int \<Rightarrow> world \<Rightarrow> gateway_connection list" where
  "list_gateways kind limit w =
     take (clamp_limit 500 limit)
       (sort_key gw_name (filter (\<lambda>g. kind = [] \<or> gw_kind g = kind) (gateway_connections w)))"

definition new_gateway :: "string \<Rightarrow> string \<Rightarrow> gateway_connection" where
  "new_gateway name kind =
     \<lparr>gw_name = name, gw_kind = kind, gw_status = ''disabled'', gw_endpoint = '''', gw_config = [],
      gw_enabled = False, gw_last_inbound_at = None, gw_last_outbound_at = None, gw_last_heartbeat_at = None,
      gw_instance_id = '''', gw_version = '''', gw_capabilities = [], gw_last_error = '''',
      gw_inbound_count = 0, gw_outbound_count = 0, gw_failure_count = 0\<rparr>"

definition upsert_gateway ::
  "bool \<Rightarrow> string \<Rightarrow> string \<Rightarrow> string \<Rightarrow> dict \<Rightarrow> bool \<Rightarrow> string \<Rightarrow> world \<Rightarrow> (exc + string) \<times> world" where
  "upsert_gateway ev name kind endpoint config enabled status w =
     (if kind \<notin> {''weixin'', ''wecom'', ''telegram'', ''slack'', ''webhook'', ''local''}
      then (Inl (ValueError ''unsupported gateway kind''), w)
      else
        let w0 = (if get_gateway w name = None
                  then gateway_connections_update (\<lambda>gs. gs @ [new_gateway name kind]) w else w);
            f = (\<lambda>g. let g1 = g\<lparr>gw_kind := kind, gw_endpoint := endpoint, gw_config := config, gw_enabled := enabled,
                         gw_status := str_or status (if enabled then ''enabled'' else ''disabled'')\<rparr>
                     in if enabled then g1 else g1\<lparr>gw_status := ''disabled'', gw_last_error := ''''\<rparr>);
            shown = [(''kind'', JStr kind), (''enabled'', JBool enabled)]
        in (Inr name,
            audit ev ''gateway.upsert'' ''gateway'' name shown
              (emit ev ''gateway.upsert'' ((''name'', JStr name) # shown) (upd_gateway name f w0))))"

section \<open>Facts\<close>

lemma get_approval_upd:
  "(\<And>a. ap_id (f a) = ap_id a) \<Longrightarrow>
     get_approval (upd_approval k f w) k' = (if k' = k then map_option f (get_approval w k) else get_approval w k')"
  unfolding get_approval_def upd_approval_def by (rule approvals_tab.look_modify)

lemma get_approval_bus [simp]:
  "get_approval (emit_full on t p sv se tu w) i = get_approval w i"
  "get_approval (audit on a tt ti p w) i = get_approval w i"
  by (simp_all add: get_approval_def)

lemma get_mcp_bus [simp]:
  "get_mcp (emit_full on t p sv se tu w) n = get_mcp w n"
  "get_mcp (audit on a tt ti p w) n = get_mcp w n"
  by (simp_all add: get_mcp_def)

lemma name_write_mcp [simp]: "mcp_name (write_mcp q s) = mcp_name s"
  by (simp add: write_mcp_def Let_def)

lemma upsert_mcp_row:
  assumes "upsert_mcp_server ev q w = (Inr r, w')"
  shows "get_mcp w' n = (if n = mq_name q
      then Some (write_mcp q (case get_mcp w n of None \<Rightarrow> new_mcp n | Some s \<Rightarrow> s)) else get_mcp w n)"
proof -
  let ?n = "mq_name q"
  define w0 where "w0 = (if get_mcp w ?n = None then mcp_servers_update (\<lambda>ss. ss @ [new_mcp ?n]) w else w)"
  have g0: "get_mcp w0 k = (if k = ?n then Some (case get_mcp w ?n of None \<Rightarrow> new_mcp ?n | Some s \<Rightarrow> s) else get_mcp w k)" for k
    by (auto simp: w0_def get_mcp_def get_row_append new_mcp_def split: option.splits)
  have "get_mcp w' n = get_mcp (mcp_servers_update (upd_row mcp_name ?n (write_mcp q)) w0) n"
    using assms by (auto simp: upsert_mcp_server_def w0_def Let_def split: option.splits)
  also have "\<dots> = (if n = ?n then map_option (write_mcp q) (get_mcp w0 ?n) else get_mcp w0 n)"
    unfolding get_mcp_def by (rule mcp_tab.look_modify) simp
  finally show ?thesis by (auto simp: g0)
qed

lemma seed_loop_owned:
  assumes "get_mcp w n = Some s" and "\<not> startswith (mcp_config_source s) ''yaml:''"
  shows "seed_loop sha ev path servers i k w = (r, w') \<Longrightarrow> get_mcp w' n = Some s"
  using assms(1)
proof (induction servers arbitrary: i k w)
  case (Cons x servers)
  obtain name v where x: "x = (name, v)" by fastforce
  show ?case
  proof (cases "\<exists>raw. v = JObj raw \<and> \<not> seed_skips sha name raw w")
    case True
    then obtain raw where raw: "v = JObj raw" "\<not> seed_skips sha name raw w" by blast
    then have ne: "name \<noteq> n" using Cons(3) assms(2) by (auto simp: seed_skips_def)
    obtain r1 w1 where u: "upsert_mcp_server ev (seed_request sha path name raw) w = (r1, w1)" by fastforce
    have "get_mcp w1 n = Some s"
    proof (cases r1)
      case (Inl e)
      then show ?thesis using u Cons(3) by (auto simp: upsert_mcp_server_def Let_def split: option.splits)
    next
      case (Inr m)
      then show ?thesis using upsert_mcp_row [of ev "seed_request sha path name raw" w m w1 n] u ne Cons(3)
        by (simp add: seed_request_def Let_def)
    qed
    then show ?thesis using Cons(1,2) u raw by (cases r1) (auto simp: x)
  next
    case False
    then have "\<exists>i k. seed_loop sha ev path servers i k w = (r, w')"
      using Cons(2) by (auto simp: x split: json.splits)
    then show ?thesis using Cons(1,3) by blast
  qed
qed simp

text \<open>After a loop that ended well, every entry of the file that is a mapping is one the next run
  skips.\<close>

lemma seed_loop_keeps_skips:
  assumes "seed_loop sha ev path servers i k w = (Inr c, w')" and "name \<notin> fst ` set servers"
  shows "get_mcp w' name = get_mcp w name"
  using assms
proof (induction servers arbitrary: i k w)
  case (Cons x servers)
  obtain n v where x: "x = (n, v)" by fastforce
  show ?case
  proof (cases "\<exists>raw. v = JObj raw \<and> \<not> seed_skips sha n raw w")
    case True
    then obtain raw where raw: "v = JObj raw" "\<not> seed_skips sha n raw w" by blast
    then obtain r1 w1 where u: "upsert_mcp_server ev (seed_request sha path n raw) w = (Inr r1, w1)"
      and l: "seed_loop sha ev path servers (i + 1) k w1 = (Inr c, w')"
      using Cons(2) by (auto simp: x split: prod.splits sum.splits)
    then show ?thesis
      using Cons(1) [OF l] Cons(3) upsert_mcp_row [OF u, of name] by (simp add: x seed_request_def Let_def)
  next
    case False
    then have "\<exists>i k. seed_loop sha ev path servers i k w = (Inr c, w')"
      using Cons(2) by (auto simp: x split: json.splits)
    then show ?thesis using Cons(1,3) by auto
  qed
qed simp

lemma seed_loop_then_skips:
  assumes "seed_loop sha ev path servers i k w = (Inr c, w')" and "distinct (map fst servers)"
    and "(name, JObj raw) \<in> set servers"
  shows "seed_skips sha name raw w'"
  using assms
proof (induction servers arbitrary: i k w)
  case (Cons x servers)
  obtain n v where x: "x = (n, v)" by fastforce
  consider (here) "name = n" "v = JObj raw" | (later) "(name, JObj raw) \<in> set servers"
    using Cons(4) by (auto simp: x)
  then show ?case
  proof cases
    case here
    have out: "name \<notin> fst ` set servers" using Cons(3) here by (auto simp: x)
    show ?thesis
    proof (cases "seed_skips sha n raw w")
      case True
      then have "seed_loop sha ev path servers i (k + 1) w = (Inr c, w')" using Cons(2) here by (simp add: x)
      then show ?thesis using seed_loop_keeps_skips [OF _ out] True here by (simp add: seed_skips_def)
    next
      case False
      then obtain r1 w1 where u: "upsert_mcp_server ev (seed_request sha path n raw) w = (Inr r1, w1)"
        and l: "seed_loop sha ev path servers (i + 1) k w1 = (Inr c, w')"
        using Cons(2) here by (auto simp: x split: prod.splits sum.splits)
      have "get_mcp w' n = get_mcp w1 n" using seed_loop_keeps_skips [OF l out] here by simp
      then show ?thesis
        using upsert_mcp_row [OF u, of n] here
        by (simp add: seed_skips_def seed_request_def write_mcp_def str_or_def Let_def)
    qed
  next
    case later
    obtain i' k' w1 where "seed_loop sha ev path servers i' k' w1 = (Inr c, w')"
      using Cons(2) by (auto simp: x split: json.splits if_splits prod.splits sum.splits)
    then show ?thesis using Cons(1,3) later by auto
  qed
qed simp

lemma seed_loop_all_skipped:
  assumes "\<And>name raw. (name, JObj raw) \<in> set servers \<Longrightarrow> seed_skips sha name raw w"
  shows "seed_loop sha ev path servers i k w = (Inr (i, k + int (length servers)), w)"
  using assms
proof (induction servers arbitrary: k)
  case (Cons x servers)
  obtain n v where x: "x = (n, v)" by fastforce
  have "seed_loop sha ev path (x # servers) i k w = seed_loop sha ev path servers i (k + 1) w"
    using Cons(2) by (cases v) (auto simp: x)
  also have "\<dots> = (Inr (i, k + 1 + int (length servers)), w)" by (rule Cons(1)) (use Cons(2) in auto)
  finally show ?case by simp
qed simp

section \<open>Properties\<close>

text \<open>Importing the MCP seed file never touches a server that an operator owns: whatever the file
  holds and wherever the import stops, a server whose configuration does not come from a YAML file is
  exactly as it was.\<close>

theorem seed_import_keeps_operator_servers:
  assumes "get_mcp w n = Some s" and "\<not> startswith (mcp_config_source s) ''yaml:''"
    and "import_mcp_seed sha ev path doc w = (r, w')"
  shows "get_mcp w' n = Some s"
  using assms(3) seed_loop_owned [OF assms(1,2)] assms(1)
  by (auto simp: import_mcp_seed_def split: option.splits json.splits prod.splits sum.splits)

definition operator_world :: world where
  "operator_world = empty_world\<lparr>mcp_servers := [(new_mcp ''fs'')\<lparr>mcp_command := ''mcp-fs''\<rparr>]\<rparr>"

definition sample_seed :: json where
  "sample_seed = JObj [(''servers'', JObj
     [(''fs'', JObj [(''command'', JStr ''evil'')]), (''web'', JObj [(''transport'', JStr ''http''), (''url'', JStr ''http://x'')])])]"

theorem seed_import_keeps_operator_servers_witness:
  "get_mcp (snd (import_mcp_seed id True ''mcp.yaml'' (Some sample_seed) operator_world)) ''fs''
     = Some ((new_mcp ''fs'')\<lparr>mcp_command := ''mcp-fs''\<rparr>)"
  by (rule seed_import_keeps_operator_servers [where w = operator_world and doc = "Some sample_seed" and sha = id
        and ev = True and path = "''mcp.yaml''"
        and r = "fst (import_mcp_seed id True ''mcp.yaml'' (Some sample_seed) operator_world)"]) (code_simp, code_simp, simp)

text \<open>Importing the same seed file again changes no server: after an import that succeeded every entry is
  skipped, none is imported, and the table of servers stays as it is.\<close>

theorem seed_import_idempotent:
  assumes "import_mcp_seed sha ev path (Some (JObj [(''servers'', JObj servers)])) w = (Inr res, w')"
    and "distinct (map fst servers)"
  shows "\<exists>w''. import_mcp_seed sha ev path (Some (JObj [(''servers'', JObj servers)])) w' =
      (Inr [(''path'', JStr path), (''imported'', JInt 0), (''skipped'', JInt (int (length servers))),
            (''missing'', JBool False)], w'')
    \<and> mcp_servers w'' = mcp_servers w'"
proof -
  obtain c w1 where l: "seed_loop sha ev path servers 0 0 w = (Inr c, w1)" and e: "mcp_servers w' = mcp_servers w1"
    using assms(1) by (auto simp: import_mcp_seed_def py_or_def dget_def split: prod.splits sum.splits)
  have "seed_skips sha name raw w'" if "(name, JObj raw) \<in> set servers" for name raw
    using seed_loop_then_skips [OF l assms(2) that] e by (simp add: seed_skips_def get_mcp_def)
  then have "seed_loop sha ev path servers 0 0 w' = (Inr (0, 0 + int (length servers)), w')"
    by (rule seed_loop_all_skipped)
  then show ?thesis by (simp add: import_mcp_seed_def py_or_def dget_def)
qed

theorem seed_import_idempotent_witness:
  "\<exists>w''. import_mcp_seed id True ''m'' (Some (JObj [(''servers'', JObj [(''web'', JObj [(''transport'', JStr ''http''), (''url'', JStr ''http://x'')])])]))
      (snd (import_mcp_seed id True ''m'' (Some (JObj [(''servers'', JObj [(''web'', JObj [(''transport'', JStr ''http''), (''url'', JStr ''http://x'')])])])) empty_world))
    = (Inr [(''path'', JStr ''m''), (''imported'', JInt 0), (''skipped'', JInt 1), (''missing'', JBool False)], w'')"
proof -
  let ?s = "[(''web'', JObj [(''transport'', JStr ''http''), (''url'', JStr ''http://x'')])]"
  let ?i = "import_mcp_seed id True ''m'' (Some (JObj [(''servers'', JObj ?s)])) empty_world"
  have "?i = (Inr [(''path'', JStr ''m''), (''imported'', JInt 1), (''skipped'', JInt 0), (''missing'', JBool False)], snd ?i)"
    by code_simp
  from seed_import_idempotent [OF this] show ?thesis by auto
qed

text \<open>A stored MCP server can be started: after an upsert that succeeded the server has a supported
  transport and session mode, a command if it is a \<open>stdio\<close> server and a URL otherwise; a disabled server
  offers no tools; every other server is untouched.\<close>

theorem upsert_mcp_startable:
  assumes "upsert_mcp_server ev q w = (Inr r, w')"
  shows "\<exists>s. get_mcp w' (mq_name q) = Some s
    \<and> mcp_transport s \<in> {''stdio'', ''sse'', ''streamable_http'', ''http''}
    \<and> mcp_session_mode s \<in> {''transient'', ''managed''}
    \<and> (mcp_transport s = ''stdio'' \<longrightarrow> mcp_command s \<noteq> []) \<and> (mcp_transport s \<noteq> ''stdio'' \<longrightarrow> mcp_url s \<noteq> [])
    \<and> (\<not> mcp_enabled s \<longrightarrow> mcp_status s = ''disabled'' \<and> mcp_tools_cache s = [] \<and> mcp_tool_count s = 0)
    \<and> (\<forall>n. n \<noteq> mq_name q \<longrightarrow> get_mcp w' n = get_mcp w n)"
proof -
  have "mcp_error q = None" using assms by (auto simp: upsert_mcp_server_def split: option.splits)
  then have "mq_transport q \<in> {''stdio'', ''sse'', ''streamable_http'', ''http''}"
    "mq_session_mode q \<in> {''transient'', ''managed''}"
    "mq_transport q = ''stdio'' \<longrightarrow> mq_command q \<noteq> []" "mq_transport q \<noteq> ''stdio'' \<longrightarrow> mq_url q \<noteq> []"
    by (auto simp: mcp_error_def split: if_splits)
  then show ?thesis using upsert_mcp_row [OF assms] by (simp add: write_mcp_def Let_def)
qed

theorem upsert_mcp_startable_witness:
  "\<exists>s. get_mcp (snd (upsert_mcp_server True (seed_request id ''m'' ''web'' [(''transport'', JStr ''http''), (''url'', JStr ''http://x'')]) empty_world)) ''web'' = Some s
    \<and> mcp_url s \<noteq> []"
proof -
  let ?q = "seed_request id ''m'' ''web'' [(''transport'', JStr ''http''), (''url'', JStr ''http://x'')]"
  have u: "upsert_mcp_server True ?q empty_world = (Inr ''web'', snd (upsert_mcp_server True ?q empty_world))" by code_simp
  have n: "mq_name ?q = ''web''" by code_simp
  have "mcp_transport (the (get_mcp (snd (upsert_mcp_server True ?q empty_world)) ''web'')) = ''http''" by code_simp
  then show ?thesis using upsert_mcp_startable [OF u] unfolding n by auto
qed

text \<open>An approval is not final. Whatever its status (rejected and cancelled ones included) and however
  often it was resolved, resolving it again with one of the three statuses succeeds and overwrites it;
  every other approval stays as it was.\<close>

theorem resolve_approval_overwrites:
  assumes "get_approval w i = Some a" and "status \<in> {''approved'', ''rejected'', ''cancelled''}"
  shows "\<exists>w'. resolve_approval ev i now status w = (Inr i, w')
    \<and> get_approval w' i = Some (a\<lparr>ap_status := status, ap_resolved_at := Some now\<rparr>)
    \<and> (\<forall>k. k \<noteq> i \<longrightarrow> get_approval w' k = get_approval w k)"
  using assms by (auto simp: resolve_approval_def get_approval_upd)

theorem resolve_approval_overwrites_witness:
  "let w = snd (create_approval True ''p'' 1 ''tool_run'' ''r'' [] [] [] [] [] empty_world);
       w1 = snd (resolve_approval True ''p'' 2 ''rejected'' w)
   in \<exists>w'. resolve_approval True ''p'' 3 ''approved'' w1 = (Inr ''p'', w') \<and> map_option ap_status (get_approval w' ''p'') = Some ''approved''"
proof -
  let ?w = "snd (create_approval True ''p'' 1 ''tool_run'' ''r'' [] [] [] [] [] empty_world)"
  let ?w1 = "snd (resolve_approval True ''p'' 2 ''rejected'' ?w)"
  have "get_approval ?w1 ''p'' = Some (the (get_approval ?w1 ''p''))" by code_simp
  from resolve_approval_overwrites [OF this, of "''approved''" True 3] show ?thesis by auto
qed

end
