(* ===== verification/A2A.thy ===== *)
theory A2A
  imports Resilience
begin

text \<open>
  Agent-to-agent delegation: the repository of connections, tasks, artifacts and events
  (\<open>A2AService\<close> of \<open>backend/domain/a2a.py\<close>) and the parts of the orchestration runtime
  (\<open>A2ARuntimeManager\<close> of \<open>backend/runtime/a2a.py\<close>) that decide about approval, select a connection
  and translate between the states and messages of the protocol and the local ones.

  Fresh identifiers (\<open>uuid4().hex\<close>) and instants are arguments. An operation that raises returns the
  state with the writes made before; the caller's session decides about the rollback.
\<close>

section \<open>Agent cards\<close>

definition skills_from_card :: "dict \<Rightarrow> dict list" where
  "skills_from_card agent_card =
     concat (map (\<lambda>v. case v of JObj d \<Rightarrow> [d] | _ \<Rightarrow> []) (list_or_empty (dget ''skills'' agent_card)))"

fun skill_tokens :: "dict list \<Rightarrow> exc + string list" where
  "skill_tokens [] = Inr []"
| "skill_tokens (sk # sks) =
     (case py_iter (py_or (dget ''tags'' sk) (JList [])) of
        Inl e \<Rightarrow> Inl e
      | Inr tags \<Rightarrow>
          (case skill_tokens sks of
             Inl e \<Rightarrow> Inl e
           | Inr rest \<Rightarrow> Inr (map py_str tags @
               (if truthy (dget ''id'' sk) then [py_str (dget ''id'' sk)] else []) @
               (if truthy (dget ''name'' sk)
                then [replace_char CHR '' '' ''-'' (py_lower (py_str (dget ''name'' sk)))] else []) @ rest)))"

definition capabilities_from_card :: "dict \<Rightarrow> exc + string list" where
  "capabilities_from_card agent_card =
     (let own = map fst (filter (\<lambda>(k, v). truthy v) (dict_or_empty (dget ''capabilities'' agent_card)))
      in map_sum id (\<lambda>ts. sort (remdups (own @ ts))) (skill_tokens (skills_from_card agent_card)))"

section \<open>Connections\<close>

definition get_a2a_conn :: "world \<Rightarrow> string \<Rightarrow> a2a_connection option" where
  "get_a2a_conn w name = get_row ac_name name (a2a_connections w)"

definition upd_a2a_conn :: "string \<Rightarrow> (a2a_connection \<Rightarrow> a2a_connection) \<Rightarrow> world \<Rightarrow> world" where
  "upd_a2a_conn name f w = a2a_connections_update (upd_row ac_name name f) w"

definition new_a2a_conn :: "string \<Rightarrow> a2a_connection" where
  "new_a2a_conn name =
     \<lparr>ac_name = name, ac_kind = ''a2a'', ac_endpoint = '''', ac_rpc_url = '''', ac_agent_card = [],
      ac_config = [], ac_enabled = True, ac_status = ''pending'', ac_capabilities = [], ac_skills = [],
      ac_last_discovered_at = None, ac_last_error = ''''\<rparr>"

record a2a_conn_request =
  cq_name :: string
  cq_kind :: string
  cq_endpoint :: string
  cq_rpc_url :: string
  cq_agent_card :: dict
  cq_config :: dict
  cq_enabled :: bool
  cq_status :: string
  cq_capabilities :: "string list"
  cq_skills :: "dict list"

definition upsert_connection ::
  "bool \<Rightarrow> a2a_conn_request \<Rightarrow> world \<Rightarrow> (exc + string) \<times> world" where
  "upsert_connection ev q w =
     (let name = py_strip (cq_name q) in
      if name = [] then (Inl (ValueError ''A2A connection name is required''), w)
      else if cq_kind q \<noteq> ''a2a'' then (Inl (ValueError ''unsupported A2A connection kind''), w)
      else if cq_endpoint q = [] \<and> cq_rpc_url q = []
      then (Inl (ValueError ''A2A connection requires endpoint or rpc_url''), w)
      else
        let old = (case get_a2a_conn w name of None \<Rightarrow> new_a2a_conn name | Some c \<Rightarrow> c);
            w0 = (if get_a2a_conn w name = None then a2a_connections_update (\<lambda>cs. cs @ [old]) w else w);
            agent_card = (if cq_agent_card q \<noteq> [] then cq_agent_card q else ac_agent_card old);
            w1 = upd_a2a_conn name (\<lambda>c. c\<lparr>ac_kind := cq_kind q,
                   ac_endpoint := rstrip_of (\<lambda>x. x = CHR ''/'') (cq_endpoint q),
                   ac_rpc_url := cq_rpc_url q, ac_agent_card := agent_card, ac_config := cq_config q,
                   ac_enabled := cq_enabled q,
                   ac_status := str_or (cq_status q) (if cq_enabled q then ''pending'' else ''disabled'')\<rparr>) w0;
            shown = [(''kind'', JStr (cq_kind q)), (''enabled'', JBool (cq_enabled q))]
        in case (if cq_capabilities q \<noteq> [] then Inr (cq_capabilities q) else capabilities_from_card agent_card) of
             Inl e \<Rightarrow> (Inl e, w1)
           | Inr caps \<Rightarrow>
               (Inr name,
                audit ev ''a2a.connection.upsert'' ''a2a_connection'' name shown
                  (emit ev ''a2a.connection.upserted'' ((''name'', JStr name) # shown)
                    (upd_a2a_conn name (\<lambda>c.
                       let c1 = c\<lparr>ac_capabilities := caps,
                             ac_skills := (if cq_skills q \<noteq> [] then cq_skills q else skills_from_card agent_card)\<rparr>
                       in if cq_enabled q then c1 else c1\<lparr>ac_status := ''disabled'', ac_last_error := ''''\<rparr>) w1))))"

definition update_discovery ::
  "bool \<Rightarrow> instant \<Rightarrow> string \<Rightarrow> dict \<Rightarrow> string \<Rightarrow> string \<Rightarrow> string \<Rightarrow> world \<Rightarrow> (exc + string) \<times> world" where
  "update_discovery ev now name agent_card rpc_url status error w =
     (let w1 = upd_a2a_conn name (\<lambda>c. c\<lparr>ac_agent_card := agent_card, ac_rpc_url := str_or rpc_url (ac_rpc_url c)\<rparr>) w
      in case capabilities_from_card agent_card of
           Inl e \<Rightarrow> (Inl e, w1)
         | Inr caps \<Rightarrow>
             (Inr name,
              emit_full ev ''a2a.connection.discovered''
                [(''name'', JStr name), (''status'', JStr status),
                 (''skills'', JInt (int (length (skills_from_card agent_card))))]
                (if error \<noteq> [] then ''warning'' else ''info'') '''' ''''
                (upd_a2a_conn name (\<lambda>c. c\<lparr>ac_capabilities := caps, ac_skills := skills_from_card agent_card,
                   ac_status := status, ac_last_error := error, ac_last_discovered_at := Some now\<rparr>) w1)))"

definition list_connections :: "bool option \<Rightarrow> string \<Rightarrow> int \<Rightarrow> world \<Rightarrow> a2a_connection list" where
  "list_connections enabled kind limit w =
     take (clamp_limit 500 limit)
       (sort_key ac_name
         (filter (\<lambda>c. (case enabled of None \<Rightarrow> True | Some b \<Rightarrow> ac_enabled c = b) \<and> (kind = [] \<or> ac_kind c = kind))
           (a2a_connections w)))"

section \<open>Events\<close>

text \<open>\<open>order_by(desc(sequence)).limit(1)\<close>: the highest sequence number of the task, \<open>None\<close> without events.\<close>

definition task_events :: "world \<Rightarrow> string \<Rightarrow> a2a_event list" where
  "task_events w task_id = filter (\<lambda>e. av_task_id e = task_id) (a2a_events w)"

definition latest_sequence :: "world \<Rightarrow> string \<Rightarrow> int option" where
  "latest_sequence w task_id =
     (case map av_sequence (task_events w task_id) of [] \<Rightarrow> None | s # ss \<Rightarrow> Some (fold max ss s))"

definition add_event :: "string \<Rightarrow> string \<Rightarrow> dict \<Rightarrow> world \<Rightarrow> world" where
  "add_event task_id event_type payload w =
     w\<lparr>a2a_events := a2a_events w @
        [\<lparr>av_task_id = task_id, av_event_type = event_type,
          av_sequence = (case latest_sequence w task_id of None \<Rightarrow> 1 | Some s \<Rightarrow> s + 1),
          av_payload = payload\<rparr>]\<rparr>"

definition list_events :: "string \<Rightarrow> int \<Rightarrow> int \<Rightarrow> world \<Rightarrow> a2a_event list" where
  "list_events task_id after_sequence limit w =
     take (clamp_limit 1000 limit)
       (sort_key av_sequence (filter (\<lambda>e. av_task_id e = task_id \<and> av_sequence e > after_sequence) (a2a_events w)))"

section \<open>Tasks\<close>

definition TERMINAL_TASK_STATES :: "string list" where
  "TERMINAL_TASK_STATES = [''completed'', ''failed'', ''canceled'', ''rejected'']"

definition PAUSED_TASK_STATES :: "string list" where
  "PAUSED_TASK_STATES = [''input-required'']"

definition get_task :: "world \<Rightarrow> string \<Rightarrow> a2a_task option" where
  "get_task w task_id = get_row at_task_id task_id (a2a_tasks w)"

definition upd_task :: "string \<Rightarrow> (a2a_task \<Rightarrow> a2a_task) \<Rightarrow> world \<Rightarrow> world" where
  "upd_task task_id f w = a2a_tasks_update (upd_row at_task_id task_id f) w"

definition new_task :: "string \<Rightarrow> instant \<Rightarrow> string \<Rightarrow> string \<Rightarrow> string \<Rightarrow> string \<Rightarrow> dict \<Rightarrow> a2a_task" where
  "new_task tid now connection_name capability input_text context_id metadata =
     \<lparr>at_task_id = tid, at_connection_name = connection_name, at_capability = capability,
      at_context_id = context_id, at_remote_task_id = '''', at_remote_context_id = '''',
      at_status = ''submitted'', at_input_text = input_text, at_result = [], at_error = '''',
      at_metadata = metadata, at_created_at = now, at_started_at = None, at_finished_at = None\<rparr>"

text \<open>\<open>hex1\<close> and \<open>hex2\<close> are the two fresh identifiers \<open>uuid4().hex\<close> of the task and its context.\<close>

definition create_task ::
  "bool \<Rightarrow> string \<Rightarrow> string \<Rightarrow> instant \<Rightarrow> string \<Rightarrow> string \<Rightarrow> string \<Rightarrow> string \<Rightarrow> dict \<Rightarrow> string \<Rightarrow> world \<Rightarrow>
   string \<times> world" where
  "create_task ev hex1 hex2 now connection_name capability input_text context_id metadata task_id w =
     (let tid = str_or task_id (''a2a_task_'' @ hex1);
          shown = [(''connection'', JStr connection_name), (''capability'', JStr capability)]
      in (tid,
          audit ev ''a2a.task.create'' ''a2a_task'' tid shown
            (emit ev ''a2a.task.submitted'' ((''task_id'', JStr tid) # shown)
              (add_event tid ''task.submitted'' shown
                (a2a_tasks_update (\<lambda>ts. ts @
                  [new_task tid now connection_name capability input_text
                     (str_or context_id (''a2a_ctx_'' @ hex2)) metadata]) w)))))"

definition marked_task ::
  "instant \<Rightarrow> string \<Rightarrow> dict option \<Rightarrow> string \<Rightarrow> string \<Rightarrow> string \<Rightarrow> a2a_task \<Rightarrow> a2a_task" where
  "marked_task now status result error remote_task_id remote_context_id t =
     t\<lparr>at_status := status,
       at_remote_task_id := str_or remote_task_id (at_remote_task_id t),
       at_remote_context_id := str_or remote_context_id (at_remote_context_id t),
       at_result := (case result of None \<Rightarrow> at_result t | Some r \<Rightarrow> r),
       at_error := error,
       at_started_at := (if at_status t = ''submitted'' \<and> status \<in> {''working'', ''input-required''}
                           \<and> at_started_at t = None then Some now else at_started_at t),
       at_finished_at := (if status \<in> set TERMINAL_TASK_STATES then Some now else at_finished_at t)\<rparr>"

definition mark_task ::
  "bool \<Rightarrow> instant \<Rightarrow> string \<Rightarrow> string \<Rightarrow> dict option \<Rightarrow> string \<Rightarrow> string \<Rightarrow> string \<Rightarrow> world \<Rightarrow> world" where
  "mark_task ev now task_id status result error remote_task_id remote_context_id w =
     (let previous = (case get_task w task_id of None \<Rightarrow> '''' | Some t \<Rightarrow> at_status t)
      in emit_full ev ''a2a.task.status''
           [(''task_id'', JStr task_id), (''status'', JStr status), (''previous_status'', JStr previous)]
           (if status \<in> {''failed'', ''rejected''} then ''warning'' else ''info'') '''' ''''
           (add_event task_id (''task.'' @ status)
              [(''previous_status'', JStr previous), (''error'', JStr error),
               (''result'', JObj (case result of None \<Rightarrow> [] | Some r \<Rightarrow> r))]
              (upd_task task_id (marked_task now status result error remote_task_id remote_context_id) w)))"

definition get_task_by_any_id :: "world \<Rightarrow> string \<Rightarrow> a2a_task option" where
  "get_task_by_any_id w raw =
     (let i = py_strip raw in
      if i = [] then None
      else find (\<lambda>t. at_task_id t = i \<or> at_remote_task_id t = i \<or> at_remote_context_id t = i) (a2a_tasks w))"

definition list_tasks :: "string \<Rightarrow> string \<Rightarrow> int \<Rightarrow> world \<Rightarrow> a2a_task list" where
  "list_tasks status connection_name limit w =
     take (clamp_limit 500 limit)
       (sort_key (\<lambda>t. - at_created_at t)
         (filter (\<lambda>t. (status = [] \<or> at_status t = status) \<and> (connection_name = [] \<or> at_connection_name t = connection_name))
           (a2a_tasks w)))"

section \<open>Artifacts\<close>

definition add_artifact ::
  "string \<Rightarrow> instant \<Rightarrow> string \<Rightarrow> string \<Rightarrow> string \<Rightarrow> string \<Rightarrow> string \<Rightarrow> string \<Rightarrow> json list \<Rightarrow> dict \<Rightarrow> world \<Rightarrow>
   a2a_artifact \<times> world" where
  "add_artifact hex now task_id artifact_id name mime_type content uri parts metadata w =
     (let a = \<lparr>aa_task_id = task_id, aa_artifact_id = str_or artifact_id (''artifact_'' @ hex), aa_name = name,
               aa_mime_type = mime_type, aa_uri = uri, aa_content = content,
               aa_parts = (if parts \<noteq> [] then parts
                  else if content \<noteq> []
                  then [JObj [(''text'', JStr content), (''mediaType'', JStr (str_or mime_type ''text/plain''))]] else []),
               aa_metadata = metadata, aa_created_at = now\<rparr>
      in (a, add_event task_id ''artifact.updated''
               [(''artifact_id'', JStr (aa_artifact_id a)), (''name'', JStr name), (''mime_type'', JStr mime_type)]
               (w\<lparr>a2a_artifacts := a2a_artifacts w @ [a]\<rparr>)))"

definition list_artifacts :: "world \<Rightarrow> string \<Rightarrow> a2a_artifact list" where
  "list_artifacts w task_id = sort_key aa_created_at (filter (\<lambda>a. aa_task_id a = task_id) (a2a_artifacts w))"

section \<open>Protocol vocabulary\<close>

definition A2A_VERSION :: string where
  "A2A_VERSION = ''1.0''"

definition A2A_STATE_BY_LOCAL_STATUS :: "(string \<times> string) list" where
  "A2A_STATE_BY_LOCAL_STATUS =
     [(''submitted'', ''TASK_STATE_SUBMITTED''), (''working'', ''TASK_STATE_WORKING''),
      (''input-required'', ''TASK_STATE_INPUT_REQUIRED''), (''completed'', ''TASK_STATE_COMPLETED''),
      (''failed'', ''TASK_STATE_FAILED''), (''canceled'', ''TASK_STATE_CANCELED''),
      (''cancelled'', ''TASK_STATE_CANCELED''), (''rejected'', ''TASK_STATE_REJECTED''),
      (''auth-required'', ''TASK_STATE_AUTH_REQUIRED'')]"

definition A2A_LOCAL_STATUS_BY_STATE :: "(string \<times> string) list" where
  "A2A_LOCAL_STATUS_BY_STATE =
     [(''TASK_STATE_SUBMITTED'', ''submitted''), (''TASK_STATE_WORKING'', ''working''),
      (''TASK_STATE_INPUT_REQUIRED'', ''input-required''), (''TASK_STATE_COMPLETED'', ''completed''),
      (''TASK_STATE_FAILED'', ''failed''), (''TASK_STATE_CANCELED'', ''canceled''),
      (''TASK_STATE_CANCELLED'', ''canceled''), (''TASK_STATE_REJECTED'', ''rejected''),
      (''TASK_STATE_AUTH_REQUIRED'', ''auth-required'')]"

definition HIGH_RISK_CAPABILITIES :: "string list" where
  "HIGH_RISK_CAPABILITIES = [''code'', ''code-writing'', ''coding'', ''schedule'', ''calendar'',
     ''document-write'', ''write'', ''send'', ''external-write'']"

text \<open>\<open>str(d.get(k1) or d.get(k2) or ... or default)\<close>.\<close>

fun dget_any :: "string list \<Rightarrow> dict \<Rightarrow> json" where
  "dget_any [] d = JNull"
| "dget_any (k # ks) d = py_or (dget k d) (dget_any ks d)"

definition dstr_any :: "string list \<Rightarrow> string \<Rightarrow> dict \<Rightarrow> string" where
  "dstr_any ks df d = py_str (py_or (dget_any ks d) (JStr df))"

definition a2a_requires_approval :: "string \<Rightarrow> dict \<Rightarrow> bool" where
  "a2a_requires_approval capability options =
     (py_lower (py_strip (dstr_any [''risk'', ''risk_level''] '''' options)) \<in> {''high'', ''critical''} \<or>
      (\<exists>token \<in> set HIGH_RISK_CAPABILITIES. py_in token (py_lower (py_strip capability))))"

definition a2a_state :: "string \<Rightarrow> string" where
  "a2a_state status =
     (case map_of A2A_STATE_BY_LOCAL_STATUS
             (replace_char CHR ''_'' ''-'' (py_lower (py_strip (str_or status ''working'')))) of
        Some st \<Rightarrow> st | None \<Rightarrow> str_or status ''TASK_STATE_WORKING'')"

definition local_status_from_a2a_state :: "json \<Rightarrow> string" where
  "local_status_from_a2a_state st =
     (let raw = py_strip (py_str (py_or st (JStr ''''))) in
      if raw = [] then ''working''
      else case map_of A2A_LOCAL_STATUS_BY_STATE (replace_char CHR ''-'' ''_'' (py_upper raw)) of
        Some s \<Rightarrow> s
      | None \<Rightarrow>
          let low = replace_char CHR ''_'' ''-'' (py_lower raw)
          in str_or (removeprefix low ''task-state-'') ''working'')"

definition status_from_a2a_task :: "dict \<Rightarrow> string" where
  "status_from_a2a_task t =
     local_status_from_a2a_state
       (case dget ''status'' t of JObj st \<Rightarrow> dget ''state'' st | _ \<Rightarrow> JStr '''')"

definition settled_status :: "string \<Rightarrow> string" where
  "settled_status status =
     (if status \<in> set TERMINAL_TASK_STATES \<union> set PAUSED_TASK_STATES then status else ''working'')"

section \<open>Messages\<close>

definition a2a_message :: "string \<Rightarrow> string \<Rightarrow> json \<Rightarrow> string \<Rightarrow> string \<Rightarrow> dict \<Rightarrow> dict" where
  "a2a_message hex role body context_id task_id metadata =
     [(''messageId'', JStr (''msg_'' @ hex)),
      (''role'', JStr (if py_lower role = ''agent'' then ''ROLE_AGENT'' else ''ROLE_USER'')),
      (''parts'', JList [JObj [(''text'', body)]])] @
     (if context_id \<noteq> [] then [(''contextId'', JStr context_id)] else []) @
     (if task_id \<noteq> [] then [(''taskId'', JStr task_id)] else []) @
     (if metadata \<noteq> [] then [(''metadata'', JObj metadata)] else [])"

definition part_text :: "json \<Rightarrow> string list" where
  "part_text p = (case p of
     JObj d \<Rightarrow> (case dget ''text'' d of
        JStr s \<Rightarrow> [s]
      | _ \<Rightarrow> (case dget ''data'' d of JObj x \<Rightarrow> [json_dumps (JObj x)] | _ \<Rightarrow> []))
   | _ \<Rightarrow> [])"

definition text_from_parts :: "json \<Rightarrow> string" where
  "text_from_parts parts = (case parts of
     JList ps \<Rightarrow> py_strip (join [newline] (concat (map part_text ps))) | _ \<Rightarrow> '''')"

definition text_from_message :: "json \<Rightarrow> string" where
  "text_from_message m = (case m of JObj d \<Rightarrow> text_from_parts (dget ''parts'' d) | _ \<Rightarrow> '''')"

definition part_mime :: "json \<Rightarrow> string option" where
  "part_mime p = (case p of
     JObj d \<Rightarrow> (case dget ''mediaType'' d of
        JStr s \<Rightarrow> Some s
      | _ \<Rightarrow> (case dget ''file'' d of
          JObj f \<Rightarrow> (case dget ''mimeType'' f of JStr s \<Rightarrow> Some s | _ \<Rightarrow> None) | _ \<Rightarrow> None))
   | _ \<Rightarrow> None)"

definition mime_from_parts :: "json \<Rightarrow> string" where
  "mime_from_parts parts =
     (case concat (map (\<lambda>p. case part_mime p of None \<Rightarrow> [] | Some m \<Rightarrow> [m]) (list_or_empty parts)) of
        [] \<Rightarrow> ''text/plain'' | m # _ \<Rightarrow> m)"

definition artifact_parts :: "a2a_artifact \<Rightarrow> json list" where
  "artifact_parts a =
     (if aa_parts a \<noteq> [] then aa_parts a
      else if aa_content a \<noteq> []
      then [JObj [(''text'', JStr (aa_content a)), (''mediaType'', JStr (str_or (aa_mime_type a) ''text/plain''))]]
      else if aa_uri a \<noteq> []
      then [JObj [(''file'', JObj [(''uri'', JStr (aa_uri a)), (''mimeType'', JStr (aa_mime_type a))])]]
      else [])"

definition artifact_summary :: "a2a_artifact \<Rightarrow> dict" where
  "artifact_summary a =
     [(''artifact_id'', JStr (aa_artifact_id a)), (''name'', JStr (aa_name a)),
      (''mime_type'', JStr (aa_mime_type a)), (''uri'', JStr (aa_uri a)),
      (''content_length'', JInt (int (length (aa_content a))))]"

definition remote_ids_from_result :: "dict \<Rightarrow> string \<Rightarrow> string \<Rightarrow> string \<times> string" where
  "remote_ids_from_result result remote_task_id remote_context_id =
     (dstr_any [''id'', ''taskId'', ''task_id''] remote_task_id result,
      dstr_any [''contextId'', ''context_id''] remote_context_id result)"

definition first_nonempty :: "string list \<Rightarrow> string" where
  "first_nonempty ss = (case filter (\<lambda>s. s \<noteq> []) ss of [] \<Rightarrow> '''' | s # _ \<Rightarrow> s)"

definition answer_from_a2a_result :: "dict \<Rightarrow> string" where
  "answer_from_a2a_result result = first_nonempty
     ([text_from_message (dget ''message'' result),
       (case dget ''status'' result of JObj st \<Rightarrow> text_from_message (dget ''message'' st) | _ \<Rightarrow> '''')] @
      map (\<lambda>a. case a of JObj d \<Rightarrow> text_from_parts (dget ''parts'' d) | _ \<Rightarrow> '''')
        (rev (list_or_empty (dget ''artifacts'' result))))"

section \<open>Addresses and headers\<close>

abbreviation slash :: "char \<Rightarrow> bool" where
  "slash \<equiv> (\<lambda>c. c = CHR ''/'')"

definition agent_card_urls :: "a2a_connection \<Rightarrow> string list" where
  "agent_card_urls c =
     (let base = rstrip_of slash (str_or (ac_endpoint c) (ac_rpc_url c)) in
      if base = [] then []
      else if endswith base ''/.well-known/agent-card.json'' then [base]
      else [base @ ''/.well-known/agent-card.json''])"

definition advertised_url :: "json \<Rightarrow> string option" where
  "advertised_url v = (case v of
     JObj d \<Rightarrow>
       if truthy (dget ''url'' d)
          \<and> py_upper (dstr ''protocolBinding'' d) \<in> {''JSONRPC'', ''JSON-RPC''}
          \<and> dstr ''protocolVersion'' d = A2A_VERSION
       then Some (py_str (dget ''url'' d)) else None
   | _ \<Rightarrow> None)"

definition rpc_url_from_card :: "dict \<Rightarrow> exc + string" where
  "rpc_url_from_card agent_card =
     (case filter (\<lambda>v. advertised_url v \<noteq> None) (list_or_empty (dget ''supportedInterfaces'' agent_card)) of
        [] \<Rightarrow> Inl (RuntimeError ''Agent Card does not advertise an A2A 1.0 JSONRPC supported interface'')
      | v # _ \<Rightarrow> Inr (the (advertised_url v)))"

definition rpc_url_of :: "a2a_connection \<Rightarrow> string" where
  "rpc_url_of c = rstrip_of slash (str_or (ac_rpc_url c) (ac_endpoint c))"

definition a2a_headers :: "a2a_connection \<Rightarrow> (string \<times> string) list" where
  "a2a_headers c =
     (let config = ac_config c;
          h0 = dmerge [(''A2A-Version'', JStr A2A_VERSION)] (dict_or_empty (dget ''headers'' config));
          key = dstr ''internal_api_key'' config;
          h1 = (if key \<noteq> []
                then dsetdefault ''X-API-Key'' (JStr key) (dsetdefault ''Authorization'' (JStr (''Bearer '' @ key)) h0)
                else h0);
          user_header = dstr_any [''auth_user_header'', ''user_header''] '''' config;
          user_id = dstr ''user_id'' config;
          h2 = (if user_header \<noteq> [] \<and> user_id \<noteq> [] then dsetdefault user_header (JStr user_id) h1 else h1)
      in map (\<lambda>(k, v). (k, py_str v)) h2)"

definition merge_headers :: "(string \<times> string) list \<Rightarrow> (string \<times> string) list \<Rightarrow> (string \<times> string) list" where
  "merge_headers hs own = fold (\<lambda>(k, v). put_assoc k v) own hs"

definition stripped_strs :: "json list \<Rightarrow> string list" where
  "stripped_strs xs = filter (\<lambda>s. s \<noteq> []) (map (py_strip \<circ> py_str) xs)"

definition accepted_output_modes :: "a2a_connection \<Rightarrow> string list" where
  "accepted_output_modes c =
     (let configured = stripped_strs (list_or_empty (dget_any [''accepted_output_modes'', ''acceptedOutputModes''] (ac_config c)));
          modes = stripped_strs (list_or_empty (dget ''defaultOutputModes'' (ac_agent_card c)))
      in if configured \<noteq> [] then configured else if modes \<noteq> [] then modes
         else [''text/markdown'', ''text/html'', ''application/json'', ''text/plain''])"

definition supports_streaming :: "a2a_connection \<Rightarrow> bool" where
  "supports_streaming c =
     (let caps = dict_or_empty (dget ''capabilities'' (ac_agent_card c))
      in if dhas ''streaming'' caps then truthy (dget ''streaming'' caps) else True)"

definition looks_like_streaming_unsupported :: "string \<Rightarrow> bool" where
  "looks_like_streaming_unsupported m =
     (\<exists>token \<in> set [''sendstreamingmessage'', ''streaming'', ''method not found'', ''not supported'', ''-32601''].
        py_in token (py_lower m))"

section \<open>Selecting a connection\<close>

record delegate_request =
  dr_capability :: string
  dr_query :: string
  dr_context :: dict
  dr_files :: "json list"
  dr_options :: dict
  dr_connection_name :: string

definition require_connection :: "string \<Rightarrow> world \<Rightarrow> exc + a2a_connection" where
  "require_connection name w = (case get_a2a_conn w name of
     None \<Rightarrow> Inl (KeyError (''A2A connection not found: '' @ name))
   | Some c \<Rightarrow> if ac_enabled c then Inr c else Inl (RuntimeError (''A2A connection disabled: '' @ name)))"

fun skill_terms :: "dict list \<Rightarrow> exc + string list" where
  "skill_terms [] = Inr []"
| "skill_terms (sk # sks) =
     (case py_iter (py_or (dget ''tags'' sk) (JList [])) of
        Inl e \<Rightarrow> Inl e
      | Inr tags \<Rightarrow> map_sum id (\<lambda>rest. py_lower (dstr ''id'' sk) # py_lower (dstr ''name'' sk) #
          map (py_lower \<circ> py_str) tags @ rest) (skill_terms sks))"

definition term_matches :: "string \<Rightarrow> string \<Rightarrow> bool" where
  "term_matches capability token \<longleftrightarrow> token \<noteq> [] \<and> (py_in capability token \<or> py_in token capability)"

fun match_connection :: "string \<Rightarrow> a2a_connection list \<Rightarrow> (exc + a2a_connection option)" where
  "match_connection capability [] = Inr None"
| "match_connection capability (c # cs) =
     (case skill_terms (ac_skills c) of
        Inl e \<Rightarrow> Inl e
      | Inr terms \<Rightarrow>
          if capability \<noteq> [] \<and> list_ex (term_matches capability) (map py_lower (ac_capabilities c) @ terms)
          then Inr (Some c) else match_connection capability cs)"

definition select_connection :: "delegate_request \<Rightarrow> world \<Rightarrow> exc + a2a_connection" where
  "select_connection q w =
     (if dr_connection_name q \<noteq> [] then require_connection (dr_connection_name q) w
      else case match_connection (py_lower (py_strip (dr_capability q))) (list_connections (Some True) '''' 500 w) of
        Inl e \<Rightarrow> Inl e
      | Inr (Some c) \<Rightarrow> Inr c
      | Inr None \<Rightarrow> Inl (KeyError (''no enabled A2A connection matches capability: '' @ dr_capability q)))"

section \<open>The runtime\<close>

text \<open>
  \<open>A2ARuntimeManager\<close> works on the state of its resilience manager, whose world it is. Parameters:
  \<open>ae_now\<close> and \<open>ae_hex\<close> give the instants and fresh identifiers, each from the state in which it is
  drawn (and the place in the code, where one state draws several); \<open>ae_post url payload headers i\<close>
  is the outcome of the \<open>i\<close>-th HTTP attempt, the decoded body of a good response or the exception;
  \<open>ae_stream url payload headers\<close> is the sequence of server-sent events and the exception that ends
  it, if one does.
\<close>

record a2a_env =
  ae_now :: "world \<Rightarrow> instant"
  ae_hex :: "nat \<Rightarrow> world \<Rightarrow> string"
  ae_call_now :: instant
  ae_fail_now :: instant
  ae_unif :: "int \<Rightarrow> rat \<Rightarrow> rat \<Rightarrow> rat"
  ae_get :: "string \<Rightarrow> (string \<times> string) list \<Rightarrow> int \<Rightarrow> exc + json"
  ae_post :: "string \<Rightarrow> dict \<Rightarrow> (string \<times> string) list \<Rightarrow> int \<Rightarrow> exc + json"
  ae_stream :: "string \<Rightarrow> dict \<Rightarrow> (string \<times> string) list \<Rightarrow> dict list \<times> exc option"

definition a2a_policy :: resilience_policy where
  "a2a_policy = (default_policy ''a2a.http_jsonrpc'')\<lparr>rp_max_attempts := 3, rp_base_delay := 1 / 2,
     rp_max_delay := 6, rp_failure_threshold := 5, rp_recovery := 60\<rparr>"

abbreviation rs_with :: "resilience \<Rightarrow> world \<Rightarrow> resilience" where
  "rs_with s w \<equiv> s\<lparr>rs_world := w\<rparr>"

definition mark_now ::
  "a2a_env \<Rightarrow> string \<Rightarrow> string \<Rightarrow> dict option \<Rightarrow> string \<Rightarrow> string \<Rightarrow> string \<Rightarrow> world \<Rightarrow> world" where
  "mark_now env tid status result error rtid rcid w =
     mark_task True (ae_now env w) tid status result error rtid rcid w"

definition rpc_payload :: "a2a_env \<Rightarrow> string \<Rightarrow> dict \<Rightarrow> world \<Rightarrow> dict" where
  "rpc_payload env method params w =
     [(''jsonrpc'', JStr ''2.0''), (''id'', JStr (uuid_text (ae_hex env 0 w))), (''method'', JStr method),
      (''params'', JObj params)]"

definition call_jsonrpc ::
  "a2a_env \<Rightarrow> a2a_connection \<Rightarrow> string \<Rightarrow> dict \<Rightarrow> resilience \<Rightarrow> (exc + dict) \<times> resilience" where
  "call_jsonrpc env c method params s =
     (let payload = rpc_payload env method params (rs_world s);
          headers = merge_headers [(''Content-Type'', ''application/json'')] (a2a_headers c)
      in case call True True (ae_call_now env) (ae_fail_now env) (ae_unif env) a2a_policy
                (ae_post env (rpc_url_of c) payload headers) s of
           (Inl e, s1) \<Rightarrow> (Inl e, s1)
         | (Inr v, s1) \<Rightarrow>
             let data = (case v of JObj d \<Rightarrow> d | _ \<Rightarrow> [(''result'', v)])
             in if truthy (dget ''error'' data)
                then (Inl (RuntimeError (json_dumps (dget ''error'' data))), s1) else (Inr data, s1))"

definition persist_a2a_artifact :: "a2a_env \<Rightarrow> string \<Rightarrow> dict \<Rightarrow> world \<Rightarrow> a2a_artifact \<times> world" where
  "persist_a2a_artifact env tid artifact w =
     (let parts = list_or_empty (dget ''parts'' artifact)
      in add_artifact (ae_hex env 1 w) (ae_now env w) tid (dstr_any [''artifactId'', ''id''] '''' artifact)
           (dstr_or ''name'' ''A2A Artifact'' artifact) (mime_from_parts (JList parts))
           (text_from_parts (JList parts)) '''' parts (dict_or_empty (dget ''metadata'' artifact)) w)"

definition persist_task_artifacts :: "a2a_env \<Rightarrow> string \<Rightarrow> dict \<Rightarrow> world \<Rightarrow> world" where
  "persist_task_artifacts env tid remote w =
     fold (\<lambda>v w. case v of JObj a \<Rightarrow> snd (persist_a2a_artifact env tid a w) | _ \<Rightarrow> w)
       (list_or_empty (dget ''artifacts'' remote)) w"

definition artifact_summaries :: "world \<Rightarrow> string \<Rightarrow> json" where
  "artifact_summaries w tid = JList (map (JObj \<circ> artifact_summary) (list_artifacts w tid))"

subsection \<open>Streaming\<close>

record stream_state =
  st_remote_task_id :: string
  st_remote_context_id :: string
  st_status :: string
  st_answer :: string
  st_event_count :: int
  st_last_remote :: dict

definition stream_start :: stream_state where
  "stream_start = \<lparr>st_remote_task_id = '''', st_remote_context_id = '''', st_status = ''working'',
     st_answer = '''', st_event_count = 0, st_last_remote = []\<rparr>"

definition st_ids :: "dict \<Rightarrow> stream_state \<Rightarrow> stream_state" where
  "st_ids d t = (case remote_ids_from_result d (st_remote_task_id t) (st_remote_context_id t) of
     (a, b) \<Rightarrow> t\<lparr>st_remote_task_id := a, st_remote_context_id := b\<rparr>)"

text \<open>\<open>update.get("status", {}).get("message", {})\<close>, which raises on a status that is not a mapping.\<close>

definition update_message :: "dict \<Rightarrow> exc + json" where
  "update_message d = (case map_of d ''status'' of
     None \<Rightarrow> Inr (JObj [])
   | Some (JObj st) \<Rightarrow> Inr (case map_of st ''message'' of None \<Rightarrow> JObj [] | Some m \<Rightarrow> m)
   | Some _ \<Rightarrow> Inl (OtherError ''object has no attribute get''))"

definition stream_event ::
  "a2a_env \<Rightarrow> string \<Rightarrow> dict \<Rightarrow> stream_state \<Rightarrow> world \<Rightarrow> (exc + stream_state) \<times> world" where
  "stream_event env tid result t0 w =
     (let t = t0\<lparr>st_event_count := st_event_count t0 + 1, st_last_remote := result\<rparr> in
      if is_dict (dget ''task'' result)
      then let d = dict_or_empty (dget ''task'' result); t1 = st_ids d t
        in (Inr (t1\<lparr>st_status := str_or (status_from_a2a_task d) (st_status t1),
                   st_answer := str_or (answer_from_a2a_result d) (st_answer t1)\<rparr>),
            persist_task_artifacts env tid d (add_event tid ''a2a.task'' [(''remote'', JObj d)] w))
      else if is_dict (dget ''statusUpdate'' result)
      then let d = dict_or_empty (dget ''statusUpdate'' result); t1 = st_ids d t;
               t2 = t1\<lparr>st_status := str_or (status_from_a2a_task d) (st_status t1)\<rparr>
        in (case update_message d of
              Inl e \<Rightarrow> (Inl e, w)
            | Inr m \<Rightarrow> (Inr (t2\<lparr>st_answer := str_or (text_from_message m) (st_answer t2)\<rparr>),
                        add_event tid ''a2a.status_update'' [(''remote'', JObj d)] w))
      else if is_dict (dget ''artifactUpdate'' result)
      then let d = dict_or_empty (dget ''artifactUpdate'' result); t1 = st_ids d t;
               artifact = dict_or_empty (dget ''artifact'' d);
               (t2, w1) = (if artifact = [] then (t1, w)
                 else let p = persist_a2a_artifact env tid artifact w
                      in (t1\<lparr>st_answer := str_or (aa_content (fst p)) (st_answer t1)\<rparr>, snd p))
        in (Inr t2, add_event tid ''a2a.artifact_update'' [(''remote'', JObj d)] w1)
      else if is_dict (dget ''message'' result)
      then let d = dict_or_empty (dget ''message'' result); t1 = st_ids d t
        in (Inr (t1\<lparr>st_answer := str_or (text_from_message (JObj d)) (st_answer t1)\<rparr>),
            add_event tid ''a2a.message'' [(''remote'', JObj d)] w)
      else (Inr t, add_event tid ''a2a.event'' [(''remote'', JObj result)] w))"

text \<open>The envelope of one server-sent event (\<open>_call_jsonrpc_stream\<close>): an error raises, a result that is
  a mapping is yielded, anything else is skipped.\<close>

definition stream_result :: "dict \<Rightarrow> exc + dict option" where
  "stream_result event =
     (let envelope = (case dget ''data'' event of JObj d \<Rightarrow> d | _ \<Rightarrow> event)
      in if truthy (dget ''error'' envelope) then Inl (RuntimeError (json_dumps (dget ''error'' envelope)))
         else case dget ''result'' envelope of JObj r \<Rightarrow> Inr (Some r) | _ \<Rightarrow> Inr None)"

fun stream_loop ::
  "a2a_env \<Rightarrow> string \<Rightarrow> dict list \<Rightarrow> exc option \<Rightarrow> stream_state \<Rightarrow> world \<Rightarrow> (exc + stream_state) \<times> world" where
  "stream_loop env tid [] failure t w = (case failure of Some e \<Rightarrow> (Inl e, w) | None \<Rightarrow> (Inr t, w))"
| "stream_loop env tid (event # events) failure t w =
     (case stream_result event of
        Inl e \<Rightarrow> (Inl e, w)
      | Inr None \<Rightarrow> stream_loop env tid events failure t w
      | Inr (Some result) \<Rightarrow>
          (case stream_event env tid result t w of
             (Inl e, w1) \<Rightarrow> (Inl e, w1)
           | (Inr t1, w1) \<Rightarrow>
               let w2 = mark_now env tid (settled_status (st_status t1)) None ''''
                          (st_remote_task_id t1) (st_remote_context_id t1) w1
               in if st_status t1 \<in> set TERMINAL_TASK_STATES \<union> set PAUSED_TASK_STATES then (Inr t1, w2)
                  else stream_loop env tid events failure t1 w2))"

definition send_a2a_streaming_message ::
  "a2a_env \<Rightarrow> a2a_connection \<Rightarrow> string \<Rightarrow> dict \<Rightarrow> world \<Rightarrow> (exc + dict) \<times> world" where
  "send_a2a_streaming_message env c tid params w =
     (case ae_stream env (rpc_url_of c) (rpc_payload env ''SendStreamingMessage'' params w)
             (merge_headers [(''Accept'', ''text/event-stream''), (''Content-Type'', ''application/json'')] (a2a_headers c)) of
        (events, failure) \<Rightarrow>
          (case stream_loop env tid events failure stream_start w of
             (Inl e, w1) \<Rightarrow> (Inl e, w1)
           | (Inr t, w1) \<Rightarrow>
               let final_status = settled_status (st_status t);
                   w2 = mark_now env tid final_status
                     (Some [(''remote'', JObj (st_last_remote t)), (''answer'', JStr (st_answer t)),
                            (''events'', JInt (st_event_count t))]) ''''
                     (st_remote_task_id t) (st_remote_context_id t) w1
               in (Inr [(''task_id'', JStr tid), (''remote_task_id'', JStr (st_remote_task_id t)),
                        (''status'', JStr final_status), (''answer'', JStr (st_answer t)),
                        (''events'', JInt (st_event_count t)), (''remote'', JObj (st_last_remote t)),
                        (''artifacts'', artifact_summaries w2 tid)], w2)))"

subsection \<open>Sending, delegating, cancelling\<close>

definition message_params :: "a2a_env \<Rightarrow> a2a_connection \<Rightarrow> string \<Rightarrow> delegate_request \<Rightarrow> world \<Rightarrow> dict" where
  "message_params env c context_id q w =
     [(''message'', JObj (a2a_message (ae_hex env 2 w) ''user'' (JStr (dr_query q)) context_id ''''
         [(''capability'', JStr (dr_capability q)), (''context'', JObj (dr_context q)),
          (''files'', JList (dr_files q)), (''options'', JObj (dr_options q))])),
      (''configuration'', JObj [(''acceptedOutputModes'', JList (map JStr (accepted_output_modes c)))])]"

text \<open>The failures of a streaming request after which the message is sent again without streaming.\<close>

definition falls_back :: "exc \<Rightarrow> bool" where
  "falls_back e = (case e of
     HTTPStatusError _ code _ \<Rightarrow> code \<in> {400, 404, 405, 501}
   | _ \<Rightarrow> is_runtime_error e \<and> looks_like_streaming_unsupported (exc_str e))"

definition plain_result :: "dict \<Rightarrow> dict" where
  "plain_result response =
     (let result = (case dget ''result'' response of JObj r \<Rightarrow> r | v \<Rightarrow> [(''raw'', v)])
      in case dget ''task'' result of
           JObj t \<Rightarrow> t
         | _ \<Rightarrow> (case dget ''message'' result of JObj m \<Rightarrow> [(''message'', JObj m)] | _ \<Rightarrow> result))"

definition send_plain_message ::
  "a2a_env \<Rightarrow> a2a_connection \<Rightarrow> string \<Rightarrow> dict \<Rightarrow> resilience \<Rightarrow> (exc + dict) \<times> resilience" where
  "send_plain_message env c tid params s =
     (case call_jsonrpc env c ''SendMessage'' params s of
        (Inl e, s1) \<Rightarrow> (Inl e, s1)
      | (Inr response, s1) \<Rightarrow>
          let result = plain_result response;
              rtid = dstr_any [''id'', ''taskId''] '''' result; rcid = dstr ''contextId'' result;
              answer = answer_from_a2a_result result;
              final_status = settled_status (status_from_a2a_task result);
              w1 = persist_task_artifacts env tid result (rs_world s1);
              w2 = mark_now env tid final_status
                     (Some [(''remote'', JObj result), (''answer'', JStr answer)]) '''' rtid rcid w1
          in (Inr [(''task_id'', JStr tid), (''remote_task_id'', JStr rtid), (''status'', JStr final_status),
                   (''answer'', JStr answer), (''remote'', JObj result),
                   (''artifacts'', artifact_summaries w2 tid)], rs_with s1 w2))"

definition send_a2a_message ::
  "a2a_env \<Rightarrow> a2a_connection \<Rightarrow> string \<Rightarrow> delegate_request \<Rightarrow> resilience \<Rightarrow> (exc + dict) \<times> resilience" where
  "send_a2a_message env c tid q s =
     (let w = rs_world s;
          context_id = (case get_task w tid of None \<Rightarrow> '''' | Some t \<Rightarrow> at_context_id t);
          params = message_params env c context_id q w
      in if \<not> supports_streaming c then send_plain_message env c tid params s
         else case send_a2a_streaming_message env c tid params w of
           (Inr d, w1) \<Rightarrow> (Inr d, rs_with s w1)
         | (Inl e, w1) \<Rightarrow>
             if falls_back e
             then send_plain_message env c tid params
                    (rs_with s (add_event tid ''a2a.streaming_fallback''
                       [(''error'', JStr (exc_str e)), (''method'', JStr ''SendStreamingMessage'')] w1))
             else (Inl e, rs_with s w1))"

definition delegate :: "a2a_env \<Rightarrow> delegate_request \<Rightarrow> resilience \<Rightarrow> (exc + dict) \<times> resilience" where
  "delegate env q s =
     (let w = rs_world s in
      case select_connection q w of
        Inl e \<Rightarrow> (Inl e, s)
      | Inr c \<Rightarrow>
          (case create_task True (ae_hex env 3 w) (ae_hex env 4 w) (ae_now env w) (ac_name c) (dr_capability q)
                  (dr_query q)
                  (py_str (py_or (dget ''context_id'' (dr_context q))
                             (py_or (dget ''context_id'' (dr_options q)) (JStr ''''))))
                  [(''context'', JObj (dr_context q)), (''files'', JList (dr_files q)), (''options'', JObj (dr_options q))]
                  '''' w of
             (tid, w1) \<Rightarrow>
               (case send_a2a_message env c tid q (rs_with s (mark_now env tid ''working'' None '''' '''' '''' w1)) of
                  (Inr d, s2) \<Rightarrow> (Inr d, s2)
                | (Inl e, s2) \<Rightarrow>
                    (Inl e, rs_with s2 (mark_now env tid ''failed'' None (exc_str e) '''' '''' (rs_world s2))))))"

definition task_to_a2a :: "a2a_env \<Rightarrow> world \<Rightarrow> a2a_task \<Rightarrow> dict" where
  "task_to_a2a env w t =
     (let result = at_result t;
          pid = str_or (at_remote_task_id t) (at_task_id t);
          pcid = str_or (at_remote_context_id t) (at_context_id t);
          said = py_or (JStr (at_error t)) (py_or (dget ''answer'' result) (JStr ''''))
      in [(''id'', JStr pid), (''contextId'', JStr pcid),
          (''status'', JObj
            [(''state'', JStr (a2a_state (at_status t))), (''timestamp'', JStr (isoformat (ae_now env w))),
             (''message'', if truthy said then JObj (a2a_message (ae_hex env 5 w) ''agent'' said pcid pid []) else JNull)]),
          (''artifacts'', JList (map (\<lambda>a. JObj
            [(''artifactId'', JStr (aa_artifact_id a)), (''name'', JStr (aa_name a)),
             (''parts'', JList (artifact_parts a)), (''metadata'', JObj (aa_metadata a))])
            (list_artifacts w (at_task_id t)))),
          (''history'', JList
            (JObj (a2a_message (ae_hex env 6 w) ''user'' (JStr (at_input_text t)) pcid pid []) #
             (if truthy (dget ''answer'' result)
              then [JObj (a2a_message (ae_hex env 7 w) ''agent'' (JStr (py_str (dget ''answer'' result))) pcid pid [])]
              else []))),
          (''metadata'', JObj (dmerge
            [(''localTaskId'', JStr (at_task_id t)), (''connectionName'', JStr (at_connection_name t)),
             (''capability'', JStr (at_capability t))] (at_metadata t)))])"

definition cancel_task :: "a2a_env \<Rightarrow> string \<Rightarrow> resilience \<Rightarrow> (exc + dict) \<times> resilience" where
  "cancel_task env task_id s =
     (let w = rs_world s;
          answer = (\<lambda>w t. [(''ok'', JBool True), (''task'', JObj (task_to_a2a env w t))])
      in case get_task_by_any_id w task_id of
           None \<Rightarrow> (Inl (KeyError (''A2A task not found: '' @ task_id)), s)
         | Some t \<Rightarrow>
             if at_status t \<in> set TERMINAL_TASK_STATES then (Inr (answer w t), s)
             else
               (case (case get_a2a_conn w (at_connection_name t) of
                        Some c \<Rightarrow>
                          if at_remote_task_id t \<noteq> []
                          then call_jsonrpc env c ''CancelTask'' [(''id'', JStr (at_remote_task_id t))] s
                          else (Inr [], s)
                      | None \<Rightarrow> (Inr [], s)) of
                  (Inl e, s1) \<Rightarrow> (Inl e, s1)
                | (Inr d, s1) \<Rightarrow>
                    let now = ae_now env (rs_world s1);
                        w2 = mark_task True now (at_task_id t) ''canceled'' None '''' '''' '''' (rs_world s1)
                    in (Inr (answer w2 (marked_task now ''canceled'' None '''' '''' '''' t)), rs_with s1 w2)))"

text \<open>\<open>discover\<close>: the resilience policy fetches the card from each candidate address; an address that
  fails in any way is followed by the next, and when none is left the connection is marked failed.\<close>

fun discover_loop ::
  "a2a_env \<Rightarrow> a2a_connection \<Rightarrow> string list \<Rightarrow> string \<Rightarrow> resilience \<Rightarrow> (exc + dict) \<times> resilience" where
  "discover_loop env c [] last_error s =
     (case update_discovery True (ae_now env (rs_world s)) (ac_name c) (ac_agent_card c) '''' ''failed'' last_error (rs_world s) of
        (Inl e, w1) \<Rightarrow> (Inl e, rs_with s w1)
      | (Inr _, w1) \<Rightarrow>
          (Inl (RuntimeError (''A2A discovery failed for '' @ ac_name c @ '': '' @ last_error)), rs_with s w1))"
| "discover_loop env c (url # urls) last_error s =
     (case call True True (ae_call_now env) (ae_fail_now env) (ae_unif env) a2a_policy
             (ae_get env url (a2a_headers c)) s of
        (Inl e, s1) \<Rightarrow> discover_loop env c urls (exc_str e) s1
      | (Inr v, s1) \<Rightarrow>
          (case v of
             JObj agent_card \<Rightarrow>
               (case rpc_url_from_card agent_card of
                  Inl e \<Rightarrow> discover_loop env c urls (exc_str e) s1
                | Inr rpc \<Rightarrow>
                    (case update_discovery True (ae_now env (rs_world s1)) (ac_name c) agent_card rpc ''online'' '''' (rs_world s1) of
                       (Inr _, w2) \<Rightarrow> (Inr agent_card, rs_with s1 w2)
                     | (Inl e, w2) \<Rightarrow> discover_loop env (c\<lparr>ac_agent_card := agent_card\<rparr>) urls (exc_str e) (rs_with s1 w2)))
           | _ \<Rightarrow> discover_loop env c urls ''object has no attribute get'' s1))"

definition discover :: "a2a_env \<Rightarrow> string \<Rightarrow> resilience \<Rightarrow> (exc + dict) \<times> resilience" where
  "discover env name s = (case require_connection name (rs_world s) of
     Inl e \<Rightarrow> (Inl e, s)
   | Inr c \<Rightarrow> discover_loop env c (agent_card_urls c) '''' s)"

subsection \<open>The JSON-RPC endpoint\<close>

definition own_agent_card :: "string \<Rightarrow> string \<Rightarrow> int \<Rightarrow> dict" where
  "own_agent_card public_base_url host port =
     (let given = rstrip_of slash public_base_url;
          base = (if given = [] then ''http://'' @ host @ '':'' @ int_str port else given);
          strs = (\<lambda>xs. JList (map JStr xs))
      in [(''protocolVersion'', JStr A2A_VERSION), (''name'', JStr ''SoulClaw''),
          (''description'', JStr (''Local-first personal AI agent and A2A orchestrator for memory, Wiki, '' @
             ''skills, tools, and delegated multi-agent work.'')),
          (''url'', JStr (base @ ''/api/a2a'')),
          (''supportedInterfaces'', JList [JObj [(''protocolBinding'', JStr ''JSONRPC''),
             (''protocolVersion'', JStr A2A_VERSION), (''url'', JStr (base @ ''/api/a2a''))]]),
          (''provider'', JObj [(''organization'', JStr ''SoulClaw''), (''url'', JStr base)]),
          (''version'', JStr ''2.0.0''), (''documentationUrl'', JStr (base @ ''/'')),
          (''capabilities'', JObj [(''streaming'', JBool True), (''pushNotifications'', JBool False),
             (''extendedAgentCard'', JBool False)]),
          (''defaultInputModes'', strs [''text/plain'', ''application/json'']),
          (''defaultOutputModes'', strs [''text/plain'', ''text/markdown'', ''application/json'']),
          (''skills'', JList
            [JObj [(''id'', JStr ''orchestrate-agents''), (''name'', JStr ''Orchestrate Agents''),
               (''description'', JStr ''Route complex user tasks to configured A2A specialist agents.''),
               (''tags'', strs [''orchestration'', ''delegation'', ''multi-agent'']),
               (''inputModes'', strs [''text/plain'', ''application/json'']),
               (''outputModes'', strs [''application/json'', ''text/plain''])],
             JObj [(''id'', JStr ''deep-research''), (''name'', JStr ''Deep Research Delegation''),
               (''description'', JStr ''Delegate evidence-driven research to a configured A2A 1.0 DeepResearch agent such as SoulSearcher.''),
               (''tags'', strs [''research'', ''deep-research'', ''soulsearcher'']),
               (''inputModes'', strs [''text/plain'', ''application/json'']),
               (''outputModes'', strs [''text/markdown'', ''application/json''])]])])"

definition jsonrpc_error :: "json \<Rightarrow> int \<Rightarrow> string \<Rightarrow> dict" where
  "jsonrpc_error rid code m =
     [(''jsonrpc'', JStr ''2.0''), (''id'', rid),
      (''error'', JObj [(''code'', JInt code), (''message'', JStr m)])]"

definition task_from_params :: "dict \<Rightarrow> world \<Rightarrow> exc + a2a_task" where
  "task_from_params params w =
     (let i = dstr_any [''id'', ''taskId'', ''task_id''] '''' params
      in case get_task_by_any_id w i of
           None \<Rightarrow> Inl (KeyError (''A2A task not found: '' @ i)) | Some t \<Rightarrow> Inr t)"

definition request_from_params :: "dict \<Rightarrow> delegate_request" where
  "request_from_params params =
     (let message = (case dget ''message'' params of JObj m \<Rightarrow> m | _ \<Rightarrow> params);
          metadata = dict_or_empty (dget ''metadata'' message)
      in \<lparr>dr_capability = py_str (py_or (dget ''capability'' metadata)
             (py_or (dget ''capability'' params) (JStr ''deep-research''))),
          dr_query = text_from_message (JObj message),
          dr_context = dict_or_empty (dget ''context'' metadata), dr_files = list_or_empty (dget ''files'' metadata),
          dr_options = dict_or_empty (dget ''options'' metadata),
          dr_connection_name = py_str (py_or (dget ''connection_name'' metadata)
             (py_or (dget ''connection_name'' params) (JStr '''')))\<rparr>)"

definition jsonrpc_message_send :: "a2a_env \<Rightarrow> dict \<Rightarrow> resilience \<Rightarrow> (exc + dict) \<times> resilience" where
  "jsonrpc_message_send env params s =
     (case delegate env (request_from_params params) s of
        (Inl e, s1) \<Rightarrow> (Inl e, s1)
      | (Inr d, s1) \<Rightarrow>
          let tid = py_str (dget ''task_id'' d)
          in (case get_task (rs_world s1) tid of
                None \<Rightarrow> (Inl (KeyError (''A2A task not found: '' @ tid)), s1)
              | Some t \<Rightarrow> (Inr (task_to_a2a env (rs_world s1) t), s1)))"

definition jsonrpc_dispatch ::
  "a2a_env \<Rightarrow> dict \<Rightarrow> string \<Rightarrow> dict \<Rightarrow> resilience \<Rightarrow> (exc + json) option \<times> resilience" where
  "jsonrpc_dispatch env own method params s =
     (let w = rs_world s in
      if method \<in> {''SendMessage'', ''SendStreamingMessage''}
      then (case jsonrpc_message_send env params s of (r, s1) \<Rightarrow> (Some (map_sum id JObj r), s1))
      else if method = ''GetTask''
      then (Some (map_sum id (JObj \<circ> task_to_a2a env w) (task_from_params params w)), s)
      else if method = ''CancelTask''
      then (case task_from_params params w of
              Inl e \<Rightarrow> (Some (Inl e), s)
            | Inr t \<Rightarrow> (case cancel_task env (at_task_id t) s of
                (r, s1) \<Rightarrow> (Some (map_sum id (dget ''task'') r), s1)))
      else if method = ''SubscribeToTask''
      then (case task_from_params params w of
              Inl e \<Rightarrow> (Some (Inl e), s)
            | Inr t \<Rightarrow> (case py_int (py_or (dget_any [''afterSequence'', ''after_sequence''] params) (JInt 0)) of
                Inl e \<Rightarrow> (Some (Inl e), s)
              | Inr n \<Rightarrow> (Some (Inr (JObj
                  [(''task'', JObj (task_to_a2a env w t)),
                   (''events'', JList (map (\<lambda>e. JObj [(''type'', JStr (av_event_type e)),
                      (''sequence'', JInt (av_sequence e)), (''data'', JObj (av_payload e))])
                      (list_events (at_task_id t) n 200 w)))])), s)))
      else if method = ''ListTasks''
      then (case dint_or ''limit'' 100 params of
              Inl e \<Rightarrow> (Some (Inl e), s)
            | Inr n \<Rightarrow> (Some (Inr (JObj [(''tasks'', JList (map (JObj \<circ> task_to_a2a env w) (list_tasks '''' '''' n w)))])), s))
      else if method = ''GetExtendedAgentCard'' then (Some (Inr (JObj own)), s)
      else (None, s))"

definition rpc_error_code :: "exc \<Rightarrow> int" where
  "rpc_error_code e = (case e of KeyError _ \<Rightarrow> -32001 | _ \<Rightarrow> if is_permission_error e then -32003 else -32603)"

definition handle_jsonrpc :: "a2a_env \<Rightarrow> dict \<Rightarrow> dict \<Rightarrow> resilience \<Rightarrow> dict \<times> resilience" where
  "handle_jsonrpc env own payload s =
     (let rid = dget ''id'' payload; method = dstr ''method'' payload
      in case jsonrpc_dispatch env own method (dict_or_empty (dget ''params'' payload)) s of
           (None, s1) \<Rightarrow> (jsonrpc_error rid (-32601) (''method not found: '' @ method), s1)
         | (Some (Inl e), s1) \<Rightarrow> (jsonrpc_error rid (rpc_error_code e) (exc_str e), s1)
         | (Some (Inr v), s1) \<Rightarrow> ([(''jsonrpc'', JStr ''2.0''), (''id'', rid), (''result'', v)], s1))"

section \<open>Facts\<close>

subsection \<open>What the operations leave alone\<close>

lemma rs_world_frame [simp]:
  "rs_world (put_circuit n c s) = rs_world s" "rs_world (record_observability obs p st s) = rs_world s"
  by (simp_all add: put_circuit_def record_observability_def split: prod.splits)

lemma same_state_rs_emit: "same_state w (rs_world s) \<Longrightarrow> same_state w (rs_world (rs_emit ev t p sv s))"
  by (erule same_state_trans) (simp add: rs_emit_def same_state_emit(3) del: short_emits)

lemma same_state_record_failure:
  "same_state w (rs_world s) \<Longrightarrow> same_state w (rs_world (record_failure ev obs f p e s))"
  by (simp add: record_failure_def Let_def same_state_rs_emit)

lemma same_state_attempt_loop:
  "same_state w (rs_world s) \<Longrightarrow>
     same_state w (rs_world (snd (attempt_loop n ev obs f u p fn le a s)))"
  by (induction n ev obs f u p fn le a s rule: attempt_loop.induct)
     (auto simp: same_state_record_failure same_state_rs_emit split: option.split sum.split)

lemma same_state_call: "same_state (rs_world s) (rs_world (snd (call ev obs n f u p fn s)))"
  by (auto simp: call_def Let_def same_state_rs_emit same_state_attempt_loop split: option.split)

lemma same_state_a2a:
  assumes "same_state w w'"
  shows "a2a_tasks w' = a2a_tasks w" and "a2a_events w' = a2a_events w"
proof -
  have "a2a_tasks (w'\<lparr>runtime_events := [], audit_events := []\<rparr>) = a2a_tasks (w\<lparr>runtime_events := [], audit_events := []\<rparr>)"
    "a2a_events (w'\<lparr>runtime_events := [], audit_events := []\<rparr>) = a2a_events (w\<lparr>runtime_events := [], audit_events := []\<rparr>)"
    using assms by (simp_all only: same_state_def)
  then show "a2a_tasks w' = a2a_tasks w" and "a2a_events w' = a2a_events w" by simp_all
qed

text \<open>The part of a task no operation changes after its creation.\<close>

definition task_core :: "a2a_task \<Rightarrow> string \<times> string \<times> string \<times> string \<times> string \<times> dict \<times> instant" where
  "task_core t = (at_task_id t, at_connection_name t, at_capability t, at_context_id t, at_input_text t,
     at_metadata t, at_created_at t)"

definition cores :: "world \<Rightarrow> (string \<times> string \<times> string \<times> string \<times> string \<times> dict \<times> instant) list" where
  "cores w = map task_core (a2a_tasks w)"

lemma marked_task_core [simp]: "task_core (marked_task n st r e a b t) = task_core t"
  by (simp add: task_core_def marked_task_def)

lemma marked_task_id [simp]: "at_task_id (marked_task n st r e a b t) = at_task_id t"
  by (simp add: marked_task_def)

lemma cores_event [simp]: "cores (add_event tid ty p w) = cores w"
  by (simp add: cores_def add_event_def)

lemma tasks_event [simp]: "a2a_tasks (add_event tid ty p w) = a2a_tasks w"
  by (simp add: add_event_def)

lemma cores_mark [simp]: "cores (mark_task ev n tid st r e a b w) = cores w"
  by (simp add: mark_task_def Let_def cores_def upd_task_def map_key_upd_row)

lemma cores_mark_now [simp]: "cores (mark_now env tid st r e a b w) = cores w"
  by (simp add: mark_now_def)

lemma cores_artifact [simp]:
  "cores (snd (persist_a2a_artifact env tid a w)) = cores w"
  by (simp add: persist_a2a_artifact_def add_artifact_def Let_def) (simp add: cores_def)

lemma cores_artifacts [simp]: "cores (persist_task_artifacts env tid d w) = cores w"
proof -
  have "cores (fold (\<lambda>v w. case v of JObj a \<Rightarrow> snd (persist_a2a_artifact env tid a w) | _ \<Rightarrow> w) vs w) = cores w" for vs
    by (induction vs arbitrary: w) (auto split: json.splits)
  then show ?thesis by (simp add: persist_task_artifacts_def)
qed

lemma cores_stream_event: "stream_event env tid d t w = (r, w') \<Longrightarrow> cores w' = cores w"
  by (auto simp: stream_event_def Let_def split: sum.splits if_splits)

lemma cores_stream_loop: "stream_loop env tid events failure t w = (r, w') \<Longrightarrow> cores w' = cores w"
  by (induction env tid events failure t w rule: stream_loop.induct)
     (auto simp: Let_def split: option.splits sum.splits prod.splits if_splits dest: cores_stream_event)

lemma cores_call: "call ev obs n f u p fn s = (r, s') \<Longrightarrow> cores (rs_world s') = cores (rs_world s)"
  using same_state_a2a(1) [OF same_state_call [of s ev obs n f u p fn]] by (simp add: cores_def)

lemma cores_call_jsonrpc: "call_jsonrpc env c m ps s = (r, s') \<Longrightarrow> cores (rs_world s') = cores (rs_world s)"
  by (auto simp: call_jsonrpc_def Let_def split: prod.splits sum.splits if_splits json.splits dest: cores_call)

subsection \<open>Reading a task back\<close>

lemma get_task_bus [simp]:
  "get_task (emit_full on t p sv se tu w) i = get_task w i" "get_task (audit on a tt ti p w) i = get_task w i"
  "get_task (add_event tid ty p w) i = get_task w i"
  by (simp_all add: get_task_def)

lemma get_task_mark:
  "get_task (mark_task ev n tid st r e a b w) i =
     (if i = tid then map_option (marked_task n st r e a b) (get_task w tid) else get_task w i)"
  unfolding mark_task_def Let_def get_task_bus unfolding get_task_def upd_task_def
  by (rule a2a_tasks_tab.look_modify) simp

lemma get_task_core:
  assumes "cores w' = cores w" and "get_task w i = Some t"
  shows "\<exists>t'. get_task w' i = Some t' \<and> task_core t' = task_core t"
proof -
  have "map_option task_core (get_row at_task_id i ts) = find (\<lambda>x. fst x = i) (map task_core ts)" for ts
    by (induction ts) (auto simp: task_core_def)
  then have "map_option task_core (get_task w' i) = Some (task_core t)"
    using assms by (metis cores_def get_task_def option.simps(9))
  then show ?thesis by auto
qed

subsection \<open>Event numbering\<close>

definition numbered :: "world \<Rightarrow> bool" where
  "numbered w = list_all (\<lambda>tid. map av_sequence (task_events w tid) = [1..int (length (task_events w tid))])
     (map av_task_id (a2a_events w))"

lemma numbered_iff:
  "numbered w \<longleftrightarrow> (\<forall>tid. map av_sequence (task_events w tid) = [1..int (length (task_events w tid))])"
proof
  assume n: "numbered w"
  show "\<forall>tid. map av_sequence (task_events w tid) = [1..int (length (task_events w tid))]"
  proof
    fix tid
    show "map av_sequence (task_events w tid) = [1..int (length (task_events w tid))]"
    proof (cases "tid \<in> av_task_id ` set (a2a_events w)")
      case True
      then show ?thesis using n by (auto simp: numbered_def list_all_iff)
    next
      case False
      then have "task_events w tid = []" by (auto simp: task_events_def filter_empty_conv)
      then show ?thesis by simp
    qed
  qed
qed (simp add: numbered_def list_all_iff)

lemma fold_max_upto: "m \<le> n \<Longrightarrow> fold max [m + 1..n] (m::int) = n"
proof (induction "nat (n - m)" arbitrary: m)
  case (Suc k)
  then have "[m + 1..n] = (m + 1) # [m + 1 + 1..n]" by (simp add: upto_rec1)
  moreover have "fold max [m + 1 + 1..n] (m + 1) = n" by (rule Suc(1)) (use Suc(2) in auto)
  ultimately show ?case by (simp add: max_def)
qed simp

lemma latest_numbered:
  assumes "numbered w"
  shows "(case latest_sequence w tid of None \<Rightarrow> 1 | Some s \<Rightarrow> s + 1) = int (length (task_events w tid)) + 1"
proof (cases "task_events w tid")
  case (Cons e es)
  let ?n = "int (length (task_events w tid))"
  have "map av_sequence (task_events w tid) = [1..?n]" using assms by (simp add: numbered_iff)
  also have "\<dots> = 1 # [1 + 1..?n]" by (rule upto_rec1) (simp add: Cons)
  finally show ?thesis using fold_max_upto [of 1 ?n] by (simp add: latest_sequence_def Cons)
qed (simp add: latest_sequence_def)

lemma numbered_add_event: "numbered w \<Longrightarrow> numbered (add_event tid ty p w)"
  using latest_numbered [of w tid]
  by (auto simp: numbered_iff) (auto simp: task_events_def add_event_def upto_rec2)

lemma numbered_cong: "a2a_events w' = a2a_events w \<Longrightarrow> numbered w' = numbered w"
  by (simp add: numbered_def task_events_def)

lemma events_frame [simp]:
  "a2a_events (upd_task tid f w) = a2a_events w" "a2a_events (upd_a2a_conn n g w) = a2a_events w"
  by (simp_all add: upd_task_def upd_a2a_conn_def)

text \<open>A page of events is a contiguous piece of the task's history.\<close>

lemma list_events_page:
  assumes "numbered w" and "0 \<le> k"
  shows "list_events tid k limit w = take (clamp_limit 1000 limit) (drop (nat k) (task_events w tid))"
proof -
  let ?es = "task_events w tid"
  have seqs: "map av_sequence ?es = [1..int (length ?es)]" using assms(1) by (simp add: numbered_iff)
  have nth: "av_sequence (?es ! i) = int i + 1" if "i < length ?es" for i
    using arg_cong [OF seqs, of "\<lambda>l. l ! i"] that by (simp add: nth_upto)
  have "filter (\<lambda>e. av_sequence e > k) ?es = drop (nat k) ?es"
  proof (cases "nat k \<le> length ?es")
    case True
    have "filter (\<lambda>e. av_sequence e > k) (take (nat k) ?es) = []"
      using nth assms(2) by (auto simp: filter_empty_conv in_set_conv_nth)
    moreover have "filter (\<lambda>e. av_sequence e > k) (drop (nat k) ?es) = drop (nat k) ?es"
      using nth assms(2) True by (auto simp: filter_id_conv in_set_conv_nth)
    ultimately show ?thesis by (metis append_Nil append_take_drop_id filter_append)
  next
    case False
    then show ?thesis using nth by (auto simp: filter_empty_conv in_set_conv_nth)
  qed
  moreover have "filter (\<lambda>e. av_task_id e = tid \<and> av_sequence e > k) (a2a_events w) = filter (\<lambda>e. av_sequence e > k) ?es"
    by (simp add: task_events_def conj_commute)
  moreover have "sort_key av_sequence (drop (nat k) ?es) = drop (nat k) ?es"
  proof (rule sort_key_id_if_sorted)
    have "sorted (map av_sequence ?es)" by (simp add: seqs)
    then show "sorted (map av_sequence (drop (nat k) ?es))" by (simp add: drop_map [symmetric] sorted_wrt_drop)
  qed
  ultimately show ?thesis by (simp add: list_events_def)
qed

section \<open>The repository as a state machine\<close>

inductive a2a_step :: "world \<Rightarrow> world \<Rightarrow> bool" where
  s_bus: "same_state w w' \<Longrightarrow> a2a_step w w'"
| s_upsert: "a2a_step w (snd (upsert_connection ev q w))"
| s_discovery: "a2a_step w (snd (update_discovery ev now n d u st er w))"
| s_create: "get_task w (fst (create_task ev h1 h2 now c cap inp ctx md tid w)) = None \<Longrightarrow>
     a2a_step w (snd (create_task ev h1 h2 now c cap inp ctx md tid w))"
| s_mark: "a2a_step w (mark_task ev now tid st r er rt rc w)"
| s_artifact: "a2a_step w (snd (add_artifact h now tid i n m ct u ps md w))"
| s_event: "a2a_step w (add_event tid ty p w)"

inductive_cases a2a_stepE: "a2a_step w w'"

definition task_row_ok :: "a2a_task \<Rightarrow> bool" where
  "task_row_ok t = (at_status t \<in> set TERMINAL_TASK_STATES \<longrightarrow> at_finished_at t \<noteq> None)"

definition a2a_inv :: "world \<Rightarrow> bool" where
  "a2a_inv w \<longleftrightarrow> numbered w \<and> distinct (map at_task_id (a2a_tasks w)) \<and> list_all task_row_ok (a2a_tasks w)"

definition a2a_init :: "world \<Rightarrow> bool" where
  "a2a_init w \<longleftrightarrow> a2a_tasks w = [] \<and> a2a_events w = []"

lemma marked_task_ok: "task_row_ok t \<Longrightarrow> task_row_ok (marked_task n st r e a b t)"
  by (auto simp: task_row_ok_def marked_task_def)

lemma a2a_inv_frame: "a2a_tasks w' = a2a_tasks w \<Longrightarrow> a2a_events w' = a2a_events w \<Longrightarrow> a2a_inv w' = a2a_inv w"
  by (simp add: a2a_inv_def numbered_cong [of w' w])

lemma a2a_inv_event: "a2a_inv w \<Longrightarrow> a2a_inv (add_event tid ty p w)"
  by (simp add: a2a_inv_def numbered_add_event)

lemma a2a_inv_mark:
  assumes "a2a_inv w"
  shows "a2a_inv (mark_task ev n tid st r e a b w)"
proof -
  let ?w = "upd_task tid (marked_task n st r e a b) w"
  have "numbered ?w" using assms by (simp add: a2a_inv_def numbered_cong [of ?w w])
  moreover have "map at_task_id (a2a_tasks ?w) = map at_task_id (a2a_tasks w)"
    by (simp add: upd_task_def map_key_upd_row)
  moreover have "list_all task_row_ok (a2a_tasks ?w)"
    using assms marked_task_ok by (fastforce simp: a2a_inv_def list_all_iff upd_task_def upd_row_def)
  ultimately have "a2a_inv ?w" using assms by (simp add: a2a_inv_def)
  then show ?thesis unfolding mark_task_def Let_def
    by (subst a2a_inv_frame [OF bus_frame(10) bus_frame(12)]) (rule a2a_inv_event)
qed

lemma a2a_inv_create:
  assumes "a2a_inv w" and "get_task w (fst (create_task ev h1 h2 now c cap inp ctx md tid w)) = None"
  shows "a2a_inv (snd (create_task ev h1 h2 now c cap inp ctx md tid w))"
proof -
  let ?i = "str_or tid (''a2a_task_'' @ h1)"
  define t where "t = new_task ?i now c cap inp (str_or ctx (''a2a_ctx_'' @ h2)) md"
  have t: "at_task_id t = ?i" "at_status t = ''submitted''" by (simp_all add: t_def new_task_def)
  have eq: "snd (create_task ev h1 h2 now c cap inp ctx md tid w) =
       audit ev ''a2a.task.create'' ''a2a_task'' ?i [(''connection'', JStr c), (''capability'', JStr cap)]
         (emit ev ''a2a.task.submitted'' [(''task_id'', JStr ?i), (''connection'', JStr c), (''capability'', JStr cap)]
           (add_event ?i ''task.submitted'' [(''connection'', JStr c), (''capability'', JStr cap)]
             (a2a_tasks_update (\<lambda>ts. ts @ [t]) w)))"
    by (simp add: create_task_def Let_def t_def)
  let ?w = "a2a_tasks_update (\<lambda>ts. ts @ [t]) w"
  have "get_row at_task_id (at_task_id t) (a2a_tasks w) = None"
    using assms(2) t by (simp add: create_task_def Let_def get_task_def)
  then have "distinct (map at_task_id (a2a_tasks ?w))"
    using assms(1) by (intro a2a_tasks_tab.distinct_after_ins) (simp_all add: a2a_inv_def)
  then have "a2a_inv ?w"
    using assms(1) t numbered_cong [of ?w w] by (simp add: a2a_inv_def task_row_ok_def TERMINAL_TASK_STATES_def)
  then have "a2a_inv (add_event ?i ''task.submitted'' [(''connection'', JStr c), (''capability'', JStr cap)] ?w)"
    by (rule a2a_inv_event)
  then show ?thesis unfolding eq by (subst a2a_inv_frame) simp_all
qed

lemma a2a_step_inv: "a2a_inv w \<Longrightarrow> a2a_step w w' \<Longrightarrow> a2a_inv w'"
proof (erule a2a_stepE, goal_cases)
  case 1
  then show ?case using same_state_a2a a2a_inv_frame by metis
next
  case (2 ev q)
  have "a2a_tasks w' = a2a_tasks w" "a2a_events w' = a2a_events w"
    by (auto simp: 2 upsert_connection_def Let_def upd_a2a_conn_def split: sum.split)
  then show ?case using 2 a2a_inv_frame by metis
next
  case (3 ev now n d u st er)
  have "a2a_tasks w' = a2a_tasks w" "a2a_events w' = a2a_events w"
    by (auto simp: 3 update_discovery_def Let_def upd_a2a_conn_def split: sum.split)
  then show ?case using 3 a2a_inv_frame by metis
next
  case 4
  then show ?case using a2a_inv_create by simp
next
  case 5
  then show ?case using a2a_inv_mark by simp
next
  case (6 h now tid i n m ct u ps md)
  have "a2a_inv (w\<lparr>a2a_artifacts := as\<rparr>)" for as using 6 by (subst a2a_inv_frame) simp_all
  then show ?case using 6 by (simp add: add_artifact_def Let_def a2a_inv_event)
next
  case 7
  then show ?case using a2a_inv_event by simp
qed

interpretation a2a_machine: machine a2a_init a2a_step a2a_inv
proof unfold_locales
  show "a2a_inv w" if "a2a_init w" for w
    using that by (simp add: a2a_init_def a2a_inv_def numbered_def)
  show "a2a_inv w'" if "a2a_inv w" and "a2a_step w w'" for w w'
    using that by (rule a2a_step_inv)
qed

section \<open>Settling a delegated task\<close>

definition settled_states :: "string set" where
  "settled_states = {''working'', ''input-required'', ''completed'', ''failed'', ''canceled'', ''rejected''}"

text \<open>How a delegation that selected connection \<open>c\<close> leaves its task: present with the identity it was
  created with, in the status the answer reports, or failed with the text of the exception.\<close>

definition settled_task :: "exc + dict \<Rightarrow> string \<Rightarrow> string \<Rightarrow> delegate_request \<Rightarrow> world \<Rightarrow> bool" where
  "settled_task r tid name q w \<longleftrightarrow> (\<exists>t. get_task w tid = Some t
     \<and> at_connection_name t = name \<and> at_capability t = dr_capability q \<and> at_input_text t = dr_query q
     \<and> (case r of
          Inl e \<Rightarrow> at_status t = ''failed'' \<and> at_error t = exc_str e \<and> at_finished_at t \<noteq> None
        | Inr d \<Rightarrow> dget ''status'' d = JStr (at_status t) \<and> dget ''task_id'' d = JStr tid \<and> at_error t = ''''
            \<and> at_status t \<in> settled_states))"

lemma settled_status_range:
  "settled_status st \<in> settled_states"
  by (auto simp: settled_states_def settled_status_def TERMINAL_TASK_STATES_def PAUSED_TASK_STATES_def)

text \<open>A step that ends by marking the task keeps its identity and sets status and error.\<close>

lemma mark_now_task:
  assumes "cores w' = cores w" and "get_task w tid = Some t"
  shows "\<exists>t'. get_task (mark_now env tid st r er a b w') tid = Some t' \<and> task_core t' = task_core t
     \<and> at_status t' = st \<and> at_error t' = er \<and> (st \<in> set TERMINAL_TASK_STATES \<longrightarrow> at_finished_at t' \<noteq> None)"
proof -
  obtain t1 where "get_task w' tid = Some t1" "task_core t1 = task_core t" using get_task_core [OF assms] by blast
  then show ?thesis by (auto simp: mark_now_def get_task_mark) (auto simp: marked_task_def)
qed

lemma sent_plain:
  assumes "send_plain_message env c tid params s = (r, s')" and "get_task (rs_world s) tid = Some t"
  shows "(case r of
      Inl e \<Rightarrow> cores (rs_world s') = cores (rs_world s)
    | Inr d \<Rightarrow> \<exists>t'. get_task (rs_world s') tid = Some t' \<and> task_core t' = task_core t \<and> at_error t' = ''''
        \<and> dget ''status'' d = JStr (at_status t') \<and> dget ''task_id'' d = JStr tid
        \<and> at_status t' \<in> settled_states)"
proof -
  obtain r1 s1 where j: "call_jsonrpc env c ''SendMessage'' params s = (r1, s1)" by fastforce
  note core = cores_call_jsonrpc [OF j]
  show ?thesis
  proof (cases r1)
    case (Inl e)
    then show ?thesis using assms(1) j core by (auto simp: send_plain_message_def)
  next
    case (Inr response)
    let ?res = "plain_result response"
    let ?w = "persist_task_artifacts env tid ?res (rs_world s1)"
    have "cores ?w = cores (rs_world s)" using core by simp
    from mark_now_task [OF this assms(2), of env "settled_status (status_from_a2a_task ?res)"
        "Some [(''remote'', JObj ?res), (''answer'', JStr (answer_from_a2a_result ?res))]" "''''"
        "dstr_any [''id'', ''taskId''] '''' ?res" "dstr ''contextId'' ?res"]
    show ?thesis using assms(1) j Inr settled_status_range [of "status_from_a2a_task ?res"]
      by (auto simp: send_plain_message_def Let_def dget_def)
  qed
qed

lemma sent_streaming:
  assumes "send_a2a_streaming_message env c tid params w = (r, w')" and "get_task w tid = Some t"
  shows "(case r of
      Inl e \<Rightarrow> cores w' = cores w
    | Inr d \<Rightarrow> \<exists>t'. get_task w' tid = Some t' \<and> task_core t' = task_core t \<and> at_error t' = ''''
        \<and> dget ''status'' d = JStr (at_status t') \<and> dget ''task_id'' d = JStr tid
        \<and> at_status t' \<in> settled_states)"
proof -
  obtain events failure where ev: "ae_stream env (rpc_url_of c) (rpc_payload env ''SendStreamingMessage'' params w)
      (merge_headers [(''Accept'', ''text/event-stream''), (''Content-Type'', ''application/json'')] (a2a_headers c))
      = (events, failure)" by fastforce
  obtain r1 w1 where l: "stream_loop env tid events failure stream_start w = (r1, w1)" by fastforce
  note core = cores_stream_loop [OF l]
  show ?thesis
  proof (cases r1)
    case (Inl e)
    then show ?thesis using assms(1) ev l core by (auto simp: send_a2a_streaming_message_def)
  next
    case (Inr st)
    from mark_now_task [OF core assms(2), of env "settled_status (st_status st)"
        "Some [(''remote'', JObj (st_last_remote st)), (''answer'', JStr (st_answer st)), (''events'', JInt (st_event_count st))]"
        "''''" "st_remote_task_id st" "st_remote_context_id st"]
    show ?thesis using assms(1) ev l Inr settled_status_range [of "st_status st"]
      by (auto simp: send_a2a_streaming_message_def Let_def dget_def)
  qed
qed

lemma sent_message:
  assumes "send_a2a_message env c tid q s = (r, s')" and "get_task (rs_world s) tid = Some t"
  shows "(case r of
      Inl e \<Rightarrow> cores (rs_world s') = cores (rs_world s)
    | Inr d \<Rightarrow> \<exists>t'. get_task (rs_world s') tid = Some t' \<and> task_core t' = task_core t \<and> at_error t' = ''''
        \<and> dget ''status'' d = JStr (at_status t') \<and> dget ''task_id'' d = JStr tid
        \<and> at_status t' \<in> settled_states)"
proof -
  let ?p = "message_params env c (at_context_id t) q (rs_world s)"
  obtain r1 w1 where st: "send_a2a_streaming_message env c tid ?p (rs_world s) = (r1, w1)" by fastforce
  note streamed = sent_streaming [OF st assms(2)]
  let ?s1 = "\<lambda>e. rs_with s (add_event tid ''a2a.streaming_fallback''
     [(''error'', JStr (exc_str e)), (''method'', JStr ''SendStreamingMessage'')] w1)"
  have eq: "send_a2a_message env c tid q s =
      (if \<not> supports_streaming c then send_plain_message env c tid ?p s
       else case r1 of Inr d \<Rightarrow> (Inr d, rs_with s w1)
         | Inl e \<Rightarrow> if falls_back e then send_plain_message env c tid ?p (?s1 e) else (Inl e, rs_with s w1))"
    unfolding send_a2a_message_def Let_def assms(2) option.case st prod.case by (cases r1) (simp_all only: sum.case)
  show ?thesis
  proof (cases "supports_streaming c")
    case False
    then have "send_plain_message env c tid ?p s = (r, s')" using eq assms(1) by (simp only: if_True simp_thms)
    then show ?thesis by (rule sent_plain [OF _ assms(2)])
  next
    case True
    show ?thesis
    proof (cases "\<exists>e. r1 = Inl e \<and> falls_back e")
      case False
      then have "r = r1" "s' = rs_with s w1" using eq assms(1) True by (auto split: sum.splits)
      then show ?thesis using streamed by (simp split: sum.splits)
    next
      case True
      then obtain e where e: "r1 = Inl e" "falls_back e" by blast
      then have pl: "send_plain_message env c tid ?p (?s1 e) = (r, s')"
        using eq assms(1) \<open>supports_streaming c\<close> by (simp only: if_True if_False sum.case simp_thms)
      have core: "cores w1 = cores (rs_world s)" using streamed e by simp
      then obtain t1 where t1: "get_task w1 tid = Some t1" "task_core t1 = task_core t"
        using get_task_core [OF _ assms(2)] by blast
      have "get_task (rs_world (?s1 e)) tid = Some t1" using t1(1) by simp
      from sent_plain [OF pl this] show ?thesis using t1(2) core by (simp split: sum.splits)
    qed
  qed
qed

lemma delegated:
  assumes "select_connection q (rs_world s) = Inr c" and "ae_hex env 3 (rs_world s) = h"
    and "get_task (rs_world s) (''a2a_task_'' @ h) = None" and "delegate env q s = (r, s')"
  shows "settled_task r (''a2a_task_'' @ h) (ac_name c) q (rs_world s')"
proof -
  let ?tid = "''a2a_task_'' @ h"
  obtain ctx md now ev where cr: "\<exists>h2. delegate env q s = (case create_task ev h h2 now (ac_name c) (dr_capability q)
       (dr_query q) ctx md '''' (rs_world s) of (tid, w1) \<Rightarrow>
         (case send_a2a_message env c tid q (rs_with s (mark_now env tid ''working'' None '''' '''' '''' w1)) of
            (Inr d, s2) \<Rightarrow> (Inr d, s2)
          | (Inl e, s2) \<Rightarrow> (Inl e, rs_with s2 (mark_now env tid ''failed'' None (exc_str e) '''' '''' (rs_world s2)))))"
    unfolding delegate_def Let_def assms(1) assms(2) sum.case by blast
  then obtain h2 where cr: "delegate env q s = (case create_task ev h h2 now (ac_name c) (dr_capability q)
       (dr_query q) ctx md '''' (rs_world s) of (tid, w1) \<Rightarrow>
         (case send_a2a_message env c tid q (rs_with s (mark_now env tid ''working'' None '''' '''' '''' w1)) of
            (Inr d, s2) \<Rightarrow> (Inr d, s2)
          | (Inl e, s2) \<Rightarrow> (Inl e, rs_with s2 (mark_now env tid ''failed'' None (exc_str e) '''' '''' (rs_world s2)))))"
    by blast
  define t0 where "t0 = new_task ?tid now (ac_name c) (dr_capability q) (dr_query q) (str_or ctx (''a2a_ctx_'' @ h2)) md"
  obtain w1 where w1: "create_task ev h h2 now (ac_name c) (dr_capability q) (dr_query q) ctx md '''' (rs_world s) = (?tid, w1)"
    and t0: "get_task w1 ?tid = Some t0"
  proof -
    let ?ct = "create_task ev h h2 now (ac_name c) (dr_capability q) (dr_query q) ctx md '''' (rs_world s)"
    have "get_task (snd ?ct) ?tid = Some t0"
      using assms(3) by (simp add: create_task_def Let_def str_or_def t0_def get_task_def get_row_append new_task_def)
    moreover have "?ct = (?tid, snd ?ct)" by (simp add: create_task_def Let_def str_or_def)
    ultimately show thesis using that by blast
  qed
  let ?w2 = "mark_now env ?tid ''working'' None '''' '''' '''' w1"
  obtain t2 where t2: "get_task ?w2 ?tid = Some t2" "task_core t2 = task_core t0"
    using mark_now_task [OF refl t0] by blast
  obtain r2 s2 where snt: "send_a2a_message env c ?tid q (rs_with s ?w2) = (r2, s2)" by fastforce
  have "get_task (rs_world (rs_with s ?w2)) ?tid = Some t2" using t2(1) by simp
  note sm = sent_message [OF snt this]
  have core: "task_core t0 = task_core t \<Longrightarrow> at_connection_name t = ac_name c \<and> at_capability t = dr_capability q
      \<and> at_input_text t = dr_query q" for t by (simp add: t0_def new_task_def task_core_def)
  show ?thesis
  proof (cases r2)
    case (Inr d)
    then have "r = Inr d" "s' = s2" using assms(4) cr w1 snt by simp_all
    then show ?thesis using sm t2 core Inr by (force simp: settled_task_def)
  next
    case (Inl e)
    then have r: "r = Inl e" "s' = rs_with s2 (mark_now env ?tid ''failed'' None (exc_str e) '''' '''' (rs_world s2))"
      using assms(4) cr w1 snt by simp_all
    have "cores (rs_world s2) = cores ?w2" using sm Inl by simp
    from mark_now_task [OF this t2(1), of env "''failed''" None "exc_str e" "''''" "''''"]
    show ?thesis using r t2(2) core by (force simp: settled_task_def TERMINAL_TASK_STATES_def)
  qed
qed

section \<open>Properties\<close>

text \<open>A small environment: a fixed clock and identifiers, and a remote agent that answers every message
  with a completed task.\<close>

definition sample_a2a_env :: a2a_env where
  "sample_a2a_env = \<lparr>ae_now = (\<lambda>w. 7), ae_hex = (\<lambda>i w. ''ff''), ae_call_now = 1, ae_fail_now = 2,
     ae_unif = (\<lambda>i a b. a), ae_get = (\<lambda>u h i. Inl (TransportError ''down'')),
     ae_post = (\<lambda>u p h i. Inr (JObj [(''result'', JObj [(''task'', JObj [(''id'', JStr ''r1''),
        (''status'', JObj [(''state'', JStr ''TASK_STATE_COMPLETED'')])])])])),
     ae_stream = (\<lambda>u p h. ([], Some (HTTPStatusError ''not here'' 404 None)))\<rparr>"

definition a2a_world :: world where
  "a2a_world = empty_world\<lparr>a2a_connections := [(new_a2a_conn ''coder'')\<lparr>ac_endpoint := ''http://c'',
     ac_capabilities := [''coding'']\<rparr>]\<rparr>"

definition a2a_start :: resilience where
  "a2a_start = \<lparr>rs_states = [], rs_external = [], rs_world = a2a_world\<rparr>"

definition coding_request :: delegate_request where
  "coding_request = \<lparr>dr_capability = ''coding'', dr_query = ''fix it'', dr_context = [], dr_files = [],
     dr_options = [], dr_connection_name = ''''\<rparr>"

text \<open>C14: A delegation never leaves its task unsettled. Once a connection is selected, whatever the remote
  agent streams, answers or raises, the task exists afterwards with the connection, capability and query
  of the request; if the call returns, the task is in the status the caller was told and that status is
  one of the protocol's; if it raises, the task is failed, finished, and carries the text of the exception.\<close>

theorem delegate_settles_task:
  assumes "select_connection q (rs_world s) = Inr c" and "ae_hex env 3 (rs_world s) = h"
    and "get_task (rs_world s) (''a2a_task_'' @ h) = None" and "delegate env q s = (r, s')"
  shows "settled_task r (''a2a_task_'' @ h) (ac_name c) q (rs_world s')"
  using assms by (rule delegated)

theorem delegate_settles_task_witness:
  "settled_task (fst (delegate sample_a2a_env coding_request a2a_start)) ''a2a_task_ff'' ''coder'' coding_request
     (rs_world (snd (delegate sample_a2a_env coding_request a2a_start)))"
proof -
  have "select_connection coding_request (rs_world a2a_start) = Inr (hd (a2a_connections a2a_world))"
    "ae_hex sample_a2a_env 3 (rs_world a2a_start) = ''ff''"
    "get_task (rs_world a2a_start) (''a2a_task_'' @ ''ff'') = None" by code_simp+
  from delegate_settles_task [OF this prod.collapse [symmetric]] show ?thesis
    by (simp add: a2a_world_def new_a2a_conn_def)
qed

text \<open>C15: The events of a task have no gaps: in every state the repository can reach they are numbered
  1, 2, 3, ... in the order of writing, and a subscriber that asks for the events after the \<open>k\<close>-th gets
  exactly the next ones, as many as the limit allows, so polling with the last number seen loses nothing
  and repeats nothing.\<close>

theorem a2a_events_contiguous:
  assumes "a2a_init w0" and "a2a_step\<^sup>*\<^sup>* w0 w" and "0 \<le> k"
  shows "list_events tid k limit w = take (clamp_limit 1000 limit) (drop (nat k) (task_events w tid))
    \<and> map av_sequence (task_events w tid) = [1..int (length (task_events w tid))]"
proof -
  have "numbered w" using a2a_machine.reachable_inv [OF assms(1,2)] by (simp add: a2a_inv_def)
  then show ?thesis using list_events_page [OF _ assms(3)] by (simp add: numbered_iff)
qed

theorem a2a_events_contiguous_witness:
  "map av_sequence (list_events ''t'' 1 2 (add_event ''t'' ''c'' [] (add_event ''u'' ''b'' [] (add_event ''t'' ''a'' [] empty_world)))) = [2]"
proof -
  let ?w = "add_event ''t'' ''c'' [] (add_event ''u'' ''b'' [] (add_event ''t'' ''a'' [] empty_world))"
  have i: "a2a_init empty_world" by code_simp
  have r: "a2a_step\<^sup>*\<^sup>* empty_world ?w"
    by (rule rtranclp.rtrancl_into_rtrancl, rule rtranclp.rtrancl_into_rtrancl, rule rtranclp.rtrancl_into_rtrancl,
        rule rtranclp.rtrancl_refl) (rule s_event)+
  have "list_events ''t'' 1 2 ?w = take (clamp_limit 1000 2) (drop (nat 1) (task_events ?w ''t''))"
    using a2a_events_contiguous [OF i r, of 1 "''t''" 2] by simp
  moreover have "map av_sequence (take (clamp_limit 1000 2) (drop (nat 1) (task_events ?w ''t''))) = [2]" by code_simp
  ultimately show ?thesis by simp
qed

text \<open>A delegation of a high-risk capability that arrives over the public JSON-RPC endpoint is not held
  back for approval: although \<open>requires_approval\<close> says it needs one, the task is created, sent and settled
  like any other.\<close>

theorem jsonrpc_delegates_high_risk:
  assumes "q = request_from_params params" and "a2a_requires_approval (dr_capability q) (dr_options q)"
    and "select_connection q (rs_world s) = Inr c" and "ae_hex env 3 (rs_world s) = h"
    and "get_task (rs_world s) (''a2a_task_'' @ h) = None"
  shows "\<exists>r. settled_task r (''a2a_task_'' @ h) (ac_name c) q
    (rs_world (snd (handle_jsonrpc env own
       [(''id'', i), (''method'', JStr ''SendMessage''), (''params'', JObj params)] s)))"
proof -
  obtain r s' where d: "delegate env q s = (r, s')" by fastforce
  have "snd (handle_jsonrpc env own [(''id'', i), (''method'', JStr ''SendMessage''), (''params'', JObj params)] s) = s'"
    using d assms(1)
    by (auto simp: handle_jsonrpc_def jsonrpc_dispatch_def jsonrpc_message_send_def dget_def dstr_def dstr_or_def
          dict_or_empty_def py_str_def Let_def split: sum.split option.split)
  then show ?thesis using delegated [OF assms(3-5) d] by blast
qed

theorem jsonrpc_delegates_high_risk_witness:
  "\<exists>r. settled_task r ''a2a_task_ff'' ''coder'' (request_from_params [(''capability'', JStr ''coding'')])
     (rs_world (snd (handle_jsonrpc sample_a2a_env []
       [(''id'', JInt 1), (''method'', JStr ''SendMessage''), (''params'', JObj [(''capability'', JStr ''coding'')])] a2a_start)))"
proof -
  let ?q = "request_from_params [(''capability'', JStr ''coding'')]"
  have "a2a_requires_approval (dr_capability ?q) (dr_options ?q)"
    "select_connection ?q (rs_world a2a_start) = Inr (hd (a2a_connections a2a_world))"
    "ae_hex sample_a2a_env 3 (rs_world a2a_start) = ''ff''"
    "get_task (rs_world a2a_start) (''a2a_task_'' @ ''ff'') = None" by code_simp+
  from jsonrpc_delegates_high_risk [OF refl this] show ?thesis by (simp add: a2a_world_def new_a2a_conn_def)
qed

text \<open>Local task states survive the translation to the protocol and back, in the spelling the protocol
  uses.\<close>

theorem a2a_state_roundtrip:
  "map (\<lambda>st. local_status_from_a2a_state (JStr (a2a_state st)))
     [''submitted'', ''working'', ''input-required'', ''completed'', ''failed'', ''canceled'', ''cancelled'',
      ''rejected'', ''auth-required'']
   = [''submitted'', ''working'', ''input-required'', ''completed'', ''failed'', ''canceled'', ''canceled'',
      ''rejected'', ''auth-required'']"
  by code_simp

end
