(* ===== verification/Tools.thy ===== *)
theory Tools
  imports Platform A2A Ops
begin

text \<open>
  Tools: the registry, the safety floor, the built-in handlers and the auditable executor of
  \<open>backend/domain/tools.py\<close>.

  A handler is a tag of \<open>tool_handler\<close> (a bound method in the code; \<open>H_external\<close> stands for handlers
  registered from outside, such as the MCP tools), and \<open>call_handler\<close> is its body. The wiki, memory and
  skill services, the gateway and the A2A runtime that handlers call are the record \<open>tool_services\<close>, a
  parameter: each entry maps arguments and state to a result or an exception and a new state. The
  registry dictionary is a list of definitions in insertion order.
\<close>

section \<open>Definitions\<close>

datatype tool_handler =
    H_wiki_orient | H_wiki_route | H_wiki_browse | H_wiki_search | H_wiki_read | H_wiki_follow_links
  | H_wiki_sufficiency_check | H_wiki_compile | H_wiki_lint | H_wiki_repair
  | H_memory_search | H_memory_get | H_memory_create
  | H_skill_search | H_skill_read | H_skill_use_trace | H_skills_scan | H_skill_test
  | H_tool_search | H_tool_describe | H_tool_call | H_gateway_send | H_a2a_delegate
  | H_external string string

record tool_definition =
  td_name :: string
  td_description :: string
  td_scope :: string
  td_requires_approval :: bool
  td_available :: bool
  td_parameters :: dict
  td_handler :: "tool_handler option"

definition default_parameters :: dict where
  "default_parameters = [(''type'', JStr ''object''), (''properties'', JObj []), (''additionalProperties'', JBool True)]"

definition openai_schema :: "tool_definition \<Rightarrow> dict" where
  "openai_schema t =
     [(''type'', JStr ''function''),
      (''function'', JObj [(''name'', JStr (td_name t)), (''description'', JStr (td_description t)),
         (''parameters'', JObj (td_parameters t))])]"

definition tool :: "string \<Rightarrow> string \<Rightarrow> string \<Rightarrow> bool \<Rightarrow> dict \<Rightarrow> tool_handler \<Rightarrow> tool_definition" where
  "tool name description scope requires_approval parameters handler =
     \<lparr>td_name = name, td_description = description, td_scope = scope, td_requires_approval = requires_approval,
      td_available = True, td_parameters = parameters, td_handler = Some handler\<rparr>"

definition typed :: "string \<Rightarrow> json" where
  "typed t = JObj [(''type'', JStr t)]"

definition schema :: "string list \<Rightarrow> dict \<Rightarrow> dict" where
  "schema required properties =
     [(''type'', JStr ''object'')] @
     (if required = [] then [] else [(''required'', JList (map JStr required))]) @
     [(''properties'', JObj properties)]"

subsection \<open>Built-in tools\<close>

definition builtin_wiki_tools :: "tool_definition list" where
  "builtin_wiki_tools =
     [tool ''wiki_orient''
        ''Read LLM-Wiki schema, index, recent log, and page map before retrieval.''
        ''wiki.read'' False default_parameters
        H_wiki_orient,
      tool ''wiki_route''
        ''Plan an LLM-Wiki retrieval route: search-first, browse-first, bridge, or insufficient.''
        ''wiki.read'' False (schema [''query'']
          [(''query'', typed ''string''),
           (''limit'', typed ''integer'')])
        H_wiki_route,
      tool ''wiki_browse''
        ''Browse LLM-Wiki pages by path prefix, page type, and index-linked map.''
        ''wiki.read'' False (schema []
          [(''path_prefix'', typed ''string''),
           (''page_type'', typed ''string''),
           (''limit'', typed ''integer'')])
        H_wiki_browse,
      tool ''wiki_search''
        ''Search the Wiki page index with structured ranking and FTS fallback. Use wiki_read before relying on a page as evidence.''
        ''wiki.read'' False default_parameters
        H_wiki_search,
      tool ''wiki_read''
        ''Read a compiled Wiki page by page_key.''
        ''wiki.read'' False default_parameters
        H_wiki_read,
      tool ''wiki_follow_links''
        ''Traverse resolved Wiki links from or to a page_key.''
        ''wiki.read'' False (schema [''page_key'']
          [(''page_key'', typed ''string''),
           (''direction'', JObj [(''type'', JStr ''string''), (''enum'', JList [JStr ''out'', JStr ''in'', JStr ''both''])]),
           (''limit'', typed ''integer'')])
        H_wiki_follow_links,
      tool ''wiki_sufficiency_check''
        ''Check whether Wiki-backed claims have page-level evidence from wiki_read.''
        ''wiki.read'' False (schema []
          [(''claim'', typed ''string''),
           (''read_pages'', JObj [(''type'', JStr ''array''), (''items'', JObj [(''type'', JStr ''string'')])]),
           (''required_fan_in'', typed ''integer''),
           (''strategy'', typed ''string'')])
        H_wiki_sufficiency_check,
      tool ''wiki_lint''
        ''Lint LLM-Wiki structure and write Error Book entries.''
        ''wiki.write'' False default_parameters
        H_wiki_lint,
      tool ''wiki_repair''
        ''Repair low-risk LLM-Wiki structure issues and create review proposals for high-risk Error Book items.''
        ''wiki.write'' True (schema []
          [(''apply_safe'', typed ''boolean''),
           (''error_ids'', JObj [(''type'', JStr ''array''), (''items'', JObj [(''type'', JStr ''string'')])])])
        H_wiki_repair,
      tool ''wiki_compile''
        ''Compile Markdown Wiki source into the local page/link/error-book index.''
        ''wiki.write'' False default_parameters
        H_wiki_compile]"

definition builtin_memory_tools :: "tool_definition list" where
  "builtin_memory_tools =
     [tool ''memory_search''
        ''Search long-term memory index and return readable memory references.''
        ''memory.read'' False default_parameters
        H_memory_search,
      tool ''memory_get''
        ''Read one long-term memory item by id.''
        ''memory.read'' False (schema [''memory_id'']
          [(''memory_id'', typed ''string'')])
        H_memory_get,
      tool ''memory_create''
        ''Create an L2/L3 memory item.''
        ''memory.write'' False default_parameters
        H_memory_create]"

definition builtin_skill_tools :: "tool_definition list" where
  "builtin_skill_tools =
     [tool ''skill_search''
        ''Search the skill index for procedural guidance. Use before reading a full skill.''
        ''skill.read'' False (schema []
          [(''query'', typed ''string''),
           (''limit'', typed ''integer'')])
        H_skill_search,
      tool ''skill_read''
        ''Read one skill's indexed files by skill_key after skill_search indicates it is relevant.''
        ''skill.read'' False (schema [''skill_key'']
          [(''skill_key'', typed ''string'')])
        H_skill_read,
      tool ''skill_use_trace''
        ''Record that a skill was used and whether it helped, as a skill_trace memory.''
        ''memory.write'' False (schema [''skill_key'', ''outcome'']
          [(''skill_key'', typed ''string''),
           (''outcome'', typed ''string''),
           (''notes'', typed ''string'')])
        H_skill_use_trace,
      tool ''skills_scan''
        ''Scan workspace skills and rebuild skill indexes.''
        ''skill.read'' False default_parameters
        H_skills_scan,
      tool ''skill_test''
        ''Run safe skill tests, including lint, golden prompt, mock tool, and regression checks.''
        ''skill.read'' False default_parameters
        H_skill_test]"

definition builtin_tool_tools :: "tool_definition list" where
  "builtin_tool_tools =
     [tool ''tool_search''
        ''Search available SoulClaw tools by name, description, and scope.''
        ''system.read'' False (schema []
          [(''query'', typed ''string''),
           (''limit'', typed ''integer'')])
        H_tool_search,
      tool ''tool_describe''
        ''Describe one available tool and return its parameter schema.''
        ''system.read'' False (schema [''tool_name'']
          [(''tool_name'', typed ''string'')])
        H_tool_describe,
      tool ''tool_call''
        ''Call a named available tool after discovering it with tool_search/tool_describe.''
        ''system.write'' False (schema [''tool_name'']
          [(''tool_name'', typed ''string''),
           (''arguments'', typed ''object'')])
        H_tool_call]"

definition gateway_send_tool :: tool_definition where
  "gateway_send_tool =
     tool ''gateway_send''
        ''Send a message through an enabled gateway connection.''
        ''external.write'' True (schema [''gateway_name'', ''target_id'', ''text'']
          [(''gateway_name'', typed ''string''),
           (''target_id'', typed ''string''),
           (''text'', typed ''string''),
           (''metadata'', typed ''object'')])
        H_gateway_send"

definition a2a_delegate_tool :: tool_definition where
  "a2a_delegate_tool =
     tool ''a2a_delegate''
        ''Delegate a coarse-grained task to an enabled A2A specialist agent. Use for DeepResearch, document projects, scheduling, or coding agents.''
        ''external.write'' False (schema [''capability'', ''query'']
          [(''capability'', typed ''string''),
           (''query'', typed ''string''),
           (''connection_name'', typed ''string''),
           (''context'', typed ''object''),
           (''files'', JObj [(''type'', JStr ''array''), (''items'', JObj [(''type'', JStr ''object'')])]),
           (''options'', typed ''object'')])
        H_a2a_delegate"

section \<open>Registry\<close>

type_synonym registry = "tool_definition list"

definition registry_get :: "registry \<Rightarrow> string \<Rightarrow> tool_definition option" where
  "registry_get reg name = get_row td_name name reg"

definition registry_list :: "registry \<Rightarrow> tool_definition list" where
  "registry_list reg = sort_key td_name reg"

definition register :: "bool \<Rightarrow> tool_definition \<Rightarrow> registry \<times> world \<Rightarrow> registry \<times> world" where
  "register ev d rw = (case rw of (reg, w) \<Rightarrow>
     (if registry_get reg (td_name d) = None then reg @ [d] else upd_row td_name (td_name d) (\<lambda>_. d) reg,
      emit ev ''tool.registered'' [(''tool_name'', JStr (td_name d)), (''scope'', JStr (td_scope d))] w))"

definition register_many :: "bool \<Rightarrow> tool_definition list \<Rightarrow> registry \<times> world \<Rightarrow> registry \<times> world" where
  "register_many ev ds rw = fold (register ev) ds rw"

definition unregister_prefix :: "bool \<Rightarrow> string \<Rightarrow> registry \<times> world \<Rightarrow> int \<times> registry \<times> world" where
  "unregister_prefix ev p rw = (case rw of (reg, w) \<Rightarrow>
     let names = filter (\<lambda>n. startswith n p) (map td_name reg)
     in (int (length names), filter (\<lambda>d. \<not> startswith (td_name d) p) reg,
         fold (\<lambda>n w. emit ev ''tool.unregistered'' [(''tool_name'', JStr n)] w) names w))"

definition register_builtin_tools :: "bool \<Rightarrow> registry \<times> world \<Rightarrow> registry \<times> world" where
  "register_builtin_tools ev =
     register_many ev (builtin_wiki_tools @ builtin_memory_tools @ builtin_skill_tools @ builtin_tool_tools)"

definition install_gateway :: "bool \<Rightarrow> registry \<times> world \<Rightarrow> registry \<times> world" where
  "install_gateway ev = register ev gateway_send_tool"

definition install_a2a :: "bool \<Rightarrow> registry \<times> world \<Rightarrow> registry \<times> world" where
  "install_a2a ev = register ev a2a_delegate_tool"

definition new_registry :: "bool \<Rightarrow> bool \<Rightarrow> bool \<Rightarrow> world \<Rightarrow> registry \<times> world" where
  "new_registry ev with_gateway with_a2a w =
     (let rw = register_builtin_tools ev ([], w);
          rw1 = (if with_gateway then install_gateway ev rw else rw)
      in if with_a2a then install_a2a ev rw1 else rw1)"

definition direct_names :: "string list" where
  "direct_names = [''tool_search'', ''tool_describe'', ''tool_call'', ''wiki_orient'', ''wiki_route'',
     ''wiki_browse'', ''wiki_search'', ''wiki_read'', ''wiki_follow_links'', ''memory_search'', ''skill_search'',
     ''skill_read'', ''wiki_sufficiency_check'']"

definition openai_tools :: "int \<Rightarrow> registry \<Rightarrow> dict list" where
  "openai_tools max_direct reg =
     (let available = filter td_available (registry_list reg) in
      if int (length available) \<le> max_direct then map openai_schema available
      else map openai_schema (filter (\<lambda>t. td_name t \<in> set direct_names) available))"

section \<open>Safety floor\<close>

text \<open>
  The five blocked patterns use literals, \<open>\s+\<close> and \<open>\b\<close>, compared without regard to case.
  \<open>rx_match p prev s\<close>: the pattern matches at the beginning of \<open>s\<close>, where \<open>prev\<close> is the character before.
\<close>

datatype rx = RLit char | RSpaces | RBoundary

definition is_word :: "char option \<Rightarrow> bool" where
  "is_word c = (case c of None \<Rightarrow> False | Some x \<Rightarrow> is_alnum x \<or> x = CHR ''_'')"

definition head_char :: "string \<Rightarrow> char option" where
  "head_char s = (case s of [] \<Rightarrow> None | c # _ \<Rightarrow> Some c)"

fun rx_match :: "rx list \<Rightarrow> char option \<Rightarrow> string \<Rightarrow> bool" where
  "rx_match [] prev s = True"
| "rx_match (RBoundary # ps) prev s = (is_word prev \<noteq> is_word (head_char s) \<and> rx_match ps prev s)"
| "rx_match (RLit l # ps) prev [] = False"
| "rx_match (RLit l # ps) prev (c # cs) = (lower_char c = lower_char l \<and> rx_match ps (Some c) cs)"
| "rx_match (RSpaces # ps) prev [] = False"
| "rx_match (RSpaces # ps) prev (c # cs) =
     (is_space c \<and> (rx_match ps (Some c) cs \<or> rx_match (RSpaces # ps) (Some c) cs))"

fun rx_search :: "rx list \<Rightarrow> char option \<Rightarrow> string \<Rightarrow> bool" where
  "rx_search ps prev [] = rx_match ps prev []"
| "rx_search ps prev (c # cs) = (rx_match ps prev (c # cs) \<or> rx_search ps (Some c) cs)"

definition rx_source :: "rx list \<Rightarrow> string" where
  "rx_source ps = concat (map (\<lambda>p. case p of
     RLit c \<Rightarrow> if c = CHR ''.'' then [CHR 0x5C, c] else [c]
   | RSpaces \<Rightarrow> [CHR 0x5C, CHR ''s'', CHR ''+'']
   | RBoundary \<Rightarrow> [CHR 0x5C, CHR ''b'']) ps)"

definition words_rx :: "string list \<Rightarrow> rx list" where
  "words_rx ws = (case map (map RLit) ws of [] \<Rightarrow> [] | p # ps \<Rightarrow> p @ concat (map (\<lambda>q. RSpaces # q) ps))"

definition blocked_patterns :: "rx list list" where
  "blocked_patterns =
     [RBoundary # words_rx [''rm'', ''-rf'', ''/''],
      RBoundary # words_rx [''git'', ''reset'', ''--hard''] @ [RBoundary],
      RBoundary # words_rx [''git'', ''checkout'', ''--'', ''/''],
      RBoundary # words_rx [''mkfs.''],
      RBoundary # words_rx [''chmod'', ''-R'', ''777'', ''/'']]"

definition mutating_scopes :: "string list" where
  "mutating_scopes = [''memory.write'', ''skill.write'', ''wiki.write'', ''system.write'', ''external.write'']"

definition floor_validate :: "tool_definition \<Rightarrow> dict \<Rightarrow> bool \<Rightarrow> exc option" where
  "floor_validate t arguments approved =
     (case find (\<lambda>p. rx_search p None (py_repr (JObj arguments))) blocked_patterns of
        Some p \<Rightarrow> Some (PermissionError (''blocked by hard safety floor: '' @ rx_source p))
      | None \<Rightarrow>
          if td_scope t \<in> set mutating_scopes \<and> td_requires_approval t \<and> \<not> approved
          then Some (PermissionError ''tool requires approval before execution'') else None)"

section \<open>Services\<close>

record wiki_page_view =
  wp_page_key :: string
  wp_title :: string
  wp_summary :: string
  wp_body :: string
  wp_metadata :: dict

record memory_view =
  mv_id :: uuid
  mv_kind :: string
  mv_content :: string
  mv_source :: string
  mv_pinned :: bool
  mv_importance :: rat
  mv_confidence :: rat
  mv_stability :: rat
  mv_metadata :: dict

record skill_view =
  sk_skill_key :: string
  sk_name :: string
  sk_description :: string
  sk_status :: string
  sk_pinned :: bool
  sk_metadata :: dict

record new_memory =
  nm_kind :: string
  nm_content :: string
  nm_source :: string
  nm_pinned :: bool
  nm_importance :: pyfloat
  nm_confidence :: pyfloat
  nm_stability :: pyfloat
  nm_metadata :: dict

text \<open>A search hit is the row with its source and score; a skill file has a path, a checksum and contents.\<close>

record tool_services =
  wiki_orientation :: "int \<Rightarrow> dict op"
  wiki_route :: "string \<Rightarrow> int \<Rightarrow> dict op"
  wiki_browse :: "string \<Rightarrow> string \<Rightarrow> int \<Rightarrow> dict op"
  wiki_search :: "string \<Rightarrow> int \<Rightarrow> string \<Rightarrow> string \<Rightarrow> bool \<Rightarrow> dict list op"
  wiki_read :: "string \<Rightarrow> wiki_page_view option op"
  wiki_read_with_graph :: "string \<Rightarrow> (json \<times> json) option op"
  wiki_follow_links :: "string \<Rightarrow> string \<Rightarrow> int \<Rightarrow> json list op"
  wiki_sufficiency :: "string \<Rightarrow> string list \<Rightarrow> int option \<Rightarrow> string \<Rightarrow> dict op"
  wiki_compile :: "dict op"
  wiki_lint :: "dict op"
  wiki_repair :: "bool \<Rightarrow> string list \<Rightarrow> dict op"
  memory_search :: "string \<Rightarrow> int \<Rightarrow> (memory_view \<times> json \<times> json) list op"
  memory_get :: "uuid \<Rightarrow> memory_view option op"
  memory_create :: "new_memory \<Rightarrow> memory_view op"
  skills_search :: "string \<Rightarrow> int \<Rightarrow> (skill_view \<times> json \<times> json) list op"
  skills_get :: "string \<Rightarrow> skill_view option op"
  skills_files :: "string \<Rightarrow> (string \<times> string \<times> string) list op"
  skills_scan :: "dict op"
  skills_test :: "string \<Rightarrow> dict op"
  gateway_service :: "(outbound_message \<Rightarrow> dict op) option"
  a2a_service :: "(delegate_request \<Rightarrow> dict op) option"
  external_tool :: "string \<Rightarrow> string \<Rightarrow> dict \<Rightarrow> dict op"

section \<open>Handlers\<close>

abbreviation items_result :: "json list \<Rightarrow> dict" where
  "items_result xs \<equiv> [(''items'', JList xs)]"

definition h_wiki_orient :: "tool_services \<Rightarrow> dict \<Rightarrow> dict op" where
  "h_wiki_orient sv a = op_bind (op_lift (dint_or ''recent_log_lines'' 40 a)) (wiki_orientation sv)"

definition h_wiki_route :: "tool_services \<Rightarrow> dict \<Rightarrow> dict op" where
  "h_wiki_route sv a = op_bind (op_lift (dint_or ''limit'' 10 a)) (\<lambda>n. wiki_route sv (dstr ''query'' a) n)"

definition h_wiki_browse :: "tool_services \<Rightarrow> dict \<Rightarrow> dict op" where
  "h_wiki_browse sv a = op_bind (op_lift (dint_or ''limit'' 100 a))
     (\<lambda>n. wiki_browse sv (dstr ''path_prefix'' a) (dstr ''page_type'' a) n)"

definition wiki_hit_keys :: "(string \<times> json option) list" where
  "wiki_hit_keys =
     [(''page_key'', None), (''title'', None), (''path'', None), (''summary'', None),
      (''tags'', Some (JList [])), (''page_type'', Some (JStr '''')), (''confidence'', Some (JFloat (1 / 2))),
      (''source'', None), (''score'', None), (''match_reasons'', Some (JList [])),
      (''matched_fields'', Some (JList [])), (''snippet'', Some (JStr '''')),
      (''next_actions'', Some (JList [])), (''constraints'', Some (JList []))]"

definition h_wiki_search :: "tool_services \<Rightarrow> dict \<Rightarrow> dict op" where
  "h_wiki_search sv a = op_bind (op_lift (dint_or ''limit'' 10 a)) (\<lambda>n.
     op_bind (wiki_search sv (dstr ''query'' a) n (dstr ''strategy'' a) (dstr ''path_prefix'' a)
                (truthy (dget_default ''include_constraints'' (JBool False) a)))
       (\<lambda>hits. op_lift (map_sum id (items_result \<circ> map JObj) (op_traverse (pick wiki_hit_keys) hits))))"

definition h_wiki_read :: "tool_services \<Rightarrow> dict \<Rightarrow> dict op" where
  "h_wiki_read sv a =
     (let key = dstr ''page_key'' a in
      op_bind (wiki_read sv key) (\<lambda>found. case found of
        None \<Rightarrow> op_raise (KeyError (''wiki page not found: '' @ key))
      | Some p \<Rightarrow> op_bind (wiki_read_with_graph sv key) (\<lambda>graph. op_ok
          [(''page_key'', JStr (wp_page_key p)), (''title'', JStr (wp_title p)), (''summary'', JStr (wp_summary p)),
           (''body'', JStr (wp_body p)), (''metadata'', JObj (wp_metadata p)),
           (''outlinks'', case graph of None \<Rightarrow> JList [] | Some (o_links, b_links) \<Rightarrow> o_links),
           (''backlinks'', case graph of None \<Rightarrow> JList [] | Some (o_links, b_links) \<Rightarrow> b_links)])))"

definition h_wiki_follow_links :: "tool_services \<Rightarrow> dict \<Rightarrow> dict op" where
  "h_wiki_follow_links sv a = op_bind (op_lift (dreq ''page_key'' a)) (\<lambda>key.
     op_bind (op_lift (dint_or ''limit'' 50 a)) (\<lambda>n.
       op_bind (wiki_follow_links sv (py_str key) (dstr_or ''direction'' ''out'' a) n)
         (\<lambda>xs. op_ok (items_result xs))))"

definition h_wiki_sufficiency_check :: "tool_services \<Rightarrow> dict \<Rightarrow> dict op" where
  "h_wiki_sufficiency_check sv a =
     (let pages = stripped_strs (list_or_empty (dget ''read_pages'' a)); required = dget ''required_fan_in'' a
      in op_bind (op_lift (if required = JNull then Inr None else map_sum id Some (py_int required))) (\<lambda>n.
           wiki_sufficiency sv (dstr ''claim'' a) pages n (dstr ''strategy'' a)))"

definition h_wiki_repair :: "tool_services \<Rightarrow> dict \<Rightarrow> dict op" where
  "h_wiki_repair sv a = wiki_repair sv (truthy (dget_default ''apply_safe'' (JBool False) a))
     (map py_str (list_or_empty (dget ''error_ids'' a)))"

definition h_memory_search :: "tool_services \<Rightarrow> dict \<Rightarrow> dict op" where
  "h_memory_search sv a = op_bind (op_lift (dint_or ''limit'' 10 a)) (\<lambda>n.
     op_bind (memory_search sv (dstr ''query'' a) n) (\<lambda>hits. op_ok (items_result (map (\<lambda>(m, source, score). JObj
       [(''id'', JStr (mv_id m)), (''kind'', JStr (mv_kind m)), (''source'', source), (''score'', score),
        (''summary'', JStr (take 500 (mv_content m)))]) hits))))"

definition h_memory_get :: "tool_services \<Rightarrow> dict \<Rightarrow> dict op" where
  "h_memory_get sv a = (case uuid_parse (dstr ''memory_id'' a) of
     None \<Rightarrow> op_raise (ValueError ''badly formed hexadecimal UUID string'')
   | Some i \<Rightarrow> op_bind (memory_get sv i) (\<lambda>found. case found of
       None \<Rightarrow> op_raise (KeyError (''memory not found: '' @ i))
     | Some m \<Rightarrow> op_ok
         [(''id'', JStr (mv_id m)), (''kind'', JStr (mv_kind m)), (''content'', JStr (mv_content m)),
          (''source'', JStr (mv_source m)), (''pinned'', JBool (mv_pinned m)),
          (''importance'', JFloat (mv_importance m)), (''confidence'', JFloat (mv_confidence m)),
          (''stability'', JFloat (mv_stability m)), (''metadata'', JObj (mv_metadata m))]))"

text \<open>The three scores \<open>float(arguments.get(name, default))\<close> of a memory.\<close>

definition memory_scores :: "rat \<Rightarrow> rat \<Rightarrow> rat \<Rightarrow> dict \<Rightarrow> exc + pyfloat list" where
  "memory_scores i c s a = op_traverse (\<lambda>(k, df). py_float (dget_default k (JFloat df) a))
     [(''importance'', i), (''confidence'', c), (''stability'', s)]"

definition h_memory_create :: "tool_services \<Rightarrow> dict \<Rightarrow> dict op" where
  "h_memory_create sv a = op_bind (op_lift (dreq ''content'' a)) (\<lambda>content.
     op_bind (op_lift (memory_scores (1 / 2) (1 / 2) (1 / 2) a)) (\<lambda>xs.
       op_bind (memory_create sv \<lparr>nm_kind = dstr_or ''kind'' ''agent_note'' a, nm_content = py_str content,
           nm_source = dstr_or ''source'' ''tool'' a, nm_pinned = truthy (dget_default ''pinned'' (JBool False) a),
           nm_importance = xs ! 0, nm_confidence = xs ! 1, nm_stability = xs ! 2,
           nm_metadata = dict_or_empty (dget ''metadata'' a)\<rparr>)
         (\<lambda>m. op_ok [(''id'', JStr (mv_id m)), (''kind'', JStr (mv_kind m)), (''content'', JStr (mv_content m))])))"

definition h_skill_search :: "tool_services \<Rightarrow> dict \<Rightarrow> dict op" where
  "h_skill_search sv a = op_bind (op_lift (dint_or ''limit'' 10 a)) (\<lambda>n.
     op_bind (skills_search sv (dstr ''query'' a) n) (\<lambda>hits. op_ok (items_result (map (\<lambda>(s, source, score). JObj
       [(''skill_key'', JStr (sk_skill_key s)), (''name'', JStr (sk_name s)),
        (''description'', JStr (sk_description s)), (''status'', JStr (sk_status s)),
        (''pinned'', JBool (sk_pinned s)), (''metadata'', JObj (sk_metadata s)),
        (''source'', source), (''score'', score)]) hits))))"

definition h_skill_read :: "tool_services \<Rightarrow> dict \<Rightarrow> dict op" where
  "h_skill_read sv a =
     (let key = dstr ''skill_key'' a in
      op_bind (skills_get sv key) (\<lambda>found. case found of
        None \<Rightarrow> op_raise (KeyError (''skill not found: '' @ key))
      | Some s \<Rightarrow> op_bind (skills_files sv key) (\<lambda>fs. op_ok
          [(''skill_key'', JStr (sk_skill_key s)), (''name'', JStr (sk_name s)),
           (''description'', JStr (sk_description s)), (''metadata'', JObj (sk_metadata s)),
           (''files'', JList (map (\<lambda>(path, checksum, content). JObj
              [(''file_path'', JStr path), (''checksum'', JStr checksum), (''content'', JStr content)]) fs))])))"

definition h_skill_use_trace :: "tool_services \<Rightarrow> dict \<Rightarrow> dict op" where
  "h_skill_use_trace sv a =
     (let key = dstr ''skill_key'' a; outcome = dstr ''outcome'' a; notes = dstr ''notes'' a;
          content = ''Skill `'' @ key @ ''` outcome: '' @ outcome @
            (if py_strip notes \<noteq> [] then '' Notes: '' @ py_strip notes else '''')
      in op_bind (op_lift (memory_scores (45 / 100) (65 / 100) (4 / 10) a)) (\<lambda>xs.
           op_bind (memory_create sv \<lparr>nm_kind = ''skill_trace'', nm_content = content,
               nm_source = ''skill_use_trace'', nm_pinned = False,
               nm_importance = xs ! 0, nm_confidence = xs ! 1, nm_stability = xs ! 2,
               nm_metadata = [(''skill_key'', JStr key), (''outcome'', JStr outcome), (''notes'', JStr notes)]\<rparr>)
             (\<lambda>m. op_ok [(''memory_id'', JStr (mv_id m)), (''skill_key'', JStr key), (''outcome'', JStr outcome)])))"

definition h_skill_test :: "tool_services \<Rightarrow> dict \<Rightarrow> dict op" where
  "h_skill_test sv a = op_bind (op_lift (dreq ''skill_key'' a)) (\<lambda>k. skills_test sv (py_str k))"

definition tool_matches :: "string \<Rightarrow> tool_definition \<Rightarrow> bool" where
  "tool_matches query t = (query = [] \<or>
     py_in query (py_lower (td_name t @ '' '' @ td_description t @ '' '' @ td_scope t)))"

definition h_tool_search :: "registry \<Rightarrow> dict \<Rightarrow> dict op" where
  "h_tool_search reg a =
     (let query = py_lower (py_strip (dstr ''query'' a)) in
      op_bind (op_lift (dint_or ''limit'' 20 a)) (\<lambda>n.
        let items = map (\<lambda>t. JObj
              [(''name'', JStr (td_name t)), (''description'', JStr (td_description t)), (''scope'', JStr (td_scope t)),
               (''requires_approval'', JBool (td_requires_approval t)), (''available'', JBool (td_available t)),
               (''score'', JFloat (if query \<noteq> [] \<and> py_in query (py_lower (td_name t)) then 1 else 7 / 10))])
              (filter (tool_matches query) (registry_list reg))
        in op_ok [(''items'', JList (take (clamp_limit 100 n) items)), (''total'', JInt (int (length items)))]))"

definition h_tool_describe :: "registry \<Rightarrow> dict \<Rightarrow> dict op" where
  "h_tool_describe reg a =
     (let name = dstr ''tool_name'' a in
      case registry_get reg name of
        None \<Rightarrow> op_raise (KeyError (''tool not found: '' @ name))
      | Some t \<Rightarrow> op_ok
          [(''name'', JStr (td_name t)), (''description'', JStr (td_description t)), (''scope'', JStr (td_scope t)),
           (''requires_approval'', JBool (td_requires_approval t)), (''available'', JBool (td_available t)),
           (''parameters'', JObj (td_parameters t))])"

definition h_gateway_send :: "tool_services \<Rightarrow> dict \<Rightarrow> dict op" where
  "h_gateway_send sv a = (case gateway_service sv of
     None \<Rightarrow> op_raise (RuntimeError ''gateway runtime is not configured'')
   | Some send \<Rightarrow>
       op_bind (op_lift (op_traverse (\<lambda>k. dreq k a) [''gateway_name'', ''target_id'', ''text''])) (\<lambda>xs.
         send \<lparr>om_gateway_name = py_str (xs ! 0), om_target_id = py_str (xs ! 1), om_text = py_str (xs ! 2),
               om_metadata = dict_or_empty (dget ''metadata'' a)\<rparr>))"

definition h_a2a_delegate :: "tool_services \<Rightarrow> dict \<Rightarrow> dict op" where
  "h_a2a_delegate sv a = (case a2a_service sv of
     None \<Rightarrow> op_raise (RuntimeError ''A2A runtime is not configured'')
   | Some dlg \<Rightarrow>
       let capability = dstr ''capability'' a; options = dict_or_empty (dget ''options'' a) in
       if a2a_requires_approval capability options \<and> \<not> truthy (dget ''_approved'' a)
       then op_raise (PermissionError ''A2A delegation requires approval for high-risk capability'')
       else dlg \<lparr>dr_capability = capability, dr_query = dstr ''query'' a,
              dr_context = dict_or_empty (dget ''context'' a), dr_files = list_or_empty (dget ''files'' a),
              dr_options = options, dr_connection_name = dstr ''connection_name'' a\<rparr>)"

text \<open>Every handler but \<open>_tool_call\<close>, which \<open>call_handler\<close> treats itself (the last line is not reached).\<close>

definition base_handler :: "tool_services \<Rightarrow> registry \<Rightarrow> tool_handler \<Rightarrow> dict \<Rightarrow> dict op" where
  "base_handler sv reg h a = (case h of
     H_wiki_orient \<Rightarrow> h_wiki_orient sv a | H_wiki_route \<Rightarrow> h_wiki_route sv a
   | H_wiki_browse \<Rightarrow> h_wiki_browse sv a | H_wiki_search \<Rightarrow> h_wiki_search sv a
   | H_wiki_read \<Rightarrow> h_wiki_read sv a | H_wiki_follow_links \<Rightarrow> h_wiki_follow_links sv a
   | H_wiki_sufficiency_check \<Rightarrow> h_wiki_sufficiency_check sv a | H_wiki_compile \<Rightarrow> wiki_compile sv
   | H_wiki_lint \<Rightarrow> wiki_lint sv | H_wiki_repair \<Rightarrow> h_wiki_repair sv a
   | H_memory_search \<Rightarrow> h_memory_search sv a | H_memory_get \<Rightarrow> h_memory_get sv a
   | H_memory_create \<Rightarrow> h_memory_create sv a | H_skill_search \<Rightarrow> h_skill_search sv a
   | H_skill_read \<Rightarrow> h_skill_read sv a | H_skill_use_trace \<Rightarrow> h_skill_use_trace sv a
   | H_skills_scan \<Rightarrow> skills_scan sv | H_skill_test \<Rightarrow> h_skill_test sv a
   | H_tool_search \<Rightarrow> h_tool_search reg a | H_tool_describe \<Rightarrow> h_tool_describe reg a
   | H_gateway_send \<Rightarrow> h_gateway_send sv a | H_a2a_delegate \<Rightarrow> h_a2a_delegate sv a
   | H_external server name \<Rightarrow> external_tool sv server name a
   | H_tool_call \<Rightarrow> op_raise (ValueError ''tool_call requires a non-recursive target tool_name''))"

text \<open>
  \<open>_tool_call\<close> calls the handler of another tool with the nested arguments, which may again be a
  \<open>_tool_call\<close> (when it is registered under a further name). It ends because the nested arguments are
  strictly less deep, and a call without nested arguments names no tool.
\<close>

fun json_depth :: "json \<Rightarrow> nat" where
  "json_depth (JList xs) = Suc (fold max (map json_depth xs) 0)"
| "json_depth (JObj d) = Suc (fold max (map (\<lambda>(k, v). json_depth v) d) 0)"
| "json_depth _ = 0"

definition dict_depth :: "dict \<Rightarrow> nat" where
  "dict_depth d = fold max (map (\<lambda>(k, v). json_depth v) d) 0"

lemma fold_max_eq: "fold max xs m = max m (fold max xs (0::nat))"
  by (induction xs arbitrary: m) (simp, metis fold_simps(2) max.assoc max.commute max_0L)

lemma fold_max_mem: "x \<in> set xs \<Longrightarrow> (x::nat) \<le> fold max xs m"
proof (induction xs arbitrary: m)
  case (Cons y ys)
  then show ?case using fold_max_eq [of ys "max y m"] by (auto intro: max.coboundedI2)
qed simp

lemma fold_max_le: "(\<And>x. x \<in> set xs \<Longrightarrow> x \<le> b) \<Longrightarrow> m \<le> b \<Longrightarrow> fold max xs (m::nat) \<le> b"
  by (induction xs arbitrary: m) auto

lemma dict_depth_get:
  assumes "dget k d = JObj e"
  shows "dict_depth e < dict_depth d"
proof -
  have "(k, JObj e) \<in> set d" using assms by (auto simp: dget_def split: option.splits dest: map_of_SomeD)
  then have "json_depth (JObj e) \<in> set (map (\<lambda>(k, v). json_depth v) d)" by force
  from fold_max_mem [OF this, of 0] show ?thesis by (simp add: dict_depth_def)
qed

lemma set_dset: "set (dset k v d) \<subseteq> insert (k, v) (set d)"
  by (induction k v d rule: dset.induct) auto

lemma dict_depth_dset: "json_depth v = 0 \<Longrightarrow> dict_depth (dset k v d) \<le> dict_depth d"
  unfolding dict_depth_def
proof (rule fold_max_le)
  fix x assume "json_depth v = 0" and x: "x \<in> set (map (\<lambda>(k, v). json_depth v) (dset k v d))"
  then obtain k' v' where "(k', v') \<in> set (dset k v d)" "x = json_depth v'" by auto
  then have "x = 0 \<or> x \<in> set (map (\<lambda>(k, v). json_depth v) d)"
    using set_dset [of k v d] \<open>json_depth v = 0\<close> by force
  then show "x \<le> fold max (map (\<lambda>(k, v). json_depth v) d) 0" using fold_max_mem [of x _ 0] by (elim disjE) simp_all
qed simp

definition nested_arguments :: "dict \<Rightarrow> dict" where
  "nested_arguments a =
     (let call_arguments = dict_or_empty (dget ''arguments'' a)
      in if truthy (dget ''_approved'' a) then dset ''_approved'' (JBool True) call_arguments else call_arguments)"

definition names_tool :: "dict \<Rightarrow> nat" where
  "names_tool a = (if dstr ''tool_name'' a = [] then 0 else 1)"

lemma nested_arguments_smaller:
  assumes "dstr ''tool_name'' a \<noteq> []"
  shows "dict_depth (nested_arguments a) < dict_depth a
    \<or> (dict_depth (nested_arguments a) = dict_depth a \<and> names_tool (nested_arguments a) < names_tool a)"
proof (cases "\<exists>e. dget ''arguments'' a = JObj e")
  case True
  then obtain e where e: "dget ''arguments'' a = JObj e" by blast
  have "dict_depth (nested_arguments a) \<le> dict_depth e"
    by (simp add: nested_arguments_def dict_or_empty_def e dict_depth_dset)
  then show ?thesis using dict_depth_get [OF e] by simp
next
  case False
  then have "dict_or_empty (dget ''arguments'' a) = []" by (auto simp: dict_or_empty_def split: json.split)
  then have "dict_depth (nested_arguments a) = 0" "names_tool (nested_arguments a) = 0"
    by (simp_all add: nested_arguments_def dict_depth_def names_tool_def dstr_def dstr_or_def dget_def)
  moreover have "names_tool a = 1" using assms by (simp add: names_tool_def)
  ultimately show ?thesis by (cases "dict_depth a = 0") simp_all
qed

function call_handler :: "tool_services \<Rightarrow> registry \<Rightarrow> tool_handler \<Rightarrow> dict \<Rightarrow> world \<Rightarrow> (exc + dict) \<times> world" where
  "call_handler sv reg h a w =
     (if h \<noteq> H_tool_call then base_handler sv reg h a w
      else
        let name = dstr ''tool_name'' a in
        if name = ''tool_call'' \<or> name = []
        then (Inl (ValueError ''tool_call requires a non-recursive target tool_name''), w)
        else case registry_get reg name of
          None \<Rightarrow> (Inl (KeyError (''tool not found: '' @ name)), w)
        | Some t \<Rightarrow>
            (case td_handler t of
               None \<Rightarrow> (Inl (KeyError (''tool not found: '' @ name)), w)
             | Some target \<Rightarrow>
                 if \<not> td_available t then (Inl (RuntimeError (''tool unavailable: '' @ name)), w)
                 else if (td_requires_approval t \<or> td_scope t \<in> set mutating_scopes) \<and> \<not> truthy (dget ''_approved'' a)
                 then (Inl (PermissionError (''tool requires approval: '' @ name)), w)
                 else (case call_handler sv reg target (nested_arguments a) w of
                     (Inl e, w1) \<Rightarrow> (Inl e, w1)
                   | (Inr d, w1) \<Rightarrow> (Inr [(''tool_name'', JStr name), (''result'', JObj d)], w1))))"
  by pat_completeness auto
termination
proof (relation "measures [\<lambda>(sv, reg, h, a, w). dict_depth a, \<lambda>(sv, reg, h, a, w). names_tool a]", goal_cases)
  case 1
  then show ?case by simp
next
  case (2 sv reg h a w name t target)
  then show ?case using nested_arguments_smaller [of a] by auto
qed

declare call_handler.simps [simp del]

section \<open>Executor\<close>

text \<open>
  \<open>ee_ev\<close>: an event bus is given; \<open>ee_platform\<close>: a platform service is given. The identifiers are the
  fresh ones of the approval, the run and its checkpoint; the instants those of the approval, the start and
  the end of the run. The platform of the model accepts every argument of \<open>create_approval\<close>, so the fallback
  for one that does not (\<open>except TypeError\<close>) is not reached.
\<close>

record exec_env =
  ee_ev :: bool
  ee_platform :: bool
  ee_approval_id :: uuid
  ee_run_id :: uuid
  ee_checkpoint :: uuid
  ee_now :: instant
  ee_started :: instant
  ee_finished :: instant

definition create_tool_approval ::
  "exec_env \<Rightarrow> string \<Rightarrow> dict \<Rightarrow> string \<Rightarrow> bool \<Rightarrow> world \<Rightarrow> uuid option \<times> world" where
  "create_tool_approval env tool_name arguments turn_id dynamic w =
     (if \<not> ee_platform env then (None, w)
      else case create_approval (ee_ev env) (ee_approval_id env) (ee_now env) ''tool_run'' tool_name
             ([(''tool_name'', JStr tool_name), (''arguments'', JObj arguments), (''turn_id'', JStr turn_id)] @
              (if dynamic then [(''dynamic_approval'', JBool True)] else []))
             [(''turn_id'', JStr turn_id), (''tool_name'', JStr tool_name)]
             [(''tool_name'', JStr tool_name), (''arguments'', JObj arguments)]
             [''approve'', ''edit'', ''reject'', ''respond''] [(''mode'', JStr ''rerun_tool'')] w of
        (i, w1) \<Rightarrow> (Some i, w1))"

definition upd_run :: "uuid \<Rightarrow> string \<Rightarrow> dict \<Rightarrow> instant \<Rightarrow> world \<Rightarrow> world" where
  "upd_run i status result now w =
     tool_runs_update (upd_row tr_id i (\<lambda>r. r\<lparr>tr_status := status, tr_result := result, tr_finished_at := Some now\<rparr>)) w"

text \<open>The part of \<open>execute\<close> from the call of the handler on.\<close>

definition finish_run ::
  "exec_env \<Rightarrow> string \<Rightarrow> dict \<Rightarrow> string \<Rightarrow> (exc + dict) \<times> world \<Rightarrow> (exc + dict) \<times> world" where
  "finish_run env name arguments turn_id outcome =
     (let i = ee_run_id env; ev = ee_ev env;
          ids = [(''tool_run_id'', JStr i), (''tool_name'', JStr name)]
      in case outcome of
           (Inr result, w) \<Rightarrow>
             (Inr (ids @ [(''status'', JStr ''succeeded''), (''result'', JObj result)]),
              emit_full ev ''tool.succeeded'' ids ''info'' '''' turn_id (upd_run i ''succeeded'' result (ee_finished env) w))
         | (Inl e, w) \<Rightarrow>
             if is_permission_error e
             then (case create_tool_approval env name arguments turn_id True w of (ap, w1) \<Rightarrow>
                 (Inl (ToolApprovalRequired (exc_str e) name (case ap of None \<Rightarrow> '''' | Some x \<Rightarrow> x)),
                  emit_full ev ''tool.approval_required''
                    (ids @ [(''approval_id'', opt_json JStr ap), (''error'', JStr (exc_str e))]) ''warning'' '''' turn_id
                    (upd_run i ''approval_required'' [(''error'', JStr (exc_str e)), (''approval_id'', opt_json JStr ap)]
                       (ee_finished env) w1)))
             else
               (Inl e,
                emit_full ev ''tool.failed'' (ids @ [(''error'', JStr (exc_str e))]) ''warning'' '''' turn_id
                  (upd_run i ''failed'' [(''error'', JStr (exc_str e))] (ee_finished env) w)))"

definition start_run :: "exec_env \<Rightarrow> string \<Rightarrow> dict \<Rightarrow> string \<Rightarrow> world \<Rightarrow> world" where
  "start_run env name arguments turn_id w =
     emit_full (ee_ev env) ''tool.started''
       [(''tool_run_id'', JStr (ee_run_id env)), (''tool_name'', JStr name)] ''info'' '''' turn_id
       (tool_runs_update (\<lambda>rs. rs @
          [\<lparr>tr_id = ee_run_id env, tr_turn_id = turn_id, tr_tool_name = name, tr_status = ''running'',
            tr_arguments = arguments, tr_result = [(''checkpoint'', JStr (ee_checkpoint env))], tr_started_at = ee_started env,
            tr_finished_at = None\<rparr>]) w)"

definition execute_tool ::
  "tool_services \<Rightarrow> registry \<Rightarrow> exec_env \<Rightarrow> string \<Rightarrow> dict \<Rightarrow> string \<Rightarrow> bool \<Rightarrow> world \<Rightarrow> (exc + dict) \<times> world" where
  "execute_tool sv reg env name arguments turn_id approved w =
     (let ev = ee_ev env in
      case registry_get reg name of
        None \<Rightarrow> (Inl (KeyError (''tool not found: '' @ name)), w)
      | Some t \<Rightarrow>
          (case td_handler t of
             None \<Rightarrow> (Inl (KeyError (''tool not found: '' @ name)), w)
           | Some h \<Rightarrow>
               if \<not> td_available t then (Inl (RuntimeError (''tool unavailable: '' @ name)), w)
               else if td_requires_approval t \<and> \<not> approved
               then (case create_tool_approval env name arguments turn_id False w of (ap, w1) \<Rightarrow>
                   (Inl (ToolApprovalRequired (''tool requires approval: '' @ name) name
                      (case ap of None \<Rightarrow> '''' | Some x \<Rightarrow> x)),
                    emit_full ev ''tool.approval_required''
                      [(''tool_name'', JStr name), (''approval_id'', opt_json JStr ap)] ''warning'' '''' turn_id w1))
               else
                 let w1 = (if approved
                        then emit_full ev ''tool.approved_execution'' [(''tool_name'', JStr name)] ''info'' '''' turn_id
                          (audit ev ''tool.approved_execution'' ''tool'' name
                            [(''tool_name'', JStr name), (''arguments'', JObj arguments), (''turn_id'', JStr turn_id)] w)
                        else w)
                 in (case floor_validate t arguments approved of
                       Some e \<Rightarrow>
                         (Inl e, emit_full ev ''tool.blocked'' [(''tool_name'', JStr name), (''error'', JStr (exc_str e))]
                            ''warning'' '''' turn_id w1)
                     | None \<Rightarrow>
                         finish_run env name arguments turn_id
                           (call_handler sv reg h (if approved then dset ''_approved'' (JBool True) arguments else arguments)
                             (start_run env name arguments turn_id w1)))))"

section \<open>Facts\<close>

lemma registry_get_register:
  "registry_get (fst (register ev d (reg, w))) n = (if n = td_name d then Some d else registry_get reg n)"
proof (cases "registry_get reg (td_name d) = None")
  case True
  then show ?thesis by (auto simp: register_def registry_get_def get_row_append split: option.split)
next
  case False
  have "get_row td_name n (upd_row td_name (td_name d) (\<lambda>_. d) reg) =
      (if n = td_name d then map_option (\<lambda>_. d) (get_row td_name n reg) else get_row td_name n reg)"
    by (induction reg) (auto simp: upd_row_def)
  then show ?thesis using False by (auto simp: register_def registry_get_def)
qed

lemma distinct_register:
  "distinct (map td_name reg) \<Longrightarrow> distinct (map td_name (fst (register ev d (reg, w))))"
proof (cases "registry_get reg (td_name d) = None")
  case False
  have "map td_name (upd_row td_name (td_name d) (\<lambda>_. d) reg) = map td_name reg"
    by (induction reg) (auto simp: upd_row_def)
  then show "distinct (map td_name reg) \<Longrightarrow> ?thesis" using False by (auto simp: register_def)
qed (auto simp: register_def registry_get_def get_row_None)

lemma distinct_register_many:
  "distinct (map td_name (fst rw)) \<Longrightarrow> distinct (map td_name (fst (register_many ev ds rw)))"
proof (induction ds arbitrary: rw)
  case (Cons d ds)
  then show ?case using distinct_register [of "fst rw" ev d "snd rw"] by (simp add: register_many_def)
qed (simp add: register_many_def)

lemma distinct_new_registry: "distinct (map td_name (fst (new_registry ev g a w)))"
proof -
  let ?r = "register_builtin_tools ev ([], w)"
  have "distinct (map td_name (fst ?r))" by (simp add: register_builtin_tools_def distinct_register_many)
  moreover have "distinct (map td_name (fst (register ev d rw)))" if "distinct (map td_name (fst rw))" for d rw
    using that distinct_register [of "fst rw" ev d "snd rw"] by simp
  ultimately show ?thesis by (simp add: new_registry_def Let_def install_gateway_def install_a2a_def)
qed

lemma get_run_upd:
  "get_row tr_id i (tool_runs (upd_run i st d n w)) =
     map_option (\<lambda>r. r\<lparr>tr_status := st, tr_result := d, tr_finished_at := Some n\<rparr>) (get_row tr_id i (tool_runs w))"
  unfolding upd_run_def by (subst runs_tab.look_modify) simp_all

lemma runs_create_tool_approval:
  "tool_runs (snd (create_tool_approval env name a tid dyn w)) = tool_runs w"
  by (simp add: create_tool_approval_def create_approval_def)

lemma create_tool_approval_row:
  assumes "ee_platform env" and "get_approval w (ee_approval_id env) = None"
    and "create_tool_approval env name a tid dyn w = (ap, w')"
  shows "ap = Some (ee_approval_id env) \<and> (\<exists>p. get_approval w' (ee_approval_id env) = Some p \<and> ap_status p = ''pending''
    \<and> ap_subject_id p = name \<and> ap_original_tool_call p = [(''tool_name'', JStr name), (''arguments'', JObj a)])"
  using assms by (auto simp: create_tool_approval_def create_approval_def get_approval_def get_row_append)

lemma call_other: "h \<noteq> H_tool_call \<Longrightarrow> call_handler sv reg h a w = base_handler sv reg h a w"
  by (simp add: call_handler.simps)

lemma call_tool_call:
  assumes "dstr ''tool_name'' a = name" and "name \<noteq> ''tool_call''" and "name \<noteq> []"
    and "registry_get reg name = Some t" and "td_handler t = Some target" and "td_available t"
  shows "call_handler sv reg H_tool_call a w =
     (if (td_requires_approval t \<or> td_scope t \<in> set mutating_scopes) \<and> \<not> truthy (dget ''_approved'' a)
      then (Inl (PermissionError (''tool requires approval: '' @ name)), w)
      else case call_handler sv reg target (nested_arguments a) w of
        (Inl e, w1) \<Rightarrow> (Inl e, w1)
      | (Inr d, w1) \<Rightarrow> (Inr [(''tool_name'', JStr name), (''result'', JObj d)], w1))"
  using assms by (subst call_handler.simps) (simp add: Let_def)

lemma execute_unapproved:
  assumes "registry_get reg name = Some t" and "td_handler t \<noteq> None" and "td_available t" and "td_requires_approval t"
    and "create_tool_approval env name args turn False w = (Some i, w1)"
  shows "execute_tool sv reg env name args turn False w =
     (Inl (ToolApprovalRequired (''tool requires approval: '' @ name) name i),
      emit_full (ee_ev env) ''tool.approval_required'' [(''tool_name'', JStr name), (''approval_id'', JStr i)] ''warning'' '''' turn w1)"
  using assms by (auto simp: execute_tool_def Let_def opt_json_def)

lemma execute_open:
  assumes "registry_get reg name = Some t" and "td_handler t = Some h" and "td_available t"
    and "approved \<or> \<not> td_requires_approval t"
  shows "\<exists>w1. same_state w w1 \<and> execute_tool sv reg env name a tid approved w =
     (case floor_validate t a approved of
        Some e \<Rightarrow> (Inl e, emit_full (ee_ev env) ''tool.blocked'' [(''tool_name'', JStr name), (''error'', JStr (exc_str e))]
                   ''warning'' '''' tid w1)
      | None \<Rightarrow> finish_run env name a tid
          (call_handler sv reg h (if approved then dset ''_approved'' (JBool True) a else a) (start_run env name a tid w1)))"
proof -
  define w1 where "w1 = (if approved
       then emit_full (ee_ev env) ''tool.approved_execution'' [(''tool_name'', JStr name)] ''info'' '''' tid
         (audit (ee_ev env) ''tool.approved_execution'' ''tool'' name
           [(''tool_name'', JStr name), (''arguments'', JObj a), (''turn_id'', JStr tid)] w)
       else w)"
  have ss: "same_state w w1"
    using same_state_trans [OF same_state_emit(4) same_state_emit(3)] by (simp add: w1_def)
  have "\<not> (td_requires_approval t \<and> \<not> approved)" using assms(4) by blast
  then have "execute_tool sv reg env name a tid approved w =
     (case floor_validate t a approved of
        Some e \<Rightarrow> (Inl e, emit_full (ee_ev env) ''tool.blocked'' [(''tool_name'', JStr name), (''error'', JStr (exc_str e))]
                   ''warning'' '''' tid w1)
      | None \<Rightarrow> finish_run env name a tid
          (call_handler sv reg h (if approved then dset ''_approved'' (JBool True) a else a) (start_run env name a tid w1)))"
    using assms(1-3) by (simp only: execute_tool_def Let_def w1_def [symmetric] option.case if_False simp_thms)
  then show ?thesis using ss by blast
qed

lemma same_state_runs: "same_state w w' \<Longrightarrow> tool_runs w' = tool_runs w"
proof -
  assume "same_state w w'"
  then have "tool_runs (w'\<lparr>runtime_events := [], audit_events := []\<rparr>) = tool_runs (w\<lparr>runtime_events := [], audit_events := []\<rparr>)"
    by (simp only: same_state_def)
  then show ?thesis by simp
qed

subsection \<open>Searching the printed arguments\<close>

lemma rx_searchI: "rx_match ps (if u = [] then p else Some (last u)) s \<Longrightarrow> rx_search ps p (u @ s)"
proof (induction u arbitrary: p)
  case Nil
  then show ?case by (cases s) simp_all
next
  case (Cons c u)
  have "rx_match ps (if u = [] then Some c else Some (last u)) s" using Cons.prems by (simp split: if_splits)
  then show ?case using Cons.IH by simp
qed

lemma sublist_join: "x \<in> set xs \<Longrightarrow> sublist x (join sep xs)"
proof (induction sep xs rule: join.induct)
  case (3 sep y z zs)
  show ?case
  proof (cases "x = y")
    case False
    then have "sublist x (join sep (z # zs))" using 3 by simp
    then show ?thesis by (simp add: sublist_append)
  qed simp
qed auto

lemma repr_contains:
  assumes "(k, JStr s) \<in> set args"
  shows "sublist (py_repr_str s) (py_repr (JObj args))"
proof -
  let ?f = "\<lambda>(k, v). py_repr_str k @ '': '' @ py_repr v"
  have "?f (k, JStr s) \<in> ?f ` set args" using assms by (rule imageI)
  then have "?f (k, JStr s) \<in> set (map ?f args)" by (simp only: set_map)
  then have "sublist (?f (k, JStr s)) (join '', '' (map ?f args))" by (rule sublist_join)
  moreover have "sublist (py_repr_str s) (?f (k, JStr s))"
    unfolding prod.case py_repr.simps append_assoc [symmetric] by (rule sublist_append_leftI)
  ultimately have "sublist (py_repr_str s) (join '', '' (map ?f args))" by (rule sublist_order.order.trans [rotated])
  moreover have "sublist (join '', '' (map ?f args)) (''{'' @ join '', '' (map ?f args) @ ''}'')" by (rule sublist_appendI)
  ultimately show ?thesis unfolding py_repr.simps by (rule sublist_order.order.trans)
qed

text \<open>A quote or a printable character that is no part of a word stays in front of what follows it when a
  string is printed.\<close>

definition plain_break :: "char \<Rightarrow> bool" where
  "plain_break c = (32 \<le> ordc c \<and> ordc c < 127 \<and> \<not> is_word (Some c))"

lemma last_repr_char: "plain_break c \<Longrightarrow> repr_char q c \<noteq> [] \<and> last (repr_char q c) = c"
  by (auto simp: plain_break_def repr_char_def Let_def)

lemma rm_repr:
  assumes "q = CHR 0x27 \<or> q = CHR 0x22"
  shows "concat (map (repr_char q) ''rm -rf /'') = ''rm -rf /''"
proof -
  have "concat (map (repr_char (CHR 0x27)) ''rm -rf /'') = ''rm -rf /''"
    "concat (map (repr_char (CHR 0x22)) ''rm -rf /'') = ''rm -rf /''" by code_simp+
  then show ?thesis using assms by blast
qed

lemma rm_matches:
  assumes "\<not> is_word (Some p)"
  shows "rx_match (RBoundary # words_rx [''rm'', ''-rf'', ''/'']) (Some p) (''rm -rf /'' @ s)"
proof -
  have lits: "words_rx [''rm'', ''-rf'', ''/''] = map RLit ''rm'' @ RSpaces # map RLit ''-rf'' @ RSpaces # map RLit ''/''"
    by (simp add: words_rx_def)
  have sp: "is_space CHR '' ''" "is_word (Some CHR ''r'')" by code_simp+
  show ?thesis using assms sp by (simp add: lits head_char_def)
qed

lemma floor_rm:
  assumes "(k, JStr (pre @ ''rm -rf /'' @ post)) \<in> set args" and "pre = [] \<or> plain_break (last pre)"
  shows "floor_validate t args approved = Some (PermissionError (''blocked by hard safety floor: '' @ rx_source (hd blocked_patterns)))"
proof -
  let ?s = "pre @ ''rm -rf /'' @ post"
  let ?p = "RBoundary # words_rx [''rm'', ''-rf'', ''/'']"
  define q where "q = (if CHR 0x27 \<in> set ?s \<and> CHR 0x22 \<notin> set ?s then CHR 0x22 else CHR 0x27)"
  have q: "q = CHR 0x27 \<or> q = CHR 0x22" by (simp add: q_def)
  let ?u = "q # concat (map (repr_char q) pre)"
  obtain u v where uv: "py_repr (JObj args) = u @ py_repr_str ?s @ v"
    using repr_contains [OF assms(1)] by (auto simp: sublist_def)
  have "py_repr_str ?s = ?u @ ''rm -rf /'' @ concat (map (repr_char q) post) @ [q]"
    unfolding py_repr_str_def Let_def q_def [symmetric] map_append concat_append rm_repr [OF q] by simp
  then have eq: "py_repr (JObj args) = (u @ ?u) @ (''rm -rf /'' @ (concat (map (repr_char q) post) @ [q] @ v))"
    unfolding uv by simp
  have "\<not> is_word (Some (last ?u))"
  proof (cases "pre = []")
    case True
    have "\<not> is_word (Some CHR 0x27)" "\<not> is_word (Some CHR 0x22)" by code_simp+
    then show ?thesis using q True by auto
  next
    case False
    then obtain pre' c where pre: "pre = pre' @ [c]" by (metis rev_exhaust)
    then have c: "plain_break c" using assms(2) by simp
    from last_repr_char [OF c] have "last ?u = c" by (simp add: pre)
    then show ?thesis using c by (simp add: plain_break_def)
  qed
  then have "rx_match ?p (Some (last (u @ ?u))) (''rm -rf /'' @ (concat (map (repr_char q) post) @ [q] @ v))"
    by (intro rm_matches) simp
  then have "rx_search ?p None (py_repr (JObj args))"
    unfolding eq by (intro rx_searchI) simp
  then show ?thesis by (simp add: floor_validate_def blocked_patterns_def)
qed

section \<open>Properties\<close>

text \<open>Services for concrete runs: nothing is stored, the gateway accepts every message.\<close>

definition sample_services :: tool_services where
  "sample_services = \<lparr>wiki_orientation = (\<lambda>n. op_ok []), wiki_route = (\<lambda>q n. op_ok []),
     wiki_browse = (\<lambda>p t n. op_ok []), wiki_search = (\<lambda>q n s p c. op_ok []), wiki_read = (\<lambda>k. op_ok None),
     wiki_read_with_graph = (\<lambda>k. op_ok None), wiki_follow_links = (\<lambda>k d n. op_ok []),
     wiki_sufficiency = (\<lambda>c p n s. op_ok []), wiki_compile = op_ok [], wiki_lint = op_ok [],
     wiki_repair = (\<lambda>b e. op_ok []), memory_search = (\<lambda>q n. op_ok []), memory_get = (\<lambda>i. op_ok None),
     memory_create = (\<lambda>m. op_raise (OtherError ''full'')), skills_search = (\<lambda>q n. op_ok []),
     skills_get = (\<lambda>k. op_ok None), skills_files = (\<lambda>k. op_ok []), skills_scan = op_ok [],
     skills_test = (\<lambda>k. op_ok []), gateway_service = Some (\<lambda>m. op_ok [(''sent'', JStr (om_text m))]),
     a2a_service = None, external_tool = (\<lambda>server n a. op_ok [])\<rparr>"

definition sample_exec :: exec_env where
  "sample_exec = \<lparr>ee_ev = True, ee_platform = True, ee_approval_id = ''ap'', ee_run_id = ''run'',
     ee_checkpoint = ''cp'', ee_now = 1, ee_started = 1, ee_finished = 2\<rparr>"

definition sample_registry :: registry where
  "sample_registry = [gateway_send_tool] @ builtin_tool_tools @ [hd builtin_wiki_tools]"

text \<open>C11: A tool that requires approval never runs unapproved: the call ends with the exception that
  carries the new approval, no run is recorded, the handler and the services play no part in the outcome,
  and a pending approval with exactly the call that was made is on record.\<close>

theorem unapproved_tool_waits:
  assumes "registry_get reg name = Some t" and "td_handler t \<noteq> None" and "td_available t" and "td_requires_approval t"
    and "ee_platform env" and "get_approval w (ee_approval_id env) = None"
  shows "\<exists>w'. (\<forall>sv. execute_tool sv reg env name args turn False w =
       (Inl (ToolApprovalRequired (''tool requires approval: '' @ name) name (ee_approval_id env)), w'))
     \<and> tool_runs w' = tool_runs w
     \<and> (\<exists>p. get_approval w' (ee_approval_id env) = Some p \<and> ap_status p = ''pending'' \<and> ap_subject_id p = name
          \<and> ap_original_tool_call p = [(''tool_name'', JStr name), (''arguments'', JObj args)])"
proof -
  obtain ap w1 where c: "create_tool_approval env name args turn False w = (ap, w1)" by fastforce
  note row = create_tool_approval_row [OF assms(5,6) c]
  have runs: "tool_runs w1 = tool_runs w" using runs_create_tool_approval [of env name args turn False w] c by simp
  have "ap = Some (ee_approval_id env)" using row by blast
  note ex = execute_unapproved [OF assms(1-4) c [unfolded this]]
  show ?thesis using row runs by (simp add: ex)
qed

theorem unapproved_tool_waits_witness:
  "\<exists>w'. execute_tool sample_services sample_registry sample_exec ''gateway_send'' [(''text'', JStr ''hi'')] ''t'' False empty_world
     = (Inl (ToolApprovalRequired ''tool requires approval: gateway_send'' ''gateway_send'' ''ap''), w')"
proof -
  have h: "registry_get sample_registry ''gateway_send'' = Some gateway_send_tool" "td_handler gateway_send_tool \<noteq> None"
    "td_available gateway_send_tool" "td_requires_approval gateway_send_tool" "ee_platform sample_exec"
    "get_approval empty_world (ee_approval_id sample_exec) = None" "ee_approval_id sample_exec = ''ap''" by code_simp+
  show ?thesis using unapproved_tool_waits [OF h(1-6), of "[(''text'', JStr ''hi'')]" "''t''"] unfolding h(7) by auto
qed

text \<open>C12: A run is never left running. Whatever the handler does, when \<open>execute\<close> ends, a run it recorded
  is finished: succeeded with the result that is returned, waiting for an approval when that is what is
  raised, and otherwise failed with the text of the exception.\<close>

theorem execute_settles_run:
  assumes "execute_tool sv reg env name args turn approved w = (r, w')"
    and "get_row tr_id (ee_run_id env) (tool_runs w) = None"
    and "get_row tr_id (ee_run_id env) (tool_runs w') = Some run"
  shows "tr_finished_at run = Some (ee_finished env) \<and>
    (case r of
       Inr d \<Rightarrow> tr_status run = ''succeeded'' \<and> dget ''result'' d = JObj (tr_result run)
     | Inl (ToolApprovalRequired m n ap) \<Rightarrow> tr_status run = ''approval_required'' \<and> dget ''error'' (tr_result run) = JStr m
     | Inl e \<Rightarrow> tr_status run = ''failed'' \<and> tr_result run = [(''error'', JStr (exc_str e))])"
proof -
  have ran: "\<exists>h a w1. (r, w') = finish_run env name args turn (call_handler sv reg h a w1)"
  proof (rule ccontr)
    assume no: "\<not> ?thesis"
    have no': "finish_run env name args turn (call_handler sv reg h a w1) \<noteq> (r, w')" for h a w1 using no by metis
    have "tool_runs w' = tool_runs w"
      using assms(1) no' runs_create_tool_approval [of env name args turn False w]
      by (auto simp: execute_tool_def Let_def split: option.splits if_splits prod.splits)
    then show False using assms(2,3) by simp
  qed
  then obtain h a w1 where ran: "(r, w') = finish_run env name args turn (call_handler sv reg h a w1)" by blast
  obtain r1 w2 where c: "call_handler sv reg h a w1 = (r1, w2)" by fastforce
  show ?thesis
  proof (cases r1)
    case (Inr d)
    then show ?thesis using ran assms(3) by (auto simp: c finish_run_def Let_def get_run_upd dget_def)
  next
    case (Inl e)
    show ?thesis
    proof (cases "is_permission_error e")
      case True
      then show ?thesis using ran assms(3) Inl
        by (auto simp: c finish_run_def Let_def get_run_upd dget_def split: prod.splits)
    next
      case False
      then have "r = Inl e" "tr_finished_at run = Some (ee_finished env)" "tr_status run = ''failed''"
        "tr_result run = [(''error'', JStr (exc_str e))]"
        using ran assms(3) Inl by (auto simp: c finish_run_def Let_def get_run_upd)
      then show ?thesis using False by (cases e) simp_all
    qed
  qed
qed

theorem execute_settles_run_witness:
  "map_option tr_status (get_row tr_id ''run'' (tool_runs (snd (execute_tool sample_services sample_registry sample_exec
     ''gateway_send'' [(''text'', JStr ''hi'')] ''t'' True empty_world)))) = Some ''failed''"
proof -
  let ?x = "execute_tool sample_services sample_registry sample_exec ''gateway_send'' [(''text'', JStr ''hi'')] ''t'' True empty_world"
  have h: "?x = (Inl (KeyError ''gateway_name''), snd ?x)" "ee_run_id sample_exec = ''run''"
    "get_row tr_id (ee_run_id sample_exec) (tool_runs empty_world) = None"
    "get_row tr_id (ee_run_id sample_exec) (tool_runs (snd ?x)) = Some (the (get_row tr_id ''run'' (tool_runs (snd ?x))))"
    by code_simp+
  from execute_settles_run [OF h(1,3,4)]
  have "tr_status (the (get_row tr_id ''run'' (tool_runs (snd ?x)))) = ''failed''" by simp
  then show ?thesis by (subst h(4) [unfolded h(2)]) simp
qed

text \<open>The safety floor holds even for approved calls: when a string argument contains \<open>rm -rf /\<close> at its
  start or after a printable character that is not part of a word, the call raises a permission error, no
  run is recorded, and the outcome does not depend on handler or services.\<close>

theorem safety_floor_blocks_rm:
  assumes "registry_get reg name = Some t" and "td_handler t \<noteq> None" and "td_available t"
    and "(k, JStr (pre @ ''rm -rf /'' @ post)) \<in> set args" and "pre = [] \<or> plain_break (last pre)"
  shows "\<exists>m w'. (\<forall>sv. execute_tool sv reg env name args turn True w = (Inl (PermissionError m), w'))
    \<and> same_state w w'"
proof -
  obtain h where h: "td_handler t = Some h" using assms(2) by blast
  note blocked = floor_rm [OF assms(4,5), of t True]
  define e where "e = PermissionError (''blocked by hard safety floor: '' @ rx_source (hd blocked_patterns))"
  define w1 where "w1 = emit_full (ee_ev env) ''tool.approved_execution'' [(''tool_name'', JStr name)] ''info'' '''' turn
    (audit (ee_ev env) ''tool.approved_execution'' ''tool'' name
      [(''tool_name'', JStr name), (''arguments'', JObj args), (''turn_id'', JStr turn)] w)"
  define w2 where "w2 = emit_full (ee_ev env) ''tool.blocked'' [(''tool_name'', JStr name), (''error'', JStr (exc_str e))]
    ''warning'' '''' turn w1"
  have "same_state w w2" unfolding w1_def w2_def
    by (rule same_state_trans [OF same_state_trans [OF same_state_emit(4) same_state_emit(3)] same_state_emit(3)])
  moreover have "execute_tool sv reg env name args turn True w = (Inl e, w2)" for sv
    using assms(1,3) h blocked [folded e_def] by (simp add: execute_tool_def Let_def w2_def w1_def)
  ultimately show ?thesis unfolding e_def by blast
qed

theorem safety_floor_blocks_rm_witness:
  "\<exists>m w'. execute_tool sample_services sample_registry sample_exec ''tool_call''
     [(''tool_name'', JStr ''x''), (''cmd'', JStr ''sudo rm -rf / --no-preserve-root'')] ''t'' True empty_world
   = (Inl (PermissionError m), w')"
proof -
  let ?a = "[(''tool_name'', JStr ''x''), (''cmd'', JStr (''sudo '' @ ''rm -rf /'' @ '' --no-preserve-root''))]"
  have h: "registry_get sample_registry ''tool_call'' = Some (builtin_tool_tools ! 2)"
    "td_handler (builtin_tool_tools ! 2) \<noteq> None" "td_available (builtin_tool_tools ! 2)"
    "(''cmd'', JStr (''sudo '' @ ''rm -rf /'' @ '' --no-preserve-root'')) \<in> set ?a"
    "''sudo '' = [] \<or> plain_break (last ''sudo '')" by code_simp+
  from safety_floor_blocks_rm [OF h, of sample_exec "''t''" empty_world] show ?thesis by auto
qed

text \<open>The safety floor looks at the printed form of the arguments, in which a line break or a tab is a
  backslash and a letter. A command that stands on a line of its own, or whose words are separated by a
  tab, therefore passes for every tool.\<close>

theorem safety_floor_misses_line_breaks:
  "map (\<lambda>cmd. floor_validate t [(''command'', JStr cmd)] True)
     [''cd work'' @ [newline] @ ''rm -rf /'', ''rm'' @ [CHR 0x09] @ ''-rf /''] = [None, None]"
proof -
  have "find (\<lambda>p. rx_search p None (py_repr (JObj [(''command'', JStr (''cd work'' @ [newline] @ ''rm -rf /''))]))) blocked_patterns = None"
    "find (\<lambda>p. rx_search p None (py_repr (JObj [(''command'', JStr (''rm'' @ [CHR 0x09] @ ''-rf /''))]))) blocked_patterns = None"
    by code_simp+
  then show ?thesis by (simp only: list.map floor_validate_def option.case simp_thms if_False)
qed

text \<open>C13: \<open>tool_call\<close> is no way around approval, as long as the caller does not claim one: calling a tool
  that requires approval or writes, through \<open>tool_call\<close> and without approval, ends with a run that waits
  for approval and a pending approval on record, and never reaches the tool's handler.\<close>

theorem tool_call_waits_for_approval:
  assumes "registry_get reg ''tool_call'' = Some tc" and "td_handler tc = Some H_tool_call" and "td_available tc"
    and "\<not> td_requires_approval tc" and "floor_validate tc args False = None"
    and "dstr ''tool_name'' args = name" and "name \<noteq> ''tool_call''" and "name \<noteq> []"
    and "registry_get reg name = Some t" and "td_handler t = Some h" and "td_available t"
    and "td_requires_approval t \<or> td_scope t \<in> set mutating_scopes" and "\<not> truthy (dget ''_approved'' args)"
    and "ee_platform env" and "get_approval w (ee_approval_id env) = None"
  shows "\<exists>w'. (\<forall>sv. execute_tool sv reg env ''tool_call'' args turn False w =
       (Inl (ToolApprovalRequired (''tool requires approval: '' @ name) ''tool_call'' (ee_approval_id env)), w'))
     \<and> (\<exists>p. get_approval w' (ee_approval_id env) = Some p \<and> ap_status p = ''pending''
          \<and> ap_original_tool_call p = [(''tool_name'', JStr ''tool_call''), (''arguments'', JObj args)])"
proof -
  define ws where "ws = start_run env ''tool_call'' args turn w"
  have none: "get_approval ws (ee_approval_id env) = None"
    using assms(15) by (simp add: ws_def start_run_def get_approval_def)
  obtain ap w1 where c: "create_tool_approval env ''tool_call'' args turn True ws = (ap, w1)" by fastforce
  note row = create_tool_approval_row [OF assms(14) none c]
  define e where "e = PermissionError (''tool requires approval: '' @ name)"
  define w' where "w' = snd (finish_run env ''tool_call'' args turn (Inl e, ws))"
  have e: "is_permission_error e" "exc_str e = ''tool requires approval: '' @ name" by (simp_all add: e_def)
  have "call_handler sv reg H_tool_call args ws = (Inl e, ws)" for sv
    using call_tool_call [OF assms(6-11)] assms(12,13) by (simp add: e_def)
  then have run: "execute_tool sv reg env ''tool_call'' args turn False w = finish_run env ''tool_call'' args turn (Inl e, ws)" for sv
    using assms(1-5) by (simp add: execute_tool_def Let_def ws_def)
  have fin: "finish_run env ''tool_call'' args turn (Inl e, ws) =
      (Inl (ToolApprovalRequired (''tool requires approval: '' @ name) ''tool_call'' (ee_approval_id env)), w')"
    using row e by (simp add: finish_run_def Let_def c w'_def)
  have "get_approval w' i = get_approval w1 i" for i
    using e by (simp add: w'_def finish_run_def Let_def c upd_run_def get_approval_def)
  then show ?thesis unfolding run fin using row by (intro exI [of _ w']) auto
qed

theorem tool_call_waits_for_approval_witness:
  "\<exists>w'. execute_tool sample_services sample_registry sample_exec ''tool_call'' [(''tool_name'', JStr ''gateway_send'')] ''t'' False empty_world
     = (Inl (ToolApprovalRequired ''tool requires approval: gateway_send'' ''tool_call'' ''ap''), w')"
proof -
  let ?a = "[(''tool_name'', JStr ''gateway_send'')]"
  have h: "registry_get sample_registry ''tool_call'' = Some (builtin_tool_tools ! 2)"
    "td_handler (builtin_tool_tools ! 2) = Some H_tool_call" "td_available (builtin_tool_tools ! 2)"
    "\<not> td_requires_approval (builtin_tool_tools ! 2)" "floor_validate (builtin_tool_tools ! 2) ?a False = None"
    "dstr ''tool_name'' ?a = ''gateway_send''" "''gateway_send'' \<noteq> ''tool_call''" "''gateway_send'' \<noteq> []"
    "registry_get sample_registry ''gateway_send'' = Some gateway_send_tool"
    "td_handler gateway_send_tool = Some H_gateway_send" "td_available gateway_send_tool"
    "td_requires_approval gateway_send_tool \<or> td_scope gateway_send_tool \<in> set mutating_scopes"
    "\<not> truthy (dget ''_approved'' ?a)" "ee_platform sample_exec"
    "get_approval empty_world (ee_approval_id sample_exec) = None" "ee_approval_id sample_exec = ''ap''" by code_simp+
  show ?thesis using tool_call_waits_for_approval [OF h(1-15), of "''t''"] unfolding h(16) by auto
qed

text \<open>The argument \<open>_approved\<close> of \<open>tool_call\<close> is taken from the caller. An unapproved execution whose
  arguments carry it runs the handler of a tool that requires approval, with the approval passed on.\<close>

theorem approved_argument_bypasses:
  assumes "registry_get reg ''tool_call'' = Some tc" and "td_handler tc = Some H_tool_call" and "td_available tc"
    and "\<not> td_requires_approval tc" and "floor_validate tc args False = None"
    and "dstr ''tool_name'' args = name" and "name \<noteq> ''tool_call''" and "name \<noteq> []"
    and "registry_get reg name = Some t" and "td_handler t = Some h" and "td_available t" and "td_requires_approval t"
    and "truthy (dget ''_approved'' args)"
    and "call_handler sv reg h (nested_arguments args) (start_run env ''tool_call'' args turn w) = (Inr d, w1)"
  shows "\<exists>w'. execute_tool sv reg env ''tool_call'' args turn False w =
      (Inr [(''tool_run_id'', JStr (ee_run_id env)), (''tool_name'', JStr ''tool_call''), (''status'', JStr ''succeeded''),
            (''result'', JObj [(''tool_name'', JStr name), (''result'', JObj d)])], w')
    \<and> dget ''_approved'' (nested_arguments args) = JBool True"
proof -
  have "call_handler sv reg H_tool_call args (start_run env ''tool_call'' args turn w) =
      (Inr [(''tool_name'', JStr name), (''result'', JObj d)], w1)"
    using call_tool_call [OF assms(6-11)] assms(13,14) by simp
  then show ?thesis using assms(1-5,13) by (simp add: execute_tool_def Let_def finish_run_def nested_arguments_def)
qed

definition smuggled :: dict where
  "smuggled = [(''tool_name'', JStr ''gateway_send''), (''_approved'', JBool True),
     (''arguments'', JObj [(''gateway_name'', JStr ''ops''), (''target_id'', JStr ''x''), (''text'', JStr ''hi'')])]"

theorem approved_argument_bypasses_witness:
  "\<exists>w'. execute_tool sample_services sample_registry sample_exec ''tool_call'' smuggled ''t'' False empty_world
     = (Inr [(''tool_run_id'', JStr ''run''), (''tool_name'', JStr ''tool_call''), (''status'', JStr ''succeeded''),
          (''result'', JObj [(''tool_name'', JStr ''gateway_send''), (''result'', JObj [(''sent'', JStr ''hi'')])])], w')"
proof -
  let ?c = "call_handler sample_services sample_registry H_gateway_send (nested_arguments smuggled)
      (start_run sample_exec ''tool_call'' smuggled ''t'' empty_world)"
  have h: "registry_get sample_registry ''tool_call'' = Some (builtin_tool_tools ! 2)"
    "td_handler (builtin_tool_tools ! 2) = Some H_tool_call" "td_available (builtin_tool_tools ! 2)"
    "\<not> td_requires_approval (builtin_tool_tools ! 2)" "floor_validate (builtin_tool_tools ! 2) smuggled False = None"
    "dstr ''tool_name'' smuggled = ''gateway_send''" "''gateway_send'' \<noteq> ''tool_call''" "''gateway_send'' \<noteq> []"
    "registry_get sample_registry ''gateway_send'' = Some gateway_send_tool"
    "td_handler gateway_send_tool = Some H_gateway_send" "td_available gateway_send_tool"
    "td_requires_approval gateway_send_tool" "truthy (dget ''_approved'' smuggled)"
    "?c = (Inr [(''sent'', JStr ''hi'')], snd ?c)" "ee_run_id sample_exec = ''run''" by code_simp+
  show ?thesis using approved_argument_bypasses [OF h(1-14)] unfolding h(15) by auto
qed

text \<open>The model is never shown more tool schemas than the configured maximum or the thirteen direct
  tools, and only schemas of available registered tools.\<close>

theorem openai_tools_bounded:
  assumes "distinct (map td_name reg)"
  shows "int (length (openai_tools n reg)) \<le> max n 13
    \<and> set (openai_tools n reg) \<subseteq> openai_schema ` {t \<in> set reg. td_available t}"
proof -
  let ?av = "filter td_available (registry_list reg)"
  let ?direct = "filter (\<lambda>t. td_name t \<in> set direct_names) ?av"
  have s: "set (registry_list reg) = set reg" "mset (registry_list reg) = mset reg"
    by (simp_all add: registry_list_def)
  have "distinct (map td_name (registry_list reg))"
    using assms by (metis s(2) mset_map mset_eq_imp_distinct_iff)
  then have "distinct (map td_name ?direct)" by (simp add: distinct_map inj_on_def)
  moreover have "set (map td_name ?direct) \<subseteq> set direct_names" by auto
  ultimately have "length (map td_name ?direct) \<le> card (set direct_names)"
    by (metis List.finite_set card_mono distinct_card)
  also have "\<dots> = 13" by code_simp
  finally have "length ?direct \<le> 13" by simp
  then show ?thesis using s(1) by (auto simp: openai_tools_def Let_def)
qed

theorem openai_tools_bounded_witness:
  "int (length (openai_tools 5 (fst (new_registry False True True empty_world)))) \<le> max 5 13"
  using openai_tools_bounded [OF distinct_new_registry, of 5 False True True empty_world] by blast

end
