(* ===== verification/Sandbox.thy ===== *)
theory Sandbox
  imports Py_Values
begin

text \<open>
  Sandboxed execution: \<open>backend/runtime/policy.py\<close>, \<open>base.py\<close> and \<open>host_runtime.py\<close>.

  A resolved path is the list of its components below the root. The operating system is a parameter,
  the record \<open>host\<close>: path resolution through symbolic links, file tests, temporary files, the
  interpreters, the environment, UTF-8 decoding, and what a spawned process does. The state
  (\<open>host_state\<close>) keeps the snippet files on disk and the processes that were started.
\<close>

type_synonym path = "string list"

section \<open>\<open>policy.py\<close>\<close>

definition GLOBAL_TIMEOUT_CEILING_SECONDS :: int where
  "GLOBAL_TIMEOUT_CEILING_SECONDS = 300"

definition GLOBAL_OUTPUT_CEILING_BYTES :: int where
  "GLOBAL_OUTPUT_CEILING_BYTES = 256 * 1024"

record sandbox_policy =
  sp_timeout_seconds :: int
  sp_max_output_bytes :: int
  sp_allow_network :: bool
  sp_writable_paths :: "string list"
  sp_allowed_tools :: "string list"
  sp_denied_tools :: "string list"
  sp_labels :: dict

definition DEFAULT_POLICY :: sandbox_policy where
  "DEFAULT_POLICY = \<lparr>sp_timeout_seconds = 30, sp_max_output_bytes = 64 * 1024, sp_allow_network = True,
     sp_writable_paths = [], sp_allowed_tools = [], sp_denied_tools = [], sp_labels = []\<rparr>"

definition effective_timeout_seconds :: "sandbox_policy \<Rightarrow> int" where
  "effective_timeout_seconds p = max 1 (min GLOBAL_TIMEOUT_CEILING_SECONDS (sp_timeout_seconds p))"

definition effective_max_output_bytes :: "sandbox_policy \<Rightarrow> int" where
  "effective_max_output_bytes p = max 1024 (min GLOBAL_OUTPUT_CEILING_BYTES (sp_max_output_bytes p))"

definition is_tool_allowed :: "sandbox_policy \<Rightarrow> string \<Rightarrow> bool" where
  "is_tool_allowed p tool_name =
     (if tool_name \<in> set (sp_denied_tools p) then False
      else if sp_allowed_tools p \<noteq> [] \<and> tool_name \<notin> set (sp_allowed_tools p) then False
      else True)"

definition policy_to_dict :: "sandbox_policy \<Rightarrow> dict" where
  "policy_to_dict p =
     [(''timeout_seconds'', JInt (effective_timeout_seconds p)),
      (''max_output_bytes'', JInt (effective_max_output_bytes p)),
      (''allow_network'', JBool (sp_allow_network p)),
      (''writable_paths'', JList (map JStr (sp_writable_paths p))),
      (''allowed_tools'', JList (map JStr (sp_allowed_tools p))),
      (''denied_tools'', JList (map JStr (sp_denied_tools p))),
      (''labels'', JObj (sp_labels p))]"

text \<open>\<open>Path(s)\<close>: the components (empty ones and \<open>.\<close> are dropped) and whether it is absolute;
  \<open>a / b\<close> for a relative \<open>b\<close>; \<open>str\<close> of an absolute path.\<close>

definition path_parts :: "string \<Rightarrow> path" where
  "path_parts s = filter (\<lambda>c. c \<noteq> [] \<and> c \<noteq> ''.'') (split_on CHR ''/'' s)"

definition is_absolute :: "string \<Rightarrow> bool" where
  "is_absolute s = startswith s ''/''"

definition path_str :: "path \<Rightarrow> string" where
  "path_str p = ''/'' @ join ''/'' p"

text \<open>\<open>resolve\<close> is the parameter for \<open>Path.resolve\<close>; \<open>target.relative_to(base)\<close> succeeds exactly when
  \<open>base\<close> is a prefix.\<close>

definition check_path_under :: "(path \<Rightarrow> exc + path) \<Rightarrow> path \<Rightarrow> string \<Rightarrow> exc + path" where
  "check_path_under resolve workspace_dir raw =
     (if py_strip raw = [] then Inl (PolicyViolation ''path is empty'')
      else if is_absolute (py_strip raw)
      then Inl (PolicyViolation ''path must be a workspace-relative path'')
      else case resolve workspace_dir of
        Inl e \<Rightarrow> Inl e
      | Inr ws \<Rightarrow>
          (case resolve (ws @ path_parts (py_strip raw)) of
             Inl e \<Rightarrow> Inl e
           | Inr target \<Rightarrow>
               if prefix ws target then Inr target
               else Inl (PolicyViolation (''path '' @ py_repr_str raw @ '' escapes workspace_dir''))))"

text \<open>An entry is joined to the workspace; an absolute entry replaces it (\<open>Path.__truediv__\<close>). An
  \<open>OSError\<close> while resolving the target means no match.\<close>

definition join_path :: "path \<Rightarrow> string \<Rightarrow> path" where
  "join_path base entry = (if is_absolute entry then path_parts entry else base @ path_parts entry)"

fun any_prefix :: "(path \<Rightarrow> exc + path) \<Rightarrow> path \<Rightarrow> path \<Rightarrow> string list \<Rightarrow> exc + bool" where
  "any_prefix resolve ws target [] = Inr False"
| "any_prefix resolve ws target (entry # rest) =
     (case resolve (join_path ws entry) of
        Inl e \<Rightarrow> Inl e
      | Inr candidate \<Rightarrow> if prefix candidate target then Inr True else any_prefix resolve ws target rest)"

definition writable_paths_match :: "(path \<Rightarrow> exc + path) \<Rightarrow> path \<Rightarrow> string list \<Rightarrow> path \<Rightarrow> exc + bool" where
  "writable_paths_match resolve target allowed workspace_dir =
     (case resolve target of
        Inl e \<Rightarrow> Inr False
      | Inr t \<Rightarrow> (case resolve workspace_dir of
          Inl e \<Rightarrow> Inl e
        | Inr ws \<Rightarrow> any_prefix resolve ws t allowed))"

section \<open>\<open>base.py\<close>\<close>

record runtime_result =
  rr_ok :: bool
  rr_stdout :: string
  rr_stderr :: string
  rr_error :: "string option"
  rr_exit_code :: "int option"
  rr_duration_ms :: int
  rr_truncated_stdout :: bool
  rr_truncated_stderr :: bool
  rr_extra :: dict

definition empty_result :: runtime_result where
  "empty_result = \<lparr>rr_ok = False, rr_stdout = '''', rr_stderr = '''', rr_error = None, rr_exit_code = None,
     rr_duration_ms = 0, rr_truncated_stdout = False, rr_truncated_stderr = False, rr_extra = []\<rparr>"

definition failure :: "string \<Rightarrow> runtime_result" where
  "failure msg = empty_result\<lparr>rr_error := Some msg\<rparr>"

definition result_to_dict :: "runtime_result \<Rightarrow> dict" where
  "result_to_dict r =
     [(''ok'', JBool (rr_ok r)), (''stdout'', JStr (rr_stdout r)), (''stderr'', JStr (rr_stderr r)),
      (''error'', opt_json JStr (rr_error r)), (''exit_code'', opt_json JInt (rr_exit_code r)),
      (''duration_ms'', JInt (rr_duration_ms r)), (''truncated_stdout'', JBool (rr_truncated_stdout r)),
      (''truncated_stderr'', JBool (rr_truncated_stderr r)), (''extra'', JObj (rr_extra r))]"

section \<open>\<open>host_runtime.py\<close>\<close>

text \<open>What a spawned process does within the time limit: it exits with its output (bytes), runs into
  the time limit and is terminated, the interpreter is missing, or spawning raises.\<close>

datatype process =
    Exited int string string
  | TimedOut
  | InterpreterMissing string
  | SpawnFailed string string

record host =
  he_workspace :: path
  he_resolve :: "path \<Rightarrow> exc + path"
  he_exists :: "path \<Rightarrow> bool"
  he_is_file :: "path \<Rightarrow> bool"
  he_is_dir :: "path \<Rightarrow> bool"
  he_mkstemp :: "exc + string"
  he_write :: "exc option"
  he_python :: string
  he_which_sh :: "string option"
  he_environ :: "(string \<times> string) list"
  he_decode :: "string \<Rightarrow> string"
  he_process :: "string list \<Rightarrow> (string \<times> string) list \<Rightarrow> path \<Rightarrow> int \<Rightarrow> process"
  he_duration_ms :: int
  he_unlink_fails :: bool

record host_state =
  hs_snippets :: "path list"
  hs_started :: "(string list \<times> path \<times> int) list"

definition ALLOWED_SCRIPT_SUFFIXES :: "string list" where
  "ALLOWED_SCRIPT_SUFFIXES = [''.py'', ''.sh'']"

text \<open>\<open>Path.suffix\<close>: from the last dot of the name, unless the dot is its first or last character.\<close>

definition path_suffix :: "path \<Rightarrow> string" where
  "path_suffix p = (if p = [] then [] else
     let name = last p; ext = takeWhile (\<lambda>c. c \<noteq> CHR ''.'') (rev name)
     in if CHR ''.'' \<notin> set name \<or> ext = [] \<or> length ext + 1 = length name then []
        else CHR ''.'' # rev ext)"

text \<open>\<open>type(exc).__name__\<close>.\<close>

fun exc_name :: "exc \<Rightarrow> string" where
  "exc_name (KeyError _) = ''KeyError''"
| "exc_name (ValueError _) = ''ValueError''"
| "exc_name (RuntimeError _) = ''RuntimeError''"
| "exc_name (PermissionError _) = ''PermissionError''"
| "exc_name (TypeError _) = ''TypeError''"
| "exc_name (NotImplementedError _) = ''NotImplementedError''"
| "exc_name ZeroDivisionError = ''ZeroDivisionError''"
| "exc_name (PolicyViolation _) = ''PolicyViolation''"
| "exc_name (CircuitOpenError _) = ''CircuitOpenError''"
| "exc_name (RateLimitExceeded _ _ _ _) = ''RateLimitExceeded''"
| "exc_name (ToolApprovalRequired _ _ _) = ''ToolApprovalRequired''"
| "exc_name (HTTPStatusError _ _ _) = ''HTTPStatusError''"
| "exc_name (TransportError _) = ''TransportError''"
| "exc_name (OtherError _) = ''OSError''"

definition argv_for :: "host \<Rightarrow> path \<Rightarrow> exc + string list" where
  "argv_for h target =
     (let suffix = py_lower (path_suffix target)
      in if suffix = ''.py'' then Inr [he_python h, path_str target]
         else if suffix = ''.sh''
         then Inr [(case he_which_sh h of None \<Rightarrow> ''/bin/sh'' | Some sh \<Rightarrow> str_or sh ''/bin/sh''), path_str target]
         else Inl (ValueError (''unsupported extension '' @ py_repr_str suffix)))"

fun env_set :: "string \<Rightarrow> string \<Rightarrow> (string \<times> string) list \<Rightarrow> (string \<times> string) list" where
  "env_set k v [] = [(k, v)]"
| "env_set k v ((k', v') # xs) = (if k = k' then (k, v) # xs else (k', v') # env_set k v xs)"

definition merged_env :: "host \<Rightarrow> (string \<times> string) list \<Rightarrow> (string \<times> string) list" where
  "merged_env h env = fold (\<lambda>(k, v) acc. env_set k v acc) env (he_environ h)"

definition resolve_cwd :: "host \<Rightarrow> string option \<Rightarrow> exc + path" where
  "resolve_cwd h cwd = (case cwd of
     None \<Rightarrow> Inr (he_workspace h)
   | Some c \<Rightarrow> (case check_path_under (he_resolve h) (he_workspace h) c of
       Inl e \<Rightarrow> Inl e
     | Inr target \<Rightarrow>
         if \<not> he_exists h target \<or> \<not> he_is_dir h target then Inr (he_workspace h) else Inr target))"

definition truncate_output :: "(string \<Rightarrow> string) \<Rightarrow> string \<Rightarrow> int \<Rightarrow> string \<times> bool" where
  "truncate_output decode data limit =
     (if data = [] then ('''', False)
      else if int (length data) \<le> limit then (decode data, False)
      else (decode (take (nat limit) data) @ newline # ''[...truncated '' @
              int_str (int (length data) - limit) @ '' bytes]'', True))"

text \<open>The first part of \<open>execute\<close>: find the script or write the snippet. \<open>Inl\<close> is the result of an
  early return; the second component is the snippet file to clean up.\<close>

definition prepare :: "host \<Rightarrow> string \<Rightarrow> string \<Rightarrow> host_state \<Rightarrow> (runtime_result + path \<times> path option) \<times> host_state" where
  "prepare h kind payload s =
     (if kind = ''script''
      then (case check_path_under (he_resolve h) (he_workspace h) payload of
          Inl (PolicyViolation m) \<Rightarrow> (Inl (failure (''policy: '' @ m)), s)
        | Inl e \<Rightarrow> (Inl (failure (''setup: '' @ exc_name e @ '': '' @ exc_str e)), s)
        | Inr target \<Rightarrow>
            if \<not> he_exists h target then (Inl (failure (''script not found: '' @ payload)), s)
            else if \<not> he_is_file h target then (Inl (failure (''not a regular file: '' @ payload)), s)
            else if py_lower (path_suffix target) \<notin> set ALLOWED_SCRIPT_SUFFIXES
            then (Inl (failure (''script suffix '' @ py_repr_str (path_suffix target) @ '' not in (''
                   @ join '', '' (map py_repr_str ALLOWED_SCRIPT_SUFFIXES) @ '')'')), s)
            else (Inr (target, None), s))
      else if kind = ''snippet''
      then (case he_mkstemp h of
          Inl e \<Rightarrow> (Inl (failure (''setup: '' @ exc_name e @ '': '' @ exc_str e)), s)
        | Inr r \<Rightarrow>
            let target = he_workspace h @ [''_soulclaw_snippet_'' @ r @ ''.py''];
                s1 = s\<lparr>hs_snippets := hs_snippets s @ [target]\<rparr>
            in (case he_write h of
                  Some e \<Rightarrow> (Inl (failure (''setup: '' @ exc_name e @ '': '' @ exc_str e)), s1)
                | None \<Rightarrow> (Inr (target, Some target), s1)))
      else (Inl (failure (''unsupported kind: '' @ py_repr_str kind)), s))"

definition run_process :: "host \<Rightarrow> sandbox_policy \<Rightarrow> dict \<Rightarrow> string list \<Rightarrow> process \<Rightarrow> runtime_result" where
  "run_process h pol labels argv p =
     (let limit = effective_max_output_bytes pol; d = he_duration_ms h in
      case p of
        TimedOut \<Rightarrow>
          (failure (''timed out after '' @ int_str (effective_timeout_seconds pol) @ ''s''))\<lparr>rr_duration_ms := d\<rparr>
      | InterpreterMissing m \<Rightarrow> (failure (''interpreter not found: '' @ m))\<lparr>rr_duration_ms := d\<rparr>
      | SpawnFailed name m \<Rightarrow> (failure (name @ '': '' @ m))\<lparr>rr_duration_ms := d\<rparr>
      | Exited code out err \<Rightarrow>
          (case (truncate_output (he_decode h) out limit, truncate_output (he_decode h) err limit) of
             ((stdout, t_out), (stderr, t_err)) \<Rightarrow>
               \<lparr>rr_ok = (code = 0), rr_stdout = stdout, rr_stderr = stderr,
                rr_error = (if code = 0 then None else Some (''exit='' @ int_str code)),
                rr_exit_code = Some code, rr_duration_ms = d, rr_truncated_stdout = t_out,
                rr_truncated_stderr = t_err,
                rr_extra = [(''argv'', JList (map JStr argv)), (''labels'', JObj labels)]\<rparr>))"

definition cleanup :: "host \<Rightarrow> path option \<Rightarrow> host_state \<Rightarrow> host_state" where
  "cleanup h f s = (case f of
     None \<Rightarrow> s
   | Some p \<Rightarrow> if he_unlink_fails h then s else s\<lparr>hs_snippets := removeAll p (hs_snippets s)\<rparr>)"

text \<open>\<open>execute\<close>: building the command line and resolving \<open>cwd\<close> happen outside the \<open>try\<close> statement.\<close>

definition execute ::
  "host \<Rightarrow> string \<Rightarrow> string \<Rightarrow> sandbox_policy \<Rightarrow> (string \<times> string) list \<Rightarrow> string option \<Rightarrow> dict \<Rightarrow> host_state \<Rightarrow>
   (exc + runtime_result) \<times> host_state" where
  "execute h kind payload pol env cwd labels s =
     (case prepare h kind payload s of
        (Inl r, s1) \<Rightarrow> (Inr r, s1)
      | (Inr (target, cleanup_path), s1) \<Rightarrow>
          (case argv_for h target of
             Inl e \<Rightarrow> (Inl e, s1)
           | Inr argv \<Rightarrow>
               (case resolve_cwd h cwd of
                  Inl e \<Rightarrow> (Inl e, s1)
                | Inr run_cwd \<Rightarrow>
                    let timeout = effective_timeout_seconds pol;
                        p = he_process h argv (merged_env h env) run_cwd timeout;
                        s2 = s1\<lparr>hs_started := hs_started s1 @ [(argv, run_cwd, timeout)]\<rparr>
                    in (Inr (run_process h pol labels argv p), cleanup h cleanup_path s2))))"

section \<open>Facts\<close>

lemma check_path_under_inside:
  assumes "check_path_under resolve ws raw = Inr t"
  shows "\<exists>base. resolve ws = Inr base \<and> prefix base t \<and> resolve (base @ path_parts (py_strip raw)) = Inr t"
    and "\<not> is_absolute (py_strip raw)" and "py_strip raw \<noteq> []"
  using assms by (auto simp: check_path_under_def split: if_splits sum.splits)

lemma timeout_bounds: "1 \<le> effective_timeout_seconds p \<and> effective_timeout_seconds p \<le> 300"
  by (auto simp: effective_timeout_seconds_def GLOBAL_TIMEOUT_CEILING_SECONDS_def)

lemma output_bounds: "1024 \<le> effective_max_output_bytes p \<and> effective_max_output_bytes p \<le> 262144"
  by (auto simp: effective_max_output_bytes_def GLOBAL_OUTPUT_CEILING_BYTES_def)

lemma path_suffix_py: "name \<noteq> [] \<Longrightarrow> path_suffix (p @ [name @ ''.py'']) = ''.py''"
  by (simp add: path_suffix_def Let_def)

text \<open>The file that is run: a regular script below the workspace, or the snippet file in it.\<close>

definition runnable :: "path \<Rightarrow> path \<Rightarrow> bool" where
  "runnable base target \<longleftrightarrow> prefix base target \<and> py_lower (path_suffix target) \<in> set ALLOWED_SCRIPT_SUFFIXES"

lemma py_lower_py: "py_lower ''.py'' = ''.py''"
  by code_simp

lemma prepare_runnable:
  assumes "prepare h kind payload s = (Inr (target, f), s1)" and "he_resolve h (he_workspace h) = Inr (he_workspace h)"
  shows "runnable (he_workspace h) target" and "hs_started s1 = hs_started s"
    and "f = None \<and> s1 = s \<or> f = Some target \<and> s1 = s\<lparr>hs_snippets := hs_snippets s @ [target]\<rparr>"
proof -
  have "path_suffix (he_workspace h @ [''_soulclaw_snippet_'' @ r @ ''.py'']) = ''.py''" for r
    using path_suffix_py [of "''_soulclaw_snippet_'' @ r" "he_workspace h"] by simp
  then have snip: "runnable (he_workspace h) (he_workspace h @ [''_soulclaw_snippet_'' @ r @ ''.py''])" for r
    unfolding runnable_def by (simp only: py_lower_py) (simp add: ALLOWED_SCRIPT_SUFFIXES_def)
  show "runnable (he_workspace h) target"
    using assms snip check_path_under_inside(1) [of "he_resolve h" "he_workspace h" payload target]
    by (auto simp: prepare_def runnable_def Let_def split: if_splits sum.splits exc.splits option.splits)
  show "hs_started s1 = hs_started s"
    and "f = None \<and> s1 = s \<or> f = Some target \<and> s1 = s\<lparr>hs_snippets := hs_snippets s @ [target]\<rparr>"
    using assms(1)
    by (auto simp: prepare_def Let_def split: if_splits sum.splits exc.splits option.splits)
qed

lemma argv_for_runnable:
  assumes "runnable base target"
  shows "\<exists>interp. argv_for h target = Inr [interp, path_str target]"
  using assms by (auto simp: argv_for_def runnable_def ALLOWED_SCRIPT_SUFFIXES_def Let_def)

lemma resolve_cwd_inside:
  assumes "resolve_cwd h cwd = Inr d" and "he_resolve h (he_workspace h) = Inr (he_workspace h)"
  shows "prefix (he_workspace h) d"
  using assms check_path_under_inside(1) [of "he_resolve h" "he_workspace h"]
  by (auto simp: resolve_cwd_def split: option.splits sum.splits if_splits)

section \<open>Properties\<close>

text \<open>No path leaves the workspace. Whatever the file system looks like (symbolic links included) and
  whatever string the caller gives, a path that \<open>check_path_under\<close> accepts is relative, not blank, and
  resolves to a path below the resolved workspace; every other string gives an exception.\<close>

theorem path_stays_in_workspace:
  "\<forall>t. check_path_under resolve ws raw = Inr t \<longrightarrow>
     \<not> is_absolute (py_strip raw) \<and> (\<exists>base. resolve ws = Inr base \<and> prefix base t
       \<and> resolve (base @ path_parts (py_strip raw)) = Inr t)"
  using check_path_under_inside [of resolve ws raw] by blast

text \<open>Lexical resolution (no symbolic links), as a concrete file system.\<close>

fun lexical :: "path \<Rightarrow> path \<Rightarrow> path" where
  "lexical acc [] = rev acc"
| "lexical acc (c # cs) = (if c = ''..'' then lexical (tl acc) cs else lexical (c # acc) cs)"

definition lexical_resolve :: "path \<Rightarrow> exc + path" where
  "lexical_resolve p = Inr (lexical [] p)"

theorem path_stays_in_workspace_witness:
  "check_path_under lexical_resolve [''srv'', ''ws''] ''a/../b.py'' = Inr [''srv'', ''ws'', ''b.py''] \<and>
   prefix [''srv'', ''ws''] [''srv'', ''ws'', ''b.py''] \<and>
   check_path_under lexical_resolve [''srv'', ''ws''] ''../ws2/x.py''
     = Inl (PolicyViolation (''path '' @ py_repr_str ''../ws2/x.py'' @ '' escapes workspace_dir''))"
proof -
  have a: "check_path_under lexical_resolve [''srv'', ''ws''] ''a/../b.py'' = Inr [''srv'', ''ws'', ''b.py'']"
    by code_simp
  have "prefix [''srv'', ''ws''] [''srv'', ''ws'', ''b.py'']"
    using path_stays_in_workspace [of lexical_resolve "[''srv'', ''ws'']" "''a/../b.py''"] a
    by (auto simp: lexical_resolve_def)
  moreover have "check_path_under lexical_resolve [''srv'', ''ws''] ''../ws2/x.py''
     = Inl (PolicyViolation (''path '' @ py_repr_str ''../ws2/x.py'' @ '' escapes workspace_dir''))" by code_simp
  ultimately show ?thesis using a by blast
qed

text \<open>C21: Every process the host runtime starts is confined: it runs an interpreter on one file, a
  \<open>.py\<close> or \<open>.sh\<close> file below the workspace, in a working directory below the workspace, with a time limit
  between 1 and 300 seconds. One call starts at most one process.\<close>

theorem execute_confined:
  assumes "he_resolve h (he_workspace h) = Inr (he_workspace h)"
    and "execute h kind payload pol env cwd labels s = (r, s')"
  shows "hs_started s' = hs_started s \<or>
    (\<exists>interp target dir timeout. hs_started s' = hs_started s @ [([interp, path_str target], dir, timeout)]
      \<and> runnable (he_workspace h) target \<and> prefix (he_workspace h) dir \<and> 1 \<le> timeout \<and> timeout \<le> 300)"
proof -
  obtain p s1 where p: "prepare h kind payload s = (p, s1)" by fastforce
  show ?thesis
  proof (cases p)
    case (Inl res)
    then have "hs_started s1 = hs_started s" using p
      by (auto simp: prepare_def Let_def split: if_splits sum.splits exc.splits option.splits)
    then show ?thesis using assms(2) p Inl by (simp add: execute_def)
  next
    case (Inr tf)
    obtain target f where tf: "tf = (target, f)" by fastforce
    note prep = prepare_runnable [OF p [unfolded Inr tf] assms(1)]
    obtain interp where a: "argv_for h target = Inr [interp, path_str target]"
      using argv_for_runnable [OF prep(1)] by blast
    show ?thesis
    proof (cases "resolve_cwd h cwd")
      case (Inl e)
      then show ?thesis using assms(2) p Inr tf a prep(2) by (simp add: execute_def)
    next
      case (Inr d)
      then show ?thesis
        using assms(2) p \<open>p = Inr tf\<close> tf a prep(1,2) resolve_cwd_inside [OF Inr assms(1)] timeout_bounds [of pol]
        by (auto simp: execute_def Let_def cleanup_def split: option.splits if_splits)
    qed
  qed
qed

definition sample_host :: host where
  "sample_host = \<lparr>he_workspace = [''srv'', ''ws''], he_resolve = lexical_resolve, he_exists = (\<lambda>_. True),
     he_is_file = (\<lambda>_. True), he_is_dir = (\<lambda>_. True), he_mkstemp = Inr ''x1'', he_write = None,
     he_python = ''python3'', he_which_sh = None, he_environ = [], he_decode = id,
     he_process = (\<lambda>argv env d t. Exited 0 ''ok'' ''''), he_duration_ms = 5, he_unlink_fails = False\<rparr>"

definition idle :: host_state where
  "idle = \<lparr>hs_snippets = [], hs_started = []\<rparr>"

theorem execute_confined_witness:
  "let out = execute sample_host ''script'' ''job.sh'' DEFAULT_POLICY [] None [] idle
   in hs_started (snd out) = hs_started idle \<or>
    (\<exists>interp target dir timeout. hs_started (snd out) = hs_started idle @ [([interp, path_str target], dir, timeout)]
      \<and> runnable (he_workspace sample_host) target \<and> prefix (he_workspace sample_host) dir \<and> 1 \<le> timeout \<and> timeout \<le> 300)"
  unfolding Let_def
  by (rule execute_confined [where r = "fst (execute sample_host ''script'' ''job.sh'' DEFAULT_POLICY [] None [] idle)"
      and kind = "''script''" and payload = "''job.sh''"]) (code_simp, simp)

text \<open>With no \<open>cwd\<close> the runtime never raises, and it leaves no snippet behind: for every payload and
  every behaviour of the process it returns a result, and a snippet file that could be written and
  removed is gone afterwards.\<close>

theorem execute_total_without_cwd:
  assumes "he_resolve h (he_workspace h) = Inr (he_workspace h)"
  shows "\<exists>res s'. execute h kind payload pol env None labels s = (Inr res, s')
    \<and> (he_write h = None \<and> \<not> he_unlink_fails h \<longrightarrow> set (hs_snippets s') \<subseteq> set (hs_snippets s))"
proof -
  obtain p s1 where p: "prepare h kind payload s = (p, s1)" by fastforce
  show ?thesis
  proof (cases p)
    case (Inl res)
    then have "he_write h = None \<longrightarrow> s1 = s" using p
      by (auto simp: prepare_def Let_def split: if_splits sum.splits exc.splits option.splits)
    then show ?thesis using p Inl by (auto simp: execute_def)
  next
    case (Inr tf)
    obtain target f where tf: "tf = (target, f)" by fastforce
    note prep = prepare_runnable [OF p [unfolded Inr tf] assms(1)]
    obtain interp where a: "argv_for h target = Inr [interp, path_str target]"
      using argv_for_runnable [OF prep(1)] by blast
    then show ?thesis
      using p Inr tf prep(3) by (auto simp: execute_def resolve_cwd_def Let_def cleanup_def)
  qed
qed

theorem execute_total_without_cwd_witness:
  "\<exists>res s'. execute sample_host ''snippet'' ''print(1)'' DEFAULT_POLICY [] None [] idle = (Inr res, s')
    \<and> (he_write sample_host = None \<and> \<not> he_unlink_fails sample_host \<longrightarrow> set (hs_snippets s') \<subseteq> set (hs_snippets idle))"
  by (rule execute_total_without_cwd) code_simp

text \<open>A bad \<open>cwd\<close> breaks the promise that \<open>execute\<close> never raises: for a snippet that was written and a
  \<open>cwd\<close> that leaves the workspace, \<open>PolicyViolation\<close> reaches the caller, no process is started, and the
  snippet file stays on disk.\<close>

theorem execute_bad_cwd_raises:
  assumes "he_resolve h (he_workspace h) = Inr (he_workspace h)"
    and "he_mkstemp h = Inr n" and "he_write h = None"
    and "check_path_under (he_resolve h) (he_workspace h) c = Inl (PolicyViolation m)"
  shows "execute h ''snippet'' payload pol env (Some c) labels s
    = (Inl (PolicyViolation m),
       s\<lparr>hs_snippets := hs_snippets s @ [he_workspace h @ [''_soulclaw_snippet_'' @ n @ ''.py'']]\<rparr>)"
proof -
  let ?t = "he_workspace h @ [''_soulclaw_snippet_'' @ n @ ''.py'']"
  have p: "prepare h ''snippet'' payload s = (Inr (?t, Some ?t), s\<lparr>hs_snippets := hs_snippets s @ [?t]\<rparr>)"
    using assms(2,3) by (simp add: prepare_def Let_def)
  obtain interp where "argv_for h ?t = Inr [interp, path_str ?t]"
    using argv_for_runnable [OF prepare_runnable(1) [OF p assms(1)]] by blast
  then show ?thesis using p assms(4) by (simp add: execute_def resolve_cwd_def)
qed

theorem execute_bad_cwd_raises_witness:
  "execute sample_host ''snippet'' ''print(1)'' DEFAULT_POLICY [] (Some ''/etc'') [] idle
    = (Inl (PolicyViolation ''path must be a workspace-relative path''),
       idle\<lparr>hs_snippets := hs_snippets idle @ [he_workspace sample_host @ [''_soulclaw_snippet_'' @ ''x1'' @ ''.py'']]\<rparr>)"
  by (rule execute_bad_cwd_raises) code_simp+

text \<open>Output is bounded: of each stream at most \<open>max_output_bytes\<close> bytes, a number between 1024 and
  262144 whatever the policy asks for, are decoded; the flag says exactly whether bytes were dropped,
  and the note gives their number.\<close>

theorem output_truncated:
  "\<exists>kept. (truncate_output decode data (effective_max_output_bytes p) =
      (if int (length data) \<le> effective_max_output_bytes p then (if data = [] then '''' else decode data, False)
       else (decode kept @ newline # ''[...truncated '' @ int_str (int (length data - length kept)) @ '' bytes]'', True)))
    \<and> prefix kept data \<and> int (length kept) \<le> effective_max_output_bytes p
    \<and> 1024 \<le> effective_max_output_bytes p \<and> effective_max_output_bytes p \<le> 262144"
proof -
  let ?n = "effective_max_output_bytes p"
  have b: "1024 \<le> ?n" "?n \<le> 262144" using output_bounds by auto
  have "int (length data - length (take (nat ?n) data)) = int (length data) - ?n" if "\<not> int (length data) \<le> ?n"
    using that b by simp
  then show ?thesis
    using b by (intro exI [of _ "take (nat ?n) data"]) (auto simp: truncate_output_def take_is_prefix)
qed

end
