(* ===== verification/Retrieval.thy ===== *)
theory Retrieval
  imports Tables
begin

text \<open>
  Text retrieval helpers the services share: tokens and their overlap, substring search and snippets, SQL
  \<open>LIKE\<close>, rounding and fixed-point printing of numbers.
\<close>

section \<open>Numbers\<close>

text \<open>Rounding to the nearest integer, ties to even; \<open>round(x, n)\<close>; the format \<open>.2f\<close>.\<close>

definition round_half_even :: "rat \<Rightarrow> int" where
  "round_half_even r =
     (let n = \<lfloor>r\<rfloor>; f = r - of_int n
      in if f < 1 / 2 then n else if f > 1 / 2 then n + 1 else if even n then n else n + 1)"

definition round_to :: "nat \<Rightarrow> rat \<Rightarrow> rat" where
  "round_to k r = of_int (round_half_even (r * 10 ^ k)) / 10 ^ k"

definition format_2f :: "rat \<Rightarrow> string" where
  "format_2f r =
     (let n = round_half_even (\<bar>r\<bar> * 100)
      in (if r < 0 then ''-'' else '''') @ dec_str (n div 100) @ ''.'' @
         [digit_char (n mod 100 div 10), digit_char (n mod 10)])"

lemma format_2f_examples:
  "format_2f (1 / 2) = ''0.50''" "format_2f 1 = ''1.00''" "format_2f (1 / 8) = ''0.12''" "format_2f (31 / 50) = ''0.62''"
  by code_simp+

lemma round_half_even_bounds: "\<bar>r - of_int (round_half_even r)\<bar> \<le> 1 / 2"
proof -
  have "of_int \<lfloor>r\<rfloor> \<le> r" "r < of_int \<lfloor>r\<rfloor> + 1" by linarith+
  then show ?thesis by (auto simp: round_half_even_def Let_def)
qed

lemma round_half_even_int [simp]: "round_half_even (of_int n) = n"
  by (simp add: round_half_even_def)

lemma round_half_even_range: "0 \<le> r \<Longrightarrow> r \<le> of_int n \<Longrightarrow> 0 \<le> round_half_even r \<and> round_half_even r \<le> n"
proof -
  assume r: "0 \<le> r" "r \<le> of_int n"
  have "of_int (round_half_even r) > (-1 :: rat)" "of_int (round_half_even r) < (of_int n + 1 :: rat)"
    using round_half_even_bounds [of r] r by linarith+
  then show ?thesis by linarith
qed

section \<open>Tokens\<close>

text \<open>\<open>re.findall(r"[...]+", s)\<close>: the maximal runs of characters of a class.\<close>

fun runs_acc :: "(char \<Rightarrow> bool) \<Rightarrow> string \<Rightarrow> string \<Rightarrow> string list" where
  "runs_acc p acc [] = (if acc = [] then [] else [rev acc])"
| "runs_acc p acc (c # cs) =
     (if p c then runs_acc p (c # acc) cs
      else if acc = [] then runs_acc p [] cs else rev acc # runs_acc p [] cs)"

definition findall_runs :: "(char \<Rightarrow> bool) \<Rightarrow> string \<Rightarrow> string list" where
  "findall_runs p s = runs_acc p [] s"

text \<open>\<open>[a-zA-Z0-9_]\<close> (the Chinese range of the pattern lies above code point 255).\<close>

definition word_char :: "char \<Rightarrow> bool" where
  "word_char c = (is_ascii_alnum c \<or> c = CHR ''_'')"

definition tokens :: "string \<Rightarrow> string set" where
  "tokens s = set (filter (\<lambda>t. length t > 1) (findall_runs word_char (py_lower s)))"

definition jaccard :: "string set \<Rightarrow> string set \<Rightarrow> rat" where
  "jaccard l r = (if l = {} \<or> r = {} then 0 else of_nat (card (l \<inter> r)) / of_nat (card (l \<union> r)))"

lemma finite_tokens [simp]: "finite (tokens s)"
  by (simp add: tokens_def)

lemma jaccard_bounds: "finite l \<Longrightarrow> finite r \<Longrightarrow> 0 \<le> jaccard l r \<and> jaccard l r \<le> 1"
proof -
  assume f: "finite l" "finite r"
  have "card (l \<inter> r) \<le> card (l \<union> r)" by (rule card_mono) (use f in auto)
  then show ?thesis by (cases "card (l \<union> r) = 0") (auto simp: jaccard_def divide_le_eq)
qed

lemma jaccard_commute: "jaccard l r = jaccard r l"
  by (simp add: jaccard_def Int_commute Un_commute disj_commute)

lemma jaccard_self: "finite l \<Longrightarrow> l \<noteq> {} \<Longrightarrow> jaccard l l = 1"
  by (simp add: jaccard_def)

section \<open>Substrings and snippets\<close>

text \<open>\<open>s.find(t)\<close>, with \<open>None\<close> for -1.\<close>

fun find_sub :: "string \<Rightarrow> string \<Rightarrow> nat option" where
  "find_sub t [] = (if t = [] then Some 0 else None)"
| "find_sub t (c # cs) = (if prefix t (c # cs) then Some 0 else map_option Suc (find_sub t cs))"

lemma find_sub_sound: "find_sub t s = Some i \<Longrightarrow> prefix t (drop i s) \<and> i + length t \<le> length s"
proof (induction s arbitrary: i)
  case (Cons c cs)
  then show ?case by (cases i) (auto split: if_splits dest: prefix_length_le)
qed (auto split: if_splits)

lemma find_sub_complete: "find_sub t s = None \<longleftrightarrow> \<not> sublist t s"
  by (induction s) (auto simp: sublist_Cons_right)

text \<open>\<open>re.sub(r"\s+", " ", s)\<close>.\<close>

lemma dropWhile_shorter [termination_simp]: "length (dropWhile p xs) < Suc (length xs)"
  by (simp add: length_dropWhile_le less_Suc_eq_le)

fun collapse_ws :: "string \<Rightarrow> string" where
  "collapse_ws [] = []"
| "collapse_ws (c # cs) =
     (if is_space c then CHR '' '' # collapse_ws (dropWhile is_space cs) else c # collapse_ws cs)"

text \<open>\<open>str.title\<close> on ASCII letters: a letter after a non-letter is a capital, any other letter is lower case.\<close>

fun title_case :: "bool \<Rightarrow> string \<Rightarrow> string" where
  "title_case start [] = []"
| "title_case start (c # cs) =
     (let letter = (is_ascii_alnum c \<and> \<not> is_digit c)
      in (if letter \<and> start then upper_char c else if letter then [lower_char c] else [c]) @ title_case (\<not> letter) cs)"

definition snippet_start :: "string \<Rightarrow> string list \<Rightarrow> nat" where
  "snippet_start lowered needles =
     (case List.map_filter (\<lambda>t. find_sub t lowered) needles of [] \<Rightarrow> 0 | i # _ \<Rightarrow> i - 60)"

definition snippet :: "string \<Rightarrow> string \<Rightarrow> nat \<Rightarrow> string" where
  "snippet value query limit =
     (let compact = py_strip (collapse_ws value)
      in if compact = [] then [] else if query = [] then take limit compact
         else let start = snippet_start (py_lower compact) (py_lower query # sorted_list_of_set (tokens query))
              in (if start \<noteq> 0 then ''...'' else '''') @ take limit (drop start compact))"

lemma snippet_bounded: "length (snippet value query limit) \<le> limit + 3"
  by (auto simp: snippet_def Let_def)

section \<open>SQL \<open>LIKE\<close>\<close>

text \<open>\<open>%\<close> matches any text and \<open>_\<close> any character, without an escape character; \<open>ilike\<close> compares the
  lower-cased texts, as SQLAlchemy renders it for SQLite (ASCII letters only).\<close>

primrec like :: "string \<Rightarrow> string \<Rightarrow> bool" where
  "like [] s = (s = [])"
| "like (p # ps) s =
     (if p = CHR ''%'' then list_ex (like ps) (suffixes s)
      else case s of [] \<Rightarrow> False | c # cs \<Rightarrow> (p = CHR ''_'' \<or> p = c) \<and> like ps cs)"

definition ascii_lower :: "string \<Rightarrow> string" where
  "ascii_lower s = map (\<lambda>c. if 65 \<le> ordc c \<and> ordc c \<le> 90 then char_of (ordc c + 32) else c) s"

definition ilike :: "string \<Rightarrow> string \<Rightarrow> bool" where
  "ilike s pat = like (ascii_lower pat) (ascii_lower s)"

lemma like_self: "CHR ''%'' \<notin> set t \<Longrightarrow> like t t"
  by (induction t) auto

lemma like_any: "like ps s \<Longrightarrow> like (CHR ''%'' # ps) (r @ s)"
  by (auto simp: list_ex_iff suffix_def)

text \<open>The clause \<open>column.ilike(f"%{t}%")\<close> is true of every text that contains \<open>t\<close>.\<close>

lemma like_contains: "like (CHR ''%'' # t @ ''%'') (a @ t @ b)"
proof -
  have "like (t @ ''%'') (t @ b)" for b
  proof (induction t)
    case Nil
    then show ?case using like_any [of "[]" "[]" b] by simp
  next
    case (Cons c t)
    then show ?case using like_any [of "t @ ''%''" "t @ b" "[c]"] by auto
  qed
  then show ?thesis using like_any [of "t @ ''%''" "t @ b" a] by simp
qed

lemma ilike_contains: "sublist t s \<Longrightarrow> ilike s (''%'' @ t @ ''%'')"
proof -
  assume "sublist t s"
  then obtain a b where s: "s = a @ t @ b" by (auto simp: sublist_def)
  have "ascii_lower ''%'' = ''%''" by code_simp
  then have "ascii_lower (''%'' @ t @ ''%'') = CHR ''%'' # ascii_lower t @ ''%''" by (simp add: ascii_lower_def)
  then show ?thesis using like_contains [of "ascii_lower t" "ascii_lower a" "ascii_lower b"]
    by (simp add: ilike_def s ascii_lower_def)
qed

end
