(* ===== verification/Skills.thy ===== *)
theory Skills
  imports Workspace Sandbox Retrieval
begin

text \<open>
  Skills: \<open>SkillService\<close> of \<open>backend/domain/skills.py\<close> with its module functions. A skill is a directory
  below the skills root with a \<open>SKILL.md\<close>; the tables \<open>skills\<close>, \<open>skill_files\<close> and \<open>skill_tests\<close> mirror the
  files, and \<open>skill_histories\<close> keeps snapshots for rolling back.

  The files below the root are the field \<open>skills_fs\<close> of the world, by their path below the root. There are
  no symbolic links, so \<open>Path.resolve\<close> only removes \<open>..\<close>; a directory exists when a file below it does.
  \<open>skill_env\<close> holds the parameters: event bus switch, clock, identifier of a new proposal, the root, the
  SHA-256 digest, and PyYAML (\<open>safe_load\<close> gives a value or raises; \<open>safe_dump\<close> prints a dictionary).
\<close>

section \<open>Environment\<close>

record skill_env =
  sv_events :: bool
  sv_now :: instant
  sv_new_id :: uuid
  sv_root :: path
  sv_sha :: "string \<Rightarrow> string"
  sv_yaml_load :: "string \<Rightarrow> exc + json"
  sv_yaml_dump :: "dict \<Rightarrow> string"

type_synonym files = "(string \<times> string) list"

definition MAX_SKILL_FILES :: int where "MAX_SKILL_FILES = 12"
definition MAX_SKILL_FILE_BYTES :: int where "MAX_SKILL_FILE_BYTES = 64 * 1024"
definition MAX_SKILL_TOTAL_BYTES :: int where "MAX_SKILL_TOTAL_BYTES = 256 * 1024"

definition ALLOWED_TEST_KINDS :: "string list" where
  "ALLOWED_TEST_KINDS = [''golden_prompt'', ''lint'', ''mock_tool'', ''regression'']"

section \<open>Keys, checksums, Markdown\<close>

text \<open>\<open>re.sub(r"[...]+", "-", s)\<close> for a class of characters.\<close>

fun sub_runs :: "(char \<Rightarrow> bool) \<Rightarrow> string \<Rightarrow> string \<Rightarrow> string" where
  "sub_runs p r [] = []"
| "sub_runs p r (c # cs) = (if p c then r @ sub_runs p r (dropWhile p cs) else c # sub_runs p r cs)"

definition key_char :: "char \<Rightarrow> bool" where
  "key_char c = ((97 \<le> ordc c \<and> ordc c \<le> 122) \<or> is_digit c \<or> c \<in> {CHR ''_'', CHR ''-'', CHR ''/''})"

definition normalize_skill_key :: "string \<Rightarrow> string" where
  "normalize_skill_key value =
     (let v1 = py_lower (replace_char (CHR 0x5C) ''/'' (py_strip value));
          v2 = sub_runs is_space ''-'' v1;
          v3 = sub_runs (\<lambda>c. \<not> key_char c) ''-'' v2;
          v4 = sub_runs (\<lambda>c. c = CHR ''-'') ''-'' v3
      in strip_of (\<lambda>c. c = CHR ''-'' \<or> c = CHR ''/'') v4)"

text \<open>The text that is digested: paths in order, each path and content followed by a zero byte.\<close>

definition snapshot_text :: "files \<Rightarrow> string" where
  "snapshot_text fs = concat (map (\<lambda>(p, c). p @ [CHR 0x00] @ c @ [CHR 0x00]) (sort_key fst fs))"

definition snapshot_checksum :: "(string \<Rightarrow> string) \<Rightarrow> files \<Rightarrow> string" where
  "snapshot_checksum sha fs = sha (snapshot_text fs)"

text \<open>\<open>\A---\s*\n(?P<yaml>.*?)\n---\s*\n(?P<body>.*)\Z\<close>: the white space after the opening mark may end at any of
  its line feeds, the last one tried first; the closing mark is the first that fits, and its white space is
  taken up to its last line feed.\<close>

definition after_last_newline :: "string \<Rightarrow> string option" where
  "after_last_newline s =
     (let w = takeWhile is_space s
      in if newline \<in> set w then Some (drop (length w - length (takeWhile (\<lambda>c. c \<noteq> newline) (rev w))) s) else None)"

fun split_close :: "string \<Rightarrow> (string \<times> string) option" where
  "split_close [] = None"
| "split_close (c # cs) =
     (case (if prefix (newline # ''---'') (c # cs) then after_last_newline (drop 4 (c # cs)) else None) of
        Some body \<Rightarrow> Some ([], body)
      | None \<Rightarrow> map_option (\<lambda>(y, b). (c # y, b)) (split_close cs))"

definition frontmatter :: "string \<Rightarrow> (string \<times> string) option" where
  "frontmatter s =
     (if \<not> startswith s ''---'' then None
      else let t = drop 3 s; w = takeWhile is_space t;
               starts = filter (\<lambda>i. w ! i = newline) (rev [0..<length w])
           in (case List.map_filter (\<lambda>i. split_close (drop (Suc i) t)) starts of [] \<Rightarrow> None | r # _ \<Rightarrow> Some r))"

definition parse_skill_markdown :: "skill_env \<Rightarrow> string \<Rightarrow> exc + dict \<times> string" where
  "parse_skill_markdown env s = (case frontmatter s of
     None \<Rightarrow> Inr ([], s)
   | Some (y, body) \<Rightarrow>
       (case sv_yaml_load env y of
          Inl e \<Rightarrow> Inl e
        | Inr v \<Rightarrow>
            let loaded = py_or v (JObj [])
            in if is_dict loaded then Inr (dict_or_empty loaded, body)
               else Inl (ValueError ''skill frontmatter must be a mapping'')))"

text \<open>\<open>^#\s+(.+)$\<close> searched line by line; the white space may run over line ends, and gives back a
  character when nothing else follows.\<close>

definition title_at :: "string \<Rightarrow> string option" where
  "title_at s =
     (let w = takeWhile is_space s; rest = drop (length w) s
      in if w = [] then None
         else if rest \<noteq> [] then Some (takeWhile (\<lambda>c. c \<noteq> newline) rest)
         else if list_ex (\<lambda>c. c \<noteq> newline) (tl w) then Some [] else None)"

fun title_search :: "bool \<Rightarrow> string \<Rightarrow> string option" where
  "title_search at_start [] = None"
| "title_search at_start (c # cs) =
     (case (if at_start \<and> c = CHR ''#'' then title_at cs else None) of
        Some t \<Rightarrow> Some t | None \<Rightarrow> title_search (c = newline) cs)"

definition skill_title :: "string \<Rightarrow> string \<Rightarrow> string" where
  "skill_title body df = (case title_search True body of Some t \<Rightarrow> py_strip t | None \<Rightarrow> df)"

section \<open>Files\<close>

definition dir_files :: "fs \<Rightarrow> path \<Rightarrow> (path \<times> string) list" where
  "dir_files fs dir = List.map_filter (\<lambda>(p, c).
     let ps = split_on CHR ''/'' p
     in if prefix dir ps \<and> ps \<noteq> dir then Some (drop (length dir) ps, c) else None) fs"

definition hidden :: "path \<Rightarrow> bool" where
  "hidden ps = list_ex (\<lambda>x. startswith x ''.'') ps"

definition read_skill_files :: "fs \<Rightarrow> path \<Rightarrow> files" where
  "read_skill_files fs dir =
     map (\<lambda>(ps, c). (join ''/'' ps, universal_newlines c))
       (filter (\<lambda>(ps, c). \<not> hidden ps) (sort_key fst (dir_files fs dir)))"

text \<open>\<open>Path.resolve\<close> of an absolute path, given by its components.\<close>

fun resolve_dots :: "path \<Rightarrow> path \<Rightarrow> path" where
  "resolve_dots acc [] = rev acc"
| "resolve_dots acc (x # xs) = (if x = ''..'' then resolve_dots (tl acc) xs else resolve_dots (x # acc) xs)"

definition safe_skill_dir :: "skill_env \<Rightarrow> string \<Rightarrow> exc + path" where
  "safe_skill_dir env skill_key =
     (let target = resolve_dots [] (sv_root env @ path_parts (normalize_skill_key skill_key));
          root = resolve_dots [] (sv_root env)
      in if prefix root target then Inr target else Inl (ValueError ''unsafe skill path''))"

definition safe_child :: "path \<Rightarrow> string \<Rightarrow> exc + path" where
  "safe_child base relative_path =
     (let candidate = resolve_dots [] (if is_absolute relative_path then path_parts relative_path
                                       else base @ path_parts relative_path)
      in if prefix base candidate then Inr candidate else Inl (ValueError (''unsafe file path: '' @ relative_path)))"

text \<open>Writing a file: not onto a directory, and not below a file.\<close>

definition below_root :: "skill_env \<Rightarrow> path \<Rightarrow> path" where
  "below_root env p = drop (length (sv_root env)) p"

definition write_file :: "path \<Rightarrow> string \<Rightarrow> fs \<Rightarrow> exc + fs" where
  "write_file ps c fs =
     (if dir_files fs ps \<noteq> [] then Inl (OtherError ''Is a directory'')
      else if list_ex (\<lambda>(p, _). strict_prefix (split_on CHR ''/'' p) ps) fs then Inl (OtherError ''File exists'')
      else Inr (put_assoc (join ''/'' ps) c fs))"

fun write_files :: "skill_env \<Rightarrow> path \<Rightarrow> files \<Rightarrow> unit op" where
  "write_files env dir [] w = (Inr (), w)"
| "write_files env dir ((rel, content) # rest) w =
     (case safe_child dir rel of
        Inl e \<Rightarrow> (Inl e, w)
      | Inr target \<Rightarrow>
          (case write_file (below_root env target) content (skills_fs w) of
             Inl e \<Rightarrow> (Inl e, w)
           | Inr fs \<Rightarrow> write_files env dir rest (w\<lparr>skills_fs := fs\<rparr>)))"

section \<open>Linting\<close>

text \<open>Words of a pattern separated by \<open>\s+\<close>; the second component is the source of the pattern.\<close>

fun match_words :: "string list \<Rightarrow> string \<Rightarrow> bool" where
  "match_words [] s = True"
| "match_words [w] s = prefix w s"
| "match_words (w # v # ws) s =
     (prefix w s \<and> (let r = drop (length w) s; t = dropWhile is_space r in t \<noteq> r \<and> match_words (v # ws) t))"

definition FORBIDDEN_PATTERNS :: "string list list" where
  "FORBIDDEN_PATTERNS =
     [[''rm'', ''-rf'', ''/''], [''git'', ''reset'', ''--hard''], [''git'', ''checkout'', ''--'', ''/''],
      [''chmod'', ''-R'', ''777'', ''/''], [''mkfs.'']]"

definition pattern_source :: "string list \<Rightarrow> string" where
  "pattern_source ws = join [CHR 0x5C, CHR ''s'', CHR ''+'']
     (map (concat \<circ> map (\<lambda>c. if c = CHR ''.'' then [CHR 0x5C, c] else [c])) ws)"

fun search_words :: "string list \<Rightarrow> string \<Rightarrow> bool" where
  "search_words ws [] = match_words ws []"
| "search_words ws (c # cs) = (match_words ws (c # cs) \<or> search_words ws cs)"

text \<open>\<open>len(s.encode("utf-8"))\<close> for code points below 256.\<close>

definition utf8_length :: "string \<Rightarrow> int" where
  "utf8_length s = sum_list (map (\<lambda>c. if ordc c < 128 then 1 else 2) s)"

record lint_result =
  ln_ok :: bool
  ln_errors :: "string list"
  ln_warnings :: "string list"
  ln_tests :: "dict list"

definition without_tests :: "dict \<Rightarrow> dict" where
  "without_tests md = filter (\<lambda>(k, _). k \<noteq> ''test_cases'' \<and> k \<noteq> ''tests'') md"

definition lint_file :: "skill_env \<Rightarrow> dict \<Rightarrow> string \<Rightarrow> string \<times> string \<Rightarrow> string list" where
  "lint_file env md body = (\<lambda>(path, content).
     let scan = (if path = ''SKILL.md'' then sv_yaml_dump env (without_tests md) @ [newline] @ body else content)
     in (if is_absolute path \<or> ''..'' \<in> set (path_parts path) then [''unsafe file path: '' @ path] else []) @
        (if hidden (path_parts path) then [''hidden skill file path is not allowed: '' @ path] else []) @
        (if utf8_length content > MAX_SKILL_FILE_BYTES then [''skill file too large: '' @ path] else []) @
        map (\<lambda>ws. ''forbidden unsafe pattern `'' @ pattern_source ws @ ''` in '' @ path)
          (filter (\<lambda>ws. search_words ws scan) FORBIDDEN_PATTERNS))"

definition nat_str :: "nat \<Rightarrow> string" where
  "nat_str n = int_str (int n)"

definition case_name :: "nat \<Rightarrow> string" where
  "case_name i = ''case-'' @ nat_str (i + 1)"

definition test_spec :: "nat \<times> json \<Rightarrow> dict" where
  "test_spec = (\<lambda>(i, t). if is_dict t then dict_or_empty t else [(''name'', JStr (case_name i)), (''input'', t)])"

definition test_kind :: "dict \<Rightarrow> string" where
  "test_kind spec = dstr_or ''kind''
     (if truthy (dget ''input'' spec) \<or> truthy (dget ''expected'' spec) then ''golden_prompt'' else ''lint'') spec"

definition normalized_test :: "nat \<times> json \<Rightarrow> dict" where
  "normalized_test it =
     (let spec = test_spec it
      in dset ''name'' (JStr (dstr_or ''name'' (case_name (fst it)) spec)) (dset ''kind'' (JStr (test_kind spec)) spec))"

definition declared_tests :: "dict \<Rightarrow> json" where
  "declared_tests md = py_or (dget ''test_cases'' md) (py_or (dget ''tests'' md) (JList []))"

definition is_list :: "json \<Rightarrow> bool" where
  "is_list v = (case v of JList _ \<Rightarrow> True | _ \<Rightarrow> False)"

definition is_str :: "json \<Rightarrow> bool" where
  "is_str v = (case v of JStr _ \<Rightarrow> True | _ \<Rightarrow> False)"

text \<open>The first part of \<open>lint_files\<close>: the manifest, with the errors and warnings it gives.\<close>

definition lint_manifest :: "skill_env \<Rightarrow> files \<Rightarrow> string list \<times> string list \<times> dict \<times> string" where
  "lint_manifest env fs = (case map_of fs ''SKILL.md'' of
     None \<Rightarrow> ([''SKILL.md is required''], [], [], [])
   | Some s \<Rightarrow>
       (case parse_skill_markdown env s of
          Inl e \<Rightarrow> ([exc_str e], [], [], s)
        | Inr (md, body) \<Rightarrow>
            ([], (if skill_title body '''' = [] \<and> \<not> truthy (dget ''name'' md) \<and> \<not> truthy (dget ''title'' md)
                  then [''Skill has no explicit name/title''] else []), md, body)))"

definition lint_files :: "skill_env \<Rightarrow> files \<Rightarrow> lint_result" where
  "lint_files env fs = (case lint_manifest env fs of (merrors, mwarnings, md, body) \<Rightarrow>
     let total = sum_list (map (utf8_length \<circ> snd) fs);
         tools = py_or (dget ''required_tools'' md) (py_or (dget ''tools'' md) (JList []));
         tests0 = declared_tests md;
         tests = list_or_empty tests0;
         specs = enumerate 0 tests;
         errors =
           (if int (length fs) > MAX_SKILL_FILES
            then [''too many skill files: '' @ nat_str (length fs) @ '' > '' @ int_str MAX_SKILL_FILES] else []) @
           merrors @ concat (map (lint_file env md body) fs) @
           (if total > MAX_SKILL_TOTAL_BYTES
            then [''skill files exceed total size budget: '' @ int_str total @ '' > '' @ int_str MAX_SKILL_TOTAL_BYTES] else []) @
           (if truthy tools \<and> \<not> is_list tools \<and> \<not> is_str tools then [''required_tools must be a list or string''] else []) @
           (if truthy tests0 \<and> \<not> is_list tests0 then [''test_cases/tests must be a list''] else []) @
           List.map_filter (\<lambda>it. if test_kind (test_spec it) \<in> set ALLOWED_TEST_KINDS then None
              else Some (''unsupported test kind `'' @ test_kind (test_spec it) @ ''`'')) specs;
         warnings = mwarnings @ (if tests = [] then [''No manifest test cases declared''] else [])
     in \<lparr>ln_ok = (errors = []), ln_errors = errors, ln_warnings = warnings, ln_tests = map normalized_test specs\<rparr>)"

section \<open>Manifest tests\<close>

definition str_as_list :: "json \<Rightarrow> json" where
  "str_as_list v = (if is_str v then JList [v] else v)"

definition declared_tools :: "skill_env \<Rightarrow> files \<Rightarrow> string list" where
  "declared_tools env fs =
     (case parse_skill_markdown env (case map_of fs ''SKILL.md'' of None \<Rightarrow> '''' | Some s \<Rightarrow> s) of
        Inl _ \<Rightarrow> []
      | Inr (md, _) \<Rightarrow>
          map py_str (list_or_empty (str_as_list (py_or (dget ''required_tools'' md) (py_or (dget ''tools'' md) (JList []))))))"

definition operational_text :: "skill_env \<Rightarrow> files \<Rightarrow> string" where
  "operational_text env fs =
     join [newline, newline] (concat (map (\<lambda>(path, content).
       if path \<noteq> ''SKILL.md'' then [content]
       else (case parse_skill_markdown env content of
               Inl _ \<Rightarrow> [content]
             | Inr (md, body) \<Rightarrow> [sv_yaml_dump env (without_tests md), body])) (sort_key fst fs)))"

definition case_result :: "string \<Rightarrow> string \<Rightarrow> bool \<Rightarrow> string \<Rightarrow> dict \<Rightarrow> dict" where
  "case_result name kind passed assertion evidence =
     [(''name'', JStr name), (''kind'', JStr kind), (''status'', JStr (if passed then ''passed'' else ''failed'')),
      (''assertions'', JList [JStr assertion]), (''evidence'', JObj evidence)]"

definition strs :: "string list \<Rightarrow> json" where
  "strs xs = JList (map JStr xs)"

definition run_test_case :: "skill_env \<Rightarrow> files \<Rightarrow> lint_result \<Rightarrow> dict \<Rightarrow> exc + dict" where
  "run_test_case env fs lint spec =
     (let kind = dstr_or ''kind'' ''lint'' spec; name = dstr_or ''name'' kind spec; haystack = operational_text env fs
      in if kind = ''lint'' then
           Inr (case_result name kind (ln_ok lint) ''lint.ok''
             [(''errors'', strs (ln_errors lint)), (''warnings'', strs (ln_warnings lint))])
         else if kind = ''golden_prompt'' then
           (let expected = py_or (dget ''expected_contains'' spec) (dget ''expected'' spec);
                items = (if is_list expected then map py_str (list_or_empty expected)
                         else if truthy expected then [py_str expected] else []);
                missing = filter (\<lambda>i. i \<noteq> [] \<and> \<not> py_in i haystack) items
            in Inr (case_result name kind (missing = []) ''expected content appears in skill files''
                 [(''missing'', strs missing), (''input'', dget_default ''input'' (JStr '''') spec)]))
         else if kind = ''mock_tool'' then
           (let declared = declared_tools env fs
            in map_sum id (\<lambda>required.
                 let missing = filter (\<lambda>i. i \<notin> set declared) (map py_str required)
                 in case_result name kind (missing = []) ''required mock tools are declared''
                      [(''declared_tools'', strs declared), (''missing'', strs missing)])
               (py_iter (str_as_list (py_or (dget ''required_tools'' spec) (py_or (dget ''tools'' spec) (JList []))))))
         else if kind = ''regression'' then
           map_sum id (\<lambda>patterns.
             let found = filter (\<lambda>p. p \<noteq> [] \<and> py_in p haystack) (map py_str patterns)
             in case_result name kind (found = []) ''regression forbidden patterns are absent'' [(''found'', strs found)])
           (py_iter (str_as_list (py_or (dget ''must_not_contain'' spec) (py_or (dget ''forbidden'' spec) (JList [])))))
         else Inr (case_result name kind False ''test kind is supported'' [(''allowed'', strs ALLOWED_TEST_KINDS)]))"

definition passed :: "dict \<Rightarrow> bool" where
  "passed r = (dget ''status'' r = JStr ''passed'')"

record test_payload =
  tp_ok :: bool
  tp_errors :: "string list"
  tp_warnings :: "string list"
  tp_tests :: "dict list"

definition test_files :: "skill_env \<Rightarrow> files \<Rightarrow> exc + test_payload" where
  "test_files env fs =
     (let lint = lint_files env fs
      in map_sum id (\<lambda>tests. \<lparr>tp_ok = (ln_ok lint \<and> list_all passed tests), tp_errors = ln_errors lint,
             tp_warnings = ln_warnings lint, tp_tests = tests\<rparr>)
           (op_traverse (run_test_case env fs lint) (ln_tests lint)))"

section \<open>Reading the index\<close>

definition skill_list :: "world \<Rightarrow> string \<Rightarrow> int \<Rightarrow> skill list" where
  "skill_list w status limit =
     take (clamp_limit 1000 limit)
       (sort_key skl_key (filter (\<lambda>s. status = [] \<or> skl_status s = status) (skills w)))"

definition skill_search :: "world \<Rightarrow> string \<Rightarrow> int \<Rightarrow> (rat \<times> skill) list" where
  "skill_search w query0 limit =
     (let query = py_strip query0; pat = ''%'' @ query @ ''%'';
          hit = (\<lambda>s. ilike (skl_key s) pat \<or> ilike (skl_name s) pat \<or> ilike (skl_description s) pat)
      in map (\<lambda>s. (if query \<noteq> [] \<and> py_in (py_lower query) (py_lower (skl_key s @ '' '' @ skl_name s)) then 1 else 7 / 10, s))
           (take (clamp_limit 50 limit)
             (sort_key (\<lambda>s. (\<not> skl_pinned s, skl_key s))
               (filter (\<lambda>s. skl_status s = ''active'' \<and> (query = [] \<or> hit s)) (skills w)))))"

definition skill_get :: "world \<Rightarrow> string \<Rightarrow> skill option" where
  "skill_get w key = get_row skl_key (normalize_skill_key key) (skills w)"

definition skill_files_of :: "world \<Rightarrow> string \<Rightarrow> skill_file list" where
  "skill_files_of w key = sort_key skf_path (filter (\<lambda>f. skf_key f = normalize_skill_key key) (skill_files w))"

text \<open>The directory of a stored path, relative to the root, when it is below the root.\<close>

definition stored_dir :: "skill_env \<Rightarrow> string \<Rightarrow> path option" where
  "stored_dir env p = (if prefix (sv_root env) (path_parts p) then Some (drop (length (sv_root env)) (path_parts p)) else None)"

definition skill_test_run :: "skill_env \<Rightarrow> string \<Rightarrow> test_payload op" where
  "skill_test_run env skill_key w =
     (let key = normalize_skill_key skill_key;
          fs0 = map (\<lambda>f. (skf_path f, skf_content f)) (skill_files_of w key);
          fs = (if fs0 \<noteq> [] then fs0
                else case skill_get w key of None \<Rightarrow> []
                  | Some s \<Rightarrow> (case stored_dir env (skl_path s) of None \<Rightarrow> [] | Some d \<Rightarrow> read_skill_files (skills_fs w) d))
      in case test_files env fs of
           Inl e \<Rightarrow> (Inl e, w)
         | Inr payload \<Rightarrow>
             (Inr payload, w\<lparr>skill_tests := skill_tests w @
                [\<lparr>skt_key = key, skt_name = ''skill-test-suite'',
                  skt_spec = [(''kind'', JStr ''suite''), (''checksum'', JStr (snapshot_checksum (sv_sha env) fs))],
                  skt_last_status = (if tp_ok payload then ''passed'' else ''failed''),
                  skt_last_result = [(''ok'', JBool (tp_ok payload)), (''errors'', strs (tp_errors payload)),
                    (''warnings'', strs (tp_warnings payload)), (''tests'', JList (map JObj (tp_tests payload))),
                    (''required_checks'', strs [''frontmatter'', ''required_tools'', ''static_safety_scan'', ''safe_manifest_test_cases''])],
                  skt_last_run_at = Some (sv_now env)\<rparr>]\<rparr>))"

section \<open>Scanning the directory\<close>

definition declared_test_rows :: "string \<Rightarrow> dict \<Rightarrow> skill_test list" where
  "declared_test_rows key md =
     map (\<lambda>(i, spec). \<lparr>skt_key = key,
            skt_name = (if is_dict spec then dstr_or ''name'' (case_name i) (dict_or_empty spec) else case_name i),
            skt_spec = (if is_dict spec then dict_or_empty spec else [(''value'', spec)]),
            skt_last_status = ''never_run'', skt_last_result = [], skt_last_run_at = None\<rparr>)
       (enumerate 0 (list_or_empty (declared_tests md)))"

definition put_skill :: "skill \<Rightarrow> world \<Rightarrow> world" where
  "put_skill s w = (case get_row skl_key (skl_key s) (skills w) of
     None \<Rightarrow> w\<lparr>skills := skills w @ [s]\<rparr>
   | Some _ \<Rightarrow> w\<lparr>skills := upd_row skl_key (skl_key s) (\<lambda>r. s\<lparr>skl_pinned := skl_pinned r\<rparr>) (skills w)\<rparr>)"

definition skill_key_of :: "skill_env \<Rightarrow> path \<Rightarrow> string" where
  "skill_key_of env dir =
     (let key = normalize_skill_key (if dir = [] then ''.'' else join ''/'' dir)
      in if key \<noteq> [] then key
         else normalize_skill_key (case rev (sv_root env @ dir) of [] \<Rightarrow> '''' | n # _ \<Rightarrow> n))"

definition scan_skill :: "skill_env \<Rightarrow> path \<Rightarrow> unit op" where
  "scan_skill env dir w =
     (let key = skill_key_of env dir; fs = read_skill_files (skills_fs w) dir
      in case parse_skill_markdown env (case map_of fs ''SKILL.md'' of None \<Rightarrow> '''' | Some s \<Rightarrow> s) of
           Inl e \<Rightarrow> (Inl e, w)
         | Inr (md, body) \<Rightarrow>
             let name = (if truthy (dget ''name'' md) then py_str (dget ''name'' md)
                         else if truthy (dget ''title'' md) then py_str (dget ''title'' md) else skill_title body key);
                 w1 = put_skill \<lparr>skl_key = key, skl_name = name, skl_description = py_strip (dstr ''description'' md),
                        skl_path = path_str (sv_root env @ dir), skl_status = ''active'', skl_pinned = False,
                        skl_metadata = md\<rparr> w;
                 w2 = w1\<lparr>skill_files := filter (\<lambda>f. skf_key f \<noteq> key) (skill_files w1) @
                        map (\<lambda>(p, c). \<lparr>skf_key = key, skf_path = p, skf_checksum = sv_sha env c, skf_content = c\<rparr>) fs\<rparr>
             in (Inr (), w2\<lparr>skill_tests := skill_tests w2 @ declared_test_rows key md\<rparr>))"

definition skill_dirs :: "fs \<Rightarrow> path list" where
  "skill_dirs fs = map butlast (sort_key id (filter (\<lambda>ps. last ps = ''SKILL.md'') (map (split_on CHR ''/'' \<circ> fst) fs)))"

fun scan_dirs :: "skill_env \<Rightarrow> path list \<Rightarrow> unit op" where
  "scan_dirs env [] w = (Inr (), w)"
| "scan_dirs env (d # ds) w = op_bind (scan_skill env d) (\<lambda>_. scan_dirs env ds) w"

definition skill_scan :: "skill_env \<Rightarrow> int op" where
  "skill_scan env w =
     (let dirs = skill_dirs (skills_fs w); n = int (length dirs)
      in op_bind (scan_dirs env dirs) (\<lambda>_ w1.
           (Inr n, emit (sv_events env) ''skills.scan'' [(''skills'', JInt n), (''index'', JStr ''file_mirror'')] w1)) w)"

section \<open>Proposals\<close>

definition files_json :: "files \<Rightarrow> json" where
  "files_json fs = JObj (map (\<lambda>(p, c). (p, JStr c)) fs)"

definition files_of :: "json \<Rightarrow> files" where
  "files_of v = map (\<lambda>(p, c). (p, py_str c)) (dict_or_empty v)"

definition diff_summary :: "files \<Rightarrow> files \<Rightarrow> dict" where
  "diff_summary before after =
     (let b = fst ` set before; a = fst ` set after
      in [(''added'', strs (sorted_list_of_set (a - b))),
          (''changed'', strs (filter (\<lambda>p. map_of before p \<noteq> map_of after p) (sorted_list_of_set (b \<inter> a)))),
          (''removed'', strs (sorted_list_of_set (b - a)))])"

definition snapshot_dict :: "skill_env \<Rightarrow> files \<Rightarrow> dict" where
  "snapshot_dict env fs = [(''files'', files_json fs), (''checksum'', JStr (snapshot_checksum (sv_sha env) fs))]"

definition skill_snapshot :: "skill_env \<Rightarrow> path \<Rightarrow> world \<Rightarrow> files" where
  "skill_snapshot env dir w = read_skill_files (skills_fs w) (below_root env dir)"

definition create_proposal :: "skill_env \<Rightarrow> string \<Rightarrow> string \<Rightarrow> dict \<Rightarrow> dict \<Rightarrow> string \<Rightarrow> evolution_proposal op" where
  "create_proposal env target_type action payload evidence risk_level w =
     (let key = normalize_skill_key (dstr ''skill_key'' payload); proposed = dget ''files'' payload;
          prepared = (if target_type = ''skill'' \<and> key \<noteq> [] \<and> is_dict proposed then
            (case safe_skill_dir env key of
               Inl e \<Rightarrow> Inl e
             | Inr dir \<Rightarrow>
                 let current = skill_snapshot env dir w; digest = snapshot_checksum (sv_sha env) current
                 in Inr (dsetdefault ''diff'' (JObj (diff_summary current (files_of proposed)))
                           (dsetdefault ''base_checksum'' (JStr digest) payload),
                         snapshot_dict env current, digest))
            else Inr (payload, [], ''''))
      in case prepared of
           Inl e \<Rightarrow> (Inl e, w)
         | Inr (payload1, before, digest) \<Rightarrow>
             let pid = sv_new_id env;
                 p = \<lparr>ep_id = pid, ep_target_type = target_type, ep_action = action, ep_status = ''pending'',
                   ep_risk_level = risk_level, ep_payload = payload1, ep_evidence = evidence, ep_before_snapshot = before,
                   ep_after_snapshot = [], ep_result = [], ep_target_checksum = digest, ep_stale_reason = '''',
                   ep_created_at = sv_now env, ep_applied_at = None\<rparr>
             in (Inr p,
                 audit (sv_events env) ''evolution.proposal.create'' ''evolution_proposal'' pid
                   [(''target_type'', JStr target_type), (''action'', JStr action)]
                  (emit (sv_events env) ''skill.proposal.created''
                     [(''proposal_id'', JStr pid), (''target_type'', JStr target_type), (''action'', JStr action)]
                    (w\<lparr>evolution_proposals := evolution_proposals w @ [p]\<rparr>))))"

definition list_proposals :: "world \<Rightarrow> string \<Rightarrow> int \<Rightarrow> evolution_proposal list" where
  "list_proposals w status limit =
     take (clamp_limit 500 limit) (sort_key (\<lambda>p. - ep_created_at p)
       (filter (\<lambda>p. status = [] \<or> ep_status p = status) (evolution_proposals w)))"

definition put_proposal :: "uuid \<Rightarrow> (evolution_proposal \<Rightarrow> evolution_proposal) \<Rightarrow> world \<Rightarrow> world" where
  "put_proposal pid f w = w\<lparr>evolution_proposals := upd_row ep_id pid f (evolution_proposals w)\<rparr>"

text \<open>The part of \<open>apply_proposal\<close> that runs once the checks have passed.\<close>

definition install_skill ::
  "skill_env \<Rightarrow> evolution_proposal \<Rightarrow> string \<Rightarrow> path \<Rightarrow> files \<Rightarrow> string list \<Rightarrow> dict list \<Rightarrow> string \<Rightarrow> uuid op" where
  "install_skill env p key dir fs warnings tests actor w =
     (let before = skill_snapshot env dir w
      in op_bind (write_files env dir fs) (\<lambda>_ w1.
           let after = skill_snapshot env dir w1;
               w2 = w1\<lparr>skill_histories := skill_histories w1 @
                 [\<lparr>skh_key = key, skh_action = ''apply_proposal'', skh_before = snapshot_dict env before,
                   skh_after = snapshot_dict env after @ [(''proposal_id'', JStr (ep_id p))],
                   skh_actor = actor, skh_created_at = sv_now env\<rparr>]\<rparr>;
               w3 = put_proposal (ep_id p) (\<lambda>q. q\<lparr>ep_status := ''applied'', ep_before_snapshot := snapshot_dict env before,
                      ep_after_snapshot := snapshot_dict env after,
                      ep_result := [(''ok'', JBool True), (''warnings'', strs warnings), (''tests'', JList (map JObj tests)),
                                    (''diff'', dget_default ''diff'' (JObj []) (ep_payload p))],
                      ep_applied_at := Some (sv_now env)\<rparr>) w2
           in op_bind (skill_scan env) (\<lambda>_ w4.
                (Inr (ep_id p),
                 audit (sv_events env) ''skill.proposal.apply'' ''evolution_proposal'' (ep_id p)
                   [(''skill_key'', JStr key), (''actor'', JStr actor)]
                  (emit (sv_events env) ''skill.proposal.applied''
                     [(''proposal_id'', JStr (ep_id p)), (''skill_key'', JStr key)] w4))) w3) w)"

definition skill_apply_proposal :: "skill_env \<Rightarrow> uuid \<Rightarrow> string \<Rightarrow> uuid op" where
  "skill_apply_proposal env pid actor w = (case get_row ep_id pid (evolution_proposals w) of
     None \<Rightarrow> (Inl (KeyError (''proposal not found: '' @ pid)), w)
   | Some p \<Rightarrow>
       if ep_status p \<notin> {''pending'', ''approved''}
       then (Inl (ValueError (''proposal is not applyable: '' @ ep_status p)), w)
       else if ep_target_type p \<noteq> ''skill'' then (Inl (ValueError ''only skill proposals are currently applyable''), w)
       else
         let key = normalize_skill_key (dstr ''skill_key'' (ep_payload p)); fs = files_of (dget ''files'' (ep_payload p));
             lint = lint_files env fs
         in if key = [] \<or> \<not> is_dict (dget ''files'' (ep_payload p))
            then (Inl (ValueError ''skill proposals require payload.skill_key and payload.files''), w)
            else if \<not> ln_ok lint
            then (Inr pid, put_proposal pid (\<lambda>q. q\<lparr>ep_status := ''rejected'',
                    ep_result := [(''ok'', JBool False), (''errors'', strs (ln_errors lint)), (''warnings'', strs (ln_warnings lint))]\<rparr>) w)
            else (case safe_skill_dir env key of
              Inl e \<Rightarrow> (Inl e, w)
            | Inr dir \<Rightarrow>
                let current = snapshot_checksum (sv_sha env) (skill_snapshot env dir w);
                    expected = dstr_or ''base_checksum'' (ep_target_checksum p) (ep_payload p);
                    reason = ''target checksum changed: expected '' @ expected @ '', got '' @ current
                in if expected \<noteq> [] \<and> current \<noteq> expected
                   then (Inr pid, put_proposal pid (\<lambda>q. q\<lparr>ep_status := ''stale'', ep_stale_reason := reason,
                           ep_result := [(''ok'', JBool False), (''stale'', JBool True), (''reason'', JStr reason)]\<rparr>) w)
                   else (case test_files env fs of
                     Inl e \<Rightarrow> (Inl e, w)
                   | Inr tp \<Rightarrow>
                       if \<not> tp_ok tp
                       then (Inr pid, put_proposal pid (\<lambda>q. q\<lparr>ep_status := ''rejected'',
                               ep_result := [(''ok'', JBool False), (''errors'', strs (tp_errors tp)),
                                 (''warnings'', strs (tp_warnings tp)), (''tests'', JList (map JObj (tp_tests tp)))]\<rparr>) w)
                       else install_skill env p key dir fs (ln_warnings lint) (tp_tests tp) actor w)))"

text \<open>Rolling back: the files of the newest snapshot of the key are written again.\<close>

definition skill_rollback :: "skill_env \<Rightarrow> string \<Rightarrow> string \<Rightarrow> string list op" where
  "skill_rollback env skill_key actor w =
     (let key = normalize_skill_key skill_key
      in case sort_key (\<lambda>h. - skh_created_at h) (filter (\<lambda>h. skh_key h = key) (skill_histories w)) of
           [] \<Rightarrow> (Inl (KeyError (''no rollback snapshot for skill: '' @ key)), w)
         | h # _ \<Rightarrow>
             let before = files_of (dget ''files'' (skh_before h))
             in (case safe_skill_dir env key of
                   Inl e \<Rightarrow> (Inl e, w)
                 | Inr dir \<Rightarrow>
                     let current = skill_snapshot env dir w
                     in op_bind (write_files env dir before) (\<lambda>_ w1.
                          let w2 = w1\<lparr>skill_histories := skill_histories w1 @
                                [\<lparr>skh_key = key, skh_action = ''rollback'', skh_before = [(''files'', files_json current)],
                                  skh_after = [(''files'', files_json before)], skh_actor = actor, skh_created_at = sv_now env\<rparr>]\<rparr>
                          in op_bind (skill_scan env) (\<lambda>_ w3.
                               (Inr (sort_key id (map fst before)),
                                audit (sv_events env) ''skill.rollback'' ''skill'' key [(''actor'', JStr actor)]
                                  (emit (sv_events env) ''skill.rollback'' [(''skill_key'', JStr key)] w3))) w2) w))"

end
