(* ===== verification/Memory.thy ===== *)
theory Memory
  imports Workspace Retrieval
begin

text \<open>
  Long-term memory: \<open>MemoryService\<close> of \<open>backend/domain/memory.py\<close>.

  Rows of \<open>memories\<close> carry scores, a status and the marker of their entry in the Markdown file
  \<open>memory/MEMORY.md\<close>; every change is written to \<open>memory_histories\<close> with a snapshot before and after.
  A row is written by \<open>put_memory\<close>, which sets \<open>updated_at\<close> when the row really changes (the column's
  \<open>onupdate\<close>). The clock is read once per operation.

  \<open>mem_env\<close> holds what the operations get from outside: the event bus switch, the workspace seed, the
  clock, the identifier of a new row, and the full-text engine of the database (\<open>fts_engine\<close>), a parameter:
  what \<open>MATCH\<close> returns for the rows of the index, whether the index can be created. History rows get the
  identifier \<open>mv_history_id n\<close>, where \<open>n\<close> is the number of rows before. The text columns hold strings.
\<close>

section \<open>Environment and data\<close>

record fts_engine =
  fe_backend :: string
  fe_create :: "exc option"
  fe_match :: "fts_row list \<Rightarrow> string \<Rightarrow> nat \<Rightarrow> exc + (string \<times> rat \<times> string) list"
  fe_pg_search :: "world \<Rightarrow> string \<Rightarrow> nat \<Rightarrow> exc + (string \<times> rat \<times> string) list"
  fe_pg_status :: "world \<Rightarrow> exc + bool \<times> int"

record mem_env =
  mv_events :: bool
  mv_seed :: seed
  mv_now :: instant
  mv_new_id :: uuid
  mv_history_id :: "nat \<Rightarrow> uuid"
  mv_fts :: fts_engine

definition L1_KINDS :: "string set" where
  "L1_KINDS = {''control_axiom'', ''pinned_fact''}"

definition MEMORY_EXPIRED_STATUSES :: "string set" where
  "MEMORY_EXPIRED_STATUSES = {''archived'', ''superseded''}"

text \<open>\<open>max(0.0, min(1.0, float(value)))\<close>: \<open>min(1.0, nan)\<close> is 1.0.\<close>

fun clamp :: "pyfloat \<Rightarrow> rat" where
  "clamp (Fin r) = max 0 (min 1 r)"
| "clamp PosInf = 1"
| "clamp NegInf = 0"
| "clamp NaN = 1"

definition parse_datetime :: "json \<Rightarrow> instant option" where
  "parse_datetime v = (case v of
     JStr s \<Rightarrow> if py_strip s = [] then None else fromisoformat (replace_char CHR ''Z'' ''+00:00'' s)
   | _ \<Rightarrow> None)"

definition memory_access :: "dict \<Rightarrow> dict" where
  "memory_access md =
     (if is_dict (dget ''access'' md) then dict_or_empty (dget ''access'' md)
      else [(''scope'', JStr (dstr_or ''scope'' ''local'' md)), (''permission'', JStr (dstr_or ''permission'' ''private'' md))])"

definition is_inactive :: "instant \<Rightarrow> memory \<Rightarrow> bool" where
  "is_inactive now m =
     (me_archived m \<or> me_status m \<in> MEMORY_EXPIRED_STATUSES
      \<or> (case me_valid_to m of None \<Rightarrow> False | Some t \<Rightarrow> t < now))"

definition marker :: "uuid \<Rightarrow> string" where
  "marker mid = ''<!-- soulclaw:memory id='' @ mid @ '' -->''"

definition snapshot :: "memory \<Rightarrow> dict" where
  "snapshot m =
     [(''id'', JStr (me_id m)), (''kind'', JStr (me_kind m)), (''content'', JStr (me_content m)),
      (''source'', JStr (me_source m)), (''status'', JStr (me_status m)), (''pinned'', JBool (me_pinned m)),
      (''archived'', JBool (me_archived m)), (''importance'', JFloat (me_importance m)),
      (''confidence'', JFloat (me_confidence m)), (''stability'', JFloat (me_stability m)),
      (''source_file_marker'', JStr (me_source_file_marker m)), (''provenance'', JObj (me_provenance m)),
      (''metadata'', JObj (me_metadata m))]"

definition touch :: "instant \<Rightarrow> memory \<Rightarrow> memory \<Rightarrow> memory" where
  "touch now old new = (if new = old then old else new\<lparr>me_updated_at := now\<rparr>)"

definition put_memory :: "instant \<Rightarrow> uuid \<Rightarrow> (memory \<Rightarrow> memory) \<Rightarrow> world \<Rightarrow> world" where
  "put_memory now mid f w = w\<lparr>memories := upd_row me_id mid (\<lambda>m. touch now m (f m)) (memories w)\<rparr>"

definition record_history :: "mem_env \<Rightarrow> uuid \<Rightarrow> string \<Rightarrow> dict \<Rightarrow> dict \<Rightarrow> string \<Rightarrow> world \<Rightarrow> world" where
  "record_history env mid action before after actor w =
     w\<lparr>memory_histories := memory_histories w @
        [\<lparr>mh_id = mv_history_id env (length (memory_histories w)), mh_memory_id = Some mid, mh_action = action,
          mh_before = (if before = [] then [] else [(''memory'', JObj before)]),
          mh_after = (if after = [] then [] else [(''memory'', JObj after)]),
          mh_actor = str_or actor ''system'', mh_created_at = mv_now env\<rparr>]\<rparr>"

section \<open>The memory file\<close>

definition memory_file_line :: "memory \<Rightarrow> string" where
  "memory_file_line m =
     (let status = str_or (me_status m) (if me_archived m then ''archived'' else ''active'')
      in ''- ('' @ me_kind m @ '', source='' @ me_source m @ '', status='' @ status @
         '', importance='' @ format_2f (me_importance m) @ '', confidence='' @ format_2f (me_confidence m) @
         '', stability='' @ format_2f (me_stability m) @ '') '' @ py_strip (me_content m))"

text \<open>The line after the first line that is the marker is replaced; at the end of the file one is added.\<close>

fun replace_entry :: "string \<Rightarrow> string \<Rightarrow> string list \<Rightarrow> string list option" where
  "replace_entry mark new [] = None"
| "replace_entry mark new (l # ls) =
     (if py_strip l = mark then Some (l # new # tl ls) else map_option ((#) l) (replace_entry mark new ls))"

definition file_failed :: "mem_env \<Rightarrow> string \<Rightarrow> memory \<Rightarrow> exc \<Rightarrow> world \<Rightarrow> world" where
  "file_failed env what m e w =
     emit_warning (mv_events env) what [(''memory_id'', JStr (me_id m)), (''error'', JStr (exc_str e))] w"

definition rewrite_memory_file_entry :: "mem_env \<Rightarrow> memory \<Rightarrow> world \<Rightarrow> world" where
  "rewrite_memory_file_entry env m w = (case ws_read (mv_seed env) ''memory'' w of
     (Inl e, w1) \<Rightarrow> file_failed env ''memory.file_rewrite.failed'' m e w1
   | (Inr item, w1) \<Rightarrow>
       (case replace_entry (marker (me_id m)) (memory_file_line m) (splitlines (wf_content item)) of
          None \<Rightarrow> w1
        | Some ls \<Rightarrow>
            (case ws_write (mv_events env) (mv_seed env) ''memory''
                    (rstrip_of is_space (join [newline] ls) @ [newline]) ''memory-service'' w1 of
               (Inl e, w2) \<Rightarrow> file_failed env ''memory.file_rewrite.failed'' m e w2
             | (Inr _, w2) \<Rightarrow> w2)))"

definition append_to_memory_file :: "mem_env \<Rightarrow> memory \<Rightarrow> world \<Rightarrow> world" where
  "append_to_memory_file env m w = (case ws_read (mv_seed env) ''memory'' w of
     (Inl e, w1) \<Rightarrow> file_failed env ''memory.file_append.failed'' m e w1
   | (Inr item, w1) \<Rightarrow>
       if py_in (marker (me_id m)) (wf_content item) then rewrite_memory_file_entry env m w1
       else
         (case ws_write (mv_events env) (mv_seed env) ''memory''
                 (rstrip_of is_space (wf_content item) @ [newline, newline] @ marker (me_id m) @ [newline] @
                  memory_file_line m @ [newline]) ''memory-service'' w1 of
            (Inl e, w2) \<Rightarrow> file_failed env ''memory.file_append.failed'' m e w2
          | (Inr _, w2) \<Rightarrow> w2))"

text \<open>\<open>^-\s+\((?P<meta>[^)]*)\)\s+(?P<content>.*)$\<close> on the stripped line, then the items of \<open>meta\<close>.\<close>

definition match_memory_line :: "string \<Rightarrow> (string \<times> string) option" where
  "match_memory_line s = (case s of
     c # cs \<Rightarrow>
       if c = CHR ''-'' \<and> cs \<noteq> [] \<and> is_space (hd cs) then
         (case dropWhile is_space cs of
            b # bs \<Rightarrow>
              if b = CHR ''('' then
                (case dropWhile (\<lambda>x. x \<noteq> CHR '')'') bs of
                   _ # rest \<Rightarrow>
                     if rest \<noteq> [] \<and> is_space (hd rest)
                     then Some (takeWhile (\<lambda>x. x \<noteq> CHR '')'') bs, dropWhile is_space rest) else None
                 | [] \<Rightarrow> None)
              else None
          | [] \<Rightarrow> None)
       else None
   | [] \<Rightarrow> None)"

definition meta_item :: "string \<Rightarrow> (string \<times> string) list \<Rightarrow> (string \<times> string) list" where
  "meta_item part0 md =
     (let part = py_strip part0
      in if part = [] then md
         else if CHR ''='' \<in> set part
         then put_assoc (py_strip (takeWhile (\<lambda>c. c \<noteq> CHR ''='') part))
                (py_strip (tl (dropWhile (\<lambda>c. c \<noteq> CHR ''='') part))) md
         else if map_of md ''kind'' = None then put_assoc ''kind'' part md else md)"

definition parse_memory_line :: "string \<Rightarrow> ((string \<times> string) list \<times> string) option" where
  "parse_memory_line line = (case match_memory_line (py_strip line) of
     None \<Rightarrow> None
   | Some (meta, content) \<Rightarrow> Some (fold meta_item (split_on CHR '','' meta) [], py_strip content))"

text \<open>\<open><!--\s*soulclaw:memory\s+id=([0-9a-fA-F-]+)\s*-->\<close> at the start of the line; the run of hexadecimal
  digits and hyphens gives back the two hyphens of an end mark written without space.\<close>

definition match_marker :: "string \<Rightarrow> string option" where
  "match_marker s =
     (if \<not> startswith s ''<!--'' then None
      else let a = dropWhile is_space (drop 4 s)
        in if \<not> startswith a ''soulclaw:memory'' then None
        else let b = drop 15 a; c = dropWhile is_space b
          in if c = b \<or> \<not> startswith c ''id='' then None
          else let d = drop 3 c; run = takeWhile (\<lambda>x. is_hex x \<or> x = CHR ''-'') d; rest = drop (length run) d
            in if run \<noteq> [] \<and> startswith (dropWhile is_space rest) ''-->'' then Some run
               else if length run > 2 \<and> endswith run ''--'' \<and> startswith rest ''>'' then Some (take (length run - 2) run)
               else None)"

section \<open>The full-text index\<close>

definition fts_index :: "instant \<Rightarrow> world \<Rightarrow> fts_row list" where
  "fts_index now w =
     map (\<lambda>m. \<lparr>fts_memory_id = me_id m, fts_kind = me_kind m, fts_content = me_content m, fts_source = me_source m,
              fts_metadata = py_repr (JObj (me_metadata m))\<rparr>)
       (filter (\<lambda>m. \<not> is_inactive now m)
         (take 5000 (sort_key (\<lambda>m. - me_updated_at m)
           (filter (\<lambda>m. \<not> me_archived m \<and> me_status m \<notin> MEMORY_EXPIRED_STATUSES) (memories w)))))"

definition status_dict :: "string \<Rightarrow> bool \<Rightarrow> int \<Rightarrow> dict" where
  "status_dict backend available indexed =
     [(''backend'', JStr backend), (''available'', JBool available), (''indexed_memories'', JInt indexed),
      (''fallback'', JBool (\<not> available))]"

definition postgres_fts_status :: "fts_engine \<Rightarrow> world \<Rightarrow> dict" where
  "postgres_fts_status fe w = (case fe_pg_status fe w of
     Inl e \<Rightarrow> status_dict ''postgresql'' False 0 @ [(''error'', JStr (exc_str e))]
   | Inr (available, indexed) \<Rightarrow> status_dict ''postgresql'' available indexed)"

definition refresh_sqlite_fts :: "mem_env \<Rightarrow> world \<Rightarrow> dict \<times> world" where
  "refresh_sqlite_fts env w = (case fe_create (mv_fts env) of
     Some e \<Rightarrow>
       (status_dict ''sqlite'' False 0 @ [(''error'', JStr (exc_str e))],
        emit_warning (mv_events env) ''memory.fts.refresh_failed''
          [(''backend'', JStr ''sqlite''), (''error'', JStr (exc_str e))] w)
   | None \<Rightarrow>
       let rows = fts_index (mv_now env) w
       in (status_dict ''sqlite'' True (int (length rows)), w\<lparr>memories_fts := Some rows\<rparr>))"

definition refresh_fts :: "mem_env \<Rightarrow> world \<Rightarrow> dict \<times> world" where
  "refresh_fts env w =
     (let backend = fe_backend (mv_fts env)
      in if backend = ''sqlite'' then refresh_sqlite_fts env w
         else if backend = ''postgresql'' then (postgres_fts_status (mv_fts env) w, w)
         else (status_dict backend False 0, w))"

definition fts_status :: "mem_env \<Rightarrow> world \<Rightarrow> dict" where
  "fts_status env w =
     (let backend = fe_backend (mv_fts env)
      in if backend = ''sqlite'' then
           (case memories_fts w of None \<Rightarrow> status_dict ''sqlite'' False 0
            | Some rows \<Rightarrow> status_dict ''sqlite'' True (int (length rows)))
         else if backend = ''postgresql'' then postgres_fts_status (mv_fts env) w
         else status_dict backend False 0)"

definition safe_fts_query :: "string \<Rightarrow> string" where
  "safe_fts_query value =
     (if tokens value = {} then
        (let cleaned = py_strip (replace_char (CHR 0x22) '' '' value)
         in if cleaned = [] then [] else [CHR 0x22] @ cleaned @ [CHR 0x22])
      else join '' OR '' (map (\<lambda>t. [CHR 0x22] @ replace_char (CHR 0x22) '' '' t @ [CHR 0x22])
             (take 8 (sorted_list_of_set (tokens value)))))"

type_synonym fts_hit = "string \<times> rat \<times> string"

definition sqlite_fts_search :: "mem_env \<Rightarrow> string \<Rightarrow> nat \<Rightarrow> world \<Rightarrow> fts_hit list \<times> world" where
  "sqlite_fts_search env query limit w =
     (let q = safe_fts_query query
      in if q = [] then ([], w)
         else let w1 = (if memories_fts w = None then snd (refresh_fts env w) else w)
              in (case memories_fts w1 of
                    None \<Rightarrow> []
                  | Some rows \<Rightarrow>
                      (case fe_match (mv_fts env) rows q limit of
                         Inl _ \<Rightarrow> []
                       | Inr rs \<Rightarrow> map (\<lambda>(mid, raw, sn). (mid, 1 / (1 + \<bar>raw\<bar>), sn)) rs), w1))"

definition postgres_fts_search :: "mem_env \<Rightarrow> string \<Rightarrow> nat \<Rightarrow> world \<Rightarrow> fts_hit list" where
  "postgres_fts_search env query limit w =
     (if tokens query = {} then []
      else case fe_pg_search (mv_fts env) w
             (join '' | '' (map (replace_char (CHR 0x27) '' '') (take 8 (sorted_list_of_set (tokens query))))) limit of
           Inl _ \<Rightarrow> [] | Inr rs \<Rightarrow> rs)"

definition fts_search :: "mem_env \<Rightarrow> string \<Rightarrow> nat \<Rightarrow> world \<Rightarrow> fts_hit list \<times> world" where
  "fts_search env query limit w =
     (if py_strip query = [] then ([], w)
      else let backend = fe_backend (mv_fts env)
        in if backend = ''sqlite'' then sqlite_fts_search env query limit w
           else if backend = ''postgresql'' then (postgres_fts_search env query limit w, w)
           else ([], w))"

section \<open>Search\<close>

record memory_hit =
  hit_score :: rat
  hit_source :: string
  hit_memory :: memory
  hit_reasons :: "string list"
  hit_snippet :: string

definition by_priority :: "memory list \<Rightarrow> memory list" where
  "by_priority ms = sort_key (\<lambda>m. (\<not> me_pinned m, - me_importance m, - me_updated_at m)) ms"

definition structured_candidates :: "instant \<Rightarrow> string \<Rightarrow> nat \<Rightarrow> world \<Rightarrow> memory list" where
  "structured_candidates now query limit w =
     (let contains = (\<lambda>s t. ilike s (''%'' @ t @ ''%''));
          base = (\<lambda>m. \<not> me_archived m \<and> me_status m \<notin> MEMORY_EXPIRED_STATUSES
                      \<and> (case me_valid_to m of None \<Rightarrow> True | Some t \<Rightarrow> t \<ge> now));
          clause = (\<lambda>m. contains (me_content m) query \<or> contains (me_kind m) query \<or> contains (me_source m) query
                      \<or> list_ex (contains (me_content m)) (take 6 (sorted_list_of_set (tokens query))))
      in take limit (by_priority (filter (\<lambda>m. base m \<and> (query = [] \<or> clause m)) (memories w))))"

definition recency_score :: "instant \<Rightarrow> memory \<Rightarrow> rat" where
  "recency_score now m =
     (let age_days = max 0 ((now - me_updated_at m) / 86400)
      in max 0 (9 / 20 * (1 - min age_days 90 / 90)))"

definition score_memory :: "instant \<Rightarrow> string \<Rightarrow> fts_hit option \<Rightarrow> memory \<Rightarrow> rat \<times> string list" where
  "score_memory now query hit m =
     (let bm = (case hit of None \<Rightarrow> 0 | Some (_, rank, _) \<Rightarrow> min 3 (rank * 3));
          exact = (query \<noteq> [] \<and> py_in (py_lower query) (py_lower (me_content m)));
          overlap = (if tokens query = {} then 0 else jaccard (tokens query) (tokens (me_content m)));
          quality = me_importance m * (9 / 20) + me_confidence m * (1 / 4) + me_stability m * (1 / 5)
      in (bm + (if exact then 1 else 0) + (if overlap \<noteq> 0 then min 1 (overlap * 2) else 0)
            + (if me_pinned m then 4 / 5 else 0) + (if me_kind m \<in> L1_KINDS then 9 / 20 else 0)
            + quality + recency_score now m,
          (if hit \<noteq> None then [''bm25''] else []) @ (if exact then [''exact_content''] else []) @
          (if overlap \<noteq> 0 then [''token_overlap''] else []) @ (if me_pinned m then [''pinned''] else []) @
          (if me_kind m \<in> L1_KINDS then [''l1''] else []) @ [''quality'']))"

text \<open>Greedy selection against near duplicates; \<open>sel\<close> holds what is selected so far.\<close>

definition similarity :: "memory_hit list \<Rightarrow> memory_hit \<Rightarrow> rat" where
  "similarity sel h = fold max (map (\<lambda>s. jaccard (tokens (me_content (hit_memory h))) (tokens (me_content (hit_memory s)))) sel) 0"

fun mmr_select :: "nat \<Rightarrow> memory_hit list \<Rightarrow> memory_hit list \<Rightarrow> memory_hit list" where
  "mmr_select limit sel [] = sel"
| "mmr_select limit sel (h # hs) =
     (let sim = similarity sel h
      in if sim \<ge> 41 / 50 then mmr_select limit sel hs
         else let h1 = h\<lparr>hit_score := round_to 4 (hit_score h - sim * (7 / 20)),
                        hit_reasons := hit_reasons h @ (if sim \<noteq> 0 then [''dedup_penalty''] else [])\<rparr>;
                  sel1 = sel @ [h1]
              in if length sel1 \<ge> limit then sel1 else mmr_select limit sel1 hs)"

definition mmr_dedup :: "memory_hit list \<Rightarrow> nat \<Rightarrow> memory_hit list" where
  "mmr_dedup ranked limit = take limit (sort_key (\<lambda>h. - hit_score h) (mmr_select limit [] ranked))"

definition search_candidates :: "instant \<Rightarrow> string \<Rightarrow> nat \<Rightarrow> (string \<times> fts_hit) list \<Rightarrow> world \<Rightarrow> memory list" where
  "search_candidates now query limit hits w =
     (let ids = map (\<lambda>(k, _). uuid_parse k) hits;
          found = (if None \<in> set ids then []
                   else filter (\<lambda>m. Some (me_id m) \<in> set ids) (memories w))
      in map snd (fold (\<lambda>m. put_assoc (me_id m) m) (structured_candidates now query limit w)
           (fold (\<lambda>m. put_assoc (me_id m) m) found [])))"

definition rank_memory :: "instant \<Rightarrow> string \<Rightarrow> (string \<times> fts_hit) list \<Rightarrow> memory \<Rightarrow> memory_hit option" where
  "rank_memory now query hits m =
     (if is_inactive now m then None
      else let hit = map_of hits (me_id m)
        in case score_memory now query hit m of (score, reasons) \<Rightarrow>
          if query \<noteq> [] \<and> score \<le> 0 then None
          else Some \<lparr>hit_score = round_to 4 score,
            hit_source = (if hit \<noteq> None then ''memory_fts'' else ''memory_index''), hit_memory = m, hit_reasons = reasons,
            hit_snippet = (case hit of Some (_, _, sn) \<Rightarrow> str_or sn (snippet (me_content m) query 240)
                           | None \<Rightarrow> snippet (me_content m) query 240)\<rparr>)"

definition memory_search :: "mem_env \<Rightarrow> string \<Rightarrow> int \<Rightarrow> world \<Rightarrow> memory_hit list \<times> world" where
  "memory_search env query0 limit0 w =
     (let limit = clamp_limit 50 limit0; query = py_strip query0; wide = max (limit * 4) 20
      in case fts_search env query wide w of (rows, w1) \<Rightarrow>
        let hits = fold (\<lambda>(k, r, sn). put_assoc k (k, r, sn)) rows [];
            ranked = List.map_filter (rank_memory (mv_now env) query hits)
                       (search_candidates (mv_now env) query wide hits w1)
        in (mmr_dedup (sort_key (\<lambda>h. - hit_score h) ranked) limit, w1))"

definition memory_list :: "world \<Rightarrow> string \<Rightarrow> bool \<Rightarrow> int \<Rightarrow> memory list" where
  "memory_list w kind include_archived limit =
     take (clamp_limit 500 limit)
       (sort_key (\<lambda>m. - me_updated_at m)
         (filter (\<lambda>m. (kind = [] \<or> me_kind m = kind) \<and> (include_archived \<or> \<not> me_archived m)) (memories w)))"

definition file_context :: "mem_env \<Rightarrow> int \<Rightarrow> string op" where
  "file_context env limit_chars =
     op_bind (ws_read (mv_seed env) ''memory'') (\<lambda>f. op_ok (take (nat (max 1 limit_chars)) (wf_content f)))"

definition resident_context :: "mem_env \<Rightarrow> string \<Rightarrow> int \<Rightarrow> world \<Rightarrow> (memory list \<times> memory list) \<times> world" where
  "resident_context env query dynamic_limit w =
     (let resident = filter (\<lambda>m. \<not> is_inactive (mv_now env) m)
            (take 20 (by_priority (filter (\<lambda>m. \<not> me_archived m \<and> me_status m \<notin> MEMORY_EXPIRED_STATUSES
                                              \<and> (me_pinned m \<or> me_kind m \<in> L1_KINDS)) (memories w))))
      in case memory_search env query dynamic_limit w of (hits, w1) \<Rightarrow>
        ((resident, filter (\<lambda>m. me_id m \<notin> me_id ` set resident) (map hit_memory hits)), w1))"

section \<open>Conflicts and probes\<close>

definition conflict_open :: "uuid \<Rightarrow> uuid \<Rightarrow> memory_conflict list \<Rightarrow> bool" where
  "conflict_open a b cs = list_ex (\<lambda>c. mc_status c = ''open''
     \<and> (mc_left c = a \<and> mc_right c = b \<or> mc_left c = b \<and> mc_right c = a)) cs"

fun add_conflicts :: "instant \<Rightarrow> memory \<Rightarrow> memory list \<Rightarrow> memory_conflict list \<Rightarrow> memory_conflict list" where
  "add_conflicts now m [] cs = cs"
| "add_conflicts now m (cand # rest) cs =
     (let overlap = jaccard (tokens (me_content m)) (tokens (me_content cand))
      in if overlap < 31 / 50 \<or> py_strip (me_content cand) = py_strip (me_content m) then add_conflicts now m rest cs
         else if conflict_open (me_id cand) (me_id m) cs then add_conflicts now m rest cs
         else add_conflicts now m rest (cs @ [\<lparr>mc_left = me_id cand, mc_right = me_id m, mc_status = ''open'',
                mc_reason = ''Similar '' @ me_kind m @ '' memories may conflict (token overlap '' @ format_2f overlap @ '').'',
                mc_created_at = now\<rparr>]))"

definition detect_conflicts :: "instant \<Rightarrow> memory \<Rightarrow> world \<Rightarrow> world" where
  "detect_conflicts now m w =
     (if card (tokens (me_content m)) < 4 then w
      else let candidates = take 50 (sort_key (\<lambda>c. - me_updated_at c)
                 (filter (\<lambda>c. me_id c \<noteq> me_id m \<and> \<not> me_archived c \<and> me_kind c = me_kind m) (memories w)))
        in w\<lparr>memory_conflicts := add_conflicts now m candidates (memory_conflicts w)\<rparr>)"

definition list_conflicts :: "world \<Rightarrow> string \<Rightarrow> int \<Rightarrow> memory_conflict list" where
  "list_conflicts w status limit =
     take (clamp_limit 500 limit) (sort_key (\<lambda>c. - mc_created_at c)
       (filter (\<lambda>c. status = [] \<or> mc_status c = status) (memory_conflicts w)))"

definition create_probe :: "mem_env \<Rightarrow> string \<Rightarrow> string \<Rightarrow> world \<Rightarrow> uuid \<times> world" where
  "create_probe env question expected w =
     (mv_new_id env, w\<lparr>memory_probes := memory_probes w @ [\<lparr>mp_id = mv_new_id env, mp_question = question,
        mp_expected = expected, mp_status = ''active'', mp_last_result = [], mp_created_at = mv_now env\<rparr>]\<rparr>)"

definition list_probes :: "world \<Rightarrow> string \<Rightarrow> int \<Rightarrow> memory_probe list" where
  "list_probes w status limit =
     take (clamp_limit 500 limit) (sort_key (\<lambda>c. - mp_created_at c)
       (filter (\<lambda>c. status = [] \<or> mp_status c = status) (memory_probes w)))"

definition memory_history_list :: "world \<Rightarrow> uuid option \<Rightarrow> int \<Rightarrow> memory_history list" where
  "memory_history_list w mid limit =
     take (clamp_limit 500 limit) (sort_key (\<lambda>h. - mh_created_at h)
       (filter (\<lambda>h. mid = None \<or> mh_memory_id h = mid) (memory_histories w)))"

definition governance_status :: "mem_env \<Rightarrow> int \<Rightarrow> world \<Rightarrow> dict" where
  "governance_status env budget_chars w =
     (let now = mv_now env;
          active = filter (\<lambda>m. \<not> me_archived m \<and> \<not> is_inactive now m) (memories w);
          total = int (sum_list (map (\<lambda>m. length (me_content m)) active));
          expired = take 100 (filter (\<lambda>m. \<not> me_archived m \<and> (case me_valid_to m of None \<Rightarrow> False | Some t \<Rightarrow> t < now)) (memories w));
          missing = filter (\<lambda>m. \<not> truthy (dget ''access'' (me_metadata m))) active
      in [(''budget'', JObj [(''limit_chars'', JInt budget_chars), (''used_chars'', JInt total),
             (''remaining_chars'', JInt (max 0 (budget_chars - total))), (''over_budget'', JBool (total > budget_chars))]),
          (''active_memories'', JInt (int (length active))), (''expired_memories'', JInt (int (length expired))),
          (''missing_access_policy'', JInt (int (length missing))), (''fts'', JObj (fts_status env w)),
          (''embedding'', JObj [(''status'', JStr ''reserved''), (''provider'', JNull)])])"

section \<open>Changing memories\<close>

record memory_args =
  ma_kind :: string
  ma_content :: string
  ma_source :: string
  ma_pinned :: bool
  ma_importance :: pyfloat
  ma_confidence :: pyfloat
  ma_stability :: pyfloat
  ma_supersedes_id :: "uuid option"
  ma_source_turn_id :: string
  ma_metadata :: dict

definition new_memory_row :: "mem_env \<Rightarrow> memory_args \<Rightarrow> memory" where
  "new_memory_row env a =
     (let now = mv_now env; md = ma_metadata a
      in \<lparr>me_id = mv_new_id env, me_kind = ma_kind a, me_content = ma_content a, me_source = ma_source a,
          me_status = ''active'', me_pinned = ma_pinned a, me_archived = False,
          me_importance = clamp (ma_importance a), me_confidence = clamp (ma_confidence a),
          me_stability = clamp (ma_stability a), me_supersedes_id = ma_supersedes_id a, me_superseded_by = None,
          me_source_turn_id = ma_source_turn_id a, me_source_file_marker = '''',
          me_valid_to = parse_datetime (py_or (dget ''valid_to'' md) (dget ''expires_at'' md)),
          me_provenance = dmerge [(''source'', JStr (ma_source a)), (''created_at'', JStr (isoformat now))]
                            (dict_or_empty (dget ''provenance'' md)),
          me_metadata = dset ''embedding''
             (if is_dict (dget ''embedding'' md) then dget ''embedding'' md else JObj [(''status'', JStr ''reserved'')])
             (dset ''access'' (JObj (memory_access md)) md),
          me_last_verified_at = None, me_created_at = now, me_updated_at = now\<rparr>)"

definition retire :: "string \<Rightarrow> memory \<Rightarrow> memory" where
  "retire status m = m\<lparr>me_archived := True, me_status := status\<rparr>"

definition memory_create :: "mem_env \<Rightarrow> memory_args \<Rightarrow> world \<Rightarrow> memory \<times> world" where
  "memory_create env a w =
     (let now = mv_now env; mid = mv_new_id env; m0 = new_memory_row env a;
          w1 = w\<lparr>memories := memories w @ [m0]\<rparr>;
          w2 = (case ma_supersedes_id a of
                  None \<Rightarrow> w1
                | Some pid \<Rightarrow> (case get_row me_id pid (memories w1) of
                     None \<Rightarrow> w1
                   | Some previous \<Rightarrow>
                       put_memory now pid (retire ''superseded'')
                         (record_history env pid ''superseded_by_create'' (snapshot previous) [] (ma_source a) w1)));
          m = m0\<lparr>me_source_file_marker := marker mid\<rparr>;
          w3 = put_memory now mid (\<lambda>r. r\<lparr>me_source_file_marker := marker mid\<rparr>) w2;
          w4 = detect_conflicts now m w3;
          w5 = append_to_memory_file env m w4;
          w6 = record_history env mid ''create'' [] (snapshot m) (ma_source a) w5;
          w7 = snd (refresh_fts env w6)
      in (m, audit (mv_events env) ''memory.create'' ''memory'' mid
               [(''kind'', JStr (ma_kind a)), (''source'', JStr (ma_source a))]
             (emit (mv_events env) ''memory.create''
               [(''memory_id'', JStr mid), (''kind'', JStr (ma_kind a)), (''source'', JStr (ma_source a))] w7)))"

text \<open>The arguments \<open>supersede\<close> passes to \<open>create\<close>.\<close>

definition replacement_args :: "memory \<Rightarrow> dict \<Rightarrow> exc + memory_args" where
  "replacement_args prev r =
     (case dreq ''content'' r of
        Inl e \<Rightarrow> Inl e
      | Inr content \<Rightarrow>
          (case py_float (dget_default ''importance'' (JFloat (me_importance prev)) r) of
             Inl e \<Rightarrow> Inl e
           | Inr imp \<Rightarrow>
               (case py_float (dget_default ''confidence'' (JFloat (me_confidence prev)) r) of
                  Inl e \<Rightarrow> Inl e
                | Inr con \<Rightarrow>
                    (case py_float (dget_default ''stability'' (JFloat (me_stability prev)) r) of
                       Inl e \<Rightarrow> Inl e
                     | Inr sta \<Rightarrow>
                         let md = py_or (dget ''metadata'' r) (JObj [(''supersedes'', JStr (me_id prev))])
                         in if \<not> is_dict md then Inl (OtherError ''object has no attribute get'')
                            else Inr \<lparr>ma_kind = dstr_or ''kind'' (me_kind prev) r, ma_content = py_str content,
                              ma_source = py_str (dget_default ''source'' (JStr ''supersede'') r),
                              ma_pinned = truthy (dget_default ''pinned'' (JBool (me_pinned prev)) r),
                              ma_importance = imp, ma_confidence = con, ma_stability = sta,
                              ma_supersedes_id = Some (me_id prev), ma_source_turn_id = '''',
                              ma_metadata = dict_or_empty md\<rparr>))))"

definition memory_supersede :: "mem_env \<Rightarrow> uuid \<Rightarrow> dict \<Rightarrow> memory op" where
  "memory_supersede env mid replacement w = (case get_row me_id mid (memories w) of
     None \<Rightarrow> (Inl (KeyError (''memory not found: '' @ mid)), w)
   | Some previous \<Rightarrow>
       let w1 = put_memory (mv_now env) mid (retire ''superseded'') w
       in case replacement_args previous replacement of
            Inl e \<Rightarrow> (Inl e, w1)
          | Inr a \<Rightarrow>
              (case memory_create env a w1 of (m, w2) \<Rightarrow>
                 let w3 = put_memory (mv_now env) mid (\<lambda>r. r\<lparr>me_superseded_by := Some (me_id m)\<rparr>) w2;
                     prev = the (get_row me_id mid (memories w3));
                     w4 = rewrite_memory_file_entry env m (rewrite_memory_file_entry env prev w3);
                     w5 = record_history env mid ''supersede'' (snapshot previous) (snapshot prev)
                            (dstr_or ''source'' ''supersede'' replacement) w4
                 in (Inr m, snd (refresh_fts env w5))))"

fun add_float :: "rat \<Rightarrow> pyfloat \<Rightarrow> pyfloat" where
  "add_float x (Fin d) = Fin (x + d)"
| "add_float x y = y"

fun half_float :: "pyfloat \<Rightarrow> pyfloat" where
  "half_float (Fin d) = Fin (d / 2)"
| "half_float y = y"

text \<open>In an event payload a non-finite float is shown by its text.\<close>

fun float_json :: "pyfloat \<Rightarrow> json" where
  "float_json (Fin r) = JFloat r"
| "float_json PosInf = JStr ''inf''"
| "float_json NegInf = JStr ''-inf''"
| "float_json NaN = JStr ''nan''"

definition mark_verified :: "mem_env \<Rightarrow> uuid \<Rightarrow> pyfloat \<Rightarrow> memory op" where
  "mark_verified env mid delta w = (case get_row me_id mid (memories w) of
     None \<Rightarrow> (Inl (KeyError (''memory not found: '' @ mid)), w)
   | Some m \<Rightarrow>
       let m1 = m\<lparr>me_last_verified_at := Some (mv_now env), me_confidence := clamp (add_float (me_confidence m) delta),
                 me_stability := clamp (add_float (me_stability m) (half_float delta))\<rparr>;
           w1 = put_memory (mv_now env) mid (\<lambda>r. r\<lparr>me_last_verified_at := me_last_verified_at m1,
                  me_confidence := me_confidence m1, me_stability := me_stability m1\<rparr>) w;
           w2 = rewrite_memory_file_entry env m1 w1;
           w3 = record_history env mid ''verify'' (snapshot m) (snapshot m1) ''memory-service'' w2
       in (Inr m1, audit (mv_events env) ''memory.verify'' ''memory'' mid [(''confidence_delta'', float_json delta)] w3))"

definition memory_archive :: "mem_env \<Rightarrow> uuid \<Rightarrow> memory op" where
  "memory_archive env mid w = (case get_row me_id mid (memories w) of
     None \<Rightarrow> (Inl (KeyError (''memory not found: '' @ mid)), w)
   | Some m \<Rightarrow>
       let m1 = retire ''archived'' m;
           w1 = put_memory (mv_now env) mid (retire ''archived'') w;
           w2 = rewrite_memory_file_entry env m1 w1;
           w3 = record_history env mid ''archive'' (snapshot m) (snapshot m1) ''memory-service'' w2;
           w4 = snd (refresh_fts env w3)
       in (Inr m1, audit (mv_events env) ''memory.archive'' ''memory'' mid []
                    (emit (mv_events env) ''memory.archive'' [(''memory_id'', JStr mid)] w4)))"

subsection \<open>Synchronising from the file\<close>

definition sync_score :: "string \<Rightarrow> (string \<times> string) list \<Rightarrow> rat \<Rightarrow> rat" where
  "sync_score key md old = (case map_of md key of
     None \<Rightarrow> old
   | Some s \<Rightarrow> (case float_of_str s of None \<Rightarrow> old | Some x \<Rightarrow> clamp x))"

definition sync_memory :: "instant \<Rightarrow> string \<Rightarrow> (string \<times> string) list \<Rightarrow> string \<Rightarrow> memory \<Rightarrow> memory" where
  "sync_memory now path md content m =
     (let get = (\<lambda>k. case map_of md k of None \<Rightarrow> '''' | Some s \<Rightarrow> s);
          status = str_or (get ''status'') (str_or (me_status m) ''active'')
      in m\<lparr>me_kind := str_or (get ''kind'') (me_kind m), me_content := str_or content (me_content m),
           me_source := str_or (get ''source'') (me_source m), me_status := status,
           me_archived := (status \<in> {''archived'', ''superseded''}),
           me_importance := sync_score ''importance'' md (me_importance m),
           me_confidence := sync_score ''confidence'' md (me_confidence m),
           me_stability := sync_score ''stability'' md (me_stability m),
           me_source_file_marker := marker (me_id m),
           me_provenance := dset ''synced_at'' (JStr (isoformat now)) (dset ''synced_from'' (JStr path) (me_provenance m))\<rparr>)"

definition sync_entry :: "instant \<Rightarrow> string \<Rightarrow> string \<Rightarrow> string list \<Rightarrow> int \<times> int \<times> world \<Rightarrow> int \<times> int \<times> world" where
  "sync_entry now path line rest = (\<lambda>(updated, missing, w).
     case Option.bind (match_marker (py_strip line)) uuid_parse of
       None \<Rightarrow> (updated, missing, w)
     | Some mid \<Rightarrow>
         if get_row me_id mid (memories w) = None then (updated, missing + 1, w)
         else if rest = [] then (updated, missing, w)
         else (case parse_memory_line (hd rest) of
                 None \<Rightarrow> (updated, missing, w)
               | Some (md, content) \<Rightarrow>
                   (updated + 1, missing, put_memory now mid (sync_memory now path md content) w)))"

fun sync_lines :: "instant \<Rightarrow> string \<Rightarrow> string list \<Rightarrow> int \<times> int \<times> world \<Rightarrow> int \<times> int \<times> world" where
  "sync_lines now path [] acc = acc"
| "sync_lines now path (line # rest) acc = sync_lines now path rest (sync_entry now path line rest acc)"

definition sync_from_memory_file :: "mem_env \<Rightarrow> dict op" where
  "sync_from_memory_file env = op_bind (ws_read (mv_seed env) ''memory'') (\<lambda>item w.
     case sync_lines (mv_now env) (wf_path item) (splitlines (wf_content item)) (0, 0, w) of (updated, missing, w1) \<Rightarrow>
       let outcome = [(''updated'', JInt updated), (''missing'', JInt missing), (''path'', JStr (wf_path item))];
           w2 = audit (mv_events env) ''memory.file_sync'' ''workspace_file'' ''memory'' outcome
                  (emit (mv_events env) ''memory.file_sync'' outcome w1)
       in (Inr outcome, if updated \<noteq> 0 then snd (refresh_fts env w2) else w2))"

subsection \<open>Restoring\<close>

text \<open>Assignments up to the first one that raises.\<close>

definition apply_snapshot :: "dict \<Rightarrow> memory \<Rightarrow> exc option \<times> memory" where
  "apply_snapshot s m =
     (let m1 = m\<lparr>me_kind := dstr_or ''kind'' (str_or (me_kind m) ''agent_note'') s,
                 me_content := dstr_or ''content'' (me_content m) s,
                 me_source := dstr_or ''source'' (str_or (me_source m) ''restore'') s,
                 me_status := dstr_or ''status'' ''active'' s,
                 me_pinned := truthy (dget_default ''pinned'' (JBool False) s),
                 me_archived := truthy (dget_default ''archived'' (JBool False) s)\<rparr>
      in case py_float (dget_default ''importance'' (JFloat (1 / 2)) s) of
           Inl e \<Rightarrow> (Some e, m1)
         | Inr i \<Rightarrow>
             let m2 = m1\<lparr>me_importance := clamp i\<rparr>
             in case py_float (dget_default ''confidence'' (JFloat (1 / 2)) s) of
                  Inl e \<Rightarrow> (Some e, m2)
                | Inr c \<Rightarrow>
                    let m3 = m2\<lparr>me_confidence := clamp c\<rparr>
                    in case py_float (dget_default ''stability'' (JFloat (1 / 2)) s) of
                         Inl e \<Rightarrow> (Some e, m3)
                       | Inr t \<Rightarrow>
                           (None, m3\<lparr>me_stability := clamp t,
                              me_source_file_marker := dstr_or ''source_file_marker'' (marker (me_id m)) s,
                              me_provenance := dict_or_empty (dget ''provenance'' s),
                              me_metadata := dict_or_empty (dget ''metadata'' s)\<rparr>))"

text \<open>A row made for a memory that is gone: columns not set yet read as \<open>None\<close> in the snapshot and get the
  column defaults when the row is inserted.\<close>

definition blank_memory :: "instant \<Rightarrow> uuid \<Rightarrow> string \<Rightarrow> string \<Rightarrow> memory" where
  "blank_memory now mid kind content =
     \<lparr>me_id = mid, me_kind = kind, me_content = content, me_source = '''', me_status = ''active'', me_pinned = False,
      me_archived = False, me_importance = 1 / 2, me_confidence = 1 / 2, me_stability = 1 / 2, me_supersedes_id = None,
      me_superseded_by = None, me_source_turn_id = '''', me_source_file_marker = '''', me_valid_to = None, me_provenance = [],
      me_metadata = [], me_last_verified_at = None, me_created_at = now, me_updated_at = now\<rparr>"

definition blank_snapshot :: "uuid \<Rightarrow> string \<Rightarrow> string \<Rightarrow> dict" where
  "blank_snapshot mid kind content =
     [(''id'', JStr mid), (''kind'', JStr kind), (''content'', JStr content), (''source'', JNull), (''status'', JNull),
      (''pinned'', JNull), (''archived'', JNull), (''importance'', JNull), (''confidence'', JNull), (''stability'', JNull),
      (''source_file_marker'', JStr ''''), (''provenance'', JObj []), (''metadata'', JObj [])]"

definition history_snapshot :: "memory_history \<Rightarrow> json" where
  "history_snapshot h =
     py_or (dget ''memory'' (mh_before h)) (py_or (JObj (mh_before h)) (dget ''memory'' (mh_after h)))"

definition memory_restore :: "mem_env \<Rightarrow> uuid \<Rightarrow> string \<Rightarrow> memory op" where
  "memory_restore env hid actor w = (case get_row mh_id hid (memory_histories w) of
     None \<Rightarrow> (Inl (KeyError (''memory history not found: '' @ hid)), w)
   | Some h \<Rightarrow>
       let snap = history_snapshot h; s = dict_or_empty snap
       in if \<not> is_dict snap \<or> \<not> truthy (dget ''id'' s)
          then (Inl (ValueError ''memory history has no restorable snapshot''), w)
          else case uuid_parse (py_str (dget ''id'' s)) of
            None \<Rightarrow> (Inl (ValueError ''badly formed hexadecimal UUID string''), w)
          | Some mid \<Rightarrow>
              (case (case get_row me_id mid (memories w) of
                       Some m \<Rightarrow> (m, snapshot m, w)
                     | None \<Rightarrow>
                         let kind = dstr_or ''kind'' ''agent_note'' s; content = dstr ''content'' s;
                             m = blank_memory (mv_now env) mid kind content
                         in (m, blank_snapshot mid kind content, w\<lparr>memories := memories w @ [m]\<rparr>)) of
                 (m, before, w1) \<Rightarrow>
                   (case apply_snapshot s m of
                      (Some e, m1) \<Rightarrow> (Inl e, put_memory (mv_now env) mid (\<lambda>_. m1) w1)
                    | (None, m1) \<Rightarrow>
                        let w2 = put_memory (mv_now env) mid (\<lambda>_. m1) w1;
                            w3 = rewrite_memory_file_entry env m1 w2;
                            w4 = record_history env mid ''restore'' before (snapshot m1) actor w3
                        in (Inr m1, snd (refresh_fts env w4)))))"

subsection \<open>Applying a proposal\<close>

definition proposal_create_args :: "dict \<Rightarrow> exc + memory_args" where
  "proposal_create_args p =
     (case dreq ''content'' p of
        Inl e \<Rightarrow> Inl e
      | Inr content \<Rightarrow>
          (case py_float (dget_default ''importance'' (JFloat (1 / 2)) p) of
             Inl e \<Rightarrow> Inl e
           | Inr imp \<Rightarrow>
               (case py_float (dget_default ''confidence'' (JFloat (1 / 2)) p) of
                  Inl e \<Rightarrow> Inl e
                | Inr con \<Rightarrow>
                    (case py_float (dget_default ''stability'' (JFloat (1 / 2)) p) of
                       Inl e \<Rightarrow> Inl e
                     | Inr sta \<Rightarrow>
                         Inr \<lparr>ma_kind = dstr_or ''kind'' ''agent_note'' p, ma_content = py_str content,
                           ma_source = dstr_or ''source'' ''proposal'' p,
                           ma_pinned = truthy (dget_default ''pinned'' (JBool False) p),
                           ma_importance = imp, ma_confidence = con, ma_stability = sta, ma_supersedes_id = None,
                           ma_source_turn_id = '''', ma_metadata = dict_or_empty (dget ''metadata'' p)\<rparr>))))"

definition proposal_target :: "dict \<Rightarrow> world \<Rightarrow> exc + memory" where
  "proposal_target p w =
     (case dreq ''memory_id'' p of
        Inl e \<Rightarrow> Inl e
      | Inr v \<Rightarrow>
          (case uuid_parse (py_str v) of
             None \<Rightarrow> Inl (ValueError ''badly formed hexadecimal UUID string'')
           | Some mid \<Rightarrow> (case get_row me_id mid (memories w) of
                None \<Rightarrow> Inl (KeyError (''memory not found: '' @ mid)) | Some m \<Rightarrow> Inr m)))"

definition proposal_replacement :: "memory \<Rightarrow> dict \<Rightarrow> json \<Rightarrow> dict" where
  "proposal_replacement prev p content =
     [(''kind'', py_or (dget ''kind'' p) (JStr (me_kind prev))), (''content'', JStr (py_str content)),
      (''source'', dget_default ''source'' (JStr ''proposal'') p),
      (''pinned'', dget_default ''pinned'' (JBool (me_pinned prev)) p),
      (''importance'', dget_default ''importance'' (JFloat (me_importance prev)) p),
      (''confidence'', dget_default ''confidence'' (JFloat (me_confidence prev)) p),
      (''stability'', dget_default ''stability'' (JFloat (me_stability prev)) p),
      (''metadata'', JObj (dict_or_empty (dget ''metadata'' p)))]"

text \<open>The branches of \<open>apply_proposal\<close>: the snapshot taken before, and the result.\<close>

definition proposal_action :: "mem_env \<Rightarrow> string \<Rightarrow> dict \<Rightarrow> (dict \<times> dict) op" where
  "proposal_action env action p =
     (let done = (\<lambda>mid. [(''ok'', JBool True), (''memory_id'', JStr mid), (''action'', JStr action)])
      in if action = ''create'' then
           op_bind (op_lift (proposal_create_args p)) (\<lambda>a w.
             case memory_create env a w of (m, w1) \<Rightarrow> (Inr ([], done (me_id m)), w1))
         else if action = ''supersede'' then
           (\<lambda>w. op_bind (op_lift (proposal_target p w)) (\<lambda>prev.
             op_bind (op_lift (dreq ''content'' p)) (\<lambda>content.
             op_bind (memory_supersede env (me_id prev) (proposal_replacement prev p content)) (\<lambda>m.
             op_ok ([(''memory'', JObj (snapshot prev))],
                    [(''ok'', JBool True), (''memory_id'', JStr (me_id m)), (''supersedes_id'', JStr (me_id prev)),
                     (''action'', JStr action)])))) w)
         else if action = ''archive'' then
           (\<lambda>w. op_bind (op_lift (proposal_target p w)) (\<lambda>prev.
             op_bind (memory_archive env (me_id prev)) (\<lambda>_.
             op_ok ([(''memory'', JObj (snapshot prev))], done (me_id prev)))) w)
         else if action = ''verify'' then
           (\<lambda>w. op_bind (op_lift (proposal_target p w)) (\<lambda>prev.
             op_bind (op_lift (py_float (dget_default ''confidence_delta'' (JFloat (1 / 20)) p))) (\<lambda>delta.
             op_bind (mark_verified env (me_id prev) delta) (\<lambda>m.
             op_ok ([(''memory'', JObj (snapshot prev))], done (me_id m))))) w)
         else op_raise (ValueError ''memory proposal action must be create, supersede, archive, or verify''))"

definition memory_apply_proposal :: "mem_env \<Rightarrow> uuid \<Rightarrow> string \<Rightarrow> uuid op" where
  "memory_apply_proposal env pid actor w = (case get_row ep_id pid (evolution_proposals w) of
     None \<Rightarrow> (Inl (KeyError (''proposal not found: '' @ pid)), w)
   | Some p \<Rightarrow>
       if ep_status p \<notin> {''pending'', ''approved''}
       then (Inl (ValueError (''proposal is not applyable: '' @ ep_status p)), w)
       else if ep_target_type p \<noteq> ''memory'' then (Inl (ValueError ''only memory proposals are applyable here''), w)
       else op_bind (proposal_action env (ep_action p) (ep_payload p)) (\<lambda>(before, outcome) w1.
         (Inr pid,
          audit (mv_events env) ''memory.proposal.apply'' ''evolution_proposal'' pid
            [(''action'', JStr (ep_action p)), (''actor'', JStr actor)]
           (emit (mv_events env) ''memory.proposal.applied''
              [(''proposal_id'', JStr pid), (''action'', JStr (ep_action p))]
             (w1\<lparr>evolution_proposals := upd_row ep_id pid (\<lambda>q. q\<lparr>ep_status := ''applied'', ep_before_snapshot := before,
                   ep_after_snapshot := outcome, ep_result := dset ''actor'' (JStr actor) outcome,
                   ep_applied_at := Some (mv_now env)\<rparr>) (evolution_proposals w1)\<rparr>)))) w)"

end
