(* ===== verification/Wiki.thy ===== *)
theory Wiki
  imports Skills Memory
begin

text \<open>
  The Markdown wiki: \<open>WikiService\<close> of \<open>backend/domain/wiki.py\<close> with its module functions.

  The pages are the Markdown files below the wiki root, the field \<open>wiki_fs\<close> of the world by their path
  below the root; a directory exists when a file below it does, and there are no symbolic links. The tables
  \<open>wiki_sources\<close>, \<open>wiki_pages\<close>, \<open>wiki_links\<close> and \<open>wiki_pages_fts\<close> mirror them, \<open>wiki_error_book\<close> collects what
  compiling and linting found. This theory has the parser, the compiler, the file operations and the
  application of proposals; retrieval, linting and repair are in \<open>Wiki_Service\<close>.

  \<open>wiki_env\<close> holds what comes from outside: the event bus switch, the clock (read once per operation), the
  root and the working directory of the process as absolute paths, the files outside the root, SHA-256,
  PyYAML's \<open>safe_load\<close> (a JSON value or an exception), the full-text engine, the identifiers of new error and proposal
  rows (by the number of rows before), the language model (\<open>None\<close> when not configured) and the message of the
  JSON decoder for a text it cannot read.
\<close>

section \<open>Environment\<close>

record wiki_fts_engine =
  wfe_backend :: string
  wfe_create :: "exc option"
  wfe_match :: "wiki_fts_row list \<Rightarrow> string \<Rightarrow> nat \<Rightarrow> exc + (string \<times> rat \<times> string) list"
  wfe_pg_search :: "world \<Rightarrow> string \<Rightarrow> nat \<Rightarrow> exc + (string \<times> rat \<times> string) list"
  wfe_pg_status :: "world \<Rightarrow> exc + bool \<times> int"

record wiki_env =
  wk_events :: bool
  wk_now :: instant
  wk_root :: path
  wk_cwd :: path
  wk_outside :: "path \<Rightarrow> string option"
  wk_sha :: "string \<Rightarrow> string"
  wk_yaml_load :: "string \<Rightarrow> exc + json"
  wk_fts :: wiki_fts_engine
  wk_error_id :: "nat \<Rightarrow> uuid"
  wk_proposal_id :: "nat \<Rightarrow> uuid"
  wk_llm :: "(json list \<Rightarrow> exc + string) option"
  wk_json_error :: "string \<Rightarrow> string"

definition CANONICAL_WIKI_FILES :: "string list" where
  "CANONICAL_WIKI_FILES = [''SCHEMA.md'', ''index.md'', ''log.md'']"

definition SPECIAL_WIKI_DIRS :: "string list" where
  "SPECIAL_WIKI_DIRS = [''_archive'', ''comparisons'', ''concepts'', ''entities'', ''queries'', ''raw'']"

definition WIKI_PROPOSAL_ACTIONS :: "string list" where
  "WIKI_PROPOSAL_ACTIONS = [''create_page'', ''update_page'', ''archive_page'', ''fix_link'', ''update_index'', ''append_log'']"

definition text_lines :: "string list \<Rightarrow> string" where
  "text_lines ls = concat (map (\<lambda>l. l @ [newline]) ls)"

definition DEFAULT_CANONICAL_CONTENT :: "(string \<times> string) list" where
  "DEFAULT_CANONICAL_CONTENT =
     [(''SCHEMA.md'', text_lines [''---'', ''title: Wiki Schema'', ''page_key: schema'', ''type: schema'', ''tags:'',
        ''  - llm-wiki'', ''confidence: 0.6'', ''summary: Control rules for the local LLM-Wiki.'', ''---'', '''',
        ''# Wiki Schema'', '''',
        ''Use Markdown frontmatter, stable page keys, summaries, wikilinks, and explicit sources so agents can browse, '' @
        ''search, verify, and repair this Wiki.'']),
      (''index.md'', text_lines [''---'', ''title: Wiki Index'', ''page_key: index'', ''type: index'', ''tags:'',
        ''  - llm-wiki'', ''confidence: 0.6'', ''summary: Root map for the local LLM-Wiki.'', ''---'', '''',
        ''# Wiki Index'', '''', ''Use this page as the browse-first map for durable Wiki knowledge.'']),
      (''log.md'', text_lines [''# Wiki Log''])]"

section \<open>Keys, lists, text\<close>

definition page_slug :: "string \<Rightarrow> string" where
  "page_slug v1 =
     (let v2 = sub_runs is_space ''-'' v1;
          v3 = sub_runs (\<lambda>c. \<not> key_char c) ''-'' v2;
          v4 = sub_runs (\<lambda>c. c = CHR ''-'') ''-'' v3
      in strip_of (\<lambda>c. c = CHR ''-'' \<or> c = CHR ''/'') v4)"

definition drop_md :: "string \<Rightarrow> string" where
  "drop_md s = (if endswith (py_lower s) ''.md'' then take (length s - 3) s else s)"

definition normalize_page_key :: "string \<Rightarrow> string" where
  "normalize_page_key value = page_slug (py_lower (drop_md (replace_char (CHR 0x5C) ''/'' (py_strip value))))"

definition nonempty_strips :: "string list \<Rightarrow> string list" where
  "nonempty_strips xs = filter (\<lambda>s. s \<noteq> []) (map py_strip xs)"

definition listify :: "json \<Rightarrow> string list" where
  "listify v = (case v of
     JNull \<Rightarrow> []
   | JList xs \<Rightarrow> nonempty_strips (map py_str xs)
   | JStr s \<Rightarrow> nonempty_strips (split_on CHR '','' s)
   | _ \<Rightarrow> [py_strip (py_str v)])"

definition first_heading :: "string \<Rightarrow> string option" where
  "first_heading body = map_option py_strip (title_search True body)"

text \<open>\<open>body.split("\n\n")\<close>.\<close>

fun split_blocks :: "string \<Rightarrow> string \<Rightarrow> string list" where
  "split_blocks acc [] = [rev acc]"
| "split_blocks acc [c] = [rev (c # acc)]"
| "split_blocks acc (c # d # cs) =
     (if c = newline \<and> d = newline then rev acc # split_blocks [] cs else split_blocks (c # acc) (d # cs))"

definition summary_from_body :: "string \<Rightarrow> string" where
  "summary_from_body body =
     (case filter (\<lambda>b. b \<noteq> [] \<and> \<not> startswith b ''#'') (map py_strip (split_blocks [] body)) of
        [] \<Rightarrow> [] | b # _ \<Rightarrow> take 500 (collapse_ws b))"

definition json_dicts :: "json \<Rightarrow> dict list" where
  "json_dicts v = map dict_or_empty (filter is_dict (list_or_empty v))"

text \<open>\<open>_confidence\<close>, and the clamping of the parser, where \<open>min(nan, 1.0)\<close> stays not a number and
  \<open>max(0.0, nan)\<close> is 0.0.\<close>

definition confidence_of :: "json \<Rightarrow> rat" where
  "confidence_of v = (case py_float (if v = JNull then JFloat 0 else v) of Inl _ \<Rightarrow> 0 | Inr x \<Rightarrow> clamp x)"

fun clamp_parsed :: "pyfloat \<Rightarrow> rat" where
  "clamp_parsed (Fin r) = max 0 (min r 1)"
| "clamp_parsed PosInf = 1"
| "clamp_parsed NegInf = 0"
| "clamp_parsed NaN = 0"

definition page_confidence :: "dict \<Rightarrow> rat" where
  "page_confidence md =
     (case py_float (dget_default ''confidence'' (JFloat (1 / 2)) md) of Inl _ \<Rightarrow> 1 / 2 | Inr x \<Rightarrow> clamp_parsed x)"

section \<open>Wiki links\<close>

text \<open>\<open>\[\[([^\]|#]+)(?:#[^\]|]+)?(?:\|([^\]]+))?\]\]\<close>. The three runs exclude the characters that may follow
  them, so no part of a match gives characters back.\<close>

definition link_rest :: "string \<Rightarrow> string \<Rightarrow> string option \<Rightarrow> (string \<times> string option \<times> string) option" where
  "link_rest t r anchor = (if startswith r '']]'' then Some (t, anchor, drop 2 r) else None)"

definition match_link :: "string \<Rightarrow> (string \<times> string option \<times> string) option" where
  "match_link s =
     (if \<not> startswith s ''[['' then None
      else let t = takeWhile (\<lambda>c. c \<notin> {CHR '']'', CHR ''|'', CHR ''#''}) (drop 2 s);
               r = drop (2 + length t) s
           in if t = [] then None
           else let h = (if startswith r ''#'' then takeWhile (\<lambda>c. c \<notin> {CHR '']'', CHR ''|''}) (drop 1 r) else []);
                    r1 = (if h = [] then r else drop (1 + length h) r)
                in if startswith r1 ''|'' then
                     (let a = takeWhile (\<lambda>c. c \<noteq> CHR '']'') (drop 1 r1)
                      in if a = [] then None else link_rest t (drop (1 + length a) r1) (Some a))
                   else link_rest t r1 None)"

lemma match_link_shorter: "match_link s = Some (t, a, r) \<Longrightarrow> length r < length s"
  by (auto simp: match_link_def link_rest_def Let_def dest!: prefix_length_le split: if_splits)

function find_links :: "string \<Rightarrow> (string \<times> string option) list" where
  "find_links s = (case s of
     [] \<Rightarrow> []
   | c # cs \<Rightarrow> (case match_link s of None \<Rightarrow> find_links cs | Some (t, a, r) \<Rightarrow> (t, a) # find_links r))"
  by pat_completeness auto
termination
  by (relation "measure length") (auto dest: match_link_shorter)

declare find_links.simps [simp del]

definition page_links :: "string \<Rightarrow> (string \<times> string) list" where
  "page_links body = filter (\<lambda>(t, _). t \<noteq> [])
     (map (\<lambda>(t, a). (normalize_page_key t, py_strip (case a of None \<Rightarrow> t | Some x \<Rightarrow> x))) (find_links body))"

section \<open>Files below the root\<close>

definition is_file :: "fs \<Rightarrow> path \<Rightarrow> bool" where
  "is_file fs ps = fs_exists fs (join ''/'' ps)"

definition is_dir :: "fs \<Rightarrow> path \<Rightarrow> bool" where
  "is_dir fs ps = (ps = [] \<or> dir_files fs ps \<noteq> [])"

definition path_exists :: "fs \<Rightarrow> path \<Rightarrow> bool" where
  "path_exists fs ps = (is_file fs ps \<or> is_dir fs ps)"

text \<open>\<open>(root / p).read_text()\<close>.\<close>

definition read_file :: "fs \<Rightarrow> path \<Rightarrow> exc + string" where
  "read_file fs ps =
     (if is_file fs ps then Inr (read_text fs (join ''/'' ps))
      else if is_dir fs ps then Inl (OtherError (''[Errno 21] Is a directory: '' @ py_repr_str (join ''/'' ps)))
      else Inl (OtherError (''[Errno 2] No such file or directory: '' @ py_repr_str (join ''/'' ps))))"

text \<open>\<open>rglob("*.md")\<close> also yields directories; hidden components are left out.\<close>

definition markdown_paths :: "fs \<Rightarrow> path list" where
  "markdown_paths fs =
     sort (filter (\<lambda>ps. ps \<noteq> [] \<and> endswith (last ps) ''.md'' \<and> \<not> hidden ps)
       (remdups (concat (map (\<lambda>(p, _). prefixes (split_on CHR ''/'' p)) fs))))"

definition read_optional_file :: "fs \<Rightarrow> string \<Rightarrow> string" where
  "read_optional_file fs p = (if fs_exists fs p then read_text fs p else [])"

definition wiki_shape :: "fs \<Rightarrow> dict" where
  "wiki_shape fs =
     [(''canonical_files'', JObj (map (\<lambda>f. (f, JBool (path_exists fs [f]))) (sort CANONICAL_WIKI_FILES))),
      (''special_dirs'', JObj (map (\<lambda>d. (d, JBool (path_exists fs [d]))) (sort SPECIAL_WIKI_DIRS)))]"

definition indexed_page_keys :: "fs \<Rightarrow> string set" where
  "indexed_page_keys fs = set (map (normalize_page_key \<circ> fst) (find_links (read_optional_file fs ''index.md'')))"

section \<open>Parsing a page\<close>

record parsed_page =
  pp_key :: string
  pp_title :: string
  pp_type :: string
  pp_path :: string
  pp_summary :: string
  pp_body :: string
  pp_aliases :: "string list"
  pp_tags :: "string list"
  pp_confidence :: rat
  pp_claims :: "dict list"
  pp_source_refs :: "dict list"
  pp_stale_after :: "instant option"
  pp_metadata :: dict
  pp_checksum :: string
  pp_links :: "(string \<times> string) list"

definition wiki_frontmatter :: "wiki_env \<Rightarrow> string \<Rightarrow> exc + dict \<times> string" where
  "wiki_frontmatter env raw = (case frontmatter raw of
     None \<Rightarrow> Inr ([], raw)
   | Some (y, body) \<Rightarrow>
       (case wk_yaml_load env y of
          Inl e \<Rightarrow> Inl e
        | Inr v \<Rightarrow>
            let loaded = py_or v (JObj [])
            in if is_dict loaded then Inr (dict_or_empty loaded, body)
               else Inl (ValueError ''frontmatter must be a mapping'')))"

definition build_page :: "wiki_env \<Rightarrow> path \<Rightarrow> string \<Rightarrow> dict \<Rightarrow> string \<Rightarrow> parsed_page" where
  "build_page env ps raw md body =
     (let stem = take (length (last ps) - 3) (last ps);
          default_key = normalize_page_key (join ''/'' (butlast ps @ [stem]))
      in \<lparr>pp_key = normalize_page_key (py_str (py_or (dget ''page_key'' md) (py_or (dget ''id'' md) (JStr default_key)))),
          pp_title = py_strip (py_str (py_or (dget ''title'' md)
            (py_or (opt_json JStr (first_heading body)) (JStr stem)))),
          pp_type = str_or (py_strip (py_str (py_or (dget ''type'' md) (py_or (dget ''page_type'' md) (JStr ''note''))))) ''note'',
          pp_path = join ''/'' ps,
          pp_summary = py_strip (dstr_or ''summary'' (summary_from_body body) md),
          pp_body = body,
          pp_aliases = listify (dget ''aliases'' md),
          pp_tags = listify (dget ''tags'' md),
          pp_confidence = page_confidence md,
          pp_claims = json_dicts (dget ''claims'' md),
          pp_source_refs = json_dicts (py_or (dget ''source_refs'' md) (dget ''evidence'' md)),
          pp_stale_after = parse_datetime (py_or (dget ''stale_after'' md) (dget ''expires_at'' md)),
          pp_metadata = md,
          pp_checksum = wk_sha env raw,
          pp_links = page_links body\<rparr>)"

definition parse_markdown_page :: "wiki_env \<Rightarrow> fs \<Rightarrow> path \<Rightarrow> exc + parsed_page" where
  "parse_markdown_page env fs ps = (case read_file fs ps of
     Inl e \<Rightarrow> Inl e
   | Inr raw \<Rightarrow> (case wiki_frontmatter env raw of
       Inl e \<Rightarrow> Inl e | Inr (md, body) \<Rightarrow> Inr (build_page env ps raw md body)))"

definition wiki_scan :: "wiki_env \<Rightarrow> fs \<Rightarrow> exc + parsed_page list" where
  "wiki_scan env fs = op_traverse (parse_markdown_page env fs) (markdown_paths fs)"

section \<open>The error book\<close>

text \<open>\<open>_error\<close> makes a row that is not in the table yet; \<open>db.add\<close> gives it its identifier and time.\<close>

definition new_error :: "string \<Rightarrow> string \<Rightarrow> string \<Rightarrow> string \<Rightarrow> dict \<Rightarrow> wiki_error" where
  "new_error error_type page_key root_cause cst payload =
     \<lparr>we_id = '''', we_type = error_type, we_page_key = page_key, we_root_cause = root_cause, we_constraint = cst,
      we_constraint_rule = dstr_or ''constraint_rule'' cst payload,
      we_verification = dstr_or ''verification_method'' ''Run wiki lint/compile and answer the associated retrieval probe.'' payload,
      we_source_refs = list_or_empty (dget ''source_refs'' payload), we_lifecycle = ''open'', we_status = ''open'',
      we_payload = payload, we_created_at = 0, we_fixed_at = None\<rparr>"

definition add_error :: "wiki_env \<Rightarrow> wiki_error \<Rightarrow> world \<Rightarrow> world" where
  "add_error env e w = w\<lparr>wiki_error_book := wiki_error_book w @
     [e\<lparr>we_id := wk_error_id env (length (wiki_error_book w)), we_created_at := wk_now env\<rparr>]\<rparr>"

definition fixed_error :: "instant \<Rightarrow> wiki_error \<Rightarrow> wiki_error" where
  "fixed_error now e = e\<lparr>we_status := ''fixed'', we_lifecycle := ''fixed'', we_fixed_at := Some now\<rparr>"

definition close_errors :: "wiki_env \<Rightarrow> string list \<Rightarrow> world \<Rightarrow> world" where
  "close_errors env types w = w\<lparr>wiki_error_book :=
     map (\<lambda>e. if we_type e \<in> set types \<and> we_status e = ''open'' then fixed_error (wk_now env) e else e)
       (wiki_error_book w)\<rparr>"

text \<open>Newest first; rows of one time stay in the order they were added.\<close>

definition error_book :: "string \<Rightarrow> int \<Rightarrow> world \<Rightarrow> wiki_error list" where
  "error_book status limit w =
     take (clamp_limit 500 limit) (sort_key (\<lambda>e. - we_created_at e)
       (filter (\<lambda>e. status = [] \<or> we_status e = status) (wiki_error_book w)))"

definition error_summary :: "wiki_error \<Rightarrow> dict" where
  "error_summary e =
     [(''id'', JStr (we_id e)), (''error_type'', JStr (we_type e)), (''page_key'', JStr (we_page_key e)),
      (''root_cause'', JStr (we_root_cause e)), (''constraint'', JStr (we_constraint e)),
      (''constraint_rule'', JStr (we_constraint_rule e)), (''verification_method'', JStr (we_verification e)),
      (''source_refs'', JList (we_source_refs e)), (''payload'', JObj (we_payload e))]"

section \<open>The full-text index\<close>

definition wiki_status_dict :: "string \<Rightarrow> bool \<Rightarrow> int \<Rightarrow> dict" where
  "wiki_status_dict backend available indexed =
     [(''backend'', JStr backend), (''available'', JBool available), (''indexed_pages'', JInt indexed),
      (''fallback'', JBool (\<not> available))]"

definition wiki_postgres_fts_status :: "wiki_env \<Rightarrow> world \<Rightarrow> dict" where
  "wiki_postgres_fts_status env w = (case wfe_pg_status (wk_fts env) w of
     Inl e \<Rightarrow> wiki_status_dict ''postgresql'' False 0 @ [(''error'', JStr (exc_str e))]
   | Inr (available, indexed) \<Rightarrow> wiki_status_dict ''postgresql'' available (if available then indexed else 0))"

definition wiki_fts_row_of :: "parsed_page \<Rightarrow> wiki_fts_row" where
  "wiki_fts_row_of p = \<lparr>wfts_page_key = pp_key p, wfts_title = pp_title p, wfts_summary = pp_summary p, wfts_body = pp_body p,
     wfts_aliases = join '' '' (pp_aliases p), wfts_tags = join '' '' (pp_tags p), wfts_path = pp_path p,
     wfts_page_type = pp_type p\<rparr>"

definition refresh_wiki_sqlite_fts :: "wiki_env \<Rightarrow> parsed_page list \<Rightarrow> world \<Rightarrow> dict \<times> world" where
  "refresh_wiki_sqlite_fts env pages w = (case wfe_create (wk_fts env) of
     Some e \<Rightarrow>
       (wiki_status_dict ''sqlite'' False 0 @ [(''error'', JStr (exc_str e))],
        emit_warning (wk_events env) ''wiki.fts.refresh_failed''
          [(''backend'', JStr ''sqlite''), (''error'', JStr (exc_str e))] w)
   | None \<Rightarrow> (wiki_status_dict ''sqlite'' True (int (length pages)), w\<lparr>wiki_pages_fts := Some (map wiki_fts_row_of pages)\<rparr>))"

text \<open>\<open>pages or self.scan()\<close>: without pages the files are parsed again, which may raise.\<close>

definition wiki_refresh_fts :: "wiki_env \<Rightarrow> parsed_page list \<Rightarrow> dict op" where
  "wiki_refresh_fts env pages w =
     (let backend = wfe_backend (wk_fts env)
      in if backend = ''sqlite'' then
           (case (if pages \<noteq> [] then Inr pages else wiki_scan env (wiki_fs w)) of
              Inl e \<Rightarrow> (Inl e, w)
            | Inr ps \<Rightarrow> (case refresh_wiki_sqlite_fts env ps w of (d, w1) \<Rightarrow> (Inr d, w1)))
         else if backend = ''postgresql'' then (Inr (wiki_postgres_fts_status env w), w)
         else (Inr (wiki_status_dict backend False 0), w))"

definition wiki_fts_status :: "wiki_env \<Rightarrow> world \<Rightarrow> dict" where
  "wiki_fts_status env w =
     (let backend = wfe_backend (wk_fts env)
      in if backend = ''sqlite'' then
           (case wiki_pages_fts w of None \<Rightarrow> wiki_status_dict ''sqlite'' False 0
            | Some rows \<Rightarrow> wiki_status_dict ''sqlite'' True (int (length rows)))
         else if backend = ''postgresql'' then wiki_postgres_fts_status env w
         else wiki_status_dict backend False 0)"

section \<open>Compiling\<close>

text \<open>The first loop: pages that parse and have a new key, the reported errors, and the rows for the error book.\<close>

fun collect_pages ::
  "wiki_env \<Rightarrow> fs \<Rightarrow> string list \<Rightarrow> path list \<Rightarrow> parsed_page list \<times> dict list \<times> wiki_error list" where
  "collect_pages env fs seen [] = ([], [], [])"
| "collect_pages env fs seen (ps # rest) =
     (let rel = join ''/'' ps
      in case parse_markdown_page env fs ps of
           Inl e \<Rightarrow>
             (case collect_pages env fs seen rest of (pages, errors, rows) \<Rightarrow>
                (pages, [(''type'', JStr ''parse_error''), (''path'', JStr rel), (''message'', JStr (exc_str e))] # errors,
                 new_error ''compile_error'' rel (exc_str e)
                   ''Fix Markdown frontmatter/body so the compiler can parse this source.'' [(''path'', JStr rel)] # rows))
         | Inr p \<Rightarrow>
             if pp_key p \<in> set seen then
               (case collect_pages env fs seen rest of (pages, errors, rows) \<Rightarrow>
                  (pages, [(''type'', JStr ''duplicate_page_key''), (''path'', JStr rel), (''page_key'', JStr (pp_key p))] # errors,
                   new_error ''duplicate_page_key'' (pp_key p) (''Duplicate page_key declared by '' @ rel)
                     ''Give each Markdown Wiki page a unique page_key.'' [(''path'', JStr rel)] # rows))
             else
               (case collect_pages env fs (pp_key p # seen) rest of (pages, errors, rows) \<Rightarrow> (p # pages, errors, rows)))"

definition known_of_page :: "parsed_page \<Rightarrow> (string \<times> string) list \<Rightarrow> (string \<times> string) list" where
  "known_of_page p known =
     put_assoc (normalize_page_key (pp_title p)) (pp_key p)
       (fold (\<lambda>a. put_assoc (normalize_page_key a) (pp_key p)) (pp_aliases p) (put_assoc (pp_key p) (pp_key p) known))"

definition known_keys :: "parsed_page list \<Rightarrow> (string \<times> string) list" where
  "known_keys pages = fold known_of_page pages []"

definition source_of_page :: "wiki_env \<Rightarrow> parsed_page \<Rightarrow> wiki_source" where
  "source_of_page env p = \<lparr>wsrc_key = pp_path p, wsrc_kind = ''markdown'', wsrc_uri = path_str (wk_root env) @ ''/'' @ pp_path p,
     wsrc_checksum = pp_checksum p, wsrc_metadata = [(''page_key'', JStr (pp_key p))]\<rparr>"

definition row_of_page :: "parsed_page \<Rightarrow> wiki_page" where
  "row_of_page p = \<lparr>wpg_key = pp_key p, wpg_title = pp_title p, wpg_type = pp_type p, wpg_path = pp_path p,
     wpg_summary = pp_summary p, wpg_body = pp_body p, wpg_aliases = pp_aliases p, wpg_tags = pp_tags p,
     wpg_confidence = pp_confidence p, wpg_claims = pp_claims p, wpg_source_refs = pp_source_refs p,
     wpg_stale_after = pp_stale_after p, wpg_checksum = pp_checksum p, wpg_metadata = pp_metadata p\<rparr>"

definition upsert :: "('r \<Rightarrow> 'k) \<Rightarrow> 'r \<Rightarrow> 'r list \<Rightarrow> 'r list" where
  "upsert key r rs = (if get_row key (key r) rs = None then rs @ [r] else upd_row key (key r) (\<lambda>_. r) rs)"

definition link_row :: "wiki_env \<Rightarrow> (string \<times> string) list \<Rightarrow> string \<Rightarrow> string \<times> string \<Rightarrow> wiki_link" where
  "link_row env known src = (\<lambda>(target, anchor).
     let resolved = (case map_of known target of None \<Rightarrow> [] | Some k \<Rightarrow> k)
     in \<lparr>wl_src = src, wl_dst = str_or resolved target, wl_type = ''wikilink'',
         wl_status = (if resolved \<noteq> [] then ''resolved'' else ''unresolved''), wl_anchor = anchor,
         wl_metadata = [(''raw_target'', JStr target)], wl_created_at = wk_now env\<rparr>)"

definition dangling_error :: "string \<Rightarrow> string \<times> string \<Rightarrow> wiki_error" where
  "dangling_error src = (\<lambda>(target, anchor).
     new_error ''dangling_link'' src (''Unresolved wiki link: '' @ target)
       ''Create the target page or add an alias/page_key matching the link.''
       [(''target'', JStr target), (''anchor'', JStr anchor)])"

definition add_link :: "wiki_env \<Rightarrow> (string \<times> string) list \<Rightarrow> string \<Rightarrow> string \<times> string \<Rightarrow> world \<Rightarrow> world" where
  "add_link env known src l w =
     (let row = link_row env known src l; w1 = w\<lparr>wiki_links := wiki_links w @ [row]\<rparr>
      in if wl_status row = ''resolved'' then w1 else add_error env (dangling_error src l) w1)"

definition store_page :: "wiki_env \<Rightarrow> (string \<times> string) list \<Rightarrow> parsed_page \<Rightarrow> world \<Rightarrow> world" where
  "store_page env known p w =
     fold (add_link env known (pp_key p)) (pp_links p)
       (w\<lparr>wiki_sources := upsert wsrc_key (source_of_page env p) (wiki_sources w),
          wiki_pages := upsert wpg_key (row_of_page p) (wiki_pages w)\<rparr>)"

text \<open>The rows of vanished pages and sources are deleted only when nothing failed.\<close>

definition delete_stale :: "parsed_page list \<Rightarrow> string list \<Rightarrow> world \<Rightarrow> world" where
  "delete_stale pages source_keys w =
     w\<lparr>wiki_pages := filter (\<lambda>r. wpg_key r \<in> pp_key ` set pages) (wiki_pages w),
       wiki_sources := filter (\<lambda>r. wsrc_key r \<in> set source_keys) (wiki_sources w)\<rparr>"

definition store_pages :: "wiki_env \<Rightarrow> world \<Rightarrow> (parsed_page list \<times> dict list \<times> string list) \<times> world" where
  "store_pages env w =
     (let paths = markdown_paths (wiki_fs w); source_keys = map (join ''/'') paths
      in case collect_pages env (wiki_fs w) [] paths of (pages, errors, rows) \<Rightarrow>
           let w1 = close_errors env [''dangling_link'', ''compile_error'', ''duplicate_page_key''] (w\<lparr>wiki_links := []\<rparr>);
               w2 = fold (add_error env) rows w1;
               w3 = (if errors = [] then delete_stale pages source_keys w2 else w2)
           in ((pages, errors, source_keys), fold (store_page env (known_keys pages)) pages w3))"

definition start_compile_run :: "wiki_env \<Rightarrow> world \<Rightarrow> world" where
  "start_compile_run env w = w\<lparr>wiki_compile_runs := wiki_compile_runs w @
     [\<lparr>wcr_status = ''running'', wcr_pages_seen = 0, wcr_pages_indexed = 0, wcr_errors = 0, wcr_payload = [],
       wcr_started_at = wk_now env, wcr_finished_at = None\<rparr>]\<rparr>"

definition compile_wiki :: "wiki_env \<Rightarrow> dict op" where
  "compile_wiki env w =
     (let n = length (wiki_compile_runs w)
      in case store_pages env (start_compile_run env w) of ((pages, errors, source_keys), w1) \<Rightarrow>
           op_bind (if errors = [] then wiki_refresh_fts env pages
                    else op_ok (wiki_status_dict (wfe_backend (wk_fts env)) False 0 @ [(''skipped'', JStr ''compile_error'')]))
             (\<lambda>fts w2.
               let status = (if errors = [] then ''ok'' else ''error'');
                   payload = [(''root'', JStr (path_str (wk_root env))), (''errors'', JList (map JObj errors)),
                              (''index'', JStr ''page_mirror''), (''fts'', JObj fts)];
                   run = \<lparr>wcr_status = status, wcr_pages_seen = int (length (remdups source_keys)),
                          wcr_pages_indexed = int (length pages), wcr_errors = int (length errors), wcr_payload = payload,
                          wcr_started_at = wk_now env, wcr_finished_at = Some (wk_now env)\<rparr>
               in (Inr [(''status'', JStr status), (''pages_seen'', JInt (wcr_pages_seen run)),
                        (''pages_indexed'', JInt (wcr_pages_indexed run)), (''errors'', JInt (wcr_errors run)),
                        (''fts'', JObj fts), (''llm_wiki'', JObj (wiki_shape (wiki_fs w2)))],
                   emit_full (wk_events env) ''wiki.compile'' payload (if errors = [] then ''info'' else ''warning'') '''' ''''
                     (w2\<lparr>wiki_compile_runs := (wiki_compile_runs w2)[n := run]\<rparr>))) w1)"

section \<open>Changing files\<close>

text \<open>Paths of a proposal are relative and have no \<open>..\<close>; \<open>as_posix\<close> of no components is a dot.\<close>

definition proposal_path :: "dict \<Rightarrow> string \<Rightarrow> exc + path" where
  "proposal_path payload df =
     (let raw0 = dstr_or ''path'' df payload; key = normalize_page_key (dstr ''page_key'' payload);
          raw = (if raw0 \<noteq> [] then raw0 else if key \<noteq> [] then key @ ''.md'' else [])
      in if raw = [] \<or> is_absolute raw \<or> ''..'' \<in> set (path_parts raw)
         then Inl (ValueError ''wiki proposal requires a safe relative path'') else Inr (path_parts raw))"

definition as_posix :: "path \<Rightarrow> string" where
  "as_posix ps = (if ps = [] then ''.'' else join ''/'' ps)"

definition read_path :: "fs \<Rightarrow> path \<Rightarrow> exc + string" where
  "read_path fs ps = (if path_exists fs ps then read_file fs ps else Inr [])"

definition write_path :: "path \<Rightarrow> string \<Rightarrow> unit op" where
  "write_path ps c w =
     (if ps = [] then (Inl (OtherError ''Is a directory''), w)
      else case write_file ps c (wiki_fs w) of Inl e \<Rightarrow> (Inl e, w) | Inr fs \<Rightarrow> (Inr (), w\<lparr>wiki_fs := fs\<rparr>))"

definition append_log :: "wiki_env \<Rightarrow> string \<Rightarrow> string \<Rightarrow> unit op" where
  "append_log env entry actor w =
     (if py_strip entry = [] then (Inr (), w)
      else let old = (case map_of (wiki_fs w) ''log.md'' of None \<Rightarrow> [] | Some s \<Rightarrow> s)
        in write_path [''log.md'']
             (old @ [newline] @ ''- '' @ isoformat (wk_now env) @ '' ['' @ actor @ ''] '' @ py_strip entry @ [newline]) w)"

text \<open>\<open>os.rename\<close> onto a path below the root, the source given by its absolute path: a file replaces a file; a
  directory moves with everything below it.\<close>

definition put_at :: "path \<Rightarrow> string \<Rightarrow> fs \<Rightarrow> exc + fs" where
  "put_at dst c fs = (if is_dir fs dst then Inl (OtherError ''Is a directory'') else Inr (put_assoc (join ''/'' dst) c fs))"

definition move_below :: "path \<Rightarrow> path \<Rightarrow> fs \<Rightarrow> fs" where
  "move_below src dst fs = map (\<lambda>(p, c). let ps = split_on CHR ''/'' p
     in (if prefix src ps then join ''/'' (dst @ drop (length src) ps) else p, c)) fs"

definition rename_to :: "wiki_env \<Rightarrow> path \<Rightarrow> path \<Rightarrow> fs \<Rightarrow> exc + fs" where
  "rename_to env from_path dst fs =
     (let src = drop (length (wk_root env)) from_path
      in if prefix (wk_root env) from_path then
           (if is_file fs src then
              (if src = dst then Inr fs
               else put_at dst (the (map_of fs (join ''/'' src))) (filter (\<lambda>(p, _). p \<noteq> join ''/'' src) fs))
            else if is_dir fs src then
              (if prefix src dst then Inl (OtherError ''Invalid argument'')
               else if is_file fs dst then Inl (OtherError ''Not a directory'')
               else if is_dir fs dst then Inl (OtherError ''Directory not empty'')
               else Inr (move_below src dst fs))
            else Inl (OtherError ''No such file or directory''))
         else (case wk_outside env from_path of
             None \<Rightarrow> Inl (OtherError ''No such file or directory'')
           | Some c \<Rightarrow> put_at dst c fs))"

text \<open>\<open>path.rename(archive_path)\<close>: \<open>path\<close> is the relative path of the proposal, so the source is below the working
  directory of the process, not below the root.\<close>

definition archive_file :: "wiki_env \<Rightarrow> path \<Rightarrow> unit op" where
  "archive_file env ps w =
     (if is_file (wiki_fs w) [''_archive''] then (Inl (OtherError ''File exists''), w)
      else case rename_to env (wk_cwd env @ ps) [''_archive'', last ps] (wiki_fs w) of
        Inl e \<Rightarrow> (Inl e, w)
      | Inr fs \<Rightarrow> (Inr (), w\<lparr>wiki_fs := fs\<rparr>))"

section \<open>Applying a proposal\<close>

definition snapshot_before :: "path \<Rightarrow> string \<Rightarrow> dict" where
  "snapshot_before ps content = [(''path'', JStr (as_posix ps)), (''content'', JStr content)]"

text \<open>The change an action makes: the snapshot before and the path that changed.\<close>

definition proposal_change :: "wiki_env \<Rightarrow> evolution_proposal \<Rightarrow> string \<Rightarrow> (dict \<times> string) op" where
  "proposal_change env p actor w =
     (let payload = ep_payload p; action = ep_action p
      in if action \<in> {''create_page'', ''update_page'', ''fix_link'', ''update_index''} then
           (case proposal_path payload (if action = ''update_index'' then ''index.md'' else '''') of
              Inl e \<Rightarrow> (Inl e, w)
            | Inr ps \<Rightarrow> (case read_path (wiki_fs w) ps of
                Inl e \<Rightarrow> (Inl e, w)
              | Inr content \<Rightarrow> op_bind (write_path ps (dstr ''content'' payload))
                  (\<lambda>_. op_ok (snapshot_before ps content, as_posix ps)) w))
         else if action = ''archive_page'' then
           (case proposal_path payload '''' of
              Inl e \<Rightarrow> (Inl e, w)
            | Inr ps \<Rightarrow> (case read_path (wiki_fs w) ps of
                Inl e \<Rightarrow> (Inl e, w)
              | Inr content \<Rightarrow> op_bind (archive_file env ps)
                  (\<lambda>_. op_ok (snapshot_before ps content, ''_archive/'' @ last ps)) w))
         else
           (case read_path (wiki_fs w) [''log.md''] of
              Inl e \<Rightarrow> (Inl e, w)
            | Inr content \<Rightarrow> op_bind (append_log env (dstr ''entry'' payload) actor)
                (\<lambda>_. op_ok (snapshot_before [''log.md''] content, ''log.md'')) w))"

definition wiki_apply_proposal :: "wiki_env \<Rightarrow> uuid \<Rightarrow> string \<Rightarrow> uuid op" where
  "wiki_apply_proposal env pid actor w = (case get_row ep_id pid (evolution_proposals w) of
     None \<Rightarrow> (Inl (KeyError (''proposal not found: '' @ pid)), w)
   | Some p \<Rightarrow>
       if ep_status p \<notin> {''pending'', ''approved''} then (Inl (ValueError (''proposal is not applyable: '' @ ep_status p)), w)
       else if ep_target_type p \<noteq> ''wiki'' then (Inl (ValueError ''only wiki proposals are applyable here''), w)
       else if ep_action p \<notin> set WIKI_PROPOSAL_ACTIONS
       then (Inl (ValueError (''unsupported wiki proposal action: '' @ ep_action p)), w)
       else op_bind (proposal_change env p actor) (\<lambda>(before, changed).
         op_bind (append_log env (''Applied wiki proposal '' @ pid @ '': '' @ ep_action p @ '' '' @ changed) actor) (\<lambda>_.
         op_bind (compile_wiki env) (\<lambda>compiled w1.
           (Inr pid,
            audit (wk_events env) ''wiki.proposal.apply'' ''evolution_proposal'' pid
              [(''action'', JStr (ep_action p)), (''changed'', JStr changed), (''actor'', JStr actor)]
            (emit (wk_events env) ''wiki.proposal.applied'' [(''proposal_id'', JStr pid), (''action'', JStr (ep_action p))]
            (put_proposal pid (\<lambda>q. q\<lparr>ep_status := ''applied'', ep_before_snapshot := before,
               ep_after_snapshot := [(''changed'', JStr changed), (''compile'', JObj compiled)],
               ep_result := [(''ok'', JBool True), (''action'', JStr (ep_action p)), (''changed'', JStr changed), (''actor'', JStr actor)],
               ep_applied_at := Some (wk_now env)\<rparr>) w1)))))) w)"

end
