(* ===== verification/Wiki_Service.thy ===== *)
theory Wiki_Service
  imports Wiki
begin

text \<open>
  The wiki as a service: retrieval (search, routing, browsing, link following, sufficiency of evidence),
  linting, quality figures and repair of \<open>backend/domain/wiki.py\<close>. The Chinese terms of the routing vocabulary
  have code points above 255 and never match in the model.
\<close>

section \<open>Text matching\<close>

definition BROWSE_FIRST_TERMS :: "string list" where
  "BROWSE_FIRST_TERMS = [''all'', ''catalog'', ''directory'', ''index'', ''list'', ''map'', ''overview'', ''schema'']"

definition BRIDGE_TERMS :: "string list" where
  "BRIDGE_TERMS = [''compare'', ''compose'', ''connect'', ''difference'', ''relationship'', ''tradeoff'', ''why'']"

definition STOPWORDS :: "string list" where
  "STOPWORDS = [''a'', ''an'', ''and'', ''are'', ''as'', ''for'', ''how'', ''in'', ''is'', ''of'', ''or'', ''the'', ''to'', ''what'', ''with'']"

definition LOW_RISK_REPAIR_TYPES :: "string list" where
  "LOW_RISK_REPAIR_TYPES = [''missing_canonical_file'', ''missing_index_entry'', ''orphan_page'']"

definition HIGH_RISK_REPAIR_TYPES :: "string list" where
  "HIGH_RISK_REPAIR_TYPES = [''broken_link'', ''contested_claim'', ''dangling_link'', ''duplicate_page_key'',
     ''insufficient_evidence'', ''low_confidence'', ''source_drift'', ''stale_page'']"

definition query_tokens :: "string \<Rightarrow> string list" where
  "query_tokens value =
     (let ends = (\<lambda>c. c \<in> {CHR ''-'', CHR ''_'', CHR ''/''});
          ts = findall_runs (\<lambda>c. is_alnum c \<or> c \<in> {CHR ''_'', CHR ''-'', CHR ''/''}) (py_lower value)
      in map (strip_of ends) (filter (\<lambda>t. length (strip_of ends t) > 1 \<and> t \<notin> set STOPWORDS) ts))"

definition field_contains :: "string \<Rightarrow> string \<Rightarrow> string list \<Rightarrow> bool" where
  "field_contains field query ts =
     (let lowered = py_lower field
      in (query \<noteq> [] \<and> py_in (py_lower query) lowered) \<or> list_ex (\<lambda>t. py_in t lowered) ts)"

definition wiki_snippet :: "string \<Rightarrow> string \<Rightarrow> nat \<Rightarrow> string" where
  "wiki_snippet value query limit =
     (let compact = py_strip (collapse_ws value)
      in if compact = [] then []
         else let needles = filter (\<lambda>t. t \<noteq> []) (py_lower query # query_tokens query);
                  start = (case List.map_filter (\<lambda>t. find_sub t (py_lower compact)) needles of [] \<Rightarrow> 0 | i # _ \<Rightarrow> i - 70)
              in (if start > 0 then ''...'' else '''') @ py_strip (take limit (drop start compact)) @
                 (if start + limit < length compact then ''...'' else ''''))"

definition wiki_safe_fts_query :: "string \<Rightarrow> string" where
  "wiki_safe_fts_query value =
     (if query_tokens value = [] then
        (let cleaned = py_strip (replace_char (CHR 0x22) '' '' value)
         in if cleaned = [] then [] else [CHR 0x22] @ cleaned @ [CHR 0x22])
      else join '' OR '' (map (\<lambda>t. [CHR 0x22] @ replace_char (CHR 0x22) '' '' t @ [CHR 0x22]) (query_tokens value)))"

section \<open>Reading\<close>

definition list_pages :: "int \<Rightarrow> world \<Rightarrow> wiki_page list" where
  "list_pages limit w = take (clamp_limit 1000 limit) (sort_key wpg_key (wiki_pages w))"

definition read_page :: "string \<Rightarrow> world \<Rightarrow> wiki_page option" where
  "read_page page_key w = get_row wpg_key (normalize_page_key page_key) (wiki_pages w)"

definition page_summary :: "wiki_page option \<Rightarrow> json" where
  "page_summary p = (case p of
     None \<Rightarrow> JNull
   | Some r \<Rightarrow> JObj [(''page_key'', JStr (wpg_key r)), (''title'', JStr (wpg_title r)), (''page_type'', JStr (wpg_type r)),
       (''path'', JStr (wpg_path r)), (''summary'', JStr (wpg_summary r))])"

definition page_conf :: "wiki_page \<Rightarrow> rat" where
  "page_conf p = clamp (Fin (wpg_confidence p))"

definition linked_rows :: "string \<Rightarrow> string \<Rightarrow> int \<Rightarrow> world \<Rightarrow> wiki_link list" where
  "linked_rows key direction limit w =
     take (clamp_limit 200 limit) (sort_key (\<lambda>l. - wl_created_at l)
       (filter (\<lambda>l. ((direction \<in> {''out'', ''both''} \<and> wl_src l = key) \<or> (direction \<in> {''in'', ''both''} \<and> wl_dst l = key))
                    \<and> wl_status l = ''resolved'') (wiki_links w)))"

definition follow_links :: "string \<Rightarrow> string \<Rightarrow> int \<Rightarrow> world \<Rightarrow> exc + dict list" where
  "follow_links page_key direction limit w =
     (let key = normalize_page_key page_key
      in if direction \<notin> {''out'', ''in'', ''both''} then Inl (ValueError ''direction must be out, in, or both'')
         else Inr (map (\<lambda>l. let out = (wl_src l = key)
           in [(''src_page_key'', JStr (wl_src l)), (''dst_page_key'', JStr (wl_dst l)), (''anchor_text'', JStr (wl_anchor l)),
               (''direction'', JStr (if out then ''out'' else ''in'')),
               (''page'', page_summary (get_row wpg_key (if out then wl_dst l else wl_src l) (wiki_pages w)))])
           (linked_rows key direction limit w)))"

definition read_with_graph :: "string \<Rightarrow> world \<Rightarrow> (wiki_page \<times> dict list \<times> dict list) option" where
  "read_with_graph page_key w = map_option (\<lambda>p.
     (p, projr (follow_links (wpg_key p) ''out'' 50 w), projr (follow_links (wpg_key p) ''in'' 50 w))) (read_page page_key w)"

section \<open>Search\<close>

definition wiki_sqlite_search :: "wiki_env \<Rightarrow> string \<Rightarrow> nat \<Rightarrow> world \<Rightarrow> fts_hit list" where
  "wiki_sqlite_search env query limit w =
     (let q = wiki_safe_fts_query query
      in if q = [] then []
         else case wiki_pages_fts w of
           None \<Rightarrow> []
         | Some rows \<Rightarrow>
             (case wfe_match (wk_fts env) rows q limit of
                Inl _ \<Rightarrow> []
              | Inr rs \<Rightarrow> filter (\<lambda>(k, _). k \<noteq> []) (map (\<lambda>(k, raw, sn). (k, 1 / (1 + \<bar>raw\<bar>), sn)) rs)))"

definition wiki_postgres_search :: "wiki_env \<Rightarrow> string \<Rightarrow> nat \<Rightarrow> world \<Rightarrow> fts_hit list" where
  "wiki_postgres_search env query limit w =
     (case wfe_pg_search (wk_fts env) w query limit of Inl _ \<Rightarrow> [] | Inr rs \<Rightarrow> filter (\<lambda>(k, _). k \<noteq> []) rs)"

definition wiki_fts_search :: "wiki_env \<Rightarrow> string \<Rightarrow> nat \<Rightarrow> world \<Rightarrow> fts_hit list" where
  "wiki_fts_search env query limit w =
     (let backend = wfe_backend (wk_fts env)
      in if py_strip query = [] then []
         else if backend = ''sqlite'' then wiki_sqlite_search env query limit w
         else if backend = ''postgresql'' then wiki_postgres_search env query limit w else [])"

definition page_fields :: "wiki_page \<Rightarrow> (string \<times> string) list" where
  "page_fields p =
     [(''page_key'', wpg_key p), (''title'', wpg_title p), (''summary'', wpg_summary p), (''body'', wpg_body p),
      (''path'', wpg_path p), (''page_type'', wpg_type p), (''aliases'', join '' '' (wpg_aliases p)),
      (''tags'', join '' '' (wpg_tags p))]"

definition page_has_text_match :: "wiki_page \<Rightarrow> string \<Rightarrow> string list \<Rightarrow> bool" where
  "page_has_text_match p query ts = list_ex (\<lambda>(_, v). field_contains v query ts) (page_fields p)"

definition has_path_prefix :: "string \<Rightarrow> wiki_page \<Rightarrow> bool" where
  "has_path_prefix pre p =
     (startswith (strip_of (\<lambda>c. c = CHR ''/'') (wpg_path p)) pre \<or> startswith (wpg_key p) pre)"

definition clean_prefix :: "string \<Rightarrow> string" where
  "clean_prefix s = strip_of (\<lambda>c. c = CHR ''/'') (py_strip s)"

definition candidate_pages :: "string \<Rightarrow> string \<Rightarrow> string list \<Rightarrow> nat \<Rightarrow> world \<Rightarrow> wiki_page list" where
  "candidate_pages query path_prefix page_keys limit w =
     (let listed = list_pages (int (max limit 1000)) w;
          missing = filter (\<lambda>p. wpg_key p \<in> set page_keys \<and> wpg_key p \<noteq> [] \<and> wpg_key p \<notin> wpg_key ` set listed) (wiki_pages w);
          pre = clean_prefix path_prefix;
          pages = filter (\<lambda>p. pre = [] \<or> has_path_prefix pre p) (listed @ missing)
      in if py_strip query = [] then take limit pages
         else take limit (filter (\<lambda>p. wpg_key p \<in> set page_keys \<or> page_has_text_match p query (query_tokens query)) pages))"

definition link_counts :: "world \<Rightarrow> string \<Rightarrow> int \<times> int" where
  "link_counts w k =
     (let ls = filter (\<lambda>l. wl_status l = ''resolved'') (wiki_links w)
      in (int (length (filter (\<lambda>l. wl_dst l = k) ls)), int (length (filter (\<lambda>l. wl_src l = k) ls))))"

definition field_weights :: "(string \<times> rat) list" where
  "field_weights = [(''page_key'', 4), (''title'', 16 / 5), (''aliases'', 14 / 5), (''tags'', 12 / 5), (''path'', 8 / 5),
     (''summary'', 7 / 5), (''page_type'', 1), (''body'', 4 / 5)]"

definition sorted_set :: "string list \<Rightarrow> string list" where
  "sorted_set xs = sort (remdups xs)"

definition score_page :: "wiki_page \<Rightarrow> string \<Rightarrow> string list \<Rightarrow> rat \<Rightarrow> int \<times> int \<Rightarrow> rat \<times> string list \<times> string list" where
  "score_page p query ts fts_rank counts =
     (if py_strip query = [] then (page_conf p, [], [''recent_or_index_listing''])
      else
        let nq = normalize_page_key query; lq = py_lower query;
            exact = [(nq \<noteq> [] \<and> wpg_key p = nq, 9, ''page_key'', ''exact_page_key''),
                     (lq \<noteq> [] \<and> py_lower (wpg_title p) = lq, 8, ''title'', ''exact_title''),
                     (list_ex (\<lambda>a. normalize_page_key a = nq) (wpg_aliases p), 7, ''aliases'', ''exact_alias''),
                     (list_ex (\<lambda>t. py_lower t = lq) (wpg_tags p), 11 / 2, ''tags'', ''exact_tag'')];
            hit = filter fst exact;
            matched = filter (\<lambda>(f, v). field_contains v query ts) (page_fields p);
            inbound = fst counts; outbound = snd counts;
            score = sum_list (map (\<lambda>(_, x, _, _). x) hit)
              + sum_list (map (\<lambda>(f, _). the (map_of field_weights f)) matched)
              + (if fts_rank \<noteq> 0 then min 3 (fts_rank * 3) else 0)
              + (if inbound \<noteq> 0 then min 1 (of_int inbound / 5) else 0)
              + (if outbound \<noteq> 0 then min (1 / 2) (of_int outbound / 10) else 0)
              + page_conf p
        in (round_to 4 score,
            sorted_set (map (\<lambda>(_, _, f, _). f) hit @ map fst matched),
            sorted_set (map (\<lambda>(_, _, _, r). r) hit @ map (\<lambda>(f, _). f @ ''_match'') matched
              @ (if fts_rank \<noteq> 0 then [''fts_match''] else []) @ (if inbound \<noteq> 0 then [''backlinked''] else []))))"

definition page_snippet :: "wiki_page \<Rightarrow> string \<Rightarrow> string" where
  "page_snippet p query =
     str_or (wiki_snippet (wpg_summary p) query 260) (str_or (wiki_snippet (wpg_body p) query 260) (take 260 (wpg_summary p)))"

definition next_actions_for_search_hit :: "wiki_page \<Rightarrow> string \<Rightarrow> bool \<Rightarrow> string list" where
  "next_actions_for_search_hit p strategy constrained =
     [''wiki_read''] @ (if strategy = ''bridge'' \<or> constrained then [''wiki_follow_links''] else [])
       @ (if page_conf p < 1 / 2 \<or> constrained then [''wiki_sufficiency_check''] else [])"

definition constraints_for_pages :: "string list \<Rightarrow> world \<Rightarrow> dict list" where
  "constraints_for_pages page_keys w =
     (let keys = set (map normalize_page_key (filter (\<lambda>k. py_strip k \<noteq> []) page_keys))
      in if keys = {} then []
         else map error_summary (filter (\<lambda>e. normalize_page_key (we_page_key e) \<in> keys) (error_book ''open'' 200 w)))"

record wiki_hit =
  wh_score :: rat
  wh_source :: string
  wh_page :: wiki_page
  wh_reasons :: "string list"
  wh_fields :: "string list"
  wh_snippet :: string
  wh_actions :: "string list"
  wh_constraints :: "dict list"

definition rank_page ::
  "string \<Rightarrow> string \<Rightarrow> bool \<Rightarrow> (string \<times> fts_hit) list \<Rightarrow> world \<Rightarrow> wiki_page \<Rightarrow> wiki_hit option" where
  "rank_page query strategy include_constraints hits w p =
     (let hit = map_of hits (wpg_key p);
          rank = (case hit of None \<Rightarrow> 0 | Some (_, r, _) \<Rightarrow> r)
      in case score_page p query (query_tokens query) rank (link_counts w (wpg_key p)) of (score, matched, reasons) \<Rightarrow>
           if query \<noteq> [] \<and> score \<le> 0 \<and> hit = None then None
           else let cs = (if include_constraints then constraints_for_pages [wpg_key p] w else [])
             in Some \<lparr>wh_score = score, wh_source = (if hit \<noteq> None then ''wiki_fts'' else ''page_index''), wh_page = p,
                  wh_reasons = reasons, wh_fields = matched,
                  wh_snippet = str_or (case hit of None \<Rightarrow> [] | Some (_, _, sn) \<Rightarrow> sn) (page_snippet p query),
                  wh_actions = next_actions_for_search_hit p strategy (cs \<noteq> []), wh_constraints = cs\<rparr>)"

definition search_wiki :: "wiki_env \<Rightarrow> string \<Rightarrow> int \<Rightarrow> string \<Rightarrow> string \<Rightarrow> bool \<Rightarrow> world \<Rightarrow> wiki_hit list" where
  "search_wiki env query0 limit0 strategy path_prefix include_constraints w =
     (let limit = clamp_limit 50 limit0; query = py_strip query0;
          hits = fold (\<lambda>(k, r, sn). put_assoc k (k, r, sn)) (wiki_fts_search env query (max (limit * 4) 20) w) [];
          pages = candidate_pages query path_prefix (map fst hits) (max (limit * 8) 200) w;
          records = List.map_filter (rank_page query strategy include_constraints hits w) pages
      in take limit (rev (sort_key (\<lambda>h. (wh_score h, page_conf (wh_page h), wpg_key (wh_page h))) (rev records))))"

definition wiki_hit_dict :: "wiki_hit \<Rightarrow> dict" where
  "wiki_hit_dict h =
     (let p = wh_page h
      in [(''score'', JFloat (wh_score h)), (''source'', JStr (wh_source h)), (''page_key'', JStr (wpg_key p)),
          (''title'', JStr (wpg_title p)), (''path'', JStr (wpg_path p)), (''summary'', JStr (wpg_summary p)),
          (''tags'', strs (wpg_tags p)), (''page_type'', JStr (wpg_type p)), (''confidence'', JFloat (page_conf p)),
          (''match_reasons'', strs (wh_reasons h)), (''matched_fields'', strs (wh_fields h)), (''snippet'', JStr (wh_snippet h)),
          (''next_actions'', strs (wh_actions h)), (''constraints'', JList (map JObj (wh_constraints h)))])"

section \<open>Routing and evidence\<close>

definition error_haystack :: "wiki_error \<Rightarrow> string" where
  "error_haystack e = py_lower (join '' '' [we_page_key e, we_type e, we_root_cause e, we_constraint e, we_constraint_rule e,
     json_dumps (JObj (we_payload e))])"

definition constraints_for_query :: "string \<Rightarrow> string list \<Rightarrow> world \<Rightarrow> dict list" where
  "constraints_for_query query page_keys w =
     take 20 (map error_summary (filter (\<lambda>e. we_page_key e \<in> set page_keys
       \<or> list_ex (\<lambda>t. py_in t (error_haystack e)) (query_tokens query)) (error_book ''open'' 100 w)))"

definition any_term :: "string list \<Rightarrow> string \<Rightarrow> bool" where
  "any_term terms lower = list_ex (\<lambda>t. py_in t lower) terms"

text \<open>Strategy, fan-in, steps and reason of a query, from its terms, the number of pages and the number of hits.\<close>

definition route_choice :: "string \<Rightarrow> int \<Rightarrow> int \<Rightarrow> string \<times> int \<times> string list \<times> string" where
  "route_choice lower pages hits =
     (if any_term BRIDGE_TERMS lower then
        (''bridge'', min 3 (max 2 (if hits \<noteq> 0 then hits else min pages 2)),
         [''wiki_orient'', ''wiki_search'', ''wiki_read'', ''wiki_follow_links'', ''wiki_sufficiency_check''],
         ''Query asks for synthesis, comparison, or relationship across Wiki pages.'')
      else if any_term BROWSE_FIRST_TERMS lower then
        (''browse_first'', min 3 (max 1 pages), [''wiki_orient'', ''wiki_browse'', ''wiki_read'', ''wiki_sufficiency_check''],
         ''Query asks for overview, directory, schema, or inventory-style knowledge.'')
      else if hits = 0 then
        (''insufficient'', 0, [''wiki_orient'', ''wiki_search'', ''wiki_sufficiency_check''],
         ''No page-level Wiki evidence matched the query.'')
      else
        (''search_first'', 1, [''wiki_orient'', ''wiki_search'', ''wiki_read'', ''wiki_sufficiency_check''],
         ''Query is focused enough for page-index search followed by page read.''))"

definition route_item :: "wiki_hit \<Rightarrow> json" where
  "route_item h = JObj [(''page_key'', JStr (wpg_key (wh_page h))), (''title'', JStr (wpg_title (wh_page h))),
     (''summary'', JStr (wpg_summary (wh_page h))), (''score'', JFloat (wh_score h)), (''match_reasons'', strs (wh_reasons h)),
     (''next_actions'', strs (wh_actions h))]"

definition route_query :: "wiki_env \<Rightarrow> string \<Rightarrow> int \<Rightarrow> world \<Rightarrow> dict" where
  "route_query env query0 limit w =
     (let query = py_strip query0; pages = list_pages 500 w
      in if query = [] \<or> pages = [] then
           [(''query'', JStr query), (''strategy'', JStr ''insufficient''), (''required_fan_in'', JInt 0),
            (''recommended_steps'', strs [''wiki_orient'']), (''reason'', JStr ''Wiki is empty or query is blank.''),
            (''items'', JList []), (''open_constraints'', JList (map JObj (constraints_for_query query [] w)))]
         else
           let hits = search_wiki env query (int (clamp_limit 50 limit)) '''' '''' True w;
               cs = constraints_for_query query (map (wpg_key \<circ> wh_page) hits) w
           in case route_choice (py_lower query) (int (length pages)) (int (length hits)) of (strategy, fan_in, steps, reason) \<Rightarrow>
                let risky = (strategy \<noteq> ''insufficient'' \<and> hits \<noteq> []
                      \<and> list_ex (\<lambda>c. dget ''error_type'' c \<in> JStr ` set HIGH_RISK_REPAIR_TYPES) cs)
                in [(''query'', JStr query), (''strategy'', JStr strategy), (''required_fan_in'', JInt fan_in),
                    (''recommended_steps'', strs (steps @ (if risky then [''wiki_follow_links''] else []))),
                    (''reason'', JStr (reason @ (if risky
                       then '' Open Error Book constraints should be considered before relying on the result.'' else ''''))),
                    (''items'', JList (map route_item hits)), (''open_constraints'', JList (map JObj cs))])"

definition browse_item :: "string set \<Rightarrow> world \<Rightarrow> wiki_page \<Rightarrow> dict" where
  "browse_item indexed w p =
     [(''page_key'', JStr (wpg_key p)), (''title'', JStr (wpg_title p)), (''path'', JStr (wpg_path p)),
      (''summary'', JStr (wpg_summary p)), (''tags'', strs (wpg_tags p)), (''page_type'', JStr (wpg_type p)),
      (''confidence'', JFloat (page_conf p)), (''is_index_linked'', JBool (wpg_key p \<in> indexed \<or> wpg_key p = ''index'')),
      (''inbound_links'', JInt (fst (link_counts w (wpg_key p)))), (''outbound_links'', JInt (snd (link_counts w (wpg_key p)))),
      (''source'', JStr ''wiki_browse''), (''next_actions'', strs [''wiki_read'', ''wiki_follow_links''])]"

definition browse_pages :: "string \<Rightarrow> string \<Rightarrow> world \<Rightarrow> wiki_page list" where
  "browse_pages pre expected w =
     (let indexed = indexed_page_keys (wiki_fs w)
      in sort_key (\<lambda>p. (\<not> (wpg_key p \<in> indexed \<or> wpg_key p = ''index''), wpg_path p, wpg_key p))
           (filter (\<lambda>p. (pre = [] \<or> has_path_prefix pre p) \<and> (expected = [] \<or> wpg_type p = expected)) (list_pages 1000 w)))"

definition browse_wiki :: "string \<Rightarrow> string \<Rightarrow> int \<Rightarrow> world \<Rightarrow> dict" where
  "browse_wiki path_prefix page_type limit w =
     (let pre = clean_prefix path_prefix; expected = py_strip page_type; pages = browse_pages pre expected w
      in [(''path_prefix'', JStr pre), (''page_type'', JStr expected),
          (''items'', JList (map (JObj \<circ> browse_item (indexed_page_keys (wiki_fs w)) w) (take (clamp_limit 500 limit) pages))),
          (''total'', JInt (int (length pages))),
          (''next_actions'', strs [''wiki_read selected pages'', ''wiki_sufficiency_check before answering''])])"

definition page_haystack :: "wiki_page \<Rightarrow> string" where
  "page_haystack p = join '' '' [wpg_key p, wpg_title p, wpg_summary p, wpg_body p, join '' '' (wpg_aliases p), join '' '' (wpg_tags p)]"

record coverage =
  cv_ratio :: rat
  cv_matched :: "string list"
  cv_missing :: "string list"

definition claim_coverage :: "string \<Rightarrow> wiki_page list \<Rightarrow> coverage" where
  "claim_coverage claim pages =
     (let ts = query_tokens claim; hay = py_lower (join [newline] (map page_haystack pages));
          matched = filter (\<lambda>t. py_in t hay) ts
      in if ts = [] then \<lparr>cv_ratio = 1, cv_matched = [], cv_missing = []\<rparr>
         else \<lparr>cv_ratio = round_to 4 (of_nat (length matched) / of_nat (max 1 (length ts))), cv_matched = matched,
               cv_missing = filter (\<lambda>t. \<not> py_in t hay) ts\<rparr>)"

definition coverage_dict :: "coverage \<Rightarrow> dict" where
  "coverage_dict c = [(''ratio'', JFloat (cv_ratio c)), (''matched_terms'', strs (cv_matched c)), (''missing_terms'', strs (cv_missing c))]"

definition evidence_gaps :: "string \<Rightarrow> string list \<Rightarrow> int \<Rightarrow> wiki_page list \<Rightarrow> dict list \<Rightarrow> dict list" where
  "evidence_gaps claim keys fan_in pages cs =
     (let found = map wpg_key pages; missing = filter (\<lambda>k. k \<notin> set found) keys; cov = claim_coverage claim pages;
          actual = int (length (remdups found))
      in (if keys = [] then [[(''type'', JStr ''no_read_pages''), (''message'', JStr ''No wiki_read page bodies were provided.'')]] else [])
         @ (if missing \<noteq> [] then [[(''type'', JStr ''missing_pages''), (''pages'', strs missing)]] else [])
         @ (if fan_in \<noteq> 0 \<and> actual < fan_in
            then [[(''type'', JStr ''fan_in''), (''required'', JInt fan_in), (''actual'', JInt actual)]] else [])
         @ (if py_strip claim \<noteq> [] \<and> cv_ratio cov < 7 / 20 \<and> found \<noteq> []
            then [[(''type'', JStr ''claim_terms_missing''), (''missing_terms'', strs (take 8 (cv_missing cov)))]] else [])
         @ (if cs \<noteq> [] then [[(''type'', JStr ''open_constraints''), (''constraints'', JList (map (\<lambda>c. JObj
              [(''error_type'', dget ''error_type'' c), (''page_key'', dget ''page_key'' c),
               (''constraint_rule'', py_or (dget ''constraint_rule'' c) (dget ''constraint'' c))]) cs))]] else []))"

definition evidence_page :: "wiki_page \<Rightarrow> json" where
  "evidence_page p = JObj [(''page_key'', JStr (wpg_key p)), (''title'', JStr (wpg_title p)), (''summary'', JStr (wpg_summary p)),
     (''confidence'', JFloat (page_conf p))]"

definition sufficiency_check :: "wiki_env \<Rightarrow> string \<Rightarrow> string list \<Rightarrow> int option \<Rightarrow> string \<Rightarrow> world \<Rightarrow> exc + dict" where
  "sufficiency_check env claim read_pages required strategy w =
     (let keys = map normalize_page_key (filter (\<lambda>k. py_strip k \<noteq> []) read_pages);
          route = (case required of None \<Rightarrow> route_query env claim 10 w | Some _ \<Rightarrow> [])
      in case (case required of Some n \<Rightarrow> Inr n | None \<Rightarrow> dint_or ''required_fan_in'' 1 route) of
           Inl e \<Rightarrow> Inl e
         | Inr n \<Rightarrow>
             let fan_in = max 0 n; pages = List.map_filter (\<lambda>k. read_page k w) keys;
                 cs = constraints_for_pages keys w; gaps = evidence_gaps claim keys fan_in pages cs
             in Inr [(''sufficient'', JBool (gaps = [])), (''claim'', JStr claim),
                  (''strategy'', JStr (str_or strategy (dstr ''strategy'' route))), (''required_fan_in'', JInt fan_in),
                  (''read_pages'', strs keys), (''evidence_pages'', JList (map evidence_page pages)),
                  (''coverage'', JObj (coverage_dict (claim_coverage claim pages))),
                  (''open_constraints'', JList (map JObj cs)), (''evidence_gaps'', JList (map JObj gaps)),
                  (''requirement'', JStr (''Use wiki_read page bodies, enough fan-in, and no blocking Error Book constraints '' @
                     ''before making Wiki-backed claims.'')),
                  (''next_action'', JStr (if gaps = [] then '''' else ''Read additional pages, follow links, repair Error Book '' @
                     ''constraints, or state that Wiki evidence is insufficient.''))])"

section \<open>Orientation and health\<close>

definition last_n_lines :: "int \<Rightarrow> string \<Rightarrow> string" where
  "last_n_lines n s = (let ls = splitlines s in join [newline] (drop (length ls - nat (max 1 (min n 200))) ls))"

definition constraint_item :: "wiki_error \<Rightarrow> json" where
  "constraint_item e = JObj
     [(''error_type'', JStr (we_type e)), (''page_key'', JStr (we_page_key e)), (''root_cause'', JStr (we_root_cause e)),
      (''constraint'', JStr (we_constraint e)), (''constraint_rule'', JStr (we_constraint_rule e)),
      (''verification_method'', JStr (we_verification e)), (''source_refs'', JList (we_source_refs e))]"

definition orientation_page :: "wiki_page \<Rightarrow> json" where
  "orientation_page p = JObj [(''page_key'', JStr (wpg_key p)), (''title'', JStr (wpg_title p)), (''page_type'', JStr (wpg_type p)),
     (''path'', JStr (wpg_path p)), (''summary'', JStr (wpg_summary p)), (''tags'', strs (wpg_tags p)),
     (''confidence'', JFloat (page_conf p))]"

definition orientation :: "wiki_env \<Rightarrow> int \<Rightarrow> world \<Rightarrow> dict" where
  "orientation env recent_log_lines w =
     (let fs = wiki_fs w; pages = list_pages 500 w
      in [(''root'', JStr (path_str (wk_root env))), (''schema'', JStr (read_optional_file fs ''SCHEMA.md'')),
          (''index'', JStr (read_optional_file fs ''index.md'')),
          (''recent_log'', JStr (last_n_lines recent_log_lines (read_optional_file fs ''log.md''))),
          (''page_count'', JInt (int (length pages))),
          (''directories'', strs (sorted_set (map (hd \<circ> path_parts)
            (map wpg_path (filter (\<lambda>p. path_parts (wpg_path p) \<noteq> []) pages))))),
          (''page_types'', strs (sorted_set (map wpg_type pages))), (''fts'', JObj (wiki_fts_status env w)),
          (''route_rules'', JObj
            [(''search_first'', JStr ''Use for named entities, exact page keys, aliases, tags, and focused facts.''),
             (''browse_first'', JStr ''Use for open-ended inventory, overview, map, directory, and schema questions.''),
             (''bridge'', JStr ''Use for comparisons, relationships, multi-hop questions, and synthesis across pages.''),
             (''insufficient'', JStr (''Use when the Wiki has no plausible page-level evidence or open constraints block trust.''))]),
          (''open_constraints'', JList (map constraint_item (error_book ''open'' 50 w))),
          (''pages'', JList (map orientation_page (take 120 pages)))])"

definition run_item :: "wiki_compile_run \<Rightarrow> json" where
  "run_item r = JObj [(''status'', JStr (wcr_status r)), (''pages_indexed'', JInt (wcr_pages_indexed r)),
     (''errors'', JInt (wcr_errors r)), (''started_at'', JStr (isoformat (wcr_started_at r))),
     (''finished_at'', opt_json (JStr \<circ> isoformat) (wcr_finished_at r))]"

definition wiki_health :: "wiki_env \<Rightarrow> world \<Rightarrow> dict" where
  "wiki_health env w =
     [(''root'', JStr (path_str (wk_root env))), (''pages'', JInt (int (length (wiki_pages w)))),
      (''open_errors'', JInt (int (length (filter (\<lambda>e. we_status e = ''open'') (wiki_error_book w))))),
      (''last_compile'', case sort_key (\<lambda>r. - wcr_started_at r) (wiki_compile_runs w) of [] \<Rightarrow> JNull | r # _ \<Rightarrow> run_item r),
      (''llm_wiki'', JObj (wiki_shape (wiki_fs w))), (''fts'', JObj (wiki_fts_status env w))]"

section \<open>Linting\<close>

definition LINT_TYPES :: "string list" where
  "LINT_TYPES = [''broken_link'', ''orphan_page'', ''missing_index_entry'', ''low_confidence'', ''contested_claim'',
     ''claim_low_confidence'', ''claim_contradiction'', ''claim_missing_evidence'', ''missing_canonical_file'', ''stale_page'',
     ''source_drift'']"

definition claim_polarity :: "dict \<Rightarrow> string" where
  "claim_polarity c = py_lower (py_str (py_or (dget ''polarity'' c) (py_or (dget ''status'' c) (JStr ''asserted''))))"

text \<open>The errors of claim number \<open>i\<close>; \<open>seen\<close> maps the normalised texts of the earlier claims to the claims.\<close>

definition claim_errors :: "parsed_page \<Rightarrow> bool \<Rightarrow> (string \<times> dict) list \<Rightarrow> nat \<Rightarrow> dict \<Rightarrow> string \<Rightarrow> wiki_error list" where
  "claim_errors p page_sources seen i c value =
     (let cid = dstr_or ''id'' (''claim-'' @ nat_str (i + 1)) c;
          conf = confidence_of (dget_default ''confidence'' (JFloat (pp_confidence p)) c);
          evidence = py_or (dget ''evidence'' c) (py_or (dget ''source_refs'' c) (JList []));
          normalized = collapse_ws (py_lower value);
          contradicts = (case map_of seen normalized of
             None \<Rightarrow> False
           | Some prev \<Rightarrow> normalized \<noteq> [] \<and> claim_polarity c \<noteq> claim_polarity prev
               \<and> {claim_polarity c, claim_polarity prev} \<inter> {''contested'', ''false'', ''negated''} \<noteq> {})
      in (if conf < 7 / 20
          then [new_error ''claim_low_confidence'' (pp_key p) (''Claim `'' @ cid @ ''` confidence is low: '' @ format_2f conf)
                  ''Verify the claim with explicit evidence or mark it contested.''
                  [(''claim_id'', JStr cid), (''confidence'', JFloat conf), (''claim'', JStr value)]] else [])
         @ (if \<not> truthy evidence \<and> \<not> page_sources
            then [new_error ''claim_missing_evidence'' (pp_key p) (''Claim `'' @ cid @ ''` has no evidence reference.'')
                    ''Attach source_refs/evidence at the claim or page level.'' [(''claim_id'', JStr cid), (''claim'', JStr value)]]
            else [])
         @ (if contradicts
            then [new_error ''claim_contradiction'' (pp_key p) (''Claim `'' @ cid @ ''` contradicts another claim on the same page.'')
                    ''Resolve the contradiction or split contested claims with evidence.''
                    [(''claim_id'', JStr cid), (''claim'', JStr value)]] else []))"

fun claims_errors :: "parsed_page \<Rightarrow> bool \<Rightarrow> (string \<times> dict) list \<Rightarrow> nat \<Rightarrow> dict list \<Rightarrow> wiki_error list" where
  "claims_errors p page_sources seen i [] = []"
| "claims_errors p page_sources seen i (c # cs) =
     (let value = py_strip (py_str (py_or (dget ''text'' c) (py_or (dget ''claim'' c) (JStr ''''))));
          normalized = collapse_ws (py_lower value)
      in claim_errors p page_sources seen i c value
         @ claims_errors p page_sources (if normalized \<noteq> [] then put_assoc normalized c seen else seen) (i + 1) cs)"

definition claim_quality_errors :: "parsed_page \<Rightarrow> wiki_error list" where
  "claim_quality_errors p =
     claims_errors p (pp_source_refs p \<noteq> [] \<or> listify (dget ''sources'' (pp_metadata p)) \<noteq> []) [] 0 (pp_claims p)"

text \<open>\<open>(root / source).exists()\<close>.\<close>

definition source_exists :: "wiki_env \<Rightarrow> fs \<Rightarrow> string \<Rightarrow> bool" where
  "source_exists env fs s =
     (let target = resolve_dots [] (wk_root env @ path_parts s)
      in if prefix (wk_root env) target then path_exists fs (drop (length (wk_root env)) target)
         else wk_outside env target \<noteq> None)"

definition page_name :: "parsed_page \<Rightarrow> string" where
  "page_name p = last (split_on CHR ''/'' (pp_path p))"

definition lint_page :: "wiki_env \<Rightarrow> fs \<Rightarrow> string set \<Rightarrow> string set \<Rightarrow> string set \<Rightarrow> parsed_page \<Rightarrow> wiki_error list" where
  "lint_page env fs known indexed linked p =
     (let path = [(''path'', JStr (pp_path p))]; conf = clamp (Fin (pp_confidence p))
      in if startswith (pp_path p) ''_archive/'' then []
         else
           map (\<lambda>(t, a). new_error ''broken_link'' (pp_key p) (''Unresolved wiki link: '' @ t)
                ''Create the target page or fix the wikilink.'' [(''target'', JStr t), (''anchor'', JStr a)])
             (filter (\<lambda>(t, _). t \<notin> known) (pp_links p))
           @ (if pp_key p \<notin> indexed \<and> page_name p \<notin> set CANONICAL_WIKI_FILES
              then [new_error ''missing_index_entry'' (pp_key p) ''Page is not referenced in index.md.''
                      ''Add this page to index.md with a one-line summary.'' path] else [])
           @ (if conf < 7 / 20
              then [new_error ''low_confidence'' (pp_key p) (''Page confidence is low: '' @ format_2f conf)
                      ''Verify sources or mark the claim as contested.'' [(''confidence'', JFloat conf)]] else [])
           @ (if truthy (dget_default ''contested'' (JBool False) (pp_metadata p))
              then [new_error ''contested_claim'' (pp_key p) ''Page is marked contested.''
                      ''Resolve the contested claim or keep explicit evidence in the page.'' path] else [])
           @ (case pp_stale_after p of
                None \<Rightarrow> []
              | Some t \<Rightarrow> if t < wk_now env
                  then [new_error ''stale_page'' (pp_key p) ''Page stale_after has passed.''
                          ''Review the page and refresh its evidence or stale_after metadata.''
                          ((''stale_after'', JStr (isoformat t)) # path)] else [])
           @ claim_quality_errors p
           @ (if pp_key p \<notin> linked \<and> pp_key p \<notin> {''index'', ''schema'', ''log''} \<and> page_name p \<notin> set CANONICAL_WIKI_FILES
              then [new_error ''orphan_page'' (pp_key p) ''Page has no inbound wikilinks.''
                      ''Link it from index.md or a relevant entity/concept page.'' path] else [])
           @ map (\<lambda>s. new_error ''source_drift'' (pp_key p) (''Declared source is missing: '' @ s)
                ''Restore the raw source or update frontmatter sources.'' [(''source'', JStr s)])
             (filter (\<lambda>s. startswith s ''raw/'' \<and> \<not> source_exists env fs s) (listify (dget ''sources'' (pp_metadata p)))))"

definition lint_pages :: "wiki_env \<Rightarrow> fs \<Rightarrow> parsed_page list \<Rightarrow> wiki_error list" where
  "lint_pages env fs pages =
     (let known = pp_key ` set pages;
          linked = set (concat (map (map fst \<circ> pp_links) pages)) \<inter> known
      in concat (map (lint_page env fs known (indexed_page_keys fs) linked) pages))"

definition canonical_missing :: "fs \<Rightarrow> string list" where
  "canonical_missing fs = filter (\<lambda>f. \<not> path_exists fs [f]) CANONICAL_WIKI_FILES"

definition QUALITY_TYPES :: "string list" where
  "QUALITY_TYPES = [''low_confidence'', ''claim_low_confidence'', ''claim_contradiction'', ''claim_missing_evidence'', ''stale_page'',
     ''source_drift'']"

text \<open>A page counts with its claims, whether it has evidence, its confidence and its expiry.\<close>

definition quality_dict :: "instant \<Rightarrow> (nat \<times> bool \<times> rat \<times> instant option) list \<Rightarrow> wiki_error list \<Rightarrow> dict" where
  "quality_dict now rows errors =
     (let n = length rows; ev = length (filter (\<lambda>(_, e, _). e) rows)
      in [(''pages'', JInt (int n)), (''claims'', JInt (int (sum_list (map fst rows)))), (''pages_with_evidence'', JInt (int ev)),
          (''evidence_coverage'', JFloat (if n = 0 then 0 else round_to 4 (of_nat ev / of_nat n))),
          (''low_confidence_pages'', JInt (int (length (filter (\<lambda>(_, _, c, _). clamp (Fin c) < 7 / 20) rows)))),
          (''stale_pages'', JInt (int (length (filter (\<lambda>(_, _, _, s). case s of None \<Rightarrow> False | Some t \<Rightarrow> t < now) rows)))),
          (''quality_errors'', JInt (int (length (filter (\<lambda>e. we_type e \<in> set QUALITY_TYPES) errors))))])"

definition quality_of_parsed :: "wiki_env \<Rightarrow> parsed_page list \<Rightarrow> wiki_error list \<Rightarrow> dict" where
  "quality_of_parsed env pages errors = quality_dict (wk_now env)
     (map (\<lambda>p. (length (pp_claims p), pp_source_refs p \<noteq> [] \<or> truthy (dget ''sources'' (pp_metadata p)),
        pp_confidence p, pp_stale_after p)) pages) errors"

definition quality_summary :: "wiki_env \<Rightarrow> world \<Rightarrow> dict" where
  "quality_summary env w = quality_dict (wk_now env)
     (map (\<lambda>p. (length (wpg_claims p), wpg_source_refs p \<noteq> [] \<or> truthy (dget ''sources'' (wpg_metadata p)),
        wpg_confidence p, wpg_stale_after p)) (list_pages 1000 w)) (error_book ''open'' 500 w)"

definition lint_item :: "wiki_error \<Rightarrow> json" where
  "lint_item e = JObj [(''error_type'', JStr (we_type e)), (''page_key'', JStr (we_page_key e)), (''root_cause'', JStr (we_root_cause e)),
     (''constraint'', JStr (we_constraint e)), (''payload'', JObj (we_payload e))]"

definition lint_wiki :: "wiki_env \<Rightarrow> dict op" where
  "lint_wiki env w = (case wiki_scan env (wiki_fs w) of
     Inl e \<Rightarrow> (Inl e, w)
   | Inr pages \<Rightarrow>
       let missing = canonical_missing (wiki_fs w);
           errors = map (\<lambda>f. new_error ''missing_canonical_file'' f (''Missing '' @ f @ ''.'')
                      ''Create the canonical LLM-Wiki control file.'' [(''path'', JStr f)]) missing
                    @ lint_pages env (wiki_fs w) pages;
           w1 = fold (add_error env) errors (close_errors env LINT_TYPES w)
       in (Inr [(''ok'', JBool (errors = [])), (''errors'', JInt (int (length errors))), (''canonical_missing'', strs missing),
                (''quality'', JObj (quality_of_parsed env pages errors)), (''items'', JList (map lint_item errors))],
           emit (wk_events env) ''wiki.lint''
             [(''errors'', JInt (int (length errors))), (''canonical_missing'', strs missing)] w1))"

section \<open>Repair\<close>

definition index_content_with_link :: "fs \<Rightarrow> string \<Rightarrow> string" where
  "index_content_with_link fs page_key =
     (let current0 = read_optional_file fs ''index.md'';
          current = (if py_strip current0 = [] then the (map_of DEFAULT_CANONICAL_CONTENT ''index.md'') else current0);
          label = title_case True (replace_char CHR ''-'' '' '' (last (split_on CHR ''/'' page_key)))
      in if py_in (''[['' @ page_key @ '']]'') current then current
         else rstrip_of is_space current @ [newline, newline] @ ''- [['' @ page_key @ '']] '' @ label @ [newline])"

definition low_risk_repair_proposal :: "fs \<Rightarrow> wiki_error \<Rightarrow> (string \<times> dict) option" where
  "low_risk_repair_proposal fs e =
     (if we_type e = ''missing_canonical_file'' then
        (let path = dstr_or ''path'' (we_page_key e) (we_payload e)
         in if path \<notin> set CANONICAL_WIKI_FILES then None
            else Some (''create_page'', [(''path'', JStr path), (''content'', JStr (the (map_of DEFAULT_CANONICAL_CONTENT path))),
                   (''repair_kind'', JStr ''create_canonical_file''), (''error_id'', JStr (we_id e))]))
      else if we_type e \<in> {''missing_index_entry'', ''orphan_page''} then
        (let key = normalize_page_key (we_page_key e)
         in if key = [] then None
            else Some (''update_index'', [(''path'', JStr ''index.md''), (''page_key'', JStr key),
                   (''content'', JStr (index_content_with_link fs key)), (''repair_kind'', JStr ''index_link''),
                   (''error_id'', JStr (we_id e))]))
      else None)"

definition find_existing_repair_proposal :: "wiki_error \<Rightarrow> world \<Rightarrow> evolution_proposal option" where
  "find_existing_repair_proposal e w =
     find (\<lambda>p. ep_target_type p = ''wiki'' \<and> ep_status p \<in> {''pending'', ''approved'', ''applied''}
            \<and> (dstr ''error_id'' (ep_payload p) = we_id e
               \<or> dstr ''id'' (dict_or_empty (dget ''error'' (ep_evidence p))) = we_id e)) (evolution_proposals w)"

definition create_repair_proposal :: "wiki_env \<Rightarrow> wiki_error \<Rightarrow> string \<Rightarrow> dict \<Rightarrow> string \<Rightarrow> dict \<Rightarrow> world \<Rightarrow> uuid \<times> world" where
  "create_repair_proposal env e action payload risk extra w =
     (let pid = wk_proposal_id env (length (evolution_proposals w));
          p = \<lparr>ep_id = pid, ep_target_type = ''wiki'', ep_action = action, ep_status = ''pending'', ep_risk_level = risk,
               ep_payload = payload,
               ep_evidence = dmerge [(''source'', JStr ''wiki_repair''), (''error'', JObj (error_summary e))] extra,
               ep_before_snapshot = [], ep_after_snapshot = [], ep_result = [], ep_target_checksum = '''', ep_stale_reason = '''',
               ep_created_at = wk_now env, ep_applied_at = None\<rparr>
      in (pid, emit (wk_events env) ''wiki.repair.proposal_created''
                 [(''proposal_id'', JStr pid), (''error_id'', JStr (we_id e)), (''risk_level'', JStr risk)]
                 (w\<lparr>evolution_proposals := evolution_proposals w @ [p]\<rparr>)))"

definition diagnose_messages :: "wiki_error \<Rightarrow> json list" where
  "diagnose_messages e =
     [JObj [(''role'', JStr ''system''), (''content'', JStr ''Diagnose one LLM-Wiki Error Book item. Return compact JSON only.'')],
      JObj [(''role'', JStr ''user''), (''content'', JStr (json_dumps (JObj
        [(''error_type'', JStr (we_type e)), (''page_key'', JStr (we_page_key e)), (''root_cause'', JStr (we_root_cause e)),
         (''constraint'', JStr (we_constraint e)), (''payload'', JObj (we_payload e))])))]]"

definition diagnose_high_risk_error :: "wiki_env \<Rightarrow> wiki_error \<Rightarrow> dict" where
  "diagnose_high_risk_error env e =
     (let fallback = [(''root_cause'', JStr (we_root_cause e)),
            (''constraint_rule'', JStr (str_or (we_constraint_rule e) (we_constraint e))),
            (''verification_method'', JStr (str_or (we_verification e)
               ''Run wiki lint/compile and answer a retrieval probe before trusting this page.'')),
            (''source_refs'', JList (we_source_refs e)), (''proposed_action'', JStr ''review_before_apply'')]
      in case wk_llm env of
           None \<Rightarrow> fallback
         | Some llm \<Rightarrow>
             (case llm (diagnose_messages e) of
                Inl x \<Rightarrow> dset ''llm_error'' (JStr (exc_str x)) fallback
              | Inr content \<Rightarrow>
                  (case json_loads content of
                     None \<Rightarrow> dset ''llm_error'' (JStr (wk_json_error env content)) fallback
                   | Some v \<Rightarrow> if is_dict v then dmerge fallback (dict_or_empty v) else fallback)))"

text \<open>The lists of one repair run, and the safe targets proposed so far.\<close>

record repair_log =
  rl_created :: "dict list"
  rl_applied :: "dict list"
  rl_skipped :: "dict list"
  rl_seen :: "(string \<times> string) list"

definition skip_entry :: "wiki_error \<Rightarrow> string \<Rightarrow> dict" where
  "skip_entry e reason = [(''error_id'', JStr (we_id e)), (''error_type'', JStr (we_type e)), (''reason'', JStr reason)]"

definition log_skip :: "dict \<Rightarrow> repair_log \<Rightarrow> repair_log" where
  "log_skip d l = l\<lparr>rl_skipped := rl_skipped l @ [d]\<rparr>"

definition log_created :: "uuid \<Rightarrow> wiki_error \<Rightarrow> string \<Rightarrow> repair_log \<Rightarrow> repair_log" where
  "log_created pid e risk l = l\<lparr>rl_created := rl_created l @
     [[(''proposal_id'', JStr pid), (''error_id'', JStr (we_id e)), (''risk_level'', JStr risk)]]\<rparr>"

definition existing_entry :: "wiki_error \<Rightarrow> evolution_proposal \<Rightarrow> dict" where
  "existing_entry e p = skip_entry e ''existing repair proposal'' @ [(''proposal_id'', JStr (ep_id p))]"

definition put_error :: "uuid \<Rightarrow> (wiki_error \<Rightarrow> wiki_error) \<Rightarrow> world \<Rightarrow> world" where
  "put_error eid f w = w\<lparr>wiki_error_book := upd_row we_id eid f (wiki_error_book w)\<rparr>"

definition apply_entry :: "world \<Rightarrow> uuid \<Rightarrow> dict" where
  "apply_entry w pid = (case get_row ep_id pid (evolution_proposals w) of
     None \<Rightarrow> []
   | Some p \<Rightarrow> [(''proposal_id'', JStr pid), (''action'', JStr (ep_action p)), (''result'', JObj (ep_result p))])"

definition repair_low :: "wiki_env \<Rightarrow> bool \<Rightarrow> string \<Rightarrow> wiki_error \<Rightarrow> repair_log \<Rightarrow> repair_log op" where
  "repair_low env apply_safe actor e l w = (case low_risk_repair_proposal (wiki_fs w) e of
     None \<Rightarrow> (Inr (log_skip (skip_entry e ''no deterministic repair'') l), w)
   | Some (action, payload) \<Rightarrow>
       let key = (action, py_str (py_or (dget ''page_key'' payload) (py_or (dget ''path'' payload) (JStr ''''))))
       in if key \<in> set (rl_seen l) then (Inr (log_skip (skip_entry e ''duplicate safe repair'') l), w)
          else let l1 = l\<lparr>rl_seen := key # rl_seen l\<rparr>
            in case find_existing_repair_proposal e w of
                 Some p \<Rightarrow> (Inr (log_skip (existing_entry e p) l1), w)
               | None \<Rightarrow>
                   (case create_repair_proposal env e action payload ''low'' [] w of (pid, w1) \<Rightarrow>
                      let l2 = log_created pid e ''low'' l1
                      in if apply_safe then
                           op_bind (wiki_apply_proposal env pid actor) (\<lambda>_ w2.
                             (Inr (l2\<lparr>rl_applied := rl_applied l2 @ [apply_entry w2 pid]\<rparr>),
                              put_error (we_id e) (fixed_error (wk_now env)) w2)) w1
                         else (Inr l2, w1)))"

definition repair_high :: "wiki_env \<Rightarrow> wiki_error \<Rightarrow> repair_log \<Rightarrow> repair_log op" where
  "repair_high env e l w = (case find_existing_repair_proposal e w of
     Some p \<Rightarrow> (Inr (log_skip (existing_entry e p) l), w)
   | None \<Rightarrow>
       let diagnosis = diagnose_high_risk_error env e;
           payload = [(''page_key'', JStr (normalize_page_key (we_page_key e))), (''error_id'', JStr (we_id e)),
             (''entry'', JStr (''Review Wiki Error Book item `'' @ we_type e @ ''` for `'' @ we_page_key e @ ''`: '' @
                py_str (py_or (dget ''root_cause'' diagnosis) (JStr (we_root_cause e))))),
             (''repair_kind'', JStr ''semantic_review''), (''diagnosis'', JObj diagnosis)]
       in case create_repair_proposal env e ''append_log'' payload ''medium'' [(''diagnosis'', JObj diagnosis)] w of
            (pid, w1) \<Rightarrow> (Inr (log_created pid e ''medium'' l), w1))"

text \<open>The loop over the errors that were open at its start; the status is read again for each of them.\<close>

fun repair_loop :: "wiki_env \<Rightarrow> bool \<Rightarrow> string \<Rightarrow> wiki_error list \<Rightarrow> repair_log \<Rightarrow> repair_log op" where
  "repair_loop env apply_safe actor [] l w = (Inr l, w)"
| "repair_loop env apply_safe actor (e # es) l w =
     op_bind
       (if map_option we_status (get_row we_id (we_id e) (wiki_error_book w)) \<noteq> Some ''open'' then op_ok l
        else if we_type e \<in> set LOW_RISK_REPAIR_TYPES then repair_low env apply_safe actor e l
        else if we_type e \<noteq> [] then repair_high env e l
        else op_ok l)
       (repair_loop env apply_safe actor es) w"

definition repair_wiki :: "wiki_env \<Rightarrow> bool \<Rightarrow> string list \<Rightarrow> string \<Rightarrow> dict op" where
  "repair_wiki env apply_safe error_ids actor = op_bind (lint_wiki env) (\<lambda>lint w.
     let selected = filter (\<lambda>i. py_strip i \<noteq> []) error_ids;
         open_errors = filter (\<lambda>e. selected = [] \<or> we_id e \<in> set selected) (error_book ''open'' 500 w);
         n = JInt (int (length open_errors))
     in op_bind (repair_loop env apply_safe actor open_errors
                   \<lparr>rl_created = [], rl_applied = [], rl_skipped = [], rl_seen = []\<rparr>) (\<lambda>l w1.
          let c = JInt (int (length (rl_created l))); a = JInt (int (length (rl_applied l)))
          in (Inr [(''ok'', JBool True), (''errors_seen'', n), (''lint'', JObj lint), (''proposals_created'', c),
                   (''proposals_applied'', a), (''created'', JList (map JObj (rl_created l))),
                   (''applied'', JList (map JObj (rl_applied l))), (''skipped'', JList (map JObj (rl_skipped l)))],
              emit (wk_events env) ''wiki.repair''
                [(''errors_seen'', n), (''proposals_created'', c), (''proposals_applied'', a),
                 (''lint_errors'', dget_default ''errors'' (JInt 0) lint)] w1)) w)"

end
