(* ===== verification/Agent.thy ===== *)
theory Agent
  imports Llm Tools Conversation Wiki_Service
begin

text \<open>
  The agent's turn: \<open>AgentRuntime\<close> of \<open>backend/runtime/agent.py\<close>.

  A turn records the message, assembles the context, lets the language model answer in at most four rounds of tool
  calls, and records the answer. A tool that needs approval interrupts the turn: its state is stored as the checkpoint
  of the approval, and \<open>resume_turn\<close> continues from there. The wiki, memory, skill, workspace and
  conversation services and the tool executor are those of the other theories. The language model
  (\<open>None\<close> when it is missing or not configured) and the A2A runtime are operations of \<open>agent_env\<close>, so that every statement
  holds for every behaviour of theirs; \<open>Llm\<close> and \<open>A2A\<close> have the client and the runtime. Further arguments are the
  identifiers, the clock, and the environment of a tool execution, as functions of the state.

  A checkpoint is read back from its column with the types the agent wrote. The list \<open>tool_results\<close> that
  \<open>_continue_llm_loop\<close> extends in place is returned by it in every case, so the model passes it on as a value; \<open>call["id"]\<close>
  that \<open>_append_tool_messages\<close> sets is visible in the list of all calls too, because both hold the same dictionaries. The trigger
  words in Chinese are outside of the modelled code points.
\<close>

section \<open>Data\<close>

record agent_env =
  ag_conv :: "conversation_service option"
  ag_wiki :: wiki_env
  ag_mem :: mem_env
  ag_tools :: "tool_services option"
  ag_registry :: "registry option"
  ag_max_direct :: int
  ag_llm :: "(dict list \<Rightarrow> dict list \<Rightarrow> llm_response op) option"
  ag_workspace :: "seed option"
  ag_mtime :: "string \<Rightarrow> world \<Rightarrow> string"
  ag_a2a :: "(delegate_request \<Rightarrow> dict op) option"
  ag_exec :: "world \<Rightarrow> exec_env"
  ag_now :: "world \<Rightarrow> instant"
  ag_new_id :: "world \<Rightarrow> uuid"

text \<open>\<open>AgentApprovalInterrupt\<close>.\<close>

record interrupt =
  ai_approval_id :: string
  ai_pending_tool_call :: dict
  ai_completed_results :: "dict list"
  ai_approval_result :: dict
  ai_pending_index :: int
  ai_messages :: "dict list"
  ai_tool_calls :: "dict list"
  ai_tool_results :: "dict list"
  ai_round_tool_calls :: "dict list"
  ai_round_index :: int

text \<open>The tuple \<open>_run_llm\<close> returns.\<close>

record llm_outcome =
  lu_answer :: string
  lu_calls :: "dict list"
  lu_status :: string
  lu_messages :: "dict list"
  lu_results :: "dict list"

section \<open>Tool calls\<close>

definition call_label :: "dict \<Rightarrow> json" where
  "call_label c = py_or (dget ''name'' c) (dget ''tool_name'' c)"

definition call_name :: "dict \<Rightarrow> string" where
  "call_name c = py_str (py_or (call_label c) (JStr ''''))"

definition call_arguments :: "dict \<Rightarrow> dict" where
  "call_arguments c = dict_or_empty (dget ''arguments'' c)"

definition call_approved :: "dict \<Rightarrow> bool" where
  "call_approved c = truthy (dget_default ''approved'' (JBool False) c)"

definition run_call :: "agent_env \<Rightarrow> tool_services \<Rightarrow> string \<Rightarrow> bool \<Rightarrow> dict \<Rightarrow> dict op" where
  "run_call env sv turn_id approved c w =
     execute_tool sv (case ag_registry env of None \<Rightarrow> [] | Some reg \<Rightarrow> reg) (ag_exec env w) (call_name c) (call_arguments c) turn_id
       approved w"

definition record_tool :: "agent_env \<Rightarrow> string \<Rightarrow> string \<Rightarrow> dict \<Rightarrow> dict \<Rightarrow> world \<Rightarrow> world" where
  "record_tool env session_id turn_id result metadata w = (case ag_conv env of
     None \<Rightarrow> w
   | Some cs \<Rightarrow> snd (record_tool_message cs (ag_new_id env w) (ag_now env w) session_id turn_id
       (take 4000 (json_dumps (JObj result))) metadata w))"

definition approval_result :: "exc \<Rightarrow> json \<Rightarrow> string \<Rightarrow> dict" where
  "approval_result e label aid = [(''status'', JStr ''approval_required''), (''error'', JStr (exc_str e)), (''tool_name'', label),
     (''approval_id'', JStr aid)]"

definition failed_result :: "exc \<Rightarrow> json \<Rightarrow> dict" where
  "failed_result e label = [(''status'', JStr (if is_permission_error e then ''approval_required'' else ''failed'')),
     (''error'', JStr (exc_str e)), (''tool_name'', label)]"

definition new_interrupt :: "string \<Rightarrow> dict \<Rightarrow> dict list \<Rightarrow> dict \<Rightarrow> int \<Rightarrow> interrupt" where
  "new_interrupt aid pending completed result index =
     \<lparr>ai_approval_id = aid, ai_pending_tool_call = pending, ai_completed_results = completed, ai_approval_result = result,
      ai_pending_index = index, ai_messages = [], ai_tool_calls = [], ai_tool_results = [], ai_round_tool_calls = [], ai_round_index = 0\<rparr>"

fun execute_calls ::
  "agent_env \<Rightarrow> tool_services \<Rightarrow> string \<Rightarrow> string \<Rightarrow> int \<Rightarrow> dict list \<Rightarrow> dict list \<Rightarrow> world \<Rightarrow> (interrupt + dict list) \<times> world" where
  "execute_calls env sv turn_id session_id index results [] w = (Inr results, w)"
| "execute_calls env sv turn_id session_id index results (c # cs) w =
     (case run_call env sv turn_id (call_approved c) c w of
        (Inl (ToolApprovalRequired m t aid), w1) \<Rightarrow>
          (let result = approval_result (ToolApprovalRequired m t aid) (call_label c) aid
           in (Inl (new_interrupt aid c results result index),
               record_tool env session_id turn_id result [(''tool_name'', call_label c), (''approval_id'', JStr aid)] w1))
      | (r, w1) \<Rightarrow>
          (let result = (case r of Inr d \<Rightarrow> d | Inl e \<Rightarrow> failed_result e (call_label c))
           in execute_calls env sv turn_id session_id (index + 1) (results @ [result]) cs
                (record_tool env session_id turn_id result [(''tool_name'', call_label c)] w1)))"

definition execute_tool_calls :: "agent_env \<Rightarrow> string \<Rightarrow> string \<Rightarrow> dict list \<Rightarrow> world \<Rightarrow> (interrupt + dict list) \<times> world" where
  "execute_tool_calls env turn_id session_id calls w = (case ag_tools env of
     None \<Rightarrow> (Inr [], w) | Some sv \<Rightarrow> execute_calls env sv turn_id session_id 0 [] calls w)"

text \<open>The calls with their identifiers, and the messages; there are never more results than calls.\<close>

definition number_call :: "nat \<Rightarrow> dict \<Rightarrow> dict" where
  "number_call i c = dset ''id'' (JStr (dstr_or ''id'' (''tool_call_'' @ nat_str i) c)) c"

definition number_calls :: "dict list \<Rightarrow> dict list" where
  "number_calls calls = map (\<lambda>(i, c). number_call i c) (enumerate 0 calls)"

definition function_call :: "dict \<Rightarrow> json" where
  "function_call c = JObj [(''id'', dget ''id'' c), (''type'', JStr ''function''),
     (''function'', JObj [(''name'', JStr (call_name c)),
        (''arguments'', JStr (json_dumps (py_or (dget ''arguments'' c) (JObj []))))])]"

definition tool_reply :: "dict \<Rightarrow> dict \<Rightarrow> dict" where
  "tool_reply c result = [(''role'', JStr ''tool''), (''tool_call_id'', dget ''id'' c), (''content'', JStr (json_dumps (JObj result)))]"

definition append_tool_messages :: "dict list \<Rightarrow> dict list \<Rightarrow> dict list \<Rightarrow> dict list" where
  "append_tool_messages messages labelled results =
     messages @ [[(''role'', JStr ''assistant''), (''content'', JStr ''''), (''tool_calls'', JList (map function_call labelled))]] @
     map (\<lambda>(c, r). tool_reply c r) (zip labelled results)"

section \<open>The loop with the language model\<close>

definition llm_calls :: "llm_response \<Rightarrow> dict list" where
  "llm_calls r = map (\<lambda>c. [(''id'', JStr (tc_id c)), (''name'', JStr (tc_name c)), (''arguments'', tc_arguments c)]) (lr_tool_calls r)"

text \<open>The answer when the model raises: the status, with an event of the given prefix.\<close>

definition llm_refusal :: "string \<Rightarrow> exc \<Rightarrow> world \<Rightarrow> string \<times> world" where
  "llm_refusal pre e w = (case e of
     RateLimitExceeded k policy limit retry_after \<Rightarrow>
       (''rate_limited'', emit_warning True (pre @ ''.rate_limited'') [(''policy'', JStr policy), (''retry_after'', JInt retry_after)] w)
   | CircuitOpenError m \<Rightarrow> (''circuit_open'', emit_warning True (pre @ ''.circuit_open'') [(''error'', JStr (exc_str e))] w)
   | _ \<Rightarrow> (''failed'', emit_warning True (pre @ ''.failed'') [(''error'', JStr (exc_str e))] w))"

text \<open>\<open>for round_index in range(start_round, max_rounds)\<close>; the first argument counts the rounds left.\<close>

fun continue_llm_loop ::
  "nat \<Rightarrow> agent_env \<Rightarrow> (dict list \<Rightarrow> dict list \<Rightarrow> llm_response op) \<Rightarrow> dict list \<Rightarrow> string \<Rightarrow> string \<Rightarrow> int \<Rightarrow> string \<Rightarrow> llm_response \<Rightarrow>
   dict list \<Rightarrow> dict list \<Rightarrow> dict list \<Rightarrow> world \<Rightarrow> (interrupt + llm_outcome) \<times> world" where
  "continue_llm_loop 0 env llm tools turn_id session_id round_index status response messages all_calls results w =
     (Inr \<lparr>lu_answer = lr_content response, lu_calls = all_calls, lu_status = ''max_tool_rounds'', lu_messages = messages, lu_results = results\<rparr>,
      emit_warning True ''llm.tool_loop.max_rounds'' [(''rounds'', JInt 4)] w)"
| "continue_llm_loop (Suc n) env llm tools turn_id session_id round_index status response messages all_calls results w =
     (let calls = llm_calls response in
      if calls = [] then
        (Inr \<lparr>lu_answer = lr_content response, lu_calls = all_calls, lu_status = status, lu_messages = messages, lu_results = results\<rparr>,
         emit True ''llm.completed'' [(''tool_calls'', JList (map (dget ''name'') all_calls))] w)
      else case execute_tool_calls env turn_id session_id calls w of
        (Inl i, w1) \<Rightarrow>
          (Inl (i\<lparr>ai_messages := messages, ai_tool_calls := all_calls @ calls,
             ai_tool_results := results @ ai_completed_results i @ [ai_approval_result i], ai_round_tool_calls := calls,
             ai_round_index := round_index\<rparr>), w1)
      | (Inr round_results, w1) \<Rightarrow>
          (let labelled = number_calls calls; results1 = results @ round_results; all1 = all_calls @ labelled;
               messages1 = append_tool_messages messages labelled round_results
           in case llm messages1 tools w1 of
                (Inl e, w2) \<Rightarrow>
                  (case llm_refusal ''llm.tool_loop'' e w2 of (st, w3) \<Rightarrow>
                     (Inr \<lparr>lu_answer = '''', lu_calls = all1, lu_status = st, lu_messages = messages1, lu_results = results1\<rparr>, w3))
              | (Inr response1, w2) \<Rightarrow>
                  continue_llm_loop n env llm tools turn_id session_id (round_index + 1) ''completed_with_tools'' response1 messages1 all1
                    results1 w2))"

definition llm_tools :: "agent_env \<Rightarrow> dict list" where
  "llm_tools env = (case ag_registry env of None \<Rightarrow> [] | Some reg \<Rightarrow> openai_tools (ag_max_direct env) reg)"

definition system_prompt :: string where
  "system_prompt =
     ''You are SoulClaw. Memory stores durable facts and preferences; '' @
     ''Skills store procedural know-how; LLM-Wiki stores traceable evidence. '' @
     ''Use skill_search before reading a full skill, and skill_read only when the skill is relevant. '' @
     ''For Wiki-backed facts, first call wiki_route. If it recommends browse_first, use wiki_browse; '' @
     ''if search_first, use wiki_search; if bridge, combine wiki_search/wiki_browse with wiki_follow_links. '' @
     ''Always call wiki_read before relying on a page body, and use wiki_sufficiency_check for complex or constrained claims. '' @
     ''For durable memory facts, use memory_search and memory_get before relying on them. '' @
     ''Cite Wiki pages as [[page_key]] when using Wiki evidence, and record useful skill outcomes with skill_use_trace.''"

type_synonym skill_index = "(rat \<times> skill) list"

definition file_text :: "nat \<Rightarrow> string \<Rightarrow> (string \<times> workspace_file) list \<Rightarrow> string" where
  "file_text n kind files = str_or (case map_of files kind of None \<Rightarrow> [] | Some f \<Rightarrow> take n (wf_content f)) ''(none)''"

definition context_text ::
  "dict \<Rightarrow> memory list \<times> memory list \<Rightarrow> skill_index \<Rightarrow> session_context \<Rightarrow> (string \<times> workspace_file) list \<Rightarrow> string" where
  "context_text orient mem index sc files =
     (let nl = [newline]; nl2 = [newline, newline];
          wiki_lines = map (\<lambda>v. let d = dict_or_empty v in ''- '' @ py_str (dget ''page_key'' d) @ '': '' @ py_str (dget ''title'' d) @
                          '' :: '' @ py_str (dget ''summary'' d)) (take 40 (list_or_empty (dget ''pages'' orient)));
          memory_lines = map (\<lambda>m. ''- '' @ me_kind m @ '': '' @ me_content m) (fst mem @ snd mem);
          skill_lines = map (\<lambda>(_, s). ''- '' @ skl_key s @ '': '' @ skl_name s @ '' :: '' @ skl_description s) (take 20 index)
      in ''SOUL.md:'' @ nl @ file_text 2500 ''soul'' files @ nl2 @ ''USER.md:'' @ nl @ file_text 2500 ''user'' files @ nl2 @
         ''MEMORY.md excerpt:'' @ nl @ file_text 3000 ''memory'' files @ nl2 @
         ''Conversation summary:'' @ nl @ str_or (sc_summary sc) ''(none)'' @ nl2 @
         ''Recent conversation:'' @ nl @ join nl (map (\<lambda>m. ''- '' @ sm_role m @ '': '' @ take 800 (sm_content m)) (sc_messages sc)) @ nl2 @
         ''Memory context:'' @ nl @ join nl memory_lines @ nl2 @
         ''Skill index (search/read full skills only when relevant):'' @ nl @ str_or (join nl skill_lines) ''(none)'' @ nl2 @
         ''LLM-Wiki orientation:'' @ nl @ ''Schema present: '' @ (if truthy (dget ''schema'' orient) then ''True'' else ''False'') @ nl @
         ''Index excerpt:'' @ nl @ take 2000 (py_str (dget_default ''index'' (JStr '''') orient)) @ nl @
         ''Recent log:'' @ nl @ take 1200 (py_str (dget_default ''recent_log'' (JStr '''') orient)) @ nl @
         ''Page index map:'' @ nl @ join nl wiki_lines)"

definition prompt_messages :: "string \<Rightarrow> string \<Rightarrow> dict list" where
  "prompt_messages context message =
     [[(''role'', JStr ''system''), (''content'', JStr system_prompt)], [(''role'', JStr ''system''), (''content'', JStr context)],
      [(''role'', JStr ''user''), (''content'', JStr message)]]"

definition run_llm :: "agent_env \<Rightarrow> string \<Rightarrow> string \<Rightarrow> string \<Rightarrow> string \<Rightarrow> world \<Rightarrow> (interrupt + llm_outcome) \<times> world" where
  "run_llm env turn_id session_id message context w = (case ag_llm env of
     None \<Rightarrow> (Inr \<lparr>lu_answer = '''', lu_calls = [], lu_status = ''not_configured'', lu_messages = [], lu_results = []\<rparr>, w)
   | Some llm \<Rightarrow>
       let messages = prompt_messages context message in
       (case llm messages (llm_tools env) w of
          (Inl e, w1) \<Rightarrow>
            (case llm_refusal ''llm'' e w1 of (st, w2) \<Rightarrow>
               (Inr \<lparr>lu_answer = '''', lu_calls = [], lu_status = st, lu_messages = messages, lu_results = []\<rparr>, w2))
        | (Inr response, w1) \<Rightarrow>
            continue_llm_loop 4 env llm (llm_tools env) turn_id session_id 0 ''completed'' response messages [] [] w1))"

section \<open>A turn\<close>

definition should_delegate :: "string \<Rightarrow> bool" where
  "should_delegate message = list_ex (\<lambda>t. py_in t (py_lower message))
     [''deepresearch'', ''deep research'', ''deep-research'', ''research report'']"

definition delegated_answer :: "dict \<Rightarrow> string" where
  "delegated_answer r =
     (if dget ''status'' r = JStr ''failed'' then ''A2A delegation failed: '' @ py_str (py_or (dget ''error'' r) (JStr ''unknown error''))
      else let task_id = dget ''task_id'' r; status = py_or (dget ''status'' r) (JStr ''''); answer = dget ''answer'' r;
               artifacts = list_or_empty (dget ''artifacts'' r)
        in join '' '' ([if status = JStr ''completed'' then ''A2A delegation completed'' else ''A2A delegation started''] @
             (if truthy task_id then [''task_id='' @ py_str task_id] else []) @
             (if truthy status then [''status='' @ py_str status] else []) @
             (if artifacts \<noteq> [] then [''artifacts='' @ nat_str (length artifacts)] else []) @
             (if truthy answer then [[newline, newline] @ py_str answer] else [])))"

definition fallback_answer :: "nat \<Rightarrow> nat \<Rightarrow> nat \<Rightarrow> nat \<Rightarrow> string" where
  "fallback_answer wiki_hits resident dynamic results = join '' '' ([''SoulClaw runtime is online.''] @
     (if wiki_hits > 0 then [''Retrieved '' @ nat_str wiki_hits @ '' Wiki item(s).''] else []) @
     (if resident > 0 \<or> dynamic > 0
      then [''Retrieved '' @ nat_str resident @ '' resident and '' @ nat_str dynamic @ '' dynamic memory item(s).''] else []) @
     (if results > 0 then [''Executed '' @ nat_str results @ '' tool call(s).''] else []))"

definition degraded_answer :: "string \<Rightarrow> string" where
  "degraded_answer st =
     (if st = ''failed'' then ''The model call failed. The turn was recorded with trace context for troubleshooting.''
      else if st = ''rate_limited'' then ''The model call was rate limited. Please retry after the configured cooldown window.''
      else if st = ''circuit_open'' then ''The model circuit breaker is open. Please retry after the recovery window.''
      else '''')"

definition skill_index_of :: "agent_env \<Rightarrow> string \<Rightarrow> world \<Rightarrow> skill_index" where
  "skill_index_of env message w = (case ag_registry env of None \<Rightarrow> [] | Some _ \<Rightarrow> skill_search w message 12)"

definition save_approval_checkpoint :: "string \<Rightarrow> dict \<Rightarrow> world \<Rightarrow> world" where
  "save_approval_checkpoint aid checkpoint w =
     (if aid = [] then w
      else case uuid_parse aid of
        None \<Rightarrow> w
      | Some i \<Rightarrow>
          upd_approval i (\<lambda>a. a\<lparr>ap_turn_checkpoint := checkpoint,
            ap_original_tool_call := dict_or_empty (dget ''pending_tool_call'' checkpoint),
            ap_allowed_decisions := default_decisions,
            ap_resume_state := dset ''mode'' (JStr ''resume_turn'') (ap_resume_state a),
            ap_payload := (if ap_payload a = [] then [] else dset ''resume_mode'' (JStr ''agent_tool_loop'') (ap_payload a))\<rparr>) w)"

abbreviation objs :: "dict list \<Rightarrow> json" where
  "objs ds \<equiv> JList (map JObj ds)"

definition interrupt_fields :: "interrupt \<Rightarrow> dict" where
  "interrupt_fields i =
     [(''messages'', objs (ai_messages i)), (''tool_calls'', objs (ai_tool_calls i)), (''tool_results'', objs (ai_tool_results i)),
      (''round_tool_calls'', objs (ai_round_tool_calls i)), (''round_completed_results'', objs (ai_completed_results i)),
      (''pending_tool_call'', JObj (ai_pending_tool_call i)), (''pending_index'', JInt (ai_pending_index i)),
      (''round_index'', JInt (ai_round_index i))]"

definition turn_checkpoint :: "string \<Rightarrow> string \<Rightarrow> string \<Rightarrow> interrupt \<Rightarrow> dict" where
  "turn_checkpoint session_id turn_id message i =
     [(''mode'', JStr ''agent_tool_loop''), (''session_id'', JStr session_id), (''turn_id'', JStr turn_id), (''message'', JStr message)] @
     interrupt_fields i"

text \<open>What the middle part of a turn leaves for its end.\<close>

record turn_state =
  ts_answer :: string
  ts_llm_status :: string
  ts_calls :: "dict list"
  ts_results :: "dict list"
  ts_status :: string
  ts_approval_id :: string
  ts_pending :: "dict option"
  ts_resume :: bool

definition turn_of_outcome :: "llm_outcome \<Rightarrow> turn_state" where
  "turn_of_outcome u = \<lparr>ts_answer = lu_answer u, ts_llm_status = lu_status u, ts_calls = lu_calls u, ts_results = lu_results u,
     ts_status = ''completed'', ts_approval_id = '''', ts_pending = None, ts_resume = False\<rparr>"

definition turn_of_interrupt :: "interrupt \<Rightarrow> turn_state" where
  "turn_of_interrupt i = \<lparr>ts_answer = ''Approval is required before I can continue this turn.'', ts_llm_status = ''approval_required'',
     ts_calls = ai_tool_calls i, ts_results = ai_tool_results i, ts_status = ''approval_required'', ts_approval_id = ai_approval_id i,
     ts_pending = Some (ai_pending_tool_call i), ts_resume = (ai_approval_id i \<noteq> [])\<rparr>"

definition llm_turn :: "agent_env \<Rightarrow> string \<Rightarrow> string \<Rightarrow> string \<Rightarrow> string \<Rightarrow> world \<Rightarrow> turn_state \<times> world" where
  "llm_turn env turn_id session_id message context w = (case run_llm env turn_id session_id message context w of
     (Inr u, w1) \<Rightarrow> (turn_of_outcome u, w1)
   | (Inl i, w1) \<Rightarrow>
       (turn_of_interrupt i,
        emit_full True ''agent.node.approval_interrupt''
          [(''approval_id'', JStr (ai_approval_id i)),
           (''tool_name'', if ai_pending_tool_call i = [] then JStr '''' else dget ''name'' (ai_pending_tool_call i))]
          ''warning'' session_id turn_id
          (save_approval_checkpoint (ai_approval_id i) (turn_checkpoint session_id turn_id message i) w1)))"

text \<open>The calls a client passes to the turn: none of them interrupts it.\<close>

fun explicit_calls :: "agent_env \<Rightarrow> tool_services \<Rightarrow> string \<Rightarrow> string \<Rightarrow> dict list \<Rightarrow> turn_state \<Rightarrow> world \<Rightarrow> turn_state \<times> world" where
  "explicit_calls env sv turn_id session_id [] ts w = (ts, w)"
| "explicit_calls env sv turn_id session_id (c # cs) ts w =
     (case run_call env sv turn_id (call_approved c) c w of (r, w1) \<Rightarrow>
        let result = (case r of
              Inr d \<Rightarrow> d
            | Inl (ToolApprovalRequired m t aid) \<Rightarrow> approval_result (ToolApprovalRequired m t aid) (call_label c) aid
            | Inl e \<Rightarrow> failed_result e (call_label c));
            ts1 = (case r of
              Inl (ToolApprovalRequired m t aid) \<Rightarrow>
                ts\<lparr>ts_approval_id := aid, ts_pending := Some c, ts_status := ''approval_required'', ts_resume := False\<rparr>
            | _ \<Rightarrow> ts)
        in explicit_calls env sv turn_id session_id cs (ts1\<lparr>ts_results := ts_results ts1 @ [result]\<rparr>)
             (record_tool env session_id turn_id result [(''tool_name'', call_label c)] w1))"

definition wiki_context :: "wiki_hit list \<Rightarrow> json" where
  "wiki_context hits = JList (map (\<lambda>h. let p = wh_page h in JObj
     [(''page_key'', JStr (wpg_key p)), (''title'', JStr (wpg_title p)), (''source'', JStr (wh_source h)), (''score'', JFloat (wh_score h)),
      (''summary'', JStr (wpg_summary p)), (''path'', JStr (wpg_path p))]) hits)"

text \<open>Everything a turn reads before the model is asked.\<close>

record turn_inputs =
  ti_session :: session_context
  ti_delegated :: "dict option"
  ti_orientation :: dict
  ti_hits :: "wiki_hit list"
  ti_memory :: "memory list \<times> memory list"
  ti_skills :: skill_index
  ti_files :: "(string \<times> workspace_file) list"

definition delegate_turn :: "agent_env \<Rightarrow> string \<Rightarrow> string \<Rightarrow> string \<Rightarrow> bool \<Rightarrow> world \<Rightarrow> dict option \<times> world" where
  "delegate_turn env turn_id session_id message explicit w = (case ag_a2a env of
     None \<Rightarrow> (None, w)
   | Some dlg \<Rightarrow>
       if explicit \<or> \<not> should_delegate message then (None, w)
       else (case dlg \<lparr>dr_capability = ''deep-research'', dr_query = message,
                 dr_context = [(''session_id'', JStr session_id), (''turn_id'', JStr turn_id)], dr_files = [], dr_options = [],
                 dr_connection_name = ''''\<rparr> w of
         (Inr d, w1) \<Rightarrow> (Some d, w1)
       | (Inl e, w1) \<Rightarrow> (Some [(''status'', JStr ''failed''), (''error'', JStr (exc_str e))],
           emit_full True ''a2a.delegate.failed'' [(''error'', JStr (exc_str e)), (''message_preview'', JStr (take 200 message))]
             ''warning'' session_id turn_id w1)))"

definition turn_context :: "agent_env \<Rightarrow> turn_inputs \<Rightarrow> turn_state \<Rightarrow> bool \<Rightarrow> world \<Rightarrow> dict" where
  "turn_context env ti ts wiki_read_used w =
     [(''wiki'', wiki_context (ti_hits ti)),
      (''memory'', JObj [(''resident'', strs (map me_id (fst (ti_memory ti)))), (''dynamic'', strs (map me_id (snd (ti_memory ti))))]),
      (''conversation'', JObj [(''summary'', JBool (sc_summary (ti_session ti) \<noteq> [])),
         (''recent_messages'', JInt (int (length (sc_messages (ti_session ti))))), (''total_messages'', JInt (sc_total (ti_session ti)))]),
      (''wiki_orientation'', JObj [(''page_count'', dget_default ''page_count'' (JInt 0) (ti_orientation ti)),
         (''canonical_files'', if truthy (dget ''root'' (ti_orientation ti)) then JBool (truthy (dget ''index'' (ti_orientation ti)))
            else dget ''root'' (ti_orientation ti))]),
      (''workspace'', JObj (map (\<lambda>(k, f). (k, JObj [(''path'', JStr (wf_path f)), (''updated_at'', JStr (ag_mtime env (wf_path f) w))])) (ti_files ti))),
      (''skills'', JObj [(''indexed'', JInt (int (length (ti_skills ti)))),
         (''items'', JList (map (\<lambda>(_, s). JObj [(''skill_key'', JStr (skl_key s)), (''name'', JStr (skl_name s))]) (take 8 (ti_skills ti))))]),
      (''tools'', objs (ts_results ts)),
      (''a2a'', JObj (case ti_delegated ti of None \<Rightarrow> [] | Some d \<Rightarrow> d)),
      (''llm'', JObj [(''status'', JStr (ts_llm_status ts)), (''tool_calls'', objs (ts_calls ts)), (''wiki_read_used'', JBool wiki_read_used)]),
      (''trace'', JObj [(''trace_id'', JStr (trace_id w))]),
      (''turn'', JObj [(''status'', JStr (ts_status ts)), (''approval_id'', JStr (ts_approval_id ts)),
         (''pending_tool_call'', JObj (case ts_pending ts of None \<Rightarrow> [] | Some c \<Rightarrow> c)), (''resume_available'', JBool (ts_resume ts))])]"

definition summary_llm :: "agent_env \<Rightarrow> llm" where
  "summary_llm env = map_option (\<lambda>llm messages. op_bind (llm messages []) (\<lambda>r. op_ok (lr_content r))) (ag_llm env)"

definition record_answer :: "agent_env \<Rightarrow> string \<Rightarrow> string \<Rightarrow> string \<Rightarrow> dict \<Rightarrow> bool \<Rightarrow> world \<Rightarrow> world" where
  "record_answer env session_id turn_id answer metadata summarise w = (case ag_conv env of
     None \<Rightarrow> w
   | Some cs \<Rightarrow>
       let w1 = snd (record_assistant_message cs (ag_new_id env w) (ag_now env w) session_id turn_id answer metadata w)
       in if summarise then snd (update_summary_if_needed cs (ag_new_id env w1) session_id (summary_llm env) w1) else w1)"

definition finish_turn :: "agent_env \<Rightarrow> string \<Rightarrow> string \<Rightarrow> turn_inputs \<Rightarrow> turn_state \<Rightarrow> world \<Rightarrow> turn_result \<times> world" where
  "finish_turn env turn_id session_id ti ts w =
     (let answer = str_or (ts_answer ts) (str_or (degraded_answer (ts_llm_status ts))
            (fallback_answer (length (ti_hits ti)) (length (fst (ti_memory ti))) (length (snd (ti_memory ti))) (length (ts_results ts))));
          w1 = emit_full True ''agent.node.final_answer'' [(''llm_status'', JStr (ts_llm_status ts)),
                 (''tool_results'', JInt (int (length (ts_results ts)))), (''answer_preview'', JStr (take 200 answer))] ''info'' session_id turn_id w;
          read_used = list_ex (\<lambda>r. dget ''tool_name'' r = JStr ''wiki_read'' \<and> dget ''status'' r = JStr ''succeeded'') (ts_results ts);
          search_used = list_ex (\<lambda>r. dget ''tool_name'' r \<in> {JStr ''wiki_search'', JStr ''wiki_orient'', JStr ''wiki_follow_links''}) (ts_results ts);
          w2 = (if search_used \<and> \<not> read_used
                then emit_full True ''wiki.retrieval_guard.warning''
                       [(''reason'', JStr ''wiki index lookup occurred without wiki_read evidence'')] ''warning'' session_id turn_id w1
                else w1);
          w3 = record_answer env session_id turn_id answer [(''llm_status'', JStr (ts_llm_status ts))] True w2;
          context = turn_context env ti ts read_used w3
      in (\<lparr>tu_turn_id = turn_id, tu_answer = answer, tu_context = context, tu_status = ts_status ts, tu_approval_id = ts_approval_id ts,
           tu_pending_tool_call = ts_pending ts, tu_resume_available = ts_resume ts\<rparr>,
          emit_full True ''agent.node.post_turn'' [(''summary_checked'', JBool (ag_conv env \<noteq> None))] ''info'' session_id turn_id
          (emit_full True (if ts_status ts = ''approval_required'' then ''turn.approval_required'' else ''turn.completed'')
             [(''context'', JObj context)] ''info'' session_id turn_id w3)))"

definition no_context :: session_context where
  "no_context = \<lparr>sc_summary = '''', sc_messages = [], sc_total = 0\<rparr>"

definition read_inputs :: "agent_env \<Rightarrow> string \<Rightarrow> string \<Rightarrow> string \<Rightarrow> bool \<Rightarrow> turn_inputs op" where
  "read_inputs env turn_id session_id message explicit w =
     (let w0 = emit_full True ''turn.started'' [(''message_preview'', JStr (take 200 message))] ''info'' session_id turn_id w;
          sc = (case ag_conv env of None \<Rightarrow> no_context | Some cs \<Rightarrow> recent_context cs session_id (Some 12) w0);
          w1 = (case ag_conv env of None \<Rightarrow> w0
                | Some cs \<Rightarrow> snd (record_user_message cs (ag_new_id env w0) (ag_now env w0) session_id turn_id message [] w0))
      in case delegate_turn env turn_id session_id message explicit w1 of (delegated, w2) \<Rightarrow>
           let orient = orientation (ag_wiki env) 40 w2;
               hits = (if ag_llm env = None then search_wiki (ag_wiki env) message 5 '''' '''' False w2 else [])
           in case resident_context (ag_mem env) message 5 w2 of (mem, w3) \<Rightarrow>
                let index = skill_index_of env message w3
                in op_bind (case ag_workspace env of None \<Rightarrow> op_ok [] | Some seed \<Rightarrow> read_all seed) (\<lambda>files w4.
                     (Inr \<lparr>ti_session = sc, ti_delegated = delegated, ti_orientation = orient, ti_hits = hits, ti_memory = mem, ti_skills = index,
                           ti_files = files\<rparr>,
                      emit_full True ''agent.node.context_assembled''
                        [(''wiki_pages'', dget_default ''page_count'' (JInt 0) orient), (''resident_memory'', JInt (int (length (fst mem)))),
                         (''dynamic_memory'', JInt (int (length (snd mem)))), (''skills'', JInt (int (length index)))] ''info'' session_id turn_id w4)) w3)"

definition run_turn :: "agent_env \<Rightarrow> string \<Rightarrow> string \<Rightarrow> dict list option \<Rightarrow> turn_result op" where
  "run_turn env message session_id tool_calls w =
     (let turn_id = ag_new_id env w
      in op_bind (read_inputs env turn_id session_id message (tool_calls \<noteq> None)) (\<lambda>ti w1.
           case (case ti_delegated ti of
                   Some d \<Rightarrow> (turn_of_outcome \<lparr>lu_answer = delegated_answer d, lu_calls = [], lu_status = ''delegated_a2a'', lu_messages = [],
                                lu_results = []\<rparr>, w1)
                 | None \<Rightarrow>
                     (case tool_calls of
                        Some _ \<Rightarrow> (turn_of_outcome \<lparr>lu_answer = '''', lu_calls = [], lu_status = ''not_configured'', lu_messages = [],
                                     lu_results = []\<rparr>, w1)
                      | None \<Rightarrow> llm_turn env turn_id session_id message
                          (context_text (ti_orientation ti) (ti_memory ti) (ti_skills ti) (ti_session ti) (ti_files ti)) w1)) of (ts, w2) \<Rightarrow>
             case (case (ag_tools env, tool_calls) of
                     (Some sv, Some cs) \<Rightarrow> explicit_calls env sv turn_id session_id cs ts w2
                   | _ \<Rightarrow> (ts, w2)) of (ts1, w3) \<Rightarrow>
               case finish_turn env turn_id session_id ti ts1 w3 of (r, w4) \<Rightarrow> (Inr r, w4)) w)"

section \<open>Resuming an interrupted turn\<close>

text \<open>The checkpoint as \<open>resume_turn\<close> reads it. The index and the round are numbers the agent wrote, not negative.\<close>

definition dicts :: "json \<Rightarrow> dict list" where
  "dicts v = map dict_or_empty (list_or_empty v)"

definition pending_of :: "dict \<Rightarrow> dict" where
  "pending_of cp = dict_or_empty (dget ''pending_tool_call'' cp)"

definition number_of :: "string \<Rightarrow> dict \<Rightarrow> nat" where
  "number_of k cp = (case dget k cp of JInt i \<Rightarrow> nat i | _ \<Rightarrow> 0)"

definition prior_results :: "dict \<Rightarrow> dict list" where
  "prior_results cp =
     (let stored = dicts (dget ''tool_results'' cp);
          marker = (if stored \<noteq> [] \<and> dget ''status'' (last stored) = JStr ''approval_required'' then 1 else 0)
      in take (length stored - length (dicts (dget ''round_completed_results'' cp)) - marker) stored)"

definition set_approval :: "uuid \<Rightarrow> string \<Rightarrow> instant \<Rightarrow> world \<Rightarrow> world" where
  "set_approval i status now w = upd_approval i (\<lambda>a. a\<lparr>ap_status := status, ap_resolved_at := Some now\<rparr>) w"

definition set_resume_state :: "uuid \<Rightarrow> dict \<Rightarrow> world \<Rightarrow> world" where
  "set_resume_state i d w = upd_approval i (\<lambda>a. a\<lparr>ap_resume_state := dmerge (ap_resume_state a) d\<rparr>) w"

text \<open>The result of a turn that waits for another approval.\<close>

definition nested_result :: "string \<Rightarrow> string \<Rightarrow> dict \<Rightarrow> dict list \<Rightarrow> turn_result" where
  "nested_result turn_id aid pending results =
     \<lparr>tu_turn_id = turn_id, tu_answer = ''Approval is required before I can continue this turn.'',
      tu_context = [(''tools'', objs results), (''turn'', JObj [(''status'', JStr ''approval_required''), (''approval_id'', JStr aid),
         (''pending_tool_call'', JObj pending), (''resume_available'', JBool True)])],
      tu_status = ''approval_required'', tu_approval_id = aid, tu_pending_tool_call = Some pending, tu_resume_available = True\<rparr>"

definition finish_resumed_turn ::
  "agent_env \<Rightarrow> string \<Rightarrow> string \<Rightarrow> string \<Rightarrow> string \<Rightarrow> uuid \<Rightarrow> dict list \<Rightarrow> world \<Rightarrow> turn_result \<times> world" where
  "finish_resumed_turn env session_id turn_id answer status aid results w =
     (\<lparr>tu_turn_id = turn_id, tu_answer = answer,
       tu_context = [(''tools'', objs results),
         (''turn'', JObj [(''status'', JStr status), (''approval_id'', JStr aid), (''resume_available'', JBool False)])],
       tu_status = status, tu_approval_id = aid, tu_pending_tool_call = None, tu_resume_available = False\<rparr>,
      record_answer env session_id turn_id answer [(''llm_status'', JStr status), (''resumed_from_approval'', JStr aid)] False
        (emit_full True ''turn.resumed'' [(''approval_id'', JStr aid), (''status'', JStr status)] ''info'' session_id turn_id w))"

text \<open>The rest of the interrupted round: the pending call with the approval, the calls after it with what they carry.
  The value is the result of a further interrupt, or the results of the round; an exception of a tool is not caught.\<close>

fun resume_calls ::
  "agent_env \<Rightarrow> tool_services \<Rightarrow> string \<Rightarrow> string \<Rightarrow> uuid \<Rightarrow> dict \<Rightarrow> bool \<Rightarrow> nat \<Rightarrow> dict list \<Rightarrow> dict list \<Rightarrow> (turn_result + dict list) op" where
  "resume_calls env sv turn_id session_id aid cp first index results [] w = (Inr (Inr results), w)"
| "resume_calls env sv turn_id session_id aid cp first index results (c # cs) w =
     (case run_call env sv turn_id (first \<or> call_approved c) c w of
        (Inl (ToolApprovalRequired m t nid), w1) \<Rightarrow>
          (let all = prior_results cp @ results @ [approval_result (ToolApprovalRequired m t nid) (JStr (call_name c)) nid]
           in (Inr (Inl (nested_result turn_id nid c all)),
               save_approval_checkpoint nid
                 (dmerge cp [(''tool_results'', objs all), (''round_completed_results'', objs results), (''pending_tool_call'', JObj c),
                    (''pending_index'', JInt (int index))]) w1))
      | (Inl e, w1) \<Rightarrow> (Inl e, w1)
      | (Inr d, w1) \<Rightarrow>
          resume_calls env sv turn_id session_id aid cp False (Suc index) (results @ [d]) cs
            (record_tool env session_id turn_id d
              [(''tool_name'', JStr (call_name c)), (''approval_id'', JStr aid), (''resumed'', JBool True)] w1))"

text \<open>The language model after the round; a fixed answer when there is none or it raises.\<close>

definition resume_llm ::
  "agent_env \<Rightarrow> string \<Rightarrow> string \<Rightarrow> dict \<Rightarrow> dict list \<Rightarrow> dict list \<Rightarrow> world \<Rightarrow> (interrupt + llm_outcome) \<times> world" where
  "resume_llm env turn_id session_id cp messages results w =
     (let calls = dicts (dget ''tool_calls'' cp);
          fallback = (\<lambda>st. \<lparr>lu_answer = fallback_answer 0 0 0 (length results), lu_calls = calls, lu_status = st, lu_messages = messages,
                         lu_results = results\<rparr>)
      in case ag_llm env of
           None \<Rightarrow> (Inr (fallback ''not_configured''), w)
         | Some llm \<Rightarrow>
             (case llm messages (llm_tools env) w of
                (Inl e, w1) \<Rightarrow>
                  (Inr (fallback ''failed''),
                   emit_full True ''llm.resume_turn.failed'' [(''error'', JStr (exc_str e))] ''warning'' session_id turn_id w1)
              | (Inr response, w1) \<Rightarrow>
                  (let start = number_of ''round_index'' cp + 1 in
                   continue_llm_loop (4 - start) env llm (llm_tools env) turn_id session_id (int start)
                     (if results = [] then ''completed'' else ''completed_with_tools'') response messages calls results w1)))"

definition close_resumed ::
  "agent_env \<Rightarrow> string \<Rightarrow> string \<Rightarrow> uuid \<Rightarrow> string \<Rightarrow> string \<Rightarrow> llm_outcome \<Rightarrow> world \<Rightarrow> turn_result \<times> world" where
  "close_resumed env session_id turn_id aid decision tool_name u w =
     (let w1 = set_resume_state aid [(''resumed'', JBool True), (''decision'', JStr decision)] w;
          w2 = emit_full True ''turn.resumed'' [(''approval_id'', JStr aid), (''tool_name'', JStr tool_name)] ''info'' session_id turn_id w1;
          w3 = emit_full True ''agent.node.final_answer'' [(''llm_status'', JStr (lu_status u)),
                 (''tool_results'', JInt (int (length (lu_results u))))] ''info'' session_id turn_id w2
      in (\<lparr>tu_turn_id = turn_id, tu_answer = lu_answer u,
           tu_context = [(''tools'', objs (lu_results u)),
             (''llm'', JObj [(''status'', JStr (lu_status u)), (''tool_calls'', objs (lu_calls u))]),
             (''turn'', JObj [(''status'', JStr ''completed''), (''approval_id'', JStr aid), (''resume_available'', JBool False)])],
           tu_status = ''completed'', tu_approval_id = '''', tu_pending_tool_call = None, tu_resume_available = False\<rparr>,
          record_answer env session_id turn_id (lu_answer u)
            [(''llm_status'', JStr (lu_status u)), (''resumed_from_approval'', JStr aid)] True w3))"

text \<open>The part of \<open>resume_turn\<close> after the calls of the round.\<close>

definition resume_round ::
  "agent_env \<Rightarrow> string \<Rightarrow> string \<Rightarrow> uuid \<Rightarrow> string \<Rightarrow> string \<Rightarrow> dict \<Rightarrow> dict list \<Rightarrow> dict list \<Rightarrow> turn_result op" where
  "resume_round env session_id turn_id aid decision tool_name cp calls round_results w =
     (let w1 = (if ag_conv env = None then w
                else emit_full True ''agent.node.tool_execution'' [(''tool_results'', JInt (int (length round_results)))] ''info''
                       session_id turn_id w)
      in if length round_results > length calls then (Inl (OtherError ''list index out of range''), w1)
         else
           let messages = append_tool_messages (dicts (dget ''messages'' cp)) (number_calls calls) round_results
           in (case resume_llm env turn_id session_id cp messages (prior_results cp @ round_results) w1 of
                 (Inl i, w2) \<Rightarrow>
                   (Inr (nested_result turn_id (ai_approval_id i) (ai_pending_tool_call i) (ai_tool_results i)),
                    save_approval_checkpoint (ai_approval_id i) (dmerge cp (interrupt_fields i)) w2)
               | (Inr u, w2) \<Rightarrow> map_prod Inr id (close_resumed env session_id turn_id aid decision tool_name u w2)))"

text \<open>The part of \<open>resume_turn\<close> after the decision to approve.\<close>

definition resume_pending :: "approval \<Rightarrow> dict \<Rightarrow> dict" where
  "resume_pending a cp = dset ''arguments''
     (JObj (if ap_edited_arguments a \<noteq> [] then ap_edited_arguments a else dict_or_empty (dget ''arguments'' (pending_of cp)))) (pending_of cp)"

definition resume_approved ::
  "agent_env \<Rightarrow> string \<Rightarrow> string \<Rightarrow> approval \<Rightarrow> string \<Rightarrow> dict \<Rightarrow> turn_result op" where
  "resume_approved env session_id turn_id a decision cp w =
     (let pending = resume_pending a cp;
          calls = (let cs = dicts (dget ''round_tool_calls'' cp) in if cs = [] then [pending] else cs);
          index = number_of ''pending_index'' cp;
          completed = dicts (dget ''round_completed_results'' cp);
          remaining = (if index < length calls then pending # drop (Suc index) calls else [])
      in case ag_tools env of
           None \<Rightarrow> (Inl (RuntimeError ''tool executor is not configured''), w)
         | Some sv \<Rightarrow>
             op_bind (resume_calls env sv turn_id session_id (ap_id a) cp True index completed remaining) (\<lambda>x w1. case x of
                 Inl r \<Rightarrow> (Inr r, w1)
               | Inr round_results \<Rightarrow>
                   if index \<ge> length calls then (Inl (OtherError ''list assignment index out of range''), w1)
                   else resume_round env session_id turn_id (ap_id a) decision (call_name (pending_of cp)) cp
                          (calls[index := pending]) round_results w1) w)"

definition resume_turn :: "agent_env \<Rightarrow> string \<Rightarrow> string \<Rightarrow> dict \<Rightarrow> string \<Rightarrow> turn_result op" where
  "resume_turn env approval_id decision0 edited_arguments response w = (case uuid_parse approval_id of
     None \<Rightarrow> (Inl (ValueError ''badly formed hexadecimal UUID string''), w)
   | Some i \<Rightarrow>
       (case get_approval w i of
          None \<Rightarrow> (Inl (KeyError (''approval not found: '' @ approval_id)), w)
        | Some a \<Rightarrow>
            (let cp = ap_turn_checkpoint a;
                 session_id = dstr_or ''session_id'' ''local'' cp;
                 turn_id = dstr ''turn_id'' cp;
                 decision = str_or (py_lower (py_strip decision0)) ''approve'';
                 stored = dicts (dget ''tool_results'' cp)
             in if dget ''mode'' cp \<noteq> JStr ''agent_tool_loop''
                then (Inl (ValueError ''approval does not have an agent turn checkpoint''), w)
                else if turn_id = [] \<or> pending_of cp = []
                then (Inl (ValueError ''approval checkpoint is missing turn_id or pending_tool_call''), w)
                else if decision \<notin> {''approve'', ''edit'', ''reject'', ''respond''}
                then (Inl (ValueError ''decision must be approve, edit, reject, or respond''), w)
                else if decision = ''respond'' then
                  (let answer = str_or response (dstr_or ''response'' ''Handled by human response.'' (ap_resume_state a));
                       w1 = set_resume_state i [(''response'', JStr answer), (''resumed'', JBool True), (''decision'', JStr ''respond'')]
                              (set_approval i ''cancelled'' (ag_now env w) w)
                   in (case finish_resumed_turn env session_id turn_id answer ''responded'' i stored w1 of (r, w2) \<Rightarrow> (Inr r, w2)))
                else if decision = ''reject'' then
                  (let answer = str_or response ''Approval was rejected, so I stopped that tool call.'';
                       w1 = set_resume_state i [(''resumed'', JBool True), (''decision'', JStr ''reject'')]
                              (set_approval i ''rejected'' (ag_now env w) w)
                   in (case finish_resumed_turn env session_id turn_id answer ''rejected'' i stored w1 of (r, w2) \<Rightarrow> (Inr r, w2)))
                else
                  (let edits = (decision = ''edit'' \<and> edited_arguments \<noteq> []);
                       w1 = (if edits then upd_approval i (\<lambda>a. a\<lparr>ap_edited_arguments := edited_arguments\<rparr>) w else w)
                   in resume_approved env session_id turn_id (if edits then a\<lparr>ap_edited_arguments := edited_arguments\<rparr> else a) decision cp
                        (set_approval i ''approved'' (ag_now env w) w1)))))"

end
