(* ===== verification/Security.thy ===== *)
theory Security
  imports Ops Clock Json
begin

text \<open>
  Passwords, tokens and the login: \<open>backend/infra/security.py\<close>, \<open>backend/api/admin/auth.py\<close> and \<open>get_current_user\<close>
  of \<open>backend/api/admin/deps.py\<close>.

  Bytes are strings of code points below 256. Base64 is modelled with the decoder of \<open>binascii\<close>, which skips
  characters outside the alphabet. Arguments are PBKDF2-HMAC-SHA256 (\<open>kdf\<close>: password bytes, salt,
  iterations), the random salt and identifier of a new user, the clock, the JWT library (\<open>jwt_encode\<close>,
  \<open>jwt_decode\<close>, whose errors are the values \<open>None\<close>) and the Redis client of the login throttle. An audit event has no actor in
  this model.
\<close>

section \<open>Base64\<close>

definition sextet_char :: "int \<Rightarrow> char" where
  "sextet_char n =
     (if n < 26 then char_of (65 + n) else if n < 52 then char_of (71 + n) else if n < 62 then char_of (n - 4)
      else if n = 62 then CHR ''-'' else CHR ''_'')"

text \<open>The decoder accepts both spellings of 62 and 63.\<close>

definition char_sextet :: "char \<Rightarrow> int option" where
  "char_sextet c =
     (let n = ordc c
      in if 65 \<le> n \<and> n \<le> 90 then Some (n - 65) else if 97 \<le> n \<and> n \<le> 122 then Some (n - 71)
         else if 48 \<le> n \<and> n \<le> 57 then Some (n + 4) else if c \<in> {CHR ''-'', CHR ''+''} then Some 62
         else if c \<in> {CHR ''_'', CHR ''/''} then Some 63 else None)"

fun urlsafe_b64encode :: "string \<Rightarrow> string" where
  "urlsafe_b64encode [] = []"
| "urlsafe_b64encode [a] = [sextet_char (ordc a div 4), sextet_char (ordc a mod 4 * 16), CHR ''='', CHR ''='']"
| "urlsafe_b64encode [a, b] =
     [sextet_char (ordc a div 4), sextet_char (ordc a mod 4 * 16 + ordc b div 16), sextet_char (ordc b mod 16 * 4), CHR ''='']"
| "urlsafe_b64encode (a # b # c # r) =
     [sextet_char (ordc a div 4), sextet_char (ordc a mod 4 * 16 + ordc b div 16),
      sextet_char (ordc b mod 16 * 4 + ordc c div 64), sextet_char (ordc c mod 64)] @ urlsafe_b64encode r"

text \<open>\<open>a2b pos left pads s\<close>: \<open>pos\<close> characters of the current group of four are read, \<open>left\<close> holds their bits
  that are not written yet, \<open>pads\<close> padding characters have followed.\<close>

fun a2b :: "nat \<Rightarrow> int \<Rightarrow> nat \<Rightarrow> string \<Rightarrow> exc + string" where
  "a2b pos left pads [] = (if pos = 0 then Inr [] else Inl (ValueError ''Incorrect padding''))"
| "a2b pos left pads (c # cs) =
     (if c = CHR ''='' then
        (if pos \<ge> 2 \<and> pos + (pads + 1) \<ge> 4 then Inr []
         else a2b pos left (if pos \<ge> 2 then pads + 1 else pads) cs)
      else case char_sextet c of
        None \<Rightarrow> a2b pos left pads cs
      | Some v \<Rightarrow>
          if pos = 0 then a2b 1 v 0 cs
          else if pos = 1 then map_sum id (Cons (char_of (left * 4 + v div 16))) (a2b 2 (v mod 16) 0 cs)
          else if pos = 2 then map_sum id (Cons (char_of (left * 16 + v div 4))) (a2b 3 (v mod 4) 0 cs)
          else map_sum id (Cons (char_of (left * 64 + v))) (a2b 0 0 0 cs))"

definition urlsafe_b64decode :: "string \<Rightarrow> exc + string" where
  "urlsafe_b64decode s =
     (if list_ex (\<lambda>c. ordc c \<ge> 128) s then Inl (ValueError ''string argument should contain only ASCII characters'')
      else a2b 0 0 0 s)"

definition b64 :: "string \<Rightarrow> string" where
  "b64 data = rstrip_of (\<lambda>c. c = CHR ''='') (urlsafe_b64encode data)"

definition unb64 :: "string \<Rightarrow> exc + string" where
  "unb64 value = urlsafe_b64decode (value @ replicate (nat (- int (length value) mod 4)) (CHR ''=''))"

section \<open>Passwords\<close>

definition PBKDF2_ITERATIONS :: int where
  "PBKDF2_ITERATIONS = 260000"

text \<open>\<open>password.encode("utf-8")\<close>.\<close>

definition utf8 :: "string \<Rightarrow> string" where
  "utf8 s = concat (map (\<lambda>c. let n = ordc c
     in if n < 128 then [c] else [char_of (192 + n div 64), char_of (128 + n mod 64)]) s)"

type_synonym kdf = "string \<Rightarrow> string \<Rightarrow> int \<Rightarrow> string"

definition pbkdf2_hmac :: "kdf \<Rightarrow> string \<Rightarrow> string \<Rightarrow> int \<Rightarrow> exc + string" where
  "pbkdf2_hmac kdf password salt iterations =
     (if iterations < 1 then Inl (ValueError ''iteration value must be greater than 0.'')
      else if iterations > 2147483647 then Inl (OtherError ''iteration value is too great.'')
      else Inr (kdf password salt iterations))"

definition hash_password :: "kdf \<Rightarrow> string \<Rightarrow> string \<Rightarrow> string" where
  "hash_password kdf salt password =
     ''pbkdf2_sha256$'' @ int_str PBKDF2_ITERATIONS @ ''$'' @ b64 salt @ ''$'' @ b64 (kdf (utf8 password) salt PBKDF2_ITERATIONS)"

text \<open>\<open>s.split(c, n)\<close>.\<close>

fun split_max :: "nat \<Rightarrow> char \<Rightarrow> string \<Rightarrow> string list" where
  "split_max 0 c s = [s]"
| "split_max (Suc n) c s = (case dropWhile (\<lambda>x. x \<noteq> c) s of
     [] \<Rightarrow> [s] | _ # rest \<Rightarrow> takeWhile (\<lambda>x. x \<noteq> c) s # split_max n c rest)"

text \<open>Everything that raises inside the \<open>try\<close> gives \<open>False\<close>; the key derivation is outside of it.\<close>

definition verify_password :: "kdf \<Rightarrow> string \<Rightarrow> string \<Rightarrow> exc + bool" where
  "verify_password kdf password encoded = (case split_max 3 CHR ''$'' encoded of
     [algorithm, iterations_raw, salt_raw, digest_raw] \<Rightarrow>
       if algorithm \<noteq> ''pbkdf2_sha256'' then Inr False
       else (case (int_of_str iterations_raw, unb64 salt_raw, unb64 digest_raw) of
         (Some iterations, Inr salt, Inr expected) \<Rightarrow>
           map_sum id (\<lambda>actual. actual = expected) (pbkdf2_hmac kdf (utf8 password) salt iterations)
       | _ \<Rightarrow> Inr False)
   | _ \<Rightarrow> Inr False)"

section \<open>Tokens and users\<close>

record security_settings =
  st_jwt_secret :: string
  st_jwt_algorithm :: string
  st_access_token_minutes :: int
  st_admin_username :: string
  st_admin_password :: string
  st_login_limit_enabled :: bool

record jwt_library =
  jwt_encode :: "dict \<Rightarrow> string \<Rightarrow> string \<Rightarrow> string"
  jwt_decode :: "string \<Rightarrow> string \<Rightarrow> string list \<Rightarrow> dict option"

definition token_payload :: "security_settings \<Rightarrow> instant \<Rightarrow> user \<Rightarrow> dict" where
  "token_payload cfg now u =
     [(''sub'', JStr (us_id u)), (''username'', JStr (us_username u)), (''role'', JStr (us_role u)),
      (''iat'', JInt (trunc_rat now)), (''exp'', JInt (trunc_rat (now + of_int (60 * st_access_token_minutes cfg))))]"

definition create_access_token :: "jwt_library \<Rightarrow> security_settings \<Rightarrow> instant \<Rightarrow> user \<Rightarrow> string" where
  "create_access_token jwt cfg now u = jwt_encode jwt (token_payload cfg now u) (st_jwt_secret cfg) (st_jwt_algorithm cfg)"

definition decode_access_token :: "jwt_library \<Rightarrow> security_settings \<Rightarrow> string \<Rightarrow> dict option" where
  "decode_access_token jwt cfg token = jwt_decode jwt token (st_jwt_secret cfg) [st_jwt_algorithm cfg]"

definition find_user :: "string \<Rightarrow> world \<Rightarrow> user option" where
  "find_user name w = get_row us_username name (users w)"

definition ensure_admin_user :: "kdf \<Rightarrow> security_settings \<Rightarrow> uuid \<Rightarrow> string \<Rightarrow> user op" where
  "ensure_admin_user kdf cfg uid salt w =
     (let password_hash = hash_password kdf salt (st_admin_password cfg)
      in case find_user (st_admin_username cfg) w of
           None \<Rightarrow>
             let u = \<lparr>us_id = uid, us_username = st_admin_username cfg, us_password_hash = password_hash, us_role = ''admin'',
                      us_is_active = True\<rparr>
             in (Inr u, w\<lparr>users := users w @ [u]\<rparr>)
         | Some u \<Rightarrow>
             let u1 = u\<lparr>us_is_active := True\<rparr>; put = (\<lambda>v. w\<lparr>users := upd_row us_username (us_username u) (\<lambda>_. v) (users w)\<rparr>)
             in (case verify_password kdf (st_admin_password cfg) (us_password_hash u) of
                   Inl e \<Rightarrow> (Inl e, put u1)
                 | Inr ok \<Rightarrow>
                     let u2 = (if ok then u1 else u1\<lparr>us_password_hash := password_hash\<rparr>) in (Inr u2, put u2)))"

definition parse_user_id :: "string \<Rightarrow> uuid option" where
  "parse_user_id raw = uuid_parse raw"

section \<open>Login\<close>

text \<open>An HTTP error of the route, or an exception that the framework turns into an internal error.\<close>

datatype api_error = HTTPException int string | Unhandled exc

record 'r login_redis =
  lg_get :: "string \<Rightarrow> 'r \<Rightarrow> (exc + int) \<times> 'r"
  lg_incr :: "string \<Rightarrow> 'r \<Rightarrow> (exc + int) \<times> 'r"
  lg_expire :: "string \<Rightarrow> int \<Rightarrow> 'r \<Rightarrow> (exc + unit) \<times> 'r"
  lg_delete :: "string \<Rightarrow> 'r \<Rightarrow> (exc + unit) \<times> 'r"

record 'r login_state =
  lo_failures :: "(string \<times> (int \<times> rat)) list"
  lo_redis :: 'r
  lo_world :: world

definition client_key :: "string option \<Rightarrow> string" where
  "client_key host = ''login:'' @ (case host of None \<Rightarrow> ''unknown'' | Some h \<Rightarrow> h)"

definition failures_of :: "string \<Rightarrow> 'r login_state \<Rightarrow> int \<times> rat" where
  "failures_of key s = (case map_of (lo_failures s) key of None \<Rightarrow> (0, 0) | Some x \<Rightarrow> x)"

definition check_login_rate_limit ::
  "security_settings \<Rightarrow> 'r login_redis option \<Rightarrow> rat \<Rightarrow> string \<Rightarrow> 'r login_state \<Rightarrow> (api_error + unit) \<times> 'r login_state" where
  "check_login_rate_limit cfg redis now key s =
     (if \<not> st_login_limit_enabled cfg then (Inr (), s)
      else case redis of
        Some client \<Rightarrow>
          (case lg_get client key (lo_redis s) of
             (Inl e, r) \<Rightarrow> (Inl (Unhandled e), s\<lparr>lo_redis := r\<rparr>)
           | (Inr n, r) \<Rightarrow>
               (if n \<ge> 8 then Inl (HTTPException 429 ''too many login attempts'') else Inr (), s\<lparr>lo_redis := r\<rparr>))
      | None \<Rightarrow>
          (case failures_of key s of (n, until) \<Rightarrow>
             (if n \<ge> 8 \<and> until > now then Inl (HTTPException 429 ''too many login attempts'') else Inr (), s)))"

definition record_login_failure ::
  "security_settings \<Rightarrow> 'r login_redis option \<Rightarrow> rat \<Rightarrow> string \<Rightarrow> 'r login_state \<Rightarrow> (api_error + unit) \<times> 'r login_state" where
  "record_login_failure cfg redis now key s =
     (if \<not> st_login_limit_enabled cfg then (Inr (), s)
      else case redis of
        Some client \<Rightarrow>
          (case lg_incr client key (lo_redis s) of
             (Inl e, r) \<Rightarrow> (Inl (Unhandled e), s\<lparr>lo_redis := r\<rparr>)
           | (Inr n, r) \<Rightarrow>
               if n = 1
               then (case lg_expire client key 900 r of (x, r1) \<Rightarrow> (map_sum Unhandled id x, s\<lparr>lo_redis := r1\<rparr>))
               else (Inr (), s\<lparr>lo_redis := r\<rparr>))
      | None \<Rightarrow> (Inr (), s\<lparr>lo_failures := put_assoc key (fst (failures_of key s) + 1, now + 900) (lo_failures s)\<rparr>))"

definition clear_login_failures ::
  "security_settings \<Rightarrow> 'r login_redis option \<Rightarrow> string \<Rightarrow> 'r login_state \<Rightarrow> (api_error + unit) \<times> 'r login_state" where
  "clear_login_failures cfg redis key s =
     (if \<not> st_login_limit_enabled cfg then (Inr (), s)
      else case redis of
        Some client \<Rightarrow> (case lg_delete client key (lo_redis s) of (x, r) \<Rightarrow> (map_sum Unhandled id x, s\<lparr>lo_redis := r\<rparr>))
      | None \<Rightarrow> (Inr (), s\<lparr>lo_failures := filter (\<lambda>(k, _). k \<noteq> key) (lo_failures s)\<rparr>))"

definition active_user :: "string \<Rightarrow> world \<Rightarrow> user option" where
  "active_user name w = find (\<lambda>u. us_username u = name \<and> us_is_active u) (users w)"

definition login ::
  "kdf \<Rightarrow> jwt_library \<Rightarrow> security_settings \<Rightarrow> 'r login_redis option \<Rightarrow> rat \<Rightarrow> string option \<Rightarrow> string \<Rightarrow> string \<Rightarrow>
   'r login_state \<Rightarrow> (api_error + dict) \<times> 'r login_state" where
  "login kdf jwt cfg redis now host username password s =
     (let key = client_key host in
      case check_login_rate_limit cfg redis now key s of
        (Inl e, s1) \<Rightarrow> (Inl e, s1)
      | (Inr _, s1) \<Rightarrow>
          (case (case active_user username (lo_world s1) of
                   None \<Rightarrow> Inr None
                 | Some u \<Rightarrow> map_sum id (\<lambda>ok. if ok then Some u else None) (verify_password kdf password (us_password_hash u))) of
             Inl e \<Rightarrow> (Inl (Unhandled e), s1)
           | Inr None \<Rightarrow>
               (case record_login_failure cfg redis now key s1 of
                  (Inl e, s2) \<Rightarrow> (Inl e, s2)
                | (Inr _, s2) \<Rightarrow> (Inl (HTTPException 401 ''invalid credentials''), s2))
           | Inr (Some u) \<Rightarrow>
               (case clear_login_failures cfg redis key s1 of
                  (Inl e, s2) \<Rightarrow> (Inl e, s2)
                | (Inr _, s2) \<Rightarrow>
                    (Inr [(''access_token'', JStr (create_access_token jwt cfg now u)), (''token_type'', JStr ''bearer''),
                          (''user'', JObj [(''username'', JStr (us_username u)), (''role'', JStr (us_role u))])],
                     s2\<lparr>lo_world := audit True ''auth.login'' ''user'' (us_id u) [] (lo_world s2)\<rparr>))))"

definition get_current_user :: "jwt_library \<Rightarrow> security_settings \<Rightarrow> string option \<Rightarrow> world \<Rightarrow> api_error + user" where
  "get_current_user jwt cfg credentials w = (case credentials of
     None \<Rightarrow> Inl (HTTPException 401 ''missing bearer token'')
   | Some token \<Rightarrow> (case decode_access_token jwt cfg token of
       None \<Rightarrow> Inl (HTTPException 401 ''invalid bearer token'')
     | Some payload \<Rightarrow> (case parse_user_id (dstr ''sub'' payload) of
         None \<Rightarrow> Inl (HTTPException 401 ''invalid token subject'')
       | Some uid \<Rightarrow> (case find (\<lambda>u. us_id u = uid \<and> us_is_active u) (users w) of
           None \<Rightarrow> Inl (HTTPException 401 ''user not found'') | Some u \<Rightarrow> Inr u))))"

definition me :: "user \<Rightarrow> dict" where
  "me u = [(''id'', JStr (us_id u)), (''username'', JStr (us_username u)), (''role'', JStr (us_role u)),
     (''is_active'', JBool (us_is_active u))]"

definition logout :: "user \<Rightarrow> world \<Rightarrow> dict \<times> world" where
  "logout u w = ([(''ok'', JBool True)], audit True ''auth.logout'' ''user'' (us_id u) [] w)"

section \<open>Round trips\<close>

lemma sextet_chars:
  assumes "0 \<le> n" and "n < 64"
  shows "char_sextet (sextet_char n) = Some n" "sextet_char n \<noteq> CHR ''=''" "sextet_char n \<noteq> CHR ''$''" "ordc (sextet_char n) < 128"
proof -
  let ?P = "\<lambda>n. char_sextet (sextet_char n) = Some n \<and> sextet_char n \<noteq> CHR ''='' \<and> sextet_char n \<noteq> CHR ''$'' \<and> ordc (sextet_char n) < 128"
  have "list_all ?P (map int [0..<64])" by code_simp
  then have "?P n" using assms by (simp add: list_all_iff image_iff) (metis atLeastLessThan_iff nat_0_le nat_less_iff zero_le of_nat_numeral)
  then show "char_sextet (sextet_char n) = Some n" "sextet_char n \<noteq> CHR ''=''" "sextet_char n \<noteq> CHR ''$''" "ordc (sextet_char n) < 128"
    by blast+
qed

lemma byte_parts:
  "0 \<le> ordc a div 4" "ordc a div 4 < 64" "0 \<le> ordc a mod 4 * 16 + ordc b div 16" "ordc a mod 4 * 16 + ordc b div 16 < 64"
  "0 \<le> ordc a mod 16 * 4 + ordc b div 64" "ordc a mod 16 * 4 + ordc b div 64 < 64" "0 \<le> ordc a mod 64" "ordc a mod 64 < 64"
  "0 \<le> ordc a mod 4 * 16" "ordc a mod 4 * 16 < 64" "0 \<le> ordc a mod 16 * 4" "ordc a mod 16 * 4 < 64"
  using ordc_range [of a] ordc_range [of b] by (auto simp: div_less_iff_less_mult)

lemma byte_bits:
  "ordc a div 16 div 16 = 0" "ordc a div 16 mod 16 = ordc a div 16" "ordc a div 64 div 4 = 0" "ordc a div 64 mod 4 = ordc a div 64"
proof -
  have "0 \<le> ordc a div 16" "ordc a div 16 < 16" "0 \<le> ordc a div 64" "ordc a div 64 < 4" using ordc_range [of a] by auto
  then show "ordc a div 16 div 16 = 0" "ordc a div 16 mod 16 = ordc a div 16" "ordc a div 64 div 4 = 0"
    "ordc a div 64 mod 4 = ordc a div 64" by (simp_all only: div_pos_pos_trivial mod_pos_pos_trivial)
qed

lemma a2b_encode: "a2b 0 0 0 (urlsafe_b64encode d) = Inr d"
  by (induction d rule: urlsafe_b64encode.induct) (simp_all add: sextet_chars byte_parts byte_bits)

lemma rstrip_append: "xs \<noteq> [] \<Longrightarrow> \<not> p (last xs) \<Longrightarrow> rstrip_of p (xs @ ys) = xs @ rstrip_of p ys"
  by (cases "\<forall>y \<in> set ys. p y") (auto simp: rstrip_of_def dropWhile_append dropWhile_eq_Nil_conv dropWhile_hd hd_rev)

lemma b64_padding: "b64 d @ replicate (nat (- int (length (b64 d)) mod 4)) (CHR ''='') = urlsafe_b64encode d"
proof (induction d rule: urlsafe_b64encode.induct)
  case (4 a b c r)
  let ?q = "[sextet_char (ordc a div 4), sextet_char (ordc a mod 4 * 16 + ordc b div 16),
      sextet_char (ordc b mod 16 * 4 + ordc c div 64), sextet_char (ordc c mod 64)]"
  have e: "b64 (a # b # c # r) = ?q @ b64 r"
    unfolding b64_def urlsafe_b64encode.simps by (rule rstrip_append) (simp_all add: sextet_chars byte_parts)
  have "(- 4 - int (length (b64 r))) mod 4 = - int (length (b64 r)) mod 4" by presburger
  then show ?case using 4 by (simp add: e)
qed (simp_all add: b64_def rstrip_of_def sextet_chars byte_parts numeral_2_eq_2)

lemma encode_ascii: "c \<in> set (urlsafe_b64encode d) \<Longrightarrow> ordc c < 128 \<and> c \<noteq> CHR ''$''"
proof -
  have "ordc CHR ''='' < 128" by code_simp
  then show "c \<in> set (urlsafe_b64encode d) \<Longrightarrow> ?thesis"
    by (induction d rule: urlsafe_b64encode.induct) (auto simp: sextet_chars byte_parts)
qed

text \<open>Every byte string survives the unpadded Base64 encoding of salts and digests.\<close>

theorem b64_roundtrip: "unb64 (b64 d) = Inr d"
proof -
  have "\<not> list_ex (\<lambda>c. ordc c \<ge> 128) (urlsafe_b64encode d)" using encode_ascii by (force simp: list_ex_iff)
  then show ?thesis by (simp add: unb64_def b64_padding urlsafe_b64decode_def a2b_encode)
qed

lemma b64_plain: "CHR ''$'' \<notin> set (b64 d)"
proof
  assume "CHR ''$'' \<in> set (b64 d)"
  then have "CHR ''$'' \<in> set (urlsafe_b64encode d)" by (auto simp: b64_def rstrip_of_def dest: set_dropWhileD)
  then show False using encode_ascii by blast
qed

lemma split_max_cut: "c \<notin> set s \<Longrightarrow> split_max (Suc n) c (s @ c # r) = s # split_max n c r"
  by (induction s) (auto simp: dropWhile_append)

lemma hash_fields:
  "split_max 3 CHR ''$'' (hash_password kdf salt pw) = [''pbkdf2_sha256'', int_str PBKDF2_ITERATIONS, b64 salt,
     b64 (kdf (utf8 pw) salt PBKDF2_ITERATIONS)]"
proof -
  let ?d = "b64 (kdf (utf8 pw) salt PBKDF2_ITERATIONS)"
  have it: "int_str PBKDF2_ITERATIONS = ''260000''" by code_simp
  have "hash_password kdf salt pw = ''pbkdf2_sha256'' @ CHR ''$'' # (''260000'' @ CHR ''$'' # (b64 salt @ CHR ''$'' # ?d))"
    by (simp add: hash_password_def it)
  moreover have "CHR ''$'' \<notin> set ''pbkdf2_sha256''" "CHR ''$'' \<notin> set ''260000''" by code_simp+
  ultimately show ?thesis using b64_plain [of salt]
    by (simp only: it numeral_3_eq_3 split_max_cut split_max.simps(1) not_False_eq_True)
qed

lemma verify_hash:
  "verify_password kdf pw' (hash_password kdf salt pw) = Inr (kdf (utf8 pw') salt 260000 = kdf (utf8 pw) salt 260000)"
proof -
  have "int_of_str (int_str PBKDF2_ITERATIONS) = Some 260000" by code_simp
  then show ?thesis by (simp add: verify_password_def hash_fields b64_roundtrip pbkdf2_hmac_def PBKDF2_ITERATIONS_def)
qed

text \<open>C38: A stored password hash accepts exactly the passwords with the same derived key: in particular the password it
  was made from, whatever the salt.\<close>

theorem password_roundtrip:
  "verify_password kdf pw' (hash_password kdf salt pw) = Inr (kdf (utf8 pw') salt 260000 = kdf (utf8 pw) salt 260000)"
  by (rule verify_hash)

section \<open>Login\<close>

lemma find_unique: "x \<in> set xs \<Longrightarrow> P x \<Longrightarrow> (\<forall>y \<in> set xs. P y \<longrightarrow> y = x) \<Longrightarrow> find P xs = Some x"
proof (induction xs)
  case (Cons a xs)
  show ?case
  proof (cases "P a")
    case True
    then have "a = x" using Cons(4) by (meson list.set_intros(1))
    then show ?thesis using True by simp
  next
    case False
    then have "x \<in> set xs" using Cons(2,3) by auto
    then have "find P xs = Some x" using Cons(3,4) by (intro Cons(1)) (meson list.set_intros(2))+
    then show ?thesis using False by simp
  qed
qed simp

lemma login_memory:
  assumes "st_login_limit_enabled cfg"
  shows "login kdf jwt cfg None now host username password s =
     (if fst (failures_of (client_key host) s) \<ge> 8 \<and> snd (failures_of (client_key host) s) > now
      then (Inl (HTTPException 429 ''too many login attempts''), s)
      else case (case active_user username (lo_world s) of
                   None \<Rightarrow> Inr None
                 | Some u \<Rightarrow> map_sum id (\<lambda>ok. if ok then Some u else None) (verify_password kdf password (us_password_hash u))) of
             Inl e \<Rightarrow> (Inl (Unhandled e), s)
           | Inr None \<Rightarrow> (Inl (HTTPException 401 ''invalid credentials''),
               s\<lparr>lo_failures := put_assoc (client_key host) (fst (failures_of (client_key host) s) + 1, now + 900) (lo_failures s)\<rparr>)
           | Inr (Some u) \<Rightarrow>
               (Inr [(''access_token'', JStr (create_access_token jwt cfg now u)), (''token_type'', JStr ''bearer''),
                     (''user'', JObj [(''username'', JStr (us_username u)), (''role'', JStr (us_role u))])],
                s\<lparr>lo_failures := filter (\<lambda>(k, _). k \<noteq> client_key host) (lo_failures s),
                  lo_world := audit True ''auth.login'' ''user'' (us_id u) [] (lo_world s)\<rparr>))"
  using assms
  by (simp add: login_def check_login_rate_limit_def record_login_failure_def clear_login_failures_def Let_def case_prod_beta
      split: sum.split option.split)

lemma login_accepted:
  assumes "login kdf jwt cfg redis now host username password s = (Inr d, s')"
  shows "\<exists>u. active_user username (lo_world s') = Some u \<and> verify_password kdf password (us_password_hash u) = Inr True
    \<and> users (lo_world s') = users (lo_world s) \<and> dget ''access_token'' d = JStr (create_access_token jwt cfg now u)"
proof -
  obtain s1 x where s1: "check_login_rate_limit cfg redis now (client_key host) s = (x, s1)" by fastforce
  have w1: "lo_world s1 = lo_world s"
    using s1 by (auto simp: check_login_rate_limit_def split: if_splits option.splits prod.splits sum.splits)
  obtain s2 y where s2: "clear_login_failures cfg redis (client_key host) s1 = (y, s2)" by fastforce
  have w2: "lo_world s2 = lo_world s1" using s2 by (auto simp: clear_login_failures_def split: if_splits option.splits prod.splits)
  have a: "active_user n (audit True a tt ti p w) = active_user n w" for n a tt ti p w by (simp add: active_user_def)
  show ?thesis
    using assms
    by (auto simp: login_def Let_def s1 s2 w1 w2 a dget_def split: sum.splits option.splits prod.splits if_splits)
      (auto simp: map_sum_def split: sum.splits if_splits)
qed

text \<open>C37: A login returns a token only for an active user of that name whose stored hash accepts the password, and the token
  identifies that user: with a JWT library that decodes the tokens it issued, the next request is authenticated as the same
  user, as long as the user stays active.\<close>

theorem login_token_identifies_user:
  assumes "login kdf jwt cfg redis now host username password s = (Inr d, s')"
    and "\<And>u. u \<in> set (users (lo_world s)) \<Longrightarrow> decode_access_token jwt cfg (create_access_token jwt cfg now u) = Some (token_payload cfg now u)"
    and "distinct (map us_id (users (lo_world s)))" and "\<And>u. u \<in> set (users (lo_world s)) \<Longrightarrow> uuid_parse (us_id u) = Some (us_id u)"
  shows "\<exists>u token. dget ''access_token'' d = JStr token \<and> get_current_user jwt cfg (Some token) (lo_world s') = Inr u
    \<and> us_username u = username \<and> us_is_active u \<and> verify_password kdf password (us_password_hash u) = Inr True"
proof -
  obtain u where u: "active_user username (lo_world s') = Some u" "verify_password kdf password (us_password_hash u) = Inr True"
    "users (lo_world s') = users (lo_world s)" "dget ''access_token'' d = JStr (create_access_token jwt cfg now u)"
    using login_accepted [OF assms(1)] by blast
  then have m: "u \<in> set (users (lo_world s))" "us_username u = username" "us_is_active u"
    by (auto simp: active_user_def find_Some_iff)
  have "us_id u \<noteq> []"
  proof
    assume "us_id u = []"
    then have "uuid_parse [] = Some []" using assms(4) [OF m(1)] by simp
    moreover have "uuid_parse [] = None" by code_simp
    ultimately show False by simp
  qed
  then have "dstr ''sub'' (token_payload cfg now u) = us_id u" by (simp add: token_payload_def dstr_def dstr_or_def dget_def py_str_def)
  moreover have "find (\<lambda>v. us_id v = us_id u \<and> us_is_active v) (users (lo_world s)) = Some u"
    by (rule find_unique) (use m assms(3) in \<open>auto simp: distinct_map inj_on_def\<close>)
  ultimately have "get_current_user jwt cfg (Some (create_access_token jwt cfg now u)) (lo_world s') = Inr u"
    using assms(2,4) m(1) u(3) by (simp add: get_current_user_def parse_user_id_def)
  then show ?thesis using u m by blast
qed

text \<open>A sequence of attempts (time, user name, password) from one client.\<close>

fun logins ::
  "kdf \<Rightarrow> jwt_library \<Rightarrow> security_settings \<Rightarrow> string option \<Rightarrow> (rat \<times> string \<times> string) list \<Rightarrow> 'r login_state \<Rightarrow>
   (api_error + dict) list \<times> 'r login_state" where
  "logins kdf jwt cfg host [] s = ([], s)"
| "logins kdf jwt cfg host ((t, u, p) # xs) s =
     (case login kdf jwt cfg None t host u p s of (r, s1) \<Rightarrow>
        (case logins kdf jwt cfg host xs s1 of (rs, s2) \<Rightarrow> (r # rs, s2)))"

lemma failed_logins_count:
  assumes "logins kdf jwt cfg host xs s = (rs, s')" and "st_login_limit_enabled cfg"
    and "\<And>t u p. (t, u, p) \<in> set xs \<Longrightarrow> t0 \<le> t" and "\<And>r. r \<in> set rs \<Longrightarrow> \<exists>c m. r = Inl (HTTPException c m)"
    and "0 \<le> fst (failures_of (client_key host) s)" and "0 < fst (failures_of (client_key host) s) \<longrightarrow> t0 + 900 \<le> snd (failures_of (client_key host) s)"
  shows "min 8 (fst (failures_of (client_key host) s) + int (length xs)) \<le> fst (failures_of (client_key host) s')
    \<and> (0 < fst (failures_of (client_key host) s') \<longrightarrow> t0 + 900 \<le> snd (failures_of (client_key host) s'))"
  using assms
proof (induction xs arbitrary: s rs)
  case (Cons x xs)
  obtain t u p where x: "x = (t, u, p)" by (cases x)
  obtain r s1 where l: "login kdf jwt cfg None t host u p s = (r, s1)" by fastforce
  obtain rs1 where rest: "logins kdf jwt cfg host xs s1 = (rs1, s')" "rs = r # rs1" using Cons(2) by (auto simp: x l split: prod.splits)
  let ?f = "failures_of (client_key host)"
  have ts: "t0 \<le> t'" if "(t', u', p') \<in> set xs" for t' u' p' using Cons(4) [of t' u' p'] that by simp
  have es: "\<exists>c m. r' = Inl (HTTPException c m)" if "r' \<in> set rs1" for r' using Cons(5) [of r'] rest(2) that by simp
  have "\<exists>c m. r = Inl (HTTPException c m)" using Cons(5) rest by simp
  then consider (locked) "8 \<le> fst (?f s)" "s1 = s" | (counted) "?f s1 = (fst (?f s) + 1, t + 900)"
    using l [unfolded login_memory [OF assms(2)]]
    by (auto simp: failures_of_def split: if_splits option.splits sum.splits)
  then show ?case
  proof cases
    case locked
    have "min 8 (fst (?f s) + int (length xs)) \<le> fst (?f s') \<and> (0 < fst (?f s') \<longrightarrow> t0 + 900 \<le> snd (?f s'))"
      by (rule Cons(1) [OF rest(1) [unfolded locked(2)] assms(2) ts es Cons(6,7)])
    then show ?thesis using locked(1) by auto
  next
    case counted
    have "t0 \<le> t" using Cons(4) [of t u p] by (simp add: x)
    then have "min 8 (fst (?f s1) + int (length xs)) \<le> fst (?f s') \<and> (0 < fst (?f s') \<longrightarrow> t0 + 900 \<le> snd (?f s'))"
      using Cons(6) by (intro Cons(1) [OF rest(1) assms(2) ts es]) (simp_all add: counted)
    then show ?thesis by (simp add: counted algebra_simps)
  qed
qed simp


section \<open>The administrator\<close>

lemma put_user_rows:
  assumes "distinct (map us_username xs)" and "get_row us_username n xs = Some u" and "us_username v = us_username u"
  shows "get_row us_username n (upd_row us_username (us_username u) (\<lambda>_. v) xs) = Some v"
    "k \<noteq> n \<Longrightarrow> get_row us_username k (upd_row us_username (us_username u) (\<lambda>_. v) xs) = get_row us_username k xs"
    "distinct (map us_username (upd_row us_username (us_username u) (\<lambda>_. v) xs))"
proof -
  have n: "us_username u = n" using assms(2) by (rule get_row_key)
  have u: "u \<in> set xs" using assms(2) by (rule get_row_mem)
  have eq: "upd_row us_username n (\<lambda>_. v) xs = map (\<lambda>x. if us_username x = n then v else x) xs" by (simp add: upd_row_def)
  have key: "map us_username (map (\<lambda>x. if us_username x = n then v else x) xs) = map us_username xs"
    using assms(3) n by (induction xs) auto
  show "distinct (map us_username (upd_row us_username (us_username u) (\<lambda>_. v) xs))" unfolding n eq key by (rule assms(1))
  have f: "find (\<lambda>x. us_username x = k) (map (\<lambda>x. if us_username x = n then v else x) ys) = find (\<lambda>x. us_username x = k) ys"
    if "k \<noteq> n" for ys using that assms(3) n by (induction ys) auto
  show "get_row us_username k (upd_row us_username (us_username u) (\<lambda>_. v) xs) = get_row us_username k xs" if "k \<noteq> n"
    using f [OF that] by (simp add: get_row_def n eq)
  have "find (\<lambda>x. us_username x = n) (map (\<lambda>x. if us_username x = n then v else x) ys) = Some v" if "u \<in> set ys" for ys
    using that assms(3) n by (induction ys) auto
  then show "get_row us_username n (upd_row us_username (us_username u) (\<lambda>_. v) xs) = Some v" using u by (simp add: get_row_def n eq)
qed

lemma active_of_row:
  "distinct (map us_username (users w)) \<Longrightarrow> find_user n w = Some u \<Longrightarrow> us_is_active u \<Longrightarrow> active_user n w = Some u"
  unfolding active_user_def find_user_def
  by (rule find_unique) (auto simp: distinct_map inj_on_def dest: get_row_mem get_row_key)

text \<open>After the start-up step the configured administrator can log in: the user exists, is active and its hash accepts
  the configured password; no other user changes; and running the step again changes nothing, although it draws a
  new salt.\<close>

theorem ensure_admin_ready:
  assumes "ensure_admin_user kdf cfg uid salt w = (Inr u, w')" and "distinct (map us_username (users w))"
  shows "active_user (st_admin_username cfg) w' = Some u
    \<and> verify_password kdf (st_admin_password cfg) (us_password_hash u) = Inr True
    \<and> (\<forall>name. name \<noteq> st_admin_username cfg \<longrightarrow> find_user name w' = find_user name w)
    \<and> ensure_admin_user kdf cfg uid' salt' w' = (Inr u, w')"
proof -
  let ?n = "st_admin_username cfg" and ?pw = "st_admin_password cfg"
  have ok: "verify_password kdf ?pw (hash_password kdf salt ?pw) = Inr True" by (simp add: verify_hash)
  have again: "ensure_admin_user kdf cfg uid' salt' w' = (Inr u, w')"
    if "find_user ?n w' = Some u" "us_is_active u" "verify_password kdf ?pw (us_password_hash u) = Inr True" "distinct (map us_username (users w'))"
  proof -
    have u: "u \<in> set (users w')" "us_username u = ?n" using that(1) by (auto simp: find_user_def dest: get_row_mem get_row_key)
    have "x = u" if "x \<in> set (users w')" "us_username x = us_username u" for x
      using that u(1) \<open>distinct (map us_username (users w'))\<close> by (auto simp: distinct_map inj_on_def)
    then have "upd_row us_username (us_username u) (\<lambda>_. u) (users w') = users w'" unfolding upd_row_def by (intro map_idI) metis
    moreover have "u\<lparr>us_is_active := True\<rparr> = u" using that(2) by (cases u) simp
    ultimately show ?thesis
      unfolding ensure_admin_user_def Let_def that(1,3) option.case sum.case if_True by simp
  qed
  show ?thesis
  proof (cases "find_user ?n w")
    case None
    then have u: "u = \<lparr>us_id = uid, us_username = ?n, us_password_hash = hash_password kdf salt ?pw, us_role = ''admin'', us_is_active = True\<rparr>"
      "w' = w\<lparr>users := users w @ [u]\<rparr>" using assms(1) by (auto simp: ensure_admin_user_def Let_def)
    have "?n \<notin> us_username ` set (users w)" using None by (simp add: find_user_def get_row_None)
    then have d: "distinct (map us_username (users w'))" using assms(2) by (simp add: u)
    have f: "find_user ?n w' = Some u" using None by (simp add: find_user_def u get_row_append)
    have "find_user name w' = find_user name w" if "name \<noteq> ?n" for name
      using that by (simp add: find_user_def u get_row_append split: option.split)
    then show ?thesis using active_of_row [OF d f] again [OF f _ _ d] ok u(1) by simp
  next
    case (Some v)
    then obtain okv where v: "verify_password kdf ?pw (us_password_hash v) = Inr okv"
      "u = (if okv then v\<lparr>us_is_active := True\<rparr> else v\<lparr>us_is_active := True, us_password_hash := hash_password kdf salt ?pw\<rparr>)"
      "w' = w\<lparr>users := upd_row us_username (us_username v) (\<lambda>_. u) (users w)\<rparr>"
      using assms(1) by (auto simp: ensure_admin_user_def Let_def split: sum.splits)
    have nu: "us_username u = us_username v" and act: "us_is_active u" by (simp_all add: v(2))
    have pw: "verify_password kdf ?pw (us_password_hash u) = Inr True" using v(1,2) ok by auto
    note rows = put_user_rows [OF assms(2) Some [unfolded find_user_def] nu]
    have d: "distinct (map us_username (users w'))" and f: "find_user ?n w' = Some u" using rows(1,3) by (simp_all add: v(3) find_user_def)
    have "find_user name w' = find_user name w" if "name \<noteq> ?n" for name using rows(2) [OF that] by (simp add: v(3) find_user_def)
    then show ?thesis using active_of_row [OF d f act] again [OF f act pw d] pw by blast
  qed
qed

section \<open>A small installation\<close>

definition toy_kdf :: kdf where
  "toy_kdf pw salt n = salt @ pw"

definition toy_settings :: security_settings where
  "toy_settings = \<lparr>st_jwt_secret = ''s'', st_jwt_algorithm = ''HS256'', st_access_token_minutes = 60, st_admin_username = ''admin'',
     st_admin_password = ''pw'', st_login_limit_enabled = True\<rparr>"

definition toy_admin :: user where
  "toy_admin = \<lparr>us_id = ''00000000-0000-0000-0000-000000000001'', us_username = ''admin'',
     us_password_hash = hash_password toy_kdf ''salt'' ''pw'', us_role = ''admin'', us_is_active = True\<rparr>"

definition toy_jwt :: jwt_library where
  "toy_jwt = \<lparr>jwt_encode = (\<lambda>p _ _. json_dumps (JObj p)), 
     jwt_decode = (\<lambda>t _ _. Some (token_payload toy_settings 5 toy_admin))\<rparr>"

definition toy_login_state :: "user list \<Rightarrow> unit login_state" where
  "toy_login_state us = \<lparr>lo_failures = [], lo_redis = (), lo_world = empty_world\<lparr>users := us\<rparr>\<rparr>"

theorem ensure_admin_ready_witness:
  "let w' = snd (ensure_admin_user toy_kdf toy_settings ''u1'' ''salt'' empty_world)
   in map_option us_username (active_user ''admin'' w') = Some ''admin''
      \<and> snd (ensure_admin_user toy_kdf toy_settings ''u2'' ''other'' w') = w'"
proof -
  let ?r = "ensure_admin_user toy_kdf toy_settings ''u1'' ''salt'' empty_world"
  obtain u where r: "?r = (Inr u, snd ?r)" "us_username u = ''admin''"
    by (simp add: ensure_admin_user_def find_user_def empty_world_def toy_settings_def Let_def)
  have n: "st_admin_username toy_settings = ''admin''" by (simp add: toy_settings_def)
  have "distinct (map us_username (users empty_world))" by (simp add: empty_world_def)
  from ensure_admin_ready [OF r(1) this, of "''u2''" "''other''"] show ?thesis using r(2) by (simp add: Let_def n)
qed


theorem login_token_identifies_user_witness:
  "\<exists>d u token. fst (login toy_kdf toy_jwt toy_settings None 5 None ''admin'' ''pw'' (toy_login_state [toy_admin])) = Inr d
    \<and> dget ''access_token'' d = JStr token \<and> get_current_user toy_jwt toy_settings (Some token)
        (lo_world (snd (login toy_kdf toy_jwt toy_settings None 5 None ''admin'' ''pw'' (toy_login_state [toy_admin])))) = Inr u"
proof -
  let ?r = "login toy_kdf toy_jwt toy_settings None 5 None ''admin'' ''pw'' (toy_login_state [toy_admin])"
  have "\<not> isl (fst ?r)" by code_simp
  then obtain d where d: "?r = (Inr d, snd ?r)" by (metis prod.collapse sum.collapse(2))
  have us: "users (lo_world (toy_login_state [toy_admin])) = [toy_admin]" by (simp add: toy_login_state_def)
  have dec: "decode_access_token toy_jwt toy_settings (create_access_token toy_jwt toy_settings 5 u) = Some (token_payload toy_settings 5 u)"
    if "u \<in> set (users (lo_world (toy_login_state [toy_admin])))" for u
    using that by (simp add: us decode_access_token_def toy_jwt_def)
  have dist: "distinct (map us_id (users (lo_world (toy_login_state [toy_admin]))))" by (simp add: us)
  have "uuid_parse (us_id toy_admin) = Some (us_id toy_admin)" by code_simp
  then have ids: "uuid_parse (us_id u) = Some (us_id u)" if "u \<in> set (users (lo_world (toy_login_state [toy_admin])))" for u
    using that by (simp add: us)
  obtain u token where "dget ''access_token'' d = JStr token" "get_current_user toy_jwt toy_settings (Some token) (lo_world (snd ?r)) = Inr u"
    using login_token_identifies_user [OF d dec dist ids] by blast
  then show ?thesis using d by (metis fst_conv)
qed

end
