(* ===== verification/Memory_Props.thy ===== *)
theory Memory_Props
  imports Memory
begin

text \<open>
  What holds of the memory service: its scores stay in range over any sequence of operations, searches return
  active and diverse memories only, the file line of a memory reads back as the memory, archiving can be undone
  from the history, conflicts are recorded once, proposals are applied once.
\<close>

section \<open>What the helpers leave alone\<close>

lemma ensure_files_frame [simp]:
  "memories (ensure_files seed w) = memories w" "memory_histories (ensure_files seed w) = memory_histories w"
  "memory_conflicts (ensure_files seed w) = memory_conflicts w" "memories_fts (ensure_files seed w) = memories_fts w"
  "evolution_proposals (ensure_files seed w) = evolution_proposals w"
  by (simp_all add: ensure_files_def)

lemma path_for_memory [simp]: "path_for ''memory'' = Inr ''memory/MEMORY.md''"
  by code_simp

text \<open>Reading and writing the memory file never fails, and changes the directory and the event tables only.\<close>

lemma ws_read_memory:
  obtains item w1 where "ws_read seed ''memory'' w = (Inr item, w1)" "same_state (w\<lparr>workspace_fs := workspace_fs w1\<rparr>) w1"
  by (auto simp: ws_read_def Let_def ensure_files_def same_state_def)

lemma same_state_fields:
  assumes "same_state (w\<lparr>workspace_fs := fs\<rparr>) w1"
  shows "memories w1 = memories w" "memory_histories w1 = memory_histories w" "memory_conflicts w1 = memory_conflicts w"
    "memories_fts w1 = memories_fts w" "evolution_proposals w1 = evolution_proposals w"
proof -
  have e: "w1\<lparr>runtime_events := [], audit_events := []\<rparr> = w\<lparr>workspace_fs := fs, runtime_events := [], audit_events := []\<rparr>"
    using assms by (simp add: same_state_def)
  show "memories w1 = memories w" using arg_cong [OF e, of memories] by simp
  show "memory_histories w1 = memory_histories w" using arg_cong [OF e, of memory_histories] by simp
  show "memory_conflicts w1 = memory_conflicts w" using arg_cong [OF e, of memory_conflicts] by simp
  show "memories_fts w1 = memories_fts w" using arg_cong [OF e, of memories_fts] by simp
  show "evolution_proposals w1 = evolution_proposals w" using arg_cong [OF e, of evolution_proposals] by simp
qed

definition only_files :: "world \<Rightarrow> world \<Rightarrow> bool" where
  "only_files w w1 = (\<exists>fs. same_state (w\<lparr>workspace_fs := fs\<rparr>) w1)"

lemma only_files_refl: "only_files w w"
  unfolding only_files_def by (rule exI [of _ "workspace_fs w"]) simp

lemma only_files_trans: "only_files a b \<Longrightarrow> only_files b c \<Longrightarrow> only_files a c"
proof -
  assume "only_files a b" and "only_files b c"
  then obtain f g where
    f: "b\<lparr>runtime_events := [], audit_events := []\<rparr> = a\<lparr>workspace_fs := f, runtime_events := [], audit_events := []\<rparr>" and
    g: "c\<lparr>runtime_events := [], audit_events := []\<rparr> = b\<lparr>workspace_fs := g, runtime_events := [], audit_events := []\<rparr>"
    by (auto simp: only_files_def same_state_def)
  have "b\<lparr>workspace_fs := g, runtime_events := [], audit_events := []\<rparr>
      = a\<lparr>workspace_fs := g, runtime_events := [], audit_events := []\<rparr>"
    using f by (cases a; cases b) simp
  then show "only_files a c" using g by (auto simp: only_files_def same_state_def)
qed

lemma only_files_bus: "only_files w (emit_full on t p sv se tu w)" "only_files w (audit on a tt ti p w)"
  unfolding only_files_def by (rule exI [of _ "workspace_fs w"], simp add: same_state_def bus_defs)+

lemma only_files_read: "only_files w (snd (ws_read seed ''memory'' w))"
  by (rule ws_read_memory [of seed w]) (auto simp: only_files_def)

lemma only_files_write: "only_files w (snd (ws_write ev seed ''memory'' s a w))"
  unfolding only_files_def
  by (rule exI [of _ "put_assoc ''memory/MEMORY.md'' s (workspace_fs w)"])
    (simp add: ws_write_result same_state_def bus_defs)

lemma ws_write_memory:
  obtains item w1 where "ws_write ev seed ''memory'' s a w = (Inr item, w1)" "only_files w w1"
  using only_files_write [of w ev seed s a] by (simp add: ws_write_result)

lemma only_files_rewrite: "only_files w (rewrite_memory_file_entry env m w)"
proof -
  obtain item w1 where r: "ws_read (mv_seed env) ''memory'' w = (Inr item, w1)" by (rule ws_read_memory)
  have 1: "only_files w w1" using only_files_read [of w "mv_seed env"] by (simp add: r)
  show ?thesis
  proof (cases "replace_entry (marker (me_id m)) (memory_file_line m) (splitlines (wf_content item))")
    case (Some ls)
    obtain it2 w2 where "ws_write (mv_events env) (mv_seed env) ''memory''
        (rstrip_of is_space (join [newline] ls) @ [newline]) ''memory-service'' w1 = (Inr it2, w2)" "only_files w1 w2"
      by (rule ws_write_memory)
    then show ?thesis using only_files_trans [OF 1] by (simp add: rewrite_memory_file_entry_def r Some)
  qed (use 1 in \<open>simp add: rewrite_memory_file_entry_def r\<close>)
qed

lemma only_files_append: "only_files w (append_to_memory_file env m w)"
proof -
  obtain item w1 where r: "ws_read (mv_seed env) ''memory'' w = (Inr item, w1)" by (rule ws_read_memory)
  have 1: "only_files w w1" using only_files_read [of w "mv_seed env"] by (simp add: r)
  obtain it2 w2 where "ws_write (mv_events env) (mv_seed env) ''memory''
      (rstrip_of is_space (wf_content item) @ [newline, newline] @ marker (me_id m) @ [newline] @
       memory_file_line m @ [newline]) ''memory-service'' w1 = (Inr it2, w2)" "only_files w1 w2"
    by (rule ws_write_memory)
  then show ?thesis
    using only_files_trans [OF 1 only_files_rewrite] only_files_trans [OF 1]
    by (simp add: append_to_memory_file_def r)
qed

lemma only_files_fields:
  assumes "only_files w w1"
  shows "memories w1 = memories w" "memory_histories w1 = memory_histories w" "memory_conflicts w1 = memory_conflicts w"
    "memories_fts w1 = memories_fts w" "evolution_proposals w1 = evolution_proposals w"
  using assms same_state_fields unfolding only_files_def by blast+

lemmas file_frame [simp] = only_files_fields [OF only_files_rewrite] only_files_fields [OF only_files_append]

lemma refresh_fts_frame [simp]:
  "memories (snd (refresh_fts env w)) = memories w" "memory_histories (snd (refresh_fts env w)) = memory_histories w"
  "memory_conflicts (snd (refresh_fts env w)) = memory_conflicts w"
  "evolution_proposals (snd (refresh_fts env w)) = evolution_proposals w"
  by (simp_all add: refresh_fts_def refresh_sqlite_fts_def Let_def split: option.splits)

lemma record_history_frame [simp]:
  "memories (record_history env mid a b c d w) = memories w"
  "memory_conflicts (record_history env mid a b c d w) = memory_conflicts w"
  "evolution_proposals (record_history env mid a b c d w) = evolution_proposals w"
  by (simp_all add: record_history_def)

lemma put_memory_frame [simp]:
  "memory_histories (put_memory now mid f w) = memory_histories w"
  "evolution_proposals (put_memory now mid f w) = evolution_proposals w"
  by (simp_all add: put_memory_def)

lemma detect_conflicts_frame [simp]:
  "memories (detect_conflicts now m w) = memories w" "memory_histories (detect_conflicts now m w) = memory_histories w"
  "evolution_proposals (detect_conflicts now m w) = evolution_proposals w"
  by (simp_all add: detect_conflicts_def Let_def)

section \<open>Scores stay between 0 and 1\<close>

definition scores_ok :: "memory \<Rightarrow> bool" where
  "scores_ok m = (0 \<le> me_importance m \<and> me_importance m \<le> 1 \<and> 0 \<le> me_confidence m \<and> me_confidence m \<le> 1
     \<and> 0 \<le> me_stability m \<and> me_stability m \<le> 1)"

definition mem_inv :: "world \<Rightarrow> bool" where
  "mem_inv w = (distinct (map me_id (memories w)) \<and> (\<forall>m \<in> set (memories w). scores_ok m))"

lemma clamp_range [simp]: "0 \<le> clamp x" "clamp x \<le> 1"
  by (cases x; simp)+

lemma clamp_id: "0 \<le> r \<Longrightarrow> r \<le> 1 \<Longrightarrow> clamp (Fin r) = r"
  by simp

lemma touch_simps [simp]:
  "me_id (touch now m m') = me_id m'" "scores_ok (touch now m m') = scores_ok m'"
  by (auto simp: touch_def scores_ok_def)

lemma mem_inv_put:
  assumes "mem_inv w" and "\<And>m. me_id m = mid \<Longrightarrow> me_id (f m) = mid" and "\<And>m. scores_ok m \<Longrightarrow> scores_ok (f m)"
  shows "mem_inv (put_memory now mid f w)"
proof -
  have "map me_id (upd_row me_id mid (\<lambda>m. touch now m (f m)) rs) = map me_id rs" for rs
    using assms(2) by (simp add: upd_row_def)
  then show ?thesis using assms(1,3) by (auto simp: mem_inv_def put_memory_def dest!: set_upd_row)
qed

lemma mem_inv_cong: "memories w' = memories w \<Longrightarrow> mem_inv w' = mem_inv w"
  by (simp add: mem_inv_def)

lemma mem_inv_helpers [simp]:
  "mem_inv (rewrite_memory_file_entry env m w) = mem_inv w" "mem_inv (append_to_memory_file env m w) = mem_inv w"
  "mem_inv (snd (refresh_fts env w)) = mem_inv w" "mem_inv (record_history env mid a b c d w) = mem_inv w"
  "mem_inv (detect_conflicts now m w) = mem_inv w" "mem_inv (emit_full on t p sv se tu w) = mem_inv w"
  "mem_inv (audit on a tt ti q w) = mem_inv w" "mem_inv (w\<lparr>evolution_proposals := ps\<rparr>) = mem_inv w"
  "mem_inv (ensure_files seed w) = mem_inv w"
  by (rule mem_inv_cong; simp)+

lemma scores_ok_retire [simp]: "scores_ok (retire s m) = scores_ok m" "me_id (retire s m) = me_id m"
  by (simp_all add: retire_def scores_ok_def)

lemma scores_ok_fields [simp]:
  "scores_ok (m\<lparr>me_source_file_marker := s\<rparr>) = scores_ok m" "scores_ok (m\<lparr>me_superseded_by := p\<rparr>) = scores_ok m"
  by (simp_all add: scores_ok_def)

lemma mem_inv_create:
  assumes "mem_inv w" and "mv_new_id env \<notin> me_id ` set (memories w)"
  shows "mem_inv (snd (memory_create env a w))"
proof -
  have "scores_ok (new_memory_row env a)" "me_id (new_memory_row env a) = mv_new_id env"
    by (simp_all add: new_memory_row_def scores_ok_def Let_def)
  then have "mem_inv (w\<lparr>memories := memories w @ [new_memory_row env a]\<rparr>)"
    using assms by (auto simp: mem_inv_def)
  then show ?thesis
    by (auto simp: memory_create_def Let_def intro!: mem_inv_put split: option.splits)
qed

lemma mem_inv_supersede:
  assumes "mem_inv w" and "mv_new_id env \<notin> me_id ` set (memories w)"
  shows "mem_inv (snd (memory_supersede env mid r w))"
proof -
  have w1: "mem_inv (put_memory now mid (retire ''superseded'') w)" for now
    using assms(1) by (rule mem_inv_put) auto
  have "map me_id (memories (put_memory now mid (retire ''superseded'') w)) = map me_id (memories w)" for now
    by (simp add: put_memory_def upd_row_def)
  then have "mv_new_id env \<notin> me_id ` set (memories (put_memory now mid (retire ''superseded'') w))" for now
    using assms(2) by (metis list.set_map)
  then have "mem_inv (snd (memory_create env a (put_memory now mid (retire ''superseded'') w)))" for a now
    using w1 by (intro mem_inv_create)
  then show ?thesis using w1 assms(1)
    by (auto simp: memory_supersede_def Let_def case_prod_beta intro!: mem_inv_put split: option.splits sum.splits)
qed

lemma mem_inv_verify: "mem_inv w \<Longrightarrow> mem_inv (snd (mark_verified env mid d w))"
  by (auto simp: mark_verified_def Let_def scores_ok_def intro!: mem_inv_put split: option.splits)

lemma mem_inv_archive: "mem_inv w \<Longrightarrow> mem_inv (snd (memory_archive env mid w))"
  by (auto simp: memory_archive_def Let_def intro!: mem_inv_put split: option.splits)

lemma sync_score_range: "0 \<le> old \<Longrightarrow> old \<le> 1 \<Longrightarrow> 0 \<le> sync_score k md old \<and> sync_score k md old \<le> 1"
  by (simp add: sync_score_def split: option.splits)

lemma scores_ok_sync: "scores_ok m \<Longrightarrow> scores_ok (sync_memory now path md c m)" "me_id (sync_memory now path md c m) = me_id m"
  using sync_score_range by (auto simp: sync_memory_def scores_ok_def Let_def)

lemma mem_inv_sync_entry: "mem_inv (snd (snd acc)) \<Longrightarrow> mem_inv (snd (snd (sync_entry now path line rest acc)))"
  by (auto simp: sync_entry_def case_prod_beta scores_ok_sync intro!: mem_inv_put split: option.split)

lemma mem_inv_sync_lines: "mem_inv (snd (snd acc)) \<Longrightarrow> mem_inv (snd (snd (sync_lines now path ls acc)))"
  by (induction now path ls acc rule: sync_lines.induct) (simp_all add: mem_inv_sync_entry)

lemma mem_inv_sync: "mem_inv w \<Longrightarrow> mem_inv (snd (sync_from_memory_file env w))"
proof -
  assume inv: "mem_inv w"
  obtain item w1 where r: "ws_read (mv_seed env) ''memory'' w = (Inr item, w1)" by (rule ws_read_memory)
  have "memories w1 = memories w" using only_files_fields(1) [OF only_files_read [of w "mv_seed env"]] by (simp add: r)
  then have "mem_inv w1" using inv mem_inv_cong by blast
  then have "mem_inv (snd (snd (sync_lines (mv_now env) (wf_path item) (splitlines (wf_content item)) (0, 0, w1))))"
    by (intro mem_inv_sync_lines) simp
  then show ?thesis by (simp add: sync_from_memory_file_def op_bind_def r Let_def case_prod_beta)
qed

lemma apply_snapshot_ok:
  "scores_ok m \<Longrightarrow> scores_ok (snd (apply_snapshot s m))" "me_id (snd (apply_snapshot s m)) = me_id m"
  by (simp_all add: apply_snapshot_def Let_def scores_ok_def split: sum.splits)

lemma mem_inv_put_const:
  assumes "mem_inv w" and "scores_ok m" and "me_id m = mid"
  shows "mem_inv (put_memory now mid (\<lambda>_. m) w)"
  using assms by (intro mem_inv_put) auto

lemma mem_inv_restore:
  assumes inv: "mem_inv w"
  shows "mem_inv (snd (memory_restore env hid actor w))"
proof -
  have put: "mem_inv (put_memory (mv_now env) mid (\<lambda>_. snd (apply_snapshot s m)) w')"
    if "mem_inv w'" "scores_ok m" "me_id m = mid" for mid s m w'
    using that apply_snapshot_ok by (intro mem_inv_put_const) auto
  have row: "scores_ok m \<and> me_id m = mid" if "get_row me_id mid (memories w) = Some m" for m mid
    using inv get_row_mem [OF that] get_row_key [OF that] by (simp add: mem_inv_def)
  have blank: "mem_inv (w\<lparr>memories := memories w @ [blank_memory now mid k c]\<rparr>) \<and> scores_ok (blank_memory now mid k c)
      \<and> me_id (blank_memory now mid k c) = mid" if "get_row me_id mid (memories w) = None" for mid k c now
    using inv that by (auto simp: mem_inv_def blank_memory_def scores_ok_def get_row_None)
  show ?thesis
    unfolding memory_restore_def Let_def case_prod_beta
    using put row blank inv
    by (auto split: option.splits simp: case_prod_beta)
qed

lemma mem_inv_bind:
  assumes "mem_inv (snd (m w))" and "\<And>x. mem_inv (snd (m w)) \<Longrightarrow> mem_inv (snd (f x (snd (m w))))"
  shows "mem_inv (snd (op_bind m f w))"
  using assms by (auto simp: op_bind_def split: prod.split sum.split)

lemma mem_inv_lift: "(\<And>x. mem_inv (snd (f x w))) \<Longrightarrow> mem_inv w \<Longrightarrow> mem_inv (snd (op_bind (op_lift r) f w))"
  by (cases r) (simp_all add: op_bind_def)

lemma mem_inv_action:
  assumes "mem_inv w" and "mv_new_id env \<notin> me_id ` set (memories w)"
  shows "mem_inv (snd (proposal_action env action p w))"
proof -
  note inv = assms(1)
  consider "action = ''create''" | "action = ''supersede''" | "action = ''archive''" | "action = ''verify''"
    | "action \<notin> {''create'', ''supersede'', ''archive'', ''verify''}" by auto
  then show ?thesis
  proof cases
    case 1
    then show ?thesis using inv mem_inv_create [OF assms]
      by (auto simp: proposal_action_def Let_def case_prod_beta intro!: mem_inv_lift)
  next
    case 2
    then show ?thesis using inv mem_inv_supersede [OF assms]
      by (simp add: proposal_action_def Let_def) (intro mem_inv_lift mem_inv_bind; simp)
  next
    case 3
    then show ?thesis using inv mem_inv_archive [OF inv]
      by (simp add: proposal_action_def Let_def) (intro mem_inv_lift mem_inv_bind; simp)
  next
    case 4
    then show ?thesis using inv mem_inv_verify [OF inv]
      by (simp add: proposal_action_def Let_def) (intro mem_inv_lift mem_inv_bind; simp)
  next
    case 5
    then show ?thesis using inv by (simp add: proposal_action_def Let_def)
  qed
qed

lemma mem_inv_apply:
  assumes "mem_inv w" and "mv_new_id env \<notin> me_id ` set (memories w)"
  shows "mem_inv (snd (memory_apply_proposal env pid actor w))"
  using assms(1) mem_inv_action [OF assms]
  by (auto simp: memory_apply_proposal_def case_prod_beta intro!: mem_inv_bind split: option.split)

text \<open>The service as a state machine: any sequence of its operations, from no memories.\<close>

inductive mem_step :: "world \<Rightarrow> world \<Rightarrow> bool" where
  create: "mv_new_id env \<notin> me_id ` set (memories w) \<Longrightarrow> mem_step w (snd (memory_create env a w))"
| supersede: "mv_new_id env \<notin> me_id ` set (memories w) \<Longrightarrow> mem_step w (snd (memory_supersede env mid r w))"
| verify: "mem_step w (snd (mark_verified env mid d w))"
| archive: "mem_step w (snd (memory_archive env mid w))"
| sync: "mem_step w (snd (sync_from_memory_file env w))"
| restore: "mem_step w (snd (memory_restore env hid actor w))"
| apply_prop: "mv_new_id env \<notin> me_id ` set (memories w) \<Longrightarrow> mem_step w (snd (memory_apply_proposal env pid actor w))"
| search: "mem_step w (snd (memory_search env q n w))"
| other: "memories w' = memories w \<Longrightarrow> mem_step w w'"

lemma memory_search_frame [simp]: "memories (snd (memory_search env q n w)) = memories w"
  by (auto simp: memory_search_def Let_def case_prod_beta fts_search_def sqlite_fts_search_def)

lemma mem_step_inv: "mem_step w w' \<Longrightarrow> mem_inv w \<Longrightarrow> mem_inv w'"
proof (induction rule: mem_step.induct)
  case (search w env q n)
  then show ?case using mem_inv_cong [OF memory_search_frame] by blast
next
  case (other w' w)
  then show ?case using mem_inv_cong by blast
qed (simp_all add: mem_inv_create mem_inv_supersede mem_inv_verify mem_inv_archive mem_inv_sync mem_inv_restore mem_inv_apply)

interpretation mem: machine "\<lambda>w. memories w = []" mem_step mem_inv
  by unfold_locales (simp add: mem_inv_def, rule mem_step_inv)

text \<open>C22: Whatever the operations are given (proposals with any numbers, edited files with any text, not-a-number
  included), the scores of every memory stay between 0 and 1, and identifiers stay distinct.\<close>

theorem memory_scores_bounded:
  assumes "memories w = []" and "mem_step\<^sup>*\<^sup>* w w'" and "m \<in> set (memories w')"
  shows "0 \<le> me_importance m \<and> me_importance m \<le> 1 \<and> 0 \<le> me_confidence m \<and> me_confidence m \<le> 1
    \<and> 0 \<le> me_stability m \<and> me_stability m \<le> 1 \<and> get_row me_id (me_id m) (memories w') = Some m"
  using mem.reachable_inv [OF assms(1,2)] assms(3) get_row_distinct [of me_id "memories w'" m]
  by (auto simp: mem_inv_def scores_ok_def)

theorem memory_scores_bounded_witness:
  "\<exists>env a w'. mem_step\<^sup>*\<^sup>* empty_world w' \<and> memories w' \<noteq> [] \<and> ma_importance a = NaN
     \<and> w' = snd (memory_create env a empty_world) \<and> me_importance (hd (memories w')) \<le> 1"
proof -
  let ?fe = "\<lparr>fe_backend = ''unknown'', fe_create = None, fe_match = (\<lambda>_ _ _. Inr []), fe_pg_search = (\<lambda>_ _ _. Inr []),
     fe_pg_status = (\<lambda>_. Inr (False, 0))\<rparr>"
  let ?env = "\<lparr>mv_events = False, mv_seed = None, mv_now = 0, mv_new_id = ''m1'', mv_history_id = (\<lambda>n. ''h''), mv_fts = ?fe\<rparr>"
  let ?a = "\<lparr>ma_kind = ''episodic'', ma_content = ''hi'', ma_source = ''chat'', ma_pinned = False, ma_importance = NaN,
     ma_confidence = Fin 7, ma_stability = NegInf, ma_supersedes_id = None, ma_source_turn_id = '''', ma_metadata = []\<rparr>"
  let ?w = "snd (memory_create ?env ?a empty_world)"
  have step: "mem_step empty_world ?w" by (rule mem_step.create) (simp add: empty_world_def)
  then have steps: "mem_step\<^sup>*\<^sup>* empty_world ?w" by (rule r_into_rtranclp)
  have ne: "memories ?w \<noteq> []" by code_simp
  have "memories empty_world = []" by (simp add: empty_world_def)
  then have "me_importance (hd (memories ?w)) \<le> 1"
    using memory_scores_bounded [OF _ steps, of "hd (memories ?w)"] ne by simp
  then show ?thesis using steps ne by (intro exI [of _ ?env] exI [of _ ?a] exI [of _ ?w]) simp
qed

section \<open>What a search returns\<close>

definition diverse :: "memory_hit list \<Rightarrow> bool" where
  "diverse hs = sorted_wrt (\<lambda>a b. jaccard (tokens (me_content (hit_memory a))) (tokens (me_content (hit_memory b))) < 41 / 50) hs"

lemma sorted_wrt_mset:
  assumes "\<And>a b. R a b = R b a" and "mset xs = mset ys" and "sorted_wrt R xs"
  shows "sorted_wrt R ys"
  using assms(2,3)
proof (induction xs arbitrary: ys)
  case (Cons x xs)
  then have "x \<in> set ys" by (metis list.set_intros(1) set_mset_mset)
  then obtain as bs where ys: "ys = as @ x # bs" by (meson split_list)
  then have m: "mset xs = mset (as @ bs)" using Cons.prems(1) by simp
  then have "sorted_wrt R (as @ bs)" using Cons by simp
  moreover have "\<forall>y \<in> set (as @ bs). R x y" using Cons.prems(2) m by (metis set_mset_mset sorted_wrt.simps(2))
  ultimately show ?case using assms(1) by (auto simp: ys sorted_wrt_append)
qed simp

lemma similarity_bound: "s \<in> set sel \<Longrightarrow>
  jaccard (tokens (me_content (hit_memory h))) (tokens (me_content (hit_memory s))) \<le> similarity sel h"
proof -
  have grow: "x \<le> fold max xs (x :: rat)" for x xs by (induction xs arbitrary: x) (auto intro: order_trans [OF max.cobounded2])
  have "y \<in> set xs \<Longrightarrow> y \<le> fold max xs (z :: rat)" for y xs z
  proof (induction xs arbitrary: z)
    case (Cons x xs)
    show ?case
    proof (cases "y = x")
      case True
      then show ?thesis using grow [of "max x z" xs] by simp
    qed (use Cons in auto)
  qed simp
  then show "s \<in> set sel \<Longrightarrow> ?thesis" by (simp add: similarity_def)
qed

lemma mmr_select_props:
  assumes "length sel < limit" and "diverse sel"
  shows "length (mmr_select limit sel hs) \<le> limit \<and> diverse (mmr_select limit sel hs)
    \<and> hit_memory ` set (mmr_select limit sel hs) \<subseteq> hit_memory ` set sel \<union> hit_memory ` set hs"
  using assms
proof (induction limit sel hs rule: mmr_select.induct)
  case (2 limit sel h hs)
  let ?sim = "similarity sel h"
  let ?h = "h\<lparr>hit_score := round_to 4 (hit_score h - ?sim * (7 / 20)),
      hit_reasons := hit_reasons h @ (if ?sim \<noteq> 0 then [''dedup_penalty''] else [])\<rparr>"
  show ?case
  proof (cases "41 / 50 \<le> ?sim")
    case True
    then show ?thesis using 2(1) [OF refl True 2(3,4)] by (auto simp: Let_def)
  next
    case False
    have "jaccard (tokens (me_content (hit_memory s))) (tokens (me_content (hit_memory h))) < 41 / 50" if "s \<in> set sel" for s
      using similarity_bound [OF that, of h] False by (simp add: jaccard_commute)
    then have d: "diverse (sel @ [?h])" using 2(4) by (simp add: diverse_def sorted_wrt_append)
    show ?thesis
    proof (cases "limit \<le> length (sel @ [?h])")
      case True
      then show ?thesis using False d 2(3) by (auto simp: Let_def)
    next
      case small: False
      have "mmr_select limit sel (h # hs) = mmr_select limit (sel @ [?h]) hs" using False small by (simp add: Let_def)
      then show ?thesis using 2(2) [OF refl False refl refl small _ d] small by auto
    qed
  qed
qed simp

lemma set_put_assoc: "set (put_assoc k v xs) \<subseteq> insert (k, v) (set xs)"
  by (induction k v xs rule: put_assoc.induct) auto

lemma fold_put_memories:
  "m \<in> snd ` set (fold (\<lambda>m. put_assoc (me_id m) m) ms acc) \<Longrightarrow> m \<in> set ms \<or> m \<in> snd ` set acc"
proof (induction ms arbitrary: acc)
  case (Cons x ms)
  then show ?case using set_put_assoc [of "me_id x" x acc] by fastforce
qed simp

lemma search_candidates_mem: "m \<in> set (search_candidates now q n hits w) \<Longrightarrow> m \<in> set (memories w)"
  by (auto simp: search_candidates_def Let_def structured_candidates_def by_priority_def
    dest!: fold_put_memories in_set_takeD split: if_splits)

lemma rank_memory_active: "rank_memory now q hits m = Some h \<Longrightarrow> hit_memory h = m \<and> \<not> is_inactive now m"
  by (auto simp: rank_memory_def Let_def case_prod_beta split: if_splits)

text \<open>C23: A search returns at most the requested number of hits (and never more than fifty), best score first.
  Every hit is a stored memory that is neither archived, superseded nor expired, whatever the full-text
  engine returned, and no two hits overlap in 82 percent of their tokens.\<close>

theorem search_sound:
  assumes "memory_search env q n w = (hits, w')"
  shows "int (length hits) \<le> max 1 (min n 50)
    \<and> (\<forall>h \<in> set hits. hit_memory h \<in> set (memories w) \<and> \<not> is_inactive (mv_now env) (hit_memory h))
    \<and> sorted_wrt (\<lambda>a b. hit_score b \<le> hit_score a) hits \<and> diverse hits \<and> memories w' = memories w"
proof -
  let ?limit = "clamp_limit 50 n"
  obtain rows w1 where f: "fts_search env (py_strip q) (max (?limit * 4) 20) w = (rows, w1)" by fastforce
  have w1: "memories w1 = memories w"
    using f by (auto simp: fts_search_def sqlite_fts_search_def Let_def split: if_splits)
  let ?fh = "fold (\<lambda>(k, r, sn). put_assoc k (k, r, sn)) rows []"
  let ?ranked = "List.map_filter (rank_memory (mv_now env) (py_strip q) ?fh)
      (search_candidates (mv_now env) (py_strip q) (max (?limit * 4) 20) ?fh w1)"
  let ?sel = "mmr_select ?limit [] (sort_key (\<lambda>h. - hit_score h) ?ranked)"
  have hits: "hits = take ?limit (sort_key (\<lambda>h. - hit_score h) ?sel)" and w': "w' = w1"
    using assms by (auto simp: memory_search_def Let_def f mmr_dedup_def)
  have sel: "diverse ?sel \<and> hit_memory ` set ?sel \<subseteq> hit_memory ` set ?ranked"
    using mmr_select_props [of "[]" ?limit "sort_key (\<lambda>h. - hit_score h) ?ranked"] clamp_limit_pos [of 50 n]
    by (simp add: diverse_def)
  have "diverse (sort_key (\<lambda>h. - hit_score h) ?sel)"
    unfolding diverse_def
    by (rule sorted_wrt_mset [of _ ?sel]) (use sel in \<open>simp_all add: jaccard_commute diverse_def\<close>)
  then have "diverse hits" by (simp add: hits diverse_def sorted_wrt_take)
  moreover have "sorted_wrt (\<lambda>a b. hit_score b \<le> hit_score a) hits"
    unfolding hits
    by (rule sorted_wrt_take) (use sorted_sort_key [of "\<lambda>h. - hit_score h" ?sel] in \<open>simp add: sorted_map\<close>)
  moreover have "hit_memory h \<in> set (memories w) \<and> \<not> is_inactive (mv_now env) (hit_memory h)" if "h \<in> set hits" for h
  proof -
    have "h \<in> set ?sel" using in_set_takeD [OF that [unfolded hits]] by (simp only: set_sort)
    then have "hit_memory h \<in> hit_memory ` set ?ranked" using sel by blast
    then show ?thesis
      using rank_memory_active search_candidates_mem w1 by (fastforce simp: map_filter_def)
  qed
  moreover have "length hits \<le> ?limit" unfolding hits by (simp only: length_take min.cobounded2)
  then have "int (length hits) \<le> max 1 (min n 50)" by (simp add: clamp_limit_def)
  ultimately show ?thesis using w1 w' by blast
qed

definition idle_engine :: fts_engine where
  "idle_engine = \<lparr>fe_backend = ''unknown'', fe_create = None, fe_match = (\<lambda>_ _ _. Inr []), fe_pg_search = (\<lambda>_ _ _. Inr []),
     fe_pg_status = (\<lambda>_. Inr (False, 0))\<rparr>"

definition sample_mem_env :: "string \<Rightarrow> instant \<Rightarrow> mem_env" where
  "sample_mem_env new_id now = \<lparr>mv_events = True, mv_seed = None, mv_now = now, mv_new_id = new_id,
     mv_history_id = (\<lambda>n. replicate n CHR ''h''), mv_fts = idle_engine\<rparr>"

definition sample_memory :: "uuid \<Rightarrow> string \<Rightarrow> memory" where
  "sample_memory mid content = blank_memory 0 mid ''episodic'' content"

theorem search_sound_witness:
  "let w = empty_world\<lparr>memories := [sample_memory ''a'' ''green tea'',
             retire ''archived'' (sample_memory ''b'' ''black tea'')]\<rparr>;
       hits = fst (memory_search (sample_mem_env ''x'' 10) '' tea'' 5 w)
   in map (me_id \<circ> hit_memory) hits = [''a''] \<and> diverse hits"
proof -
  let ?w = "empty_world\<lparr>memories := [sample_memory ''a'' ''green tea'',
             retire ''archived'' (sample_memory ''b'' ''black tea'')]\<rparr>"
  have "map (me_id \<circ> hit_memory) (fst (memory_search (sample_mem_env ''x'' 10) '' tea'' 5 ?w)) = [''a'']" by code_simp
  moreover have "diverse (fst (memory_search (sample_mem_env ''x'' 10) '' tea'' 5 ?w))"
    using search_sound [OF prod.collapse [symmetric], of "sample_mem_env ''x'' 10" "'' tea''" 5 ?w] by blast
  ultimately show ?thesis by (simp only: Let_def simp_thms)
qed

section \<open>The file line reads back\<close>

lemma py_strip_ends: "s \<noteq> [] \<Longrightarrow> \<not> is_space (hd s) \<Longrightarrow> \<not> is_space (last s) \<Longrightarrow> py_strip s = s"
  unfolding py_strip_def by (rule strip_ends)

lemma py_strip_trimmed: "py_strip s = s \<Longrightarrow> s \<noteq> [] \<Longrightarrow> \<not> is_space (hd s) \<and> \<not> is_space (last s)"
  unfolding py_strip_def by (metis strip_idem_ends)

lemma is_space_blank: "is_space CHR '' ''"
  by code_simp

lemma py_strip_blank: "py_strip (CHR '' '' # s) = py_strip s"
  by (simp add: py_strip_def strip_of_def lstrip_of_def is_space_blank)

text \<open>The scores printed with two digits, as hundredths.\<close>

lemma printed_score:
  "\<forall>n \<in> set [0..100]. let s = dec_str (n div 100) @ ''.'' @ [digit_char (n mod 100 div 10), digit_char (n mod 10)]
     in float_of_str s = Some (Fin (of_int n / 100)) \<and> list_all (\<lambda>c. is_digit c \<or> c = CHR ''.'') s \<and> s \<noteq> []"
  by code_simp

lemma format_2f_score:
  assumes "0 \<le> r" and "r \<le> 1"
  shows "float_of_str (format_2f r) = Some (Fin (round_to 2 r))"
    and "list_all (\<lambda>c. is_digit c \<or> c = CHR ''.'') (format_2f r)" and "format_2f r \<noteq> []"
    and "0 \<le> round_to 2 r \<and> round_to 2 r \<le> 1"
proof -
  let ?n = "round_half_even (r * 100)"
  have n: "0 \<le> ?n" "?n \<le> 100" using round_half_even_range [of "r * 100" 100] assms by auto
  have f: "format_2f r = dec_str (?n div 100) @ ''.'' @ [digit_char (?n mod 100 div 10), digit_char (?n mod 10)]"
    using assms by (simp add: format_2f_def Let_def)
  have "?n \<in> set [0..100]" using n by simp
  from bspec [OF printed_score this]
  show "float_of_str (format_2f r) = Some (Fin (round_to 2 r))"
    and "list_all (\<lambda>c. is_digit c \<or> c = CHR ''.'') (format_2f r)" and "format_2f r \<noteq> []"
    unfolding f Let_def round_to_def by simp_all
  show "0 \<le> round_to 2 r \<and> round_to 2 r \<le> 1" using n by (simp add: round_to_def)
qed

definition field_text :: "string \<Rightarrow> bool" where
  "field_text s = (s \<noteq> [] \<and> py_strip s = s \<and> CHR '','' \<notin> set s \<and> CHR '')'' \<notin> set s)"

lemma score_text:
  assumes "0 \<le> r" and "r \<le> 1"
  shows "field_text (format_2f r)"
proof -
  have c: "\<not> is_space c \<and> c \<noteq> CHR '','' \<and> c \<noteq> CHR '')''" if "is_digit c \<or> c = CHR ''.''" for c
  proof -
    have "\<not> is_space CHR ''.''" "\<not> is_digit CHR '',''" "\<not> is_digit CHR '')''" by code_simp+
    then show ?thesis using that by (auto simp: is_digit_def is_space_def Let_def)
  qed
  then have "list_all (\<lambda>c. \<not> is_space c) (format_2f r)" using format_2f_score(2) [OF assms] by (auto simp: list_all_iff)
  then have "py_strip (format_2f r) = format_2f r" unfolding py_strip_def by (rule strip_none)
  then show ?thesis using c format_2f_score(2,3) [OF assms] by (auto simp: field_text_def list_all_iff)
qed

lemma meta_item_field:
  assumes "field_text v" and "k \<noteq> []" and "list_all (\<lambda>c. \<not> is_space c \<and> c \<noteq> CHR ''='') k"
  shows "meta_item (CHR '' '' # k @ CHR ''='' # v) md = put_assoc k v md"
proof -
  have v: "v \<noteq> []" "py_strip v = v" using assms(1) by (auto simp: field_text_def)
  have "py_strip (k @ CHR ''='' # v) = k @ CHR ''='' # v"
    using assms(2,3) v py_strip_trimmed [OF v(2,1)] by (intro py_strip_ends) (auto simp: list_all_iff hd_append)
  moreover have "takeWhile (\<lambda>c. c \<noteq> CHR ''='') (k @ CHR ''='' # v) = k"
    "dropWhile (\<lambda>c. c \<noteq> CHR ''='') (k @ CHR ''='' # v) = CHR ''='' # v"
    using assms(3) by (simp_all add: takeWhile_append dropWhile_append list_all_iff)
  moreover have "py_strip k = k" unfolding py_strip_def
    by (rule strip_none) (use assms(3) in \<open>auto simp: list_all_iff\<close>)
  ultimately show ?thesis using v by (simp add: meta_item_def Let_def py_strip_blank)
qed

definition line_fields :: "memory \<Rightarrow> (string \<times> string) list" where
  "line_fields m = [(''kind'', me_kind m), (''source'', me_source m), (''status'', me_status m),
     (''importance'', format_2f (me_importance m)), (''confidence'', format_2f (me_confidence m)),
     (''stability'', format_2f (me_stability m))]"

definition printable :: "memory \<Rightarrow> bool" where
  "printable m = (field_text (me_kind m) \<and> CHR ''='' \<notin> set (me_kind m) \<and> field_text (me_source m) \<and> field_text (me_status m)
     \<and> me_content m \<noteq> [] \<and> py_strip (me_content m) = me_content m)"

lemma parse_printed_line:
  assumes "printable m" and "scores_ok m"
  shows "parse_memory_line (memory_file_line m) = Some (line_fields m, me_content m)"
proof -
  let ?i = "format_2f (me_importance m)" and ?c = "format_2f (me_confidence m)" and ?s = "format_2f (me_stability m)"
  let ?meta = "me_kind m @ '', source='' @ me_source m @ '', status='' @ me_status m @ '', importance='' @ ?i @
      '', confidence='' @ ?c @ '', stability='' @ ?s"
  have sc: "field_text ?i" "field_text ?c" "field_text ?s" using assms(2) by (auto simp: scores_ok_def intro: score_text)
  have ft: "field_text (me_kind m)" "field_text (me_source m)" "field_text (me_status m)" "CHR ''='' \<notin> set (me_kind m)"
    using assms(1) by (auto simp: printable_def)
  have content: "me_content m \<noteq> []" "py_strip (me_content m) = me_content m" using assms(1) by (auto simp: printable_def)
  note ends = py_strip_trimmed [OF content(2,1)]
  have sp: "\<not> is_space CHR ''-''" "\<not> is_space CHR ''(''" by code_simp+
  have line: "memory_file_line m = ''- ('' @ ?meta @ '') '' @ me_content m"
    using ft by (simp add: memory_file_line_def Let_def str_or_def field_text_def content)
  have strip: "py_strip (memory_file_line m) = memory_file_line m"
    unfolding line by (rule py_strip_ends) (use content ends sp in auto)
  have paren: "\<forall>c \<in> set ?meta. c \<noteq> CHR '')''" using ft sc by (auto simp: field_text_def)
  have tk: "takeWhile (\<lambda>x. x \<noteq> CHR '')'') (?meta @ CHR '')'' # CHR '' '' # me_content m) = ?meta"
    "dropWhile (\<lambda>x. x \<noteq> CHR '')'') (?meta @ CHR '')'' # CHR '' '' # me_content m) = CHR '')'' # CHR '' '' # me_content m"
    using takeWhile_append2 [of ?meta "\<lambda>x. x \<noteq> CHR '')''" "CHR '')'' # CHR '' '' # me_content m"]
      dropWhile_append2 [of ?meta "\<lambda>x. x \<noteq> CHR '')''" "CHR '')'' # CHR '' '' # me_content m"] paren by simp_all
  have l2: "memory_file_line m = CHR ''-'' # CHR '' '' # CHR ''('' # (?meta @ CHR '')'' # CHR '' '' # me_content m)"
    by (simp add: line)
  have dc: "dropWhile is_space (me_content m) = me_content m" by (rule dropWhile_hd) (use content ends in auto)
  have match: "match_memory_line (memory_file_line m) = Some (?meta, me_content m)"
    unfolding l2 match_memory_line_def
    by (simp only: list.case list.sel dropWhile.simps is_space_blank sp if_True if_False simp_thms tk list.distinct
      dc)
  have parts: "split_on CHR '','' ?meta = [me_kind m, '' source='' @ me_source m, '' status='' @ me_status m,
      '' importance='' @ ?i, '' confidence='' @ ?c, '' stability='' @ ?s]"
    using ft sc by (simp add: split_on_append split_on_no_sep field_text_def split_on_append [of _ "CHR '' '' # x" for x, simplified])
  have kind: "meta_item (me_kind m) [] = [(''kind'', me_kind m)]"
    using ft by (simp add: meta_item_def Let_def field_text_def)
  have keys: "list_all (\<lambda>c. \<not> is_space c \<and> c \<noteq> CHR ''='') k" if "k \<in> {''source'', ''status'', ''importance'', ''confidence'', ''stability''}" for k
  proof -
    have "\<forall>k \<in> set [''source'', ''status'', ''importance'', ''confidence'', ''stability'']. list_all (\<lambda>c. \<not> is_space c \<and> c \<noteq> CHR ''='') k"
      by code_simp
    then show ?thesis using that by auto
  qed
  have "fold meta_item (split_on CHR '','' ?meta) [] = line_fields m"
    unfolding parts line_fields_def
    using kind meta_item_field [OF ft(2) _ keys, of "''source''"] meta_item_field [OF ft(3) _ keys, of "''status''"]
      meta_item_field [OF sc(1) _ keys, of "''importance''"] meta_item_field [OF sc(2) _ keys, of "''confidence''"]
      meta_item_field [OF sc(3) _ keys, of "''stability''"] by simp
  then show ?thesis by (simp add: parse_memory_line_def strip match content)
qed

text \<open>The line written to the memory file for a memory reads back as this memory: kind, source, status and
  content as they were and the scores rounded to two digits, when the fields contain no comma and no closing
  parenthesis and the content is one stripped text. Synchronising the unedited line therefore changes nothing
  but the rounding of the scores, the provenance and the marker.\<close>

theorem memory_line_roundtrip:
  assumes "printable m" and "scores_ok m" and "me_archived m = (me_status m \<in> MEMORY_EXPIRED_STATUSES)"
  shows "\<exists>md. parse_memory_line (memory_file_line m) = Some (md, me_content m)
    \<and> sync_memory now path md (me_content m) m
      = m\<lparr>me_importance := round_to 2 (me_importance m), me_confidence := round_to 2 (me_confidence m),
          me_stability := round_to 2 (me_stability m), me_source_file_marker := marker (me_id m),
          me_provenance := dset ''synced_at'' (JStr (isoformat now)) (dset ''synced_from'' (JStr path) (me_provenance m))\<rparr>"
proof -
  have sc: "sync_score k (line_fields m) r = round_to 2 r"
    if "map_of (line_fields m) k = Some (format_2f r)" "0 \<le> r" "r \<le> 1" for k r
    using that format_2f_score [of r] by (simp add: sync_score_def clamp_id)
  have "sync_score ''importance'' (line_fields m) (me_importance m) = round_to 2 (me_importance m)"
    "sync_score ''confidence'' (line_fields m) (me_confidence m) = round_to 2 (me_confidence m)"
    "sync_score ''stability'' (line_fields m) (me_stability m) = round_to 2 (me_stability m)"
    by (rule sc; use assms(2) in \<open>simp add: line_fields_def scores_ok_def\<close>)+
  moreover have "me_kind m \<noteq> []" "me_source m \<noteq> []" "me_status m \<noteq> []" "me_content m \<noteq> []"
    using assms(1) by (auto simp: printable_def field_text_def)
  ultimately have "sync_memory now path (line_fields m) (me_content m) m
      = m\<lparr>me_importance := round_to 2 (me_importance m), me_confidence := round_to 2 (me_confidence m),
          me_stability := round_to 2 (me_stability m), me_source_file_marker := marker (me_id m),
          me_provenance := dset ''synced_at'' (JStr (isoformat now)) (dset ''synced_from'' (JStr path) (me_provenance m))\<rparr>"
    using assms(3) by (simp add: sync_memory_def Let_def str_or_def MEMORY_EXPIRED_STATUSES_def) (simp add: line_fields_def)
  then show ?thesis using parse_printed_line [OF assms(1,2)] by blast
qed

theorem memory_line_roundtrip_witness:
  "let m = (sample_memory ''id1'' ''likes green tea'')\<lparr>me_source := ''chat'', me_importance := 5 / 8\<rparr>
   in memory_file_line m
        = ''- (episodic, source=chat, status=active, importance=0.62, confidence=0.50, stability=0.50) likes green tea''
      \<and> (\<exists>md. parse_memory_line (memory_file_line m) = Some (md, ''likes green tea'')
          \<and> me_importance (sync_memory 0 ''memory/MEMORY.md'' md ''likes green tea'' m) = 31 / 50)"
proof -
  let ?m = "(sample_memory ''id1'' ''likes green tea'')\<lparr>me_source := ''chat'', me_importance := 5 / 8\<rparr>"
  have 1: "printable ?m" "scores_ok ?m" "me_archived ?m = (me_status ?m \<in> MEMORY_EXPIRED_STATUSES)" by code_simp+
  have 2: "memory_file_line ?m
      = ''- (episodic, source=chat, status=active, importance=0.62, confidence=0.50, stability=0.50) likes green tea''"
    by code_simp
  have 3: "round_to 2 (5 / 8) = 31 / 50" by code_simp
  have "me_content ?m = ''likes green tea''" by (simp add: sample_memory_def blank_memory_def)
  then have "\<exists>md. parse_memory_line (memory_file_line ?m) = Some (md, ''likes green tea'')
      \<and> me_importance (sync_memory 0 ''memory/MEMORY.md'' md ''likes green tea'' ?m) = 31 / 50"
    using memory_line_roundtrip [OF 1, of 0 "''memory/MEMORY.md''"] 3 by auto
  then show ?thesis using 2 by (simp only: Let_def simp_thms)
qed

text \<open>A memory of two lines loses the second when it is synchronised from its own entry.\<close>

lemma sync_truncates_lines:
  "let m = sample_memory ''id1'' (''first'' @ [newline] @ ''second'')
   in map_option snd (parse_memory_line (hd (splitlines (memory_file_line m)))) = Some ''first''"
  by code_simp

section \<open>Archiving can be undone\<close>

lemma get_put_memory:
  assumes "\<And>m. me_id m = mid \<Longrightarrow> me_id (f m) = mid"
  shows "get_row me_id k (memories (put_memory now mid f w))
       = (if k = mid then map_option (\<lambda>m. touch now m (f m)) (get_row me_id mid (memories w)) else get_row me_id k (memories w))"
proof -
  have "get_row me_id k (upd_row me_id mid (\<lambda>m. touch now m (f m)) rs)
      = (if k = mid then map_option (\<lambda>m. touch now m (f m)) (get_row me_id mid rs) else get_row me_id k rs)" for rs
    by (induction rs) (auto simp: upd_row_def assms)
  then show ?thesis by (simp add: put_memory_def)
qed

text \<open>What a snapshot of a well-formed memory puts back.\<close>

lemma apply_own_snapshot:
  assumes "scores_ok m" and "me_kind m \<noteq> []" and "me_content m \<noteq> []" and "me_source m \<noteq> []" and "me_status m \<noteq> []"
    and "me_source_file_marker m \<noteq> []"
    and "r = m\<lparr>me_kind := k, me_content := c, me_source := so, me_status := st, me_pinned := p, me_archived := a,
               me_importance := i, me_confidence := cf, me_stability := sb, me_source_file_marker := mk,
               me_provenance := pv, me_metadata := md, me_updated_at := u\<rparr>"
  shows "apply_snapshot (snapshot m) r = (None, m\<lparr>me_updated_at := u\<rparr>)"
  using assms
  by (simp add: apply_snapshot_def snapshot_def dstr_or_def dget_def dget_default_def py_str_def dict_or_empty_def
    scores_ok_def Let_def)

definition storable :: "memory \<Rightarrow> bool" where
  "storable m = (scores_ok m \<and> uuid_parse (me_id m) = Some (me_id m) \<and> me_kind m \<noteq> [] \<and> me_content m \<noteq> []
     \<and> me_source m \<noteq> [] \<and> me_status m \<noteq> [] \<and> me_source_file_marker m \<noteq> [])"

lemma uuid_parse_nonempty: "uuid_parse s = Some u \<Longrightarrow> u \<noteq> []"
  by (auto simp: uuid_parse_def uuid_text_def Let_def split: if_splits)

lemma touch_fields: "\<exists>u. touch now m m' = m'\<lparr>me_updated_at := u\<rparr>"
proof (cases "m' = m")
  case True
  then have "touch now m m' = m'\<lparr>me_updated_at := me_updated_at m'\<rparr>" by (simp add: touch_def)
  then show ?thesis by blast
qed (auto simp: touch_def)

text \<open>The row after archiving, and the history row it leaves.\<close>

lemma archive_outcome:
  assumes "get_row me_id mid (memories w) = Some m" and "memory_archive env mid w = (r, w1)"
  shows "get_row me_id k (memories w1)
       = (if k = mid then Some (touch (mv_now env) m (retire ''archived'' m)) else get_row me_id k (memories w))"
    and "memory_histories w1 = memory_histories w @
      [\<lparr>mh_id = mv_history_id env (length (memory_histories w)), mh_memory_id = Some mid, mh_action = ''archive'',
        mh_before = [(''memory'', JObj (snapshot m))], mh_after = [(''memory'', JObj (snapshot (retire ''archived'' m)))],
        mh_actor = ''memory-service'', mh_created_at = mv_now env\<rparr>]"
    and "r = Inr (retire ''archived'' m)"
proof -
  have ne: "snapshot m' \<noteq> []" for m' by (simp add: snapshot_def)
  show "get_row me_id k (memories w1)
       = (if k = mid then Some (touch (mv_now env) m (retire ''archived'' m)) else get_row me_id k (memories w))"
    using assms by (auto simp: memory_archive_def Let_def get_put_memory)
  show "memory_histories w1 = memory_histories w @
      [\<lparr>mh_id = mv_history_id env (length (memory_histories w)), mh_memory_id = Some mid, mh_action = ''archive'',
        mh_before = [(''memory'', JObj (snapshot m))], mh_after = [(''memory'', JObj (snapshot (retire ''archived'' m)))],
        mh_actor = ''memory-service'', mh_created_at = mv_now env\<rparr>]"
    using assms by (auto simp: memory_archive_def Let_def record_history_def ne str_or_def)
  show "r = Inr (retire ''archived'' m)" using assms by (auto simp: memory_archive_def Let_def)
qed

text \<open>C24: Archiving a memory takes it out of use and touches no other memory; restoring from the history row that
  archiving left gives the memory back as it was, up to the time of its last change.\<close>

theorem archive_restore_roundtrip:
  assumes m: "get_row me_id mid (memories w) = Some m" and ok: "storable m"
    and fresh: "mv_history_id env (length (memory_histories w)) \<notin> mh_id ` set (memory_histories w)"
    and arch: "memory_archive env mid w = (r1, w1)"
    and rest: "memory_restore envr (mv_history_id env (length (memory_histories w))) actor w1 = (r2, w2)"
  shows "(\<exists>a. get_row me_id mid (memories w1) = Some a \<and> is_inactive t a)
    \<and> (\<exists>u. r2 = Inr (m\<lparr>me_updated_at := u\<rparr>)) \<and> (\<exists>u. get_row me_id mid (memories w2) = Some (m\<lparr>me_updated_at := u\<rparr>))
    \<and> (\<forall>k. k \<noteq> mid \<longrightarrow> get_row me_id k (memories w2) = get_row me_id k (memories w))"
proof -
  note out = archive_outcome [OF m arch]
  have mid: "me_id m = mid" by (rule get_row_key [OF m])
  obtain u where u: "touch (mv_now env) m (retire ''archived'' m) = (retire ''archived'' m)\<lparr>me_updated_at := u\<rparr>"
    using touch_fields by blast
  let ?a = "(retire ''archived'' m)\<lparr>me_updated_at := u\<rparr>"
  have row: "get_row me_id mid (memories w1) = Some ?a" by (simp add: out(1) u)
  let ?hid = "mv_history_id env (length (memory_histories w))"
  have "get_row mh_id ?hid (memory_histories w) = None" using fresh by (simp add: get_row_None)
  then obtain h where h: "get_row mh_id ?hid (memory_histories w1) = Some h" "mh_before h = [(''memory'', JObj (snapshot m))]"
    by (auto simp: out(2) get_row_append)
  have snap: "history_snapshot h = JObj (snapshot m)" using h(2) by (simp add: history_snapshot_def py_or_def dget_def snapshot_def)
  have parse: "uuid_parse (py_str (dget ''id'' (snapshot m))) = Some mid" "truthy (dget ''id'' (snapshot m))"
    using ok mid uuid_parse_nonempty [of mid mid] by (auto simp: storable_def snapshot_def dget_def py_str_def)
  have app: "apply_snapshot (snapshot m) ?a = (None, m\<lparr>me_updated_at := u\<rparr>)"
    by (rule apply_own_snapshot [where u = u and k = "me_kind m" and c = "me_content m" and so = "me_source m" and st = "''archived''"
        and p = "me_pinned m" and a = True and i = "me_importance m" and cf = "me_confidence m" and sb = "me_stability m"
        and mk = "me_source_file_marker m" and pv = "me_provenance m" and md = "me_metadata m"])
      (use ok in \<open>auto simp: storable_def retire_def\<close>)
  let ?m = "m\<lparr>me_updated_at := u\<rparr>"
  have rest': "r2 = Inr ?m" "memories w2 = memories (put_memory (mv_now envr) mid (\<lambda>_. ?m) w1)"
    using rest by (auto simp: memory_restore_def h snap Let_def is_dict_def dict_or_empty_def parse row app)
  obtain u2 where "touch (mv_now envr) ?a ?m = ?m\<lparr>me_updated_at := u2\<rparr>" using touch_fields by blast
  then have "get_row me_id mid (memories w2) = Some (m\<lparr>me_updated_at := u2\<rparr>)"
    using row mid by (simp add: rest'(2) get_put_memory)
  moreover have "get_row me_id k (memories w2) = get_row me_id k (memories w)" if "k \<noteq> mid" for k
    using that mid by (simp add: rest'(2) get_put_memory out(1))
  moreover have "is_inactive t ?a" by (simp add: is_inactive_def retire_def)
  ultimately show ?thesis using row rest'(1) by blast
qed

definition sample_uuid :: uuid where
  "sample_uuid = ''11111111-2222-3333-4444-555555555555''"

theorem archive_restore_roundtrip_witness:
  "let m = (sample_memory sample_uuid ''likes tea'')\<lparr>me_source := ''chat'', me_source_file_marker := marker sample_uuid\<rparr>;
       w = empty_world\<lparr>memories := [m]\<rparr>; w1 = snd (memory_archive (sample_mem_env ''x'' 10) sample_uuid w);
       w2 = snd (memory_restore (sample_mem_env ''y'' 20) '''' ''admin'' w1)
   in \<exists>u. get_row me_id sample_uuid (memories w2) = Some (m\<lparr>me_updated_at := u\<rparr>)"
proof -
  let ?m = "(sample_memory sample_uuid ''likes tea'')\<lparr>me_source := ''chat'', me_source_file_marker := marker sample_uuid\<rparr>"
  let ?w = "empty_world\<lparr>memories := [?m]\<rparr>"
  have 1: "get_row me_id sample_uuid (memories ?w) = Some ?m" by (simp add: sample_memory_def blank_memory_def)
  have 2: "storable ?m" by code_simp
  have hid: "mv_history_id (sample_mem_env ''x'' 10) (length (memory_histories ?w)) = ''''" by (simp add: sample_mem_env_def empty_world_def)
  have 3: "mv_history_id (sample_mem_env ''x'' 10) (length (memory_histories ?w)) \<notin> mh_id ` set (memory_histories ?w)"
    by (simp add: empty_world_def)
  show ?thesis
    using archive_restore_roundtrip [OF 1 2 3, where envr = "sample_mem_env ''y'' 20" and actor = "''admin''",
        OF prod.collapse [symmetric] prod.collapse [symmetric]]
    unfolding hid Let_def by blast
qed

section \<open>Conflicts are recorded once\<close>

lemma conflict_open_mono: "conflict_open a b cs \<Longrightarrow> conflict_open a b (cs @ ds)"
  by (auto simp: conflict_open_def)

lemma add_conflicts_extends: "\<exists>ds. add_conflicts now m cands cs = cs @ ds \<and> (\<forall>c \<in> set ds. mc_right c = me_id m
  \<and> (\<exists>k \<in> set cands. mc_left c = me_id k \<and> 31 / 50 \<le> jaccard (tokens (me_content m)) (tokens (me_content k))))"
proof (induction now m cands cs rule: add_conflicts.induct)
  case (2 now m cand rest cs)
  show ?case
    using 2 by (simp add: Let_def split del: if_split) (auto split: if_split)
qed simp

lemma add_conflicts_opens:
  assumes "k \<in> set cands" and "31 / 50 \<le> jaccard (tokens (me_content m)) (tokens (me_content k))"
    and "py_strip (me_content k) \<noteq> py_strip (me_content m)"
  shows "conflict_open (me_id k) (me_id m) (add_conflicts now m cands cs)"
  using assms
proof (induction now m cands cs rule: add_conflicts.induct)
  case (2 now m cand rest cs)
  have keep: "conflict_open a b ds \<Longrightarrow> conflict_open a b (add_conflicts now m rest ds)" for a b ds
    using add_conflicts_extends [of now m rest ds] conflict_open_mono by fastforce
  show ?case
  proof (cases "k = cand")
    case True
    then show ?thesis using 2(5,6) keep by (auto simp: Let_def conflict_open_def)
  next
    case False
    then show ?thesis using 2 by (auto simp: Let_def)
  qed
qed simp

lemma add_conflicts_done:
  assumes "\<And>k. k \<in> set cands \<Longrightarrow> 31 / 50 \<le> jaccard (tokens (me_content m)) (tokens (me_content k)) \<Longrightarrow>
      py_strip (me_content k) \<noteq> py_strip (me_content m) \<Longrightarrow> conflict_open (me_id k) (me_id m) cs"
  shows "add_conflicts now m cands cs = cs"
  using assms by (induction now m cands cs rule: add_conflicts.induct) (auto simp: Let_def not_less)

text \<open>Looking for conflicts again finds nothing new, and every conflict recorded is with a memory of the same
  kind in use whose tokens overlap by at least 62 percent.\<close>

theorem detect_conflicts_idempotent:
  "detect_conflicts now2 m (detect_conflicts now m w) = detect_conflicts now m w
   \<and> (\<exists>new. memory_conflicts (detect_conflicts now m w) = memory_conflicts w @ new
        \<and> (\<forall>c \<in> set new. mc_right c = me_id m \<and> (\<exists>k \<in> set (memories w). mc_left c = me_id k \<and> me_id k \<noteq> me_id m
             \<and> \<not> me_archived k \<and> me_kind k = me_kind m
             \<and> 31 / 50 \<le> jaccard (tokens (me_content m)) (tokens (me_content k)))))"
proof (cases "card (tokens (me_content m)) < 4")
  case False
  let ?c = "take 50 (sort_key (\<lambda>c. - me_updated_at c)
      (filter (\<lambda>c. me_id c \<noteq> me_id m \<and> \<not> me_archived c \<and> me_kind c = me_kind m) (memories w)))"
  have d: "memory_conflicts (detect_conflicts now m w) = add_conflicts now m ?c (memory_conflicts w)"
    using False by (simp add: detect_conflicts_def Let_def)
  have "add_conflicts now2 m ?c (add_conflicts now m ?c (memory_conflicts w)) = add_conflicts now m ?c (memory_conflicts w)"
    by (rule add_conflicts_done) (rule add_conflicts_opens)
  then have "detect_conflicts now2 m (detect_conflicts now m w) = detect_conflicts now m w"
    using False by (simp add: detect_conflicts_def Let_def)
  moreover have "k \<in> set (memories w) \<and> me_id k \<noteq> me_id m \<and> \<not> me_archived k \<and> me_kind k = me_kind m" if "k \<in> set ?c" for k
    using that by (auto dest!: in_set_takeD)
  ultimately show ?thesis using add_conflicts_extends [of now m ?c "memory_conflicts w"] unfolding d by blast
qed (simp add: detect_conflicts_def)

end
