(* ===== verification/Skills_Props.thy ===== *)
theory Skills_Props
  imports Skills
begin

text \<open>
  What holds of the skill service: keys are safe directory names, applying a proposal writes only below the
  directory of its skill and only after every check passed, a stale proposal changes nothing, a scan makes the
  index mirror the directory.
\<close>

section \<open>Keys\<close>

lemma set_sub_runs: "set (sub_runs p r s) \<subseteq> set r \<union> {c \<in> set s. \<not> p c}"
  by (induction p r s rule: sub_runs.induct) (auto dest: set_dropWhileD)

lemma strip_sublist: "\<exists>a b. s = a @ strip_of p s @ b"
proof -
  let ?d = "dropWhile p s"
  have "?d = rev (dropWhile p (rev ?d)) @ rev (takeWhile p (rev ?d))"
    by (metis rev_append rev_rev_ident takeWhile_dropWhile_id)
  then have "s = takeWhile p s @ strip_of p s @ rev (takeWhile p (rev ?d))"
    unfolding strip_of_def lstrip_of_def rstrip_of_def by (metis takeWhile_dropWhile_id)
  then show ?thesis by blast
qed

lemma set_strip: "set (strip_of p s) \<subseteq> set s"
proof -
  obtain a b where "s = a @ strip_of p s @ b" using strip_sublist by blast
  then have "set s = set a \<union> set (strip_of p s) \<union> set b" by (metis set_append sup_assoc)
  then show ?thesis by blast
qed

lemma normalize_key_chars: "list_all key_char (normalize_skill_key s)"
proof -
  have dash: "key_char CHR ''-''" by code_simp
  have "set (sub_runs (\<lambda>c. \<not> key_char c) ''-'' t) \<subseteq> Collect key_char" for t
    using set_sub_runs [of "\<lambda>c. \<not> key_char c" "''-''" t] dash by auto
  then have "set (sub_runs (\<lambda>c. c = CHR ''-'') ''-'' (sub_runs (\<lambda>c. \<not> key_char c) ''-'' t)) \<subseteq> Collect key_char" for t
    using set_sub_runs [of "\<lambda>c. c = CHR ''-''" "''-''"] dash by fastforce
  then show ?thesis
    using set_strip unfolding normalize_skill_key_def Let_def list_all_iff by blast
qed

lemma key_char_plain:
  assumes "key_char c"
  shows "\<not> is_space c" and "lower_char c = c" and "c \<noteq> CHR 0x5C" and "c \<noteq> CHR ''.''"
proof -
  have "ordc (CHR 0x5C) = 92" "ordc CHR ''.'' = 46" "ordc CHR ''_'' = 95" "ordc CHR ''-'' = 45" "ordc CHR ''/'' = 47"
    by code_simp+
  then show "\<not> is_space c" "lower_char c = c" "c \<noteq> CHR 0x5C" "c \<noteq> CHR ''.''"
    using assms by (auto simp: key_char_def is_space_def lower_char_def is_digit_def Let_def)
qed

lemma sub_runs_id: "list_all (\<lambda>c. \<not> p c) s \<Longrightarrow> sub_runs p r s = s"
  by (induction p r s rule: sub_runs.induct) auto

text \<open>No two adjacent hyphens.\<close>

fun single_dashes :: "string \<Rightarrow> bool" where
  "single_dashes (c # d # s) = (\<not> (c = CHR ''-'' \<and> d = CHR ''-'') \<and> single_dashes (d # s))"
| "single_dashes _ = True"

lemma single_dashes_sub: "single_dashes (sub_runs (\<lambda>c. c = CHR ''-'') ''-'' s)"
proof (induction "\<lambda>c. c = CHR ''-''" "''-''" s rule: sub_runs.induct)
  case (2 c cs)
  show ?case
  proof (cases "c = CHR ''-''")
    case True
    let ?d = "dropWhile (\<lambda>c. c = CHR ''-'') cs"
    show ?thesis
    proof (cases ?d)
      case (Cons d ds)
      have "d \<noteq> CHR ''-''" using hd_dropWhile [of "\<lambda>c. c = CHR ''-''" cs] Cons by (metis list.distinct(1) list.sel(1))
      then show ?thesis using 2(1) [OF True] True unfolding sub_runs.simps(2) [of _ _ c cs] Cons by simp
    next
      case Nil
      show ?thesis unfolding sub_runs.simps(2) [of _ _ c cs] Nil by (simp add: True)
    qed
  next
    case False
    then show ?thesis using 2(2) by (cases "sub_runs (\<lambda>c. c = CHR ''-'') ''-'' cs") auto
  qed
qed simp

lemma single_dashes_append: "single_dashes (a @ b) \<Longrightarrow> single_dashes a \<and> single_dashes b"
proof (induction a)
  case (Cons c a)
  then show ?case by (cases a; cases b) auto
qed simp

lemma sub_dashes_id: "single_dashes s \<Longrightarrow> sub_runs (\<lambda>c. c = CHR ''-'') ''-'' s = s"
proof (induction "\<lambda>c. c = CHR ''-''" "''-''" s rule: sub_runs.induct)
  case (2 c cs)
  have s: "single_dashes cs" using 2(3) by (cases cs) auto
  show ?case
  proof (cases "c = CHR ''-''")
    case True
    then have "dropWhile (\<lambda>c. c = CHR ''-'') cs = cs" using 2(3) by (cases cs) auto
    then show ?thesis using 2(1) True s by simp
  qed (use 2(2) s in simp)
qed simp

lemma normalize_key_idem: "normalize_skill_key (normalize_skill_key s) = normalize_skill_key s"
proof -
  let ?k = "normalize_skill_key s"
  note kc = normalize_key_chars [of s]
  have "list_all (\<lambda>c. \<not> is_space c) ?k" using kc key_char_plain(1) by (auto simp: list_all_iff)
  then have 1: "py_strip ?k = ?k" "sub_runs is_space ''-'' ?k = ?k" by (simp_all add: py_strip_def strip_none sub_runs_id)
  have "concat (map (\<lambda>x. if x = CHR 0x5C then r else [x]) t) = t" if "list_all key_char t" for r t
    using that key_char_plain(3) by (induction t) auto
  then have 2: "replace_char (CHR 0x5C) ''/'' ?k = ?k" using kc by (simp add: replace_char_def)
  have 3: "py_lower ?k = ?k" unfolding py_lower_def using kc key_char_plain(2) by (intro map_idI) (auto simp: list_all_iff)
  have 4: "sub_runs (\<lambda>c. \<not> key_char c) ''-'' ?k = ?k" by (rule sub_runs_id) (use kc in simp)
  define t where "t = sub_runs (\<lambda>c. c = CHR ''-'') ''-'' (sub_runs (\<lambda>c. \<not> key_char c) ''-''
     (sub_runs is_space ''-'' (py_lower (replace_char (CHR 0x5C) ''/'' (py_strip s)))))"
  have k: "?k = strip_of (\<lambda>c. c = CHR ''-'' \<or> c = CHR ''/'') t" by (simp add: normalize_skill_key_def t_def Let_def)
  have "single_dashes t" unfolding t_def by (rule single_dashes_sub)
  then have "single_dashes ?k" using strip_sublist [of t] single_dashes_append unfolding k by metis
  then have 5: "sub_runs (\<lambda>c. c = CHR ''-'') ''-'' ?k = ?k" by (rule sub_dashes_id)
  have 6: "strip_of (\<lambda>c. c = CHR ''-'' \<or> c = CHR ''/'') ?k = ?k"
  proof (cases "?k = []")
    case False
    then show ?thesis using strip_idem_ends [of "\<lambda>c. c = CHR ''-'' \<or> c = CHR ''/''" t] unfolding k [symmetric]
      by (intro strip_ends) auto
  qed (simp add: strip_of_def lstrip_of_def rstrip_of_def)
  show ?thesis by (subst normalize_skill_key_def) (simp add: Let_def 1 2 3 4 5 6)
qed

lemma resolve_plain: "''..'' \<notin> set xs \<Longrightarrow> resolve_dots acc xs = rev acc @ xs"
  by (induction xs arbitrary: acc) auto

lemma split_on_subset: "x \<in> set (split_on c u) \<Longrightarrow> set x \<subseteq> set u"
  by (induction u arbitrary: x) (fastforce split: if_splits list.splits)+

lemma key_parts_plain: "''..'' \<notin> set (path_parts (normalize_skill_key s))"
  using split_on_subset [of "''..''" "CHR ''/''" "normalize_skill_key s"] normalize_key_chars [of s] key_char_plain(4)
  by (auto simp: path_parts_def list_all_iff)

lemma key_parts_nonempty: "normalize_skill_key s \<noteq> [] \<Longrightarrow> path_parts (normalize_skill_key s) \<noteq> []"
proof -
  let ?k = "normalize_skill_key s"
  assume "?k \<noteq> []"
  then have "hd ?k \<noteq> CHR ''/''" unfolding normalize_skill_key_def Let_def by (blast dest: strip_idem_ends)
  then obtain c cs where k: "?k = c # cs" "c \<noteq> CHR ''/''" using \<open>?k \<noteq> []\<close> by (cases ?k) auto
  then obtain y ys where y: "split_on CHR ''/'' ?k = (c # y) # ys"
    by (cases "split_on CHR ''/'' cs") auto
  have "c \<noteq> CHR ''.''" using normalize_key_chars [of s] key_char_plain(4) by (simp add: k)
  then show ?thesis by (simp add: path_parts_def y)
qed

lemma safe_skill_dir_plain:
  "''..'' \<notin> set (sv_root env) \<Longrightarrow> safe_skill_dir env s = Inr (sv_root env @ path_parts (normalize_skill_key s))"
  using key_parts_plain [of s] by (simp add: safe_skill_dir_def Let_def resolve_plain)



section \<open>Where proposals write\<close>

lemma path_parts_no_dots: "x \<in> set (path_parts p) \<Longrightarrow> x \<noteq> [] \<and> x \<noteq> ''.''"
  by (simp add: path_parts_def)

definition plain_path :: "string \<Rightarrow> bool" where
  "plain_path p = (\<not> is_absolute p \<and> ''..'' \<notin> set (path_parts p))"

lemma safe_child_plain:
  "plain_path rel \<Longrightarrow> ''..'' \<notin> set base \<Longrightarrow> safe_child base rel = Inr (base @ path_parts rel)"
  by (simp add: safe_child_def Let_def resolve_plain plain_path_def)

text \<open>Files written one after the other change only paths below the directory, whether or not all are written.\<close>

lemma write_files_below:
  assumes "write_files env dir fs w = (r, w')" and "\<forall>(p, c) \<in> set fs. plain_path p"
    and "dir = sv_root env @ key" and "''..'' \<notin> set dir"
  shows "(\<forall>p. map_of (skills_fs w') p \<noteq> map_of (skills_fs w) p \<longrightarrow> (\<exists>rest. p = join ''/'' (key @ rest)))
    \<and> w' = w\<lparr>skills_fs := skills_fs w'\<rparr>"
  using assms
proof (induction env dir fs w rule: write_files.induct)
  case (2 env dir rel content rest w)
  have rel: "plain_path rel" using 2(3) by simp
  have child: "safe_child dir rel = Inr (dir @ path_parts rel)" using rel 2(5) by (rule safe_child_plain)
  have below: "below_root env (dir @ path_parts rel) = key @ path_parts rel" by (simp add: below_root_def 2(4))
  show ?case
  proof (cases "write_file (key @ path_parts rel) content (skills_fs w)")
    case (Inl e)
    then show ?thesis using 2(2) by (simp add: child below)
  next
    case (Inr fs1)
    have fs1: "fs1 = put_assoc (join ''/'' (key @ path_parts rel)) content (skills_fs w)"
      using Inr by (auto simp: write_file_def split: if_splits)
    have "write_files env dir rest (w\<lparr>skills_fs := fs1\<rparr>) = (r, w')" using 2(2) by (simp add: child below Inr)
    note ih = 2(1) [OF child, unfolded below, OF Inr this _ 2(4,5)]
    have rest: "\<forall>(p, c) \<in> set rest. plain_path p" using 2(3) by simp
    have "\<exists>q. p = join ''/'' (key @ q)" if p: "map_of (skills_fs w') p \<noteq> map_of (skills_fs w) p" for p
    proof (cases "map_of fs1 p = map_of (skills_fs w) p")
      case True
      then show ?thesis using ih [OF rest] p by simp
    next
      case False
      then show ?thesis by (auto simp: fs1 split: if_splits)
    qed
    moreover have "w' = w\<lparr>skills_fs := skills_fs w'\<rparr>" using ih [OF rest] by simp
    ultimately show ?thesis by blast
  qed
qed simp

lemma lint_ok_paths:
  assumes "ln_ok (lint_files env fs)"
  shows "(\<forall>(p, c) \<in> set fs. plain_path p \<and> \<not> hidden (path_parts p)) \<and> int (length fs) \<le> MAX_SKILL_FILES
    \<and> map_of fs ''SKILL.md'' \<noteq> None"
proof -
  obtain e wn md body where m: "lint_manifest env fs = (e, wn, md, body)" by (metis prod_cases4)
  have errs: "(if int (length fs) > MAX_SKILL_FILES
            then [''too many skill files: '' @ nat_str (length fs) @ '' > '' @ int_str MAX_SKILL_FILES] else []) = []"
    "e = []" "concat (map (lint_file env md body) fs) = []"
    using assms by (simp_all add: lint_files_def m Let_def)
  have "plain_path p \<and> \<not> hidden (path_parts p)" if "(p, c) \<in> set fs" for p c
  proof -
    have "lint_file env md body (p, c) = []" using errs(3) that by auto
    then show ?thesis by (auto simp: lint_file_def Let_def plain_path_def split: if_splits)
  qed
  moreover have "map_of fs ''SKILL.md'' \<noteq> None" using m errs(2) by (auto simp: lint_manifest_def split: option.splits)
  ultimately show ?thesis using errs(1) by (auto split: if_splits)
qed

lemma scan_skill_frame:
  "skills_fs (snd (scan_skill env d w)) = skills_fs w" "evolution_proposals (snd (scan_skill env d w)) = evolution_proposals w"
  by (auto simp: scan_skill_def put_skill_def Let_def split: sum.splits option.splits prod.splits)

lemma scan_dirs_frame:
  "skills_fs (snd (scan_dirs env ds w)) = skills_fs w \<and> evolution_proposals (snd (scan_dirs env ds w)) = evolution_proposals w"
proof (induction ds arbitrary: w)
  case (Cons d ds)
  obtain r w1 where r: "scan_skill env d w = (r, w1)" by fastforce
  have "skills_fs w1 = skills_fs w" "evolution_proposals w1 = evolution_proposals w"
    using scan_skill_frame [of env d w] by (simp_all add: r)
  then show ?case using Cons.IH [of w1] by (cases r) (simp_all add: op_bind_def r)
qed simp

lemma skill_scan_frame:
  "skills_fs (snd (skill_scan env w)) = skills_fs w" "evolution_proposals (snd (skill_scan env w)) = evolution_proposals w"
proof -
  obtain r w1 where "scan_dirs env (skill_dirs (skills_fs w)) w = (r, w1)" by fastforce
  then show "skills_fs (snd (skill_scan env w)) = skills_fs w"
    "evolution_proposals (snd (skill_scan env w)) = evolution_proposals w"
    using scan_dirs_frame [of env "skill_dirs (skills_fs w)" w] by (cases r; simp add: skill_scan_def Let_def op_bind_def)+
qed

lemma op_bind_field: "(\<And>x v. g (snd (f x v)) = g v) \<Longrightarrow> g (snd (op_bind m f w)) = g (snd (m w))"
  by (auto simp: op_bind_def split: prod.split sum.split)

lemma install_skill_fs:
  "skills_fs (snd (install_skill env p key dir fs wn ts actor w)) = skills_fs (snd (write_files env dir fs w))"
  unfolding install_skill_def Let_def
proof (rule op_bind_field, goal_cases)
  case (1 x v)
  show ?case by (subst op_bind_field) (simp_all add: skill_scan_frame put_proposal_def)
qed

text \<open>C25: Whatever a proposal contains, applying it changes no file unless the files passed the lint checks and the
  manifest tests and the directory is still the one the proposal was made for; and then every path it changes
  lies below the directory of the proposal's skill. This holds also when the operation raises half way.\<close>

theorem skill_apply_safe:
  assumes "skill_apply_proposal env pid actor w = (r, w')" and "''..'' \<notin> set (sv_root env)"
    and "map_of (skills_fs w') path \<noteq> map_of (skills_fs w) path"
  shows "\<exists>p rest. get_row ep_id pid (evolution_proposals w) = Some p \<and> ep_status p \<in> {''pending'', ''approved''}
    \<and> (let key = path_parts (normalize_skill_key (dstr ''skill_key'' (ep_payload p)));
           fs = files_of (dget ''files'' (ep_payload p));
           expected = dstr_or ''base_checksum'' (ep_target_checksum p) (ep_payload p)
       in path = join ''/'' (key @ rest) \<and> key \<noteq> [] \<and> ln_ok (lint_files env fs)
          \<and> (\<exists>tp. test_files env fs = Inr tp \<and> tp_ok tp)
          \<and> (expected = [] \<or> expected = snapshot_checksum (sv_sha env) (read_skill_files (skills_fs w) key)))"
proof -
  have ch: "skills_fs w' \<noteq> skills_fs w" using assms(3) by auto
  obtain p where p: "get_row ep_id pid (evolution_proposals w) = Some p"
    using assms(1) ch by (cases "get_row ep_id pid (evolution_proposals w)") (auto simp: skill_apply_proposal_def)
  define key where "key = normalize_skill_key (dstr ''skill_key'' (ep_payload p))"
  define fs where "fs = files_of (dget ''files'' (ep_payload p))"
  define expected where "expected = dstr_or ''base_checksum'' (ep_target_checksum p) (ep_payload p)"
  let ?dir = "sv_root env @ path_parts key"
  have idem: "normalize_skill_key key = key"
    unfolding key_def using normalize_key_idem by simp
  have dir: "safe_skill_dir env key = Inr ?dir" using safe_skill_dir_plain [OF assms(2), of key] by (simp add: idem)
  have snap: "skill_snapshot env ?dir w = read_skill_files (skills_fs w) (path_parts key)"
    by (simp add: skill_snapshot_def below_root_def)
  have st: "ep_status p \<in> {''pending'', ''approved''}" and key: "key \<noteq> []" and lint: "ln_ok (lint_files env fs)"
    and sum: "expected = [] \<or> expected = snapshot_checksum (sv_sha env) (read_skill_files (skills_fs w) (path_parts key))"
    and tests: "\<exists>tp. test_files env fs = Inr tp \<and> tp_ok tp \<and> (r, w') = install_skill env p key ?dir fs
        (ln_warnings (lint_files env fs)) (tp_tests tp) actor w"
    using assms(1) ch
    unfolding skill_apply_proposal_def p option.case Let_def key_def [symmetric] fs_def [symmetric] expected_def [symmetric]
      dir sum.case snap
    by (auto simp: put_proposal_def split: if_splits sum.splits)
  then obtain tp where tp: "test_files env fs = Inr tp" "tp_ok tp"
    and ins: "(r, w') = install_skill env p key ?dir fs (ln_warnings (lint_files env fs)) (tp_tests tp) actor w" by blast
  obtain r1 w1 where wr: "write_files env ?dir fs w = (r1, w1)" by fastforce
  have "skills_fs w' = skills_fs w1"
    using install_skill_fs [of env p key ?dir fs "ln_warnings (lint_files env fs)" "tp_tests tp" actor w] ins wr
    by (metis snd_conv)
  moreover have "\<forall>(q, c) \<in> set fs. plain_path q" using lint_ok_paths [OF lint] by auto
  moreover have "''..'' \<notin> set ?dir" using assms(2) key_parts_plain [of "dstr ''skill_key'' (ep_payload p)"] by (simp add: key_def)
  ultimately obtain rest where "path = join ''/'' (path_parts key @ rest)"
    using write_files_below [OF wr] assms(3) by auto
  moreover have "path_parts key \<noteq> []" using key_parts_nonempty key unfolding key_def by blast
  ultimately show ?thesis
    using p st lint sum tp by (auto simp: Let_def key_def [symmetric] fs_def [symmetric] expected_def [symmetric])
qed

text \<open>A sample environment: the manifest is a mapping with a name unless the YAML text is \<open>bad\<close>.\<close>

definition sample_skill_env :: "instant \<Rightarrow> skill_env" where
  "sample_skill_env now = \<lparr>sv_events = True, sv_now = now, sv_new_id = ''p2'', sv_root = [''srv''], sv_sha = id,
     sv_yaml_load = (\<lambda>y. if y = ''bad'' then Inl (OtherError ''bad yaml'') else Inr (JObj [(''name'', JStr y)])),
     sv_yaml_dump = (\<lambda>d. '''')\<rparr>"

definition skill_proposal :: "(string \<times> json) list \<Rightarrow> evolution_proposal" where
  "skill_proposal fs = sample_proposal\<lparr>ep_target_type := ''skill'', ep_action := ''upsert'',
     ep_payload := [(''skill_key'', JStr ''Tea''), (''files'', JObj fs)]\<rparr>"

definition tea_world :: "(string \<times> string) list \<Rightarrow> world" where
  "tea_world fs = empty_world\<lparr>evolution_proposals := [skill_proposal [(''SKILL.md'', JStr ''# Tea'')]], skills_fs := fs\<rparr>"

theorem skill_apply_safe_witness:
  "let w = tea_world []; w' = snd (skill_apply_proposal (sample_skill_env 1) ''p1'' ''admin'' w)
   in map_of (skills_fs w') ''tea/SKILL.md'' = Some ''# Tea'' \<and> (\<exists>rest. ''tea/SKILL.md'' = join ''/'' ([''tea''] @ rest))"
proof -
  let ?w = "tea_world []"
  let ?w' = "snd (skill_apply_proposal (sample_skill_env 1) ''p1'' ''admin'' ?w)"
  have 1: "map_of (skills_fs ?w') ''tea/SKILL.md'' = Some ''# Tea''" by code_simp
  have 2: "map_of (skills_fs ?w) ''tea/SKILL.md'' = None" by code_simp
  have 3: "''..'' \<notin> set (sv_root (sample_skill_env 1))" by code_simp
  have ch: "map_of (skills_fs ?w') ''tea/SKILL.md'' \<noteq> map_of (skills_fs ?w) ''tea/SKILL.md''" using 1 2 by simp
  have row: "get_row ep_id ''p1'' (evolution_proposals ?w) = Some (skill_proposal [(''SKILL.md'', JStr ''# Tea'')])"
    by (simp add: tea_world_def skill_proposal_def sample_proposal_def)
  have key: "path_parts (normalize_skill_key (dstr ''skill_key'' (ep_payload (skill_proposal [(''SKILL.md'', JStr ''# Tea'')])))) = [''tea'']"
    by code_simp
  have "\<exists>rest. ''tea/SKILL.md'' = join ''/'' ([''tea''] @ rest)"
    using skill_apply_safe [OF prod.collapse [symmetric] 3 ch] unfolding row Let_def using key by (metis option.inject)
  then show ?thesis using 1 by (simp only: Let_def simp_thms)
qed

text \<open>The index is rebuilt after the files were written: when another skill has a manifest that does not load,
  the operation raises although the files are changed.\<close>

lemma apply_raises_after_writing:
  "let w = tea_world [(''old/SKILL.md'', ''---'' @ [newline] @ ''bad'' @ [newline] @ ''---'' @ [newline])];
       (r, w') = skill_apply_proposal (sample_skill_env 1) ''p1'' ''admin'' w
   in r = Inl (OtherError ''bad yaml'') \<and> map_of (skills_fs w') ''tea/SKILL.md'' = Some ''# Tea''"
  by code_simp

text \<open>Rolling back writes the old files again but leaves a file in place that the proposal added.\<close>

lemma rollback_keeps_added_files:
  "let w = (tea_world [(''tea/SKILL.md'', ''# Old'')])\<lparr>evolution_proposals :=
             [skill_proposal [(''SKILL.md'', JStr ''# Tea''), (''extra.md'', JStr ''new'')]]\<rparr>;
       w1 = snd (skill_apply_proposal (sample_skill_env 1) ''p1'' ''admin'' w);
       w2 = snd (skill_rollback (sample_skill_env 2) ''tea'' ''admin'' w1)
   in skills_fs w1 = [(''tea/SKILL.md'', ''# Tea''), (''tea/extra.md'', ''new'')]
      \<and> skills_fs w2 = [(''tea/SKILL.md'', ''# Old''), (''tea/extra.md'', ''new'')]"
  by code_simp

section \<open>The index mirrors the directory\<close>

definition mirrored :: "string \<Rightarrow> world \<Rightarrow> files" where
  "mirrored key w = map (\<lambda>f. (skf_path f, skf_content f)) (filter (\<lambda>f. skf_key f = key) (skill_files w))"

lemma put_skill_files [simp]: "skill_files (put_skill s w) = skill_files w"
  by (simp add: put_skill_def split: option.split)

lemma put_skill_row:
  "\<exists>r. get_row skl_key (skl_key s) (skills (put_skill s w)) = Some r \<and> skl_status r = skl_status s \<and> skl_name r = skl_name s"
proof (cases "get_row skl_key (skl_key s) (skills w)")
  case (Some r)
  have "get_row skl_key (skl_key s) (upd_row skl_key (skl_key s) (\<lambda>r. s\<lparr>skl_pinned := skl_pinned r\<rparr>) rs)
      = map_option (\<lambda>r. s\<lparr>skl_pinned := skl_pinned r\<rparr>) (get_row skl_key (skl_key s) rs)" for rs
    by (induction rs) (auto simp: upd_row_def)
  then show ?thesis by (simp add: put_skill_def Some)
qed (simp add: put_skill_def get_row_append)

lemma put_skill_other: "k \<noteq> skl_key s \<Longrightarrow> get_row skl_key k (skills (put_skill s w)) = get_row skl_key k (skills w)"
proof (cases "get_row skl_key (skl_key s) (skills w)")
  case (Some r)
  assume "k \<noteq> skl_key s"
  moreover have "get_row skl_key k (upd_row skl_key (skl_key s) (\<lambda>r. s\<lparr>skl_pinned := skl_pinned r\<rparr>) rs) = get_row skl_key k rs"
    if "k \<noteq> skl_key s" for rs using that by (induction rs) (auto simp: upd_row_def)
  ultimately show ?thesis by (simp add: put_skill_def Some)
qed (auto simp: put_skill_def get_row_append split: option.split)

lemma scan_skill_mirrors:
  assumes "scan_skill env d w = (Inr u, w1)"
  shows "mirrored (skill_key_of env d) w1 = read_skill_files (skills_fs w) d"
    and "\<exists>r. get_row skl_key (skill_key_of env d) (skills w1) = Some r \<and> skl_status r = ''active''"
    and "k \<noteq> skill_key_of env d \<Longrightarrow> mirrored k w1 = mirrored k w \<and> get_row skl_key k (skills w1) = get_row skl_key k (skills w)"
    and "skills_fs w1 = skills_fs w"
proof -
  let ?fs = "read_skill_files (skills_fs w) d" and ?key = "skill_key_of env d"
  obtain md body where p: "parse_skill_markdown env (case map_of ?fs ''SKILL.md'' of None \<Rightarrow> '''' | Some s \<Rightarrow> s) = Inr (md, body)"
    using assms by (auto simp: scan_skill_def Let_def split: sum.splits)
  define s where "s = \<lparr>skl_key = ?key, skl_name = (if truthy (dget ''name'' md) then py_str (dget ''name'' md)
        else if truthy (dget ''title'' md) then py_str (dget ''title'' md) else skill_title body ?key),
      skl_description = py_strip (dstr ''description'' md), skl_path = path_str (sv_root env @ d), skl_status = ''active'',
      skl_pinned = False, skl_metadata = md\<rparr>"
  have w1: "skills w1 = skills (put_skill s w)"
    "skill_files w1 = filter (\<lambda>f. skf_key f \<noteq> ?key) (skill_files w) @
       map (\<lambda>(p, c). \<lparr>skf_key = ?key, skf_path = p, skf_checksum = sv_sha env c, skf_content = c\<rparr>) ?fs"
    using assms by (auto simp: scan_skill_def Let_def p s_def)
  have new: "filter (\<lambda>f. skf_key f = k) (map (\<lambda>(p, c). \<lparr>skf_key = ?key, skf_path = p, skf_checksum = sv_sha env c, skf_content = c\<rparr>) xs)
      = (if k = ?key then map (\<lambda>(p, c). \<lparr>skf_key = ?key, skf_path = p, skf_checksum = sv_sha env c, skf_content = c\<rparr>) xs else [])" for k xs
    by (induction xs) auto
  have "map (\<lambda>f. (skf_path f, skf_content f)) (map (\<lambda>(p, c). \<lparr>skf_key = ?key, skf_path = p, skf_checksum = sv_sha env c, skf_content = c\<rparr>) xs) = xs" for xs
    by (induction xs) auto
  then show "mirrored ?key w1 = ?fs" by (simp add: mirrored_def w1 new)
  show "\<exists>r. get_row skl_key ?key (skills w1) = Some r \<and> skl_status r = ''active''"
    using put_skill_row [of s w] by (auto simp: w1 s_def)
  show "mirrored k w1 = mirrored k w \<and> get_row skl_key k (skills w1) = get_row skl_key k (skills w)" if "k \<noteq> ?key"
  proof -
    have "filter (\<lambda>f. skf_key f \<noteq> ?key \<and> skf_key f = k) xs = filter (\<lambda>f. skf_key f = k) xs"
      for xs :: "skill_file list" using that by (intro filter_cong) auto
    then show ?thesis using that put_skill_other [of k s w] by (simp add: mirrored_def w1 new) (simp add: s_def)
  qed
  show "skills_fs w1 = skills_fs w" using scan_skill_frame(1) [of env d w] assms by simp
qed

lemma scan_dirs_mirrors:
  assumes "scan_dirs env ds w = (Inr u, w')" and "distinct (map (skill_key_of env) ds)"
  shows "(\<forall>d \<in> set ds. mirrored (skill_key_of env d) w' = read_skill_files (skills_fs w) d
      \<and> (\<exists>r. get_row skl_key (skill_key_of env d) (skills w') = Some r \<and> skl_status r = ''active''))
    \<and> (\<forall>k. k \<notin> skill_key_of env ` set ds \<longrightarrow> mirrored k w' = mirrored k w \<and> get_row skl_key k (skills w') = get_row skl_key k (skills w))"
  using assms
proof (induction ds arbitrary: w)
  case (Cons d ds)
  then obtain v w1 where s: "scan_skill env d w = (Inr v, w1)" and r: "scan_dirs env ds w1 = (Inr u, w')"
    by (auto simp: op_bind_Inr)
  note one = scan_skill_mirrors [OF s]
  have ih: "(\<forall>e \<in> set ds. mirrored (skill_key_of env e) w' = read_skill_files (skills_fs w) e
      \<and> (\<exists>r. get_row skl_key (skill_key_of env e) (skills w') = Some r \<and> skl_status r = ''active''))
    \<and> (\<forall>k. k \<notin> skill_key_of env ` set ds \<longrightarrow> mirrored k w' = mirrored k w1 \<and> get_row skl_key k (skills w') = get_row skl_key k (skills w1))"
    using Cons.IH [OF r] Cons.prems(2) by (simp add: one(4))
  have "skill_key_of env d \<notin> skill_key_of env ` set ds" using Cons.prems(2) by auto
  then show ?case using ih one(1,2,3) by auto
qed simp

text \<open>After a scan every skill directory has an active row, and the file rows of its key are exactly its visible
  files, as long as no two directories have the same key; the rows of all other keys are untouched. The scan
  does not change any file.\<close>

theorem scan_mirrors_directory:
  assumes "skill_scan env w = (Inr n, w')" and "distinct (map (skill_key_of env) (skill_dirs (skills_fs w)))"
  shows "n = int (length (skill_dirs (skills_fs w))) \<and> skills_fs w' = skills_fs w
    \<and> (\<forall>d \<in> set (skill_dirs (skills_fs w)). mirrored (skill_key_of env d) w' = read_skill_files (skills_fs w) d
      \<and> (\<exists>r. get_row skl_key (skill_key_of env d) (skills w') = Some r \<and> skl_status r = ''active''))
    \<and> (\<forall>k. k \<notin> skill_key_of env ` set (skill_dirs (skills_fs w)) \<longrightarrow> mirrored k w' = mirrored k w)"
proof -
  obtain u w1 where s: "scan_dirs env (skill_dirs (skills_fs w)) w = (Inr u, w1)"
    and w': "w' = emit (sv_events env) ''skills.scan'' [(''skills'', JInt n), (''index'', JStr ''file_mirror'')] w1"
    and n: "n = int (length (skill_dirs (skills_fs w)))"
    using assms(1) by (auto simp: skill_scan_def Let_def op_bind_Inr)
  have e: "mirrored k w' = mirrored k w1" "skills w' = skills w1" for k by (simp_all add: w' mirrored_def)
  show ?thesis
    using scan_dirs_mirrors [OF s assms(2)] scan_dirs_frame [of env "skill_dirs (skills_fs w)" w] n
    by (simp add: e s) (simp add: w')
qed

theorem scan_mirrors_directory_witness:
  "let w = tea_world [(''tea/SKILL.md'', ''# Tea''), (''tea/.git/x'', ''y''), (''tea/b.md'', ''z'')];
       w' = snd (skill_scan (sample_skill_env 1) w)
   in mirrored ''tea'' w' = [(''SKILL.md'', ''# Tea''), (''b.md'', ''z'')]"
proof -
  let ?w = "tea_world [(''tea/SKILL.md'', ''# Tea''), (''tea/.git/x'', ''y''), (''tea/b.md'', ''z'')]"
  let ?s = "skill_scan (sample_skill_env 1) ?w"
  have 1: "skill_dirs (skills_fs ?w) = [[''tea'']]" by code_simp
  have 2: "skill_key_of (sample_skill_env 1) [''tea''] = ''tea''" by code_simp
  have 3: "read_skill_files (skills_fs ?w) [''tea''] = [(''SKILL.md'', ''# Tea''), (''b.md'', ''z'')]" by code_simp
  have 4: "fst ?s = Inr 1" by code_simp
  then have s: "?s = (Inr 1, snd ?s)" by (metis prod.collapse)
  have "distinct (map (skill_key_of (sample_skill_env 1)) (skill_dirs (skills_fs ?w)))" by (simp add: 1)
  from scan_mirrors_directory [OF s this] show ?thesis by (simp add: 1 2 3 Let_def)
qed

end
