(* ===== verification/Wiki_Props.thy ===== *)
theory Wiki_Props
  imports Wiki_Service Skills_Props
begin

text \<open>
  Properties of the wiki: keys, the compiler as a mirror of the files, the application of proposals, search,
  evidence, linting and repair.
\<close>

section \<open>Keys\<close>

lemma page_slug_chars: "list_all key_char (page_slug v)"
proof -
  have d: "key_char CHR ''-''" by code_simp
  let ?v3 = "sub_runs (\<lambda>c. \<not> key_char c) ''-'' (sub_runs is_space ''-'' v)"
  have "set ?v3 \<subseteq> {c. key_char c}" using set_sub_runs [of "\<lambda>c. \<not> key_char c" "''-''"] d by fastforce
  then have "set (sub_runs (\<lambda>c. c = CHR ''-'') ''-'' ?v3) \<subseteq> {c. key_char c}"
    using set_sub_runs [of "\<lambda>c. c = CHR ''-''" "''-''" ?v3] d by fastforce
  then show ?thesis
    using set_strip [of "\<lambda>c. c = CHR ''-'' \<or> c = CHR ''/''"] by (fastforce simp: page_slug_def Let_def list_all_iff)
qed

lemma page_slug_idem: "page_slug (page_slug v) = page_slug v"
proof -
  let ?k = "page_slug v"
  let ?e = "\<lambda>c. c = CHR ''-'' \<or> c = CHR ''/''"
  note kc = page_slug_chars [of v]
  have "list_all (\<lambda>c. \<not> is_space c) ?k" using kc key_char_plain(1) by (auto simp: list_all_iff)
  then have 1: "sub_runs is_space ''-'' ?k = ?k" by (simp add: sub_runs_id)
  have 2: "sub_runs (\<lambda>c. \<not> key_char c) ''-'' ?k = ?k" by (rule sub_runs_id) (use kc in simp)
  define t where "t = sub_runs (\<lambda>c. c = CHR ''-'') ''-'' (sub_runs (\<lambda>c. \<not> key_char c) ''-'' (sub_runs is_space ''-'' v))"
  have k: "?k = strip_of ?e t" by (simp add: page_slug_def t_def Let_def)
  have "single_dashes t" unfolding t_def by (rule single_dashes_sub)
  then have "single_dashes ?k" using strip_sublist [of t] single_dashes_append unfolding k by metis
  then have 3: "sub_runs (\<lambda>c. c = CHR ''-'') ''-'' ?k = ?k" by (rule sub_dashes_id)
  have 4: "strip_of ?e ?k = ?k"
  proof (cases "?k = []")
    case False
    then show ?thesis using strip_idem_ends [of ?e t] unfolding k [symmetric] by (intro strip_ends) auto
  qed (simp add: strip_of_def lstrip_of_def rstrip_of_def)
  show ?thesis by (subst page_slug_def) (simp add: Let_def 1 2 3 4)
qed

text \<open>A key is left alone by the steps before the substitutions.\<close>

lemma key_text_plain:
  assumes "list_all key_char k"
  shows "py_strip k = k" "replace_char (CHR 0x5C) ''/'' k = k" "py_lower k = k" "drop_md k = k"
proof -
  have "list_all (\<lambda>c. \<not> is_space c) k" using assms key_char_plain(1) by (auto simp: list_all_iff)
  then show "py_strip k = k" by (simp add: py_strip_def strip_none)
  have "concat (map (\<lambda>x. if x = CHR 0x5C then r else [x]) t) = t" if "list_all key_char t" for r t
    using that key_char_plain(3) by (induction t) auto
  then show "replace_char (CHR 0x5C) ''/'' k = k" using assms by (simp add: replace_char_def)
  show l: "py_lower k = k" unfolding py_lower_def using assms key_char_plain(2) by (intro map_idI) (auto simp: list_all_iff)
  have "\<not> key_char CHR ''.''" by code_simp
  then have "\<not> suffix ''.md'' k" using assms by (auto simp: suffix_def)
  then show "drop_md k = k" by (simp add: drop_md_def l)
qed

lemma page_key_chars: "list_all key_char (normalize_page_key s)"
  unfolding normalize_page_key_def by (rule page_slug_chars)

lemma page_key_idem [simp]: "normalize_page_key (normalize_page_key s) = normalize_page_key s"
proof -
  let ?k = "normalize_page_key s"
  have "normalize_page_key ?k = page_slug ?k"
    by (simp add: normalize_page_key_def [of "normalize_page_key s"] key_text_plain [OF page_key_chars])
  then show ?thesis by (simp add: normalize_page_key_def page_slug_idem)
qed

section \<open>The compiler\<close>

lemma add_error_frame [simp]:
  "wiki_links (add_error env e w) = wiki_links w" "wiki_pages (add_error env e w) = wiki_pages w"
  "wiki_sources (add_error env e w) = wiki_sources w" "wiki_fs (add_error env e w) = wiki_fs w"
  "evolution_proposals (add_error env e w) = evolution_proposals w" "wiki_compile_runs (add_error env e w) = wiki_compile_runs w"
  by (simp_all add: add_error_def)

text \<open>What keeps a field through every step of a fold keeps it through the fold.\<close>

lemma fold_frame: "(\<And>x w. g (f x w) = g w) \<Longrightarrow> g (fold f xs w) = g w"
  by (induction xs arbitrary: w) auto

lemma add_errors_frame [simp]:
  "wiki_links (fold (add_error env) es w) = wiki_links w" "wiki_pages (fold (add_error env) es w) = wiki_pages w"
  "wiki_sources (fold (add_error env) es w) = wiki_sources w" "wiki_fs (fold (add_error env) es w) = wiki_fs w"
  "evolution_proposals (fold (add_error env) es w) = evolution_proposals w"
  "wiki_compile_runs (fold (add_error env) es w) = wiki_compile_runs w"
  by (rule fold_frame; simp)+

lemma close_errors_frame [simp]:
  "wiki_links (close_errors env ts w) = wiki_links w" "wiki_pages (close_errors env ts w) = wiki_pages w"
  "wiki_sources (close_errors env ts w) = wiki_sources w" "wiki_fs (close_errors env ts w) = wiki_fs w"
  "evolution_proposals (close_errors env ts w) = evolution_proposals w"
  "wiki_compile_runs (close_errors env ts w) = wiki_compile_runs w"
  by (simp_all add: close_errors_def)

lemma add_link_frame [simp]:
  "wiki_pages (add_link env known src l w) = wiki_pages w" "wiki_sources (add_link env known src l w) = wiki_sources w"
  "wiki_fs (add_link env known src l w) = wiki_fs w" "evolution_proposals (add_link env known src l w) = evolution_proposals w"
  "wiki_compile_runs (add_link env known src l w) = wiki_compile_runs w"
  "wiki_links (add_link env known src l w) = wiki_links w @ [link_row env known src l]"
  by (simp_all add: add_link_def Let_def)

lemma add_links:
  "wiki_pages (fold (add_link env known src) ls w) = wiki_pages w"
  "wiki_sources (fold (add_link env known src) ls w) = wiki_sources w"
  "wiki_fs (fold (add_link env known src) ls w) = wiki_fs w"
  "evolution_proposals (fold (add_link env known src) ls w) = evolution_proposals w"
  "wiki_compile_runs (fold (add_link env known src) ls w) = wiki_compile_runs w"
  "wiki_links (fold (add_link env known src) ls w) = wiki_links w @ map (link_row env known src) ls"
proof -
  show "wiki_links (fold (add_link env known src) ls w) = wiki_links w @ map (link_row env known src) ls"
    by (induction ls arbitrary: w) auto
qed (rule fold_frame; simp)+

lemma store_page_fields [simp]:
  "wiki_pages (store_page env known p w) = upsert wpg_key (row_of_page p) (wiki_pages w)"
  "wiki_sources (store_page env known p w) = upsert wsrc_key (source_of_page env p) (wiki_sources w)"
  "wiki_fs (store_page env known p w) = wiki_fs w"
  "evolution_proposals (store_page env known p w) = evolution_proposals w"
  "wiki_compile_runs (store_page env known p w) = wiki_compile_runs w"
  "wiki_links (store_page env known p w) = wiki_links w @ map (link_row env known (pp_key p)) (pp_links p)"
  by (simp_all add: store_page_def add_links)

lemma store_pages_fold:
  "wiki_pages (fold (store_page env known) ps w) = fold (\<lambda>p. upsert wpg_key (row_of_page p)) ps (wiki_pages w)"
  "wiki_sources (fold (store_page env known) ps w) = fold (\<lambda>p. upsert wsrc_key (source_of_page env p)) ps (wiki_sources w)"
  "wiki_fs (fold (store_page env known) ps w) = wiki_fs w"
  "evolution_proposals (fold (store_page env known) ps w) = evolution_proposals w"
  "wiki_compile_runs (fold (store_page env known) ps w) = wiki_compile_runs w"
  "wiki_links (fold (store_page env known) ps w)
     = wiki_links w @ concat (map (\<lambda>p. map (link_row env known (pp_key p)) (pp_links p)) ps)"
  by (induction ps arbitrary: w) auto

text \<open>Writing rows with distinct keys: each is there afterwards, and other keys are untouched.\<close>

lemma get_upsert: "get_row key k (upsert key r rs) = (if k = key r then Some r else get_row key k rs)"
proof (cases "get_row key (key r) rs = None")
  case True
  then show ?thesis by (auto simp: upsert_def get_row_append split: option.split)
next
  case False
  have "get_row key k (upd_row key (key r) (\<lambda>_. r) rs) = (if k = key r then map_option (\<lambda>_. r) (get_row key (key r) rs) else get_row key k rs)"
    by (induction rs) (auto simp: upd_row_def)
  then show ?thesis using False by (auto simp: upsert_def)
qed

lemma keys_upsert: "key ` set (upsert key r rs) = insert (key r) (key ` set rs)"
  by (auto simp: upsert_def upd_row_def get_row_None image_iff)

lemma distinct_upsert: "distinct (map key rs) \<Longrightarrow> distinct (map key (upsert key r rs))"
proof -
  assume d: "distinct (map key rs)"
  have "map key (upd_row key (key r) (\<lambda>_. r) rs) = map key rs" by (auto simp: upd_row_def)
  then show ?thesis using d by (simp add: upsert_def get_row_None)
qed

lemma fold_upsert:
  assumes "distinct (map (key \<circ> f) ps)"
  shows "get_row key k (fold (\<lambda>p. upsert key (f p)) ps rs)
    = (case find (\<lambda>p. key (f p) = k) ps of None \<Rightarrow> get_row key k rs | Some p \<Rightarrow> Some (f p))"
  using assms
proof (induction ps arbitrary: rs)
  case (Cons p ps)
  have "find (\<lambda>q. key (f q) = key (f p)) ps = None" using Cons.prems by (auto simp: find_None_iff image_iff)
  then show ?case using Cons by (auto simp: get_upsert split: option.split)
qed simp

lemma fold_upsert_keys: "key ` set (fold (\<lambda>p. upsert key (f p)) ps rs) = key ` f ` set ps \<union> key ` set rs"
  by (induction ps arbitrary: rs) (auto simp: keys_upsert)

lemma fold_upsert_distinct: "distinct (map key rs) \<Longrightarrow> distinct (map key (fold (\<lambda>p. upsert key (f p)) ps rs))"
  by (induction ps arbitrary: rs) (auto simp: distinct_upsert)

text \<open>The parsed pages have distinct keys, and when no error is reported every source was parsed.\<close>

lemma collect_pages_props:
  assumes "collect_pages env fs seen paths = (pages, errors, rows)"
  shows "distinct (map pp_key pages) \<and> pp_key ` set pages \<inter> set seen = {}
    \<and> (\<forall>p \<in> set pages. \<exists>ps \<in> set paths. parse_markdown_page env fs ps = Inr p)
    \<and> (errors = [] \<longrightarrow> map (parse_markdown_page env fs) paths = map Inr pages)
    \<and> length pages + length errors = length paths"
  using assms
proof (induction env fs seen paths arbitrary: pages errors rows rule: collect_pages.induct)
  case (2 env fs seen ps rest)
  show ?case
  proof (cases "parse_markdown_page env fs ps")
    case (Inl e)
    then show ?thesis using 2(1) [OF refl Inl] 2(4) by (auto simp: Let_def split: prod.splits)
  next
    case (Inr p)
    show ?thesis
    proof (cases "pp_key p \<in> set seen")
      case True
      then show ?thesis using 2(2) [OF refl Inr True] 2(4) Inr by (auto simp: Let_def split: prod.splits)
    next
      case False
      obtain ps' es' rs' where c: "collect_pages env fs (pp_key p # seen) rest = (ps', es', rs')" by (metis prod_cases3)
      then have "pages = p # ps'" "errors = es'" using 2(4) Inr False by (auto simp: Let_def)
      then show ?thesis using 2(3) [OF refl Inr False c] Inr False by auto
    qed
  qed
qed simp

text \<open>Every known name leads to a page.\<close>

lemma known_of_page_ran:
  "ran (map_of (known_of_page p known)) \<subseteq> insert (pp_key p) (ran (map_of known))"
proof -
  have one: "ran (map_of (put_assoc a v xs)) \<subseteq> insert v (ran (map_of xs))" for a v and xs :: "(string \<times> string) list"
    by (auto simp: ran_def)
  have "ran (map_of (fold (\<lambda>a. put_assoc (normalize_page_key a) v) as xs)) \<subseteq> insert v (ran (map_of xs))"
    for as v and xs :: "(string \<times> string) list"
    using one by (induction as arbitrary: xs) (auto, blast)
  then show ?thesis unfolding known_of_page_def using one by blast
qed

lemma known_keys_ran: "ran (map_of (known_keys pages)) \<subseteq> pp_key ` set pages"
proof -
  have "ran (map_of (fold known_of_page pages known)) \<subseteq> pp_key ` set pages \<union> ran (map_of known)" for known
    using known_of_page_ran by (induction pages arbitrary: known) (auto, blast)
  from this [of "[]"] show ?thesis by (simp add: known_keys_def)
qed

lemma link_row_resolved:
  "wl_status (link_row env (known_keys pages) src l) = ''resolved'' \<Longrightarrow>
     wl_dst (link_row env (known_keys pages) src l) \<in> pp_key ` set pages"
  using known_keys_ran [of pages]
  by (cases l) (auto simp: link_row_def Let_def str_or_def ran_def split: option.splits if_splits)

text \<open>Errors once added stay: the error book only grows, except that open errors may be closed.\<close>

definition has_open :: "wiki_error \<Rightarrow> world \<Rightarrow> bool" where
  "has_open e w = (\<exists>i t. e\<lparr>we_id := i, we_created_at := t\<rparr> \<in> set (wiki_error_book w))"

lemma has_open_mono: "has_open e w \<Longrightarrow> set (wiki_error_book w) \<subseteq> set (wiki_error_book w') \<Longrightarrow> has_open e w'"
  by (auto simp: has_open_def)

lemma has_open_add: "has_open e (add_error env e w)"
  by (auto simp: has_open_def add_error_def)

lemma book_grows:
  "set (wiki_error_book w) \<subseteq> set (wiki_error_book (add_error env e w))"
  "set (wiki_error_book w) \<subseteq> set (wiki_error_book (add_link env known src l w))"
  "set (wiki_error_book w) \<subseteq> set (wiki_error_book (fold (add_link env known src) ls w))"
  "set (wiki_error_book w) \<subseteq> set (wiki_error_book (store_page env known p w))"
  "set (wiki_error_book w) \<subseteq> set (wiki_error_book (fold (store_page env known) ps w))"
  "set (wiki_error_book w) \<subseteq> set (wiki_error_book (fold (add_error env) es w))"
proof -
  show e: "set (wiki_error_book w) \<subseteq> set (wiki_error_book (add_error env e w))" for e w by (auto simp: add_error_def)
  show l: "set (wiki_error_book w) \<subseteq> set (wiki_error_book (add_link env known src l w))" for l w src
    using e [of "w\<lparr>wiki_links := wiki_links w @ [link_row env known src l]\<rparr>"] by (simp add: add_link_def Let_def)
  show ls: "set (wiki_error_book w) \<subseteq> set (wiki_error_book (fold (add_link env known src) ls w))" for src ls w
    using l by (induction ls arbitrary: w) (auto, blast)
  show p: "set (wiki_error_book w) \<subseteq> set (wiki_error_book (store_page env known p w))" for p w
    using ls [of "w\<lparr>wiki_sources := u, wiki_pages := v\<rparr>" for u v] by (simp add: store_page_def)
  show "set (wiki_error_book w) \<subseteq> set (wiki_error_book (fold (store_page env known) ps w))"
    using p by (induction ps arbitrary: w) (auto, blast)
  show "set (wiki_error_book w) \<subseteq> set (wiki_error_book (fold (add_error env) es w))"
    using e by (induction es arbitrary: w) (auto, blast)
qed

lemma dangling_recorded:
  assumes "p \<in> set ps" and "l \<in> set (pp_links p)" and "wl_status (link_row env known (pp_key p) l) \<noteq> ''resolved''"
  shows "has_open (dangling_error (pp_key p) l) (fold (store_page env known) ps w)"
proof -
  have link: "has_open (dangling_error (pp_key p) l) (fold (add_link env known (pp_key p)) ls v)" if "l \<in> set ls" for ls v
    using that
  proof (induction ls arbitrary: v)
    case (Cons a ls)
    show ?case
    proof (cases "a = l")
      case True
      then have "has_open (dangling_error (pp_key p) l) (add_link env known (pp_key p) a v)"
        using assms(3) by (simp add: add_link_def Let_def has_open_add)
      then show ?thesis using has_open_mono [OF _ book_grows(3)] by simp
    qed (use Cons in simp)
  qed simp
  then have page: "has_open (dangling_error (pp_key p) l) (store_page env known p v)" for v
    unfolding store_page_def using assms(2) by blast
  show ?thesis using assms(1)
  proof (induction ps arbitrary: w)
    case (Cons q ps)
    show ?case
    proof (cases "q = p")
      case True
      then show ?thesis using has_open_mono [OF page book_grows(5)] by simp
    qed (use Cons in simp)
  qed simp
qed

text \<open>The tables a compile writes, read off its parts.\<close>

definition compiled :: "wiki_env \<Rightarrow> fs \<Rightarrow> parsed_page list \<times> dict list \<times> wiki_error list" where
  "compiled env fs = collect_pages env fs [] (markdown_paths fs)"

definition same_wiki :: "world \<Rightarrow> world \<Rightarrow> bool" where
  "same_wiki w w' \<longleftrightarrow> wiki_pages w' = wiki_pages w \<and> wiki_sources w' = wiki_sources w \<and> wiki_links w' = wiki_links w
     \<and> wiki_error_book w' = wiki_error_book w \<and> wiki_fs w' = wiki_fs w \<and> evolution_proposals w' = evolution_proposals w
     \<and> wiki_compile_runs w' = wiki_compile_runs w"

lemma refresh_fts_total:
  assumes "pages = [] \<Longrightarrow> markdown_paths (wiki_fs w) = []"
  shows "\<exists>d w'. wiki_refresh_fts env pages w = (Inr d, w') \<and> same_wiki w w'"
  using assms
  by (auto simp: wiki_refresh_fts_def refresh_wiki_sqlite_fts_def wiki_scan_def same_wiki_def Let_def split: option.split)

lemma store_pages_eq:
  assumes "compiled env (wiki_fs w) = (pages, errors, rows)"
  shows "\<exists>v. store_pages env w = ((pages, errors, map (join ''/'') (markdown_paths (wiki_fs w))), fold (store_page env (known_keys pages)) pages v)
    \<and> wiki_links v = [] \<and> wiki_fs v = wiki_fs w \<and> evolution_proposals v = evolution_proposals w
    \<and> wiki_compile_runs v = wiki_compile_runs w
    \<and> wiki_pages v = (if errors = [] then filter (\<lambda>r. wpg_key r \<in> pp_key ` set pages) (wiki_pages w) else wiki_pages w)"
proof -
  let ?w2 = "fold (add_error env) rows (close_errors env [''dangling_link'', ''compile_error'', ''duplicate_page_key'']
    (w\<lparr>wiki_links := []\<rparr>))"
  let ?v = "if errors = [] then delete_stale pages (map (join ''/'') (markdown_paths (wiki_fs w))) ?w2 else ?w2"
  show ?thesis
    by (rule exI [of _ ?v]) (use assms in \<open>simp add: compiled_def store_pages_def Let_def; simp add: delete_stale_def\<close>)
qed

lemma compile_outcome:
  assumes "compiled env (wiki_fs w) = (pages, errors, rows)"
  shows "\<exists>d v w'. compile_wiki env w = (Inr d, w') \<and> dget ''status'' d = JStr (if errors = [] then ''ok'' else ''error'')
    \<and> wiki_pages w' = fold (\<lambda>p. upsert wpg_key (row_of_page p)) pages
        (if errors = [] then filter (\<lambda>r. wpg_key r \<in> pp_key ` set pages) (wiki_pages w) else wiki_pages w)
    \<and> wiki_links w' = concat (map (\<lambda>p. map (link_row env (known_keys pages) (pp_key p)) (pp_links p)) pages)
    \<and> wiki_error_book w' = wiki_error_book (fold (store_page env (known_keys pages)) pages v)
    \<and> wiki_fs w' = wiki_fs w \<and> evolution_proposals w' = evolution_proposals w"
proof -
  let ?w0 = "start_compile_run env w"
  have f0: "wiki_fs ?w0 = wiki_fs w" "evolution_proposals ?w0 = evolution_proposals w" "wiki_pages ?w0 = wiki_pages w"
    by (simp_all add: start_compile_run_def)
  then obtain v where v: "store_pages env ?w0 = ((pages, errors, map (join ''/'') (markdown_paths (wiki_fs w))),
        fold (store_page env (known_keys pages)) pages v)"
    "wiki_links v = []" "wiki_fs v = wiki_fs w" "evolution_proposals v = evolution_proposals w"
    "wiki_pages v = (if errors = [] then filter (\<lambda>r. wpg_key r \<in> pp_key ` set pages) (wiki_pages w) else wiki_pages w)"
    using store_pages_eq [of env ?w0] assms by auto
  let ?w1 = "fold (store_page env (known_keys pages)) pages v"
  let ?fts = "if errors = [] then wiki_refresh_fts env pages
    else op_ok (wiki_status_dict (wfe_backend (wk_fts env)) False 0 @ [(''skipped'', JStr ''compile_error'')])"
  have "\<exists>d w'. ?fts ?w1 = (Inr d, w') \<and> same_wiki ?w1 w'"
  proof (cases "errors = []")
    case True
    then have "pages = [] \<Longrightarrow> markdown_paths (wiki_fs ?w1) = []"
      using collect_pages_props [OF assms [unfolded compiled_def]] by (simp add: store_pages_fold v(3))
    then show ?thesis using refresh_fts_total [of pages ?w1 env] True by simp
  qed (simp add: same_wiki_def)
  then obtain d w2 where fts: "?fts ?w1 = (Inr d, w2)" "same_wiki ?w1 w2" by blast
  show ?thesis
    using fts(2) v(2-5)
    by (simp add: compile_wiki_def v(1) Let_def op_bind_def fts(1) same_wiki_def store_pages_fold dget_def) blast
qed


lemma compile_frame [simp]:
  "wiki_fs (snd (compile_wiki env w)) = wiki_fs w" "evolution_proposals (snd (compile_wiki env w)) = evolution_proposals w"
proof -
  obtain pages errors rows where "compiled env (wiki_fs w) = (pages, errors, rows)" by (metis prod_cases3)
  from compile_outcome [OF this] show "wiki_fs (snd (compile_wiki env w)) = wiki_fs w"
    "evolution_proposals (snd (compile_wiki env w)) = evolution_proposals w" by auto
qed

section \<open>Proposals\<close>

text \<open>Which files a step may change: \<open>confined P w w'\<close>.\<close>

definition confined :: "(string \<Rightarrow> bool) \<Rightarrow> world \<Rightarrow> world \<Rightarrow> bool" where
  "confined P w w' = (\<forall>path. \<not> P path \<longrightarrow> map_of (wiki_fs w') path = map_of (wiki_fs w) path)"

lemma confined_refl [simp]: "wiki_fs w' = wiki_fs w \<Longrightarrow> confined P w w'"
  by (simp add: confined_def)

lemma confined_trans: "confined P a b \<Longrightarrow> confined P b c \<Longrightarrow> confined P a c"
  by (simp add: confined_def)

lemma confined_mono: "confined P a b \<Longrightarrow> (\<And>x. P x \<Longrightarrow> Q x) \<Longrightarrow> confined Q a b"
  by (auto simp: confined_def)

lemma confined_bind:
  assumes "\<And>w. confined P w (snd (m w))" and "\<And>x w. confined P w (snd (f x w))"
  shows "confined P w (snd (op_bind m f w))"
  by (rule op_bind_keeps [OF assms]) (rule confined_trans)

lemma write_path_confined: "confined (\<lambda>x. x = join ''/'' ps) w (snd (write_path ps c w))"
  by (auto simp: write_path_def write_file_def confined_def split: sum.split)

lemma append_log_confined: "confined (\<lambda>x. x = ''log.md'') w (snd (append_log env entry actor w))"
  using write_path_confined [of "[''log.md'']"] by (simp add: append_log_def Let_def)

lemma files_proposals [simp]:
  "evolution_proposals (snd (write_path ps c w)) = evolution_proposals w"
  "evolution_proposals (snd (append_log env entry actor w)) = evolution_proposals w"
  "evolution_proposals (snd (archive_file env ps w)) = evolution_proposals w"
  by (auto simp: write_path_def append_log_def archive_file_def Let_def split: sum.split)

lemma bind_proposals:
  "(\<And>x v. evolution_proposals (snd (f x v)) = evolution_proposals v) \<Longrightarrow>
     evolution_proposals (snd (op_bind m f w)) = evolution_proposals (snd (m w))"
  by (rule op_bind_field)

lemma snd_bind_ok [simp]: "snd (op_bind m (\<lambda>x. op_ok (g x)) w) = snd (m w)"
  by (simp add: op_bind_def split: prod.split sum.split)

lemma change_proposals [simp]: "evolution_proposals (snd (proposal_change env p actor w)) = evolution_proposals w"
  by (auto simp: proposal_change_def Let_def bind_proposals split: sum.split)

lemma archive_confined:
  assumes "\<not> prefix (wk_root env) (wk_cwd env @ ps)"
  shows "confined (\<lambda>x. x = join ''/'' [''_archive'', last ps]) w (snd (archive_file env ps w))"
  using assms by (auto simp: archive_file_def rename_to_def put_at_def confined_def Let_def split: sum.split option.split)

definition proposal_paths :: "wiki_env \<Rightarrow> evolution_proposal \<Rightarrow> string set" where
  "proposal_paths env p = (case proposal_path (ep_payload p) (if ep_action p = ''update_index'' then ''index.md'' else '''') of
     Inl e \<Rightarrow> {}
   | Inr ps \<Rightarrow> if ep_action p = ''archive_page'' then {''_archive/'' @ last ps}
       else if ep_action p = ''append_log'' then {} else {join ''/'' ps})"

lemma proposal_change_confined:
  assumes "ep_action p \<in> set WIKI_PROPOSAL_ACTIONS"
    and "\<And>ps. ep_action p = ''archive_page'' \<Longrightarrow> proposal_path (ep_payload p) '''' = Inr ps \<Longrightarrow>
      \<not> prefix (wk_root env) (wk_cwd env @ ps)"
  shows "confined (\<lambda>x. x = ''log.md'' \<or> x \<in> proposal_paths env p) w (snd (proposal_change env p actor w))"
proof -
  consider "ep_action p \<in> {''create_page'', ''update_page'', ''fix_link'', ''update_index''}"
    | "ep_action p = ''archive_page''" | "ep_action p = ''append_log''"
    using assms(1) by (auto simp: WIKI_PROPOSAL_ACTIONS_def)
  then show ?thesis
  proof cases
    case 1
    let ?df = "if ep_action p = ''update_index'' then ''index.md'' else ''''"
    have a: "ep_action p \<noteq> ''archive_page''" "ep_action p \<noteq> ''append_log''" using 1 by auto
    have "confined (\<lambda>x. x = ''log.md'' \<or> x \<in> proposal_paths env p) v (snd (write_path ps c v))"
      if q: "proposal_path (ep_payload p) ?df = Inr ps" for ps c v
      by (rule confined_mono [OF write_path_confined]) (simp add: proposal_paths_def q a)
    then show ?thesis unfolding proposal_change_def Let_def using 1 by (simp split: sum.split)
  next
    case 2
    have "confined (\<lambda>x. x = ''log.md'' \<or> x \<in> proposal_paths env p) v (snd (archive_file env ps v))"
      if "proposal_path (ep_payload p) '''' = Inr ps" for ps v
      by (rule confined_mono [OF archive_confined [OF assms(2)]]) (use 2 that in \<open>simp_all add: proposal_paths_def\<close>)
    then show ?thesis unfolding proposal_change_def Let_def using 2 by (simp split: sum.split)
  next
    case 3
    have "confined (\<lambda>x. x = ''log.md'' \<or> x \<in> proposal_paths env p) v (snd (append_log env e actor v))" for e v
      by (rule confined_mono [OF append_log_confined]) simp
    then show ?thesis unfolding proposal_change_def Let_def using 3 by (simp split: sum.split)
  qed
qed

text \<open>Once the checks have passed, an application changes files first and the tables after.\<close>

definition finish_apply :: "wiki_env \<Rightarrow> uuid \<Rightarrow> evolution_proposal \<Rightarrow> string \<Rightarrow> dict \<Rightarrow> string \<Rightarrow> uuid op" where
  "finish_apply env pid p actor before changed =
     op_bind (append_log env (''Applied wiki proposal '' @ pid @ '': '' @ ep_action p @ '' '' @ changed) actor) (\<lambda>_.
     op_bind (compile_wiki env) (\<lambda>compiled w1.
       (Inr pid,
        audit (wk_events env) ''wiki.proposal.apply'' ''evolution_proposal'' pid
          [(''action'', JStr (ep_action p)), (''changed'', JStr changed), (''actor'', JStr actor)]
        (emit (wk_events env) ''wiki.proposal.applied'' [(''proposal_id'', JStr pid), (''action'', JStr (ep_action p))]
        (put_proposal pid (\<lambda>q. q\<lparr>ep_status := ''applied'', ep_before_snapshot := before,
           ep_after_snapshot := [(''changed'', JStr changed), (''compile'', JObj compiled)],
           ep_result := [(''ok'', JBool True), (''action'', JStr (ep_action p)), (''changed'', JStr changed), (''actor'', JStr actor)],
           ep_applied_at := Some (wk_now env)\<rparr>) w1)))))"

lemma wiki_apply_eq:
  assumes "get_row ep_id pid (evolution_proposals w) = Some p" and "ep_status p \<in> {''pending'', ''approved''}"
    and "ep_target_type p = ''wiki''" and "ep_action p \<in> set WIKI_PROPOSAL_ACTIONS"
  shows "wiki_apply_proposal env pid actor w
    = op_bind (proposal_change env p actor) (\<lambda>(before, changed). finish_apply env pid p actor before changed) w"
  using assms by (auto simp: wiki_apply_proposal_def finish_apply_def)

lemma wiki_apply_cases:
  obtains (refused) e where "wiki_apply_proposal env pid actor w = (Inl e, w)"
  | (run) p where "get_row ep_id pid (evolution_proposals w) = Some p" "ep_status p \<in> {''pending'', ''approved''}"
      "ep_target_type p = ''wiki''" "ep_action p \<in> set WIKI_PROPOSAL_ACTIONS"
      "wiki_apply_proposal env pid actor w
        = op_bind (proposal_change env p actor) (\<lambda>(before, changed). finish_apply env pid p actor before changed) w"
proof (cases "get_row ep_id pid (evolution_proposals w)")
  case None
  then show ?thesis using refused by (simp add: wiki_apply_proposal_def)
next
  case (Some p)
  show ?thesis
  proof (cases "ep_status p \<in> {''pending'', ''approved''} \<and> ep_target_type p = ''wiki'' \<and> ep_action p \<in> set WIKI_PROPOSAL_ACTIONS")
    case True
    then show ?thesis using run [OF Some] wiki_apply_eq [OF Some] by blast
  next
    case False
    then have "\<exists>e. wiki_apply_proposal env pid actor w = (Inl e, w)" by (auto simp: wiki_apply_proposal_def Some)
    then show ?thesis using refused by blast
  qed
qed

lemma put_proposal_fs [simp]: "wiki_fs (put_proposal pid f w) = wiki_fs w"
  by (simp add: put_proposal_def)

lemma finish_apply_confined: "confined (\<lambda>x. x = ''log.md'') w (snd (finish_apply env pid p actor before changed w))"
  unfolding finish_apply_def by (rule confined_bind [OF append_log_confined], rule confined_bind) simp_all


text \<open>Archiving looks for the page below the working directory of the process. Unless a file happens to be there, the
  application raises and nothing changes, although the page exists in the wiki.\<close>

theorem archive_misses_page:
  assumes "get_row ep_id pid (evolution_proposals w) = Some p" and "ep_status p \<in> {''pending'', ''approved''}"
    and "ep_target_type p = ''wiki''" and "ep_action p = ''archive_page''"
    and "proposal_path (ep_payload p) '''' = Inr ps" and "is_file (wiki_fs w) ps"
    and "\<not> prefix (wk_root env) (wk_cwd env @ ps)" and "wk_outside env (wk_cwd env @ ps) = None"
  shows "\<exists>e. wiki_apply_proposal env pid actor w = (Inl e, w)"
proof -
  have a: "ep_action p \<in> set WIKI_PROPOSAL_ACTIONS" using assms(4) by (simp add: WIKI_PROPOSAL_ACTIONS_def)
  have "\<exists>e. archive_file env ps w = (Inl e, w)" using assms(7,8) by (auto simp: archive_file_def rename_to_def Let_def)
  then have "\<exists>e. proposal_change env p actor w = (Inl e, w)"
    using assms(4,5) by (auto simp: proposal_change_def op_bind_def Let_def split: sum.split)
  then show ?thesis using wiki_apply_eq [OF assms(1-3) a, of env actor] by (auto simp: op_bind_def)
qed

section \<open>Linting and repair\<close>

lemma op_traverse_raises: "x \<in> set xs \<Longrightarrow> f x = Inl e \<Longrightarrow> \<exists>e'. op_traverse f xs = Inl e'"
proof (induction xs)
  case (Cons y ys)
  then show ?case by (cases "f y") (auto split: sum.split)
qed simp

lemma lint_frame [simp]: "wiki_fs (snd (lint_wiki env w)) = wiki_fs w"
  "evolution_proposals (snd (lint_wiki env w)) = evolution_proposals w"
  by (simp_all add: lint_wiki_def Let_def split: sum.split)

text \<open>One page that does not parse stops linting and repair altogether, while the compiler only reports it.\<close>

theorem unparsable_page_blocks_repair:
  assumes "ps \<in> set (markdown_paths (wiki_fs w))" and "parse_markdown_page env (wiki_fs w) ps = Inl e"
  shows "(\<exists>e'. lint_wiki env w = (Inl e', w) \<and> repair_wiki env safe ids actor w = (Inl e', w))
    \<and> (\<exists>d w'. compile_wiki env w = (Inr d, w') \<and> dget ''status'' d = JStr ''error'')"
proof -
  obtain e' where "wiki_scan env (wiki_fs w) = Inl e'"
    using op_traverse_raises [of ps _ "parse_markdown_page env (wiki_fs w)", OF assms] by (auto simp: wiki_scan_def)
  then have l: "lint_wiki env w = (Inl e', w)" by (simp add: lint_wiki_def)
  then have "repair_wiki env safe ids actor w = (Inl e', w)" by (simp add: repair_wiki_def op_bind_def)
  moreover obtain pages errors rows where c: "compiled env (wiki_fs w) = (pages, errors, rows)" by (metis prod_cases3)
  moreover have "errors \<noteq> []"
  proof
    assume "errors = []"
    then have "map (parse_markdown_page env (wiki_fs w)) (markdown_paths (wiki_fs w)) = map Inr pages"
      using collect_pages_props [OF c [unfolded compiled_def]] by simp
    then have "parse_markdown_page env (wiki_fs w) ps \<in> set (map Inr pages)" using assms(1) by (metis image_eqI list.set_map)
    then show False using assms(2) by auto
  qed
  ultimately show ?thesis using l compile_outcome [OF c] by auto
qed

text \<open>The proposals a repair creates are the ones it applies: fresh identifiers are new.\<close>

definition ids_fresh :: "wiki_env \<Rightarrow> world \<Rightarrow> bool" where
  "ids_fresh env w = (\<forall>n \<ge> length (evolution_proposals w). wk_proposal_id env n \<notin> ep_id ` set (evolution_proposals w))"

definition proposals_keep_ids :: "world \<Rightarrow> world \<Rightarrow> bool" where
  "proposals_keep_ids w w' = (map ep_id (evolution_proposals w') = map ep_id (evolution_proposals w))"

lemma ids_fresh_same: "ids_fresh env w \<Longrightarrow> proposals_keep_ids w w' \<Longrightarrow> ids_fresh env w'"
  unfolding ids_fresh_def proposals_keep_ids_def by (metis length_map set_map)

lemma wiki_apply_keeps_ids: "proposals_keep_ids w (snd (wiki_apply_proposal env pid actor w))"
proof (cases rule: wiki_apply_cases [of env pid actor w])
  case (run p)
  have f: "proposals_keep_ids v (snd (finish_apply env pid p actor before changed v))" for before changed v
    unfolding finish_apply_def
    by (auto simp: op_bind_def proposals_keep_ids_def put_proposal_def map_key_upd_row
        dest!: arg_cong [where f = "\<lambda>x. evolution_proposals (snd x)"] split: prod.split sum.split)
  show ?thesis unfolding run(5)
    by (rule op_bind_keeps) (use f in \<open>auto simp: proposals_keep_ids_def case_prod_beta\<close>)
qed (simp add: proposals_keep_ids_def)

lemma create_repair_outcome:
  assumes "create_repair_proposal env e action payload risk extra w = (pid, w1)" and "ids_fresh env w" and "inj (wk_proposal_id env)"
  shows "wiki_fs w1 = wiki_fs w" "ids_fresh env w1"
    "\<exists>p. get_row ep_id pid (evolution_proposals w1) = Some p \<and> ep_payload p = payload \<and> ep_action p = action"
proof -
  let ?ps = "evolution_proposals w"
  let ?c = "create_repair_proposal env e action payload risk extra w"
  have "\<exists>p. evolution_proposals (snd ?c) = ?ps @ [p] \<and> wiki_fs (snd ?c) = wiki_fs w \<and> ep_id p = fst ?c
      \<and> ep_payload p = payload \<and> ep_action p = action \<and> fst ?c = wk_proposal_id env (length ?ps)"
    by (simp add: create_repair_proposal_def Let_def)
  then obtain p where w1: "evolution_proposals w1 = ?ps @ [p]" "wiki_fs w1 = wiki_fs w"
    and p: "ep_id p = pid" "ep_payload p = payload" "ep_action p = action" and pid: "pid = wk_proposal_id env (length ?ps)"
    by (auto simp: assms(1))
  have new: "pid \<notin> ep_id ` set ?ps" using assms(2) by (simp add: ids_fresh_def pid)
  show "wiki_fs w1 = wiki_fs w" by (rule w1(2))
  have "wk_proposal_id env n \<noteq> pid" if "n > length ?ps" for n using assms(3) that by (simp add: pid inj_eq)
  then show "ids_fresh env w1" using assms(2) by (simp add: ids_fresh_def w1(1) p(1))
  show "\<exists>p. get_row ep_id pid (evolution_proposals w1) = Some p \<and> ep_payload p = payload \<and> ep_action p = action"
    using new [folded get_row_None] p by (simp add: w1(1) get_row_append)
qed

lemma low_risk_paths:
  assumes "low_risk_repair_proposal fs e = Some (action, payload)" and "ep_action p = action" and "ep_payload p = payload"
  shows "proposal_paths env p \<subseteq> set CANONICAL_WIKI_FILES" "action \<in> {''create_page'', ''update_index''}"
proof -
  have path: "proposal_path payload df = Inr [f]" if "dget ''path'' payload = JStr f" "f \<in> set CANONICAL_WIKI_FILES" for f df
  proof -
    have "path_parts f = [f]" "\<not> is_absolute f" "f \<noteq> []" using that(2)
      by (auto simp: CANONICAL_WIKI_FILES_def) code_simp+
    then show ?thesis using that(2) by (auto simp: proposal_path_def dstr_or_def that(1) py_str_def CANONICAL_WIKI_FILES_def)
  qed
  show a: "action \<in> {''create_page'', ''update_index''}"
    using assms(1) by (auto simp: low_risk_repair_proposal_def Let_def split: if_splits)
  have "\<exists>f. dget ''path'' payload = JStr f \<and> f \<in> set CANONICAL_WIKI_FILES"
    using assms(1)
    by (auto simp: low_risk_repair_proposal_def Let_def dget_def CANONICAL_WIKI_FILES_def split: if_splits)
  then show "proposal_paths env p \<subseteq> set CANONICAL_WIKI_FILES"
    using path a assms(2,3) by (auto simp: proposal_paths_def)
qed

lemma apply_created_confined:
  assumes "get_row ep_id pid (evolution_proposals w) = Some p" and "low_risk_repair_proposal fs e = Some (ep_action p, ep_payload p)"
  shows "confined (\<lambda>x. x \<in> set CANONICAL_WIKI_FILES) w (snd (wiki_apply_proposal env pid actor w))"
proof -
  note paths = low_risk_paths [OF assms(2) refl refl]
  have log: "''log.md'' \<in> set CANONICAL_WIKI_FILES" by (simp add: CANONICAL_WIKI_FILES_def)
  show ?thesis
  proof (cases rule: wiki_apply_cases [of env pid actor w])
    case (run q)
    then have q: "q = p" using assms(1) by simp
    have "confined (\<lambda>x. x = ''log.md'' \<or> x \<in> proposal_paths env p) v (snd (proposal_change env p actor v))" for v
      by (rule proposal_change_confined) (use run(4) paths(2) in \<open>auto simp: q\<close>)
    then have ch: "confined (\<lambda>x. x \<in> set CANONICAL_WIKI_FILES) v (snd (proposal_change env p actor v))" for v
      by (rule confined_mono) (use log paths(1) in auto)
    have fin: "confined (\<lambda>x. x \<in> set CANONICAL_WIKI_FILES) v
        (snd ((case bc of (before, changed) \<Rightarrow> finish_apply env pid p actor before changed) v))" for bc v
      by (cases bc) (use log in \<open>auto intro: confined_mono [OF finish_apply_confined]\<close>)
    show ?thesis unfolding run(5) q by (rule confined_bind [OF ch fin])
  qed simp
qed

lemma put_error_frame [simp]: "wiki_fs (put_error eid f w) = wiki_fs w" "evolution_proposals (put_error eid f w) = evolution_proposals w"
  by (simp_all add: put_error_def)

text \<open>One step of the repair keeps files other than the control files, and the freshness of identifiers.\<close>

definition repair_safe :: "wiki_env \<Rightarrow> world \<Rightarrow> world \<Rightarrow> bool" where
  "repair_safe env w w' = (ids_fresh env w \<longrightarrow> ids_fresh env w' \<and> confined (\<lambda>x. x \<in> set CANONICAL_WIKI_FILES) w w')"

lemma repair_safe_refl [simp]: "repair_safe env w w"
  by (simp add: repair_safe_def)

lemma repair_safe_trans: "repair_safe env a b \<Longrightarrow> repair_safe env b c \<Longrightarrow> repair_safe env a c"
  unfolding repair_safe_def using confined_trans by blast

lemma repair_low_safe:
  assumes "inj (wk_proposal_id env)"
  shows "repair_safe env w (snd (repair_low env apply_safe actor e l w))"
proof (cases "low_risk_repair_proposal (wiki_fs w) e")
  case (Some ap)
  obtain action payload where ap: "ap = (action, payload)" by fastforce
  obtain pid w1 where c: "create_repair_proposal env e action payload ''low'' [] w = (pid, w1)" by fastforce
  have safe1: "repair_safe env w w1"
    using create_repair_outcome(1,2) [OF c _ assms] by (simp add: repair_safe_def)
  have "ids_fresh env w \<Longrightarrow> confined (\<lambda>x. x \<in> set CANONICAL_WIKI_FILES) w1 (snd (wiki_apply_proposal env pid actor w1))"
    using create_repair_outcome(3) [OF c _ assms] apply_created_confined Some ap by metis
  then have safe2: "repair_safe env w (snd (wiki_apply_proposal env pid actor w1))"
    using safe1 ids_fresh_same [OF _ wiki_apply_keeps_ids] confined_trans unfolding repair_safe_def by blast
  have put: "repair_safe env w v \<Longrightarrow> repair_safe env w (put_error i f v)" for v i f
    by (simp add: repair_safe_def ids_fresh_def confined_def)
  show ?thesis
    using safe1 safe2 put
    by (simp add: repair_low_def Some ap c Let_def op_bind_def split: option.split prod.split sum.split)
      (metis snd_conv)
qed (simp add: repair_low_def)

lemma repair_high_safe:
  assumes "inj (wk_proposal_id env)"
  shows "repair_safe env w (snd (repair_high env e l w))"
proof -
  have "repair_safe env w w1" if "create_repair_proposal env e a p r x w = (pid, w1)" for a p r x pid w1
    using create_repair_outcome(1,2) [OF that _ assms] by (simp add: repair_safe_def)
  then show ?thesis by (auto simp: repair_high_def Let_def split: option.split prod.split)
qed

lemma repair_loop_safe:
  assumes "inj (wk_proposal_id env)"
  shows "repair_safe env w (snd (repair_loop env apply_safe actor es l w))"
proof (induction es arbitrary: l w)
  case (Cons e es)
  show ?case unfolding repair_loop.simps
    by (rule op_bind_keeps [where keep = "repair_safe env"])
      (auto simp: repair_low_safe [OF assms] repair_high_safe [OF assms] Cons intro: repair_safe_trans)
qed simp

text \<open>A repair run changes no file of the wiki except the three control files (schema, index and log), whatever the
  error book contains, with or without applying its safe proposals, and also when it raises half way.\<close>

theorem repair_touches_control_files_only:
  assumes "repair_wiki env apply_safe error_ids actor w = (r, w')" and "path \<notin> {''SCHEMA.md'', ''index.md'', ''log.md''}"
    and "inj (wk_proposal_id env)" and "\<And>n. wk_proposal_id env n \<notin> ep_id ` set (evolution_proposals w)"
  shows "map_of (wiki_fs w') path = map_of (wiki_fs w) path"
proof -
  have lint: "repair_safe env v (snd (lint_wiki env v))" for v by (simp add: repair_safe_def ids_fresh_def)
  have em: "repair_safe env v (emit_full on t p sv se tu v)" for on t p sv se tu v by (simp add: repair_safe_def ids_fresh_def)
  have rest: "repair_safe env v (snd (op_bind (repair_loop env apply_safe actor es l) (\<lambda>x w1. (Inr (g x), emit on t (h x) w1)) v))"
    for es l g on t h v
    by (rule op_bind_keeps [where keep = "repair_safe env", OF repair_loop_safe [OF assms(3)] _ repair_safe_trans]) (simp_all add: em)
  have "repair_safe env w (snd (repair_wiki env apply_safe error_ids actor w))"
    unfolding repair_wiki_def Let_def
    by (rule op_bind_keeps [where keep = "repair_safe env", OF lint rest repair_safe_trans])
  moreover have "ids_fresh env w" using assms(4) by (simp add: ids_fresh_def)
  ultimately show ?thesis using assms(1,2) by (auto simp: repair_safe_def confined_def CANONICAL_WIKI_FILES_def)
qed

section \<open>Retrieval\<close>

lemma set_filtered: "set (List.map_filter f xs) = {y. \<exists>x \<in> set xs. f x = Some y}"
  by (induction xs) (auto simp: List.map_filter_simps split: option.split)

lemma candidates_stored: "p \<in> set (candidate_pages q pre keys n w) \<Longrightarrow> p \<in> set (wiki_pages w)
   \<and> (clean_prefix pre = [] \<or> has_path_prefix (clean_prefix pre) p)"
  by (auto simp: candidate_pages_def list_pages_def Let_def split: if_splits dest!: in_set_takeD)

lemma rank_page_page: "rank_page q st ic hits w p = Some h \<Longrightarrow> wh_page h = p"
  by (auto simp: rank_page_def Let_def case_prod_beta split: if_splits)

text \<open>A search returns at most the requested number of hits and never more than fifty, best first (by score, then
  confidence, then key). Every hit is a page of the table below the requested path, whatever the full-text engine
  returned, and the search changes nothing.\<close>

theorem wiki_search_sound:
  assumes "hits = search_wiki env query n strategy path_prefix ic w"
  shows "int (length hits) \<le> max 1 (min n 50)
    \<and> (\<forall>h \<in> set hits. wh_page h \<in> set (wiki_pages w)
         \<and> (clean_prefix path_prefix = [] \<or> has_path_prefix (clean_prefix path_prefix) (wh_page h)))
    \<and> sorted_wrt (\<lambda>a b. (wh_score b, page_conf (wh_page b), wpg_key (wh_page b)) \<le> (wh_score a, page_conf (wh_page a), wpg_key (wh_page a))) hits"
proof -
  let ?limit = "clamp_limit 50 n"
  let ?k = "\<lambda>h. (wh_score h, page_conf (wh_page h), wpg_key (wh_page h))"
  define fts where "fts = fold (\<lambda>(k, r, sn). put_assoc k (k, r, sn)) (wiki_fts_search env (py_strip query) (max (?limit * 4) 20) w) []"
  define pages where "pages = candidate_pages (py_strip query) path_prefix (map fst fts) (max (?limit * 8) 200) w"
  define records where "records = List.map_filter (rank_page (py_strip query) strategy ic fts w) pages"
  have r: "hits = take ?limit (rev (sort_key ?k (rev records)))"
    unfolding assms search_wiki_def Let_def records_def pages_def fts_def ..
  have records: "wh_page h \<in> set pages" if "h \<in> set records" for h
    using that by (auto simp: records_def set_filtered dest!: rank_page_page)
  have pages: "p \<in> set (wiki_pages w) \<and> (clean_prefix path_prefix = [] \<or> has_path_prefix (clean_prefix path_prefix) p)"
    if "p \<in> set pages" for p using that unfolding pages_def by (rule candidates_stored)
  have "int (length hits) \<le> max 1 (min n 50)" by (auto simp: r clamp_limit_def min_def le_nat_iff)
  moreover have "h \<in> set records" if "h \<in> set hits" for h using that by (auto simp: r dest!: in_set_takeD)
  moreover have "sorted_wrt (\<lambda>a b. ?k b \<le> ?k a) (rev (sort_key ?k (rev records)))"
    using sorted_sort_key [of ?k "rev records"] by (simp add: sorted_wrt_rev sorted_map)
  then have "sorted_wrt (\<lambda>a b. ?k b \<le> ?k a) hits" unfolding r by (rule sorted_wrt_take)
  ultimately show ?thesis using records pages by blast
qed

text \<open>Evidence is called sufficient only when page keys were given, each of them is a page of the table, they are at
  least as many different pages as required, and no entry of the error book (among its 200 newest open ones)
  concerns them.\<close>

theorem sufficiency_sound:
  assumes "sufficiency_check env claim read_pages (Some n) strategy w = Inr d" and "dget ''sufficient'' d = JBool True"
  shows "(\<exists>k \<in> set read_pages. py_strip k \<noteq> [])
    \<and> (\<forall>k \<in> set read_pages. py_strip k \<noteq> [] \<longrightarrow> read_page k w \<noteq> None)
    \<and> n \<le> int (card {wpg_key p |p. \<exists>k \<in> set read_pages. py_strip k \<noteq> [] \<and> read_page k w = Some p})
    \<and> (\<forall>e \<in> set (error_book ''open'' 200 w). \<forall>k \<in> set read_pages. normalize_page_key k \<noteq> [] \<longrightarrow>
         normalize_page_key (we_page_key e) \<noteq> normalize_page_key k)"
proof -
  let ?ks = "filter (\<lambda>k. py_strip k \<noteq> []) read_pages"
  let ?keys = "map normalize_page_key ?ks"
  let ?pages = "List.map_filter (\<lambda>k. read_page k w) ?keys"
  have "evidence_gaps claim ?keys (max 0 n) ?pages (constraints_for_pages ?keys w) = []"
    using assms by (auto simp: sufficiency_check_def Let_def dget_def)
  then have ne: "?keys \<noteq> []" and miss: "\<And>k. k \<in> set ?keys \<Longrightarrow> k \<in> wpg_key ` set ?pages"
    and fan: "max 0 n = 0 \<or> max 0 n \<le> int (length (remdups (map wpg_key ?pages)))" and cs: "constraints_for_pages ?keys w = []"
    by (auto simp: evidence_gaps_def Let_def filter_empty_conv split: if_splits)
  have rd: "read_page (normalize_page_key k) w = read_page k w" for k by (simp add: read_page_def)
  have pages: "set ?pages = {p. \<exists>k \<in> set read_pages. py_strip k \<noteq> [] \<and> read_page k w = Some p}"
    by (auto simp: set_filtered rd)
  have "read_page k w \<noteq> None" if k: "k \<in> set read_pages" "py_strip k \<noteq> []" for k
  proof -
    have "normalize_page_key k \<in> wpg_key ` set ?pages" by (rule miss) (use k in auto)
    then obtain p where "p \<in> set ?pages" "wpg_key p = normalize_page_key k" by auto
    moreover have "p \<in> set (wiki_pages w)" using \<open>p \<in> set ?pages\<close> unfolding pages by (auto simp: read_page_def dest: get_row_mem)
    ultimately have "normalize_page_key k \<in> wpg_key ` set (wiki_pages w)" by (metis image_eqI)
    then show ?thesis by (simp add: read_page_def get_row_None)
  qed
  moreover have "n \<le> int (card {wpg_key p |p. \<exists>k \<in> set read_pages. py_strip k \<noteq> [] \<and> read_page k w = Some p})"
  proof -
    have "{wpg_key p |p. \<exists>k \<in> set read_pages. py_strip k \<noteq> [] \<and> read_page k w = Some p} = set (map wpg_key ?pages)"
      unfolding set_map pages by auto
    then show ?thesis using fan by (simp only: length_remdups_card_conv)  linarith
  qed
  moreover have "normalize_page_key (we_page_key e) \<noteq> normalize_page_key k"
    if "e \<in> set (error_book ''open'' 200 w)" "k \<in> set read_pages" "normalize_page_key k \<noteq> []" for e k
  proof
    assume eq: "normalize_page_key (we_page_key e) = normalize_page_key k"
    have "normalize_page_key k = page_slug (py_lower (drop_md (replace_char (CHR 0x5C) ''/'' [])))" if "py_strip k = []"
      using that by (simp add: normalize_page_key_def)
    moreover have "page_slug (py_lower (drop_md (replace_char (CHR 0x5C) ''/'' []))) = []" by code_simp
    ultimately have "py_strip k \<noteq> []" using that(3) by auto
    moreover have "py_strip (normalize_page_key k) = normalize_page_key k" by (rule key_text_plain(1) [OF page_key_chars])
    ultimately have "normalize_page_key k \<in> set (filter (\<lambda>k. py_strip k \<noteq> []) ?keys)" using that by simp
    then have key: "normalize_page_key (we_page_key e) \<in> set (map normalize_page_key (filter (\<lambda>k. py_strip k \<noteq> []) ?keys))"
      unfolding eq set_map by (metis image_eqI page_key_idem)
    then have "error_summary e \<in> set (constraints_for_pages ?keys w)"
      using that(1) unfolding constraints_for_pages_def Let_def by (simp split: if_split) blast
    then show False by (simp add: cs)
  qed
  ultimately show ?thesis using ne by (auto simp: filter_empty_conv)
qed

section \<open>A small wiki\<close>

text \<open>Two pages, one with a link to the other and one to a page that does not exist; no full-text index; YAML texts load as
  lists, which is not a mapping.\<close>

definition no_fts :: wiki_fts_engine where
  "no_fts = \<lparr>wfe_backend = ''none'', wfe_create = None, wfe_match = (\<lambda>_ _ _. Inr []), wfe_pg_search = (\<lambda>_ _ _. Inr []),
     wfe_pg_status = (\<lambda>_. Inr (False, 0))\<rparr>"

definition sample_wiki_env :: wiki_env where
  "sample_wiki_env = \<lparr>wk_events = False, wk_now = 5, wk_root = [''srv'', ''wiki''], wk_cwd = [''app''], wk_outside = (\<lambda>_. None),
     wk_sha = id, wk_yaml_load = (\<lambda>_. Inr (JList [JInt 1])), wk_fts = no_fts, wk_error_id = (\<lambda>n. replicate n (CHR ''e'')),
     wk_proposal_id = (\<lambda>n. replicate n (CHR ''p'')), wk_llm = None, wk_json_error = id\<rparr>"

definition sample_wiki :: world where
  "sample_wiki = empty_world\<lparr>wiki_fs := [(''a.md'', ''# A'' @ [newline] @ ''[[b]] [[c]]''), (''b.md'', ''# B'')]\<rparr>"

definition wiki_proposal :: "string \<Rightarrow> evolution_proposal" where
  "wiki_proposal action = sample_proposal\<lparr>ep_target_type := ''wiki'', ep_action := action,
     ep_payload := [(''path'', JStr ''b.md''), (''content'', JStr ''# New'')]\<rparr>"

definition wiki_with :: "string \<Rightarrow> world" where
  "wiki_with action = sample_wiki\<lparr>evolution_proposals := [wiki_proposal action]\<rparr>"



theorem archive_misses_page_witness:
  "is_file (wiki_fs (wiki_with ''archive_page'')) [''b.md'']
    \<and> (\<exists>e. wiki_apply_proposal sample_wiki_env ''p1'' ''admin'' (wiki_with ''archive_page'') = (Inl e, wiki_with ''archive_page''))"
proof
  show f: "is_file (wiki_fs (wiki_with ''archive_page'')) [''b.md'']" by code_simp
  show "\<exists>e. wiki_apply_proposal sample_wiki_env ''p1'' ''admin'' (wiki_with ''archive_page'') = (Inl e, wiki_with ''archive_page'')"
    by (rule archive_misses_page [of _ _ "wiki_proposal ''archive_page''" "[''b.md'']"], code_simp+)
qed

theorem unparsable_page_blocks_repair_witness:
  "let w = sample_wiki\<lparr>wiki_fs := [(''bad.md'', ''---'' @ [newline] @ ''- 1'' @ [newline] @ ''---'' @ [newline]), (''b.md'', ''# B'')]\<rparr>
   in \<exists>e d w'. repair_wiki sample_wiki_env True [] ''admin'' w = (Inl e, w) \<and> compile_wiki sample_wiki_env w = (Inr d, w')"
proof -
  let ?w = "sample_wiki\<lparr>wiki_fs := [(''bad.md'', ''---'' @ [newline] @ ''- 1'' @ [newline] @ ''---'' @ [newline]), (''b.md'', ''# B'')]\<rparr>"
  have "[''bad.md''] \<in> set (markdown_paths (wiki_fs ?w))" by code_simp
  moreover have "parse_markdown_page sample_wiki_env (wiki_fs ?w) [''bad.md''] = Inl (ValueError ''frontmatter must be a mapping'')"
    by code_simp
  ultimately show ?thesis
    using unparsable_page_blocks_repair [of "[''bad.md'']" ?w sample_wiki_env _ True "[]" "''admin''"] unfolding Let_def by blast
qed

theorem repair_touches_control_files_only_witness:
  "map_of (wiki_fs (snd (repair_wiki sample_wiki_env True [] ''admin'' sample_wiki))) ''a.md'' = map_of (wiki_fs sample_wiki) ''a.md''"
proof (rule repair_touches_control_files_only [OF surjective_pairing])
  show "inj (wk_proposal_id sample_wiki_env)" by (auto simp: inj_def sample_wiki_env_def)
qed (simp_all add: sample_wiki_def empty_world_def)

definition compiled_wiki :: world where
  "compiled_wiki = sample_wiki\<lparr>wiki_pages := map row_of_page (fst (compiled sample_wiki_env (wiki_fs sample_wiki)))\<rparr>"

theorem wiki_search_sound_witness:
  "length (search_wiki sample_wiki_env ''b'' 1 '''' '''' False compiled_wiki) = 1
    \<and> wh_page (hd (search_wiki sample_wiki_env ''b'' 1 '''' '''' False compiled_wiki)) \<in> set (wiki_pages compiled_wiki)"
proof
  let ?hits = "search_wiki sample_wiki_env ''b'' 1 '''' '''' False compiled_wiki"
  show one: "length ?hits = 1" by code_simp
  then have "hd ?hits \<in> set ?hits" by (cases ?hits) auto
  then show "wh_page (hd ?hits) \<in> set (wiki_pages compiled_wiki)"
    using wiki_search_sound [OF refl, of sample_wiki_env "''b''" 1 "''''" "''''" False compiled_wiki] by blast
qed

theorem sufficiency_sound_witness:
  "read_page ''b.md'' compiled_wiki \<noteq> None"
proof -
  let ?r = "sufficiency_check sample_wiki_env ''b'' [''b.md''] (Some 1) '''' compiled_wiki"
  obtain d where d: "?r = Inr d" by (cases ?r) (auto simp: sufficiency_check_def Let_def)
  have "dget ''sufficient'' (projr ?r) = JBool True" by code_simp
  then have "dget ''sufficient'' d = JBool True" by (simp add: d)
  moreover have "py_strip ''b.md'' \<noteq> []" by code_simp
  ultimately show ?thesis using sufficiency_sound [OF d] by simp
qed

end
