(* ===== verification/Evolution.thy ===== *)
theory Evolution
  imports Memory_Props Wiki_Props
begin

text \<open>
  Evolution proposals: \<open>EvolutionService\<close> of \<open>backend/domain/evolution.py\<close>, the heartbeat review of
  \<open>backend/runtime/heartbeat.py\<close> and the dream review of \<open>backend/runtime/dream.py\<close>.

  What the services that apply proposals promise is the locale \<open>proposal_applier\<close>: a proposal is applied only
  when it is open, it is closed afterwards, and no other proposal changes. The workspace, the memory, the skill and
  the wiki service provide it; the wiki and the workspace service are optional (\<open>None\<close> when not configured).
\<close>

section \<open>Applying and rejecting\<close>

record evolution_env =
  eo_events :: bool
  eo_now :: instant
  eo_skill :: skill_env
  eo_mem :: mem_env
  eo_wiki :: "wiki_env option"
  eo_workspace :: "seed option"

definition evolution_apply :: "evolution_env \<Rightarrow> uuid \<Rightarrow> string \<Rightarrow> uuid op" where
  "evolution_apply env pid actor w = (case get_row ep_id pid (evolution_proposals w) of
     None \<Rightarrow> (Inl (KeyError (''proposal not found: '' @ pid)), w)
   | Some p \<Rightarrow>
       if ep_target_type p = ''skill'' then skill_apply_proposal (eo_skill env) pid actor w
       else if ep_target_type p = ''memory'' then memory_apply_proposal (eo_mem env) pid actor w
       else if ep_target_type p = ''wiki'' then
         (case eo_wiki env of
            None \<Rightarrow> (Inl (ValueError ''wiki evolution service is not configured''), w)
          | Some wiki \<Rightarrow> wiki_apply_proposal wiki pid actor w)
       else if ep_target_type p \<in> {''persona'', ''user'', ''heartbeat'', ''workspace_file''} then
         (case eo_workspace env of
            None \<Rightarrow> (Inl (ValueError ''workspace evolution service is not configured''), w)
          | Some seed \<Rightarrow> ws_apply_proposal (eo_events env) seed (eo_now env) pid actor w)
       else (Inl (ValueError (''unsupported proposal target_type: '' @ ep_target_type p)), w))"

definition evolution_reject :: "evolution_env \<Rightarrow> uuid \<Rightarrow> string \<Rightarrow> string \<Rightarrow> uuid op" where
  "evolution_reject env pid actor reason w = (case get_row ep_id pid (evolution_proposals w) of
     None \<Rightarrow> (Inl (KeyError (''proposal not found: '' @ pid)), w)
   | Some p \<Rightarrow>
       if ep_status p \<notin> {''pending'', ''approved''}
       then (Inl (ValueError (''proposal is not rejectable: '' @ ep_status p)), w)
       else (Inr pid,
         emit (eo_events env) ''evolution.proposal.rejected''
           [(''proposal_id'', JStr pid), (''target_type'', JStr (ep_target_type p))]
          (put_proposal pid (\<lambda>q. q\<lparr>ep_status := ''rejected'',
             ep_result := [(''ok'', JBool False), (''actor'', JStr actor), (''reason'', JStr reason)],
             ep_applied_at := Some (eo_now env)\<rparr>) w)))"

section \<open>Heartbeat\<close>

definition heartbeat_dict :: "heartbeat_result \<Rightarrow> dict" where
  "heartbeat_dict r = [(''status'', JStr (hb_status r)), (''active_tasks'', JInt (hb_active_tasks r)),
     (''proposals_created'', JInt (hb_proposals_created r)), (''proposal_ids'', strs (hb_proposal_ids r))]"

definition heartbeat_payload :: "nat \<Rightarrow> string \<Rightarrow> dict" where
  "heartbeat_payload i task =
     [(''kind'', JStr ''heartbeat''),
      (''content'', JStr (''- Reviewed active task '' @ nat_str i @ '': '' @ task @ [newline] @ ''  - Status: pending human review.'')),
      (''heartbeat_task'', JStr task)]"

text \<open>Proposal \<open>i\<close> gets the identifier \<open>ids i\<close>.\<close>

fun heartbeat_proposals :: "skill_env \<Rightarrow> (nat \<Rightarrow> uuid) \<Rightarrow> nat \<Rightarrow> string list \<Rightarrow> string list op" where
  "heartbeat_proposals env ids i [] w = (Inr [], w)"
| "heartbeat_proposals env ids i (task # rest) w =
     op_bind (create_proposal (env\<lparr>sv_new_id := ids i\<rparr>) ''heartbeat'' ''append_file'' (heartbeat_payload i task)
         [(''heartbeat_task'', JStr task), (''source'', JStr ''HEARTBEAT.md'')] ''low'')
       (\<lambda>p. op_bind (heartbeat_proposals env ids (i + 1) rest) (\<lambda>ps. op_ok (ep_id p # ps))) w"

definition run_check :: "skill_env \<Rightarrow> seed \<Rightarrow> (nat \<Rightarrow> uuid) \<Rightarrow> heartbeat_result op" where
  "run_check env seed ids = op_bind (active_heartbeat_tasks seed) (\<lambda>tasks.
     if tasks = [] then
       (\<lambda>w. (Inr \<lparr>hb_status = ''skipped'', hb_active_tasks = 0, hb_proposals_created = 0, hb_proposal_ids = []\<rparr>,
          emit True ''heartbeat.skipped'' [(''reason'', JStr ''no active tasks'')]
            (append_history seed (sv_now env)
              [(''type'', JStr ''heartbeat''), (''status'', JStr ''skipped''), (''reason'', JStr ''no active tasks'')] w)))
     else op_bind (heartbeat_proposals env ids 1 tasks) (\<lambda>ps w.
       let result = \<lparr>hb_status = ''proposed'', hb_active_tasks = int (length tasks), hb_proposals_created = int (length ps),
                     hb_proposal_ids = ps\<rparr>
       in (Inr result,
           emit True ''heartbeat.completed'' (heartbeat_dict result)
             (append_history seed (sv_now env)
               [(''type'', JStr ''heartbeat''), (''status'', JStr ''proposed''), (''active_tasks'', strs tasks),
                (''proposal_ids'', strs ps)] w))))"

section \<open>Dream review\<close>

definition group_key :: "string \<Rightarrow> string \<Rightarrow> string" where
  "group_key s fallback =
     (let ws = findall_runs word_char (py_lower s);
          stop = {''the'', ''and'', ''for'', ''with'', ''that'', ''this'', ''from'', ''error'', ''failed'', ''failure''};
          useful = take 6 (filter (\<lambda>x. length x > 2 \<and> x \<notin> stop) ws);
          raw = str_or (join ''-'' useful) fallback;
          clean = strip_of (\<lambda>c. c = CHR ''-'')
            (sub_runs (\<lambda>c. \<not> ((97 \<le> ordc c \<and> ordc c \<le> 122) \<or> is_digit c \<or> c = CHR ''_'' \<or> c = CHR ''-'')) ''-'' (py_lower raw))
      in str_or (take 80 clean) ''general-review'')"

definition recent_error_memories :: "instant \<Rightarrow> int \<Rightarrow> world \<Rightarrow> memory list" where
  "recent_error_memories since limit w =
     take (clamp_limit 500 limit) (sort_key (\<lambda>m. (- me_importance m, - me_created_at m))
       (filter (\<lambda>m. \<not> me_archived m \<and> me_created_at m \<ge> since \<and> me_kind m \<in> {''error_signal'', ''skill_trace''}) (memories w)))"

definition recent_failed_tool_runs :: "instant \<Rightarrow> int \<Rightarrow> world \<Rightarrow> tool_run list" where
  "recent_failed_tool_runs since limit w =
     take (clamp_limit 500 limit) (sort_key (\<lambda>r. - tr_started_at r)
       (filter (\<lambda>r. tr_status r = ''failed'' \<and> tr_started_at r \<ge> since) (tool_runs w)))"

text \<open>\<open>float(stability or 1.0) < 0.35\<close> in the second filter: a stability of exactly 0 counts as 1.\<close>

definition low_stability_memories :: "instant \<Rightarrow> int \<Rightarrow> world \<Rightarrow> memory list" where
  "low_stability_memories since limit w =
     filter (\<lambda>m. (if me_stability m = 0 then 1 else me_stability m) < 7 / 20)
       (take (clamp_limit 100 limit) (sort_key (\<lambda>m. (- me_importance m, - me_updated_at m))
         (filter (\<lambda>m. \<not> me_archived m \<and> me_updated_at m \<ge> since \<and> me_stability m < 7 / 20) (memories w))))"

record evidence =
  ge_key :: string
  ge_memories :: "dict list"
  ge_runs :: "dict list"

definition evidence_dict :: "evidence \<Rightarrow> dict" where
  "evidence_dict e = [(''dream_group_key'', JStr (ge_key e)), (''memories'', JList (map JObj (ge_memories e))),
     (''failed_tool_runs'', JList (map JObj (ge_runs e)))]"

text \<open>\<open>s[:n]\<close>.\<close>

fun py_take :: "int \<Rightarrow> 'a list \<Rightarrow> 'a list" where
  "py_take n [] = []"
| "py_take n (x # xs) = (if n \<le> 0 then [] else x # py_take (n - 1) xs)"

lemma py_take_eq: "py_take n xs = take (nat n) xs"
  by (induction n xs rule: py_take.induct) (auto simp: nat_diff_distrib take_Cons' )

definition memory_evidence :: "memory \<Rightarrow> dict" where
  "memory_evidence m = [(''id'', JStr (me_id m)), (''kind'', JStr (me_kind m)), (''content'', JStr (py_take 1000 (me_content m))),
     (''importance'', JFloat (me_importance m)), (''confidence'', JFloat (me_confidence m)),
     (''source_turn_id'', JStr (me_source_turn_id m))]"

definition run_evidence :: "tool_run \<Rightarrow> dict" where
  "run_evidence r = [(''id'', JStr (tr_id r)), (''turn_id'', JStr (tr_turn_id r)), (''tool_name'', JStr (tr_tool_name r)),
     (''arguments'', JObj (tr_arguments r)), (''result'', JObj (tr_result r)),
     (''started_at'', JStr (isoformat (tr_started_at r)))]"

definition add_evidence :: "string \<Rightarrow> (evidence \<Rightarrow> evidence) \<Rightarrow> (string \<times> evidence) list \<Rightarrow> (string \<times> evidence) list" where
  "add_evidence key f groups =
     put_assoc key (f (case map_of groups key of
        None \<Rightarrow> \<lparr>ge_key = key, ge_memories = [], ge_runs = []\<rparr> | Some e \<Rightarrow> e)) groups"

definition group_evidence :: "memory list \<Rightarrow> tool_run list \<Rightarrow> (string \<times> evidence) list" where
  "group_evidence ms runs =
     (let g1 = fold (\<lambda>m. add_evidence (group_key (me_content m) (me_kind m))
                 (\<lambda>e. e\<lparr>ge_memories := ge_memories e @ [memory_evidence m]\<rparr>)) ms [];
          g2 = fold (\<lambda>r. add_evidence (group_key (dstr_or ''error'' (tr_tool_name r) (tr_result r)) (tr_tool_name r))
                 (\<lambda>e. e\<lparr>ge_runs := ge_runs e @ [run_evidence r]\<rparr>)) runs g1
      in filter (\<lambda>(_, e). ge_memories e \<noteq> [] \<or> ge_runs e \<noteq> []) g2)"

text \<open>\<open>error or run.get("result")\<close> in the summaries.\<close>

definition run_error :: "dict \<Rightarrow> string" where
  "run_error r =
     (let res = dget ''result'' r; err = (if is_dict res then dget ''error'' (dict_or_empty res) else JStr '''')
      in py_str (py_or err res))"

definition summary :: "evidence \<Rightarrow> string" where
  "summary e =
     (let ls = map (\<lambda>m. ''- Memory `'' @ py_str (dget ''id'' m) @ ''` ('' @ py_str (dget ''kind'' m) @ ''): '' @
                 py_str (dget ''content'' m)) (take 5 (ge_memories e)) @
               map (\<lambda>r. ''- ToolRun `'' @ py_str (dget ''id'' r) @ ''` `'' @ py_str (dget ''tool_name'' r) @ ''` failed: '' @
                 run_error r) (take 5 (ge_runs e))
      in str_or (join [newline] ls) ''- No evidence captured.'')"

definition plain_summary :: "evidence \<Rightarrow> string" where
  "plain_summary e =
     (let ps = map (\<lambda>m. py_str (dget ''kind'' m) @ '': '' @ py_str (dget ''content'' m)) (take 5 (ge_memories e)) @
               map (\<lambda>r. py_str (dget ''tool_name'' r) @ '' failed: '' @ run_error r) (take 5 (ge_runs e))
      in str_or (join '' | '' ps) ''No evidence captured.'')"

definition dream_skill_md :: "string \<Rightarrow> string \<Rightarrow> string" where
  "dream_skill_md title body = join [newline]
     [''---'', ''name: Dream Review - '' @ title,
      ''description: Proposed skill distilled from recent memory error signals and failed tool runs.'',
      ''required_tools:'', ''  - wiki_search'', ''  - wiki_read'', ''  - memory_search'', ''  - memory_get'',
      ''test_cases:'', ''  - name: manifest-lint'', ''    kind: lint'',
      ''  - name: required retrieval tools'', ''    kind: mock_tool'', ''    required_tools:'',
      ''      - wiki_search'', ''      - wiki_read'', ''      - memory_search'', ''      - memory_get'',
      ''  - name: regression unsafe commands absent'', ''    kind: regression'', ''    must_not_contain:'',
      ''      - git reset --hard'', ''      - rm -rf /'', ''---'', '''',
      ''# Dream Review - '' @ title, '''', ''## Trigger Evidence'', '''', body, '''', ''## Operating Guidance'', '''',
      ''- Reproduce the failure or uncertainty from the evidence before changing project state.'',
      ''- Prefer Wiki and Memory retrieval before inventing a new workflow.'',
      ''- If the issue involves tools, check availability, scope, approval requirements, and recent ToolRun errors.'',
      ''- Record any durable lesson as L2 memory first; promote to stable skill instructions only after repeated success.'', '''']"

definition dream_skill_payload :: "string \<Rightarrow> evidence \<Rightarrow> dict" where
  "dream_skill_payload key e =
     [(''skill_key'', JStr (''dream/'' @ key)),
      (''files'', JObj [(''SKILL.md'', JStr (dream_skill_md (title_case True (replace_char CHR ''-'' '' '' key)) (summary e)))]),
      (''dream_group_key'', JStr key),
      (''required_checks'', strs [''frontmatter'', ''required_tools'', ''static_safety_scan'', ''safe_manifest_test_cases'',
         ''human_review_before_apply''])]"

definition dream_memory_payload :: "string \<Rightarrow> evidence \<Rightarrow> dict" where
  "dream_memory_payload key e =
     [(''kind'', JStr ''semantic''), (''content'', JStr (''Dream review lesson: '' @ py_take 1800 (plain_summary e))),
      (''source'', JStr ''dream''), (''importance'', JFloat (31 / 50)), (''confidence'', JFloat (11 / 20)),
      (''stability'', JFloat (9 / 20)), (''metadata'', JObj [(''dream_group_key'', JStr key)]), (''dream_group_key'', JStr key)]"

definition dream_wiki_payload :: "string \<Rightarrow> dict" where
  "dream_wiki_payload key =
     [(''entry'', JStr (''Dream review found improvement opportunity `'' @ key @
         ''`. Review proposal evidence before updating Wiki pages.'')), (''dream_group_key'', JStr key)]"

definition proposal_exists :: "string \<Rightarrow> string \<Rightarrow> world \<Rightarrow> bool" where
  "proposal_exists key target_type w =
     list_ex (\<lambda>p. ep_target_type p = target_type \<and> ep_status p \<in> {''pending'', ''approved'', ''applied''}
        \<and> dget ''dream_group_key'' (ep_payload p) = JStr key) (evolution_proposals w)"

text \<open>A proposal made by the review gets the identifier \<open>ids n\<close>, where \<open>n\<close> counts the proposals before it.\<close>

definition propose :: "skill_env \<Rightarrow> (nat \<Rightarrow> uuid) \<Rightarrow> string \<Rightarrow> string \<Rightarrow> string \<Rightarrow> dict \<Rightarrow> dict \<Rightarrow> evolution_proposal op" where
  "propose env ids target_type action risk payload evid w =
     create_proposal (env\<lparr>sv_new_id := ids (length (evolution_proposals w))\<rparr>) target_type action payload evid risk w"

fun dream_groups :: "skill_env \<Rightarrow> (nat \<Rightarrow> uuid) \<Rightarrow> (string \<times> evidence) list \<Rightarrow> evolution_proposal list op" where
  "dream_groups env ids [] w = (Inr [], w)"
| "dream_groups env ids ((key, e) # rest) w =
     (if proposal_exists key ''skill'' w then dream_groups env ids rest w
      else op_bind (propose env ids ''skill'' ''upsert'' ''medium'' (dream_skill_payload key e) (evidence_dict e)) (\<lambda>a.
           op_bind (propose env ids ''memory'' ''create'' ''low'' (dream_memory_payload key e) (evidence_dict e)) (\<lambda>b.
           op_bind (propose env ids ''wiki'' ''append_log'' ''low'' (dream_wiki_payload key) (evidence_dict e)) (\<lambda>c.
           op_bind (dream_groups env ids rest) (\<lambda>ps. op_ok (a # b # c # ps))))) w)"

definition verify_key :: "memory \<Rightarrow> string" where
  "verify_key m = ''verify-memory-'' @ me_id m"

definition verify_payload :: "memory \<Rightarrow> dict" where
  "verify_payload m = [(''memory_id'', JStr (me_id m)), (''confidence_delta'', JFloat (3 / 100)),
     (''dream_group_key'', JStr (verify_key m))]"

definition verify_evidence :: "memory \<Rightarrow> dict" where
  "verify_evidence m = [(''dream_group_key'', JStr (verify_key m)),
     (''memories'', JList [JObj [(''id'', JStr (me_id m)), (''kind'', JStr (me_kind m)),
        (''content'', JStr (py_take 1000 (me_content m))), (''confidence'', JFloat (me_confidence m)),
        (''stability'', JFloat (me_stability m))]]),
     (''failed_tool_runs'', JList [])]"

fun dream_verify :: "skill_env \<Rightarrow> (nat \<Rightarrow> uuid) \<Rightarrow> memory list \<Rightarrow> evolution_proposal list op" where
  "dream_verify env ids [] w = (Inr [], w)"
| "dream_verify env ids (m # rest) w =
     (if proposal_exists (verify_key m) ''memory'' w then dream_verify env ids rest w
      else op_bind (propose env ids ''memory'' ''verify'' ''low'' (verify_payload m) (verify_evidence m))
             (\<lambda>p. op_bind (dream_verify env ids rest) (\<lambda>ps. op_ok (p # ps))) w)"

definition dream_dict :: "dream_result \<Rightarrow> dict" where
  "dream_dict r = [(''scanned_memories'', JInt (dr_scanned_memories r)), (''failed_tool_runs'', JInt (dr_failed_tool_runs r)),
     (''proposals_created'', JInt (dr_proposals_created r)), (''proposal_ids'', strs (dr_proposal_ids r))]"

definition run_review :: "skill_env \<Rightarrow> (nat \<Rightarrow> uuid) \<Rightarrow> int \<Rightarrow> int \<Rightarrow> dream_result op" where
  "run_review env ids window_hours limit w =
     (let since = sv_now env - 3600 * of_int (max 1 (min window_hours (24 * 30)));
          ms = recent_error_memories since limit w; runs = recent_failed_tool_runs since limit w
      in op_bind (dream_groups env ids (group_evidence ms runs)) (\<lambda>ps w1.
           op_bind (dream_verify env ids (low_stability_memories since limit w1)) (\<lambda>qs w2.
             let result = \<lparr>dr_scanned_memories = int (length ms), dr_failed_tool_runs = int (length runs),
                   dr_proposals_created = int (length (ps @ qs)), dr_proposal_ids = map ep_id (ps @ qs)\<rparr>
             in (Inr result, emit True ''dream.review.completed'' (dream_dict result) w2)) w1) w)"

section \<open>The contract of applying a proposal\<close>

definition open_proposal :: "evolution_proposal \<Rightarrow> bool" where
  "open_proposal p = (ep_status p \<in> {''pending'', ''approved''})"

definition closed_status :: "string set" where
  "closed_status = {''applied'', ''rejected'', ''stale''}"

definition proposal_at :: "world \<Rightarrow> uuid \<Rightarrow> evolution_proposal option" where
  "proposal_at w k = get_row ep_id k (evolution_proposals w)"

locale proposal_applier =
  fixes apply_op :: "uuid \<Rightarrow> string \<Rightarrow> uuid op"
  assumes others: "k \<noteq> pid \<Longrightarrow> proposal_at (snd (apply_op pid actor w)) k = proposal_at w k"
    and refuses: "proposal_at w pid = Some p \<Longrightarrow> \<not> open_proposal p \<Longrightarrow>
      apply_op pid actor w = (Inl (ValueError (''proposal is not applyable: '' @ ep_status p)), w)"
    and closes: "apply_op pid actor w = (Inr r, w') \<Longrightarrow>
      (\<exists>q. proposal_at w' pid = Some q \<and> ep_status q \<in> closed_status)"
begin

lemma applied_once:
  assumes "apply_op pid actor w = (Inr r, w')"
  shows "\<exists>q. proposal_at w' pid = Some q \<and> ep_status q \<in> closed_status
    \<and> apply_op pid actor2 w' = (Inl (ValueError (''proposal is not applyable: '' @ ep_status q)), w')"
proof -
  obtain q where q: "proposal_at w' pid = Some q" "ep_status q \<in> closed_status" using closes [OF assms] by blast
  then have "\<not> open_proposal q" by (auto simp: open_proposal_def closed_status_def)
  then show ?thesis using q refuses [OF q(1)] by blast
qed

lemma closed_kept:
  assumes "proposal_at w k = Some p" and "\<not> open_proposal p"
  shows "proposal_at (snd (apply_op pid actor w)) k = Some p"
proof (cases "k = pid")
  case True
  then show ?thesis using refuses [of w pid p actor] assms by simp
qed (use others assms(1) in simp)

end

lemma proposal_at_put:
  assumes "\<And>q. ep_id (f q) = ep_id q"
  shows "proposal_at (put_proposal pid f w) k = (if k = pid then map_option f (proposal_at w pid) else proposal_at w k)"
  using proposals_tab.get_after_upd [of f k pid w] assms by (simp add: proposal_at_def put_proposal_def)

lemma proposal_at_cong: "evolution_proposals w' = evolution_proposals w \<Longrightarrow> proposal_at w' k = proposal_at w k"
  by (simp add: proposal_at_def)

lemma proposal_at_bus [simp]:
  "proposal_at (emit_full on t p sv se tu w) k = proposal_at w k" "proposal_at (audit on a tt ti q w) k = proposal_at w k"
  by (simp_all add: proposal_at_def)

subsection \<open>Skills\<close>

lemma write_files_proposals: "evolution_proposals (snd (write_files env dir fs w)) = evolution_proposals w"
  by (induction env dir fs w rule: write_files.induct) (auto split: sum.split)

lemma install_skill_proposals:
  "k \<noteq> ep_id p \<Longrightarrow> proposal_at (snd (install_skill env p key dir fs wn ts actor w)) k = proposal_at w k"
  "install_skill env p key dir fs wn ts actor w = (Inr r, w') \<Longrightarrow> proposal_at w (ep_id p) = Some q0 \<Longrightarrow>
     \<exists>q. proposal_at w' (ep_id p) = Some q \<and> ep_status q = ''applied''"
proof -
  obtain r1 w1 where w1: "write_files env dir fs w = (r1, w1)" by fastforce
  have e1: "proposal_at w1 j = proposal_at w j" for j
    using write_files_proposals [of env dir fs w] w1 by (simp add: proposal_at_def)
  have sc: "proposal_at (snd (skill_scan env v)) j = proposal_at v j" for v j
    using skill_scan_frame(2) [of env v] by (simp add: proposal_at_def)
  let ?f = "\<lambda>q. q\<lparr>ep_status := ''applied'', ep_before_snapshot := snapshot_dict env (skill_snapshot env dir w),
       ep_after_snapshot := snapshot_dict env (skill_snapshot env dir w1),
       ep_result := [(''ok'', JBool True), (''warnings'', strs wn), (''tests'', JList (map JObj ts)),
                     (''diff'', dget_default ''diff'' (JObj []) (ep_payload p))], ep_applied_at := Some (sv_now env)\<rparr>"
  define w3 where "w3 = put_proposal (ep_id p) ?f (w1\<lparr>skill_histories := skill_histories w1 @
       [\<lparr>skh_key = key, skh_action = ''apply_proposal'', skh_before = snapshot_dict env (skill_snapshot env dir w),
         skh_after = snapshot_dict env (skill_snapshot env dir w1) @ [(''proposal_id'', JStr (ep_id p))],
         skh_actor = actor, skh_created_at = sv_now env\<rparr>]\<rparr>)"
  have w3: "proposal_at w3 j = (if j = ep_id p then map_option ?f (proposal_at w j) else proposal_at w j)" for j
    unfolding w3_def by (subst proposal_at_put) (simp_all add: proposal_at_def e1 [unfolded proposal_at_def])
  obtain r4 w4 where w4: "skill_scan env w3 = (r4, w4)" by fastforce
  have w4': "proposal_at w4 j = proposal_at w3 j" for j using sc [of w3 j] w4 by simp
  have run: "install_skill env p key dir fs wn ts actor w = (case r1 of
      Inl e \<Rightarrow> (Inl e, w1)
    | Inr _ \<Rightarrow> (case r4 of Inl e \<Rightarrow> (Inl e, w4) | Inr _ \<Rightarrow>
        (Inr (ep_id p), audit (sv_events env) ''skill.proposal.apply'' ''evolution_proposal'' (ep_id p)
           [(''skill_key'', JStr key), (''actor'', JStr actor)]
          (emit (sv_events env) ''skill.proposal.applied'' [(''proposal_id'', JStr (ep_id p)), (''skill_key'', JStr key)] w4))))"
    unfolding install_skill_def Let_def op_bind_def w1 prod.case w3_def [symmetric] w4 ..
  show "proposal_at (snd (install_skill env p key dir fs wn ts actor w)) k = proposal_at w k" if "k \<noteq> ep_id p"
    using that by (simp add: run w4' w3 e1 split: sum.split)
  show "\<exists>q. proposal_at w' (ep_id p) = Some q \<and> ep_status q = ''applied''"
    if "install_skill env p key dir fs wn ts actor w = (Inr r, w')" "proposal_at w (ep_id p) = Some q0"
    using that by (auto simp: run w4' w3 split: sum.splits)
qed

interpretation skill_applier: proposal_applier "skill_apply_proposal env" for env
proof unfold_locales
  fix k pid actor :: string and w :: world
  assume "k \<noteq> pid"
  then show "proposal_at (snd (skill_apply_proposal env pid actor w)) k = proposal_at w k"
    using install_skill_proposals(1) [of k]
    by (auto simp: skill_apply_proposal_def Let_def proposal_at_put dest!: get_row_key split: option.split sum.split)
next
  fix pid actor :: string and w :: world and p :: evolution_proposal
  assume "proposal_at w pid = Some p" "\<not> open_proposal p"
  then show "skill_apply_proposal env pid actor w = (Inl (ValueError (''proposal is not applyable: '' @ ep_status p)), w)"
    by (simp add: skill_apply_proposal_def proposal_at_def open_proposal_def)
next
  fix pid actor r :: string and w w' :: world
  assume run: "skill_apply_proposal env pid actor w = (Inr r, w')"
  then obtain p where p: "get_row ep_id pid (evolution_proposals w) = Some p"
    by (cases "get_row ep_id pid (evolution_proposals w)") (auto simp: skill_apply_proposal_def)
  then have at: "proposal_at w pid = Some p" "ep_id p = pid" by (auto simp: proposal_at_def dest: get_row_key)
  show "\<exists>q. proposal_at w' pid = Some q \<and> ep_status q \<in> closed_status"
  proof -
    have ins: "\<exists>q. proposal_at w' pid = Some q \<and> ep_status q \<in> closed_status"
      if "install_skill env p key dir fs wn ts actor w = (Inr r, w')" for key dir fs wn ts
      using install_skill_proposals(2) [OF that, of p] at by (auto simp: closed_status_def)
    show ?thesis
      using run at ins
      unfolding skill_apply_proposal_def p option.case Let_def
      by (simp split: if_splits sum.splits) (auto simp: proposal_at_put closed_status_def)
  qed
qed

subsection \<open>Memory\<close>

lemma memory_create_proposals [simp]: "evolution_proposals (snd (memory_create env a w)) = evolution_proposals w"
  by (simp add: memory_create_def Let_def split: option.split)

lemma memory_ops_proposals [simp]:
  "evolution_proposals (snd (memory_supersede env mid r w)) = evolution_proposals w"
  "evolution_proposals (snd (memory_archive env mid w)) = evolution_proposals w"
  "evolution_proposals (snd (mark_verified env mid d w)) = evolution_proposals w"
  by (auto simp: memory_supersede_def memory_archive_def mark_verified_def Let_def case_prod_beta split: option.split sum.split)

lemma proposal_action_proposals: "evolution_proposals (snd (proposal_action env action p w)) = evolution_proposals w"
  unfolding proposal_action_def Let_def
  by (auto simp: op_bind_def case_prod_beta split: prod.split sum.split
    dest!: arg_cong [where f = "\<lambda>x. evolution_proposals (snd x)"])

interpretation memory_applier: proposal_applier "memory_apply_proposal env" for env
proof unfold_locales
  fix k pid actor :: string and w :: world
  assume "k \<noteq> pid"
  then show "proposal_at (snd (memory_apply_proposal env pid actor w)) k = proposal_at w k"
    using proposal_action_proposals [of env]
    by (auto simp: memory_apply_proposal_def op_bind_def proposal_at_def get_row_upd split: option.split prod.split sum.split)
      (metis snd_conv)+
next
  fix pid actor :: string and w :: world and p :: evolution_proposal
  assume "proposal_at w pid = Some p" "\<not> open_proposal p"
  then show "memory_apply_proposal env pid actor w = (Inl (ValueError (''proposal is not applyable: '' @ ep_status p)), w)"
    by (simp add: memory_apply_proposal_def proposal_at_def open_proposal_def)
next
  fix pid actor r :: string and w w' :: world
  assume run: "memory_apply_proposal env pid actor w = (Inr r, w')"
  then obtain p where p: "get_row ep_id pid (evolution_proposals w) = Some p"
    by (cases "get_row ep_id pid (evolution_proposals w)") (auto simp: memory_apply_proposal_def)
  obtain x w1 where a: "proposal_action env (ep_action p) (ep_payload p) w = (x, w1)" by fastforce
  have "evolution_proposals w1 = evolution_proposals w" using proposal_action_proposals [of env "ep_action p" "ep_payload p" w] a by simp
  then obtain f where "evolution_proposals w' = upd_row ep_id pid f (evolution_proposals w)"
    "\<And>q. ep_id (f q) = ep_id q \<and> ep_status (f q) = ''applied''"
    using run by (auto simp: memory_apply_proposal_def p op_bind_def a split: if_splits sum.splits prod.splits)
  then show "\<exists>q. proposal_at w' pid = Some q \<and> ep_status q \<in> closed_status"
    by (simp add: proposal_at_def get_row_upd p closed_status_def)
qed

subsection \<open>Workspace\<close>

lemma ws_ops_proposals:
  "evolution_proposals (snd (ws_read seed kind w)) = evolution_proposals w"
  "evolution_proposals (snd (ws_write ev seed kind s a w)) = evolution_proposals w"
  by (simp_all add: ws_read_def ws_write_def ensure_files_def op_bind_def Let_def split: sum.split)

interpretation workspace_applier: proposal_applier "ws_apply_proposal ev seed now" for ev seed now
proof unfold_locales
  fix k pid actor :: string and w :: world
  assume k: "k \<noteq> pid"
  show "proposal_at (snd (ws_apply_proposal ev seed now pid actor w)) k = proposal_at w k"
  proof (cases "get_row ep_id pid (evolution_proposals w)")
    case (Some p)
    let ?kind = "dstr_or ''kind'' (kind_for_target (ep_target_type p)) (ep_payload p)"
    have rd: "proposal_at (snd (ws_read seed ?kind v)) k = proposal_at v k"
      and wr: "proposal_at (snd (ws_write ev seed ?kind s actor v)) k = proposal_at v k" for s v
      by (simp_all add: proposal_at_def ws_ops_proposals)
    have put: "proposal_at (v\<lparr>evolution_proposals := upd_row ep_id pid f (evolution_proposals v)\<rparr>) k = proposal_at v k"
      if "\<And>q. ep_id (f q) = ep_id q" for f v
      using k that by (simp add: proposal_at_def get_row_upd)
    show ?thesis
      unfolding ws_apply_proposal_def Some option.case Let_def
      by (auto simp: rd wr put op_bind_field [where g = "\<lambda>v. proposal_at v k"])
  qed (simp add: ws_apply_proposal_def)
next
  fix pid actor :: string and w :: world and p :: evolution_proposal
  assume "proposal_at w pid = Some p" "\<not> open_proposal p"
  then show "ws_apply_proposal ev seed now pid actor w = (Inl (ValueError (''proposal is not applyable: '' @ ep_status p)), w)"
    by (simp add: ws_apply_proposal_def proposal_at_def open_proposal_def)
next
  fix pid actor r :: string and w w' :: world
  assume "ws_apply_proposal ev seed now pid actor w = (Inr r, w')"
  then show "\<exists>q. proposal_at w' pid = Some q \<and> ep_status q \<in> closed_status"
    using ws_apply_proposal_once [of ev seed now pid actor w r w'] by (auto simp: proposal_at_def closed_status_def)
qed

subsection \<open>Wiki\<close>

lemma wiki_ops_proposal_at [simp]:
  "proposal_at (snd (append_log env entry actor w)) k = proposal_at w k"
  "proposal_at (snd (compile_wiki env w)) k = proposal_at w k"
  "proposal_at (snd (proposal_change env p actor w)) k = proposal_at w k"
  by (simp_all add: proposal_at_def)

lemma finish_apply_others:
  "k \<noteq> pid \<Longrightarrow> proposal_at (snd (finish_apply env pid p actor before changed w)) k = proposal_at w k"
  unfolding finish_apply_def by (simp add: op_bind_field [where g = "\<lambda>v. proposal_at v k"] proposal_at_put)

lemma finish_apply_closes:
  assumes "finish_apply env pid p actor before changed w = (Inr r, w')" and "proposal_at w pid = Some q"
  shows "\<exists>q. proposal_at w' pid = Some q \<and> ep_status q = ''applied''"
proof -
  let ?entry = "''Applied wiki proposal '' @ pid @ '': '' @ ep_action p @ '' '' @ changed"
  obtain u w1 compiled w2 where w1: "append_log env ?entry actor w = (Inr u, w1)" and w2: "compile_wiki env w1 = (Inr compiled, w2)"
    using assms(1) unfolding finish_apply_def op_bind_Inr by blast
  have at: "proposal_at w2 pid = Some q"
    using wiki_ops_proposal_at(1) [of env ?entry actor w pid] wiki_ops_proposal_at(2) [of env w1 pid] assms(2)
    unfolding w1 w2 by simp
  show ?thesis
    using assms(1) at unfolding finish_apply_def op_bind_def w1 w2 prod.case sum.case
    by (auto simp: proposal_at_put)
qed

interpretation wiki_applier: proposal_applier "wiki_apply_proposal env" for env
proof unfold_locales
  fix k pid actor :: string and w :: world
  assume k: "k \<noteq> pid"
  show "proposal_at (snd (wiki_apply_proposal env pid actor w)) k = proposal_at w k"
  proof (cases rule: wiki_apply_cases [of env pid actor w])
    case (run p)
    show ?thesis unfolding run(5)
      by (simp add: op_bind_field [where g = "\<lambda>v. proposal_at v k"] finish_apply_others [OF k] case_prod_beta)
  qed simp
next
  fix pid actor :: string and w :: world and p :: evolution_proposal
  assume "proposal_at w pid = Some p" "\<not> open_proposal p"
  then show "wiki_apply_proposal env pid actor w = (Inl (ValueError (''proposal is not applyable: '' @ ep_status p)), w)"
    by (simp add: wiki_apply_proposal_def proposal_at_def open_proposal_def)
next
  fix pid actor r :: string and w w' :: world
  assume ok: "wiki_apply_proposal env pid actor w = (Inr r, w')"
  show "\<exists>q. proposal_at w' pid = Some q \<and> ep_status q \<in> closed_status"
  proof (cases rule: wiki_apply_cases [of env pid actor w])
    case (run p)
    obtain x w1 where c: "proposal_change env p actor w = (x, w1)" by fastforce
    then have at: "proposal_at w1 pid = Some p" using wiki_ops_proposal_at(3) [of env p actor w pid] run(1) by (simp add: proposal_at_def)
    obtain before changed where x: "x = Inr (before, changed)" "finish_apply env pid p actor before changed w1 = (Inr r, w')"
      using ok run(5) by (cases x) (auto simp: op_bind_def c)
    then show ?thesis using finish_apply_closes [OF x(2) at] by (auto simp: closed_status_def)
  qed (use ok in simp)
qed

section \<open>Closed proposals stay closed\<close>

lemma evolution_apply_keeps:
  assumes "proposal_at w k = Some p" and "\<not> open_proposal p"
  shows "proposal_at (snd (evolution_apply env pid actor w)) k = Some p"
  using assms(1) skill_applier.closed_kept [OF assms, of _ pid actor] memory_applier.closed_kept [OF assms, of _ pid actor]
    wiki_applier.closed_kept [OF assms, of _ pid actor] workspace_applier.closed_kept [OF assms, of _ _ _ pid actor]
  by (simp add: evolution_apply_def split: option.split)

lemma evolution_apply_refuses:
  assumes "proposal_at w pid = Some p" and "\<not> open_proposal p"
  shows "\<exists>e. evolution_apply env pid actor w = (Inl e, w)"
proof -
  have row: "get_row ep_id pid (evolution_proposals w) = Some p" using assms(1) by (simp add: proposal_at_def)
  show ?thesis
    unfolding evolution_apply_def row option.case
    by (simp add: skill_applier.refuses [OF assms] memory_applier.refuses [OF assms] wiki_applier.refuses [OF assms]
      workspace_applier.refuses [OF assms] split: option.split)
qed

lemma evolution_apply_closes:
  assumes "evolution_apply env pid actor w = (Inr r, w')"
  shows "\<exists>q. proposal_at w' pid = Some q \<and> ep_status q \<in> closed_status"
  using assms skill_applier.closes [of _ pid actor w r w'] memory_applier.closes [of _ pid actor w r w']
    wiki_applier.closes [of _ pid actor w r w'] workspace_applier.closes [of _ _ _ pid actor w r w']
  by (simp add: evolution_apply_def split: option.splits if_splits)

text \<open>A proposal is applied at most once: after a call that returns it is applied, rejected or stale, and every
  further call raises and changes nothing, whichever service is responsible for it.\<close>

theorem evolution_applied_once:
  assumes "evolution_apply env pid actor w = (Inr r, w')"
  shows "\<exists>q. proposal_at w' pid = Some q \<and> ep_status q \<in> {''applied'', ''rejected'', ''stale''}
    \<and> (\<exists>e. evolution_apply env pid actor2 w' = (Inl e, w'))
    \<and> evolution_reject env pid actor2 reason w' = (Inl (ValueError (''proposal is not rejectable: '' @ ep_status q)), w')"
proof -
  obtain q where q: "proposal_at w' pid = Some q" "ep_status q \<in> closed_status" using evolution_apply_closes [OF assms] by blast
  then have c: "\<not> open_proposal q" by (auto simp: open_proposal_def closed_status_def)
  have "evolution_reject env pid actor2 reason w' = (Inl (ValueError (''proposal is not rejectable: '' @ ep_status q)), w')"
    using q(1) c by (simp add: evolution_reject_def proposal_at_def open_proposal_def)
  then show ?thesis using q evolution_apply_refuses [OF q(1) c] by (auto simp: closed_status_def)
qed

definition sample_evolution_env :: evolution_env where
  "sample_evolution_env = \<lparr>eo_events = True, eo_now = 5, eo_skill = sample_skill_env 5, eo_mem = sample_mem_env ''m'' 5,
     eo_wiki = None, eo_workspace = Some None\<rparr>"

theorem evolution_applied_once_witness:
  "let w = empty_world\<lparr>evolution_proposals := [sample_proposal], workspace_fs := [(''SOUL.md'', ''Be kind.'')]\<rparr>;
       w' = snd (evolution_apply sample_evolution_env ''p1'' ''admin'' w)
   in (\<exists>q. proposal_at w' ''p1'' = Some q)
      \<and> (\<exists>e. evolution_apply sample_evolution_env ''p1'' ''admin'' w' = (Inl e, w'))"
proof -
  let ?w = "empty_world\<lparr>evolution_proposals := [sample_proposal], workspace_fs := [(''SOUL.md'', ''Be kind.'')]\<rparr>"
  let ?r = "evolution_apply sample_evolution_env ''p1'' ''admin'' ?w"
  have "fst ?r = Inr ''p1''" by code_simp
  then have r: "?r = (Inr ''p1'', snd ?r)" by (metis prod.collapse)
  show ?thesis using evolution_applied_once [OF r, of "''admin''"] unfolding Let_def by blast
qed

inductive evolution_step :: "world \<Rightarrow> world \<Rightarrow> bool" where
  create: "evolution_step w (snd (create_proposal senv tt a payload evid risk w))"
| apply_p: "evolution_step w (snd (evolution_apply env pid actor w))"
| reject: "evolution_step w (snd (evolution_reject env pid actor reason w))"
| other: "evolution_proposals w' = evolution_proposals w \<Longrightarrow> evolution_step w w'"

lemma create_proposal_appends:
  "create_proposal env tt a payload evid risk w = (x, w1) \<Longrightarrow>
     (\<exists>ps. evolution_proposals w1 = evolution_proposals w @ ps \<and> (\<forall>p. x = Inr p \<longrightarrow> ps = [p]))
     \<and> memories w1 = memories w \<and> tool_runs w1 = tool_runs w \<and> skills_fs w1 = skills_fs w"
  by (auto simp: create_proposal_def Let_def split: sum.splits if_splits)

lemma evolution_step_keeps:
  assumes "evolution_step w w'" and "proposal_at w k = Some p" and "\<not> open_proposal p"
  shows "proposal_at w' k = Some p"
  using assms
proof (induction rule: evolution_step.induct)
  case (create w senv tt a payload evid risk)
  obtain x w1 where c: "create_proposal senv tt a payload evid risk w = (x, w1)" by fastforce
  then show ?case using create_proposal_appends [OF c] create(1) by (auto simp: proposal_at_def get_row_append)
next
  case (apply_p w env pid actor)
  then show ?case by (intro evolution_apply_keeps)
next
  case (reject w env pid actor reason)
  then show ?case
    by (cases "k = pid") (auto simp: evolution_reject_def proposal_at_put open_proposal_def split: option.split
      simp flip: proposal_at_def)
next
  case (other w' w)
  then show ?case by (simp add: proposal_at_def)
qed

interpretation closed_proposal: machine "\<lambda>w. proposal_at w k = Some p \<and> \<not> open_proposal p" evolution_step
  "\<lambda>w. proposal_at w k = Some p \<and> \<not> open_proposal p" for k p
  by unfold_locales (auto intro: evolution_step_keeps)

text \<open>C27: Once a proposal is closed, no sequence of creating, applying and rejecting proposals ever changes its row
  again.\<close>

theorem closed_proposals_final:
  assumes "evolution_step\<^sup>*\<^sup>* w w'" and "proposal_at w k = Some p" and "ep_status p \<notin> {''pending'', ''approved''}"
  shows "proposal_at w' k = Some p"
  using closed_proposal.steps_inv [OF assms(1)] assms(2,3) by (simp add: open_proposal_def)

theorem closed_proposals_final_witness:
  "let p = sample_proposal\<lparr>ep_status := ''applied''\<rparr>; w = empty_world\<lparr>evolution_proposals := [p]\<rparr>
   in proposal_at (snd (evolution_reject sample_evolution_env ''p1'' ''admin'' ''no'' w)) ''p1'' = Some p"
proof -
  let ?p = "sample_proposal\<lparr>ep_status := ''applied''\<rparr>"
  let ?w = "empty_world\<lparr>evolution_proposals := [?p]\<rparr>"
  have 1: "evolution_step\<^sup>*\<^sup>* ?w (snd (evolution_reject sample_evolution_env ''p1'' ''admin'' ''no'' ?w))"
    by (rule r_into_rtranclp) (rule evolution_step.reject)
  have 2: "proposal_at ?w ''p1'' = Some ?p" by (simp add: proposal_at_def sample_proposal_def)
  have 3: "ep_status ?p \<notin> {''pending'', ''approved''}" by simp
  show ?thesis using closed_proposals_final [OF 1 2 3] by (simp only: Let_def)
qed

section \<open>Reviews\<close>

text \<open>What a review leaves alone: it adds proposals only.\<close>

definition adds_proposals :: "world \<Rightarrow> world \<Rightarrow> bool" where
  "adds_proposals w w1 = ((\<exists>ps. evolution_proposals w1 = evolution_proposals w @ ps)
     \<and> memories w1 = memories w \<and> tool_runs w1 = tool_runs w \<and> skills_fs w1 = skills_fs w)"

lemma adds_refl: "adds_proposals w w"
  by (simp add: adds_proposals_def)

lemma adds_trans: "adds_proposals a b \<Longrightarrow> adds_proposals b c \<Longrightarrow> adds_proposals a c"
  by (auto simp: adds_proposals_def)

lemma proposal_exists_mono: "adds_proposals w w1 \<Longrightarrow> proposal_exists key tt w \<Longrightarrow> proposal_exists key tt w1"
  by (auto simp: adds_proposals_def proposal_exists_def)

lemma propose_adds: "adds_proposals w (snd (propose env ids tt a risk payload evid w))"
proof -
  obtain x w1 where "propose env ids tt a risk payload evid w = (x, w1)" by fastforce
  then show ?thesis using create_proposal_appends by (fastforce simp: propose_def adds_proposals_def)
qed

lemma propose_exists:
  assumes "propose env ids tt a risk payload evid w = (Inr p, w1)" and "dget ''dream_group_key'' payload = JStr key"
  shows "proposal_exists key tt w1"
proof -
  have "evolution_proposals w1 = evolution_proposals w @ [p]" "ep_target_type p = tt" "ep_status p = ''pending''"
    "dget ''dream_group_key'' (ep_payload p) = dget ''dream_group_key'' payload"
    using assms(1) by (auto simp: propose_def create_proposal_def Let_def split: sum.splits if_splits)
  then show ?thesis using assms(2) by (simp add: proposal_exists_def)
qed

lemma op_bind_adds:
  assumes "\<And>v. adds_proposals v (snd (m v))" and "\<And>x v. adds_proposals v (snd (f x v))"
  shows "adds_proposals w (snd (op_bind m f w))"
  using assms by (rule op_bind_keeps) (rule adds_trans)

lemma dream_groups_adds: "adds_proposals w (snd (dream_groups env ids gs w))"
proof (induction gs arbitrary: w)
  case (Cons g gs)
  then show ?case
    by (cases g) (simp add: op_bind_adds propose_adds adds_refl)
qed (simp add: adds_refl)

lemma dream_verify_adds: "adds_proposals w (snd (dream_verify env ids ms w))"
  by (induction ms arbitrary: w) (simp_all add: op_bind_adds propose_adds adds_refl Let_def)

lemma dream_groups_exist:
  assumes "dream_groups env ids gs w = (Inr ps, w1)" and "g \<in> set gs"
  shows "proposal_exists (fst g) ''skill'' w1"
  using assms
proof (induction gs arbitrary: w ps)
  case (Cons h gs)
  obtain key e where h: "h = (key, e)" by fastforce
  have later: "adds_proposals v w1" if "dream_groups env ids gs v = (Inr qs, w1)" for v qs
    using dream_groups_adds [of v env ids gs] that by simp
  show ?case
  proof (cases "proposal_exists key ''skill'' w")
    case True
    then have r: "dream_groups env ids gs w = (Inr ps, w1)" using Cons.prems(1) by (simp add: h)
    then show ?thesis using Cons.IH [OF r] Cons.prems(2) proposal_exists_mono [OF later [OF r] True] by (auto simp: h)
  next
    case False
    then obtain a w2 b w3 c w4 qs where
      a: "propose env ids ''skill'' ''upsert'' ''medium'' (dream_skill_payload key e) (evidence_dict e) w = (Inr a, w2)" and
      b: "propose env ids ''memory'' ''create'' ''low'' (dream_memory_payload key e) (evidence_dict e) w2 = (Inr b, w3)" and
      c: "propose env ids ''wiki'' ''append_log'' ''low'' (dream_wiki_payload key) (evidence_dict e) w3 = (Inr c, w4)" and
      r: "dream_groups env ids gs w4 = (Inr qs, w1)"
      using Cons.prems(1) by (auto simp: h op_bind_Inr)
    have "proposal_exists key ''skill'' w2"
      by (rule propose_exists [OF a]) (simp add: dream_skill_payload_def dget_def)
    moreover have "adds_proposals w2 w4"
      using adds_trans propose_adds [of w2 env ids "''memory''" "''create''" "''low''" "dream_memory_payload key e" "evidence_dict e"]
        propose_adds [of w3 env ids "''wiki''" "''append_log''" "''low''" "dream_wiki_payload key" "evidence_dict e"] b c
      by (metis snd_conv)
    ultimately have "proposal_exists key ''skill'' w1" using adds_trans [OF _ later [OF r]] proposal_exists_mono by blast
    then show ?thesis using Cons.IH [OF r] Cons.prems(2) by (auto simp: h)
  qed
qed simp

lemma dream_groups_done:
  "(\<And>g. g \<in> set gs \<Longrightarrow> proposal_exists (fst g) ''skill'' w) \<Longrightarrow> dream_groups env ids gs w = (Inr [], w)"
proof (induction gs)
  case (Cons g gs)
  then show ?case by (cases g) fastforce
qed simp

lemma dream_verify_exist:
  assumes "dream_verify env ids ms w = (Inr ps, w1)" and "m \<in> set ms"
  shows "proposal_exists (verify_key m) ''memory'' w1"
  using assms
proof (induction ms arbitrary: w ps)
  case (Cons h ms)
  let ?key = "verify_key h"
  have later: "adds_proposals v w1" if "dream_verify env ids ms v = (Inr qs, w1)" for v qs
    using dream_verify_adds [of v env ids ms] that by simp
  show ?case
  proof (cases "proposal_exists ?key ''memory'' w")
    case True
    then have r: "dream_verify env ids ms w = (Inr ps, w1)" using Cons.prems(1) by simp
    then show ?thesis using Cons.IH [OF r] Cons.prems(2) proposal_exists_mono [OF later [OF r] True] by auto
  next
    case False
    then obtain p w2 qs where
      p: "propose env ids ''memory'' ''verify'' ''low'' (verify_payload h) (verify_evidence h) w = (Inr p, w2)" and
      r: "dream_verify env ids ms w2 = (Inr qs, w1)"
      using Cons.prems(1) by (auto simp: op_bind_Inr)
    have "proposal_exists ?key ''memory'' w2" by (rule propose_exists [OF p]) (simp add: verify_payload_def dget_def)
    then show ?thesis using Cons.IH [OF r] Cons.prems(2) proposal_exists_mono [OF later [OF r]] by auto
  qed
qed simp

lemma dream_verify_done:
  "(\<And>m. m \<in> set ms \<Longrightarrow> proposal_exists (verify_key m) ''memory'' w) \<Longrightarrow> dream_verify env ids ms w = (Inr [], w)"
  by (induction ms) (simp_all add: Let_def)

text \<open>A dream review only adds proposals: it changes no memory and writes no skill file. Running it again on
  the same evidence adds none.\<close>

theorem dream_review_idempotent:
  assumes "run_review env ids hours limit w = (Inr r, w')"
  shows "adds_proposals w w' \<and> skills_fs w' = skills_fs w \<and> memories w' = memories w
    \<and> (\<exists>r2 w2. run_review env ids2 hours limit w' = (Inr r2, w2) \<and> dr_proposals_created r2 = 0
         \<and> evolution_proposals w2 = evolution_proposals w')"
proof -
  define since where "since = sv_now env - 3600 * of_int (max 1 (min hours (24 * 30)))"
  define gs where "gs v = group_evidence (recent_error_memories since limit v) (recent_failed_tool_runs since limit v)" for v
  define ls where "ls v = low_stability_memories since limit v" for v
  define res where "res v ps qs = \<lparr>dr_scanned_memories = int (length (recent_error_memories since limit v)),
      dr_failed_tool_runs = int (length (recent_failed_tool_runs since limit v)),
      dr_proposals_created = int (length (ps @ qs)), dr_proposal_ids = map ep_id (ps @ qs)\<rparr>"
    for v and ps qs :: "evolution_proposal list"
  have run: "run_review env i hours limit v = op_bind (dream_groups env i (gs v)) (\<lambda>ps w1.
      op_bind (dream_verify env i (ls w1)) (\<lambda>qs w2. (Inr (res v ps qs),
        emit True ''dream.review.completed'' (dream_dict (res v ps qs)) w2)) w1) v" for i v
    by (simp only: run_review_def Let_def since_def gs_def ls_def res_def)
  obtain ps w1 qs w2 where g: "dream_groups env ids (gs w) w = (Inr ps, w1)" and v: "dream_verify env ids (ls w1) w1 = (Inr qs, w2)"
    and w': "w' = emit True ''dream.review.completed'' (dream_dict (res w ps qs)) w2"
    using assms unfolding run op_bind_Inr by blast
  have a1: "adds_proposals w w1" using dream_groups_adds [of w env ids "gs w"] g by simp
  have a2: "adds_proposals w1 w2" using dream_verify_adds [of w1 env ids "ls w1"] v by simp
  have a3: "adds_proposals w2 w'" using w' by (auto simp: adds_proposals_def)
  have all: "adds_proposals w w'" using adds_trans [OF adds_trans [OF a1 a2] a3] .
  have same: "gs w' = gs w" "ls w' = ls w1"
    using all adds_trans [OF a2 a3]
    by (simp_all add: adds_proposals_def gs_def ls_def recent_error_memories_def recent_failed_tool_runs_def low_stability_memories_def)
  have "dream_groups env ids2 (gs w') w' = (Inr [], w')"
    using dream_groups_exist [OF g] proposal_exists_mono [OF adds_trans [OF a2 a3]] by (intro dream_groups_done) (simp add: same)
  moreover have "dream_verify env ids2 (ls w') w' = (Inr [], w')"
    using dream_verify_exist [OF v] proposal_exists_mono [OF a3] by (intro dream_verify_done) (simp add: same)
  ultimately have "\<exists>r2 w2. run_review env ids2 hours limit w' = (Inr r2, w2) \<and> dr_proposals_created r2 = 0
      \<and> evolution_proposals w2 = evolution_proposals w'"
    by (simp add: run op_bind_def) (simp add: res_def)
  then show ?thesis using all by (auto simp: adds_proposals_def)
qed

definition weak_memory :: memory where
  "weak_memory = (sample_memory ''e1'' ''disk full'')\<lparr>me_stability := 1 / 5\<rparr>"

theorem dream_review_idempotent_witness:
  "let w = empty_world\<lparr>memories := [weak_memory]\<rparr>;
       (x, w') = run_review (sample_skill_env 9) (\<lambda>n. replicate n CHR ''p'') 24 50 w
   in (\<exists>r. x = Inr r \<and> dr_proposals_created r = 1)
      \<and> (\<exists>r2 w2. run_review (sample_skill_env 9) (\<lambda>n. ''q'') 24 50 w' = (Inr r2, w2) \<and> dr_proposals_created r2 = 0)"
proof -
  let ?w = "empty_world\<lparr>memories := [weak_memory]\<rparr>"
  obtain x w' where s: "run_review (sample_skill_env 9) (\<lambda>n. replicate n CHR ''p'') 24 50 ?w = (x, w')" by fastforce
  have "map_sum id dr_proposals_created (fst (run_review (sample_skill_env 9) (\<lambda>n. replicate n CHR ''p'') 24 50 ?w)) = Inr 1"
    by code_simp
  then obtain r where r: "x = Inr r" "dr_proposals_created r = 1" by (cases x) (auto simp: s)
  have "\<exists>r2 w2. run_review (sample_skill_env 9) (\<lambda>n. ''q'') 24 50 w' = (Inr r2, w2) \<and> dr_proposals_created r2 = 0"
    using dream_review_idempotent [OF s [unfolded r(1)], of "\<lambda>n. ''q''"] by blast
  then show ?thesis using r unfolding Let_def s prod.case by blast
qed

text \<open>A memory whose stability has fallen to exactly 0 is never proposed for verification.\<close>

lemma zero_stability_skipped: "m \<in> set (low_stability_memories since limit w) \<Longrightarrow> me_stability m \<noteq> 0"
  by (auto simp: low_stability_memories_def)

text \<open>Applying the proposal of a heartbeat review turns its two bullets into active tasks of the next review.\<close>

lemma heartbeat_feeds_itself:
  "map_sum id (\<lambda>c. heartbeat_lines False (splitlines c))
     (proposal_content ''append_file'' (heartbeat_payload 1 ''water'') (''## Active Tasks'' @ [newline] @ ''- water''))
   = (Inr [''water'', ''Reviewed active task 1: water'', ''Status: pending human review.''] :: exc + string list)"
  by code_simp

text \<open>The heartbeat makes one proposal per active task, all pending, and none when there is no task.\<close>

lemma heartbeat_proposals_count:
  "heartbeat_proposals env ids i tasks w = (Inr ps, w1) \<Longrightarrow>
     length ps = length tasks \<and> (\<exists>qs. evolution_proposals w1 = evolution_proposals w @ qs \<and> map ep_id qs = ps
       \<and> (\<forall>q \<in> set qs. ep_status q = ''pending'' \<and> ep_target_type q = ''heartbeat''))"
proof (induction env ids i tasks w arbitrary: ps rule: heartbeat_proposals.induct)
  case (2 env ids i task rest w)
  then obtain p v qs where
    c: "create_proposal (env\<lparr>sv_new_id := ids i\<rparr>) ''heartbeat'' ''append_file'' (heartbeat_payload i task)
         [(''heartbeat_task'', JStr task), (''source'', JStr ''HEARTBEAT.md'')] ''low'' w = (Inr p, v)"
    and r: "heartbeat_proposals env ids (i + 1) rest v = (Inr qs, w1)" and ps: "ps = ep_id p # qs"
    by (auto simp: op_bind_Inr)
  have p: "evolution_proposals v = evolution_proposals w @ [p]" "ep_status p = ''pending''" "ep_target_type p = ''heartbeat''"
    using c by (auto simp: create_proposal_def Let_def)
  obtain rs where "length qs = length rest" "evolution_proposals w1 = evolution_proposals v @ rs" "map ep_id rs = qs"
    "\<forall>q \<in> set rs. ep_status q = ''pending'' \<and> ep_target_type q = ''heartbeat''" using 2(1) [OF r] by blast
  then show ?case using p by (intro conjI exI [of _ "p # rs"]) (auto simp: ps)
qed simp

text \<open>The check never raises: reading the heartbeat file and creating a proposal that is not about a skill cannot
  fail. It reports exactly the proposals it added, one per active task.\<close>

lemma heartbeat_proposals_total:
  "\<exists>ps w1. heartbeat_proposals env ids i tasks w = (Inr ps, w1) \<and> background_jobs w1 = background_jobs w"
proof (induction env ids i tasks w rule: heartbeat_proposals.induct)
  case (2 env ids i task rest w)
  obtain p v where
    c: "create_proposal (env\<lparr>sv_new_id := ids i\<rparr>) ''heartbeat'' ''append_file'' (heartbeat_payload i task)
         [(''heartbeat_task'', JStr task), (''source'', JStr ''HEARTBEAT.md'')] ''low'' w = (Inr p, v)"
    "background_jobs v = background_jobs w"
    by (simp add: create_proposal_def Let_def)
  then show ?case using 2 [of v] by (fastforce simp: op_bind_def)
qed simp

lemma active_tasks_read:
  "\<exists>tasks w1. active_heartbeat_tasks seed w = (Inr tasks, w1) \<and> background_jobs w1 = background_jobs w
     \<and> evolution_proposals w1 = evolution_proposals w"
proof -
  have "path_for ''heartbeat'' = Inr ''HEARTBEAT.md''" by code_simp
  then show ?thesis by (simp add: active_heartbeat_tasks_def ws_read_def op_bind_def ensure_files_def Let_def)
qed

lemma run_check_outcome:
  "\<exists>r w' qs. run_check env seed ids w = (Inr r, w') \<and> background_jobs w' = background_jobs w
     \<and> evolution_proposals w' = evolution_proposals w @ qs
     \<and> (\<forall>q \<in> set qs. ep_status q = ''pending'' \<and> ep_target_type q = ''heartbeat'')
     \<and> hb_active_tasks r = int (length qs) \<and> hb_proposals_created r = int (length qs)
     \<and> hb_proposal_ids r = map ep_id qs"
proof -
  obtain tasks w0 where t: "active_heartbeat_tasks seed w = (Inr tasks, w0)" "background_jobs w0 = background_jobs w"
    "evolution_proposals w0 = evolution_proposals w" using active_tasks_read by blast
  have ef: "background_jobs (ensure_files seed v) = background_jobs v"
    "evolution_proposals (ensure_files seed v) = evolution_proposals v" for v by (simp_all add: ensure_files_def)
  have ah: "background_jobs (append_history seed n e v) = background_jobs v"
    "evolution_proposals (append_history seed n e v) = evolution_proposals v" for n e v
    by (simp_all add: append_history_def Let_def ef)
  show ?thesis
  proof (cases "tasks = []")
    case True
    then show ?thesis by (simp add: run_check_def op_bind_def t ef ah)
  next
    case False
    obtain ps w1 where p: "heartbeat_proposals env ids (Suc 0) tasks w0 = (Inr ps, w1)"
      "background_jobs w1 = background_jobs w0" using heartbeat_proposals_total by blast
    obtain qs where q: "length ps = length tasks" "evolution_proposals w1 = evolution_proposals w @ qs" "map ep_id qs = ps"
      "\<forall>q \<in> set qs. ep_status q = ''pending'' \<and> ep_target_type q = ''heartbeat''"
      using heartbeat_proposals_count [OF p(1)] t(3) by auto
    have "length qs = length tasks" using q(1,3) by (metis length_map)
    then show ?thesis using False p(2) q by (simp add: run_check_def op_bind_def t p(1) ef ah Let_def)
  qed
qed

end
