(* ===== verification/Serializers.thy ===== *)
theory Serializers
  imports Skills Tools Clock
begin

text \<open>
  The response dictionaries of \<open>backend/api/admin/serializers.py\<close>, one function per entity.

  The columns that \<open>Models\<close> leaves out (surrogate keys and time stamps no modelled code reads) are looked up in
  \<open>hidden_columns\<close>, by table, column and key of the row. A column that is never \<open>None\<close> makes \<open>x or default\<close> the value itself; only
  \<open>max_attempts\<close> has a default that differs from the empty value.
\<close>

record hidden_columns =
  hc_id :: "string \<Rightarrow> string \<Rightarrow> uuid"
  hc_time :: "string \<Rightarrow> string \<Rightarrow> string \<Rightarrow> instant option"

definition dt :: "instant option \<Rightarrow> json" where
  "dt value = opt_json (\<lambda>t. JStr (isoformat t)) value"

abbreviation dtime :: "instant \<Rightarrow> json" where
  "dtime t \<equiv> JStr (isoformat t)"

definition wiki_page_to_dict :: "hidden_columns \<Rightarrow> wiki_page \<Rightarrow> dict" where
  "wiki_page_to_dict hc p =
     [(''id'', JStr (hc_id hc ''wiki_pages'' (wpg_key p))), (''page_key'', JStr (wpg_key p)), (''title'', JStr (wpg_title p)),
      (''page_type'', JStr (wpg_type p)), (''path'', JStr (wpg_path p)), (''summary'', JStr (wpg_summary p)),
      (''aliases'', strs (wpg_aliases p)), (''tags'', strs (wpg_tags p)), (''confidence'', JFloat (max 0 (min 1 (wpg_confidence p)))),
      (''claims'', JList (map JObj (wpg_claims p))), (''source_refs'', JList (map JObj (wpg_source_refs p))),
      (''stale_after'', dt (wpg_stale_after p)), (''metadata'', JObj (wpg_metadata p)),
      (''updated_at'', dt (hc_time hc ''wiki_pages'' ''updated_at'' (wpg_key p)))]"

definition wiki_error_to_dict :: "wiki_error \<Rightarrow> dict" where
  "wiki_error_to_dict e =
     [(''id'', JStr (we_id e)), (''error_type'', JStr (we_type e)), (''page_key'', JStr (we_page_key e)),
      (''root_cause'', JStr (we_root_cause e)), (''constraint'', JStr (we_constraint e)), (''constraint_rule'', JStr (we_constraint_rule e)),
      (''verification_method'', JStr (we_verification e)), (''source_refs'', JList (we_source_refs e)),
      (''lifecycle_status'', JStr (we_lifecycle e)), (''status'', JStr (we_status e)), (''payload'', JObj (we_payload e)),
      (''created_at'', dtime (we_created_at e)), (''fixed_at'', dt (we_fixed_at e))]"

definition memory_to_dict :: "hidden_columns \<Rightarrow> memory \<Rightarrow> dict" where
  "memory_to_dict hc m =
     [(''id'', JStr (me_id m)), (''kind'', JStr (me_kind m)), (''content'', JStr (me_content m)), (''source'', JStr (me_source m)),
      (''status'', JStr (me_status m)), (''pinned'', JBool (me_pinned m)), (''archived'', JBool (me_archived m)),
      (''importance'', JFloat (me_importance m)), (''confidence'', JFloat (me_confidence m)), (''stability'', JFloat (me_stability m)),
      (''supersedes_id'', opt_json JStr (me_supersedes_id m)), (''superseded_by'', opt_json JStr (me_superseded_by m)),
      (''source_turn_id'', JStr (me_source_turn_id m)), (''source_file_marker'', JStr (me_source_file_marker m)),
      (''valid_from'', dt (hc_time hc ''memories'' ''valid_from'' (me_id m))), (''valid_to'', dt (me_valid_to m)),
      (''provenance'', JObj (me_provenance m)), (''metadata'', JObj (me_metadata m)), (''created_at'', dtime (me_created_at m)),
      (''updated_at'', dtime (me_updated_at m)), (''last_verified_at'', dt (me_last_verified_at m))]"

definition conflict_to_dict :: "hidden_columns \<Rightarrow> memory_conflict \<Rightarrow> dict" where
  "conflict_to_dict hc c = (let key = mc_left c @ '':'' @ mc_right c in
     [(''id'', JStr (hc_id hc ''memory_conflicts'' key)), (''left_memory_id'', JStr (mc_left c)), (''right_memory_id'', JStr (mc_right c)),
      (''status'', JStr (mc_status c)), (''reason'', JStr (mc_reason c)), (''created_at'', dtime (mc_created_at c)),
      (''resolved_at'', dt (hc_time hc ''memory_conflicts'' ''resolved_at'' key))])"

definition probe_to_dict :: "hidden_columns \<Rightarrow> memory_probe \<Rightarrow> dict" where
  "probe_to_dict hc p =
     [(''id'', JStr (mp_id p)), (''question'', JStr (mp_question p)), (''expected'', JStr (mp_expected p)), (''status'', JStr (mp_status p)),
      (''last_result'', JObj (mp_last_result p)), (''created_at'', dtime (mp_created_at p)),
      (''last_run_at'', dt (hc_time hc ''memory_probes'' ''last_run_at'' (mp_id p)))]"

definition memory_history_to_dict :: "memory_history \<Rightarrow> dict" where
  "memory_history_to_dict h =
     [(''id'', JStr (mh_id h)), (''memory_id'', opt_json JStr (mh_memory_id h)), (''action'', JStr (mh_action h)),
      (''before_snapshot'', JObj (mh_before h)), (''after_snapshot'', JObj (mh_after h)), (''actor'', JStr (mh_actor h)),
      (''created_at'', dtime (mh_created_at h))]"

definition session_message_to_dict :: "session_message \<Rightarrow> dict" where
  "session_message_to_dict m =
     [(''id'', JStr (sm_id m)), (''session_id'', JStr (sm_session_id m)), (''turn_id'', JStr (sm_turn_id m)), (''role'', JStr (sm_role m)),
      (''content'', JStr (sm_content m)), (''metadata'', JObj (sm_metadata m)), (''created_at'', dtime (sm_created_at m))]"

definition session_summary_to_dict :: "hidden_columns \<Rightarrow> session_summary option \<Rightarrow> json" where
  "session_summary_to_dict hc s = (case s of None \<Rightarrow> JNull | Some x \<Rightarrow> JObj
     [(''id'', JStr (ss_id x)), (''session_id'', JStr (ss_session_id x)), (''summary'', JStr (ss_summary x)),
      (''summarized_message_count'', JInt (ss_count x)), (''metadata'', JObj (ss_metadata x)),
      (''created_at'', dt (hc_time hc ''session_summaries'' ''created_at'' (ss_id x))),
      (''updated_at'', dt (hc_time hc ''session_summaries'' ''updated_at'' (ss_id x)))])"

definition skill_to_dict :: "hidden_columns \<Rightarrow> skill \<Rightarrow> dict" where
  "skill_to_dict hc s =
     [(''id'', JStr (hc_id hc ''skills'' (skl_key s))), (''skill_key'', JStr (skl_key s)), (''name'', JStr (skl_name s)),
      (''description'', JStr (skl_description s)), (''path'', JStr (skl_path s)), (''status'', JStr (skl_status s)),
      (''pinned'', JBool (skl_pinned s)), (''metadata'', JObj (skl_metadata s)),
      (''created_at'', dt (hc_time hc ''skills'' ''created_at'' (skl_key s))),
      (''updated_at'', dt (hc_time hc ''skills'' ''updated_at'' (skl_key s)))]"

definition skill_file_to_dict :: "hidden_columns \<Rightarrow> skill_file \<Rightarrow> dict" where
  "skill_file_to_dict hc f = (let key = skf_key f @ ''/'' @ skf_path f in
     [(''id'', JStr (hc_id hc ''skill_files'' key)), (''skill_key'', JStr (skf_key f)), (''file_path'', JStr (skf_path f)),
      (''checksum'', JStr (skf_checksum f)), (''content'', JStr (skf_content f)),
      (''updated_at'', dt (hc_time hc ''skill_files'' ''updated_at'' key))])"

definition proposal_to_dict :: "hidden_columns \<Rightarrow> evolution_proposal \<Rightarrow> dict" where
  "proposal_to_dict hc p =
     [(''id'', JStr (ep_id p)), (''target_type'', JStr (ep_target_type p)), (''action'', JStr (ep_action p)), (''status'', JStr (ep_status p)),
      (''risk_level'', JStr (ep_risk_level p)), (''payload'', JObj (ep_payload p)), (''evidence'', JObj (ep_evidence p)),
      (''before_snapshot'', JObj (ep_before_snapshot p)), (''after_snapshot'', JObj (ep_after_snapshot p)), (''result'', JObj (ep_result p)),
      (''target_checksum'', JStr (ep_target_checksum p)), (''stale_reason'', JStr (ep_stale_reason p)),
      (''created_at'', dtime (ep_created_at p)), (''updated_at'', dt (hc_time hc ''evolution_proposals'' ''updated_at'' (ep_id p))),
      (''applied_at'', dt (ep_applied_at p))]"

definition background_job_to_dict :: "bg_job \<Rightarrow> dict" where
  "background_job_to_dict j =
     [(''id'', JStr (job_id j)), (''trace_id'', JStr (job_trace_id j)), (''request_id'', JStr (job_request_id j)),
      (''task_name'', JStr (job_task_name j)), (''queue_id'', JStr (job_queue_id j)), (''status'', JStr (job_status j)),
      (''idempotency_key'', JStr (job_idempotency_key j)), (''payload'', JObj (job_payload j)), (''result'', JObj (job_result j)),
      (''error'', JStr (job_error j)), (''triggered_by'', JStr (job_triggered_by j)), (''cron_job_id'', opt_json JStr (job_cron_job_id j)),
      (''attempt_count'', JInt (job_attempt_count j)), (''max_attempts'', JInt (if job_max_attempts j = 0 then 3 else job_max_attempts j)),
      (''next_retry_at'', dt (job_next_retry_at j)), (''locked_at'', dt (job_locked_at j)), (''lock_owner'', JStr (job_lock_owner j)),
      (''dead_letter_reason'', JStr (job_dead_letter_reason j)), (''created_at'', dtime (job_created_at j)),
      (''started_at'', dt (job_started_at j)), (''finished_at'', dt (job_finished_at j))]"

definition runtime_event_to_dict :: "uuid \<Rightarrow> instant \<Rightarrow> runtime_event \<Rightarrow> dict" where
  "runtime_event_to_dict i created e =
     [(''id'', JStr i), (''trace_id'', JStr (re_trace_id e)), (''request_id'', JStr (re_request_id e)),
      (''event_type'', JStr (re_event_type e)), (''severity'', JStr (re_severity e)), (''session_id'', JStr (re_session_id e)),
      (''turn_id'', JStr (re_turn_id e)), (''payload'', JObj (re_payload e)), (''created_at'', dtime created)]"

definition audit_event_to_dict :: "uuid \<Rightarrow> uuid option \<Rightarrow> instant \<Rightarrow> audit_event \<Rightarrow> dict" where
  "audit_event_to_dict i actor created e =
     [(''id'', JStr i), (''trace_id'', JStr (ae_trace_id e)), (''request_id'', JStr (ae_request_id e)), (''actor_id'', opt_json JStr actor),
      (''action'', JStr (ae_action e)), (''target_type'', JStr (ae_target_type e)), (''target_id'', JStr (ae_target_id e)),
      (''payload'', JObj (ae_payload e)), (''created_at'', dtime created)]"

definition approval_to_dict :: "approval \<Rightarrow> dict" where
  "approval_to_dict a =
     [(''id'', JStr (ap_id a)), (''status'', JStr (ap_status a)), (''subject_type'', JStr (ap_subject_type a)),
      (''subject_id'', JStr (ap_subject_id a)), (''payload'', JObj (ap_payload a)), (''turn_checkpoint'', JObj (ap_turn_checkpoint a)),
      (''original_tool_call'', JObj (ap_original_tool_call a)), (''allowed_decisions'', strs (ap_allowed_decisions a)),
      (''edited_arguments'', JObj (ap_edited_arguments a)), (''resume_state'', JObj (ap_resume_state a)),
      (''created_at'', dtime (ap_created_at a)), (''resolved_at'', dt (ap_resolved_at a))]"

definition tool_run_to_dict :: "tool_run \<Rightarrow> dict" where
  "tool_run_to_dict r =
     [(''id'', JStr (tr_id r)), (''turn_id'', JStr (tr_turn_id r)), (''tool_name'', JStr (tr_tool_name r)), (''status'', JStr (tr_status r)),
      (''arguments'', JObj (tr_arguments r)), (''result'', JObj (tr_result r)), (''started_at'', dtime (tr_started_at r)),
      (''finished_at'', dt (tr_finished_at r))]"

definition cron_job_to_dict :: "hidden_columns \<Rightarrow> cron_job \<Rightarrow> dict" where
  "cron_job_to_dict hc c =
     [(''id'', JStr (cj_id c)), (''name'', JStr (cj_name c)), (''cron_expr'', JStr (cj_cron_expr c)), (''timezone'', JStr (cj_timezone c)),
      (''instruction'', JStr (cj_instruction c)), (''enabled'', JBool (cj_enabled c)), (''last_run_at'', dt (cj_last_run_at c)),
      (''next_run_at'', dt (cj_next_run_at c)), (''backoff_until'', dt (cj_backoff_until c)), (''last_status'', JStr (cj_last_status c)),
      (''last_result'', JObj (cj_last_result c)), (''run_count'', JInt (cj_run_count c)), (''failure_count'', JInt (cj_failure_count c)),
      (''last_enqueue_key'', JStr (cj_last_enqueue_key c)), (''metadata'', JObj (cj_metadata c)),
      (''created_at'', dt (hc_time hc ''cron_jobs'' ''created_at'' (cj_id c))),
      (''updated_at'', dt (hc_time hc ''cron_jobs'' ''updated_at'' (cj_id c)))]"

definition mcp_server_to_dict :: "hidden_columns \<Rightarrow> mcp_server \<Rightarrow> dict" where
  "mcp_server_to_dict hc s =
     [(''id'', JStr (hc_id hc ''mcp_servers'' (mcp_name s))), (''name'', JStr (mcp_name s)), (''transport'', JStr (mcp_transport s)),
      (''command'', JStr (mcp_command s)), (''url'', JStr (mcp_url s)), (''config'', JObj (mcp_config s)),
      (''config_source'', JStr (mcp_config_source s)), (''permission_policy'', JObj (mcp_permission_policy s)),
      (''session_mode'', JStr (mcp_session_mode s)), (''health_status'', JStr (mcp_health_status s)),
      (''last_imported_checksum'', JStr (mcp_last_imported_checksum s)), (''enabled'', JBool (mcp_enabled s)), (''status'', JStr (mcp_status s)),
      (''last_connected_at'', dt (mcp_last_connected_at s)), (''last_error'', JStr (mcp_last_error s)), (''tool_count'', JInt (mcp_tool_count s)),
      (''tools_cache'', JList (map JObj (mcp_tools_cache s))),
      (''created_at'', dt (hc_time hc ''mcp_servers'' ''created_at'' (mcp_name s))),
      (''updated_at'', dt (hc_time hc ''mcp_servers'' ''updated_at'' (mcp_name s)))]"

definition gateway_to_dict :: "hidden_columns \<Rightarrow> gateway_connection \<Rightarrow> dict" where
  "gateway_to_dict hc g =
     [(''id'', JStr (hc_id hc ''gateway_connections'' (gw_name g))), (''name'', JStr (gw_name g)), (''kind'', JStr (gw_kind g)),
      (''status'', JStr (gw_status g)), (''endpoint'', JStr (gw_endpoint g)), (''config'', JObj (gw_config g)),
      (''enabled'', JBool (gw_enabled g)), (''last_inbound_at'', dt (gw_last_inbound_at g)), (''last_outbound_at'', dt (gw_last_outbound_at g)),
      (''last_heartbeat_at'', dt (gw_last_heartbeat_at g)), (''instance_id'', JStr (gw_instance_id g)), (''version'', JStr (gw_version g)),
      (''capabilities'', strs (gw_capabilities g)), (''last_error'', JStr (gw_last_error g)), (''inbound_count'', JInt (gw_inbound_count g)),
      (''outbound_count'', JInt (gw_outbound_count g)), (''failure_count'', JInt (gw_failure_count g)),
      (''created_at'', dt (hc_time hc ''gateway_connections'' ''created_at'' (gw_name g))),
      (''updated_at'', dt (hc_time hc ''gateway_connections'' ''updated_at'' (gw_name g)))]"

definition a2a_connection_to_dict :: "hidden_columns \<Rightarrow> a2a_connection \<Rightarrow> dict" where
  "a2a_connection_to_dict hc c =
     [(''id'', JStr (hc_id hc ''a2a_connections'' (ac_name c))), (''name'', JStr (ac_name c)), (''kind'', JStr (ac_kind c)),
      (''endpoint'', JStr (ac_endpoint c)), (''rpc_url'', JStr (ac_rpc_url c)), (''agent_card'', JObj (ac_agent_card c)),
      (''config'', JObj (ac_config c)), (''enabled'', JBool (ac_enabled c)), (''status'', JStr (ac_status c)),
      (''capabilities'', strs (ac_capabilities c)), (''skills'', JList (map JObj (ac_skills c))),
      (''last_discovered_at'', dt (ac_last_discovered_at c)), (''last_error'', JStr (ac_last_error c)),
      (''created_at'', dt (hc_time hc ''a2a_connections'' ''created_at'' (ac_name c))),
      (''updated_at'', dt (hc_time hc ''a2a_connections'' ''updated_at'' (ac_name c)))]"

definition a2a_artifact_to_dict :: "hidden_columns \<Rightarrow> a2a_artifact \<Rightarrow> dict" where
  "a2a_artifact_to_dict hc a =
     [(''id'', JStr (hc_id hc ''a2a_artifacts'' (aa_artifact_id a))), (''task_id'', JStr (aa_task_id a)),
      (''artifact_id'', JStr (aa_artifact_id a)), (''name'', JStr (aa_name a)), (''mime_type'', JStr (aa_mime_type a)),
      (''uri'', JStr (aa_uri a)), (''content'', JStr (aa_content a)), (''parts'', JList (aa_parts a)), (''metadata'', JObj (aa_metadata a)),
      (''created_at'', dtime (aa_created_at a))]"

definition a2a_event_to_dict :: "hidden_columns \<Rightarrow> a2a_event \<Rightarrow> dict" where
  "a2a_event_to_dict hc e = (let key = av_task_id e @ '':'' @ int_str (av_sequence e) in
     [(''id'', JStr (hc_id hc ''a2a_events'' key)), (''task_id'', JStr (av_task_id e)), (''event_type'', JStr (av_event_type e)),
      (''sequence'', JInt (av_sequence e)), (''payload'', JObj (av_payload e)),
      (''created_at'', dt (hc_time hc ''a2a_events'' ''created_at'' key))])"

definition a2a_task_to_dict :: "hidden_columns \<Rightarrow> a2a_artifact list option \<Rightarrow> a2a_event list option \<Rightarrow> a2a_task \<Rightarrow> dict" where
  "a2a_task_to_dict hc artifacts events t =
     [(''id'', JStr (hc_id hc ''a2a_tasks'' (at_task_id t))), (''task_id'', JStr (at_task_id t)),
      (''connection_name'', JStr (at_connection_name t)), (''capability'', JStr (at_capability t)), (''context_id'', JStr (at_context_id t)),
      (''remote_task_id'', JStr (at_remote_task_id t)), (''remote_context_id'', JStr (at_remote_context_id t)),
      (''status'', JStr (at_status t)), (''input_text'', JStr (at_input_text t)), (''result'', JObj (at_result t)),
      (''error'', JStr (at_error t)), (''metadata'', JObj (at_metadata t)), (''started_at'', dt (at_started_at t)),
      (''finished_at'', dt (at_finished_at t)), (''created_at'', dtime (at_created_at t)),
      (''updated_at'', dt (hc_time hc ''a2a_tasks'' ''updated_at'' (at_task_id t))),
      (''artifacts'', opt_json (\<lambda>xs. JList (map (JObj \<circ> a2a_artifact_to_dict hc) xs)) artifacts),
      (''events'', opt_json (\<lambda>xs. JList (map (JObj \<circ> a2a_event_to_dict hc) xs)) events)]"

definition tool_definition_to_dict :: "tool_definition \<Rightarrow> dict" where
  "tool_definition_to_dict t =
     [(''name'', JStr (td_name t)), (''description'', JStr (td_description t)), (''scope'', JStr (td_scope t)),
      (''requires_approval'', JBool (td_requires_approval t)), (''available'', JBool (td_available t)),
      (''parameters'', JObj (td_parameters t))]"

text \<open>\<open>_outbox_to_dict\<close> of \<open>backend/api/admin/platform.py\<close>.\<close>

definition outbox_to_dict :: "outbox_message \<Rightarrow> dict" where
  "outbox_to_dict m =
     [(''id'', JStr (ob_id m)), (''trace_id'', JStr (ob_trace_id m)), (''request_id'', JStr (ob_request_id m)), (''topic'', JStr (ob_topic m)),
      (''aggregate_type'', JStr (ob_aggregate_type m)), (''aggregate_id'', JStr (ob_aggregate_id m)),
      (''idempotency_key'', JStr (ob_idempotency_key m)), (''status'', JStr (ob_status m)), (''attempt_count'', JInt (ob_attempt_count m)),
      (''max_attempts'', JInt (ob_max_attempts m)), (''next_attempt_at'', dt (ob_next_attempt_at m)), (''last_error'', JStr (ob_last_error m)),
      (''payload'', JObj (ob_payload m)), (''created_at'', dtime (ob_created_at m)), (''dispatched_at'', dt (ob_dispatched_at m))]"

end
