(* ===== verification/Admin.thy ===== *)
theory Admin
  imports Agent Security Evolution Serializers
begin

text \<open>
  The admin API: the routes of \<open>backend/api/admin/control.py\<close>, \<open>platform.py\<close>, \<open>tools.py\<close> and \<open>dream.py\<close>, and the request
  around them, \<open>get_db\<close> and \<open>get_current_user\<close> of \<open>deps.py\<close>.

  A route is a function from the world to an HTTP error or a response and a new world. The request's database session commits when the
  route returns and rolls back when it raises, \<open>HTTPException\<close> included; the event bus is bound to that session, and the files
  are not part of it. The arguments of a route are the validated path, query and body; \<open>admin_env\<close> holds what
  the services get from outside. The routes of MCP and of outgoing gateway messages work on the state of the
  resilience manager, whose circuits are kept in memory.
\<close>

section \<open>Requests\<close>

type_synonym 'a route = "world \<Rightarrow> (api_error + 'a) \<times> world"

record admin_env =
  aq_jwt :: jwt_library
  aq_security :: security_settings
  aq_agent :: agent_env
  aq_evolution :: "world \<Rightarrow> evolution_env"
  aq_hidden :: hidden_columns
  aq_cron_valid :: "string \<Rightarrow> bool"
  aq_zone :: "string \<Rightarrow> exc + unit"
  aq_croniter :: "string \<Rightarrow> string \<Rightarrow> instant \<Rightarrow> exc + instant"
  aq_sha :: "string \<Rightarrow> string"
  aq_new_id :: "world \<Rightarrow> uuid"
  aq_outbox_id :: "world \<Rightarrow> uuid"
  aq_queue_id :: "world \<Rightarrow> string"
  aq_now :: "world \<Rightarrow> instant"
  aq_heartbeat_timeout :: rat
  aq_gateway :: gateway_config
  aq_hmac :: "string \<Rightarrow> string \<Rightarrow> string"
  aq_seed :: seed
  aq_mtime :: "string \<Rightarrow> world \<Rightarrow> string"
  aq_ids :: "nat \<Rightarrow> uuid"

definition get_db :: "'a route \<Rightarrow> 'a route" where
  "get_db route w = (case route w of
     (Inr d, w') \<Rightarrow> (Inr d, w') | (Inl e, w') \<Rightarrow> (Inl e, rollback True w w'))"

text \<open>A route that depends on the current user.\<close>

definition authenticated :: "admin_env \<Rightarrow> string option \<Rightarrow> (user \<Rightarrow> 'a route) \<Rightarrow> 'a route" where
  "authenticated env credentials route = get_db (\<lambda>w. case get_current_user (aq_jwt env) (aq_security env) credentials w of
     Inl e \<Rightarrow> (Inl e, w) | Inr u \<Rightarrow> route u w)"

text \<open>\<open>except E: raise HTTPException(status_code=n, detail=str(exc))\<close>: the first argument gives the status of the exceptions that
  are caught.\<close>

definition http_error :: "(exc \<Rightarrow> int option) \<Rightarrow> exc \<Rightarrow> api_error" where
  "http_error codes e = (case codes e of None \<Rightarrow> Unhandled e | Some n \<Rightarrow> HTTPException n (exc_str e))"

definition http :: "(exc \<Rightarrow> int option) \<Rightarrow> 'a op \<Rightarrow> 'a route" where
  "http codes body w = (case body w of (Inr x, w') \<Rightarrow> (Inr x, w') | (Inl e, w') \<Rightarrow> (Inl (http_error codes e), w'))"

definition route_then :: "'a route \<Rightarrow> ('a \<Rightarrow> 'b route) \<Rightarrow> 'b route" where
  "route_then m f w = (case m w of (Inl e, w1) \<Rightarrow> (Inl e, w1) | (Inr x, w1) \<Rightarrow> f x w1)"

definition respond :: "(world \<Rightarrow> dict) \<Rightarrow> dict route" where
  "respond f w = (Inr (f w), w)"

fun is_key_error :: "exc \<Rightarrow> bool" where
  "is_key_error (KeyError _) = True"
| "is_key_error _ = False"

fun is_value_error :: "exc \<Rightarrow> bool" where
  "is_value_error (ValueError _) = True"
| "is_value_error (PolicyViolation _) = True"
| "is_value_error _ = False"

definition service_codes :: "exc \<Rightarrow> int option" where
  "service_codes e = (if is_key_error e then Some 404 else if is_value_error e then Some 400 else None)"

definition value_codes :: "exc \<Rightarrow> int option" where
  "value_codes e = (if is_value_error e then Some 400 else None)"

definition run_codes :: "exc \<Rightarrow> int option" where
  "run_codes e = (if is_key_error e then Some 404
     else if is_permission_error e \<or> is_runtime_error e \<or> is_value_error e then Some 400 else None)"

definition inbound_codes :: "exc \<Rightarrow> int option" where
  "inbound_codes e = (if is_key_error e then Some 404 else if is_runtime_error e then Some 409 else None)"

definition send_codes :: "exc \<Rightarrow> int option" where
  "send_codes e = (if is_key_error e then Some 404 else if is_runtime_error e \<or> is_value_error e then Some 400 else None)"

definition tool_codes :: "exc \<Rightarrow> int option" where
  "tool_codes e = (if is_key_error e then Some 404 else if is_permission_error e then Some 403
     else if is_value_error e then Some 400 else None)"

definition items :: "dict list \<Rightarrow> dict" where
  "items ds = [(''items'', JList (map JObj ds))]"

text \<open>The response for the row a service has just written.\<close>

definition row_dict :: "('r \<Rightarrow> dict) \<Rightarrow> 'r option \<Rightarrow> dict" where
  "row_dict f r = (case r of None \<Rightarrow> [] | Some x \<Rightarrow> f x)"

section \<open>Approvals\<close>

definition approvals_route :: "string \<Rightarrow> int \<Rightarrow> dict route" where
  "approvals_route status limit = respond (\<lambda>w. items (map approval_to_dict (list_approvals status limit w)))"

record approval_request =
  apq_subject_type :: string
  apq_subject_id :: string
  apq_payload :: dict
  apq_turn_checkpoint :: dict
  apq_original_tool_call :: dict
  apq_allowed_decisions :: "string list"
  apq_resume_state :: dict

definition create_approval_route :: "admin_env \<Rightarrow> approval_request \<Rightarrow> dict route" where
  "create_approval_route env q w =
     (case create_approval True (aq_new_id env w) (aq_now env w) (apq_subject_type q) (apq_subject_id q) (apq_payload q)
             (apq_turn_checkpoint q) (apq_original_tool_call q) (apq_allowed_decisions q) (apq_resume_state q) w of
        (i, w1) \<Rightarrow> (Inr (row_dict approval_to_dict (get_approval w1 i)), w1))"

definition ok_approval :: "uuid \<Rightarrow> dict route" where
  "ok_approval i = respond (\<lambda>w. [(''ok'', JBool True), (''approval'', JObj (row_dict approval_to_dict (get_approval w i)))])"

definition resolve_approval_route :: "admin_env \<Rightarrow> uuid \<Rightarrow> string \<Rightarrow> dict \<Rightarrow> string \<Rightarrow> dict route" where
  "resolve_approval_route env i status edited response =
     route_then (\<lambda>w. http service_codes (resolve_approval True i (aq_now env w) status) w) (\<lambda>_ w1.
       let w2 = (if edited \<noteq> [] then upd_approval i (\<lambda>a. a\<lparr>ap_edited_arguments := edited\<rparr>) w1 else w1);
           w3 = (if response \<noteq> [] then upd_approval i (\<lambda>a. a\<lparr>ap_resume_state := dset ''response'' (JStr response) (ap_resume_state a)\<rparr>) w2
                 else w2)
       in ok_approval i w3)"

definition reject_approval_route :: "admin_env \<Rightarrow> uuid \<Rightarrow> string \<Rightarrow> dict route" where
  "reject_approval_route env i reason =
     route_then (\<lambda>w. http service_codes (resolve_approval True i (aq_now env w) ''rejected'') w) (\<lambda>_ w1.
       ok_approval i (upd_approval i (\<lambda>a. a\<lparr>ap_payload := dset ''reject_reason'' (JStr reason) (ap_payload a)\<rparr>) w1))"

definition turn_dict :: "turn_result \<Rightarrow> dict" where
  "turn_dict r =
     [(''turn_id'', JStr (tu_turn_id r)), (''answer'', JStr (tu_answer r)), (''context'', JObj (tu_context r)), (''status'', JStr (tu_status r)),
      (''approval_id'', JStr (tu_approval_id r)), (''pending_tool_call'', JObj (case tu_pending_tool_call r of None \<Rightarrow> [] | Some c \<Rightarrow> c)),
      (''resume_available'', JBool (tu_resume_available r))]"

definition turn_response :: "uuid \<Rightarrow> turn_result \<Rightarrow> dict route" where
  "turn_response i r = respond (\<lambda>w. [(''ok'', JBool True),
     (''approval'', case get_approval w i of None \<Rightarrow> JNull | Some a \<Rightarrow> JObj (approval_to_dict a)), (''turn'', JObj (turn_dict r))])"

definition resume_turn_route :: "admin_env \<Rightarrow> uuid \<Rightarrow> string \<Rightarrow> dict \<Rightarrow> string \<Rightarrow> dict route" where
  "resume_turn_route env i decision edited response =
     route_then (http run_codes (resume_turn (aq_agent env) i decision edited response)) (turn_response i)"

definition execute_route :: "admin_env \<Rightarrow> string \<Rightarrow> dict \<Rightarrow> string \<Rightarrow> bool \<Rightarrow> dict op" where
  "execute_route env name arguments turn_id approved w = (case (ag_tools (aq_agent env), ag_registry (aq_agent env)) of
     (Some sv, Some reg) \<Rightarrow> execute_tool sv reg (ag_exec (aq_agent env) w) name arguments turn_id approved w
   | _ \<Rightarrow> (Inl (OtherError ''state has no attribute tool_executor''), w))"

definition run_approved_tool :: "admin_env \<Rightarrow> uuid \<Rightarrow> approval \<Rightarrow> dict route" where
  "run_approved_tool env i a =
     (let payload = ap_payload a; tool_name = dstr ''tool_name'' payload;
          arguments = (if ap_edited_arguments a \<noteq> [] then ap_edited_arguments a else dict_or_empty (dget ''arguments'' payload))
      in if tool_name = [] then (\<lambda>w. (Inl (HTTPException 400 ''approval payload is missing tool_name''), w))
         else route_then (if ap_status a = ''pending''
                          then (\<lambda>w. http value_codes (resolve_approval True i (aq_now env w) ''approved'') w)
                          else (\<lambda>w. (Inr i, w)))
           (\<lambda>_. route_then (http run_codes (execute_route env tool_name arguments (dstr ''turn_id'' payload) True)) (\<lambda>result.
              respond (\<lambda>w. [(''ok'', JBool True), (''approval'', JObj (row_dict approval_to_dict (get_approval w i))),
                (''tool_result'', JObj result)]))))"

definition resumes_turn :: "approval \<Rightarrow> bool" where
  "resumes_turn a = (dget ''mode'' (ap_turn_checkpoint a) = JStr ''agent_tool_loop'' \<or> dget ''mode'' (ap_resume_state a) = JStr ''resume_turn'')"

definition approve_and_run :: "admin_env \<Rightarrow> uuid \<Rightarrow> dict route" where
  "approve_and_run env i w = (case get_approval w i of
     None \<Rightarrow> (Inl (HTTPException 404 (''approval not found: '' @ i)), w)
   | Some a \<Rightarrow>
       if ap_subject_type a \<noteq> ''tool_run'' then (Inl (HTTPException 400 ''approval is not for a tool run''), w)
       else if ap_status a \<notin> {''pending'', ''approved''} then (Inl (HTTPException 400 ''approval is not runnable''), w)
       else if resumes_turn a then route_then (http run_codes (resume_turn (aq_agent env) i ''approve'' [] '''')) (turn_response i) w
       else run_approved_tool env i a w)"

text \<open>\<open>/api/tools\<close>.\<close>

definition list_tools_route :: "admin_env \<Rightarrow> dict route" where
  "list_tools_route env = respond (\<lambda>w. items (map tool_definition_to_dict (registry_list
     (case ag_registry (aq_agent env) of None \<Rightarrow> [] | Some reg \<Rightarrow> reg))))"

definition run_tool_route :: "admin_env \<Rightarrow> string \<Rightarrow> dict \<Rightarrow> string \<Rightarrow> bool \<Rightarrow> dict route" where
  "run_tool_route env name arguments turn_id approved = http tool_codes (execute_route env name arguments turn_id approved)"

section \<open>Evolution, cron, MCP, gateways\<close>

definition apply_proposal_route :: "admin_env \<Rightarrow> uuid \<Rightarrow> string option \<Rightarrow> user \<Rightarrow> dict route" where
  "apply_proposal_route env pid actor u =
     route_then (\<lambda>w. http service_codes (evolution_apply (aq_evolution env w) pid (str_or (case actor of None \<Rightarrow> [] | Some a \<Rightarrow> a) (us_username u))) w)
       (\<lambda>i. respond (\<lambda>w. row_dict (proposal_to_dict (aq_hidden env)) (get_row ep_id i (evolution_proposals w))))"

definition list_cron_route :: "admin_env \<Rightarrow> bool option \<Rightarrow> int \<Rightarrow> dict route" where
  "list_cron_route env enabled limit = respond (\<lambda>w. items (map (cron_job_to_dict (aq_hidden env)) (list_cron_jobs enabled limit w)))"

record cron_job_request =
  crq_name :: string
  crq_cron_expr :: string
  crq_timezone :: string
  crq_instruction :: string
  crq_enabled :: bool
  crq_metadata :: dict

definition upsert_cron_route :: "admin_env \<Rightarrow> cron_job_request \<Rightarrow> dict route" where
  "upsert_cron_route env q =
     route_then (\<lambda>w. http value_codes (upsert_cron_job (aq_cron_valid env) (aq_zone env) (aq_croniter env) True (aq_new_id env w) (aq_now env w)
         (crq_name q) (crq_cron_expr q) (crq_timezone q) (crq_instruction q) (crq_enabled q) (crq_metadata q)) w)
       (\<lambda>i. respond (\<lambda>w. row_dict (cron_job_to_dict (aq_hidden env)) (get_row cj_id i (cron_jobs w))))"

definition list_mcp_route :: "admin_env \<Rightarrow> bool option \<Rightarrow> int \<Rightarrow> dict route" where
  "list_mcp_route env enabled limit = respond (\<lambda>w. items (map (mcp_server_to_dict (aq_hidden env)) (list_mcp_servers enabled limit w)))"

definition upsert_mcp_route :: "admin_env \<Rightarrow> mcp_request \<Rightarrow> dict route" where
  "upsert_mcp_route env q = route_then (http value_codes (upsert_mcp_server True q))
     (\<lambda>name. respond (\<lambda>w. row_dict (mcp_server_to_dict (aq_hidden env)) (get_mcp w name)))"

definition list_gateways_route :: "admin_env \<Rightarrow> string \<Rightarrow> int \<Rightarrow> dict route" where
  "list_gateways_route env kind limit = respond (\<lambda>w. items (map (gateway_to_dict (aq_hidden env)) (list_gateways kind limit w)))"

definition last_contact :: "gateway_connection \<Rightarrow> instant option" where
  "last_contact g = (case gw_last_heartbeat_at g of Some t \<Rightarrow> Some t
     | None \<Rightarrow> (case gw_last_inbound_at g of Some t \<Rightarrow> Some t | None \<Rightarrow> gw_last_outbound_at g))"

definition computed_status :: "admin_env \<Rightarrow> instant \<Rightarrow> gateway_connection \<Rightarrow> string" where
  "computed_status env now g =
     (let stale = (case last_contact g of None \<Rightarrow> True | Some t \<Rightarrow> now - t > aq_heartbeat_timeout env)
      in if \<not> gw_enabled g then ''offline'' else if stale then ''stale'' else ''online'')"

definition gateway_status_route :: "admin_env \<Rightarrow> dict route" where
  "gateway_status_route env = respond (\<lambda>w. items (map (\<lambda>g. gateway_to_dict (aq_hidden env) g @
     [(''computed_status'', JStr (computed_status env (aq_now env w) g))]) (list_gateways '''' 500 w)))"

record gateway_request =
  gwq_name :: string
  gwq_kind :: string
  gwq_endpoint :: string
  gwq_config :: dict
  gwq_enabled :: bool
  gwq_status :: "string option"

definition upsert_gateway_route :: "admin_env \<Rightarrow> gateway_request \<Rightarrow> dict route" where
  "upsert_gateway_route env q =
     route_then (http value_codes (upsert_gateway True (gwq_name q) (gwq_kind q) (gwq_endpoint q) (gwq_config q) (gwq_enabled q)
         (case gwq_status q of None \<Rightarrow> '''' | Some s \<Rightarrow> s)))
       (\<lambda>name. respond (\<lambda>w. row_dict (gateway_to_dict (aq_hidden env)) (get_gateway w name)))"

definition gateway_heartbeat_route :: "admin_env \<Rightarrow> string \<Rightarrow> string \<Rightarrow> string \<Rightarrow> string list \<Rightarrow> dict route" where
  "gateway_heartbeat_route env name instance_id version capabilities w = (case get_gateway w name of
     None \<Rightarrow> (Inl (HTTPException 404 (''gateway not found: '' @ name)), w)
   | Some _ \<Rightarrow>
       let w1 = upd_gateway name (\<lambda>g. g\<lparr>gw_last_heartbeat_at := Some (aq_now env w), gw_instance_id := instance_id, gw_version := version,
             gw_capabilities := capabilities, gw_status := (if gw_enabled g then ''online'' else ''disabled'')\<rparr>) w
       in (Inr [(''ok'', JBool True), (''gateway'', JObj (row_dict (gateway_to_dict (aq_hidden env)) (get_gateway w1 name)))], w1))"

definition inbound_op :: "admin_env \<Rightarrow> inbound_message \<Rightarrow> dict op" where
  "inbound_op env m w = handle_inbound (aq_gateway env) (aq_hmac env)
     (\<lambda>text session. run_turn (aq_agent env) text session None) (aq_now env w) (aq_now env w) m w"

definition gateway_inbound_route :: "admin_env \<Rightarrow> string option \<Rightarrow> inbound_message \<Rightarrow> dict route" where
  "gateway_inbound_route env header m =
     http inbound_codes (inbound_op env (case header of
       None \<Rightarrow> m
     | Some s \<Rightarrow> if s = [] then m else m\<lparr>in_metadata := dset ''signature'' (JStr s) (in_metadata m)\<rparr>))"

record webhook_request =
  whq_gateway_name :: string
  whq_external_user_id :: string
  whq_text :: string
  whq_channel_id :: string
  whq_timestamp :: string
  whq_nonce :: string
  whq_signature :: string
  whq_metadata :: dict

definition webhook_message :: "webhook_request \<Rightarrow> inbound_message" where
  "webhook_message q = \<lparr>in_gateway_name = whq_gateway_name q, in_external_user_id = whq_external_user_id q, in_text = whq_text q,
     in_channel_id = whq_channel_id q,
     in_metadata = dmerge (whq_metadata q) [(''timestamp'', JStr (whq_timestamp q)), (''nonce'', JStr (whq_nonce q)),
       (''signature'', JStr (whq_signature q)), (''public_webhook'', JBool True)]\<rparr>"

text \<open>The public webhook has no request session.\<close>

definition gateway_webhook_route :: "admin_env \<Rightarrow> webhook_request \<Rightarrow> dict route" where
  "gateway_webhook_route env q = http inbound_codes (inbound_op env (webhook_message q))"

definition gateway_send_route :: "send_env \<Rightarrow> outbound_message \<Rightarrow> resilience \<Rightarrow> (api_error + dict) \<times> resilience" where
  "gateway_send_route env m s = (case send_message env m s of
     (Inr d, s') \<Rightarrow> (Inr d, s')
   | (Inl e, s') \<Rightarrow> (Inl (http_error send_codes e), rs_upd (rollback True (rs_world s)) s'))"

section \<open>Jobs\<close>

definition enqueue_route :: "admin_env \<Rightarrow> string \<Rightarrow> dict \<Rightarrow> string \<Rightarrow> uuid route" where
  "enqueue_route env task_name payload triggered_by w =
     http (\<lambda>_. None) (enqueue_background_job (aq_sha env) True (aq_new_id env w) (aq_outbox_id env w) (aq_queue_id env w) (aq_now env w)
       task_name payload triggered_by None '''' 3) w"

definition job_dict :: "uuid \<Rightarrow> world \<Rightarrow> dict" where
  "job_dict i w = row_dict background_job_to_dict (get_job w i)"

definition run_heartbeat_route :: "admin_env \<Rightarrow> bool \<Rightarrow> user \<Rightarrow> dict route" where
  "run_heartbeat_route env enqueue u =
     (if enqueue
      then route_then (enqueue_route env ''heartbeat_check'' [] (us_username u)) (\<lambda>i. respond (\<lambda>w.
             [(''requested_by'', JStr (us_username u)), (''job'', JObj (job_dict i w))]))
      else route_then (\<lambda>w. http (\<lambda>_. None) (run_check (eo_skill (aq_evolution env w)) (aq_seed env) (aq_ids env)) w) (\<lambda>r.
             respond (\<lambda>w. (''requested_by'', JStr (us_username u)) # heartbeat_dict r)))"

definition heartbeat_status_route :: "admin_env \<Rightarrow> dict route" where
  "heartbeat_status_route env =
     route_then (http (\<lambda>_. None) (active_heartbeat_tasks (aq_seed env))) (\<lambda>tasks w.
       case read_history (aq_seed env) 20 w of (history, w1) \<Rightarrow>
         (Inr [(''active_tasks'', strs tasks), (''history'', JList (map JObj history)),
            (''latest_job'', case sort_key (\<lambda>j. - job_created_at j) (filter (\<lambda>j. job_task_name j = ''heartbeat_check'') (background_jobs w)) of
               [] \<Rightarrow> JNull | j # _ \<Rightarrow> JObj (background_job_to_dict j))], w1))"

definition run_dream_route :: "admin_env \<Rightarrow> int \<Rightarrow> int \<Rightarrow> user \<Rightarrow> dict route" where
  "run_dream_route env window_hours limit u =
     route_then (enqueue_route env ''dream_review'' [(''window_hours'', JInt window_hours), (''limit'', JInt limit)] (us_username u))
       (\<lambda>i. respond (\<lambda>w. [(''job'', JObj (job_dict i w))]))"

definition jobs_route :: "string \<Rightarrow> int \<Rightarrow> dict route" where
  "jobs_route status limit = respond (\<lambda>w. items (map background_job_to_dict (list_jobs status limit w)))"

definition job_route :: "uuid \<Rightarrow> dict route" where
  "job_route i w = (case get_job w i of
     None \<Rightarrow> (Inl (HTTPException 404 ''job not found''), w) | Some j \<Rightarrow> (Inr (background_job_to_dict j), w))"

definition cancel_job_route :: "admin_env \<Rightarrow> uuid \<Rightarrow> dict route" where
  "cancel_job_route env i = route_then (\<lambda>w. http service_codes (cancel_job True i (aq_now env w)) w)
     (\<lambda>i. respond (\<lambda>w. [(''ok'', JBool True), (''job'', JObj (job_dict i w))]))"

section \<open>Turns, sessions, workspace files\<close>

definition runs_route :: "int \<Rightarrow> dict route" where
  "runs_route limit = respond (\<lambda>w. items (map tool_run_to_dict
     (take (clamp_limit 500 limit) (sort_key (\<lambda>r. - tr_started_at r) (tool_runs w)))))"

definition run_turn_route :: "admin_env \<Rightarrow> string \<Rightarrow> string \<Rightarrow> dict list option \<Rightarrow> user \<Rightarrow> dict route" where
  "run_turn_route env message session_id calls u =
     route_then (http (\<lambda>_. None) (run_turn (aq_agent env) message session_id calls))
       (\<lambda>r. respond (\<lambda>w. (''user'', JStr (us_username u)) # turn_dict r))"

definition sessions_route :: "int \<Rightarrow> dict route" where
  "sessions_route limit = respond (\<lambda>w. items (map (\<lambda>r. [(''session_id'', JStr (sr_session_id r)),
     (''last_message_at'', dtime (sr_last_message_at r)), (''message_count'', JInt (sr_message_count r))]) (list_sessions w limit)))"

definition session_messages_route :: "string \<Rightarrow> int \<Rightarrow> dict route" where
  "session_messages_route session_id limit = respond (\<lambda>w. items (map session_message_to_dict (list_messages w session_id limit)))"

definition session_summary_route :: "admin_env \<Rightarrow> string \<Rightarrow> dict route" where
  "session_summary_route env session_id = respond (\<lambda>w. [(''summary'', session_summary_to_dict (aq_hidden env) (get_summary w session_id))])"

definition file_dict :: "admin_env \<Rightarrow> workspace_file \<Rightarrow> world \<Rightarrow> dict" where
  "file_dict env f w = [(''kind'', JStr (wf_kind f)), (''path'', JStr (wf_path f)), (''content'', JStr (wf_content f)),
     (''updated_at'', JStr (aq_mtime env (wf_path f) w))]"

definition workspace_files_route :: "admin_env \<Rightarrow> dict route" where
  "workspace_files_route env = route_then (http (\<lambda>_. None) (read_all (aq_seed env))) (\<lambda>files w.
     case read_history (aq_seed env) 20 w of (history, w1) \<Rightarrow>
       (Inr [(''items'', JList (map (\<lambda>(_, f). JObj (file_dict env f w)) files)), (''history'', JList (map JObj history))], w1))"

definition key_codes :: "exc \<Rightarrow> int option" where
  "key_codes e = (if is_key_error e then Some 404 else None)"

definition workspace_file_route :: "admin_env \<Rightarrow> string \<Rightarrow> dict route" where
  "workspace_file_route env kind = route_then (http key_codes (ws_read (aq_seed env) kind)) (\<lambda>f. respond (file_dict env f))"

definition update_workspace_file_route :: "admin_env \<Rightarrow> string \<Rightarrow> string \<Rightarrow> user \<Rightarrow> dict route" where
  "update_workspace_file_route env kind content u =
     route_then (http key_codes (ws_write True (aq_seed env) kind content (us_username u))) (\<lambda>f. respond (file_dict env f))"

section \<open>All routes\<close>

text \<open>The requests of the authenticated routes above.\<close>

datatype admin_request =
    List_Approvals string int | Create_Approval approval_request | Resolve_Approval uuid string dict string
  | Approve_And_Run uuid | Resume_Turn uuid string dict string | Reject_Approval uuid string
  | List_Tools | Run_Tool string dict string bool
  | Apply_Proposal uuid "string option"
  | List_Cron "bool option" int | Upsert_Cron cron_job_request
  | List_MCP "bool option" int | Upsert_MCP mcp_request
  | List_Gateways string int | Gateway_Status | Upsert_Gateway gateway_request
  | Gateway_Heartbeat string string string "string list" | Gateway_Inbound "string option" inbound_message
  | Run_Heartbeat bool | Heartbeat_Status | Run_Dream int int
  | List_Jobs string int | Get_Job uuid | Cancel_Job uuid
  | List_Runs int | Run_Turn string string "dict list option"
  | List_Sessions int | Session_Messages string int | Session_Summary string
  | Workspace_Files | Workspace_File string | Update_Workspace_File string string

fun handle :: "admin_env \<Rightarrow> user \<Rightarrow> admin_request \<Rightarrow> dict route" where
  "handle env u (List_Approvals status limit) = approvals_route status limit"
| "handle env u (Create_Approval q) = create_approval_route env q"
| "handle env u (Resolve_Approval i status edited response) = resolve_approval_route env i status edited response"
| "handle env u (Approve_And_Run i) = approve_and_run env i"
| "handle env u (Resume_Turn i decision edited response) = resume_turn_route env i decision edited response"
| "handle env u (Reject_Approval i reason) = reject_approval_route env i reason"
| "handle env u List_Tools = list_tools_route env"
| "handle env u (Run_Tool name arguments turn_id approved) = run_tool_route env name arguments turn_id approved"
| "handle env u (Apply_Proposal i actor) = apply_proposal_route env i actor u"
| "handle env u (List_Cron enabled limit) = list_cron_route env enabled limit"
| "handle env u (Upsert_Cron q) = upsert_cron_route env q"
| "handle env u (List_MCP enabled limit) = list_mcp_route env enabled limit"
| "handle env u (Upsert_MCP q) = upsert_mcp_route env q"
| "handle env u (List_Gateways kind limit) = list_gateways_route env kind limit"
| "handle env u Gateway_Status = gateway_status_route env"
| "handle env u (Upsert_Gateway q) = upsert_gateway_route env q"
| "handle env u (Gateway_Heartbeat name inst version caps) = gateway_heartbeat_route env name inst version caps"
| "handle env u (Gateway_Inbound header m) = gateway_inbound_route env header m"
| "handle env u (Run_Heartbeat enqueue) = run_heartbeat_route env enqueue u"
| "handle env u Heartbeat_Status = heartbeat_status_route env"
| "handle env u (Run_Dream window_hours limit) = run_dream_route env window_hours limit u"
| "handle env u (List_Jobs status limit) = jobs_route status limit"
| "handle env u (Get_Job i) = job_route i"
| "handle env u (Cancel_Job i) = cancel_job_route env i"
| "handle env u (List_Runs limit) = runs_route limit"
| "handle env u (Run_Turn message session_id calls) = run_turn_route env message session_id calls u"
| "handle env u (List_Sessions limit) = sessions_route limit"
| "handle env u (Session_Messages session_id limit) = session_messages_route session_id limit"
| "handle env u (Session_Summary session_id) = session_summary_route env session_id"
| "handle env u Workspace_Files = workspace_files_route env"
| "handle env u (Workspace_File kind) = workspace_file_route env kind"
| "handle env u (Update_Workspace_File kind content) = update_workspace_file_route env kind content u"

definition admin :: "admin_env \<Rightarrow> string option \<Rightarrow> admin_request \<Rightarrow> dict route" where
  "admin env credentials q = authenticated env credentials (\<lambda>u. handle env u q)"

end
