(* ===== verification/Mcp.thy ===== *)
theory Mcp
  imports Tools Skills_Props
begin

text \<open>
  MCP servers: discovery, the tool cache, installation into the registry and tool calls of
  \<open>backend/runtime/mcp.py\<close>.

  The MCP client library is the record \<open>mcp_client\<close>: what the k-th attempt to list the tools of a server or to call
  one of them returns or raises (timeouts included), given the parameters of the transport. \<open>wait_for\<close> and the
  session handling belong to it. A content item of a result is a model that dumps itself, a JSON value, or an object
  of which only the text is known. The state is the resilience manager with the world.
\<close>

section \<open>Descriptors\<close>

record mcp_descriptor =
  md_server_name :: string
  md_tool_name :: string
  md_description :: string
  md_input_schema :: dict
  md_permission :: string

definition mcp_token_char :: "char \<Rightarrow> bool" where
  "mcp_token_char c = (is_ascii_alnum c \<or> c = CHR ''_'')"

definition safe_tool_token :: "string \<Rightarrow> string" where
  "safe_tool_token value =
     (let t1 = map (\<lambda>c. if mcp_token_char c then c else CHR ''_'') (py_strip value);
          t2 = strip_of (\<lambda>c. c = CHR ''_'') (sub_runs (\<lambda>c. c = CHR ''_'') ''_'' t1);
          t3 = (if t2 = [] then ''unnamed'' else t2);
          t4 = (if is_digit (hd t3) then CHR ''_'' # t3 else t3)
      in take 64 t4)"

definition registry_name :: "mcp_descriptor \<Rightarrow> string" where
  "registry_name d = ''mcp__'' @ safe_tool_token (md_server_name d) @ ''__'' @ safe_tool_token (md_tool_name d)"

definition to_cache :: "mcp_descriptor \<Rightarrow> dict" where
  "to_cache d = [(''server_name'', JStr (md_server_name d)), (''tool_name'', JStr (md_tool_name d)),
     (''registry_name'', JStr (registry_name d)), (''description'', JStr (md_description d)),
     (''input_schema'', JObj (md_input_schema d)), (''permission'', JStr (md_permission d))]"

definition from_cache :: "dict \<Rightarrow> mcp_descriptor" where
  "from_cache item = \<lparr>md_server_name = dstr ''server_name'' item, md_tool_name = dstr ''tool_name'' item,
     md_description = dstr ''description'' item, md_input_schema = dict_or_empty (dget ''input_schema'' item),
     md_permission = dstr_or ''permission'' ''write'' item\<rparr>"

section \<open>Server configuration\<close>

text \<open>\<open>shlex.split\<close>: words separated by blanks, with quotes and backslashes.\<close>

datatype lex_state = Blank | Word | Quoted char | Escaped_word | Escaped_quote char

definition lex_blank :: "char \<Rightarrow> bool" where
  "lex_blank c = (ordc c \<in> {32, 9, 13, 10})"

definition lex_quote :: "char \<Rightarrow> bool" where
  "lex_quote c = (c = CHR 0x22 \<or> c = CHR 0x27)"

fun shlex :: "lex_state \<Rightarrow> string \<Rightarrow> string \<Rightarrow> exc + string list" where
  "shlex st acc [] = (case st of
     Blank \<Rightarrow> Inr [] | Word \<Rightarrow> Inr [rev acc]
   | Quoted _ \<Rightarrow> Inl (ValueError ''No closing quotation'')
   | _ \<Rightarrow> Inl (ValueError ''No escaped character''))"
| "shlex st acc (c # cs) = (case st of
     Blank \<Rightarrow>
       if lex_blank c then shlex Blank [] cs
       else if c = CHR 0x5C then shlex Escaped_word [] cs
       else if lex_quote c then shlex (Quoted c) [] cs
       else shlex Word [c] cs
   | Word \<Rightarrow>
       if lex_blank c then map_sum id (Cons (rev acc)) (shlex Blank [] cs)
       else if c = CHR 0x5C then shlex Escaped_word acc cs
       else if lex_quote c then shlex (Quoted c) acc cs
       else shlex Word (c # acc) cs
   | Quoted q \<Rightarrow>
       if c = q then shlex Word acc cs
       else if c = CHR 0x5C \<and> q = CHR 0x22 then shlex (Escaped_quote q) acc cs
       else shlex (Quoted q) (c # acc) cs
   | Escaped_word \<Rightarrow> shlex Word (c # acc) cs
   | Escaped_quote q \<Rightarrow>
       if c \<noteq> CHR 0x5C \<and> c \<noteq> q then shlex (Quoted q) (c # CHR 0x5C # acc) cs else shlex (Quoted q) (c # acc) cs)"

definition shlex_split :: "string \<Rightarrow> exc + string list" where
  "shlex_split s = shlex Blank [] s"

text \<open>\<open>d.pop(k, default)\<close>.\<close>

definition dpop :: "string \<Rightarrow> json \<Rightarrow> dict \<Rightarrow> json \<times> dict" where
  "dpop k df d = (case map_of d k of None \<Rightarrow> df | Some v \<Rightarrow> v, filter (\<lambda>(k', _). k' \<noteq> k) d)"

definition server_config :: "mcp_server \<Rightarrow> exc + dict" where
  "server_config server =
     (let (command0, c1) = dpop ''command'' (JStr (mcp_command server)) (mcp_config server);
          command = (if truthy command0 then py_str command0 else mcp_command server);
          (args0, c2) = dpop ''args'' JNull c1;
          stdio = (mcp_transport server = ''stdio'');
          (args, c3) = (if stdio \<and> \<not> truthy args0 then dpop ''argv'' JNull c2 else (args0, c2));
          result = (\<lambda>cmd a. dmerge c3
            [(''name'', JStr (mcp_name server)),
             (''transport'', JStr (if mcp_transport server = ''http'' then ''streamable_http'' else mcp_transport server)),
             (''command'', JStr cmd), (''args'', py_or a (JList [])),
             (''url'', JStr (dstr_or ''url'' (mcp_url server) c3)),
             (''permission_policy'', JObj (mcp_permission_policy server)), (''session_mode'', JStr (mcp_session_mode server))])
      in if stdio \<and> \<not> truthy args then
           (case shlex_split command of
              Inl e \<Rightarrow> Inl e
            | Inr [] \<Rightarrow> Inr (result command args)
            | Inr (p # ps) \<Rightarrow> Inr (result p (JList (map JStr ps))))
         else Inr (result command args))"

definition permission_overrides :: "dict \<Rightarrow> (string \<times> string) list" where
  "permission_overrides config =
     (let tools = dget ''tools'' config;
          o1 = (if is_dict tools then dget ''override_permission'' (dict_or_empty tools) else JNull);
          o2 = (if \<not> is_dict o1 \<and> is_dict (dget ''permission_policy'' config)
                then dget ''override_permission'' (dict_or_empty (dget ''permission_policy'' config)) else o1)
      in map (\<lambda>(k, v). (k, py_str v)) (dict_or_empty o2))"

definition override_of :: "dict \<Rightarrow> string \<Rightarrow> string" where
  "override_of config tool_name = (case map_of (permission_overrides config) tool_name of
     None \<Rightarrow> ''write'' | Some p \<Rightarrow> str_or p ''write'')"

definition tool_permission :: "dict \<Rightarrow> string \<Rightarrow> string" where
  "tool_permission config tool_name = py_lower (override_of config tool_name)"

definition normalize_json_schema :: "dict \<Rightarrow> dict" where
  "normalize_json_schema s =
     (if s = [] then [(''type'', JStr ''object''), (''properties'', JObj []), (''additionalProperties'', JBool True)]
      else dsetdefault ''properties'' (JObj []) (dsetdefault ''type'' (JStr ''object'') s))"

section \<open>The client library\<close>

datatype mcp_transport_params =
    Stdio string "json list" "dict option" "json option"
  | Sse string "dict option" pyfloat pyfloat
  | Streamable_http string "dict option" pyfloat pyfloat

record mcp_tool =
  mt_name :: string
  mt_description :: string
  mt_input_schema :: json

datatype content_item = Dumped dict | Plain json | Opaque string

record mcp_result =
  mr_content :: "content_item list"
  mr_is_error :: bool
  mr_structured :: json

record mcp_client =
  mc_list_tools :: "mcp_transport_params \<Rightarrow> int \<Rightarrow> exc + mcp_tool list"
  mc_call_tool :: "mcp_transport_params \<Rightarrow> string \<Rightarrow> dict \<Rightarrow> rat \<Rightarrow> int \<Rightarrow> exc + mcp_result"

record mcp_env =
  mx_client :: mcp_client
  mx_call_timeout :: rat
  mx_now :: "world \<Rightarrow> instant"
  mx_call_now :: "world \<Rightarrow> instant"
  mx_fail_now :: "world \<Rightarrow> instant"
  mx_unif :: "int \<Rightarrow> rat \<Rightarrow> rat \<Rightarrow> rat"

definition dict_option :: "json \<Rightarrow> dict option" where
  "dict_option v = (case v of JObj d \<Rightarrow> Some d | _ \<Rightarrow> None)"

definition http_params ::
  "(string \<Rightarrow> dict option \<Rightarrow> pyfloat \<Rightarrow> pyfloat \<Rightarrow> mcp_transport_params) \<Rightarrow> rat \<Rightarrow> dict \<Rightarrow> exc + mcp_transport_params" where
  "http_params mk timeout config =
     (case (py_float (py_or (dget ''timeout'' config) (JFloat timeout)),
            py_float (py_or (dget ''sse_read_timeout'' config) (JFloat 300))) of
        (Inl e, _) \<Rightarrow> Inl e
      | (Inr _, Inl e) \<Rightarrow> Inl e
      | (Inr t, Inr rt) \<Rightarrow> Inr (mk (py_str (dget ''url'' config)) (dict_option (dget ''headers'' config)) t rt))"

definition transport_params :: "dict \<Rightarrow> exc + mcp_transport_params" where
  "transport_params config =
     (let transport = py_str (dget ''transport'' config) in
      if transport = ''stdio'' then
        (case py_iter (py_or (dget ''args'' config) (JList [])) of
           Inl e \<Rightarrow> Inl e
         | Inr args \<Rightarrow> Inr (Stdio (py_str (dget ''command'' config)) args (dict_option (dget ''env'' config))
             (if truthy (dget ''cwd'' config) then Some (dget ''cwd'' config) else None)))
      else if transport = ''sse'' then http_params Sse 5 config
      else if transport = ''streamable_http'' \<or> transport = ''http'' then http_params Streamable_http 30 config
      else Inl (ValueError (''unsupported MCP transport: '' @ transport)))"

definition mcp_discover :: "mcp_env \<Rightarrow> dict \<Rightarrow> int \<Rightarrow> exc + mcp_descriptor list" where
  "mcp_discover env config k = (case transport_params config of
     Inl e \<Rightarrow> Inl e
   | Inr tp \<Rightarrow> map_sum id (\<lambda>tools. map (\<lambda>t. \<lparr>md_server_name = py_str (dget ''name'' config), md_tool_name = mt_name t,
         md_description = mt_description t, md_input_schema = dict_or_empty (mt_input_schema t),
         md_permission = override_of config (mt_name t)\<rparr>) (filter (\<lambda>t. mt_name t \<noteq> []) tools))
       (mc_list_tools (mx_client env) tp k))"

definition call_tool_once :: "mcp_env \<Rightarrow> dict \<Rightarrow> string \<Rightarrow> dict \<Rightarrow> int \<Rightarrow> exc + mcp_result" where
  "call_tool_once env config tool_name arguments k = (case transport_params config of
     Inl e \<Rightarrow> Inl e
   | Inr tp \<Rightarrow> mc_call_tool (mx_client env) tp tool_name arguments (mx_call_timeout env) k)"

definition serialize_content_item :: "content_item \<Rightarrow> json" where
  "serialize_content_item i = (case i of
     Dumped d \<Rightarrow> JObj d | Plain v \<Rightarrow> v | Opaque s \<Rightarrow> JObj [(''type'', JStr ''text''), (''text'', JStr s)])"

definition serialize_mcp_result :: "mcp_result \<Rightarrow> dict" where
  "serialize_mcp_result r = [(''content'', JList (map serialize_content_item (mr_content r))), (''is_error'', JBool (mr_is_error r)),
     (''structured_content'', mr_structured r)]"

section \<open>The runtime manager\<close>

definition discovery_policy :: resilience_policy where
  "discovery_policy = (default_policy ''mcp.discovery'')\<lparr>rp_max_attempts := 2, rp_base_delay := 1 / 2, rp_max_delay := 3,
     rp_failure_threshold := 5, rp_recovery := 45\<rparr>"

definition tool_policy :: resilience_policy where
  "tool_policy = (default_policy ''mcp.tool_call'')\<lparr>rp_max_attempts := 2, rp_base_delay := 1 / 2, rp_max_delay := 4,
     rp_failure_threshold := 5, rp_recovery := 60\<rparr>"

definition write_tool_policy :: resilience_policy where
  "write_tool_policy = (default_policy ''mcp.tool_call.write_once'')\<lparr>rp_max_attempts := 1, rp_failure_threshold := 5, rp_recovery := 60\<rparr>"

definition health_of :: "string \<Rightarrow> string" where
  "health_of status = (if status = ''connected'' then ''healthy'' else if status = ''disabled'' then ''disabled'' else ''unhealthy'')"

definition persist_status :: "mcp_env \<Rightarrow> string \<Rightarrow> string \<Rightarrow> mcp_descriptor list \<Rightarrow> string \<Rightarrow> dict op" where
  "persist_status env name status tools error w =
     (let cache = map to_cache tools in
      case get_mcp w name of
        None \<Rightarrow> (Inl (KeyError (''MCP server not found: '' @ name)), w)
      | Some _ \<Rightarrow>
          (Inr [(''name'', JStr name), (''status'', JStr status), (''tool_count'', JInt (int (length cache))), (''last_error'', JStr error)],
           mcp_servers_update (upd_row mcp_name name (\<lambda>v. v\<lparr>mcp_status := status, mcp_last_error := error,
             mcp_tool_count := int (length cache), mcp_tools_cache := cache, mcp_health_status := health_of status,
             mcp_last_connected_at := (if status = ''connected'' then Some (mx_now env w) else mcp_last_connected_at v)\<rparr>)) w))"

definition on_rs_world :: "'a op \<Rightarrow> resilience \<Rightarrow> (exc + 'a) \<times> resilience" where
  "on_rs_world m s = (case m (rs_world s) of (r, w) \<Rightarrow> (r, rs_with s w))"

definition refresh_server :: "mcp_env \<Rightarrow> string \<Rightarrow> resilience \<Rightarrow> (exc + dict) \<times> resilience" where
  "refresh_server env name s = (case get_mcp (rs_world s) name of
     None \<Rightarrow> (Inl (KeyError (''MCP server not found: '' @ name)), s)
   | Some server \<Rightarrow> (case server_config server of
       Inl e \<Rightarrow> (Inl e, s)
     | Inr config \<Rightarrow>
         if \<not> mcp_enabled server then on_rs_world (persist_status env name ''disabled'' [] '''') s
         else (case async_call True True (mx_call_now env (rs_world s)) (mx_fail_now env (rs_world s)) (mx_unif env) discovery_policy
                      (mcp_discover env config) s of
           (Inl e, s1) \<Rightarrow>
             on_rs_world (persist_status env name ''failed'' [] (exc_str e))
               (rs_emit True ''mcp.discovery.failed'' [(''server'', JStr name), (''error'', JStr (exc_str e))] ''warning'' s1)
         | (Inr ds, s1) \<Rightarrow>
             (case on_rs_world (persist_status env name ''connected'' ds '''') s1 of
                (Inl e, s2) \<Rightarrow> (Inl e, s2)
              | (Inr r, s2) \<Rightarrow>
                  (Inr r, rs_emit True ''mcp.discovery.succeeded''
                     [(''server'', JStr name), (''tool_count'', dget ''tool_count'' r)] ''info'' s2)))))"

fun refresh_names :: "mcp_env \<Rightarrow> string list \<Rightarrow> resilience \<Rightarrow> (exc + dict list) \<times> resilience" where
  "refresh_names env [] s = (Inr [], s)"
| "refresh_names env (n # ns) s = (case refresh_server env n s of
     (Inl e, s1) \<Rightarrow> (Inl e, s1)
   | (Inr d, s1) \<Rightarrow> (case refresh_names env ns s1 of (Inl e, s2) \<Rightarrow> (Inl e, s2) | (Inr ds, s2) \<Rightarrow> (Inr (d # ds), s2)))"

definition tool_count_of :: "dict \<Rightarrow> int" where
  "tool_count_of d = (case dint_or ''tool_count'' 0 d of Inl _ \<Rightarrow> 0 | Inr n \<Rightarrow> n)"

definition refresh_all :: "mcp_env \<Rightarrow> resilience \<Rightarrow> (exc + dict) \<times> resilience" where
  "refresh_all env s = (case refresh_names env (map mcp_name (filter mcp_enabled (mcp_servers (rs_world s)))) s of
     (Inl e, s1) \<Rightarrow> (Inl e, s1)
   | (Inr rs, s1) \<Rightarrow> (Inr [(''servers'', JInt (int (length rs))), (''tools'', JInt (sum_list (map tool_count_of rs))),
        (''items'', JList (map JObj rs))], s1))"

definition mcp_scope :: "string \<Rightarrow> string" where
  "mcp_scope permission = (if permission \<in> {''safe'', ''read''} then ''external.read''
     else if permission \<in> {''secret'', ''system''} then ''system.write'' else ''external.write'')"

definition mcp_tool_definition :: "mcp_descriptor \<Rightarrow> bool \<Rightarrow> tool_definition" where
  "mcp_tool_definition d available =
     (let permission = py_lower (md_permission d)
      in \<lparr>td_name = registry_name d,
          td_description = str_or (md_description d) (''MCP tool '' @ md_tool_name d @ '' from '' @ md_server_name d @ ''.''),
          td_scope = mcp_scope permission, td_requires_approval = (permission \<notin> {''safe'', ''read''}), td_available = available,
          td_parameters = normalize_json_schema (md_input_schema d),
          td_handler = Some (H_external (md_server_name d) (md_tool_name d))\<rparr>)"

definition cached_tool_definitions :: "world \<Rightarrow> tool_definition list" where
  "cached_tool_definitions w =
     (let servers = filter mcp_enabled (mcp_servers w);
          connected = map (\<lambda>v. (mcp_name v, mcp_status v = ''connected'')) servers;
          ds = concat (map (\<lambda>v. map from_cache (mcp_tools_cache v)) servers)
      in map (\<lambda>d. mcp_tool_definition d (case map_of (rev connected) (md_server_name d) of None \<Rightarrow> False | Some b \<Rightarrow> b)) ds)"

definition install_into_registry :: "registry \<times> world \<Rightarrow> dict \<times> registry \<times> world" where
  "install_into_registry rw = (case unregister_prefix True ''mcp__'' rw of (removed, rw1) \<Rightarrow>
     let ds = cached_tool_definitions (snd rw1)
     in ([(''removed'', JInt removed), (''registered'', JInt (int (length ds)))], register_many True ds rw1))"

definition mcp_call_tool :: "mcp_env \<Rightarrow> string \<Rightarrow> string \<Rightarrow> dict \<Rightarrow> resilience \<Rightarrow> (exc + dict) \<times> resilience" where
  "mcp_call_tool env server_name tool_name arguments s = (case get_mcp (rs_world s) server_name of
     None \<Rightarrow> (Inl (KeyError (''MCP server not found: '' @ server_name)), s)
   | Some server \<Rightarrow>
       if \<not> mcp_enabled server then (Inl (RuntimeError (''MCP server disabled: '' @ server_name)), s)
       else (case server_config server of
         Inl e \<Rightarrow> (Inl e, s)
       | Inr config \<Rightarrow>
           let names = [(''server'', JStr server_name), (''tool'', JStr tool_name)];
               s0 = rs_emit True ''mcp.tool.started'' names ''info'' s
           in case async_call True True (mx_call_now env (rs_world s)) (mx_fail_now env (rs_world s)) (mx_unif env)
                     (if tool_permission config tool_name \<in> {''safe'', ''read''} then tool_policy else write_tool_policy)
                     (call_tool_once env config tool_name arguments) s0 of
                (Inl e, s1) \<Rightarrow> (Inl e, rs_emit True ''mcp.tool.failed'' (names @ [(''error'', JStr (exc_str e))]) ''warning'' s1)
              | (Inr r, s1) \<Rightarrow> (Inr (serialize_mcp_result r), rs_emit True ''mcp.tool.succeeded'' names ''info'' s1)))"

text \<open>\<open>running_loop\<close>: the caller runs inside an event loop.\<close>

definition call_tool_sync :: "bool \<Rightarrow> mcp_env \<Rightarrow> string \<Rightarrow> string \<Rightarrow> dict \<Rightarrow> resilience \<Rightarrow> (exc + dict) \<times> resilience" where
  "call_tool_sync running_loop env server_name tool_name arguments s =
     (if running_loop then (Inl (RuntimeError ''MCP tools must be executed from a worker thread in the synchronous tool executor''), s)
      else mcp_call_tool env server_name tool_name arguments s)"

section \<open>Names\<close>

lemma strip_set: "set (strip_of p s) \<subseteq> set s"
  using strip_sublist [of s p] by (metis UnCI set_append subsetI)

text \<open>A token of a tool name is a short identifier: letters, digits and underscores, at least one of them, not starting
  with a digit, at most 64 characters. The registered name of an MCP tool is thus at most 135 characters long and cannot be
  the name of a built-in tool.\<close>

theorem safe_tool_token_shape:
  "safe_tool_token v \<noteq> [] \<and> list_all mcp_token_char (safe_tool_token v) \<and> \<not> is_digit (hd (safe_tool_token v))
    \<and> length (safe_tool_token v) \<le> 64 \<and> startswith (registry_name d) ''mcp__'' \<and> length (registry_name d) \<le> 135"
proof -
  define t2 where "t2 = strip_of (\<lambda>c. c = CHR ''_'') (sub_runs (\<lambda>c. c = CHR ''_'') ''_''
     (map (\<lambda>c. if mcp_token_char c then c else CHR ''_'') (py_strip v)))"
  define t3 where "t3 = (if t2 = [] then ''unnamed'' else t2)"
  have u: "mcp_token_char CHR ''_''" "\<not> is_digit CHR ''_''" by code_simp+
  have "list_all mcp_token_char (sub_runs (\<lambda>c. c = CHR ''_'') ''_'' (map (\<lambda>c. if mcp_token_char c then c else CHR ''_'') (py_strip v)))"
    using set_sub_runs [of "\<lambda>c. c = CHR ''_''" "''_''" "map (\<lambda>c. if mcp_token_char c then c else CHR ''_'') (py_strip v)"]
    by (force simp: u list_all_iff)
  then have "list_all mcp_token_char t2" using strip_set unfolding t2_def by (force simp: list_all_iff)
  moreover have "list_all mcp_token_char ''unnamed''" by code_simp
  ultimately have t3: "list_all mcp_token_char t3" "t3 \<noteq> []" by (simp_all add: t3_def)
  have e: "safe_tool_token v = take 64 (if is_digit (hd t3) then CHR ''_'' # t3 else t3)"
    by (simp add: safe_tool_token_def Let_def t2_def t3_def)
  have "list_all mcp_token_char (take 64 xs)" if "list_all mcp_token_char xs" for xs using that by (auto simp: list_all_iff dest: in_set_takeD)
  moreover have "hd (take 64 xs) = hd xs" "take 64 xs \<noteq> []" if "xs \<noteq> []" for xs :: string using that by (cases xs; simp)+
  ultimately have "safe_tool_token v \<noteq> [] \<and> list_all mcp_token_char (safe_tool_token v) \<and> \<not> is_digit (hd (safe_tool_token v))
    \<and> length (safe_tool_token v) \<le> 64" using t3 u by (simp add: e)
  moreover have "length (safe_tool_token x) \<le> 64" for x by (simp add: safe_tool_token_def Let_def)
  then have "length (registry_name d) \<le> 135"
    using add_mono [of "length (safe_tool_token (md_server_name d))" 64 "length (safe_tool_token (md_tool_name d))" 64]
    by (simp add: registry_name_def)
  ultimately show ?thesis by (simp add: registry_name_def)
qed

section \<open>The cache and the registry\<close>

lemma dstr_str: "map_of d k = Some (JStr s) \<Longrightarrow> dstr k d = s"
  by (simp add: dstr_def dstr_or_def dget_def py_str_def)

text \<open>A descriptor survives the cache column, except that an empty permission becomes \<open>write\<close>.\<close>

theorem cache_roundtrip: "from_cache (to_cache d) = d\<lparr>md_permission := str_or (md_permission d) ''write''\<rparr>"
  by (cases d) (simp add: from_cache_def to_cache_def dstr_str dstr_or_def dget_def dict_or_empty_def py_str_def str_or_def)

lemma registry_get_many:
  "registry_get (fst (register_many ev ds rw)) n =
     (case find (\<lambda>d. td_name d = n) (rev ds) of Some d \<Rightarrow> Some d | None \<Rightarrow> registry_get (fst rw) n)"
proof (induction ds arbitrary: rw)
  case (Cons d ds)
  obtain reg w where rw: "rw = (reg, w)" by fastforce
  have fa: "find P (xs @ ys) = (case find P xs of Some x \<Rightarrow> Some x | None \<Rightarrow> find P ys)" for P and xs ys :: "tool_definition list"
    by (induction xs) auto
  have "register_many ev (d # ds) rw = register_many ev ds (register ev d rw)" by (simp add: register_many_def)
  then show ?case unfolding rw
    by (simp only: Cons registry_get_register rev.simps fa) (auto split: option.split)
qed (simp add: register_many_def)

lemma registry_get_unregister:
  "registry_get (fst (snd (unregister_prefix ev p (reg, w)))) n = (if startswith n p then None else registry_get reg n)"
proof -
  have "find (\<lambda>d. td_name d = n) (filter (\<lambda>d. \<not> startswith (td_name d) p) reg)
      = (if startswith n p then None else find (\<lambda>d. td_name d = n) reg)"
    by (induction reg) auto
  then show ?thesis by (simp add: unregister_prefix_def Let_def registry_get_def get_row_def)
qed

lemma mcp_scope_gate: "py_lower p \<notin> {''safe'', ''read''} \<Longrightarrow> mcp_scope (py_lower p) \<in> set mutating_scopes"
  by (auto simp: mcp_scope_def mutating_scopes_def)

lemma install_gated:
  assumes "install_into_registry (reg, w) = (counts, reg', w')"
  shows "(\<not> startswith n ''mcp__'' \<longrightarrow> registry_get reg' n = registry_get reg n)
    \<and> (startswith n ''mcp__'' \<and> registry_get reg' n = Some t \<longrightarrow>
        (\<exists>server \<in> set (mcp_servers w). \<exists>item \<in> set (mcp_tools_cache server). mcp_enabled server
           \<and> td_handler t = Some (H_external (dstr ''server_name'' item) (dstr ''tool_name'' item))
           \<and> (td_requires_approval t \<longleftrightarrow> py_lower (dstr_or ''permission'' ''write'' item) \<notin> {''safe'', ''read''})
           \<and> (if td_requires_approval t then td_scope t \<in> set mutating_scopes else td_scope t = ''external.read'')))"
proof -
  obtain removed reg1 w1 where u: "unregister_prefix True ''mcp__'' (reg, w) = (removed, reg1, w1)" by (metis prod_cases3)
  have w1: "mcp_servers w1 = mcp_servers w"
  proof -
    have "mcp_servers (fold (\<lambda>n w. emit True ''tool.unregistered'' [(''tool_name'', JStr n)] w) ns v) = mcp_servers v" for ns v
      by (induction ns arbitrary: v) simp_all
    then show ?thesis using u by (auto simp: unregister_prefix_def Let_def)
  qed
  let ?ds = "cached_tool_definitions w1"
  have reg1: "registry_get reg1 k = (if startswith k ''mcp__'' then None else registry_get reg k)" for k
    using registry_get_unregister [of True "''mcp__''" reg w k] u by simp
  have get: "registry_get reg' k = (case find (\<lambda>d. td_name d = k) (rev ?ds) of Some d \<Rightarrow> Some d | None \<Rightarrow> registry_get reg1 k)" for k
    using registry_get_many [of True ?ds "(reg1, w1)" k] assms by (auto simp: install_into_registry_def u Let_def split: option.splits)
  have name: "startswith (td_name d) ''mcp__''" if "d \<in> set ?ds" for d
    using that by (auto simp: cached_tool_definitions_def Let_def mcp_tool_definition_def registry_name_def)
  show ?thesis
  proof (intro conjI impI)
    assume n: "\<not> startswith n ''mcp__''"
    then have "find (\<lambda>d. td_name d = n) (rev ?ds) = None" using name by (auto simp: find_None_iff)
    then show "registry_get reg' n = registry_get reg n" using n by (simp add: get reg1)
  next
    assume n: "startswith n ''mcp__'' \<and> registry_get reg' n = Some t"
    then have "find (\<lambda>d. td_name d = n) (rev ?ds) = Some t" by (auto simp: get reg1 split: option.splits)
    then have "t \<in> set ?ds" by (auto simp: find_Some_iff) (metis nth_mem set_rev length_rev)
    then obtain server item b where s: "server \<in> set (mcp_servers w)" "mcp_enabled server" "item \<in> set (mcp_tools_cache server)"
      "t = mcp_tool_definition (from_cache item) b"
      by (auto simp: cached_tool_definitions_def Let_def w1)
    have p: "md_permission (from_cache item) = dstr_or ''permission'' ''write'' item" by (simp add: from_cache_def)
    have "if td_requires_approval t then td_scope t \<in> set mutating_scopes else td_scope t = ''external.read''"
      using mcp_scope_gate [of "dstr_or ''permission'' ''write'' item"]
      by (auto simp: s(4) mcp_tool_definition_def Let_def p) (auto simp: mcp_scope_def)
    then show "\<exists>server \<in> set (mcp_servers w). \<exists>item \<in> set (mcp_tools_cache server). mcp_enabled server
           \<and> td_handler t = Some (H_external (dstr ''server_name'' item) (dstr ''tool_name'' item))
           \<and> (td_requires_approval t \<longleftrightarrow> py_lower (dstr_or ''permission'' ''write'' item) \<notin> {''safe'', ''read''})
           \<and> (if td_requires_approval t then td_scope t \<in> set mutating_scopes else td_scope t = ''external.read'')"
      using s by (intro bexI [of _ server] bexI [of _ item])
        (auto simp: mcp_tool_definition_def Let_def p from_cache_def)
  qed
qed

text \<open>C39: Installing the cached MCP tools replaces exactly the tools whose name starts with \<open>mcp__\<close>. Every installed one comes
  from the cache of an enabled server; it runs without approval only when its permission is \<open>safe\<close> or \<open>read\<close>, and
  then its scope is read-only; otherwise it requires approval and has a writing scope.\<close>

theorem installed_tools_gated:
  assumes "install_into_registry (reg, w) = (counts, reg', w')"
  shows "(\<not> startswith n ''mcp__'' \<longrightarrow> registry_get reg' n = registry_get reg n)
    \<and> (startswith n ''mcp__'' \<and> registry_get reg' n = Some t \<longrightarrow>
        (\<exists>server \<in> set (mcp_servers w). \<exists>item \<in> set (mcp_tools_cache server). mcp_enabled server
           \<and> td_handler t = Some (H_external (dstr ''server_name'' item) (dstr ''tool_name'' item))
           \<and> (td_requires_approval t \<longleftrightarrow> py_lower (dstr_or ''permission'' ''write'' item) \<notin> {''safe'', ''read''})
           \<and> (if td_requires_approval t then td_scope t \<in> set mutating_scopes else td_scope t = ''external.read'')))"
  using assms by (rule install_gated)

section \<open>Calls and refreshes\<close>

text \<open>A tool without the permission \<open>safe\<close> or \<open>read\<close> is sent to its server at most once: the outcome and the state after
  the call depend on the first attempt of the client only, however it fails.\<close>

theorem write_tool_called_once:
  assumes "get_mcp (rs_world s) server_name = Some server" and "server_config server = Inr config"
    and "tool_permission config tool_name \<notin> {''safe'', ''read''}"
    and "\<And>tp. mc_call_tool client tp tool_name arguments (mx_call_timeout env) 1 = mc_call_tool (mx_client env) tp tool_name arguments (mx_call_timeout env) 1"
  shows "mcp_call_tool (env\<lparr>mx_client := client\<rparr>) server_name tool_name arguments s = mcp_call_tool env server_name tool_name arguments s"
proof -
  have "call_tool_once (env\<lparr>mx_client := client\<rparr>) config tool_name arguments 1 = call_tool_once env config tool_name arguments 1"
    using assms(4) by (simp add: call_tool_once_def split: sum.split)
  then have "call True True now fail_now u write_tool_policy (call_tool_once (env\<lparr>mx_client := client\<rparr>) config tool_name arguments) v
      = call True True now fail_now u write_tool_policy (call_tool_once env config tool_name arguments) v" for now fail_now u v
    by (intro call_cong) (auto simp: write_tool_policy_def default_policy_def dest!: antisym)
  then show ?thesis using assms(1-3) by (simp add: mcp_call_tool_def async_call_def Let_def)
qed

lemma get_mcp_emit [simp]: "get_mcp (rs_world (rs_emit ev t p v s)) n = get_mcp (rs_world s) n"
  by (simp add: get_mcp_def rs_emit_def)

lemma rs_steps_world [simp]:
  "rs_world (put_circuit n c s) = rs_world s" "rs_world (record_observability obs p st s) = rs_world s"
  by (simp_all add: put_circuit_def record_observability_def split: prod.split)

lemma record_failure_servers [simp]: "mcp_servers (rs_world (record_failure ev obs t p e s)) = mcp_servers (rs_world s)"
  by (simp add: record_failure_def Let_def) (simp add: rs_emit_def)

lemma attempt_loop_servers: "mcp_servers (rs_world (snd (attempt_loop n ev obs t u p fn l a s))) = mcp_servers (rs_world s)"
proof (induction n arbitrary: l a s)
  case (Suc n)
  then show ?case by (auto simp: rs_emit_def split: sum.split)
qed (simp split: option.split)

lemma call_servers: "mcp_servers (rs_world (snd (call ev obs now t u p fn s))) = mcp_servers (rs_world s)"
  by (auto simp: call_def Let_def attempt_loop_servers split: option.split) (simp add: rs_emit_def)

text \<open>The row after a refresh: disabled servers lose their tools; otherwise the row shows whether discovery succeeded, and its
  cache holds exactly what was discovered.\<close>

definition refreshed :: "mcp_server \<Rightarrow> string \<Rightarrow> dict list \<Rightarrow> string \<Rightarrow> mcp_server \<Rightarrow> bool" where
  "refreshed old status cache error new = (mcp_status new = status \<and> mcp_tools_cache new = cache
     \<and> mcp_tool_count new = int (length cache) \<and> mcp_last_error new = error \<and> mcp_health_status new = health_of status
     \<and> mcp_name new = mcp_name old \<and> mcp_config new = mcp_config old \<and> mcp_enabled new = mcp_enabled old)"

lemma persist_status_row:
  assumes "get_mcp w name = Some server"
  shows "\<exists>r w' new. persist_status env name status ds error w = (Inr r, w') \<and> get_mcp w' name = Some new
    \<and> refreshed server status (map to_cache ds) error new \<and> dget ''status'' r = JStr status
    \<and> (\<forall>k. k \<noteq> name \<longrightarrow> get_mcp w' k = get_mcp w k)"
  using assms by (auto simp: persist_status_def Let_def get_mcp_def refreshed_def dget_def get_row_upd)

lemma on_rs_persist:
  assumes "get_mcp (rs_world s) name = Some server"
  shows "\<exists>r s' new. on_rs_world (persist_status env name status ds error) s = (Inr r, s') \<and> get_mcp (rs_world s') name = Some new
    \<and> refreshed server status (map to_cache ds) error new \<and> dget ''status'' r = JStr status
    \<and> (\<forall>k. k \<noteq> name \<longrightarrow> get_mcp (rs_world s') k = get_mcp (rs_world s) k)"
  using persist_status_row [OF assms, of env status ds error] by (auto simp: on_rs_world_def)

text \<open>A refresh of a known server with a readable command always returns, whatever the server does, and records the outcome:
  \<open>disabled\<close>, \<open>connected\<close> with the tools that an attempt discovered, or \<open>failed\<close> with no tools. Other servers keep their
  rows.\<close>

theorem refresh_records_outcome:
  assumes "get_mcp (rs_world s) name = Some server" and "server_config server = Inr config"
  shows "\<exists>r s' new. refresh_server env name s = (Inr r, s') \<and> get_mcp (rs_world s') name = Some new
    \<and> dget ''status'' r = JStr (mcp_status new)
    \<and> (if \<not> mcp_enabled server then refreshed server ''disabled'' [] '''' new
       else (\<exists>k ds. mcp_discover env config k = Inr ds \<and> refreshed server ''connected'' (map to_cache ds) '''' new)
          \<or> (\<exists>e. refreshed server ''failed'' [] e new))
    \<and> (\<forall>k. k \<noteq> name \<longrightarrow> get_mcp (rs_world s') k = get_mcp (rs_world s) k)"
proof (cases "mcp_enabled server")
  case False
  then show ?thesis using on_rs_persist [OF assms(1), of env "''disabled''" "[]" "''''"] assms
    by (auto simp: refresh_server_def refreshed_def)
next
  case True
  let ?call = "async_call True True (mx_call_now env (rs_world s)) (mx_fail_now env (rs_world s)) (mx_unif env) discovery_policy (mcp_discover env config) s"
  obtain x s1 where c: "?call = (x, s1)" by fastforce
  then have same: "get_mcp (rs_world s1) k = get_mcp (rs_world s) k" for k
    using call_servers [of True True "mx_call_now env (rs_world s)" "mx_fail_now env (rs_world s)" "mx_unif env" discovery_policy "mcp_discover env config" s]
    by (simp add: async_call_def get_mcp_def)
  show ?thesis
  proof (cases x)
    case (Inl e)
    let ?s2 = "rs_emit True ''mcp.discovery.failed'' [(''server'', JStr name), (''error'', JStr (exc_str e))] ''warning'' s1"
    have "get_mcp (rs_world ?s2) name = Some server" using same assms(1) by simp
    from on_rs_persist [OF this, of env "''failed''" "[]" "exc_str e"] obtain r s' new where
      p: "on_rs_world (persist_status env name ''failed'' [] (exc_str e)) ?s2 = (Inr r, s')" "get_mcp (rs_world s') name = Some new"
        "refreshed server ''failed'' [] (exc_str e) new" "dget ''status'' r = JStr ''failed''"
        "\<forall>k. k \<noteq> name \<longrightarrow> get_mcp (rs_world s') k = get_mcp (rs_world s) k"
      using same by auto
    have "refresh_server env name s = (Inr r, s')" using p(1) assms True c Inl by (simp add: refresh_server_def)
    then show ?thesis using p True by (auto simp: refreshed_def)
  next
    case (Inr ds)
    obtain k where k: "mcp_discover env config k = Inr ds" using call_returned c Inr unfolding async_call_def by metis
    have "get_mcp (rs_world s1) name = Some server" using same assms(1) by simp
    from on_rs_persist [OF this, of env "''connected''" ds "''''"] obtain r s' new where
      p: "on_rs_world (persist_status env name ''connected'' ds '''') s1 = (Inr r, s')" "get_mcp (rs_world s') name = Some new"
        "refreshed server ''connected'' (map to_cache ds) '''' new" "dget ''status'' r = JStr ''connected''"
        "\<forall>k. k \<noteq> name \<longrightarrow> get_mcp (rs_world s') k = get_mcp (rs_world s) k"
      using same by auto
    let ?s3 = "rs_emit True ''mcp.discovery.succeeded'' [(''server'', JStr name), (''tool_count'', dget ''tool_count'' r)] ''info'' s'"
    have "refresh_server env name s = (Inr r, ?s3)" using p(1) assms True c Inr by (simp add: refresh_server_def)
    then show ?thesis using p True k by (intro exI [of _ r] exI [of _ ?s3] exI [of _ new]) (auto simp: refreshed_def)
  qed
qed

text \<open>One enabled server whose command cannot be split (an unbalanced quote) makes the refresh of all servers raise; the
  servers after it are not refreshed.\<close>

theorem bad_command_aborts_refresh:
  assumes "map mcp_name (filter mcp_enabled (mcp_servers (rs_world s))) = name # rest"
    and "get_mcp (rs_world s) name = Some server" and "server_config server = Inl e"
  shows "refresh_all env s = (Inl e, s)"
  using assms by (simp add: refresh_all_def refresh_server_def)

section \<open>A small installation\<close>

definition files_server :: mcp_server where
  "files_server = (new_mcp ''files'')\<lparr>mcp_transport := ''stdio'', mcp_command := ''run \"a b\"'', mcp_enabled := True,
     mcp_permission_policy := [(''override_permission'', JObj [(''list'', JStr ''read'')])]\<rparr>"

definition mcp_state :: "mcp_server \<Rightarrow> resilience" where
  "mcp_state server = \<lparr>rs_states = [], rs_external = [], rs_world = empty_world\<lparr>mcp_servers := [server]\<rparr>\<rparr>"

definition sample_mcp_env :: mcp_env where
  "sample_mcp_env = \<lparr>mx_client = \<lparr>mc_list_tools = (\<lambda>_ _. Inr [\<lparr>mt_name = ''list'', mt_description = '''', mt_input_schema = JNull\<rparr>,
         \<lparr>mt_name = ''delete'', mt_description = '''', mt_input_schema = JNull\<rparr>]),
       mc_call_tool = (\<lambda>_ _ _ _ k. if k = 1 then Inl (TransportError ''lost'')
         else Inr \<lparr>mr_content = [], mr_is_error = False, mr_structured = JNull\<rparr>)\<rparr>,
     mx_call_timeout = 60, mx_now = (\<lambda>_. 5), mx_call_now = (\<lambda>_. 5), mx_fail_now = (\<lambda>_. 5), mx_unif = (\<lambda>_ lo _. lo)\<rparr>"

definition refreshed_state :: resilience where
  "refreshed_state = snd (refresh_server sample_mcp_env ''files'' (mcp_state files_server))"

theorem refresh_records_outcome_witness:
  "map_option mcp_status (get_mcp (rs_world refreshed_state) ''files'') \<in> {Some ''connected'', Some ''failed''}"
proof -
  have g: "get_mcp (rs_world (mcp_state files_server)) ''files'' = Some files_server" by code_simp
  have "\<not> isl (server_config files_server)" by code_simp
  then obtain config where "server_config files_server = Inr config" by (metis sum.collapse(2))
  from refresh_records_outcome [OF g this, of sample_mcp_env] show ?thesis
    by (auto simp: refreshed_state_def refreshed_def files_server_def split: if_splits)
qed

theorem installed_tools_gated_witness:
  "\<exists>t. registry_get (fst (snd (install_into_registry ([], rs_world refreshed_state)))) ''mcp__files__delete'' = Some t
    \<and> td_requires_approval t \<and> td_scope t \<in> set mutating_scopes"
proof -
  let ?r = "install_into_registry ([], rs_world refreshed_state)"
  obtain counts reg' w' where r: "?r = (counts, reg', w')" by (metis prod_cases3)
  have "map_option td_requires_approval (registry_get (fst (snd ?r)) ''mcp__files__delete'') = Some True" by code_simp
  then obtain t where t: "registry_get reg' ''mcp__files__delete'' = Some t" "td_requires_approval t" using r by auto
  have "startswith ''mcp__files__delete'' ''mcp__''" by code_simp
  then show ?thesis using installed_tools_gated [OF r, of "''mcp__files__delete''" t] t by (auto simp: r)
qed

theorem write_tool_called_once_witness:
  "tool_permission (projr (server_config files_server)) ''delete'' \<notin> {''safe'', ''read''}
    \<and> mcp_call_tool (sample_mcp_env\<lparr>mx_client := (mx_client sample_mcp_env)\<lparr>mc_call_tool := \<lambda>_ _ _ _ _. Inl (TransportError ''lost'')\<rparr>\<rparr>)
        ''files'' ''delete'' [] (mcp_state files_server)
      = mcp_call_tool sample_mcp_env ''files'' ''delete'' [] (mcp_state files_server)"
proof
  show p: "tool_permission (projr (server_config files_server)) ''delete'' \<notin> {''safe'', ''read''}" by code_simp
  have g: "get_mcp (rs_world (mcp_state files_server)) ''files'' = Some files_server" by code_simp
  have "\<not> isl (server_config files_server)" by code_simp
  then have c: "server_config files_server = Inr (projr (server_config files_server))" by simp
  show "mcp_call_tool (sample_mcp_env\<lparr>mx_client := (mx_client sample_mcp_env)\<lparr>mc_call_tool := \<lambda>_ _ _ _ _. Inl (TransportError ''lost'')\<rparr>\<rparr>)
        ''files'' ''delete'' [] (mcp_state files_server)
      = mcp_call_tool sample_mcp_env ''files'' ''delete'' [] (mcp_state files_server)"
    by (rule write_tool_called_once [OF g c p]) (simp add: sample_mcp_env_def)
qed

theorem bad_command_aborts_refresh_witness:
  "fst (refresh_all sample_mcp_env (mcp_state (files_server\<lparr>mcp_command := ''run \"a''\<rparr>))) = Inl (ValueError ''No closing quotation'')"
proof -
  let ?v = "files_server\<lparr>mcp_command := ''run \"a''\<rparr>"
  have "map mcp_name (filter mcp_enabled (mcp_servers (rs_world (mcp_state ?v)))) = [''files'']" by code_simp
  moreover have "get_mcp (rs_world (mcp_state ?v)) ''files'' = Some ?v" by code_simp
  moreover have "server_config ?v = Inl (ValueError ''No closing quotation'')" by code_simp
  ultimately show ?thesis using bad_command_aborts_refresh [of "mcp_state ?v" "''files''" "[]" ?v] by simp
qed

end
