(* ===== verification/Content_Routes.thy ===== *)
theory Content_Routes
  imports Admin A2A Mcp
begin

text \<open>
  The content routes of the admin API: \<open>backend/api/admin/memory.py\<close>, \<open>skills.py\<close>, \<open>wiki.py\<close> and \<open>a2a.py\<close>, and the two routes of
  \<open>control.py\<close> that refresh MCP servers.

  The routes of memories, skills and the wiki work on the world like those of \<open>Admin\<close>. The routes of A2A and MCP work on the state of
  the resilience manager: a failed request rolls its world back and keeps the circuits, which are in memory. An MCP refresh has database
  sessions of its own, so that a failed request only takes back the events, which are bound to the session of the request.
\<close>

section \<open>Environment\<close>

record content_env =
  ct_admin :: admin_env
  ct_wiki :: "world \<Rightarrow> wiki_env"
  ct_a2a :: a2a_env
  ct_mcp :: mcp_env
  ct_public_auth :: bool
  ct_public_key :: string
  ct_base_url :: string
  ct_host :: string
  ct_port :: int

abbreviation hidden_of :: "content_env \<Rightarrow> hidden_columns" where
  "hidden_of env \<equiv> aq_hidden (ct_admin env)"

definition mem_of :: "content_env \<Rightarrow> world \<Rightarrow> mem_env" where
  "mem_of env w = eo_mem (aq_evolution (ct_admin env) w)"

definition skill_of :: "content_env \<Rightarrow> world \<Rightarrow> skill_env" where
  "skill_of env w = eo_skill (aq_evolution (ct_admin env) w)"

definition given_str :: "string option \<Rightarrow> string" where
  "given_str s = (case s of None \<Rightarrow> [] | Some x \<Rightarrow> x)"

abbreviation no_codes :: "exc \<Rightarrow> int option" where
  "no_codes \<equiv> (\<lambda>_. None)"

section \<open>Memories\<close>

text \<open>The response for a memory a service returned: the row as it is when the response is written.\<close>

definition memory_response :: "content_env \<Rightarrow> uuid \<Rightarrow> dict route" where
  "memory_response env i = respond (\<lambda>w. row_dict (memory_to_dict (hidden_of env)) (get_row me_id i (memories w)))"

definition list_memory_route :: "content_env \<Rightarrow> string option \<Rightarrow> bool \<Rightarrow> int \<Rightarrow> dict route" where
  "list_memory_route env kind include_archived limit =
     respond (\<lambda>w. items (map (memory_to_dict (hidden_of env)) (memory_list w (given_str kind) include_archived limit)))"

definition create_memory_route :: "content_env \<Rightarrow> memory_args \<Rightarrow> dict route" where
  "create_memory_route env a w = (case memory_create (mem_of env w) a w of (m, w1) \<Rightarrow> memory_response env (me_id m) w1)"

definition memory_hit_item :: "content_env \<Rightarrow> memory_hit \<Rightarrow> dict" where
  "memory_hit_item env h = (let m = hit_memory h in
     [(''score'', JFloat (hit_score h)), (''source'', JStr (hit_source h)), (''match_reasons'', strs (hit_reasons h)),
      (''snippet'', JStr (hit_snippet h)), (''id'', JStr (me_id m)), (''kind'', JStr (me_kind m)),
      (''summary'', JStr (take 500 (me_content m))), (''memory'', JObj (memory_to_dict (hidden_of env) m))])"

definition search_memory_route :: "content_env \<Rightarrow> string \<Rightarrow> int \<Rightarrow> dict route" where
  "search_memory_route env query limit w = (case memory_search (mem_of env w) query limit w of
     (hits, w1) \<Rightarrow> (Inr (items (map (memory_hit_item env) hits)), w1))"

definition search_status_route :: "content_env \<Rightarrow> dict route" where
  "search_status_route env = respond (\<lambda>w. fts_status (mem_of env w) w)"

definition refresh_search_index_route :: "content_env \<Rightarrow> dict route" where
  "refresh_search_index_route env w = (case refresh_fts (mem_of env w) w of (d, w1) \<Rightarrow> (Inr d, w1))"

definition governance_route :: "content_env \<Rightarrow> int \<Rightarrow> dict route" where
  "governance_route env budget_chars = respond (\<lambda>w. governance_status (mem_of env w) budget_chars w)"

definition sync_memory_file_route :: "content_env \<Rightarrow> dict route" where
  "sync_memory_file_route env w = http no_codes (sync_from_memory_file (mem_of env w)) w"

definition get_memory_route :: "content_env \<Rightarrow> uuid \<Rightarrow> dict route" where
  "get_memory_route env i w = (case get_row me_id i (memories w) of
     None \<Rightarrow> (Inl (HTTPException 404 ''memory not found''), w) | Some m \<Rightarrow> (Inr (memory_to_dict (hidden_of env) m), w))"

definition memory_history_route :: "uuid option \<Rightarrow> int \<Rightarrow> dict route" where
  "memory_history_route i limit = respond (\<lambda>w. items (map memory_history_to_dict (memory_history_list w i limit)))"

definition changed_memory :: "content_env \<Rightarrow> (exc \<Rightarrow> int option) \<Rightarrow> (mem_env \<Rightarrow> memory op) \<Rightarrow> dict route" where
  "changed_memory env codes f = route_then (\<lambda>w. http codes (f (mem_of env w)) w) (\<lambda>m. memory_response env (me_id m))"

definition restore_route :: "content_env \<Rightarrow> uuid \<Rightarrow> dict route" where
  "restore_route env history_id = changed_memory env service_codes (\<lambda>mv. memory_restore mv history_id ''admin'')"

text \<open>\<open>payload.model_dump(exclude_none=True)\<close>.\<close>

record supersede_request =
  suq_content :: string
  suq_kind :: "string option"
  suq_source :: string
  suq_pinned :: "bool option"
  suq_importance :: "rat option"
  suq_confidence :: "rat option"
  suq_stability :: "rat option"
  suq_metadata :: dict

definition given :: "string \<Rightarrow> ('a \<Rightarrow> json) \<Rightarrow> 'a option \<Rightarrow> dict" where
  "given key f v = (case v of None \<Rightarrow> [] | Some x \<Rightarrow> [(key, f x)])"

definition supersede_payload :: "supersede_request \<Rightarrow> dict" where
  "supersede_payload q = [(''content'', JStr (suq_content q))] @ given ''kind'' JStr (suq_kind q) @ [(''source'', JStr (suq_source q))]
     @ given ''pinned'' JBool (suq_pinned q) @ given ''importance'' JFloat (suq_importance q)
     @ given ''confidence'' JFloat (suq_confidence q) @ given ''stability'' JFloat (suq_stability q) @ [(''metadata'', JObj (suq_metadata q))]"

definition supersede_route :: "content_env \<Rightarrow> uuid \<Rightarrow> supersede_request \<Rightarrow> dict route" where
  "supersede_route env i q = changed_memory env key_codes (\<lambda>mv. memory_supersede mv i (supersede_payload q))"

definition verify_memory_route :: "content_env \<Rightarrow> uuid \<Rightarrow> pyfloat \<Rightarrow> dict route" where
  "verify_memory_route env i confidence_delta = changed_memory env key_codes (\<lambda>mv. mark_verified mv i confidence_delta)"

definition archive_memory_route :: "content_env \<Rightarrow> uuid \<Rightarrow> dict route" where
  "archive_memory_route env i = changed_memory env key_codes (\<lambda>mv. memory_archive mv i)"

definition conflicts_route :: "content_env \<Rightarrow> string option \<Rightarrow> int \<Rightarrow> dict route" where
  "conflicts_route env status limit =
     respond (\<lambda>w. items (map (conflict_to_dict (hidden_of env)) (list_conflicts w (given_str status) limit)))"

definition probes_route :: "content_env \<Rightarrow> string option \<Rightarrow> int \<Rightarrow> dict route" where
  "probes_route env status limit = respond (\<lambda>w. items (map (probe_to_dict (hidden_of env)) (list_probes w (given_str status) limit)))"

definition create_probe_route :: "content_env \<Rightarrow> string \<Rightarrow> string \<Rightarrow> dict route" where
  "create_probe_route env question expected w = (case create_probe (mem_of env w) question expected w of
     (i, w1) \<Rightarrow> (Inr (row_dict (probe_to_dict (hidden_of env)) (get_row mp_id i (memory_probes w1))), w1))"

section \<open>Skills\<close>

definition list_skills_route :: "content_env \<Rightarrow> string option \<Rightarrow> int \<Rightarrow> dict route" where
  "list_skills_route env status limit = respond (\<lambda>w. items (map (skill_to_dict (hidden_of env)) (skill_list w (given_str status) limit)))"

definition scan_skills_route :: "content_env \<Rightarrow> dict route" where
  "scan_skills_route env = route_then (\<lambda>w. http no_codes (skill_scan (skill_of env w)) w)
     (\<lambda>n. respond (\<lambda>_. [(''skills'', JInt n), (''index'', JStr ''file_mirror'')]))"

definition proposals_route :: "content_env \<Rightarrow> string option \<Rightarrow> int \<Rightarrow> dict route" where
  "proposals_route env status limit =
     respond (\<lambda>w. items (map (proposal_to_dict (hidden_of env)) (list_proposals w (given_str status) limit)))"

definition proposal_response :: "content_env \<Rightarrow> uuid \<Rightarrow> dict route" where
  "proposal_response env i = respond (\<lambda>w. row_dict (proposal_to_dict (hidden_of env)) (get_row ep_id i (evolution_proposals w)))"

record proposal_request =
  prq_target_type :: string
  prq_action :: string
  prq_risk_level :: string
  prq_payload :: dict
  prq_evidence :: dict

definition create_proposal_route :: "content_env \<Rightarrow> proposal_request \<Rightarrow> dict route" where
  "create_proposal_route env q =
     route_then (\<lambda>w. http no_codes (create_proposal (skill_of env w) (prq_target_type q) (prq_action q) (prq_payload q)
         (prq_evidence q) (prq_risk_level q)) w) (\<lambda>p. proposal_response env (ep_id p))"

definition apply_skill_proposal_route :: "content_env \<Rightarrow> uuid \<Rightarrow> user \<Rightarrow> dict route" where
  "apply_skill_proposal_route env i u =
     route_then (\<lambda>w. http service_codes (skill_apply_proposal (skill_of env w) i (us_username u)) w) (proposal_response env)"

definition reject_proposal_route :: "content_env \<Rightarrow> uuid \<Rightarrow> string \<Rightarrow> user \<Rightarrow> dict route" where
  "reject_proposal_route env i reason u =
     route_then (\<lambda>w. http service_codes (evolution_reject (aq_evolution (ct_admin env) w) i (us_username u) reason) w) (proposal_response env)"

definition test_dict :: "test_payload \<Rightarrow> dict" where
  "test_dict p = [(''ok'', JBool (tp_ok p)), (''errors'', strs (tp_errors p)), (''warnings'', strs (tp_warnings p)),
     (''tests'', JList (map JObj (tp_tests p))),
     (''required_checks'', strs [''frontmatter'', ''required_tools'', ''static_safety_scan'', ''safe_manifest_test_cases''])]"

definition test_skill_route :: "content_env \<Rightarrow> string \<Rightarrow> dict route" where
  "test_skill_route env skill_key =
     route_then (\<lambda>w. http no_codes (skill_test_run (skill_of env w) skill_key) w) (\<lambda>p. respond (\<lambda>_. test_dict p))"

definition rollback_skill_route :: "content_env \<Rightarrow> string \<Rightarrow> user \<Rightarrow> dict route" where
  "rollback_skill_route env skill_key u =
     route_then (\<lambda>w. http key_codes (skill_rollback (skill_of env w) skill_key (us_username u)) w) (\<lambda>restored. respond (\<lambda>_.
       [(''ok'', JBool True), (''skill_key'', JStr (normalize_skill_key skill_key)), (''restored_files'', strs restored)]))"

definition get_skill_route :: "content_env \<Rightarrow> string \<Rightarrow> dict route" where
  "get_skill_route env skill_key w = (case skill_get w skill_key of
     None \<Rightarrow> (Inl (HTTPException 404 ''skill not found''), w)
   | Some s \<Rightarrow> (Inr (dset ''files'' (JList (map (JObj \<circ> skill_file_to_dict (hidden_of env)) (skill_files_of w skill_key)))
       (skill_to_dict (hidden_of env) s)), w))"

section \<open>The wiki\<close>

definition pages_route :: "content_env \<Rightarrow> int \<Rightarrow> dict route" where
  "pages_route env limit = respond (\<lambda>w. items (map (wiki_page_to_dict (hidden_of env)) (list_pages limit w)))"

definition read_page_route :: "content_env \<Rightarrow> string \<Rightarrow> dict route" where
  "read_page_route env page_key w = (case read_page page_key w of
     None \<Rightarrow> (Inl (HTTPException 404 ''page not found''), w)
   | Some p \<Rightarrow> (case read_with_graph page_key w of
       None \<Rightarrow> (Inr (dmerge (wiki_page_to_dict (hidden_of env) p)
           [(''body'', JStr (wpg_body p)), (''outlinks'', JList []), (''backlinks'', JList [])]), w)
     | Some (_, outs, backs) \<Rightarrow> (Inr (dmerge (wiki_page_to_dict (hidden_of env) p)
           [(''body'', JStr (wpg_body p)), (''outlinks'', JList (map JObj outs)), (''backlinks'', JList (map JObj backs))]), w)))"

definition orient_route :: "content_env \<Rightarrow> dict route" where
  "orient_route env = respond (\<lambda>w. orientation (ct_wiki env w) 40 w)"

definition links_route :: "string \<Rightarrow> string \<Rightarrow> int \<Rightarrow> dict route" where
  "links_route page_key direction limit = route_then (http value_codes (\<lambda>w. (follow_links page_key direction limit w, w)))
     (\<lambda>links. respond (\<lambda>_. items links))"

definition route_query_route :: "content_env \<Rightarrow> string \<Rightarrow> int \<Rightarrow> dict route" where
  "route_query_route env query limit = respond (\<lambda>w. route_query (ct_wiki env w) query limit w)"

definition browse_route :: "string \<Rightarrow> string \<Rightarrow> int \<Rightarrow> dict route" where
  "browse_route path_prefix page_type limit = respond (browse_wiki path_prefix page_type limit)"

definition search_wiki_route :: "content_env \<Rightarrow> string \<Rightarrow> int \<Rightarrow> string \<Rightarrow> string \<Rightarrow> bool \<Rightarrow> dict route" where
  "search_wiki_route env q limit strategy path_prefix include_constraints =
     respond (\<lambda>w. items (map (\<lambda>h. wiki_hit_dict h @ [(''page'', JObj (wiki_page_to_dict (hidden_of env) (wh_page h)))])
       (search_wiki (ct_wiki env w) q limit strategy path_prefix include_constraints w)))"

text \<open>\<open>compile\<close>, \<open>lint\<close> and \<open>repair\<close> queue a job or run in the request.\<close>

definition queued_route :: "content_env \<Rightarrow> string \<Rightarrow> dict \<Rightarrow> user \<Rightarrow> dict route" where
  "queued_route env task_name payload u =
     route_then (enqueue_route (ct_admin env) task_name payload (us_username u)) (\<lambda>i. respond (\<lambda>w.
       [(''requested_by'', JStr (us_username u)), (''job'', JObj (job_dict i w))]))"

definition direct_route :: "content_env \<Rightarrow> (wiki_env \<Rightarrow> dict op) \<Rightarrow> user \<Rightarrow> dict route" where
  "direct_route env f u = route_then (\<lambda>w. http no_codes (f (ct_wiki env w)) w)
     (\<lambda>d. respond (\<lambda>_. dmerge [(''requested_by'', JStr (us_username u))] d))"

definition compile_route :: "content_env \<Rightarrow> bool \<Rightarrow> user \<Rightarrow> dict route" where
  "compile_route env enqueue u =
     (if enqueue then queued_route env ''wiki_compile'' [] u else direct_route env compile_wiki u)"

definition lint_route :: "content_env \<Rightarrow> bool \<Rightarrow> user \<Rightarrow> dict route" where
  "lint_route env enqueue u = (if enqueue then queued_route env ''wiki_lint'' [] u else direct_route env lint_wiki u)"

definition repair_route :: "content_env \<Rightarrow> bool \<Rightarrow> bool \<Rightarrow> string list \<Rightarrow> user \<Rightarrow> dict route" where
  "repair_route env enqueue apply_safe error_ids u =
     (if enqueue then queued_route env ''wiki_repair'' [(''apply_safe'', JBool apply_safe), (''error_ids'', strs error_ids)] u
      else direct_route env (\<lambda>wk. repair_wiki wk apply_safe error_ids ''wiki_repair'') u)"

definition wiki_health_route :: "content_env \<Rightarrow> dict route" where
  "wiki_health_route env = respond (\<lambda>w. wiki_health (ct_wiki env w) w)"

definition quality_route :: "content_env \<Rightarrow> dict route" where
  "quality_route env = respond (\<lambda>w. quality_summary (ct_wiki env w) w)"

definition errors_route :: "string option \<Rightarrow> int \<Rightarrow> dict route" where
  "errors_route status limit = respond (\<lambda>w. items (map wiki_error_to_dict (error_book (given_str status) limit w)))"

section \<open>A2A\<close>

type_synonym 'a rs_route = "resilience \<Rightarrow> (api_error + 'a) \<times> resilience"

definition rs_db :: "'a rs_route \<Rightarrow> 'a rs_route" where
  "rs_db route s = (case route s of
     (Inr d, s') \<Rightarrow> (Inr d, s') | (Inl e, s') \<Rightarrow> (Inl e, rs_with s' (rollback True (rs_world s) (rs_world s'))))"

definition rs_authenticated :: "content_env \<Rightarrow> string option \<Rightarrow> (user \<Rightarrow> 'a rs_route) \<Rightarrow> 'a rs_route" where
  "rs_authenticated env credentials route = rs_db (\<lambda>s.
     case get_current_user (aq_jwt (ct_admin env)) (aq_security (ct_admin env)) credentials (rs_world s) of
       Inl e \<Rightarrow> (Inl e, s) | Inr u \<Rightarrow> route u s)"

definition rs_http :: "(exc \<Rightarrow> int option) \<Rightarrow> (resilience \<Rightarrow> (exc + 'a) \<times> resilience) \<Rightarrow> 'a rs_route" where
  "rs_http codes body s = (case body s of (Inr x, s') \<Rightarrow> (Inr x, s') | (Inl e, s') \<Rightarrow> (Inl (http_error codes e), s'))"

definition a2a_codes :: "exc \<Rightarrow> int option" where
  "a2a_codes e = (if is_key_error e then Some 404 else if is_runtime_error e then Some 400 else None)"

definition own_card :: "content_env \<Rightarrow> dict" where
  "own_card env = own_agent_card (ct_base_url env) (ct_host env) (ct_port env)"

definition a2a_public_authorized :: "content_env \<Rightarrow> string option \<Rightarrow> string option \<Rightarrow> bool" where
  "a2a_public_authorized env authorization api_key =
     (if \<not> ct_public_auth env then True
      else if ct_public_key env = [] then False
      else let auth = given_str authorization;
               token = (if startswith (py_lower auth) ''bearer '' then py_strip (split_max 1 CHR '' '' auth ! 1) else given_str api_key)
           in token = ct_public_key env)"

text \<open>\<open>POST /api/a2a\<close>: no login, but the public key.\<close>

definition a2a_jsonrpc_route :: "content_env \<Rightarrow> string option \<Rightarrow> string option \<Rightarrow> string option \<Rightarrow> dict \<Rightarrow> dict rs_route" where
  "a2a_jsonrpc_route env authorization a2a_version api_key payload = rs_db (\<lambda>s.
     if dget ''jsonrpc'' payload \<noteq> JStr ''2.0''
     then (Inr (jsonrpc_error (dget ''id'' payload) (-32600) ''invalid JSON-RPC request''), s)
     else if a2a_version \<noteq> Some ''1.0''
     then (Inr (jsonrpc_error (dget ''id'' payload) (-32600) ''A2A-Version header must be 1.0''), s)
     else if \<not> a2a_public_authorized env authorization api_key
     then (Inr (jsonrpc_error (dget ''id'' payload) (-32003) ''A2A public API authentication required''), s)
     else (case handle_jsonrpc (ct_a2a env) (own_card env) payload s of (d, s1) \<Rightarrow> (Inr d, s1)))"

definition connections_route :: "content_env \<Rightarrow> bool option \<Rightarrow> string option \<Rightarrow> dict route" where
  "connections_route env enabled kind =
     respond (\<lambda>w. items (map (a2a_connection_to_dict (hidden_of env)) (list_connections enabled (given_str kind) 500 w)))"

definition upsert_connection_route :: "content_env \<Rightarrow> a2a_conn_request \<Rightarrow> dict route" where
  "upsert_connection_route env q = route_then (http value_codes (upsert_connection True q)) (\<lambda>name. respond (\<lambda>w.
     row_dict (a2a_connection_to_dict (hidden_of env)) (get_a2a_conn w name)))"

definition discover_route :: "content_env \<Rightarrow> string \<Rightarrow> dict rs_route" where
  "discover_route env name s = (case rs_http a2a_codes (discover (ct_a2a env) name) s of
     (Inl e, s1) \<Rightarrow> (Inl e, s1) | (Inr d, s1) \<Rightarrow> (Inr [(''agent_card'', JObj d)], s1))"

definition delegate_route :: "content_env \<Rightarrow> delegate_request \<Rightarrow> user \<Rightarrow> dict rs_route" where
  "delegate_route env q u s =
     (if a2a_requires_approval (dr_capability q) (dr_options q)
      then (Inl (HTTPException 409 ''A2A delegation requires approval through the tool surface''), s)
      else (case rs_http a2a_codes (delegate (ct_a2a env) q) s of
         (Inl e, s1) \<Rightarrow> (Inl e, s1) | (Inr d, s1) \<Rightarrow> (Inr (dset ''requested_by'' (JStr (us_username u)) d), s1)))"

definition tasks_route :: "content_env \<Rightarrow> string option \<Rightarrow> string option \<Rightarrow> dict route" where
  "tasks_route env status connection_name = respond (\<lambda>w. items (map (a2a_task_to_dict (hidden_of env) None None)
     (list_tasks (given_str status) (given_str connection_name) 500 w)))"

definition no_task :: "string \<Rightarrow> api_error" where
  "no_task i = HTTPException 404 (''A2A task not found: '' @ i)"

definition task_route :: "content_env \<Rightarrow> string \<Rightarrow> dict route" where
  "task_route env i w = (case get_task_by_any_id w i of
     None \<Rightarrow> (Inl (no_task i), w)
   | Some t \<Rightarrow> (Inr (a2a_task_to_dict (hidden_of env) (Some (list_artifacts w (at_task_id t)))
       (Some (list_events (at_task_id t) 0 200 w)) t), w))"

definition cancel_task_route :: "content_env \<Rightarrow> string \<Rightarrow> dict rs_route" where
  "cancel_task_route env i = rs_http key_codes (cancel_task (ct_a2a env) i)"

text \<open>One server-sent event per stored event.\<close>

definition sse_block :: "a2a_event \<Rightarrow> string" where
  "sse_block e = ''id: '' @ int_str (av_sequence e) @ [newline] @ ''event: '' @ av_event_type e @ [newline] @ ''data: ''
     @ json_dumps (JObj [(''type'', JStr (av_event_type e)), (''sequence'', JInt (av_sequence e)), (''data'', JObj (av_payload e))])
     @ [newline, newline]"

definition stream_task_events_route :: "string \<Rightarrow> int \<Rightarrow> string list route" where
  "stream_task_events_route i after_sequence w = (case get_task_by_any_id w i of
     None \<Rightarrow> (Inl (no_task i), w) | Some t \<Rightarrow> (Inr (map sse_block (list_events (at_task_id t) after_sequence 200 w)), w))"

section \<open>Refreshing MCP servers\<close>

definition events_rolled_back :: "world \<Rightarrow> world \<Rightarrow> world" where
  "events_rolled_back w w' = w'\<lparr>runtime_events := runtime_events w, audit_events := audit_events w\<rparr>"

definition refresh_route ::
  "(exc \<Rightarrow> int option) \<Rightarrow> (resilience \<Rightarrow> (exc + dict) \<times> resilience) \<Rightarrow> registry \<times> resilience \<Rightarrow> (api_error + dict) \<times> registry \<times> resilience" where
  "refresh_route codes refresh = (\<lambda>(reg, s). case refresh s of
     (Inl e, s1) \<Rightarrow> (Inl (http_error codes e), reg, rs_with s1 (events_rolled_back (rs_world s) (rs_world s1)))
   | (Inr d, s1) \<Rightarrow> (case install_into_registry (reg, rs_world s1) of (counts, reg', w') \<Rightarrow>
       (Inr (dset ''registry'' (JObj counts) d), reg', rs_with s1 w')))"

definition refresh_mcp_route :: "content_env \<Rightarrow> registry \<times> resilience \<Rightarrow> (api_error + dict) \<times> registry \<times> resilience" where
  "refresh_mcp_route env = refresh_route no_codes (refresh_all (ct_mcp env))"

definition refresh_mcp_server_route :: "content_env \<Rightarrow> string \<Rightarrow> registry \<times> resilience \<Rightarrow> (api_error + dict) \<times> registry \<times> resilience" where
  "refresh_mcp_server_route env name = refresh_route key_codes (refresh_server (ct_mcp env) name)"

section \<open>All content routes\<close>

datatype content_request =
    List_Memory "string option" bool int | Create_Memory memory_args | Search_Memory string int | Search_Status | Refresh_Search_Index
  | Governance int | Sync_Memory_File | Get_Memory uuid | Memory_History "uuid option" int | Restore_Memory uuid
  | Supersede_Memory uuid supersede_request | Verify_Memory uuid pyfloat | Archive_Memory uuid
  | List_Conflicts "string option" int | List_Probes "string option" int | Create_Probe string string
  | List_Skills "string option" int | Scan_Skills | List_Proposals "string option" int | Create_Proposal proposal_request
  | Apply_Skill_Proposal uuid | Reject_Proposal uuid string | Test_Skill string | Rollback_Skill string | Get_Skill string
  | List_Pages int | Read_Page string | Orient | Links string string int | Route_Query string int | Browse string string int
  | Search_Wiki string int string string bool | Compile_Wiki bool | Lint_Wiki bool | Repair_Wiki bool bool "string list"
  | Wiki_Health | Wiki_Quality | Wiki_Errors "string option" int
  | List_Connections "bool option" "string option" | Upsert_Connection a2a_conn_request
  | List_Tasks "string option" "string option" | Get_Task string

fun handle_content :: "content_env \<Rightarrow> user \<Rightarrow> content_request \<Rightarrow> dict route" where
  "handle_content env u (List_Memory kind include_archived limit) = list_memory_route env kind include_archived limit"
| "handle_content env u (Create_Memory a) = create_memory_route env a"
| "handle_content env u (Search_Memory query limit) = search_memory_route env query limit"
| "handle_content env u Search_Status = search_status_route env"
| "handle_content env u Refresh_Search_Index = refresh_search_index_route env"
| "handle_content env u (Governance budget_chars) = governance_route env budget_chars"
| "handle_content env u Sync_Memory_File = sync_memory_file_route env"
| "handle_content env u (Get_Memory i) = get_memory_route env i"
| "handle_content env u (Memory_History i limit) = memory_history_route i limit"
| "handle_content env u (Restore_Memory i) = restore_route env i"
| "handle_content env u (Supersede_Memory i q) = supersede_route env i q"
| "handle_content env u (Verify_Memory i delta) = verify_memory_route env i delta"
| "handle_content env u (Archive_Memory i) = archive_memory_route env i"
| "handle_content env u (List_Conflicts status limit) = conflicts_route env status limit"
| "handle_content env u (List_Probes status limit) = probes_route env status limit"
| "handle_content env u (Create_Probe question expected) = create_probe_route env question expected"
| "handle_content env u (List_Skills status limit) = list_skills_route env status limit"
| "handle_content env u Scan_Skills = scan_skills_route env"
| "handle_content env u (List_Proposals status limit) = proposals_route env status limit"
| "handle_content env u (Create_Proposal q) = create_proposal_route env q"
| "handle_content env u (Apply_Skill_Proposal i) = apply_skill_proposal_route env i u"
| "handle_content env u (Reject_Proposal i reason) = reject_proposal_route env i reason u"
| "handle_content env u (Test_Skill key) = test_skill_route env key"
| "handle_content env u (Rollback_Skill key) = rollback_skill_route env key u"
| "handle_content env u (Get_Skill key) = get_skill_route env key"
| "handle_content env u (List_Pages limit) = pages_route env limit"
| "handle_content env u (Read_Page key) = read_page_route env key"
| "handle_content env u Orient = orient_route env"
| "handle_content env u (Links key direction limit) = links_route key direction limit"
| "handle_content env u (Route_Query query limit) = route_query_route env query limit"
| "handle_content env u (Browse pre page_type limit) = browse_route pre page_type limit"
| "handle_content env u (Search_Wiki q limit strategy pre cs) = search_wiki_route env q limit strategy pre cs"
| "handle_content env u (Compile_Wiki enqueue) = compile_route env enqueue u"
| "handle_content env u (Lint_Wiki enqueue) = lint_route env enqueue u"
| "handle_content env u (Repair_Wiki enqueue apply_safe error_ids) = repair_route env enqueue apply_safe error_ids u"
| "handle_content env u Wiki_Health = wiki_health_route env"
| "handle_content env u Wiki_Quality = quality_route env"
| "handle_content env u (Wiki_Errors status limit) = errors_route status limit"
| "handle_content env u (List_Connections enabled kind) = connections_route env enabled kind"
| "handle_content env u (Upsert_Connection q) = upsert_connection_route env q"
| "handle_content env u (List_Tasks status connection_name) = tasks_route env status connection_name"
| "handle_content env u (Get_Task i) = task_route env i"

definition content_api :: "content_env \<Rightarrow> string option \<Rightarrow> content_request \<Rightarrow> dict route" where
  "content_api env credentials q = authenticated (ct_admin env) credentials (\<lambda>u. handle_content env u q)"

definition delegate_api :: "content_env \<Rightarrow> string option \<Rightarrow> delegate_request \<Rightarrow> dict rs_route" where
  "delegate_api env credentials q = rs_authenticated env credentials (delegate_route env q)"

definition discover_api :: "content_env \<Rightarrow> string option \<Rightarrow> string \<Rightarrow> dict rs_route" where
  "discover_api env credentials name = rs_authenticated env credentials (\<lambda>_. discover_route env name)"

definition cancel_task_api :: "content_env \<Rightarrow> string option \<Rightarrow> string \<Rightarrow> dict rs_route" where
  "cancel_task_api env credentials i = rs_authenticated env credentials (\<lambda>_. cancel_task_route env i)"

end
