(* ===== verification/Health.thy ===== *)
theory Health
  imports Schema Content_Routes Rate_Limit
begin

text \<open>
  Settings, readiness and reliability: \<open>backend/infra/config.py\<close>, \<open>worker/guards.py\<close>, \<open>infra/health.py\<close>, the summaries of
  \<open>infra/observability.py\<close>, the listings of \<open>infra/events.py\<close> and the routes of \<open>api/admin/platform.py\<close> on them.

  Reading the environment is pydantic's; \<open>runtime_settings\<close> holds the fields the code below uses. The outcomes of the probes
  (connection, ping, catalog, directories) are arguments. Events carry no identifier and no time in the model; \<open>event_columns\<close>
  gives both, by position in the log.
\<close>

section \<open>Settings\<close>

record runtime_settings =
  rt_app_name :: string
  rt_environment :: string
  rt_auto_migrate :: bool
  rt_cors_origins :: "string list"
  rt_require_secrets :: bool
  rt_metrics_path :: string
  rt_data_dir :: path
  rt_config_dir :: path
  rt_workspace_dir :: path
  rt_seed_dir :: path
  rt_packages_dir :: path
  rt_database_url :: string
  rt_redis_url :: string
  rt_redis_required :: bool
  rt_celery_broker_url :: "string option"
  rt_celery_result_backend :: "string option"
  rt_queue_eager :: bool
  rt_wiki_root :: "path option"
  rt_skills_root :: "path option"
  rt_admin_password :: string
  rt_jwt_secret :: string
  rt_public_base_url :: string

definition resolved_celery_broker_url :: "runtime_settings \<Rightarrow> string" where
  "resolved_celery_broker_url cfg = str_or (case rt_celery_broker_url cfg of None \<Rightarrow> [] | Some u \<Rightarrow> u) (rt_redis_url cfg)"

definition resolved_celery_result_backend :: "runtime_settings \<Rightarrow> string" where
  "resolved_celery_result_backend cfg = str_or (case rt_celery_result_backend cfg of None \<Rightarrow> [] | Some u \<Rightarrow> u) (rt_redis_url cfg)"

datatype cors_value = Cors_Text string | Cors_List "string list"

definition stripped_items :: "string list \<Rightarrow> string list" where
  "stripped_items xs = filter (\<lambda>x. x \<noteq> []) (map py_strip xs)"

definition split_cors_origins :: "cors_value \<Rightarrow> exc + string list" where
  "split_cors_origins v = (case v of
     Cors_List xs \<Rightarrow> Inr xs
   | Cors_Text text \<Rightarrow>
       let items = stripped_items (split_on CHR '','' text)
       in if \<not> startswith (py_strip text) ''['' then Inr items
          else (case json_loads (py_strip text) of
             None \<Rightarrow> Inl (ValueError ''cors_origins is not JSON'')
           | Some (JList xs) \<Rightarrow> Inr (stripped_items (map py_str xs))
           | Some _ \<Rightarrow> Inr items))"

definition resolved_wiki_root :: "(path \<Rightarrow> path) \<Rightarrow> runtime_settings \<Rightarrow> path" where
  "resolved_wiki_root expand cfg = expand (case rt_wiki_root cfg of Some r \<Rightarrow> r | None \<Rightarrow> rt_workspace_dir cfg @ [''knowledge'', ''wiki''])"

definition resolved_skills_root :: "(path \<Rightarrow> path) \<Rightarrow> runtime_settings \<Rightarrow> path" where
  "resolved_skills_root expand cfg = expand (case rt_skills_root cfg of Some r \<Rightarrow> r | None \<Rightarrow> rt_workspace_dir cfg @ [''skills''])"

text \<open>\<open>ensure_directories\<close>: the directories in the order they are made; the first that cannot be made raises.\<close>

definition required_directories :: "(path \<Rightarrow> path) \<Rightarrow> runtime_settings \<Rightarrow> path list" where
  "required_directories expand cfg = [rt_data_dir cfg, rt_config_dir cfg, rt_workspace_dir cfg, rt_seed_dir cfg, rt_packages_dir cfg,
     resolved_wiki_root expand cfg, resolved_skills_root expand cfg, rt_workspace_dir cfg @ [''memory'']]"

definition first_error :: "exc option list \<Rightarrow> exc option" where
  "first_error es = (case filter (\<lambda>e. e \<noteq> None) es of [] \<Rightarrow> None | e # _ \<Rightarrow> e)"

definition ensure_directories :: "(path \<Rightarrow> exc option) \<Rightarrow> (path \<Rightarrow> path) \<Rightarrow> runtime_settings \<Rightarrow> exc option" where
  "ensure_directories mkdir expand cfg = first_error (map mkdir (required_directories expand cfg))"

definition validate_runtime_secrets :: "runtime_settings \<Rightarrow> exc option" where
  "validate_runtime_secrets cfg =
     (if py_lower (rt_environment cfg) \<notin> {''production'', ''prod''} \<or> \<not> rt_require_secrets cfg then None
      else if startswith (rt_database_url cfg) ''sqlite'' then Some (RuntimeError
        ''SQLite is only allowed for development/local; set SOULCLAW_DATABASE_URL to Postgres in production'')
      else if rt_jwt_secret cfg = ''change-me-for-production'' then Some (RuntimeError ''SOULCLAW_JWT_SECRET must be changed in production'')
      else if rt_admin_password cfg = ''soulclaw-admin'' then Some (RuntimeError ''SOULCLAW_ADMIN_PASSWORD must be changed in production'')
      else if rt_cors_origins cfg = [] \<or> ''*'' \<in> set (rt_cors_origins cfg) then Some (RuntimeError ''SOULCLAW_CORS_ORIGINS must be explicit in production'')
      else if rt_public_base_url cfg = [] then Some (RuntimeError ''SOULCLAW_PUBLIC_BASE_URL must be set in production'')
      else None)"

definition ensure_background_database :: "runtime_settings \<Rightarrow> string \<Rightarrow> exc option" where
  "ensure_background_database cfg component =
     (if rt_queue_eager cfg then None
      else if database_backend (rt_database_url cfg) \<noteq> ''sqlite'' then None
      else Some (RuntimeError (''SoulClaw '' @ component @ '' requires Postgres for background worker/scheduler mode; '' @
        ''set SOULCLAW_DATABASE_URL to a postgresql+psycopg:// URL, or run only the single-process app with SQLite.'')))"

section \<open>Readiness\<close>

text \<open>\<open>pb_redis\<close> is \<open>None\<close> without a client, otherwise the outcome of the ping; \<open>pb_catalog\<close> is the database the migration check reads.\<close>

record probe_env =
  pb_database :: "exc option"
  pb_redis :: "exc option option"
  pb_migrations :: migration_env
  pb_catalog :: "exc + catalog"
  pb_directory :: "path \<Rightarrow> exc option"
  pb_expand :: "path \<Rightarrow> path"

definition failed_check :: "exc \<Rightarrow> dict" where
  "failed_check e = [(''ok'', JBool False), (''error'', JStr (exc_str e))]"

definition database_check :: "probe_env \<Rightarrow> dict" where
  "database_check env = (case pb_database env of None \<Rightarrow> [(''ok'', JBool True)] | Some e \<Rightarrow> failed_check e)"

definition redis_check :: "exc option option \<Rightarrow> bool \<Rightarrow> dict" where
  "redis_check client required = (case client of
     None \<Rightarrow>
       if \<not> required
       then [(''ok'', JBool True), (''configured'', JBool False), (''required'', JBool False), (''status'', JStr ''optional'')]
       else [(''ok'', JBool False), (''configured'', JBool True), (''required'', JBool True), (''error'', JStr ''redis unavailable'')]
   | Some None \<Rightarrow> [(''ok'', JBool True), (''configured'', JBool True), (''required'', JBool required)]
   | Some (Some e) \<Rightarrow>
       if \<not> required
       then [(''ok'', JBool True), (''configured'', JBool True), (''required'', JBool False), (''status'', JStr ''optional_unavailable''),
             (''error'', JStr (exc_str e))]
       else [(''ok'', JBool False), (''configured'', JBool True), (''required'', JBool required), (''error'', JStr (exc_str e))])"

definition migration_check :: "probe_env \<Rightarrow> runtime_settings \<Rightarrow> dict" where
  "migration_check env cfg =
     (case (case pb_catalog env of Inl e \<Rightarrow> Inl e | Inr db \<Rightarrow> migration_status (pb_migrations env) (rt_database_url cfg) db) of
        Inl e \<Rightarrow> failed_check e
      | Inr status \<Rightarrow> [(''ok'', JBool (truthy (dget ''is_current'' status))), (''current_revision'', dget ''current_revision'' status),
          (''head_revision'', dget ''head_revision'' status)])"

definition writable_directory :: "probe_env \<Rightarrow> path \<Rightarrow> dict" where
  "writable_directory env p = (case pb_directory env p of
     None \<Rightarrow> [(''ok'', JBool True), (''path'', JStr (path_str p))]
   | Some e \<Rightarrow> [(''ok'', JBool False), (''path'', JStr (path_str p)), (''error'', JStr (exc_str e))])"

definition check_ok :: "dict \<Rightarrow> bool" where
  "check_ok d = truthy (dget ''ok'' d)"

definition directory_check :: "probe_env \<Rightarrow> runtime_settings \<Rightarrow> dict" where
  "directory_check env cfg =
     (let checked = map (writable_directory env) [rt_data_dir cfg, rt_config_dir cfg, rt_workspace_dir cfg, rt_packages_dir cfg,
            resolved_wiki_root (pb_expand env) cfg, resolved_skills_root (pb_expand env) cfg]
      in [(''ok'', JBool (list_all check_ok checked)), (''items'', JList (map JObj checked))])"

definition readiness_checks :: "probe_env \<Rightarrow> runtime_settings \<Rightarrow> (string \<times> dict) list" where
  "readiness_checks env cfg = [(''database'', database_check env), (''redis'', redis_check (pb_redis env) (rt_redis_required cfg)),
     (''migrations'', migration_check env cfg), (''directories'', directory_check env cfg)]"

definition readiness_summary :: "probe_env \<Rightarrow> runtime_settings \<Rightarrow> dict" where
  "readiness_summary env cfg =
     (let checks = readiness_checks env cfg
      in [(''ok'', JBool (list_all (check_ok \<circ> snd) checks)), (''database_backend'', JStr (database_backend (rt_database_url cfg))),
          (''checks'', JObj (map (\<lambda>(n, d). (n, JObj d)) checks))])"

section \<open>Reliability\<close>

text \<open>\<open>_status_counts\<close>: the rows per status; an empty status counts as unknown. SQL leaves the order of the groups open, the
  model takes one.\<close>

definition status_counts :: "string list \<Rightarrow> dict" where
  "status_counts statuses = fold (\<lambda>s d. dset (str_or s ''unknown'') (JInt (int (count_list statuses s))) d) (remdups statuses) []"

definition cron_backoffs :: "world \<Rightarrow> int" where
  "cron_backoffs w = int (length (filter (\<lambda>c. cj_backoff_until c \<noteq> None) (cron_jobs w)))"

definition reliability_status_route :: "bool \<Rightarrow> json \<Rightarrow> dict \<Rightarrow> dict \<Rightarrow> dict route" where
  "reliability_status_route metrics_enabled otel circuits limits = respond (\<lambda>w.
     [(''jobs'', JObj (status_counts (map job_status (background_jobs w)))),
      (''outbox'', JObj (status_counts (map ob_status (outbox_messages w)))),
      (''idempotency'', JObj (status_counts (map ir_status (idempotency_records w)))),
      (''cron'', JObj [(''status'', JObj (status_counts (map cj_last_status (cron_jobs w)))), (''backoff'', JInt (cron_backoffs w))]),
      (''resilience'', JObj circuits), (''rate_limit'', JObj limits),
      (''observability'', JObj [(''metrics_enabled'', JBool metrics_enabled), (''tracing'', otel)])])"

definition count_alert :: "string \<Rightarrow> string \<Rightarrow> int \<Rightarrow> string \<Rightarrow> dict list" where
  "count_alert severity kind n text = (if n = 0 then [] else
     [[(''severity'', JStr severity), (''kind'', JStr kind), (''message'', JStr (int_str n @ text)), (''count'', JInt n)]])"

definition circuit_alert :: "string \<times> json \<Rightarrow> dict list" where
  "circuit_alert c = (case c of (name, state) \<Rightarrow> let d = dict_or_empty state in
     if \<not> truthy (dget ''opened_until'' d) then []
     else [[(''severity'', JStr ''critical''), (''kind'', JStr ''circuit_open''), (''message'', JStr (''circuit '' @ name @ '' is open'')),
            (''name'', JStr name), (''details'', JObj d)]])"

definition reliability_alerts :: "probe_env \<Rightarrow> runtime_settings \<Rightarrow> dict \<Rightarrow> world \<Rightarrow> dict list" where
  "reliability_alerts env cfg circuits w =
     (let readiness = readiness_summary env cfg
      in (if truthy (dget ''ok'' readiness) then [] else
            [[(''severity'', JStr ''critical''), (''kind'', JStr ''readiness''), (''message'', JStr ''readiness check failed''),
              (''details'', dget ''checks'' readiness)]])
       @ count_alert ''critical'' ''dead_letter'' (int (length (filter (\<lambda>j. job_status j = ''dead_letter'') (background_jobs w))))
           '' background jobs are in dead letter''
       @ count_alert ''warning'' ''outbox_backlog''
           (int (length (filter (\<lambda>m. ob_status m \<in> {''pending'', ''retrying''}) (outbox_messages w)))) '' outbox messages await dispatch''
       @ count_alert ''warning'' ''cron_backoff'' (cron_backoffs w) '' cron jobs are in backoff''
       @ concat (map circuit_alert (sort_key fst circuits)))"

definition reliability_alerts_route :: "probe_env \<Rightarrow> runtime_settings \<Rightarrow> dict \<Rightarrow> dict route" where
  "reliability_alerts_route env cfg circuits = respond (\<lambda>w. let found = reliability_alerts env cfg circuits w in
     [(''ok'', JBool (\<not> list_ex (\<lambda>a. dget ''severity'' a = JStr ''critical'') found)), (''items'', JList (map JObj found))])"

section \<open>Events and traces\<close>

record event_columns =
  ev_id :: "nat \<Rightarrow> uuid"
  ev_created :: "nat \<Rightarrow> instant"
  ev_audit_id :: "nat \<Rightarrow> uuid"
  ev_audit_actor :: "nat \<Rightarrow> uuid option"
  ev_audit_created :: "nat \<Rightarrow> instant"

definition newest :: "nat \<Rightarrow> (nat \<Rightarrow> instant) \<Rightarrow> ('e \<Rightarrow> bool) \<Rightarrow> 'e list \<Rightarrow> (nat \<times> 'e) list" where
  "newest limit created p es = take limit (sort_key (\<lambda>(n, e). - created n) (filter (p \<circ> snd) (enumerate 0 es)))"

definition event_items :: "event_columns \<Rightarrow> (nat \<times> runtime_event) list \<Rightarrow> dict list" where
  "event_items ec = map (\<lambda>(n, e). runtime_event_to_dict (ev_id ec n) (ev_created ec n) e)"

definition audit_items :: "event_columns \<Rightarrow> (nat \<times> audit_event) list \<Rightarrow> dict list" where
  "audit_items ec = map (\<lambda>(n, e). audit_event_to_dict (ev_audit_id ec n) (ev_audit_actor ec n) (ev_audit_created ec n) e)"

definition list_runtime_events :: "event_columns \<Rightarrow> int \<Rightarrow> string option \<Rightarrow> world \<Rightarrow> (nat \<times> runtime_event) list" where
  "list_runtime_events ec limit event_type w =
     newest (clamp_limit 500 limit) (ev_created ec) (\<lambda>e. given_str event_type = [] \<or> re_event_type e = given_str event_type) (runtime_events w)"

definition list_audit_events :: "event_columns \<Rightarrow> int \<Rightarrow> world \<Rightarrow> (nat \<times> audit_event) list" where
  "list_audit_events ec limit w = newest (clamp_limit 500 limit) (ev_audit_created ec) (\<lambda>_. True) (audit_events w)"

definition runtime_events_route :: "event_columns \<Rightarrow> string option \<Rightarrow> int \<Rightarrow> dict route" where
  "runtime_events_route ec event_type limit = respond (\<lambda>w. items (event_items ec (list_runtime_events ec limit event_type w)))"

definition audit_events_route :: "event_columns \<Rightarrow> int \<Rightarrow> dict route" where
  "audit_events_route ec limit = respond (\<lambda>w. items (audit_items ec (list_audit_events ec limit w)))"

definition trace_detail_route :: "event_columns \<Rightarrow> string \<Rightarrow> dict route" where
  "trace_detail_route ec raw = respond (\<lambda>w. let trace = take 128 (py_strip raw) in
     [(''trace_id'', JStr trace),
      (''events'', JList (map JObj (event_items ec (newest 200 (ev_created ec) (\<lambda>e. re_trace_id e = trace) (runtime_events w))))),
      (''audit'', JList (map JObj (audit_items ec (newest 100 (ev_audit_created ec) (\<lambda>e. ae_trace_id e = trace) (audit_events w))))),
      (''jobs'', JList (map (JObj \<circ> background_job_to_dict)
         (take 100 (sort_key (\<lambda>j. - job_created_at j) (filter (\<lambda>j. job_trace_id j = trace) (background_jobs w)))))),
      (''outbox'', JList (map (JObj \<circ> outbox_to_dict)
         (take 100 (sort_key (\<lambda>m. - ob_created_at m) (filter (\<lambda>m. ob_trace_id m = trace) (outbox_messages w))))))])"

section \<open>Properties\<close>

lemma dget_simps: "dget k ((k', v) # d) = (if k = k' then v else dget k d)" by (simp add: dget_def)

lemma check_ok_simps [simp]:
  "check_ok (failed_check e) \<longleftrightarrow> False"
  "check_ok (database_check env) \<longleftrightarrow> pb_database env = None"
  "check_ok (redis_check client required) \<longleftrightarrow> (client = Some None \<or> \<not> required)"
  "check_ok (writable_directory env p) \<longleftrightarrow> pb_directory env p = None"
  by (auto simp: check_ok_def failed_check_def database_check_def redis_check_def writable_directory_def dget_simps split: option.split)

lemma migration_ok:
  "check_ok (migration_check env cfg) \<longleftrightarrow>
     (\<exists>db head. pb_catalog env = Inr db \<and> mg_head (pb_migrations env) = Inr (Some head) \<and> current_revision db = Some head)"
proof -
  have c: "current_revision db \<noteq> Some []" for db by (auto simp: current_revision_def split: list.split if_splits)
  show ?thesis
    by (auto simp: migration_check_def migration_status_def Let_def check_ok_def failed_check_def dget_simps c
        split: sum.split option.split)
qed

definition probed_directories :: "probe_env \<Rightarrow> runtime_settings \<Rightarrow> path list" where
  "probed_directories env cfg = [rt_data_dir cfg, rt_config_dir cfg, rt_workspace_dir cfg, rt_packages_dir cfg,
     resolved_wiki_root (pb_expand env) cfg, resolved_skills_root (pb_expand env) cfg]"

text \<open>The application is ready exactly when the database answers, Redis answers or is not required, the revision of the database is the
  head of the migrations, and every directory is writable; the seed directory and the memory directory, which the start makes too, are
  not probed.\<close>

theorem readiness_exact:
  "dget ''ok'' (readiness_summary env cfg) = JBool True \<longleftrightarrow>
     pb_database env = None \<and> (pb_redis env = Some None \<or> \<not> rt_redis_required cfg)
     \<and> (\<exists>db head. pb_catalog env = Inr db \<and> mg_head (pb_migrations env) = Inr (Some head) \<and> current_revision db = Some head)
     \<and> list_all (\<lambda>p. pb_directory env p = None) (probed_directories env cfg)"
proof -
  have "check_ok (directory_check env cfg) \<longleftrightarrow> list_all (\<lambda>p. pb_directory env p = None) (probed_directories env cfg)"
    by (simp add: directory_check_def probed_directories_def Let_def check_ok_def [of "(''ok'', _) # _"] dget_simps)
  then show ?thesis by (simp add: readiness_summary_def readiness_checks_def Let_def dget_simps migration_ok)
qed

text \<open>The reliability page is green exactly when the application is ready, no job is in the dead letter queue, and no circuit has an
  opening time, whether or not that time has passed: a circuit that would let the next call through is still reported as open.\<close>

theorem alerts_exact:
  "fst (reliability_alerts_route env cfg circuits w) = Inr [(''ok'', JBool True), (''items'', JList (map JObj (reliability_alerts env cfg circuits w)))]
   \<longleftrightarrow> dget ''ok'' (readiness_summary env cfg) = JBool True \<and> filter (\<lambda>j. job_status j = ''dead_letter'') (background_jobs w) = []
     \<and> list_all (\<lambda>(n, c). \<not> truthy (dget ''opened_until'' (dict_or_empty c))) circuits"
proof -
  let ?critical = "\<lambda>a. dget ''severity'' a = JStr ''critical''"
  have c: "list_ex ?critical (count_alert sev kind n msg) \<longleftrightarrow> n \<noteq> 0 \<and> sev = ''critical''" for sev kind n msg
    by (simp add: count_alert_def dget_simps)
  have x: "(\<exists>a \<in> set (circuit_alert x). ?critical a) \<longleftrightarrow> (case x of (n, c) \<Rightarrow> truthy (dget ''opened_until'' (dict_or_empty c)))" for x
  proof (cases x)
    case (Pair n c)
    then show ?thesis by (cases "truthy (dget ''opened_until'' (dict_or_empty c))") (simp_all add: circuit_alert_def Let_def dget_simps)
  qed
  have "list_ex ?critical (concat (map circuit_alert (sort_key fst circuits)))
      \<longleftrightarrow> (\<exists>x \<in> set circuits. \<exists>a \<in> set (circuit_alert x). ?critical a)" by (simp add: list_ex_iff)
  then have "list_ex ?critical (concat (map circuit_alert (sort_key fst circuits)))
      \<longleftrightarrow> \<not> list_all (\<lambda>(n, c). \<not> truthy (dget ''opened_until'' (dict_or_empty c))) circuits"
    by (simp only: x) (auto simp: list_all_iff)
  moreover have "truthy (dget ''ok'' (readiness_summary env cfg)) \<longleftrightarrow> dget ''ok'' (readiness_summary env cfg) = JBool True"
    by (simp add: readiness_summary_def Let_def dget_simps)
  ultimately show ?thesis
    by (simp add: reliability_alerts_route_def respond_def Let_def reliability_alerts_def c dget_simps filter_empty_conv)
qed

end
