(* ===== verification/Agent_Props.thy ===== *)
theory Agent_Props
  imports Agent Wiki_Props Worker Memory_Props
begin

text \<open>
  Properties of the agent's turn: the transcript the language model sees, what an interrupt stores and what a resumed
  turn makes of it, and that a turn always answers.
\<close>

section \<open>Rounds\<close>

text \<open>A round of the loop: the calls of the model, with their identifiers, and their results.\<close>

type_synonym round = "dict list \<times> dict list"

definition round_messages :: "round \<Rightarrow> dict list" where
  "round_messages r = append_tool_messages [] (fst r) (snd r)"

definition round_ok :: "round \<Rightarrow> bool" where
  "round_ok r = (fst r \<noteq> [] \<and> length (snd r) = length (fst r) \<and> list_all (\<lambda>c. truthy (dget ''id'' c)) (fst r))"

lemma append_tool_messages_round: "append_tool_messages ms cs rs = ms @ round_messages (cs, rs)"
  by (simp add: round_messages_def append_tool_messages_def)

lemma length_number_calls [simp]: "length (number_calls cs) = length cs"
  by (simp add: number_calls_def)

lemma number_calls_empty [simp]: "number_calls cs = [] \<longleftrightarrow> cs = []"
  by (simp add: number_calls_def enumerate_eq_zip)

lemma dec_str_ne: "dec_str n \<noteq> []"
  by (subst dec_str.simps) simp

lemma dstr_or_ne: "df \<noteq> [] \<Longrightarrow> dstr_or k df c \<noteq> []"
  by (cases "dget k c")
     (auto simp: dstr_or_def py_str_def int_str_def float_str_def dec_str_ne Let_def split: prod.split)

lemma number_calls_ids: "list_all (\<lambda>c. truthy (dget ''id'' c)) (number_calls cs)"
  by (auto simp: number_calls_def number_call_def list_all_iff dstr_or_ne)

text \<open>\<open>_execute_tool_calls\<close>: one result per call, or an interrupt at the call that needs the approval.\<close>

definition interrupt_at :: "dict list \<Rightarrow> interrupt \<Rightarrow> bool" where
  "interrupt_at calls i = (0 \<le> ai_pending_index i \<and> nat (ai_pending_index i) < length calls
     \<and> ai_pending_tool_call i = calls ! nat (ai_pending_index i)
     \<and> length (ai_completed_results i) = nat (ai_pending_index i)
     \<and> dget ''status'' (ai_approval_result i) = JStr ''approval_required'')"

lemma execute_calls_shape:
  "execute_calls env sv tid sid (int (length done)) done calls w = (x, w') \<Longrightarrow>
     (case x of Inl i \<Rightarrow> ai_pending_index i = int (length (ai_completed_results i)) \<and> length done \<le> length (ai_completed_results i)
         \<and> length (ai_completed_results i) < length done + length calls
         \<and> ai_pending_tool_call i = calls ! (length (ai_completed_results i) - length done)
         \<and> dget ''status'' (ai_approval_result i) = JStr ''approval_required''
     | Inr rs \<Rightarrow> length rs = length done + length calls)"
proof (induction calls arbitrary: "done" w)
  case (Cons c calls)
  obtain r w1 where r: "run_call env sv tid (call_approved c) c w = (r, w1)" by fastforce
  have step: ?case
    if "execute_calls env sv tid sid (int (length done) + 1) (done @ [d]) calls w2 = (x, w')" for d w2
    using Cons.IH [of "done @ [d]" w2] that
    by (auto simp: add.commute nth_Cons' Suc_le_eq split: sum.splits)
  show ?case
  proof (cases "\<exists>m t aid. r = Inl (ToolApprovalRequired m t aid)")
    case True
    then show ?thesis using Cons.prems r
      by (auto simp: Let_def new_interrupt_def approval_result_def dget_def)
  next
    case False
    then show ?thesis using Cons.prems r step by (cases r) (auto simp: Let_def split: exc.splits)
  qed
qed auto

lemma execute_tool_calls_shape:
  assumes "execute_tool_calls env tid sid calls w = (x, w')" and "ag_tools env \<noteq> None"
  shows "case x of Inl i \<Rightarrow> interrupt_at calls i | Inr rs \<Rightarrow> length rs = length calls"
proof -
  obtain sv where "ag_tools env = Some sv" using assms(2) by blast
  then have "execute_calls env sv tid sid (int (length [])) [] calls w = (x, w')" using assms(1) by (simp add: execute_tool_calls_def)
  from execute_calls_shape [OF this] show ?thesis by (auto simp: interrupt_at_def split: sum.splits)
qed

text \<open>What the loop leaves, as a list of rounds.\<close>

definition loop_result :: "dict list \<Rightarrow> dict list \<Rightarrow> dict list \<Rightarrow> int \<Rightarrow> round list \<Rightarrow> interrupt + llm_outcome \<Rightarrow> bool" where
  "loop_result ms calls results k rounds x = (case x of
     Inr u \<Rightarrow> lu_messages u = ms @ concat (map round_messages rounds) \<and> lu_calls u = calls @ concat (map fst rounds)
       \<and> lu_results u = results @ concat (map snd rounds)
   | Inl i \<Rightarrow> ai_messages i = ms @ concat (map round_messages rounds)
       \<and> ai_tool_calls i = calls @ concat (map fst rounds) @ ai_round_tool_calls i
       \<and> ai_tool_results i = results @ concat (map snd rounds) @ ai_completed_results i @ [ai_approval_result i]
       \<and> interrupt_at (ai_round_tool_calls i) i \<and> ai_round_index i = k + int (length rounds))"

lemma loop_result_Cons:
  "loop_result (append_tool_messages ms cs rs) (calls @ cs) (results @ rs) (k + 1) rounds x
     = loop_result ms calls results k ((cs, rs) # rounds) x"
  by (simp add: loop_result_def append_tool_messages_round ac_simps split: sum.split)

lemma interrupt_at_update [simp]:
  "interrupt_at cs (i\<lparr>ai_messages := a, ai_tool_calls := b, ai_tool_results := c, ai_round_tool_calls := d, ai_round_index := e\<rparr>)
     = interrupt_at cs i"
  by (simp add: interrupt_at_def)

lemma continue_llm_loop_rounds:
  assumes "ag_tools env \<noteq> None"
  shows "continue_llm_loop n env llm tools tid sid k st response ms calls results w = (x, w') \<Longrightarrow>
     \<exists>rounds. list_all round_ok rounds \<and> length rounds \<le> n \<and> loop_result ms calls results k rounds x"
proof (induction n arbitrary: k st response ms calls results w)
  case 0
  then show ?case by (intro exI [of _ "[]"]) (auto simp: loop_result_def)
next
  case (Suc n)
  let ?cs = "llm_calls response"
  show ?case
  proof (cases "?cs = []")
    case True
    then show ?thesis using Suc.prems by (intro exI [of _ "[]"]) (auto simp: loop_result_def)
  next
    case False
    obtain y w1 where y: "execute_tool_calls env tid sid ?cs w = (y, w1)" by fastforce
    note shape = execute_tool_calls_shape [OF y assms]
    show ?thesis
    proof (cases y)
      case (Inl i)
      then show ?thesis using Suc.prems False y shape
        by (intro exI [of _ "[]"]) (auto simp: loop_result_def Let_def)
    next
      case (Inr rs)
      let ?r = "(number_calls ?cs, rs)"
      let ?ms = "append_tool_messages ms (number_calls ?cs) rs"
      have "length rs = length ?cs" using shape Inr by simp
      then have ok: "round_ok ?r" using False number_calls_ids [of ?cs] by (simp add: round_ok_def)
      obtain z w2 where z: "llm ?ms tools w1 = (z, w2)" by fastforce
      have "\<exists>rounds. list_all round_ok rounds \<and> length rounds \<le> n
          \<and> loop_result ?ms (calls @ number_calls ?cs) (results @ rs) (k + 1) rounds x"
      proof (cases z)
        case (Inl e)
        obtain st1 w3 where "llm_refusal ''llm.tool_loop'' e w2 = (st1, w3)" by fastforce
        then show ?thesis using Suc.prems False y \<open>y = Inr rs\<close> z Inl
          by (intro exI [of _ "[]"]) (auto simp: loop_result_def Let_def)
      next
        case (Inr response1)
        then show ?thesis using Suc.prems False y \<open>y = Inr rs\<close> z by (intro Suc.IH) (simp add: Let_def)
      qed
      then obtain rounds where "list_all round_ok rounds" "length rounds \<le> n"
        "loop_result ?ms (calls @ number_calls ?cs) (results @ rs) (k + 1) rounds x" by blast
      then show ?thesis using ok by (intro exI [of _ "?r # rounds"]) (simp add: loop_result_Cons)
    qed
  qed
qed

section \<open>What the model sees\<close>

lemma llm_turn_rounds:
  assumes "run_llm env turn_id session_id message context w = (x, w')" and "ag_tools env \<noteq> None" and "ag_llm env \<noteq> None"
  shows "\<exists>rounds. list_all round_ok rounds \<and> length rounds \<le> 4
    \<and> loop_result (prompt_messages context message) [] [] 0 rounds x"
proof -
  obtain llm where llm: "ag_llm env = Some llm" using assms(3) by blast
  obtain y w1 where y: "llm (prompt_messages context message) (llm_tools env) w = (y, w1)" by fastforce
  show ?thesis
  proof (cases y)
    case (Inl e)
    obtain st w2 where "llm_refusal ''llm'' e w1 = (st, w2)" by fastforce
    then show ?thesis using assms(1) llm y Inl by (intro exI [of _ "[]"]) (auto simp: run_llm_def loop_result_def)
  next
    case (Inr response)
    then show ?thesis using assms(1) llm y by (intro continue_llm_loop_rounds [OF assms(2)]) (simp add: run_llm_def)
  qed
qed


section \<open>A turn always answers\<close>

lemma ws_read_kinds_ok:
  "\<forall>k \<in> set ks. \<exists>p. path_for k = Inr p \<Longrightarrow> \<exists>fs w'. ws_read_kinds seed ks w = (Inr fs, w')"
proof (induction ks arbitrary: w)
  case (Cons k ks)
  obtain p where "path_for k = Inr p" using Cons.prems by auto
  then obtain f w1 where f: "ws_read seed k w = (Inr f, w1)" by (auto simp: ws_read_def Let_def)
  obtain fs w2 where "ws_read_kinds seed ks w1 = (Inr fs, w2)" using Cons.IH [of w1] Cons.prems by auto
  then show ?case using f by (simp add: op_bind_def op_ok_def)
qed simp

lemma read_all_ok: "\<exists>fs w'. read_all seed w = (Inr fs, w')"
proof -
  have "list_all (\<lambda>k. \<not> isl (path_for k)) (map fst WORKSPACE_FILE_MAP)" by code_simp
  then have "\<forall>k \<in> set (map fst WORKSPACE_FILE_MAP). \<exists>p. path_for k = Inr p"
    unfolding list_all_iff by (metis sum.collapse(2))
  then show ?thesis unfolding read_all_def by (rule ws_read_kinds_ok)
qed

lemma read_inputs_ok: "\<exists>ti w'. read_inputs env turn_id session_id message ex w = (Inr ti, w')"
proof -
  let ?read = "case ag_workspace env of None \<Rightarrow> op_ok [] | Some seed \<Rightarrow> read_all seed"
  have "\<exists>fs w'. ?read v = (Inr fs, w')" for v
    using read_all_ok by (cases "ag_workspace env") (auto simp: op_ok_def)
  then have ok: "\<exists>y w'. op_bind ?read (\<lambda>fs w4. (Inr (f fs), g fs w4)) v = (Inr y, w')" for f g v
    by (auto simp: op_bind_def split: prod.split sum.split) (metis Inl_Inr_False prod.inject)
  show ?thesis unfolding read_inputs_def Let_def split_beta by (rule ok)
qed

lemma run_turn_returns: "\<exists>r w'. run_turn env message session_id tool_calls w = (Inr r, w')"
proof -
  obtain ti w1 where "read_inputs env (ag_new_id env w) session_id message (tool_calls \<noteq> None) w = (Inr ti, w1)"
    using read_inputs_ok by blast
  then show ?thesis unfolding run_turn_def Let_def op_bind_def by (simp add: split_beta)
qed

text \<open>C7: A turn never fails and never answers with nothing: for every message, session and explicit list of calls, with
  and without a model, a tool executor, a conversation store, a workspace and an A2A runtime, and whatever the model, the
  tools and the delegate return or raise, \<open>run_turn\<close> returns a result whose answer is not empty.\<close>

theorem run_turn_answers:
  "\<exists>r w'. run_turn env message session_id tool_calls w = (Inr r, w') \<and> tu_answer r \<noteq> []"
proof -
  have answer: "tu_answer (fst (finish_turn env tid sid ti ts v)) \<noteq> []" for tid sid ti ts v
    by (simp add: finish_turn_def Let_def str_or_def fallback_answer_def)
  obtain ti w1 where ti: "read_inputs env (ag_new_id env w) session_id message (tool_calls \<noteq> None) w = (Inr ti, w1)"
    using read_inputs_ok by blast
  show ?thesis
    unfolding run_turn_def Let_def op_bind_def ti using answer by (simp add: split_beta)
qed

section \<open>Decisions on an approval\<close>

definition decision_of :: "string \<Rightarrow> string" where
  "decision_of d = str_or (py_lower (py_strip d)) ''approve''"

text \<open>A checkpoint that \<open>resume_turn\<close> accepts.\<close>

definition resumable :: "approval \<Rightarrow> bool" where
  "resumable a = (let cp = ap_turn_checkpoint a in
     dget ''mode'' cp = JStr ''agent_tool_loop'' \<and> dstr ''turn_id'' cp \<noteq> [] \<and> pending_of cp \<noteq> [])"

lemma get_approval_emit_full [simp]: "get_approval (emit_full on t p sv se tu w) i = get_approval w i"
  by (simp add: get_approval_def)

text \<open>Only messages and events differ; only approvals, messages and events differ.\<close>

definition chat_frame :: "world \<Rightarrow> world \<Rightarrow> bool" where
  "chat_frame w w' = (w'\<lparr>session_messages := [], runtime_events := []\<rparr> = w\<lparr>session_messages := [], runtime_events := []\<rparr>)"

definition approval_frame :: "world \<Rightarrow> world \<Rightarrow> bool" where
  "approval_frame w w' = (w'\<lparr>session_messages := [], runtime_events := [], approvals := []\<rparr>
     = w\<lparr>session_messages := [], runtime_events := [], approvals := []\<rparr>)"

lemma chat_frame_trans: "chat_frame a b \<Longrightarrow> chat_frame b c \<Longrightarrow> chat_frame a c"
  by (simp add: chat_frame_def)

lemma chat_frame_emit [simp]: "chat_frame w (emit_full on t p sv se tu w)"
  by (simp add: chat_frame_def emit_full_def)

lemma chat_frame_record: "chat_frame w (snd (record_message cs mid now sid tid role c md w))"
  by (simp add: chat_frame_def record_message_def Let_def emit_full_def)

lemma chat_frame_answer: "chat_frame w (record_answer env sid tid answer md False w)"
  by (cases "ag_conv env") (simp_all add: record_answer_def record_assistant_message_def Let_def chat_frame_record, simp add: chat_frame_def)

lemma chat_frame_tool: "chat_frame w (record_tool env sid tid d md w)"
  by (cases "ag_conv env") (simp_all add: record_tool_def record_tool_message_def chat_frame_record, simp add: chat_frame_def)

lemma chat_frame_fields:
  assumes "chat_frame w w'"
  shows "approvals w' = approvals w" "tool_runs w' = tool_runs w" "get_approval w' i = get_approval w i"
proof -
  have e: "w'\<lparr>session_messages := [], runtime_events := []\<rparr> = w\<lparr>session_messages := [], runtime_events := []\<rparr>"
    using assms by (simp only: chat_frame_def)
  show "tool_runs w' = tool_runs w" using arg_cong [OF e, of tool_runs] by simp
  show a: "approvals w' = approvals w" using arg_cong [OF e, of approvals] by simp
  show "get_approval w' i = get_approval w i" by (simp add: get_approval_def a)
qed

lemma approval_frame_upd: "chat_frame (upd_approval i f w) w' \<Longrightarrow> approval_frame w w'"
proof -
  assume "chat_frame (upd_approval i f w) w'"
  then have "w'\<lparr>session_messages := [], runtime_events := []\<rparr> = (upd_approval i f w)\<lparr>session_messages := [], runtime_events := []\<rparr>"
    by (simp only: chat_frame_def)
  from arg_cong [OF this, of "approvals_update (\<lambda>_. [])"] show ?thesis by (simp add: approval_frame_def upd_approval_def)
qed

lemma upd_approval_twice:
  "(\<And>a. ap_id (g a) = ap_id a) \<Longrightarrow> upd_approval i f (upd_approval i g w) = upd_approval i (f \<circ> g) w"
  by (simp add: upd_approval_def upd_row_def comp_def if_distrib cong: if_cong)

text \<open>Rejecting an approval, or answering in its place, runs nothing: for every environment, \<open>resume_turn\<close> returns an
  answer and changes no table but the approvals, messages and events; the approval is closed as rejected or
  cancelled, keeps its checkpoint, and records the decision.\<close>

theorem reject_runs_nothing:
  assumes "uuid_parse aid = Some i" and "get_approval w i = Some a" and "resumable a"
    and "decision_of decision = d" and "d \<in> {''reject'', ''respond''}"
  shows "\<exists>r w' a'. resume_turn env aid decision edited response w = (Inr r, w') \<and> approval_frame w w'
    \<and> tu_answer r \<noteq> [] \<and> \<not> tu_resume_available r
    \<and> get_approval w' i = Some a' \<and> ap_status a' = (if d = ''reject'' then ''rejected'' else ''cancelled'')
    \<and> ap_turn_checkpoint a' = ap_turn_checkpoint a \<and> dget ''decision'' (ap_resume_state a') = JStr d"
proof -
  let ?cp = "ap_turn_checkpoint a"
  let ?answer = "if d = ''reject'' then str_or response ''Approval was rejected, so I stopped that tool call.''
    else str_or response (dstr_or ''response'' ''Handled by human response.'' (ap_resume_state a))"
  let ?st = "if d = ''reject'' then ''rejected'' else ''cancelled''"
  let ?out = "if d = ''reject'' then ''rejected'' else ''responded''"
  let ?rs = "(if d = ''reject'' then [] else [(''response'', JStr ?answer)]) @ [(''resumed'', JBool True), (''decision'', JStr d)]"
  let ?f = "\<lambda>a. (a\<lparr>ap_status := ?st, ap_resolved_at := Some (ag_now env w)\<rparr>)\<lparr>ap_resume_state := dmerge (ap_resume_state a) ?rs\<rparr>"
  have upd: "set_resume_state i ?rs (set_approval i ?st (ag_now env w) w) = upd_approval i ?f w"
    unfolding set_resume_state_def set_approval_def by (subst upd_approval_twice) (simp_all add: comp_def)
  define r where "r = fst (finish_resumed_turn env (dstr_or ''session_id'' ''local'' ?cp) (dstr ''turn_id'' ?cp) ?answer ?out i
    (dicts (dget ''tool_results'' ?cp)) (upd_approval i ?f w))"
  define w' where "w' = snd (finish_resumed_turn env (dstr_or ''session_id'' ''local'' ?cp) (dstr ''turn_id'' ?cp) ?answer ?out i
    (dicts (dget ''tool_results'' ?cp)) (upd_approval i ?f w))"
  have run: "resume_turn env aid decision edited response w = (Inr r, w')"
    using assms upd unfolding r_def w'_def decision_of_def resumable_def Let_def
    by (auto simp: resume_turn_def Let_def split_beta)
  have frame: "chat_frame (upd_approval i ?f w) w'"
    unfolding w'_def finish_resumed_turn_def snd_conv using chat_frame_trans [OF chat_frame_emit chat_frame_answer] .
  have "get_approval w' i = Some (?f a)"
    using chat_frame_fields(3) [OF frame] assms(2) by (simp add: get_approval_upd)
  moreover have "?answer \<noteq> []" using dstr_or_ne by (simp add: str_or_def)
  ultimately show ?thesis using approval_frame_upd [OF frame] assms(5)
    by (intro exI [of _ r] exI [of _ w'] exI [of _ "?f a"]) (auto simp: run r_def finish_resumed_turn_def dmerge_def)
qed

lemma resume_approved_cong:
  "ap_id a = ap_id b \<Longrightarrow> ap_edited_arguments a = ap_edited_arguments b \<Longrightarrow>
     resume_approved env sid tid a d cp w = resume_approved env sid tid b d cp w"
  by (simp only: resume_approved_def resume_pending_def)

text \<open>\<open>resume_turn\<close> never looks at the status of the approval: on an approval that was already rejected, cancelled or
  approved, however and whenever it was resolved, it does exactly what it does on a pending one. So a rejected call can still be run, and an
  approved one can be run again.\<close>

theorem resume_ignores_status:
  assumes "uuid_parse aid = Some i" and "get_approval w i = Some a" and "resumable a"
    and "decision_of decision \<in> {''approve'', ''edit'', ''reject'', ''respond''}"
    and "v = upd_approval i (\<lambda>a. a\<lparr>ap_status := status, ap_resolved_at := resolved\<rparr>) w" and "ag_now env v = ag_now env w"
  shows "resume_turn env aid decision edited response v = resume_turn env aid decision edited response w"
proof -
  let ?a = "a\<lparr>ap_status := status, ap_resolved_at := resolved\<rparr>"
  have a: "get_approval v i = Some ?a" using assms(2) unfolding assms(5) by (simp add: get_approval_upd)
  have s: "set_approval i st now v = set_approval i st now w" for st now
    unfolding set_approval_def assms(5) by (subst upd_approval_twice) (simp_all add: comp_def)
  have e: "set_approval i st now (if c then upd_approval i (\<lambda>a. a\<lparr>ap_edited_arguments := x\<rparr>) v else v)
      = set_approval i st now (if c then upd_approval i (\<lambda>a. a\<lparr>ap_edited_arguments := x\<rparr>) w else w)" for st now x c
    unfolding set_approval_def assms(5) by (simp add: upd_approval_twice comp_def)
  have r: "resume_approved env sid tid (if c then ?a\<lparr>ap_edited_arguments := x\<rparr> else ?a) d cp u
      = resume_approved env sid tid (if c then a\<lparr>ap_edited_arguments := x\<rparr> else a) d cp u" for sid tid x d cp u c
    by (rule resume_approved_cong) simp_all
  have sel: "ap_turn_checkpoint ?a = ap_turn_checkpoint a" "ap_resume_state ?a = ap_resume_state a" by simp_all
  show ?thesis unfolding resume_turn_def assms(1) a assms(2) option.case Let_def sel s e r assms(6)
    using assms(3,4) unfolding resumable_def decision_of_def Let_def by (simp only: if_False if_True simp_thms)
qed

section \<open>The interrupt\<close>

lemma call_of_response:
  "call_name [(''id'', x), (''name'', JStr n), (''arguments'', v)] = n"
  "call_approved [(''id'', x), (''name'', JStr n), (''arguments'', v)] = False"
  by (auto simp: call_name_def call_label_def py_or_def dget_def py_str_def call_approved_def dget_default_def)

lemma unapproved_state:
  assumes "registry_get reg name = Some t" and "td_handler t \<noteq> None" and "td_available t" and "td_requires_approval t"
    and "ee_platform ee" and "get_approval w (ee_approval_id ee) = None"
  shows "\<exists>w' p. execute_tool sv reg ee name args turn False w =
       (Inl (ToolApprovalRequired (''tool requires approval: '' @ name) name (ee_approval_id ee)), w')
     \<and> tool_runs w' = tool_runs w \<and> get_approval w' (ee_approval_id ee) = Some p \<and> ap_status p = ''pending''"
proof -
  obtain ap w1 where c: "create_tool_approval ee name args turn False w = (ap, w1)" by fastforce
  note row = create_tool_approval_row [OF assms(5,6) c]
  have runs: "tool_runs w1 = tool_runs w" using runs_create_tool_approval [of ee name args turn False w] c by simp
  have "ap = Some (ee_approval_id ee)" using row by blast
  from execute_unapproved [OF assms(1-4) c [unfolded this]] row runs show ?thesis by auto
qed

lemma save_approval_checkpoint_row:
  assumes "uuid_parse i = Some i" and "get_approval w i = Some p" and "i \<noteq> []"
  shows "\<exists>p'. get_approval (save_approval_checkpoint i cp w) i = Some p' \<and> ap_status p' = ap_status p \<and> ap_turn_checkpoint p' = cp"
  using assms by (simp add: save_approval_checkpoint_def get_approval_upd)

lemma save_approval_checkpoint_runs [simp]: "tool_runs (save_approval_checkpoint i cp w) = tool_runs w"
  by (simp add: save_approval_checkpoint_def upd_approval_def split: option.split)

lemma turn_checkpoint_reads:
  "dget ''mode'' (turn_checkpoint sid tid m i) = JStr ''agent_tool_loop''"
  "dget ''session_id'' (turn_checkpoint sid tid m i) = JStr sid"
  "dstr ''turn_id'' (turn_checkpoint sid tid m i) = tid"
  "pending_of (turn_checkpoint sid tid m i) = ai_pending_tool_call i"
  "dicts (dget ''tool_results'' (turn_checkpoint sid tid m i)) = ai_tool_results i"
  "dicts (dget ''tool_calls'' (turn_checkpoint sid tid m i)) = ai_tool_calls i"
  "dicts (dget ''messages'' (turn_checkpoint sid tid m i)) = ai_messages i"
  "dicts (dget ''round_tool_calls'' (turn_checkpoint sid tid m i)) = ai_round_tool_calls i"
  "dicts (dget ''round_completed_results'' (turn_checkpoint sid tid m i)) = ai_completed_results i"
  "number_of ''pending_index'' (turn_checkpoint sid tid m i) = nat (ai_pending_index i)"
  "number_of ''round_index'' (turn_checkpoint sid tid m i) = nat (ai_round_index i)"
  by (simp_all add: turn_checkpoint_def interrupt_fields_def dget_def dstr_def dstr_or_def pending_of_def dicts_def number_of_def
      list_or_empty_def dict_or_empty_def py_str_def comp_def)

lemma execute_tool_calls_interrupt:
  assumes "run_call env sv tid (call_approved c) c w = (Inl (ToolApprovalRequired m t aid), w1)" and "ag_tools env = Some sv"
  shows "\<exists>it w'. execute_tool_calls env tid sid (c # cs) w = (Inl it, w') \<and> ai_approval_id it = aid
    \<and> ai_pending_tool_call it = c \<and> chat_frame w1 w'"
  using assms by (simp add: execute_tool_calls_def Let_def new_interrupt_def chat_frame_tool)

lemma run_llm_interrupt:
  assumes "ag_llm env = Some llm" and "llm (prompt_messages context message) (llm_tools env) w = (Inr response, w1)"
    and "llm_calls response \<noteq> []" and "execute_tool_calls env tid sid (llm_calls response) w1 = (Inl it, w2)"
  shows "\<exists>it'. run_llm env tid sid message context w = (Inl it', w2) \<and> ai_approval_id it' = ai_approval_id it
    \<and> ai_pending_tool_call it' = ai_pending_tool_call it"
  using assms by (simp add: run_llm_def Let_def numeral_eq_Suc)


section \<open>Resuming\<close>

lemma resume_calls_results:
  "resume_calls env sv tid sid aid cp first index results cs w = (Inr (Inr rs), w') \<Longrightarrow>
     \<exists>new. rs = results @ new \<and> length new = length cs
       \<and> (cs \<noteq> [] \<longrightarrow> fst (run_call env sv tid (first \<or> call_approved (hd cs)) (hd cs) w) = Inr (hd new))"
proof (induction cs arbitrary: first index results w)
  case (Cons c cs)
  obtain x w1 where x: "run_call env sv tid (first \<or> call_approved c) c w = (x, w1)" by fastforce
  show ?case
  proof (cases x)
    case (Inl e)
    then show ?thesis using Cons.prems x by (cases e) (simp_all add: Let_def)
  next
    case (Inr d)
    obtain w2 where "resume_calls env sv tid sid aid cp False (Suc index) (results @ [d]) cs w2 = (Inr (Inr rs), w')"
      using Cons.prems x Inr by simp
    from Cons.IH [OF this] obtain new where "rs = (results @ [d]) @ new" "length new = length cs" by blast
    then show ?thesis using x Inr by (intro exI [of _ "d # new"]) simp
  qed
qed simp

lemma resume_calls_nested:
  "resume_calls env sv tid sid aid cp first index results cs w = (Inr (Inl r), w') \<Longrightarrow> tu_status r = ''approval_required''"
proof (induction cs arbitrary: first index results w)
  case (Cons c cs)
  obtain x w1 where x: "run_call env sv tid (first \<or> call_approved c) c w = (x, w1)" by fastforce
  show ?case
  proof (cases x)
    case (Inl e)
    then show ?thesis using Cons.prems x by (cases e) (simp_all add: Let_def nested_result_def, auto)
  next
    case (Inr d)
    then show ?thesis using Cons.IH Cons.prems x by simp
  qed
qed simp

lemma resume_llm_results:
  assumes "resume_llm env tid sid cp ms results w = (Inr u, w')" and "ag_tools env \<noteq> None"
  shows "\<exists>later. lu_results u = results @ later"
proof (cases "ag_llm env")
  case None
  then show ?thesis using assms(1) by (auto simp: resume_llm_def Let_def)
next
  case (Some llm)
  show ?thesis
  proof (cases "llm ms (llm_tools env) w")
    case (Pair y w1)
    then show ?thesis
    proof (cases y)
      case (Inl e)
      then show ?thesis using assms(1) Some Pair by (auto simp: resume_llm_def Let_def)
    next
      case (Inr response)
      then have "continue_llm_loop (4 - (number_of ''round_index'' cp + 1)) env llm (llm_tools env) tid sid
          (int (number_of ''round_index'' cp + 1)) (if results = [] then ''completed'' else ''completed_with_tools'') response ms
          (dicts (dget ''tool_calls'' cp)) results w1 = (Inr u, w')"
        using assms(1) Some Pair by (simp add: resume_llm_def Let_def)
      from continue_llm_loop_rounds [OF assms(2) this] show ?thesis by (auto simp: loop_result_def)
    qed
  qed
qed

lemma prior_results_checkpoint:
  assumes "ai_tool_results i = earlier @ ai_completed_results i @ [ai_approval_result i]"
    and "dget ''status'' (ai_approval_result i) = JStr ''approval_required''"
  shows "prior_results (turn_checkpoint sid tid m i) = earlier"
  using assms by (simp add: prior_results_def turn_checkpoint_reads)

text \<open>The results of a resumed turn that completes.\<close>

lemma resume_round_results:
  assumes "resume_round env sid tid aid d tname cp calls rs w = (Inr r, w')" and "tu_status r = ''completed''" and "ag_tools env \<noteq> None"
  shows "\<exists>later. dget ''tools'' (tu_context r) = objs (prior_results cp @ rs @ later)"
proof -
  let ?w1 = "if ag_conv env = None then w
    else emit_full True ''agent.node.tool_execution'' [(''tool_results'', JInt (int (length rs)))] ''info'' sid tid w"
  let ?ms = "append_tool_messages (dicts (dget ''messages'' cp)) (number_calls calls) rs"
  obtain y w2 where y: "resume_llm env tid sid cp ?ms (prior_results cp @ rs) ?w1 = (y, w2)" by fastforce
  have len: "\<not> length calls < length rs" using assms(1) by (auto simp: resume_round_def Let_def)
  note run = assms(1) [unfolded resume_round_def Let_def y prod.case if_not_P [OF len]]
  obtain u where u: "y = Inr u" using run assms(2) by (cases y) (auto simp: nested_result_def)
  then obtain later where "lu_results u = (prior_results cp @ rs) @ later" using resume_llm_results [OF y [unfolded u] assms(3)] by blast
  moreover have "tu_context r = [(''tools'', objs (lu_results u)),
       (''llm'', JObj [(''status'', JStr (lu_status u)), (''tool_calls'', objs (lu_calls u))]),
       (''turn'', JObj [(''status'', JStr ''completed''), (''approval_id'', JStr aid), (''resume_available'', JBool False)])]"
    using run u by (auto simp: close_resumed_def Let_def)
  ultimately show ?thesis by (auto simp: dget_def)
qed

lemma resume_approved_results:
  assumes "resume_approved env sid tid a d cp w = (Inr r, w')" and "tu_status r = ''completed''"
    and "number_of ''pending_index'' cp < length (dicts (dget ''round_tool_calls'' cp))"
  shows "\<exists>sv new later. ag_tools env = Some sv
    \<and> dget ''tools'' (tu_context r) = objs (prior_results cp @ dicts (dget ''round_completed_results'' cp) @ new @ later)
    \<and> length new = length (dicts (dget ''round_tool_calls'' cp)) - number_of ''pending_index'' cp
    \<and> fst (run_call env sv tid True (resume_pending a cp) w) = Inr (hd new)"
proof -
  let ?calls = "dicts (dget ''round_tool_calls'' cp)" and ?k = "number_of ''pending_index'' cp"
  let ?rest = "resume_pending a cp # drop (Suc ?k) ?calls" and ?done = "dicts (dget ''round_completed_results'' cp)"
  have ne: "?calls \<noteq> []" using assms(3) by auto
  obtain sv where sv: "ag_tools env = Some sv"
    using assms(1) by (cases "ag_tools env") (simp_all add: resume_approved_def Let_def)
  obtain y w1 where y: "resume_calls env sv tid sid (ap_id a) cp True ?k ?done ?rest w = (y, w1)" by fastforce
  have run: "(case y of Inl e \<Rightarrow> (Inl e, w1) | Inr (Inl r) \<Rightarrow> (Inr r, w1)
      | Inr (Inr rs) \<Rightarrow> resume_round env sid tid (ap_id a) d (call_name (pending_of cp)) cp (?calls[?k := resume_pending a cp]) rs w1) = (Inr r, w')"
    using assms(1) ne assms(3) y
    by (simp add: resume_approved_def Let_def sv op_bind_def not_le del: resume_calls.simps split: sum.splits)
  obtain rs where rs: "y = Inr (Inr rs)"
  proof (cases y)
    case (Inr z)
    have "\<exists>rs. z = Inr rs"
    proof (cases z)
      case (Inl q)
      then have "q = r" using run \<open>y = Inr z\<close> by simp
      then show ?thesis using resume_calls_nested [OF y [unfolded \<open>y = Inr z\<close> Inl]] assms(2) by simp
    qed simp
    then show thesis using Inr that by blast
  qed (use run in simp)
  obtain new where new: "rs = ?done @ new" "length new = length ?rest"
      "fst (run_call env sv tid True (resume_pending a cp) w) = Inr (hd new)"
    using resume_calls_results [OF y [unfolded rs]] by auto
  have "ag_tools env \<noteq> None" using sv by simp
  moreover have "resume_round env sid tid (ap_id a) d (call_name (pending_of cp)) cp (?calls[?k := resume_pending a cp]) rs w1 = (Inr r, w')"
    using run rs by simp
  ultimately obtain later where "dget ''tools'' (tu_context r) = objs (prior_results cp @ rs @ later)"
    using resume_round_results assms(2) by blast
  then show ?thesis using sv new assms(3) by (intro exI [of _ sv] exI [of _ new] exI [of _ later]) auto
qed


section \<open>A small agent\<close>

text \<open>The model asks for a message to be sent, and says so once it has an answer to that; sending needs an approval.\<close>

definition sample_llm :: "dict list \<Rightarrow> dict list \<Rightarrow> llm_response op" where
  "sample_llm messages tools = op_ok (if list_ex (\<lambda>m. dget ''role'' m = JStr ''tool'') messages
     then \<lparr>lr_content = ''sent'', lr_tool_calls = [], lr_raw = JNull\<rparr>
     else \<lparr>lr_content = '''', lr_tool_calls = [\<lparr>tc_name = ''gateway_send'', tc_arguments = JObj [(''gateway_name'', JStr ''g''), (''target_id'', JStr ''u''), (''text'', JStr ''hi'')], tc_id = ''c1''\<rparr>],
           lr_raw = JNull\<rparr>)"

definition sample_agent :: agent_env where
  "sample_agent = \<lparr>ag_conv = None, ag_wiki = sample_wiki_env, ag_mem = sample_mem_env ''m'' 5,
     ag_tools = Some sample_services, ag_registry = Some sample_registry, ag_max_direct = 8, ag_llm = Some sample_llm, ag_workspace = None,
     ag_mtime = (\<lambda>_ _. ''''), ag_a2a = None, ag_exec = (\<lambda>w. sample_exec\<lparr>ee_approval_id := uuid_a\<rparr>), ag_now = (\<lambda>_. 5),
     ag_new_id = (\<lambda>_. ''n'')\<rparr>"

definition interrupted_agent :: "turn_state \<times> world" where
  "interrupted_agent = llm_turn sample_agent ''t'' ''s'' ''send hi'' ''ctx'' empty_world"

definition sample_interrupt :: interrupt where
  "sample_interrupt = projl (fst (run_llm sample_agent ''t'' ''s'' ''send hi'' ''ctx'' empty_world))"

definition interrupt_world :: world where
  "interrupt_world = snd (run_llm sample_agent ''t'' ''s'' ''send hi'' ''ctx'' empty_world)"

definition waiting_approval :: approval where
  "waiting_approval = the (get_approval (snd interrupted_agent) uuid_a)"

lemma sample_interrupted:
  "run_llm sample_agent ''t'' ''s'' ''send hi'' ''ctx'' empty_world = (Inl sample_interrupt, interrupt_world)"
proof -
  have "isl (fst (run_llm sample_agent ''t'' ''s'' ''send hi'' ''ctx'' empty_world))" by code_simp
  then show ?thesis by (simp add: sample_interrupt_def interrupt_world_def prod_eq_iff)
qed

lemma sample_interrupt_fields:
  "ai_approval_id sample_interrupt = uuid_a" "ai_pending_tool_call sample_interrupt \<noteq> []" "uuid_parse uuid_a = Some uuid_a"
  by code_simp+

lemma sample_waiting:
  "get_approval (snd interrupted_agent) uuid_a = Some waiting_approval"
  "ap_turn_checkpoint waiting_approval = turn_checkpoint ''s'' ''t'' ''send hi'' sample_interrupt" "resumable waiting_approval"
proof -
  let ?cp = "turn_checkpoint ''s'' ''t'' ''send hi'' sample_interrupt"
  have "get_approval interrupt_world uuid_a \<noteq> None" by code_simp
  then obtain p where "get_approval interrupt_world uuid_a = Some p" by blast
  moreover have "uuid_a \<noteq> []" by (simp add: uuid_a_def)
  ultimately obtain p' where p': "get_approval (save_approval_checkpoint uuid_a ?cp interrupt_world) uuid_a = Some p'" "ap_turn_checkpoint p' = ?cp"
    using save_approval_checkpoint_row sample_interrupt_fields(3) by blast
  then have g: "get_approval (snd interrupted_agent) uuid_a = Some p'"
    by (simp add: interrupted_agent_def llm_turn_def sample_interrupted sample_interrupt_fields(1))
  then show "get_approval (snd interrupted_agent) uuid_a = Some waiting_approval" by (simp add: waiting_approval_def)
  show c: "ap_turn_checkpoint waiting_approval = ?cp" using g p'(2) by (simp add: waiting_approval_def)
  show "resumable waiting_approval" using sample_interrupt_fields(2) by (simp add: resumable_def c turn_checkpoint_reads)
qed


theorem reject_runs_nothing_witness:
  "\<exists>r w'. resume_turn sample_agent uuid_a ''Reject '' [] '''' (snd interrupted_agent) = (Inr r, w')
     \<and> approval_frame (snd interrupted_agent) w' \<and> tu_answer r \<noteq> []"
proof -
  have "decision_of ''Reject '' = ''reject''" "''reject'' \<in> {''reject'', ''respond''}" by code_simp+
  from reject_runs_nothing [OF sample_interrupt_fields(3) sample_waiting(1,3) this, where env = sample_agent and edited = "[]" and response = "''''"]
  show ?thesis by blast
qed

theorem resume_ignores_status_witness:
  "resume_turn sample_agent uuid_a '''' [] ''''
      (upd_approval uuid_a (\<lambda>a. a\<lparr>ap_status := ''rejected'', ap_resolved_at := Some 7\<rparr>) (snd interrupted_agent))
     = resume_turn sample_agent uuid_a '''' [] '''' (snd interrupted_agent)"
proof -
  have d: "decision_of '''' \<in> {''approve'', ''edit'', ''reject'', ''respond''}" by code_simp
  have "ag_now sample_agent v = ag_now sample_agent u" for u v by (simp add: sample_agent_def)
  from resume_ignores_status [OF sample_interrupt_fields(3) sample_waiting(1,3) d refl this] show ?thesis .
qed


text \<open>The same agent when the model is not configured any more.\<close>

definition offline_agent :: agent_env where
  "offline_agent = sample_agent\<lparr>ag_llm := None\<rparr>"


end
