(* ===== verification/Admin_Props.thy ===== *)
theory Admin_Props
  imports Admin Agent_Props
begin

text \<open>
  Properties of the admin API: who is served, what a failing request leaves behind, and what the routes make of the
  contracts of the tools, the jobs and the gateway.
\<close>

section \<open>Facts\<close>

lemma rollback_refl [simp]: "rollback True w w = w"
  by (simp add: rollback_def)

lemma rollback_tables [simp]:
  "approvals (rollback True w w') = approvals w" "tool_runs (rollback True w w') = tool_runs w"
  "get_approval (rollback True w w') i = get_approval w i"
  by (simp_all add: rollback_def get_approval_def Let_def)

lemma admin_user:
  "get_current_user (aq_jwt env) (aq_security env) c w = Inr u \<Longrightarrow>
     admin env c q w = (case handle env u q w of (Inr d, w') \<Rightarrow> (Inr d, w') | (Inl e, w') \<Rightarrow> (Inl e, rollback True w w'))"
  by (simp add: admin_def authenticated_def get_db_def)

lemma current_user:
  assumes "get_current_user jwt cfg c w = Inr u"
  shows "\<exists>token payload. c = Some token \<and> decode_access_token jwt cfg token = Some payload \<and> parse_user_id (dstr ''sub'' payload) = Some (us_id u)
    \<and> u \<in> set (users w) \<and> us_is_active u"
  using assms by (auto simp: get_current_user_def find_Some_iff split: option.splits)


text \<open>A request that fails leaves no trace in the database: whatever the route did before it raised, every table and both
  event logs are as before; only files keep what was written to them.\<close>

theorem failed_request_rolls_back:
  assumes "admin env c q w = (Inl e, w')"
  shows "w' = w\<lparr>workspace_fs := workspace_fs w', skills_fs := skills_fs w', wiki_fs := wiki_fs w'\<rparr>"
proof (cases "get_current_user (aq_jwt env) (aq_security env) c w")
  case (Inl e1)
  then have "w' = w" using assms by (simp add: admin_def authenticated_def get_db_def)
  then show ?thesis by simp
next
  case (Inr u)
  then obtain v where "w' = rollback True w v" using assms admin_user [OF Inr, of q] by (auto split: prod.splits sum.splits)
  then show ?thesis by (simp add: rollback_def Let_def)
qed

text \<open>C33: Running a tool directly loses the approval it asks for. For a tool that requires one, an unapproved
  request is answered with status 403; the approval that \<open>execute\<close> created is rolled back with the request,
  so there is nothing that could be approved.\<close>

theorem direct_run_loses_approval:
  assumes "get_current_user (aq_jwt env) (aq_security env) c w = Inr u"
    and "ag_tools (aq_agent env) = Some sv" and "ag_registry (aq_agent env) = Some reg"
    and "registry_get reg name = Some t" and "td_handler t \<noteq> None" and "td_available t" and "td_requires_approval t"
    and "ee_platform (ag_exec (aq_agent env) w)" and "get_approval w (ee_approval_id (ag_exec (aq_agent env) w)) = None"
  shows "\<exists>w1 p. execute_tool sv reg (ag_exec (aq_agent env) w) name args turn_id False w =
        (Inl (ToolApprovalRequired (''tool requires approval: '' @ name) name (ee_approval_id (ag_exec (aq_agent env) w))), w1)
      \<and> get_approval w1 (ee_approval_id (ag_exec (aq_agent env) w)) = Some p \<and> ap_status p = ''pending''
    \<and> (\<exists>w'. admin env c (Run_Tool name args turn_id False) w = (Inl (HTTPException 403 (''tool requires approval: '' @ name)), w')
        \<and> approvals w' = approvals w \<and> get_approval w' (ee_approval_id (ag_exec (aq_agent env) w)) = None)"
proof -
  let ?i = "ee_approval_id (ag_exec (aq_agent env) w)"
  let ?e = "ToolApprovalRequired (''tool requires approval: '' @ name) name ?i"
  obtain w1 p where x: "execute_tool sv reg (ag_exec (aq_agent env) w) name args turn_id False w = (Inl ?e, w1)"
    and p: "get_approval w1 ?i = Some p" "ap_status p = ''pending''"
    using unapproved_state [OF assms(4-9), of sv args turn_id] by blast
  have "handle env u (Run_Tool name args turn_id False) w = (Inl (HTTPException 403 (''tool requires approval: '' @ name)), w1)"
    by (simp add: run_tool_route_def http_def execute_route_def assms(2,3) x http_error_def tool_codes_def)
  then have "admin env c (Run_Tool name args turn_id False) w = (Inl (HTTPException 403 (''tool requires approval: '' @ name)), rollback True w w1)"
    by (simp add: admin_user [OF assms(1)])
  then show ?thesis using x p assms(9) by auto
qed

text \<open>The message of the public webhook: the body cannot switch the checks off.\<close>

lemma webhook_message_fields:
  "is_public (webhook_message q)" "timestamp_of (webhook_message q) = whq_timestamp q" "nonce_of (webhook_message q) = whq_nonce q"
  "in_text (webhook_message q) = whq_text q" "in_gateway_name (webhook_message q) = whq_gateway_name q"
  by (simp_all add: webhook_message_def is_public_def timestamp_of_def nonce_of_def dmerge_def dstr_def dstr_or_def py_str_def)


text \<open>Asking again answers with the old job. Once a request for a heartbeat has been answered with a job, every later request of the same user
  is answered with that job, however it ended, and enqueues nothing.\<close>

theorem heartbeat_request_repeats_job:
  assumes "enqueue_route env ''heartbeat_check'' [] (us_username u) w = (Inr i, w')"
  shows "run_heartbeat_route env True u w' = (Inr [(''requested_by'', JStr (us_username u)), (''job'', JObj (job_dict i w'))], w')"
proof -
  have "enqueue_background_job (aq_sha env) True (aq_new_id env w) (aq_outbox_id env w) (aq_queue_id env w) (aq_now env w)
      ''heartbeat_check'' [] (us_username u) None '''' 3 w = (Inr i, w')"
    using assms by (auto simp: enqueue_route_def http_def split: prod.splits sum.splits)
  from enqueue_again [OF this]
  have "enqueue_route env ''heartbeat_check'' [] (us_username u) w' = (Inr i, w')" by (simp add: enqueue_route_def http_def)
  then show ?thesis by (simp add: run_heartbeat_route_def route_then_def respond_def)
qed

text \<open>The state in which \<open>approve_and_run\<close> executes the tool, and that execution.\<close>

definition run_world :: "admin_env \<Rightarrow> uuid \<Rightarrow> approval \<Rightarrow> world \<Rightarrow> world" where
  "run_world env i a w = (if ap_status a = ''pending'' then snd (resolve_approval True i (aq_now env w) ''approved'' w) else w)"

definition run_approved :: "admin_env \<Rightarrow> uuid \<Rightarrow> approval \<Rightarrow> world \<Rightarrow> (exc + dict) \<times> world" where
  "run_approved env i a w = execute_route env (dstr ''tool_name'' (ap_payload a))
     (if ap_edited_arguments a \<noteq> [] then ap_edited_arguments a else dict_or_empty (dget ''arguments'' (ap_payload a)))
     (dstr ''turn_id'' (ap_payload a)) True (run_world env i a w)"

text \<open>An approval of a tool run outside of a turn.\<close>

definition plain_run :: "approval \<Rightarrow> bool" where
  "plain_run a = (ap_subject_type a = ''tool_run'' \<and> \<not> resumes_turn a \<and> dstr ''tool_name'' (ap_payload a) \<noteq> [])"

lemma approve_and_run_plain:
  assumes "get_approval w i = Some a" and "plain_run a" and "ap_status a \<in> {''pending'', ''approved''}"
  shows "approve_and_run env i w = route_then (http run_codes (\<lambda>_. run_approved env i a w)) (\<lambda>result.
     respond (\<lambda>w. [(''ok'', JBool True), (''approval'', JObj (row_dict approval_to_dict (get_approval w i))), (''tool_result'', JObj result)])) w"
proof -
  have run: "approve_and_run env i w = run_approved_tool env i a w"
    using assms by (auto simp: approve_and_run_def plain_run_def)
  have start: "(if ap_status a = ''pending'' then \<lambda>w. http value_codes (resolve_approval True i (aq_now env w) ''approved'') w
      else (\<lambda>w. (Inr i, w))) w = (Inr i, run_world env i a w)"
    using assms(1,3) by (auto simp: resolve_approval_def run_world_def http_def)
  have "dstr ''tool_name'' (ap_payload a) \<noteq> []" using assms(2) by (simp add: plain_run_def)
  then show ?thesis
    unfolding run run_approved_tool_def Let_def by (simp add: route_then_def start http_def run_approved_def del: if_split)
qed

text \<open>C34: An approved run that fails is forgotten. When the tool of an approved call raises, the request is answered
  with that error and rolled back: the approval is as it was before the request, pending if it was pending, and no run and no resolution is on
  record, although the tool was executed with the approval.\<close>

theorem failed_approved_run_forgotten:
  assumes "get_current_user (aq_jwt env) (aq_security env) c w = Inr u"
    and "get_approval w i = Some a" and "plain_run a" and "ap_status a \<in> {''pending'', ''approved''}"
    and "run_approved env i a w = (Inl e, w1)" and "run_codes e = Some n"
  shows "\<exists>w'. admin env c (Approve_And_Run i) w = (Inl (HTTPException n (exc_str e)), w')
    \<and> get_approval w' i = Some a \<and> tool_runs w' = tool_runs w"
proof -
  have "handle env u (Approve_And_Run i) w = (Inl (HTTPException n (exc_str e)), w1)"
    by (simp add: approve_and_run_plain [OF assms(2-4)] route_then_def http_def assms(5,6) http_error_def)
  then show ?thesis using assms(2) by (simp add: admin_user [OF assms(1)])
qed

text \<open>An approval is not used up. After a run that succeeded and left the approval approved, the same request runs the tool again, and its
  answer carries the result of the second run.\<close>

theorem approval_not_consumed:
  assumes "get_current_user (aq_jwt env) (aq_security env) c w1 = Inr u"
    and "get_approval w i = Some a" and "plain_run a" and "ap_status a = ''pending''"
    and "admin env c (Approve_And_Run i) w = (Inr d, w1)"
    and "get_approval w1 i = Some b" and "plain_run b" and "ap_status b = ''approved''"
    and "run_approved env i b w1 = (Inr again, w2)"
  shows "\<exists>d'. admin env c (Approve_And_Run i) w1 = (Inr d', w2) \<and> dget ''tool_result'' d' = JObj again"
proof -
  have "handle env u (Approve_And_Run i) w1 = (Inr [(''ok'', JBool True),
      (''approval'', JObj (row_dict approval_to_dict (get_approval w2 i))), (''tool_result'', JObj again)], w2)"
    using assms(8) by (simp add: approve_and_run_plain [OF assms(6,7)] route_then_def http_def assms(9) respond_def)
  then show ?thesis by (simp add: admin_user [OF assms(1)] dget_def)
qed

section \<open>A small installation\<close>

definition sample_columns :: hidden_columns where
  "sample_columns = \<lparr>hc_id = (\<lambda>_ k. k), hc_time = (\<lambda>_ _ _. None)\<rparr>"

definition sample_admin :: admin_env where
  "sample_admin = \<lparr>aq_jwt = toy_jwt, aq_security = toy_settings, aq_agent = sample_agent, aq_evolution = (\<lambda>_. sample_evolution_env),
     aq_hidden = sample_columns, aq_cron_valid = (\<lambda>_. True), aq_zone = (\<lambda>_. Inr ()), aq_croniter = (\<lambda>_ _ t. Inr (t + 60)),
     aq_sha = id, aq_new_id = (\<lambda>_. ''j1''), aq_outbox_id = (\<lambda>_. ''o1''), aq_queue_id = (\<lambda>_. ''q1''), aq_now = (\<lambda>_. 120),
     aq_heartbeat_timeout = 90, aq_gateway = default_gateway_config, aq_hmac = toy_hmac, aq_seed = None, aq_mtime = (\<lambda>_ _. ''''),
     aq_ids = (\<lambda>_. ''p'')\<rparr>"

definition admin_world :: world where
  "admin_world = empty_world\<lparr>users := [toy_admin], gateway_connections := [sample_gateway]\<rparr>"

definition run_request :: "string \<Rightarrow> dict \<Rightarrow> approval" where
  "run_request status args = \<lparr>ap_id = uuid_a, ap_status = status, ap_subject_type = ''tool_run'', ap_subject_id = '''',
     ap_payload = [(''tool_name'', JStr ''gateway_send''), (''arguments'', JObj args)], ap_turn_checkpoint = [],
     ap_original_tool_call = [], ap_allowed_decisions = default_decisions, ap_edited_arguments = [], ap_resume_state = [],
     ap_created_at = 1, ap_resolved_at = None\<rparr>"

lemma sample_login: "users w = [toy_admin] \<Longrightarrow> get_current_user (aq_jwt sample_admin) (aq_security sample_admin) (Some t) w = Inr toy_admin"
proof -
  have "parse_user_id (dstr ''sub'' (token_payload toy_settings 5 toy_admin)) = Some (us_id toy_admin)" "us_is_active toy_admin" by code_simp+
  then show "users w = [toy_admin] \<Longrightarrow> ?thesis"
    by (simp add: get_current_user_def sample_admin_def decode_access_token_def toy_jwt_def)
qed


theorem failed_request_rolls_back_witness:
  "snd (admin sample_admin (Some ''t'') (Get_Job uuid_a) admin_world) = admin_world"
proof -
  let ?r = "admin sample_admin (Some ''t'') (Get_Job uuid_a) admin_world"
  have u: "users admin_world = [toy_admin]" "get_job admin_world uuid_a = None"
    by (simp_all add: admin_world_def get_job_def empty_world_def)
  have "?r = (Inl (HTTPException 404 ''job not found''), admin_world)" by (simp add: admin_user [OF sample_login [OF u(1)]] job_route_def u(2))
  from failed_request_rolls_back [OF this] show ?thesis using \<open>?r = _\<close> by simp
qed

theorem direct_run_loses_approval_witness:
  "\<exists>w'. admin sample_admin (Some ''t'') (Run_Tool ''gateway_send'' [] '''' False) admin_world
       = (Inl (HTTPException 403 ''tool requires approval: gateway_send''), w') \<and> get_approval w' uuid_a = None"
proof -
  have u: "users admin_world = [toy_admin]" by (simp add: admin_world_def)
  have a: "ag_tools (aq_agent sample_admin) = Some sample_services" "ag_registry (aq_agent sample_admin) = Some sample_registry"
    "ee_platform (ag_exec (aq_agent sample_admin) admin_world)" "ee_approval_id (ag_exec (aq_agent sample_admin) admin_world) = uuid_a"
    by (simp_all add: sample_admin_def sample_agent_def sample_exec_def)
  have t: "registry_get sample_registry ''gateway_send'' = Some gateway_send_tool" "td_handler gateway_send_tool \<noteq> None"
    "td_available gateway_send_tool" "td_requires_approval gateway_send_tool" by code_simp+
  have g: "get_approval admin_world (ee_approval_id (ag_exec (aq_agent sample_admin) admin_world)) = None"
    by (simp add: get_approval_def admin_world_def empty_world_def)
  from direct_run_loses_approval [OF sample_login [OF u] a(1,2) t a(3) g] show ?thesis unfolding a(4) by (simp, blast)
qed

theorem heartbeat_request_repeats_job_witness:
  "\<exists>w'. fst (enqueue_route sample_admin ''heartbeat_check'' [] ''admin'' admin_world) = Inr ''j1''
     \<and> run_heartbeat_route sample_admin True toy_admin w'
       = (Inr [(''requested_by'', JStr ''admin''), (''job'', JObj (job_dict ''j1'' w'))], w')"
proof -
  have n: "us_username toy_admin = ''admin''" by (simp add: toy_admin_def)
  have "fst (enqueue_route sample_admin ''heartbeat_check'' [] ''admin'' admin_world) = Inr ''j1''" by code_simp
  then obtain w' where w': "enqueue_route sample_admin ''heartbeat_check'' [] ''admin'' admin_world = (Inr ''j1'', w')"
    by (metis prod.collapse)
  from heartbeat_request_repeats_job [of sample_admin toy_admin admin_world "''j1''" w', unfolded n, OF w'] w' show ?thesis by auto
qed

theorem failed_approved_run_forgotten_witness:
  "\<exists>w' code detail. admin sample_admin (Some ''t'') (Approve_And_Run uuid_a) (admin_world\<lparr>approvals := [run_request ''pending'' []]\<rparr>)
       = (Inl (HTTPException code detail), w')
     \<and> get_approval w' uuid_a = Some (run_request ''pending'' []) \<and> tool_runs w' = []"
proof -
  let ?w = "admin_world\<lparr>approvals := [run_request ''pending'' []]\<rparr>" and ?a = "run_request ''pending'' []"
  have u: "users ?w = [toy_admin]" and g: "get_approval ?w uuid_a = Some ?a" and r: "tool_runs ?w = []"
    by (simp_all add: admin_world_def empty_world_def get_approval_def run_request_def)
  have p: "plain_run ?a" "ap_status ?a \<in> {''pending'', ''approved''}" by code_simp+
  have "case fst (run_approved sample_admin uuid_a ?a ?w) of Inl e \<Rightarrow> run_codes e = Some 404 | Inr _ \<Rightarrow> False" by code_simp
  then obtain e w1 where e: "run_approved sample_admin uuid_a ?a ?w = (Inl e, w1)" "run_codes e = Some 404"
    by (cases "run_approved sample_admin uuid_a ?a ?w") (auto split: sum.splits)
  from failed_approved_run_forgotten [OF sample_login [OF u] g p e, where t1 = "''t''"] show ?thesis unfolding r by blast
qed

lemma inbound_returns:
  assumes "require_gateway (in_gateway_name m) w = Inr g" and "verify_signature cfg hmac now g m = Inr config"
    and turns: "\<And>text session v. \<exists>r v'. turn text session v = (Inr r, v')"
  shows "\<exists>d w'. handle_inbound cfg hmac turn now received m w = (Inr d, w')"
proof -
  let ?s = "session_id_of (gw_name g) (in_channel_id m) (in_external_user_id m)"
  let ?w = "emit_full True ''gateway.inbound'' [(''gateway'', JStr (gw_name g)), (''kind'', JStr (gw_kind g)),
      (''external_user_id'', JStr (in_external_user_id m)), (''channel_id'', JStr (in_channel_id m))] ''info'' ?s ''''
      (upd_gateway (gw_name g) (\<lambda>g. g\<lparr>gw_config := config, gw_last_inbound_at := Some received,
         gw_inbound_count := gw_inbound_count g + 1, gw_status := ''online''\<rparr>) w)"
  obtain r v where "turn (in_text m) ?s ?w = (Inr r, v)" using turns by blast
  then show ?thesis by (simp add: handle_inbound_def session_scope_def inbound_body_def assms(1,2) Let_def)
qed

definition good_webhook :: webhook_request where
  "good_webhook = \<lparr>whq_gateway_name = ''hook'', whq_external_user_id = ''u'', whq_text = ''pay bob'', whq_channel_id = '''',
     whq_timestamp = ''100'', whq_nonce = ''n1'', whq_signature = ''k:100.n1.pay bob'', whq_metadata = [(''public_webhook'', JBool False)]\<rparr>"


definition send_args :: dict where
  "send_args = [(''gateway_name'', JStr ''g''), (''target_id'', JStr ''u''), (''text'', JStr ''hi'')]"

definition pending_world :: world where
  "pending_world = admin_world\<lparr>approvals := [run_request ''pending'' send_args]\<rparr>"

definition sent_world :: world where
  "sent_world = snd (run_approved sample_admin uuid_a (run_request ''pending'' send_args) pending_world)"

theorem approval_not_consumed_witness:
  "\<exists>d d' w'. admin sample_admin (Some ''t'') (Approve_And_Run uuid_a) pending_world = (Inr d, sent_world)
     \<and> admin sample_admin (Some ''t'') (Approve_And_Run uuid_a) sent_world = (Inr d', w')"
proof -
  let ?a = "run_request ''pending'' send_args"
  have u: "users pending_world = [toy_admin]" and g: "get_approval pending_world uuid_a = Some ?a"
    by (simp_all add: pending_world_def admin_world_def empty_world_def get_approval_def run_request_def)
  have p: "plain_run ?a" "ap_status ?a = ''pending''" by code_simp+
  then have p': "ap_status ?a \<in> {''pending'', ''approved''}" by simp
  have "\<not> isl (fst (run_approved sample_admin uuid_a ?a pending_world))" by code_simp
  then obtain x where x: "run_approved sample_admin uuid_a ?a pending_world = (Inr x, sent_world)"
    by (metis sent_world_def prod.collapse sum.collapse(2))
  then obtain d where d: "admin sample_admin (Some ''t'') (Approve_And_Run uuid_a) pending_world = (Inr d, sent_world)"
    by (simp add: admin_user [OF sample_login [OF u]] approve_and_run_plain [OF g p(1) p'] route_then_def http_def respond_def)
  have s: "case get_approval sent_world uuid_a of None \<Rightarrow> False | Some b \<Rightarrow> plain_run b \<and> ap_status b = ''approved''
      \<and> \<not> isl (fst (run_approved sample_admin uuid_a b sent_world))" by code_simp
  then obtain b y v where b: "get_approval sent_world uuid_a = Some b" "plain_run b" "ap_status b = ''approved''"
      "run_approved sample_admin uuid_a b sent_world = (Inr y, v)"
    by (auto split: option.splits) (metis prod.collapse sum.collapse(2))
  have u1: "users sent_world = [toy_admin]" by code_simp
  from approval_not_consumed [OF sample_login [OF u1] g p d b] show ?thesis using d by blast
qed

end
