(* ===== verification/Content_Props.thy ===== *)
theory Content_Props
  imports Content_Routes Admin_Props Wiki_Props
begin

text \<open>
  What the routes of A2A promise: who may use the public endpoint, and what a failed request leaves behind.
\<close>

section \<open>Facts\<close>

lemma lower_space: "lower_char c = CHR '' '' \<longleftrightarrow> c = CHR '' ''"
proof -
  have "\<forall>c. lower_char c = CHR '' '' \<longleftrightarrow> c = CHR '' ''" by code_simp
  then show ?thesis by blast
qed

lemma bearer_token: "startswith (py_lower a) ''bearer '' \<Longrightarrow> split_max (Suc 0) CHR '' '' a ! Suc 0 = drop 7 a"
proof -
  assume "startswith (py_lower a) ''bearer ''"
  then obtain r where r: "map lower_char a = ''bearer '' @ r" by (auto simp: py_lower_def prefix_def)
  have a: "a = take 6 a @ CHR '' '' # drop 7 a"
  proof -
    have n: "6 < length a" using arg_cong [OF r, of length] by simp
    have "lower_char (a ! 6) = map lower_char a ! 6" using n by (simp only: nth_map)
    also have "\<dots> = CHR '' ''" by (simp add: r)
    finally have "a ! 6 = CHR '' ''" by (simp only: lower_space)
    then show ?thesis using id_take_nth_drop [OF n] by simp
  qed
  have "map lower_char (take 6 a) = ''bearer''" by (simp add: take_map [symmetric] r)
  then have "CHR '' '' \<notin> set (map lower_char (take 6 a))" by simp
  then have "CHR '' '' \<notin> set (take 6 a)" using lower_space [of "CHR '' ''"] by force
  then have "split_max (Suc 0) CHR '' '' a = [take 6 a, drop 7 a]"
    by (subst a) (simp only: split_max_cut split_max.simps(1) not_False_eq_True)
  then show ?thesis by (simp only: nth_Cons_Suc nth_Cons_0)
qed

lemma public_key_presented:
  assumes "a2a_public_authorized env authorization api_key" and "ct_public_auth env"
  shows "ct_public_key env \<noteq> []
    \<and> (startswith (py_lower (given_str authorization)) ''bearer '' \<and> py_strip (drop 7 (given_str authorization)) = ct_public_key env
       \<or> given_str api_key = ct_public_key env)"
  using assms bearer_token [of "given_str authorization"]
  by (simp add: a2a_public_authorized_def Let_def del: split_max.simps split: if_splits)

lemma jsonrpc_authorized:
  assumes "dget ''jsonrpc'' payload = JStr ''2.0''" and "a2a_public_authorized env authorization api_key"
  shows "a2a_jsonrpc_route env authorization (Some ''1.0'') api_key payload s
    = map_prod Inr id (handle_jsonrpc (ct_a2a env) (own_card env) payload s)"
  using assms by (simp add: a2a_jsonrpc_route_def rs_db_def split: prod.split)

section \<open>Properties\<close>

text \<open>C40: The public JSON-RPC endpoint works for nobody without the key: when authentication is on, every request either leaves the
  application unchanged and is answered with a JSON-RPC error, or it speaks version 1.0 and carries the configured key, which is not
  empty, as bearer token or in the header of its own.\<close>

theorem a2a_jsonrpc_requires_key:
  assumes "a2a_jsonrpc_route env authorization a2a_version api_key payload s = (r, s')" and "ct_public_auth env"
  shows "(s' = s \<and> (\<exists>code message. r = Inr (jsonrpc_error (dget ''id'' payload) code message)))
    \<or> (dget ''jsonrpc'' payload = JStr ''2.0'' \<and> a2a_version = Some ''1.0'' \<and> ct_public_key env \<noteq> []
       \<and> (startswith (py_lower (given_str authorization)) ''bearer '' \<and> py_strip (drop 7 (given_str authorization)) = ct_public_key env
          \<or> given_str api_key = ct_public_key env))"
proof (cases "dget ''jsonrpc'' payload = JStr ''2.0'' \<and> a2a_version = Some ''1.0'' \<and> a2a_public_authorized env authorization api_key")
  case True
  then show ?thesis using public_key_presented [OF _ assms(2), of authorization api_key] by blast
next
  case False
  then show ?thesis using assms(1) by (auto simp: a2a_jsonrpc_route_def rs_db_def split: if_splits)
qed

text \<open>A delegation by the admin API that fails leaves no trace in the database: the service has recorded the task and marked it failed
  with the text of the exception, but the error answer rolls the session back, so that the task is not there any more. Only the
  circuits, which are in memory, remember the failure.\<close>

theorem failed_delegation_forgotten:
  assumes "get_current_user (aq_jwt (ct_admin env)) (aq_security (ct_admin env)) credentials (rs_world s) = Inr u"
    and "\<not> a2a_requires_approval (dr_capability q) (dr_options q)"
    and "select_connection q (rs_world s) = Inr c" and "ae_hex (ct_a2a env) 3 (rs_world s) = h"
    and "get_task (rs_world s) (''a2a_task_'' @ h) = None" and "delegate (ct_a2a env) q s = (Inl e, s1)"
  shows "(\<exists>t. get_task (rs_world s1) (''a2a_task_'' @ h) = Some t \<and> at_status t = ''failed'' \<and> at_error t = exc_str e)
    \<and> (\<exists>s'. delegate_api env credentials q s = (Inl (http_error a2a_codes e), s') \<and> get_task (rs_world s') (''a2a_task_'' @ h) = None
        \<and> a2a_tasks (rs_world s') = a2a_tasks (rs_world s) \<and> a2a_events (rs_world s') = a2a_events (rs_world s)
        \<and> rs_states s' = rs_states s1)"
proof -
  have t: "settled_task (Inl e) (''a2a_task_'' @ h) (ac_name c) q (rs_world s1)" by (rule delegated [OF assms(3-6)])
  let ?s = "rs_with s1 (rollback True (rs_world s) (rs_world s1))"
  have "delegate_api env credentials q s = (Inl (http_error a2a_codes e), ?s)"
    by (simp add: delegate_api_def rs_authenticated_def rs_db_def assms(1,2,6) delegate_route_def rs_http_def)
  moreover have "get_task (rs_world ?s) (''a2a_task_'' @ h) = None" "a2a_tasks (rs_world ?s) = a2a_tasks (rs_world s)"
    "a2a_events (rs_world ?s) = a2a_events (rs_world s)" "rs_states ?s = rs_states s1"
    using assms(5) by (simp_all add: rollback_def Let_def get_task_def)
  ultimately show ?thesis using t by (auto simp: settled_task_def)
qed

text \<open>The two doors of delegation do not agree: for a request that needs an approval the admin API answers 409 and does nothing, but the
  public endpoint, with its key, creates the task, sends it to the remote agent and settles it like any other.\<close>

theorem public_delegation_bypasses_approval:
  assumes "q = request_from_params params" and "a2a_requires_approval (dr_capability q) (dr_options q)"
    and "select_connection q (rs_world s) = Inr c" and "ae_hex (ct_a2a env) 3 (rs_world s) = h"
    and "get_task (rs_world s) (''a2a_task_'' @ h) = None" and "a2a_public_authorized env authorization api_key"
  shows "delegate_route env q u s = (Inl (HTTPException 409 ''A2A delegation requires approval through the tool surface''), s)
    \<and> (\<exists>r. settled_task r (''a2a_task_'' @ h) (ac_name c) q
          (rs_world (snd (a2a_jsonrpc_route env authorization (Some ''1.0'') api_key
             [(''jsonrpc'', JStr ''2.0''), (''id'', i), (''method'', JStr ''SendMessage''), (''params'', JObj params)] s))))"
proof -
  let ?p = "[(''jsonrpc'', JStr ''2.0''), (''id'', i), (''method'', JStr ''SendMessage''), (''params'', JObj params)]"
  obtain r s' where d: "delegate (ct_a2a env) q s = (r, s')" by fastforce
  have "snd (handle_jsonrpc (ct_a2a env) (own_card env) ?p s) = s'"
    using d assms(1)
    by (auto simp: handle_jsonrpc_def jsonrpc_dispatch_def jsonrpc_message_send_def dget_def dstr_def dstr_or_def
          dict_or_empty_def py_str_def Let_def split: sum.split option.split)
  then have "rs_world (snd (a2a_jsonrpc_route env authorization (Some ''1.0'') api_key ?p s)) = rs_world s'"
    using jsonrpc_authorized [OF _ assms(6), of ?p s] by (simp add: dget_def)
  then show ?thesis using delegated [OF assms(3-5) d] assms(2) by (auto simp: delegate_route_def)
qed

section \<open>A small installation\<close>

definition sample_content :: content_env where
  "sample_content = \<lparr>ct_admin = sample_admin, ct_wiki = (\<lambda>_. sample_wiki_env), ct_a2a = sample_a2a_env, ct_mcp = sample_mcp_env,
     ct_public_auth = True, ct_public_key = ''key'', ct_base_url = ''http://localhost'', ct_host = ''localhost'', ct_port = 8000\<rparr>"

theorem a2a_jsonrpc_requires_key_witness:
  "snd (a2a_jsonrpc_route sample_content (Some ''Bearer guess'') (Some ''1.0'') None
     [(''jsonrpc'', JStr ''2.0''), (''method'', JStr ''SendMessage'')] a2a_start) = a2a_start"
proof -
  have k: "ct_public_auth sample_content" "py_strip (drop 7 (given_str (Some ''Bearer guess''))) \<noteq> ct_public_key sample_content"
    "given_str None \<noteq> ct_public_key sample_content" by code_simp+
  from a2a_jsonrpc_requires_key [OF prod.collapse [symmetric] k(1)] k(2,3) show ?thesis by blast
qed

text \<open>A remote agent that is down.\<close>

definition down_content :: content_env where
  "down_content = sample_content\<lparr>ct_a2a := sample_a2a_env\<lparr>ae_stream := (\<lambda>_ _ _. ([], Some (HTTPStatusError ''down'' 500 None)))\<rparr>\<rparr>"

definition research_request :: delegate_request where
  "research_request = coding_request\<lparr>dr_capability := ''research'', dr_connection_name := ''coder''\<rparr>"

definition users_start :: resilience where
  "users_start = rs_with a2a_start (a2a_world\<lparr>users := [toy_admin]\<rparr>)"

theorem failed_delegation_forgotten_witness:
  "\<exists>e s'. delegate_api down_content (Some ''t'') research_request users_start = (Inl (http_error a2a_codes e), s')
     \<and> a2a_tasks (rs_world s') = []"
proof -
  have u: "users (rs_world users_start) = [toy_admin]" by (simp add: users_start_def)
  have a: "ct_admin down_content = sample_admin" by (simp add: down_content_def sample_content_def)
  have c: "\<not> a2a_requires_approval (dr_capability research_request) (dr_options research_request)"
    "select_connection research_request (rs_world users_start) = Inr (hd (a2a_connections a2a_world))"
    "ae_hex (ct_a2a down_content) 3 (rs_world users_start) = ''ff''"
    "get_task (rs_world users_start) (''a2a_task_'' @ ''ff'') = None" "a2a_tasks (rs_world users_start) = []" by code_simp+
  have "supports_streaming (hd (a2a_connections a2a_world))" "\<not> falls_back (HTTPStatusError ''down'' 500 None)" by code_simp+
  moreover have "ae_stream (ct_a2a down_content) = (\<lambda>_ _ _. ([], Some (HTTPStatusError ''down'' 500 None)))" by (simp add: down_content_def)
  ultimately have "isl (fst (delegate (ct_a2a down_content) research_request users_start))"
    by (simp add: delegate_def c(2) Let_def send_a2a_message_def send_a2a_streaming_message_def split: prod.split)
  then obtain e s1 where d: "delegate (ct_a2a down_content) research_request users_start = (Inl e, s1)" by (metis isl_def prod.collapse)
  from failed_delegation_forgotten [OF sample_login [OF u, folded a, of "''t''"] c(1-4) d] c(5) show ?thesis by auto
qed

theorem public_delegation_bypasses_approval_witness:
  "\<exists>r. settled_task r ''a2a_task_ff'' ''coder'' (request_from_params [(''capability'', JStr ''coding'')])
     (rs_world (snd (a2a_jsonrpc_route sample_content None (Some ''1.0'') (Some ''key'')
       [(''jsonrpc'', JStr ''2.0''), (''id'', JInt 1), (''method'', JStr ''SendMessage''),
        (''params'', JObj [(''capability'', JStr ''coding'')])] a2a_start)))"
proof -
  let ?q = "request_from_params [(''capability'', JStr ''coding'')]"
  have "a2a_requires_approval (dr_capability ?q) (dr_options ?q)"
    "select_connection ?q (rs_world a2a_start) = Inr (hd (a2a_connections a2a_world))"
    "ae_hex (ct_a2a sample_content) 3 (rs_world a2a_start) = ''ff''"
    "get_task (rs_world a2a_start) (''a2a_task_'' @ ''ff'') = None"
    "a2a_public_authorized sample_content None (Some ''key'')" by code_simp+
  from public_delegation_bypasses_approval [OF refl this, of toy_admin "JInt 1"] show ?thesis by (simp add: a2a_world_def new_a2a_conn_def)
qed

end
