(* ===== verification/Startup.thy ===== *)
theory Startup
  imports Health Content_Props Trace
begin

text \<open>
  The application: \<open>backend/app.py\<close>. \<open>startup\<close> is \<open>lifespan\<close> up to its \<open>yield\<close>, with the services of the other theories; the
  middlewares are \<open>rate_limit_dispatch\<close> and \<open>trace_dispatch\<close>, and \<open>ready\<close> is the readiness route.

  The state is the database catalog and the world, for which the application makes a new resilience manager and a new
  tool registry. Logging, building the Redis client and starting the scheduler loop have no effect on it. The YAML reader gives
  the contents of the MCP seed file (\<open>sx_seed_file\<close>, \<open>None\<close> for a missing file).
\<close>

section \<open>Starting\<close>

record startup_switches =
  sw_seed_mcp :: bool
  sw_refresh_mcp :: bool
  sw_bootstrap_wiki :: bool
  sw_bootstrap_skills :: bool
  sw_dream :: bool
  sw_dream_cron :: string
  sw_dream_timezone :: string
  sw_dream_window_hours :: int
  sw_dream_limit :: int
  sw_heartbeat :: bool
  sw_heartbeat_cron :: string
  sw_heartbeat_timezone :: string
  sw_soulsearcher :: bool
  sw_soulsearcher_url :: string
  sw_soulsearcher_key :: string
  sw_soulsearcher_header :: string
  sw_soulsearcher_user :: string

record startup_env =
  sx_settings :: runtime_settings
  sx_switches :: startup_switches
  sx_content :: content_env
  sx_kdf :: kdf
  sx_salt :: string
  sx_migrations :: migration_env
  sx_mkdir :: "path \<Rightarrow> exc option"
  sx_expand :: "path \<Rightarrow> path"
  sx_seed_path :: string
  sx_seed_file :: "json option"
  sx_version :: string

definition admin_of :: "startup_env \<Rightarrow> admin_env" where
  "admin_of env = ct_admin (sx_content env)"

text \<open>\<open>try: ... except Exception\<close> around one step: the exception becomes a warning event, what the step has written stays.\<close>

definition tolerate :: "string \<Rightarrow> 'a op \<Rightarrow> world \<Rightarrow> world" where
  "tolerate failed step w = (case step w of
     (Inr _, w1) \<Rightarrow> w1
   | (Inl e, w1) \<Rightarrow> emit_warning True failed [(''error'', JStr (exc_str e))] w1)"

definition seed_step :: "startup_env \<Rightarrow> world \<Rightarrow> world" where
  "seed_step env w = (if \<not> sw_seed_mcp (sx_switches env) then w
     else tolerate ''mcp.seed.bootstrap.failed'' (session_scope True (op_bind
       (import_mcp_seed (aq_sha (admin_of env)) True (sx_seed_path env) (sx_seed_file env))
       (\<lambda>result w1. (Inr (), emit True ''mcp.seed.bootstrap.succeeded'' result w1)))) w)"

definition refresh_step :: "startup_env \<Rightarrow> resilience \<Rightarrow> resilience" where
  "refresh_step env s = (if \<not> sw_refresh_mcp (sx_switches env) then s
     else (case refresh_all (ct_mcp (sx_content env)) s of
        (Inr _, s1) \<Rightarrow> s1
      | (Inl e, s1) \<Rightarrow> rs_with s1 (emit_warning True ''mcp.startup_refresh.failed'' [(''error'', JStr (exc_str e))] (rs_world s1))))"

definition wiki_step :: "startup_env \<Rightarrow> world \<Rightarrow> world" where
  "wiki_step env w = (if \<not> sw_bootstrap_wiki (sx_switches env) then w
     else tolerate ''wiki.bootstrap.failed'' (op_bind (compile_wiki (ct_wiki (sx_content env) w))
       (\<lambda>result w1. (Inr (), emit True ''wiki.bootstrap.succeeded'' result w1))) w)"

definition skills_step :: "startup_env \<Rightarrow> world \<Rightarrow> world" where
  "skills_step env w = (if \<not> sw_bootstrap_skills (sx_switches env) then w
     else tolerate ''skills.bootstrap.failed'' (op_bind (skill_scan (skill_of (sx_content env) w))
       (\<lambda>n w1. (Inr (), emit True ''skills.bootstrap.succeeded'' [(''skills'', JInt n), (''index'', JStr ''file_mirror'')] w1))) w)"

definition system_cron ::
  "startup_env \<Rightarrow> string \<Rightarrow> string \<Rightarrow> string \<Rightarrow> string \<Rightarrow> dict \<Rightarrow> uuid op" where
  "system_cron env name cron_expr timezone instruction metadata w =
     (let a = admin_of env in ensure_system_cron_job (aq_cron_valid a) (aq_zone a) (aq_croniter a) True (aq_new_id a w) (aq_now a w)
        name cron_expr timezone instruction metadata True w)"

definition dream_step :: "startup_env \<Rightarrow> world \<Rightarrow> world" where
  "dream_step env w = (let sw = sx_switches env in if \<not> sw_dream sw then w
     else tolerate ''dream.bootstrap.failed'' (system_cron env ''system-dream-review'' (sw_dream_cron sw) (sw_dream_timezone sw)
       ''Run Dream review and create pending improvement proposals.''
       [(''system_task'', JStr ''dream_review''), (''managed_by'', JStr ''soulclaw''), (''window_hours'', JInt (sw_dream_window_hours sw)),
        (''limit'', JInt (sw_dream_limit sw)), (''auto_apply'', JBool False)]) w)"

definition heartbeat_step :: "startup_env \<Rightarrow> world \<Rightarrow> world" where
  "heartbeat_step env w = (let sw = sx_switches env in if \<not> sw_heartbeat sw then w
     else tolerate ''heartbeat.bootstrap.failed'' (system_cron env ''system-heartbeat'' (sw_heartbeat_cron sw) (sw_heartbeat_timezone sw)
       ''Review HEARTBEAT.md active tasks and create pending proposals.''
       [(''system_task'', JStr ''heartbeat''), (''managed_by'', JStr ''soulclaw''), (''task_name'', JStr ''heartbeat_check'')]) w)"

definition soulsearcher_request :: "startup_switches \<Rightarrow> a2a_conn_request" where
  "soulsearcher_request sw = \<lparr>cq_name = ''soulsearcher-deep-research'', cq_kind = ''a2a'', cq_endpoint = sw_soulsearcher_url sw,
     cq_rpc_url = '''', cq_agent_card = [],
     cq_config = [(''base_url'', JStr (sw_soulsearcher_url sw)), (''internal_api_key'', JStr (sw_soulsearcher_key sw)),
       (''auth_user_header'', JStr (sw_soulsearcher_header sw)), (''user_id'', JStr (sw_soulsearcher_user sw)),
       (''accepted_output_modes'', strs [''text/markdown'', ''text/html'', ''application/json''])],
     cq_enabled = True, cq_status = ''pending'', cq_capabilities = [''deep-research'', ''research'', ''soulsearcher''],
     cq_skills = [[(''id'', JStr ''deep-research''), (''name'', JStr ''Deep Research''),
       (''description'', JStr ''Delegate evidence-driven deep research to SoulSearcher over A2A 1.0.''),
       (''tags'', strs [''research'', ''deep-research'', ''soulsearcher''])]]\<rparr>"

definition soulsearcher_step :: "startup_env \<Rightarrow> world \<Rightarrow> world" where
  "soulsearcher_step env w = (let sw = sx_switches env in if \<not> sw_soulsearcher sw \<or> sw_soulsearcher_url sw = [] then w
     else tolerate ''a2a.bootstrap.failed'' (upsert_connection True (soulsearcher_request sw)) w)"

text \<open>The last session: no step raises, so it commits.\<close>

definition bootstrap :: "startup_env \<Rightarrow> world \<Rightarrow> world" where
  "bootstrap env w = soulsearcher_step env (heartbeat_step env (dream_step env (skills_step env (wiki_step env w))))"

text \<open>The tool registry: the built-in tools, then the MCP tools of the refreshed cache, then A2A and the gateway.\<close>

definition install_runtimes :: "registry \<Rightarrow> world \<Rightarrow> registry \<times> world" where
  "install_runtimes reg w = install_gateway True (install_a2a True (snd (install_into_registry (reg, w))))"

definition start_services :: "startup_env \<Rightarrow> world \<Rightarrow> (exc + registry) \<times> resilience" where
  "start_services env w =
     (case register_builtin_tools True ([], ensure_files (aq_seed (admin_of env)) w) of (reg, w1) \<Rightarrow>
        let s = refresh_step env \<lparr>rs_states = [], rs_external = [], rs_world = seed_step env w1\<rparr>
        in case install_runtimes reg (rs_world s) of (reg1, w2) \<Rightarrow>
             let w3 = bootstrap env (emit True ''runtime.started''
                   [(''version'', JStr (sx_version env)), (''environment'', JStr (rt_environment (sx_settings env)))] w2);
                 a = admin_of env
             in case schedule_missing (aq_zone a) (aq_croniter a) (aq_now a w3) w3 of
                  (Inl e, w4) \<Rightarrow> (Inl e, rs_with s w4) | (Inr _, w4) \<Rightarrow> (Inr reg1, rs_with s w4))"

definition startup :: "startup_env \<Rightarrow> catalog \<Rightarrow> world \<Rightarrow> (exc + registry \<times> resilience) \<times> catalog \<times> world" where
  "startup env db w =
     (let cfg = sx_settings env
      in case validate_runtime_secrets cfg of Some e \<Rightarrow> (Inl e, db, w)
       | None \<Rightarrow> (case ensure_directories (sx_mkdir env) (sx_expand env) cfg of Some e \<Rightarrow> (Inl e, db, w)
       | None \<Rightarrow> (case (if rt_auto_migrate cfg then run_alembic_upgrade (sx_migrations env) (rt_database_url cfg) db else (None, db)) of
           (Some e, db1) \<Rightarrow> (Inl e, db1, w)
         | (None, db1) \<Rightarrow>
             (case session_scope True (ensure_admin_user (sx_kdf env) (aq_security (admin_of env)) (aq_new_id (admin_of env) w) (sx_salt env)) w of
                (Inl e, w1) \<Rightarrow> (Inl e, db1, w1)
              | (Inr _, w1) \<Rightarrow> (case start_services env w1 of
                  (Inl e, s) \<Rightarrow> (Inl e, db1, rs_world s) | (Inr reg, s) \<Rightarrow> (Inr (reg, s), db1, rs_world s))))))"

text \<open>After the \<open>yield\<close>: the event is written on its own.\<close>

definition shutdown :: "string \<Rightarrow> world \<Rightarrow> world" where
  "shutdown version w = emit True ''runtime.stopped'' [(''version'', JStr version)] w"

section \<open>The other processes\<close>

text \<open>The worker (\<open>build_worker_services\<close>) and the scheduler (\<open>main\<close> of \<open>worker/scheduler.py\<close>): what they do before their first task, and a
  round of the scheduler's loop, which goes on after a failed tick.\<close>

definition build_worker_services :: "startup_env \<Rightarrow> world \<Rightarrow> (exc + unit) \<times> world" where
  "build_worker_services env w = (case ensure_background_database (sx_settings env) ''worker'' of
     Some e \<Rightarrow> (Inl e, w) | None \<Rightarrow> (Inr (), ensure_files (aq_seed (admin_of env)) w))"

definition scheduler_start :: "startup_env \<Rightarrow> catalog \<Rightarrow> world \<Rightarrow> (exc + int) \<times> catalog \<times> world" where
  "scheduler_start env db w = (let cfg = sx_settings env; a = admin_of env
     in case ensure_background_database cfg ''scheduler'' of Some e \<Rightarrow> (Inl e, db, w)
      | None \<Rightarrow> (case (if rt_auto_migrate cfg then run_alembic_upgrade (sx_migrations env) (rt_database_url cfg) db else (None, db)) of
          (Some e, db1) \<Rightarrow> (Inl e, db1, w)
        | (None, db1) \<Rightarrow> (case schedule_missing (aq_zone a) (aq_croniter a) (aq_now a w) w of (r, w1) \<Rightarrow> (r, db1, w1))))"

definition scheduler_round :: "int op \<Rightarrow> world \<Rightarrow> world" where
  "scheduler_round tick_op w = tolerate ''scheduler.tick.failed'' tick_op w"

section \<open>Requests\<close>

definition ready :: "probe_env \<Rightarrow> runtime_settings \<Rightarrow> string \<Rightarrow> int \<times> dict" where
  "ready env cfg version = (let summary = readiness_summary env cfg in
     (if truthy (dget ''ok'' summary) then 200 else 503,
      dmerge [(''app'', JStr (rt_app_name cfg)), (''version'', JStr version)] summary))"

definition live :: "runtime_settings \<Rightarrow> string \<Rightarrow> dict" where
  "live cfg version = [(''ok'', JBool True), (''app'', JStr (rt_app_name cfg)), (''version'', JStr version)]"

record http_request =
  hr_path :: string
  hr_authorization :: string
  hr_host :: "string option"
  hr_traceparent :: string
  hr_request_id :: string

definition rate_limit_exempt :: "runtime_settings \<Rightarrow> string \<Rightarrow> bool" where
  "rate_limit_exempt cfg path = (path \<in> {''/api/health'', ''/api/health/live'', ''/api/health/ready'', rt_metrics_path cfg})"

definition rate_limit_policy :: "limit_settings \<Rightarrow> string \<Rightarrow> string \<times> int" where
  "rate_limit_policy cfg path =
     (if path = ''/api/runs/turn'' then (''turn'', ls_turn_per_minute cfg)
      else if path \<in> {''/api/gateways/inbound'', ''/api/gateways/webhook''} then (''gateway'', ls_gateway_per_minute cfg)
      else (''admin'', ls_admin_per_minute cfg))"

definition rate_limit_identity :: "http_request \<Rightarrow> string" where
  "rate_limit_identity q = (let auth = hr_authorization q in
     if auth \<noteq> [] then drop (length auth - 32) auth else (case hr_host q of None \<Rightarrow> ''unknown'' | Some h \<Rightarrow> h))"

text \<open>What the middleware answers: 429 with the policy and the seconds to wait, the response of the application with the headers of
  the decision, or that response as it is; or the exception of the limiter.\<close>

datatype 'a limited = Refused string int | Passed 'a "(string \<times> string) list" | Failed exc

definition limit_headers :: "decision \<Rightarrow> (string \<times> string) list" where
  "limit_headers d = [(''X-RateLimit-Limit'', int_str (dn_limit d)), (''X-RateLimit-Remaining'', int_str (dn_remaining d)),
     (''X-RateLimit-Reset'', int_str (dn_reset_at d))]"

definition call_next :: "(world \<Rightarrow> 'a \<times> world) \<Rightarrow> (string \<times> string) list \<Rightarrow> 'r limiter \<Rightarrow> 'a limited \<times> 'r limiter" where
  "call_next app headers s = (case app (lm_world s) of (x, w) \<Rightarrow> (Passed x headers, s\<lparr>lm_world := w\<rparr>))"

definition rate_limit_dispatch ::
  "runtime_settings \<Rightarrow> limit_settings \<Rightarrow> 'r redis_client option \<Rightarrow> int \<Rightarrow> int \<Rightarrow> (world \<Rightarrow> 'a \<times> world) \<Rightarrow> http_request \<Rightarrow> 'r limiter \<Rightarrow>
   'a limited \<times> 'r limiter" where
  "rate_limit_dispatch cfg lcfg redis now now' app q s =
     (if rate_limit_exempt cfg (hr_path q) then call_next app [] s
      else (case rate_limit_policy lcfg (hr_path q) of (policy, limit) \<Rightarrow>
        (case enforce_limit lcfg redis True now now' policy (rate_limit_identity q) limit 60 s of
           (Inr d, s1) \<Rightarrow> call_next app (limit_headers d) s1
         | (Inl (RateLimitExceeded key p l retry_after), s1) \<Rightarrow> (Refused p retry_after, s1)
         | (Inl e, s1) \<Rightarrow> (Failed e, s1))))"

definition trace_dispatch ::
  "string \<Rightarrow> string \<Rightarrow> string \<Rightarrow> (world \<Rightarrow> 'a \<times> world) \<Rightarrow> http_request \<Rightarrow> world \<Rightarrow> ('a \<times> (string \<times> string) list) \<times> world" where
  "trace_dispatch fresh fresh' spanid app q w =
     (let trace = trace_id_from_traceparent (hr_traceparent q); c = normalize_trace_context fresh trace (hr_request_id q)
      in case bind_trace_context fresh trace (hr_request_id q) app w of (x, w1) \<Rightarrow>
           ((x, [(''X-Request-ID'', tc_request_id c), (''traceparent'', traceparent_from_trace_id fresh' spanid (tc_trace_id c))]), w1))"

text \<open>A sequence of requests without Redis, each with the time it arrives: which of them reach the application.\<close>

fun reached :: "'a limited \<Rightarrow> bool" where
  "reached (Passed _ _) = True"
| "reached _ = False"

fun serve_requests ::
  "runtime_settings \<Rightarrow> limit_settings \<Rightarrow> (world \<Rightarrow> 'a \<times> world) \<Rightarrow> (int \<times> http_request) list \<Rightarrow> 'r limiter \<Rightarrow> bool list" where
  "serve_requests cfg lcfg app [] s = []"
| "serve_requests cfg lcfg app ((now, q) # rs) s =
     (case rate_limit_dispatch cfg lcfg None now now app q s of (x, s1) \<Rightarrow> reached x # serve_requests cfg lcfg app rs s1)"

lemma dispatch_memory:
  assumes "ls_enabled lcfg" and "\<not> rate_limit_exempt cfg (hr_path q)" and "rate_limit_policy lcfg (hr_path q) = (policy, limit)" and "1 \<le> limit"
    and "counter_rel 60 hist (lm_memory s)" and "\<forall>x \<in> set hist. snd x \<le> now"
  shows "\<exists>x s1. rate_limit_dispatch cfg lcfg None now now app q s = (x, s1)
    \<and> reached x = (window_hits 60 hist (limit_key policy (rate_limit_identity q)) (now div 60) < limit)
    \<and> lm_memory s1 = put_assoc (limit_key policy (rate_limit_identity q))
        (window_hits 60 hist (limit_key policy (rate_limit_identity q)) (now div 60) + 1, (now div 60 + 1) * 60) (lm_memory s)"
proof -
  obtain d s1 where c: "check_limit lcfg None True now now policy (rate_limit_identity q) limit 60 s = (Inr d, s1)"
    and d: "dn_allowed d = (window_hits 60 hist (limit_key policy (rate_limit_identity q)) (now div 60) < limit)"
    and m: "lm_memory s1 = put_assoc (limit_key policy (rate_limit_identity q))
        (window_hits 60 hist (limit_key policy (rate_limit_identity q)) (now div 60) + 1, (now div 60 + 1) * 60) (lm_memory s)"
    using check_limit_memory [OF assms(1) _ assms(4,5,6)] by (metis zero_less_numeral)
  show ?thesis
  proof (cases "dn_allowed d")
    case True
    then show ?thesis using d m
      by (simp add: rate_limit_dispatch_def assms(2,3) enforce_limit_def c call_next_def split: prod.split)
  next
    case False
    then show ?thesis using d m by (simp add: rate_limit_dispatch_def assms(2,3) enforce_limit_def c)
  qed
qed

lemma serve_requests_spec:
  assumes "ls_enabled lcfg" and "\<not> rate_limit_exempt cfg path" and "rate_limit_policy lcfg path = (policy, limit)" and "1 \<le> limit"
  shows "counter_rel 60 hist (lm_memory s) \<Longrightarrow> sorted (map fst rs) \<Longrightarrow> (\<forall>x \<in> set hist. \<forall>y \<in> set rs. snd x \<le> fst y) \<Longrightarrow>
    (\<forall>y \<in> set rs. hr_path (snd y) = path) \<Longrightarrow>
    serve_requests cfg lcfg app rs s = spec_serve 60 limit hist (map (\<lambda>(t, q). (policy, rate_limit_identity q, t)) rs)"
proof (induction rs arbitrary: hist s)
  case (Cons r rs)
  obtain now q where r: "r = (now, q)" by fastforce
  have q: "\<not> rate_limit_exempt cfg (hr_path q)" "rate_limit_policy lcfg (hr_path q) = (policy, limit)" using Cons(5) assms(2,3) r by simp_all
  have past: "\<forall>x \<in> set hist. snd x \<le> now" using Cons(4) r by simp
  let ?k = "limit_key policy (rate_limit_identity q)"
  obtain x s1 where x: "rate_limit_dispatch cfg lcfg None now now app q s = (x, s1)" "reached x = (window_hits 60 hist ?k (now div 60) < limit)"
    and m: "lm_memory s1 = put_assoc ?k (window_hits 60 hist ?k (now div 60) + 1, (now div 60 + 1) * 60) (lm_memory s)"
    using dispatch_memory [OF assms(1) q assms(4) Cons(2) past] by blast
  have "counter_rel 60 (hist @ [(?k, now)]) (lm_memory s1)" unfolding m using counter_rel_step [OF _ Cons(2) past] by simp
  then have "serve_requests cfg lcfg app rs s1
      = spec_serve 60 limit (hist @ [(?k, now)]) (map (\<lambda>(t, q). (policy, rate_limit_identity q, t)) rs)"
    using Cons(3-5) r by (intro Cons(1)) auto
  then show ?case using x by (simp add: r Let_def)
qed simp

lemma distinct_callers_pass:
  "distinct (map (\<lambda>(p, i, t). limit_key p i) rs) \<Longrightarrow> 1 \<le> limit \<Longrightarrow> (\<forall>x \<in> set hist. \<forall>(p, i, t) \<in> set rs. fst x \<noteq> limit_key p i) \<Longrightarrow>
    spec_serve W limit hist rs = replicate (length rs) True"
proof (induction rs arbitrary: hist)
  case (Cons r rs)
  obtain p i t where r: "r = (p, i, t)" by (cases r) auto
  have "window_hits W hist (limit_key p i) (t div W) = 0" using Cons(4) r by (intro window_hits_none) force
  moreover have "spec_serve W limit (hist @ [(limit_key p i, t)]) rs = replicate (length rs) True"
    using Cons(2-4) r by (intro Cons(1)) (auto simp: image_iff split: prod.splits)
  ultimately show ?case using Cons(3) r by (simp add: Let_def)
qed simp

section \<open>What starting leaves alone\<close>

text \<open>No step after the account of the administrator touches the accounts.\<close>

lemma tolerate_users: "(\<And>w. users (snd (f w)) = users w) \<Longrightarrow> users (tolerate failed f w) = users w"
  by (auto simp: tolerate_def split: prod.split sum.split) (metis snd_conv)+

lemma op_bind_users:
  "(\<And>w. users (snd (f w)) = users w) \<Longrightarrow> (\<And>x w. users (snd (g x w)) = users w) \<Longrightarrow> users (snd (op_bind f g w)) = users w"
  by (auto simp: op_bind_def split: prod.split sum.split) (metis snd_conv)+

lemma session_users: "(\<And>w. users (snd (f w)) = users w) \<Longrightarrow> users (snd (session_scope b f w)) = users w"
  by (auto simp: session_scope_def rollback_def Let_def split: prod.split sum.split) (metis snd_conv)

lemma seed_loop_users: "users (snd (seed_loop sha ev path servers i k w)) = users w"
proof (induction sha ev path servers i k w rule: seed_loop.induct)
  case (2 sha ev path name v rest imported skipped w)
  have "users (snd (upsert_mcp_server e q v)) = users v" for e q v
    by (auto simp: upsert_mcp_server_def Let_def split: option.split)
  then show ?case using 2 by (auto split: json.split prod.splits sum.split) (metis snd_conv)+
qed simp

lemma seed_step_users: "users (seed_step env w) = users w"
proof -
  have "users (snd (import_mcp_seed sha ev path doc w)) = users w" for sha ev path doc w
    using seed_loop_users [of sha ev path _ 0 0 w]
    by (auto simp: import_mcp_seed_def split: option.split json.split prod.split sum.split) (metis snd_conv)+
  then show ?thesis by (auto simp: seed_step_def intro!: tolerate_users session_users op_bind_users)
qed

lemma same_state_users: "same_state w w' \<Longrightarrow> users w' = users w"
proof -
  assume "same_state w w'"
  then have "users (w'\<lparr>runtime_events := [], audit_events := []\<rparr>) = users (w\<lparr>runtime_events := [], audit_events := []\<rparr>)"
    by (simp only: same_state_def)
  then show ?thesis by simp
qed

lemma mcp_steps_users:
  "async_call True True now f u p fn s = (r, s') \<Longrightarrow> users (rs_world s') = users (rs_world s)"
  "on_rs_world (persist_status env n st ds e) s = (r', s') \<Longrightarrow> users (rs_world s') = users (rs_world s)"
  "users (rs_world (rs_emit ev t pl sv s)) = users (rs_world s)"
  "users (rs_world (snd (on_rs_world (persist_status env n st ds e) s))) = users (rs_world s)"
proof -
  show "users (rs_world s') = users (rs_world s)" if "async_call True True now f u p fn s = (r, s')"
    using same_state_users [OF same_state_call [of s True True now f u p fn]] that by (simp add: async_call_def)
qed (auto simp: on_rs_world_def persist_status_def rs_emit_def Let_def split: option.splits prod.splits)

lemma refresh_server_users: "users (rs_world (snd (refresh_server env n s))) = users (rs_world s)"
  by (auto simp: refresh_server_def mcp_steps_users(3,4) dest!: mcp_steps_users(1,2) split: option.split sum.split prod.split)

lemma refresh_names_users: "users (rs_world (snd (refresh_names env ns s))) = users (rs_world s)"
proof (induction ns arbitrary: s)
  case (Cons n ns)
  then show ?case
    using refresh_server_users [of env n s] by (auto split: prod.split sum.split) (metis snd_conv)+
qed simp

lemma refresh_step_users: "users (rs_world (refresh_step env s)) = users (rs_world s)"
  using refresh_names_users [of "ct_mcp (sx_content env)" _ s]
  by (auto simp: refresh_step_def refresh_all_def split: prod.splits sum.splits) (metis snd_conv)+

lemma register_users: "users (snd (fold (register ev) ds rw)) = users (snd rw)"
  by (induction ds arbitrary: rw) (auto simp: register_def split: prod.split)

lemma install_users: "users (snd (install_runtimes reg w)) = users w"
proof -
  have "users (fold (\<lambda>n w. emit True ''tool.unregistered'' [(''tool_name'', JStr n)] w) ns v) = users v" for ns v
    by (induction ns arbitrary: v) simp_all
  then have "users (snd (snd (install_into_registry (reg, w)))) = users w"
    by (auto simp: install_into_registry_def unregister_prefix_def Let_def register_many_def register_users split: prod.split)
  then show ?thesis
    using register_users [of True "[a2a_delegate_tool]"] register_users [of True "[gateway_send_tool]"]
    by (simp add: install_runtimes_def install_a2a_def install_gateway_def)
qed

lemma wiki_step_users: "users (wiki_step env w) = users w"
proof -
  have e: "users (add_error wk x v) = users v" for wk x v by (simp add: add_error_def)
  have l: "users (add_link wk known src l v) = users v" for wk known src l v by (simp add: add_link_def Let_def e)
  have p: "users (store_page wk known q v) = users v" for wk known q v
    using fold_frame [of users "add_link wk known (pp_key q)", OF l] by (simp add: store_page_def)
  have c: "users (close_errors wk ts v) = users v" for wk ts v by (simp add: close_errors_def)
  have s: "users (snd (store_pages wk v)) = users v" for wk v
    using fold_frame [of users "add_error wk", OF e] fold_frame [of users "store_page wk _", OF p]
    by (simp add: store_pages_def Let_def delete_stale_def c split: prod.split)
  have f: "users (snd (wiki_refresh_fts wk ps v)) = users v" for wk ps v
    by (auto simp: wiki_refresh_fts_def refresh_wiki_sqlite_fts_def Let_def split: sum.split option.split)
  have g: "users (snd ((if b then wiki_refresh_fts wk ps else op_ok d) v)) = users v" for b wk ps v d by (simp add: f op_ok_def)
  have "users (snd (compile_wiki wk v)) = users v" for wk v
  proof -
    obtain ps es ks v1 where st: "store_pages wk (start_compile_run wk v) = ((ps, es, ks), v1)" by (metis prod.exhaust)
    have "users (start_compile_run wk v) = users v" by (simp add: start_compile_run_def)
    with s [of wk "start_compile_run wk v"] have "users v1 = users v" unfolding st by simp
    then show ?thesis
      using f [of wk ps v1] by (auto simp: compile_wiki_def Let_def st op_bind_def op_ok_def split: prod.split sum.split)
  qed
  then show ?thesis by (auto simp: wiki_step_def intro!: tolerate_users op_bind_users)
qed

lemma skills_step_users: "users (skills_step env w) = users w"
proof -
  have s: "users (snd (scan_skill sv d v)) = users v" for sv d v
    by (auto simp: scan_skill_def put_skill_def Let_def split: sum.splits option.splits prod.splits)
  have "users (snd (scan_dirs sv ds v)) = users v" for sv ds v
    by (induction ds arbitrary: v) (auto simp: s intro!: op_bind_users)
  then show ?thesis by (auto simp: skills_step_def skill_scan_def Let_def intro!: tolerate_users op_bind_users)
qed

lemma cron_step_users: "users (dream_step env w) = users w" "users (heartbeat_step env w) = users w"
proof -
  have "users (snd (system_cron env n c z i d v)) = users v" for n c z i d v
    by (auto simp: system_cron_def ensure_system_cron_job_def Let_def upd_cron_def split: option.split sum.split prod.split)
  then show "users (dream_step env w) = users w" "users (heartbeat_step env w) = users w"
    by (auto simp: dream_step_def heartbeat_step_def Let_def intro!: tolerate_users)
qed

lemma bootstrap_users: "users (bootstrap env w) = users w"
proof -
  have "users (snd (upsert_connection True q v)) = users v" for q v
    by (auto simp: upsert_connection_def upd_a2a_conn_def Let_def split: sum.split)
  then have "users (soulsearcher_step env v) = users v" for v by (auto simp: soulsearcher_step_def Let_def intro!: tolerate_users)
  then show ?thesis by (simp add: bootstrap_def cron_step_users skills_step_users wiki_step_users)
qed

lemma schedule_missing_users: "users (snd (schedule_missing zone cron now w)) = users w"
proof -
  have "users (snd (schedule_missing_loop zone cron now cs v)) = users v" for cs v
    by (induction cs arbitrary: v) (auto simp: upd_cron_def split: sum.split)
  then show ?thesis by (auto simp: schedule_missing_def Let_def intro!: session_users split: prod.split sum.split) (metis snd_conv)+
qed

lemma start_services_users:
  assumes "start_services env w = (r, s)"
  shows "users (rs_world s) = users w"
proof -
  obtain reg w1 where r: "register_builtin_tools True ([], ensure_files (aq_seed (admin_of env)) w) = (reg, w1)" by fastforce
  have w1: "users w1 = users w"
    using register_users [of True "builtin_wiki_tools @ builtin_memory_tools @ builtin_skill_tools @ builtin_tool_tools"
        "([], ensure_files (aq_seed (admin_of env)) w)"] r
    by (simp add: register_builtin_tools_def register_many_def ensure_files_def)
  let ?s = "refresh_step env \<lparr>rs_states = [], rs_external = [], rs_world = seed_step env w1\<rparr>"
  obtain reg1 w2 where i: "install_runtimes reg (rs_world ?s) = (reg1, w2)" by fastforce
  have "users w2 = users w"
    using install_users [of reg "rs_world ?s"] by (simp add: i refresh_step_users seed_step_users w1)
  then show ?thesis
    using assms schedule_missing_users [of "aq_zone (admin_of env)" "aq_croniter (admin_of env)"]
    by (auto simp: start_services_def r i Let_def bootstrap_users split: prod.splits sum.splits) (metis bootstrap_users bus_frame snd_conv)+
qed

lemma start_services_registry:
  assumes "start_services env w = (Inr reg, s)"
  shows "registry_get reg ''gateway_send'' = Some gateway_send_tool" and "registry_get reg ''a2a_delegate'' = Some a2a_delegate_tool"
    and "startswith n ''mcp__'' \<Longrightarrow> registry_get reg n = Some t \<Longrightarrow> td_requires_approval t \<or> td_scope t = ''external.read''"
proof -
  obtain reg0 w0 where reg: "reg = fst (install_runtimes reg0 w0)"
    using assms by (auto simp: start_services_def Let_def split: prod.splits sum.splits) (metis fst_conv)
  obtain counts reg1 w1 where i: "install_into_registry (reg0, w0) = (counts, reg1, w1)" by (metis prod_cases3)
  obtain reg2 w2 where a: "install_a2a True (reg1, w1) = (reg2, w2)" by fastforce
  have n: "td_name gateway_send_tool = ''gateway_send''" "td_name a2a_delegate_tool = ''a2a_delegate''" by code_simp+
  have reg2: "registry_get reg2 k = (if k = ''a2a_delegate'' then Some a2a_delegate_tool else registry_get reg1 k)" for k
    using registry_get_register [of True a2a_delegate_tool reg1 w1 k] a by (simp add: install_a2a_def n)
  have get: "registry_get reg k = (if k = ''gateway_send'' then Some gateway_send_tool else registry_get reg2 k)" for k
    using registry_get_register [of True gateway_send_tool reg2 w2 k] by (simp add: reg install_runtimes_def i a install_gateway_def n)
  show "registry_get reg ''gateway_send'' = Some gateway_send_tool" "registry_get reg ''a2a_delegate'' = Some a2a_delegate_tool"
    by (simp_all add: get reg2)
  show "td_requires_approval t \<or> td_scope t = ''external.read''" if "startswith n ''mcp__''" "registry_get reg n = Some t"
  proof -
    have "n \<noteq> ''gateway_send''" "n \<noteq> ''a2a_delegate''" using that(1) by auto
    then show ?thesis using install_gated [OF i, of n t] that by (auto simp: get reg2 split: if_splits)
  qed
qed

section \<open>Properties\<close>

text \<open>C20: When the application starts, its secrets were accepted, the configured administrator is an active user whose password is the
  configured one, although the later steps of the start ran and may have failed, and the registry has the gateway and the A2A tool
  and no MCP tool that could write without approval.\<close>

theorem startup_ready:
  assumes "startup env db w = (Inr (reg, s), db', w')" and "distinct (map us_username (users w))"
  shows "validate_runtime_secrets (sx_settings env) = None
    \<and> (\<exists>u. active_user (st_admin_username (aq_security (admin_of env))) w' = Some u
         \<and> verify_password (sx_kdf env) (st_admin_password (aq_security (admin_of env))) (us_password_hash u) = Inr True)
    \<and> registry_get reg ''gateway_send'' = Some gateway_send_tool \<and> registry_get reg ''a2a_delegate'' = Some a2a_delegate_tool
    \<and> (\<forall>n t. startswith n ''mcp__'' \<and> registry_get reg n = Some t \<longrightarrow> td_requires_approval t \<or> td_scope t = ''external.read'')"
proof -
  let ?ensure = "ensure_admin_user (sx_kdf env) (aq_security (admin_of env)) (aq_new_id (admin_of env) w) (sx_salt env)"
  obtain u w1 where secrets: "validate_runtime_secrets (sx_settings env) = None"
    and e: "session_scope True ?ensure w = (Inr u, w1)" and s: "start_services env w1 = (Inr reg, s)" and w': "w' = rs_world s"
    using assms(1) by (auto simp: startup_def Let_def split: option.splits prod.splits sum.splits)
  obtain w0 where e0: "?ensure w = (Inr u, w0)" and w0: "users w1 = users w0"
    using e by (auto simp: session_scope_def split: prod.splits sum.splits)
  have "users w' = users w0" using start_services_users [OF s] w' w0 by simp
  then have a: "active_user n w' = active_user n w0" for n by (simp add: active_user_def)
  show ?thesis
    using ensure_admin_ready [OF e0 assms(2)] start_services_registry(3) [OF s]
    by (simp add: secrets a start_services_registry(1,2) [OF s]) blast
qed

text \<open>C19: The middleware gives every caller of a policy its requests of the minute and no more: on every sequence of requests to one limited
  path, with a clock that does not go back, a request reaches the application exactly when fewer than the limit of the policy came
  before it in the same minute with the same identity.\<close>

theorem middleware_refines_fixed_window:
  assumes "ls_enabled lcfg" and "\<not> rate_limit_exempt cfg path" and "rate_limit_policy lcfg path = (policy, limit)" and "1 \<le> limit"
    and "lm_memory s = []" and "sorted (map fst rs)" and "\<forall>y \<in> set rs. hr_path (snd y) = path"
  shows "serve_requests cfg lcfg app rs s = spec_serve 60 limit [] (map (\<lambda>(t, q). (policy, rate_limit_identity q, t)) rs)"
  by (rule serve_requests_spec [OF assms(1-4)]) (use assms(5-7) in \<open>simp_all add: counter_rel_def\<close>)

text \<open>The identity is the end of the \<open>Authorization\<close> header, which nobody has checked yet: a caller that sends another header with
  every request is never refused, whatever the limit and from whatever host.\<close>

theorem header_rotation_evades_limit:
  assumes "ls_enabled lcfg" and "\<not> rate_limit_exempt cfg (hr_path q)" and "rate_limit_policy lcfg (hr_path q) = (policy, limit)" and "1 \<le> limit"
    and "lm_memory s = []" and "sorted (map fst sent)" and "distinct (map (\<lambda>(t, auth). safe_identity (rate_limit_identity (q\<lparr>hr_authorization := auth\<rparr>))) sent)"
  shows "serve_requests cfg lcfg app (map (\<lambda>(t, auth). (t, q\<lparr>hr_authorization := auth\<rparr>)) sent) s = replicate (length sent) True"
proof -
  let ?rs = "map (\<lambda>(t, auth). (t, q\<lparr>hr_authorization := auth\<rparr>)) sent"
  let ?cs = "map (\<lambda>(t, q). (policy, rate_limit_identity q, t)) ?rs"
  have "map fst ?rs = map fst sent" by auto
  then have t: "sorted (map fst ?rs)" using assms(6) by (simp only:)
  have k: "map (\<lambda>(p, i, t). limit_key p i) ?cs
      = map (\<lambda>x. ''soulclaw:rl:'' @ policy @ '':'' @ x) (map (\<lambda>(t, auth). safe_identity (rate_limit_identity (q\<lparr>hr_authorization := auth\<rparr>))) sent)"
    by (simp add: limit_key_def case_prod_beta)
  have "distinct (map (\<lambda>(p, i, t). limit_key p i) ?cs)"
    unfolding k distinct_map [of _ "map _ _"] using assms(7) by (simp add: inj_on_def)
  then have "spec_serve 60 limit [] ?cs = replicate (length ?cs) True" using assms(4) by (intro distinct_callers_pass) simp_all
  moreover have "serve_requests cfg lcfg app ?rs s = spec_serve 60 limit [] ?cs"
    using assms(5) by (intro serve_requests_spec [OF assms(1-4) _ t]) (auto simp: counter_rel_def)
  ultimately show ?thesis by simp
qed

section \<open>A small installation\<close>

definition sample_runtime :: runtime_settings where
  "sample_runtime = \<lparr>rt_app_name = ''SoulClaw'', rt_environment = ''local'', rt_auto_migrate = False, rt_cors_origins = [],
     rt_require_secrets = True, rt_metrics_path = ''/metrics'', rt_data_dir = [''data''], rt_config_dir = [''config''],
     rt_workspace_dir = [''workspace''], rt_seed_dir = [''seed''], rt_packages_dir = [''packages''], rt_database_url = ''sqlite:///data/soulclaw.db'',
     rt_redis_url = ''redis://localhost'', rt_redis_required = False, rt_celery_broker_url = None, rt_celery_result_backend = None,
     rt_queue_eager = True, rt_wiki_root = None, rt_skills_root = None, rt_admin_password = ''pw'', rt_jwt_secret = ''s'',
     rt_public_base_url = []\<rparr>"

definition sample_switches :: startup_switches where
  "sample_switches = \<lparr>sw_seed_mcp = True, sw_refresh_mcp = True, sw_bootstrap_wiki = True, sw_bootstrap_skills = True, sw_dream = True,
     sw_dream_cron = ''0 3 * * *'', sw_dream_timezone = ''UTC'', sw_dream_window_hours = 24, sw_dream_limit = 50, sw_heartbeat = True,
     sw_heartbeat_cron = ''*/30 * * * *'', sw_heartbeat_timezone = ''UTC'', sw_soulsearcher = False, sw_soulsearcher_url = [],
     sw_soulsearcher_key = [], sw_soulsearcher_header = [], sw_soulsearcher_user = []\<rparr>"

definition sample_startup :: startup_env where
  "sample_startup = \<lparr>sx_settings = sample_runtime, sx_switches = sample_switches, sx_content = sample_content, sx_kdf = toy_kdf,
     sx_salt = ''salt'', sx_migrations = \<lparr>mg_create_all = (\<lambda>db. (None, db)), mg_refuse = (\<lambda>_ _. None), mg_upgrade = (\<lambda>db. (None, db)),
       mg_head = Inr None\<rparr>, sx_mkdir = (\<lambda>_. None), sx_expand = id, sx_seed_path = ''mcp.yaml'', sx_seed_file = None, sx_version = ''1''\<rparr>"

definition empty_catalog :: catalog where
  "empty_catalog = \<lparr>db_tables = [], db_indexes = [], db_versions = []\<rparr>"

lemma sample_starts:
  assumes "w = (empty_world :: world)"
  shows "\<exists>reg s w'. startup sample_startup db w = (Inr (reg, s), db, w')"
proof -
  have loop: "\<exists>w'. schedule_missing_loop (\<lambda>_. Inr ()) (\<lambda>_ _ t. Inr (t + 60)) now cs v = (Inr (), w')" for now cs v
    by (induction cs arbitrary: v) (simp_all add: compute_next_run_def)
  have missing: "\<exists>n w'. schedule_missing (\<lambda>_. Inr ()) (\<lambda>_ _ t. Inr (t + 60)) now v = (Inr n, w')" for now v
    using loop [of now "filter (\<lambda>c. cj_enabled c \<and> cj_next_run_at c = None) (cron_jobs v)" v]
    by (auto simp: schedule_missing_def session_scope_def Let_def)
  have a: "aq_zone (admin_of sample_startup) = (\<lambda>_. Inr ())" "aq_croniter (admin_of sample_startup) = (\<lambda>_ _ t. Inr (t + 60))"
    by (simp_all add: admin_of_def sample_startup_def sample_content_def sample_admin_def)
  have services: "\<exists>reg s. start_services sample_startup v = (Inr reg, s)" for v
    using missing by (auto simp: start_services_def a Let_def split: prod.split sum.split) (metis Pair_inject sum.distinct(1))+
  have v: "validate_runtime_secrets (sx_settings sample_startup) = None" by code_simp
  have d: "ensure_directories (sx_mkdir sample_startup) (sx_expand sample_startup) (sx_settings sample_startup) = None"
    by (simp add: ensure_directories_def required_directories_def first_error_def sample_startup_def)
  have m: "\<not> rt_auto_migrate (sx_settings sample_startup)" by (simp add: sample_startup_def sample_runtime_def)
  have "find_user (st_admin_username (aq_security (admin_of sample_startup))) w = None" by (simp add: assms find_user_def empty_world_def)
  then obtain u w1 where "session_scope True (ensure_admin_user (sx_kdf sample_startup) (aq_security (admin_of sample_startup))
      (aq_new_id (admin_of sample_startup) w) (sx_salt sample_startup)) w = (Inr u, w1)"
    by (simp add: session_scope_def ensure_admin_user_def Let_def)
  then show ?thesis using services [of w1] by (auto simp: startup_def Let_def v d m)
qed

theorem startup_ready_witness:
  "\<exists>reg s w'. startup sample_startup empty_catalog empty_world = (Inr (reg, s), empty_catalog, w')
     \<and> registry_get reg ''gateway_send'' = Some gateway_send_tool \<and> map_option us_username (active_user ''admin'' w') = Some ''admin''"
proof -
  obtain reg s w' where st: "startup sample_startup empty_catalog empty_world = (Inr (reg, s), empty_catalog, w')" using sample_starts [OF refl] by blast
  have n: "st_admin_username (aq_security (admin_of sample_startup)) = ''admin''" by code_simp
  have "distinct (map us_username (users empty_world))" by (simp add: empty_world_def)
  from startup_ready [OF st this] obtain u where "active_user ''admin'' w' = Some u" "registry_get reg ''gateway_send'' = Some gateway_send_tool"
    by (auto simp: n)
  moreover from this(1) have "us_username u = ''admin''" by (simp add: active_user_def find_Some_iff) blast
  ultimately show ?thesis using st by auto
qed

definition sample_call :: http_request where
  "sample_call = \<lparr>hr_path = ''/api/runs/turn'', hr_authorization = ''Bearer a'', hr_host = Some ''10.0.0.1'', hr_traceparent = [],
     hr_request_id = []\<rparr>"

definition one_turn_a_minute :: limit_settings where
  "one_turn_a_minute = sample_settings\<lparr>ls_turn_per_minute := 1\<rparr>"

theorem middleware_refines_fixed_window_witness:
  "serve_requests sample_runtime one_turn_a_minute (\<lambda>w. ((), w)) [(61, sample_call), (62, sample_call), (120, sample_call)] fresh_limiter
     = [True, False, True]"
proof -
  have p: "rate_limit_policy one_turn_a_minute ''/api/runs/turn'' = (''turn'', 1)" "\<not> rate_limit_exempt sample_runtime ''/api/runs/turn''"
    "ls_enabled one_turn_a_minute" by code_simp+
  have "serve_requests sample_runtime one_turn_a_minute (\<lambda>w. ((), w)) [(61, sample_call), (62, sample_call), (120, sample_call)] fresh_limiter
      = spec_serve 60 1 [] (map (\<lambda>(t, q). (''turn'', rate_limit_identity q, t)) [(61, sample_call), (62, sample_call), (120, sample_call)])"
    by (rule middleware_refines_fixed_window [OF p(3,2,1)]) (simp_all add: fresh_limiter_def sample_call_def)
  also have "\<dots> = [True, False, True]" by code_simp
  finally show ?thesis .
qed

theorem header_rotation_evades_limit_witness:
  "serve_requests sample_runtime one_turn_a_minute (\<lambda>w. ((), w))
     [(61, sample_call\<lparr>hr_authorization := ''a''\<rparr>), (61, sample_call\<lparr>hr_authorization := ''b''\<rparr>), (61, sample_call\<lparr>hr_authorization := ''c''\<rparr>)]
     fresh_limiter = [True, True, True]"
proof -
  let ?sent = "[(61 :: int, ''a''), (61, ''b''), (61, ''c'')]"
  have p: "rate_limit_policy one_turn_a_minute (hr_path sample_call) = (''turn'', 1)" "\<not> rate_limit_exempt sample_runtime (hr_path sample_call)"
    "ls_enabled one_turn_a_minute" by code_simp+
  have d: "distinct (map (\<lambda>(t, auth). safe_identity (rate_limit_identity (sample_call\<lparr>hr_authorization := auth\<rparr>))) ?sent)" by code_simp
  have "serve_requests sample_runtime one_turn_a_minute (\<lambda>w. ((), w)) (map (\<lambda>(t, auth). (t, sample_call\<lparr>hr_authorization := auth\<rparr>)) ?sent) fresh_limiter
      = replicate (length ?sent) True"
    by (rule header_rotation_evades_limit [OF p(3,2,1) _ _ _ d]) (simp_all add: fresh_limiter_def)
  then show ?thesis by (simp add: numeral_3_eq_3)
qed

end
