(* ===== verification/Settings_Page.thy ===== *)
theory Settings_Page
  imports Startup
begin

text \<open>
  The settings page: \<open>settings\<close> of \<open>backend/api/admin/platform.py\<close>. \<open>page_settings\<close> holds the settings only this route
  reads; the others are those of \<open>Health\<close>, \<open>Startup\<close> and \<open>Rate_Limit\<close>.
\<close>

record page_settings =
  pg_api_scheduler :: bool
  pg_openai_api_key :: "string option"
  pg_llm_provider :: string
  pg_context_window :: int
  pg_login_limit :: bool
  pg_metrics_enabled :: bool
  pg_tracing_enabled :: bool
  pg_otlp_endpoint :: string
  pg_mcp_config_file :: path
  pg_direct_limit :: int
  pg_gateway_timeout :: int
  pg_max_skew :: int
  pg_nonce_cache :: int
  pg_public_auth :: bool
  pg_public_key :: string

definition check_summary :: "dict \<Rightarrow> dict" where
  "check_summary check = [(''ok'', if dhas ''ok'' check then dget ''ok'' check else JBool False), (''configured'', dget ''configured'' check),
     (''required'', dget ''required'' check)]"

definition dream_job :: "world \<Rightarrow> cron_job option" where
  "dream_job w = find (\<lambda>c. cj_name c = ''system-dream-review'') (cron_jobs w)"

definition database_fields :: "probe_env \<Rightarrow> runtime_settings \<Rightarrow> dict \<Rightarrow> dict" where
  "database_fields env cfg migrations =
     [(''app_name'', JStr (rt_app_name cfg)), (''environment'', JStr (rt_environment cfg)), (''database_url'', JStr ''SOULCLAW_DATABASE_URL''),
      (''database_url_backup_alias'', JStr ''DATABASE_URL''), (''database_backend'', JStr (database_backend (rt_database_url cfg))),
      (''migration_revision'', dget ''current_revision'' migrations), (''migration_head_revision'', dget ''head_revision'' migrations),
      (''migration_current'', dget ''is_current'' migrations),
      (''readiness'', JObj [(''ok'', dget ''ok'' (readiness_summary env cfg)),
         (''checks'', JObj (map (\<lambda>(n, d). (n, JObj (check_summary d))) (readiness_checks env cfg)))])]"

definition service_fields :: "probe_env \<Rightarrow> runtime_settings \<Rightarrow> limit_settings \<Rightarrow> page_settings \<Rightarrow> dict" where
  "service_fields env cfg lcfg pg =
     [(''redis_url'', JStr ''SOULCLAW_REDIS_URL''), (''redis_available'', JBool (pb_redis env \<noteq> None)), (''redis_required'', JBool (rt_redis_required cfg)),
      (''celery_broker_url'', JStr ''SOULCLAW_CELERY_BROKER_URL or SOULCLAW_REDIS_URL''),
      (''celery_result_backend'', JStr ''SOULCLAW_CELERY_RESULT_BACKEND or SOULCLAW_REDIS_URL''), (''api_scheduler_enabled'', JBool (pg_api_scheduler pg)),
      (''wiki_root'', JStr (path_str (resolved_wiki_root (pb_expand env) cfg))), (''skills_root'', JStr (path_str (resolved_skills_root (pb_expand env) cfg))),
      (''workspace_dir'', JStr (path_str (rt_workspace_dir cfg))), (''workspace_seed_dir'', JStr (path_str (rt_seed_dir cfg))),
      (''openai_configured'', JBool (given_str (pg_openai_api_key pg) \<noteq> [])), (''llm_provider'', JStr (pg_llm_provider pg)),
      (''llm_context_window_tokens'', JInt (pg_context_window pg)), (''cors_origins'', strs (rt_cors_origins cfg)),
      (''require_production_secrets'', JBool (rt_require_secrets cfg)), (''login_rate_limit_enabled'', JBool (pg_login_limit pg)),
      (''metrics_enabled'', JBool (pg_metrics_enabled pg)), (''metrics_path'', JStr (rt_metrics_path cfg)),
      (''tracing_enabled'', JBool (pg_tracing_enabled pg)), (''otel_exporter_otlp_configured'', JBool (pg_otlp_endpoint pg \<noteq> [])),
      (''rate_limit_enabled'', JBool (ls_enabled lcfg)), (''rate_limit_memory_fallback'', JBool (ls_memory_fallback lcfg))]"

definition task_fields :: "startup_switches \<Rightarrow> page_settings \<Rightarrow> cron_job option \<Rightarrow> dict" where
  "task_fields sw pg job =
     [(''bootstrap_wiki_on_startup'', JBool (sw_bootstrap_wiki sw)), (''bootstrap_skills_on_startup'', JBool (sw_bootstrap_skills sw)),
      (''mcp_refresh_on_startup'', JBool (sw_refresh_mcp sw)), (''mcp_seed_on_startup'', JBool (sw_seed_mcp sw)),
      (''mcp_config_file'', JStr (path_str (pg_mcp_config_file pg))), (''tool_schema_direct_limit'', JInt (pg_direct_limit pg)),
      (''dream_review_enabled'', JBool (sw_dream sw)), (''dream_review_cron'', JStr (sw_dream_cron sw)),
      (''dream_review_timezone'', JStr (sw_dream_timezone sw)), (''dream_review_window_hours'', JInt (sw_dream_window_hours sw)),
      (''dream_review_limit'', JInt (sw_dream_limit sw)),
      (''dream_review_job_enabled'', JBool (case job of None \<Rightarrow> False | Some c \<Rightarrow> cj_enabled c)),
      (''dream_review_next_run_at'', case job of None \<Rightarrow> JNull | Some c \<Rightarrow> opt_json (JStr \<circ> isoformat) (cj_next_run_at c)),
      (''heartbeat_enabled'', JBool (sw_heartbeat sw)), (''heartbeat_cron'', JStr (sw_heartbeat_cron sw)),
      (''heartbeat_timezone'', JStr (sw_heartbeat_timezone sw)), (''gateway_heartbeat_timeout_seconds'', JInt (pg_gateway_timeout pg)),
      (''gateway_webhook_max_skew_seconds'', JInt (pg_max_skew pg)), (''gateway_webhook_nonce_cache_size'', JInt (pg_nonce_cache pg)),
      (''a2a_bootstrap_soulsearcher_enabled'', JBool (sw_soulsearcher sw)), (''a2a_require_public_auth'', JBool (pg_public_auth pg)),
      (''a2a_public_api_key_configured'', JBool (pg_public_key pg \<noteq> []))]"

definition settings_route ::
  "probe_env \<Rightarrow> runtime_settings \<Rightarrow> startup_switches \<Rightarrow> limit_settings \<Rightarrow> page_settings \<Rightarrow> dict route" where
  "settings_route env cfg sw lcfg pg w =
     (case (case pb_catalog env of Inl e \<Rightarrow> Inl e | Inr db \<Rightarrow> migration_status (pb_migrations env) (rt_database_url cfg) db) of
        Inl e \<Rightarrow> (Inl (Unhandled e), w)
      | Inr migrations \<Rightarrow> (Inr (database_fields env cfg migrations @ service_fields env cfg lcfg pg @ task_fields sw pg (dream_job w)), w))"

section \<open>Properties\<close>

text \<open>The settings page shows no secret: with another database address of the same kind, other passwords, tokens, broker addresses and keys,
  the answer is the same, as long as the optional keys are set in both cases or in neither.\<close>

theorem settings_hide_secrets:
  assumes "database_backend url = database_backend (rt_database_url cfg)"
    and "given_str openai = [] \<longleftrightarrow> given_str (pg_openai_api_key pg) = []" and "key = [] \<longleftrightarrow> pg_public_key pg = []"
    and "endpoint = [] \<longleftrightarrow> pg_otlp_endpoint pg = []"
  shows "settings_route env (cfg\<lparr>rt_database_url := url, rt_admin_password := password, rt_jwt_secret := secret, rt_redis_url := redis,
           rt_celery_broker_url := broker, rt_celery_result_backend := result\<rparr>) sw lcfg
           (pg\<lparr>pg_openai_api_key := openai, pg_public_key := key, pg_otlp_endpoint := endpoint\<rparr>) w
    = settings_route env cfg sw lcfg pg w"
proof -
  let ?cfg = "cfg\<lparr>rt_database_url := url, rt_admin_password := password, rt_jwt_secret := secret, rt_redis_url := redis,
    rt_celery_broker_url := broker, rt_celery_result_backend := result\<rparr>"
  let ?pg = "pg\<lparr>pg_openai_api_key := openai, pg_public_key := key, pg_otlp_endpoint := endpoint\<rparr>"
  have m: "migration_status mg url db = migration_status mg (rt_database_url cfg) db" for mg db
    by (simp only: migration_status_def assms(1))
  have roots: "resolved_wiki_root f ?cfg = resolved_wiki_root f cfg" "resolved_skills_root f ?cfg = resolved_skills_root f cfg" for f
    by (simp_all add: resolved_wiki_root_def resolved_skills_root_def split: option.split)
  have checks: "readiness_checks env ?cfg = readiness_checks env cfg"
    by (simp add: readiness_checks_def migration_check_def directory_check_def roots m split: sum.split)
  have "database_fields env ?cfg d = database_fields env cfg d" for d
    by (simp add: database_fields_def checks readiness_summary_def assms(1))
  moreover have "service_fields env ?cfg lcfg ?pg = service_fields env cfg lcfg pg"
    using assms(2,4) by (simp add: service_fields_def roots)
  moreover have "task_fields sw ?pg job = task_fields sw pg job" for job using assms(3) by (simp add: task_fields_def)
  ultimately show ?thesis by (simp add: settings_route_def m split: sum.split)
qed

definition sample_page :: page_settings where
  "sample_page = \<lparr>pg_api_scheduler = False, pg_openai_api_key = Some ''sk-1'', pg_llm_provider = ''openai-compatible'', pg_context_window = 128000,
     pg_login_limit = True, pg_metrics_enabled = True, pg_tracing_enabled = True, pg_otlp_endpoint = [], pg_mcp_config_file = [''mcp.yaml''],
     pg_direct_limit = 32, pg_gateway_timeout = 120, pg_max_skew = 300, pg_nonce_cache = 200, pg_public_auth = True, pg_public_key = ''k''\<rparr>"

theorem settings_hide_secrets_witness:
  "settings_route env (sample_runtime\<lparr>rt_database_url := ''sqlite:///other'', rt_admin_password := ''x'', rt_jwt_secret := ''y'',
      rt_redis_url := ''z'', rt_celery_broker_url := None, rt_celery_result_backend := Some ''b''\<rparr>) sample_switches sample_settings
      (sample_page\<lparr>pg_openai_api_key := Some ''sk-2'', pg_public_key := ''k2'', pg_otlp_endpoint := []\<rparr>) empty_world
   = settings_route env sample_runtime sample_switches sample_settings sample_page empty_world"
  by (rule settings_hide_secrets) code_simp+

text \<open>The page needs the database although the readiness it shows does not: when the catalog cannot be read, the route raises.\<close>

theorem settings_page_needs_database:
  "pb_catalog env = Inl e \<Longrightarrow> settings_route env cfg sw lcfg pg w = (Inl (Unhandled e), w) \<and> dget ''ok'' (readiness_summary env cfg) = JBool False"
proof -
  assume e: "pb_catalog env = Inl e"
  then have "\<not> check_ok (migration_check env cfg)" by (simp add: migration_ok)
  then show ?thesis using e by (simp add: settings_route_def readiness_summary_def readiness_checks_def Let_def dget_simps)
qed

end
