(* ===== verification/Wiki_Eval.thy ===== *)
theory Wiki_Eval
  imports Wiki_Props Json
begin

text \<open>
  The offline evaluation of wiki retrieval: \<open>backend/domain/wiki_eval.py\<close> and \<open>backend/cli/wiki_eval.py\<close>.

  A dataset is a list of JSON rows. Ratios are exact rationals, rounded to four digits where the code rounds.
\<close>

section \<open>The dataset\<close>

text \<open>\<open>load_jsonl\<close> on the text of the file; the suffix \<open>ext\<close> decides between one JSON list and one value per line.\<close>

fun json_lines :: "string list \<Rightarrow> exc + json list" where
  "json_lines [] = Inr []"
| "json_lines (line # rest) =
     (if py_strip line = [] then json_lines rest
      else case json_loads (py_strip line) of
        None \<Rightarrow> Inl (ValueError ''not a JSON document'')
      | Some v \<Rightarrow> map_sum id (\<lambda>vs. v # vs) (json_lines rest))"

definition load_jsonl :: "string \<Rightarrow> string \<Rightarrow> exc + json list" where
  "load_jsonl ext raw =
     (if py_lower ext = ''.json'' then
        (case json_loads raw of
           None \<Rightarrow> Inl (ValueError ''not a JSON document'')
         | Some (JList xs) \<Rightarrow> Inr (filter (\<lambda>x. case x of JObj _ \<Rightarrow> True | _ \<Rightarrow> False) xs)
         | Some _ \<Rightarrow> Inl (ValueError ''wiki eval JSON dataset must be a list''))
      else json_lines (splitlines raw))"

section \<open>One case\<close>

record eval_case =
  ev_query :: string
  ev_expected :: "string list"
  ev_hits :: "string list"
  ev_strategy :: string
  ev_expected_strategy :: string
  ev_recall :: rat
  ev_precision :: rat
  ev_fan_in_ok :: bool
  ev_strategy_ok :: bool
  ev_insufficient_ok :: bool
  ev_steps :: nat

text \<open>\<open>browse\<close> and \<open>search\<close> as page keys, and the merge of both that keeps the first of equal keys and drops empty ones.\<close>

definition browse_keys :: "int \<Rightarrow> world \<Rightarrow> string list" where
  "browse_keys limit w = map (\<lambda>item. dstr ''page_key'' (dict_or_empty item)) (list_or_empty (dget ''items'' (browse_wiki '''' '''' limit w)))"

definition search_keys :: "wiki_env \<Rightarrow> string \<Rightarrow> int \<Rightarrow> string \<Rightarrow> world \<Rightarrow> string list" where
  "search_keys env query limit strategy w = map (wpg_key \<circ> wh_page) (search_wiki env query limit strategy '''' False w)"

definition first_keys :: "string list \<Rightarrow> string list" where
  "first_keys ks = fold (\<lambda>k seen. if k = [] \<or> k \<in> set seen then seen else seen @ [k]) ks []"

definition hit_keys_of :: "wiki_env \<Rightarrow> string \<Rightarrow> int \<Rightarrow> string \<Rightarrow> world \<Rightarrow> string list" where
  "hit_keys_of env query limit strategy w =
     (if strategy = ''browse_first'' then browse_keys limit w
      else if strategy = ''bridge'' then first_keys (search_keys env query limit strategy w @ browse_keys limit w)
      else search_keys env query limit strategy w)"

definition recall_of :: "string set \<Rightarrow> string list \<Rightarrow> rat" where
  "recall_of expected hits = (if expected = {} then 1
     else of_nat (card (set (filter (\<lambda>k. k \<in> expected) hits))) / of_nat (max 1 (card expected)))"

definition precision_of :: "string set \<Rightarrow> string list \<Rightarrow> rat" where
  "precision_of expected hits = (if expected = {} then 1
     else of_nat (length (filter (\<lambda>k. k \<in> expected) hits)) / of_nat (max 1 (length hits)))"

definition evaluate_case :: "wiki_env \<Rightarrow> world \<Rightarrow> json \<Rightarrow> exc + eval_case" where
  "evaluate_case env w item = (case item of
     JObj row \<Rightarrow>
       (case (if dhas ''expected_pages'' row then py_iter (dget ''expected_pages'' row) else Inr []) of
          Inl e \<Rightarrow> Inl e
        | Inr pages \<Rightarrow>
          (case dint_or ''limit'' 10 row of
             Inl e \<Rightarrow> Inl e
           | Inr limit \<Rightarrow>
               let query = dstr ''query'' row; expected = map py_str pages; expected_strategy = dstr ''expected_strategy'' row;
                   expected_insufficient = truthy (dget ''insufficient'' row);
                   route = route_query env query limit w; strategy = dstr ''strategy'' route;
                   hits = hit_keys_of env query limit strategy w
               in (case dint_or ''required_fan_in'' 1 route of
                     Inl e \<Rightarrow> Inl e
                   | Inr wanted \<Rightarrow>
                     (case dint_or ''required_fan_in'' 0 route of
                        Inl e \<Rightarrow> Inl e
                      | Inr fan_in \<Rightarrow>
                          let read_pages = take (nat (max 1 wanted)) hits
                          in (case sufficiency_check env query read_pages (Some fan_in) strategy w of
                                Inl e \<Rightarrow> Inl e
                              | Inr sufficiency \<Rightarrow>
                                  Inr \<lparr>ev_query = query, ev_expected = sort (remdups expected), ev_hits = hits, ev_strategy = strategy,
                                    ev_expected_strategy = expected_strategy,
                                    ev_recall = recall_of (set expected) hits, ev_precision = precision_of (set expected) hits,
                                    ev_fan_in_ok = (expected_insufficient \<or> fan_in \<le> int (length read_pages)),
                                    ev_strategy_ok = (expected_strategy = [] \<or> strategy = expected_strategy),
                                    ev_insufficient_ok = (if expected_insufficient
                                      then strategy = ''insufficient'' \<or> \<not> truthy (dget ''sufficient'' sufficiency) else strategy \<noteq> ''insufficient''),
                                    ev_steps = length (list_or_empty (dget ''recommended_steps'' route))\<rparr>)))))
   | _ \<Rightarrow> Inl (OtherError ''object has no attribute get''))"

section \<open>The evaluation\<close>

fun evaluate_cases :: "wiki_env \<Rightarrow> world \<Rightarrow> json list \<Rightarrow> exc + eval_case list" where
  "evaluate_cases env w [] = Inr []"
| "evaluate_cases env w (row # rows) = (case evaluate_case env w row of
     Inl e \<Rightarrow> Inl e | Inr c \<Rightarrow> map_sum id (\<lambda>cs. c # cs) (evaluate_cases env w rows))"

definition case_dict :: "eval_case \<Rightarrow> dict" where
  "case_dict c = [(''query'', JStr (ev_query c)), (''expected_pages'', strs (ev_expected c)), (''hit_pages'', strs (ev_hits c)),
     (''strategy'', JStr (ev_strategy c)), (''expected_strategy'', JStr (ev_expected_strategy c)),
     (''evidence_recall'', JFloat (round_to 4 (ev_recall c))), (''evidence_precision'', JFloat (round_to 4 (ev_precision c))),
     (''fan_in_success'', JBool (ev_fan_in_ok c)), (''insufficient_detection'', JBool (ev_insufficient_ok c))]"

definition mean :: "(eval_case \<Rightarrow> rat) \<Rightarrow> eval_case list \<Rightarrow> rat" where
  "mean f cs = round_to 4 (sum_list (map f cs) / of_nat (max 1 (length cs)))"

definition metrics :: "eval_case list \<Rightarrow> dict" where
  "metrics cs = [(''cases'', JInt (int (length cs))), (''evidence_recall'', JFloat (mean ev_recall cs)),
     (''evidence_precision'', JFloat (mean ev_precision cs)),
     (''fan_in_success'', JFloat (mean (\<lambda>c. of_bool (ev_fan_in_ok c \<and> ev_strategy_ok c)) cs)),
     (''insufficient_detection'', JFloat (mean (\<lambda>c. of_bool (ev_insufficient_ok c)) cs)),
     (''avg_steps'', JFloat (mean (\<lambda>c. of_nat (ev_steps c)) cs)), (''case_results'', JList (map (JObj \<circ> case_dict) cs))]"

definition evaluate_wiki_dataset :: "wiki_env \<Rightarrow> world \<Rightarrow> json list \<Rightarrow> exc + dict" where
  "evaluate_wiki_dataset env w rows = map_sum id metrics (evaluate_cases env w rows)"

text \<open>The command after its optional migration: compile when asked, then evaluate, in one session.\<close>

definition wiki_eval_command :: "(world \<Rightarrow> wiki_env) \<Rightarrow> bool \<Rightarrow> bool \<Rightarrow> json list \<Rightarrow> dict op" where
  "wiki_eval_command env compile no_compile rows = session_scope False (op_bind
     (\<lambda>w. if compile \<and> \<not> no_compile then compile_wiki (env w) w else (Inr [], w))
     (\<lambda>_ w. (evaluate_wiki_dataset (env w) w rows, w)))"

section \<open>Properties\<close>

lemma unit_ratio: "0 \<le> a \<Longrightarrow> a \<le> of_nat n \<Longrightarrow> 0 \<le> a / of_nat (max 1 n) \<and> a / of_nat (max 1 n) \<le> (1 :: rat)"
proof -
  assume a: "0 \<le> a" "a \<le> of_nat n"
  have "0 < (of_nat (max 1 n) :: rat)" "(of_nat n :: rat) \<le> of_nat (max 1 n)" by (simp_all del: of_nat_max)
  then show ?thesis using a by (simp del: of_nat_max)
qed

lemma round_unit: "0 \<le> r \<Longrightarrow> r \<le> 1 \<Longrightarrow> 0 \<le> round_to 4 r \<and> round_to 4 r \<le> 1"
  using round_half_even_range [of "r * 10 ^ 4" "10 ^ 4"] by (simp add: round_to_def)

lemma mean_unit:
  assumes "\<And>c. c \<in> set cs \<Longrightarrow> 0 \<le> f c \<and> f c \<le> 1"
  shows "0 \<le> mean f cs \<and> mean f cs \<le> 1"
proof -
  have "0 \<le> sum_list (map f cs) \<and> sum_list (map f cs) \<le> of_nat (length cs)"
    using assms by (induction cs) (auto, fastforce+)
  then have "0 \<le> sum_list (map f cs) / of_nat (max 1 (length cs)) \<and> sum_list (map f cs) / of_nat (max 1 (length cs)) \<le> 1"
    by (intro unit_ratio) simp_all
  then show ?thesis unfolding mean_def by (intro round_unit) simp_all
qed

lemma recall_exact:
  assumes "finite expected"
  shows "0 \<le> recall_of expected hits \<and> recall_of expected hits \<le> 1 \<and> (recall_of expected hits = 1 \<longleftrightarrow> expected \<subseteq> set hits)"
proof -
  have s: "set (filter (\<lambda>k. k \<in> expected) hits) = expected \<inter> set hits" by auto
  have "card (expected \<inter> set hits) \<le> card expected" using assms by (simp add: card_mono)
  moreover have "card (expected \<inter> set hits) = card expected \<longleftrightarrow> expected \<subseteq> set hits"
    using assms by (metis Int_lower1 card_subset_eq inf.absorb_iff1)
  moreover have "card expected = 0 \<longleftrightarrow> expected = {}" using assms by simp
  ultimately show ?thesis unfolding recall_of_def s by (auto simp: max_def field_simps)
qed

lemma precision_unit: "0 \<le> precision_of expected hits \<and> precision_of expected hits \<le> 1"
  using length_filter_le [of "\<lambda>k. k \<in> expected" hits] unit_ratio [of "of_nat (length (filter (\<lambda>k. k \<in> expected) hits))" "length hits"]
  by (simp add: precision_of_def)

lemma evaluated_case:
  assumes "evaluate_case env w item = Inr c"
  shows "\<exists>expected. set (ev_expected c) = expected \<and> finite expected \<and> ev_recall c = recall_of expected (ev_hits c)
    \<and> ev_precision c = precision_of expected (ev_hits c)"
  using assms by (auto simp: evaluate_case_def Let_def split: json.splits sum.splits if_splits)

text \<open>The rates of an evaluation are rates: recall, precision, fan-in success and insufficiency detection lie between 0 and 1 after
  rounding, for every dataset, wiki and search engine; and a case has full recall exactly when all pages it expects were found.\<close>

theorem evaluation_rates:
  assumes "evaluate_cases env w rows = Inr cs"
  shows "length cs = length rows
    \<and> list_all (\<lambda>r. 0 \<le> r \<and> r \<le> 1) [mean ev_recall cs, mean ev_precision cs,
        mean (\<lambda>c. of_bool (ev_fan_in_ok c \<and> ev_strategy_ok c)) cs, mean (\<lambda>c. of_bool (ev_insufficient_ok c)) cs]
    \<and> list_all (\<lambda>c. ev_recall c = 1 \<longleftrightarrow> set (ev_expected c) \<subseteq> set (ev_hits c)) cs"
proof -
  have cs: "length cs = length rows \<and> list_all (\<lambda>c. \<exists>item. evaluate_case env w item = Inr c) cs"
    using assms
  proof (induction rows arbitrary: cs)
    case (Cons row rows)
    then show ?case by (cases "evaluate_cases env w rows") (auto split: sum.splits)
  qed simp
  have e: "0 \<le> ev_recall c \<and> ev_recall c \<le> 1 \<and> (ev_recall c = 1 \<longleftrightarrow> set (ev_expected c) \<subseteq> set (ev_hits c))
      \<and> 0 \<le> ev_precision c \<and> ev_precision c \<le> 1" if "c \<in> set cs" for c
  proof -
    from cs that have "\<exists>item. evaluate_case env w item = Inr c" by (auto simp: list_all_iff)
    then obtain item where "evaluate_case env w item = Inr c" by blast
    from evaluated_case [OF this] recall_exact precision_unit show ?thesis by metis
  qed
  then show ?thesis
    using cs mean_unit [of cs ev_recall] mean_unit [of cs ev_precision] mean_unit [of cs "\<lambda>c. of_bool (ev_fan_in_ok c \<and> ev_strategy_ok c)"]
      mean_unit [of cs "\<lambda>c. of_bool (ev_insufficient_ok c)"]
    by (simp add: list_all_iff)
qed

definition sample_dataset :: "json list" where
  "sample_dataset = [JObj [(''query'', JStr ''a''), (''expected_pages'', JList [JStr ''a'']), (''limit'', JInt 3)], JObj [(''insufficient'', JBool True)]]"

theorem evaluation_rates_witness:
  "\<exists>cs. evaluate_cases sample_wiki_env empty_world sample_dataset = Inr cs \<and> length cs = 2 \<and> mean ev_recall cs \<le> 1"
proof -
  have "\<not> isl (evaluate_cases sample_wiki_env empty_world sample_dataset)" by code_simp
  then obtain cs where cs: "evaluate_cases sample_wiki_env empty_world sample_dataset = Inr cs" by (metis sum.collapse(2))
  from evaluation_rates [OF cs] cs show ?thesis by (simp add: sample_dataset_def)
qed

end
