(* ===== verification/Probe.thy ===== *)
theory Probe
  imports Health
begin

text \<open>
  The reliability probe: \<open>backend/cli/reliability_probe.py\<close>.

  The probes of the API and the LLM build a limiter and a resilience manager of their own, without events; the others count rows.
  The measured durations are arguments, in seconds, and so are the readings of the clock. The threads of the API probe share the limiter, whose lock
  puts their calls in one order: \<open>nows\<close> gives the time of each.
\<close>

section \<open>The probes\<close>

text \<open>\<open>statistics.quantiles(values, n=20)[18]\<close>, with the default method.\<close>

definition quantile_19_of_20 :: "rat list \<Rightarrow> rat" where
  "quantile_19_of_20 values =
     (let xs = sort values; n = length xs; position = 19 * (n + 1); j = min (max 1 (position div 20)) (n - 1); delta = int position - int j * 20
      in (xs ! (j - 1) * of_int (20 - delta) + xs ! j * of_int delta) / 20)"

definition p95 :: "rat list \<Rightarrow> rat" where
  "p95 values = (if values = [] then 0 else if length values < 20 then Max (set values) else quantile_19_of_20 values)"

fun probe_calls :: "limit_settings \<Rightarrow> int \<Rightarrow> int list \<Rightarrow> unit limiter \<Rightarrow> (exc + int) \<times> unit limiter" where
  "probe_calls cfg limit [] s = (Inr 0, s)"
| "probe_calls cfg limit (now # nows) s =
     (case enforce_limit cfg None False now now ''probe_api'' ''dry-run'' limit 60 s of
        (Inl (RateLimitExceeded k p l r), s1) \<Rightarrow> apfst (map_sum id (\<lambda>n. n + 1)) (probe_calls cfg limit nows s1)
      | (Inl e, s1) \<Rightarrow> (Inl e, s1)
      | (Inr _, s1) \<Rightarrow> probe_calls cfg limit nows s1)"

definition empty_limiter :: "world \<Rightarrow> unit limiter" where
  "empty_limiter w = \<lparr>lm_memory = [], lm_hits = [], lm_blocked = [], lm_redis = (), lm_world = w\<rparr>"

definition probe_total :: "int \<Rightarrow> int" where
  "probe_total requests = max 1 (if requests = 0 then 1 else requests)"

definition probe_api :: "limit_settings \<Rightarrow> int list \<Rightarrow> rat list \<Rightarrow> int \<Rightarrow> world \<Rightarrow> exc + dict" where
  "probe_api cfg nows latencies requests w =
     (let total = probe_total requests
      in case probe_calls cfg (max 1 (total div 2)) (take (nat total) nows) (empty_limiter w) of
           (Inl e, s) \<Rightarrow> Inl e
         | (Inr blocked, s) \<Rightarrow> Inr [(''requests'', JInt total), (''blocked'', JInt blocked),
             (''error_rate'', JFloat (round_to 4 (of_int blocked / of_int total))), (''p95_ms'', JFloat (round_to 3 (p95 latencies * 1000))),
             (''rate_limit'', JObj (limiter_state cfg (None :: unit redis_client option) s))])"

definition probe_policy :: resilience_policy where
  "probe_policy = (default_policy ''probe.llm'')\<lparr>rp_max_attempts := 1, rp_failure_threshold := 1, rp_recovery := 30\<rparr>"

definition probe_llm_state :: "instant \<Rightarrow> instant \<Rightarrow> (int \<Rightarrow> rat \<Rightarrow> rat \<Rightarrow> rat) \<Rightarrow> world \<Rightarrow> (exc + unit) \<times> resilience" where
  "probe_llm_state now fail_now unif w =
     call False False now fail_now unif probe_policy (\<lambda>_. Inl (TransportError ''synthetic timeout'')) \<lparr>rs_states = [], rs_external = [], rs_world = w\<rparr>"

definition probe_llm_failure :: "instant \<Rightarrow> instant \<Rightarrow> (int \<Rightarrow> rat \<Rightarrow> rat \<Rightarrow> rat) \<Rightarrow> world \<Rightarrow> exc + dict" where
  "probe_llm_failure now fail_now unif w =
     (case probe_llm_state now fail_now unif w of
        (Inl e, s) \<Rightarrow> (case e of
            TransportError _ \<Rightarrow> Inr [(''circuit'', JObj (case map_of (resilience_state s) ''probe.llm'' of None \<Rightarrow> [] | Some d \<Rightarrow> d)), (''failure_injected'', JBool True)]
          | _ \<Rightarrow> Inl e)
      | (Inr _, s) \<Rightarrow> Inr [(''circuit'', JObj (case map_of (resilience_state s) ''probe.llm'' of None \<Rightarrow> [] | Some d \<Rightarrow> d)), (''failure_injected'', JBool True)])"

text \<open>A query that fails makes its probe unavailable.\<close>

definition probe_rows :: "exc option \<Rightarrow> dict \<Rightarrow> dict" where
  "probe_rows problem d = (case problem of None \<Rightarrow> d | Some e \<Rightarrow> [(''available'', JBool False), (''error'', JStr (exc_str e))])"

definition count_status :: "('r \<Rightarrow> string) \<Rightarrow> 'r list \<Rightarrow> string list \<Rightarrow> int" where
  "count_status status rows statuses = int (length (filter (\<lambda>r. status r \<in> set statuses) rows))"

definition probe_outbox :: "exc option \<Rightarrow> world \<Rightarrow> dict" where
  "probe_outbox problem w = probe_rows problem
     [(''pending_or_retrying'', JInt (count_status ob_status (outbox_messages w) [''pending'', ''retrying''])),
      (''dead_letter'', JInt (count_status ob_status (outbox_messages w) [''dead_letter'']))]"

definition probe_cron :: "exc option \<Rightarrow> world \<Rightarrow> dict" where
  "probe_cron problem w = probe_rows problem [(''backoff'', JInt (cron_backoffs w))]"

definition probe_jobs :: "exc option \<Rightarrow> world \<Rightarrow> dict" where
  "probe_jobs problem w = probe_rows problem
     [(''retrying'', JInt (count_status job_status (background_jobs w) [''retrying''])),
      (''dead_letter'', JInt (count_status job_status (background_jobs w) [''dead_letter'']))]"

record probe_readings =
  pr_nows :: "int list"
  pr_latencies :: "rat list"
  pr_now :: instant
  pr_fail_now :: instant
  pr_unif :: "int \<Rightarrow> rat \<Rightarrow> rat \<Rightarrow> rat"
  pr_failure :: "exc option"
  pr_duration :: rat

definition probe_item :: "limit_settings \<Rightarrow> probe_readings \<Rightarrow> int \<Rightarrow> world \<Rightarrow> string \<Rightarrow> exc + dict" where
  "probe_item cfg pr requests w name =
     (if name = ''api'' then probe_api cfg (pr_nows pr) (pr_latencies pr) requests w
      else if name = ''llm'' then probe_llm_failure (pr_now pr) (pr_fail_now pr) (pr_unif pr) w
      else if name = ''outbox'' then Inr (probe_outbox (pr_failure pr) w)
      else if name = ''cron'' then Inr (probe_cron (pr_failure pr) w)
      else Inr (probe_jobs (pr_failure pr) w))"

definition SCENARIOS :: "string list" where
  "SCENARIOS = [''api'', ''llm'', ''outbox'', ''cron'', ''jobs'']"

fun probe_items :: "(string \<Rightarrow> exc + dict) \<Rightarrow> string list \<Rightarrow> exc + dict" where
  "probe_items f [] = Inr []"
| "probe_items f (name # names) = (case f name of Inl e \<Rightarrow> Inl e | Inr d \<Rightarrow> map_sum id (\<lambda>ds. (name, JObj d) # ds) (probe_items f names))"

definition run_probe :: "limit_settings \<Rightarrow> probe_readings \<Rightarrow> string \<Rightarrow> int \<Rightarrow> world \<Rightarrow> exc + dict" where
  "run_probe cfg pr scenario requests w =
     (let scenarios = (if scenario = ''all'' then SCENARIOS else [scenario])
      in map_sum id (\<lambda>found. [(''scenario'', JStr scenario), (''dry_run'', JBool True), (''items'', JObj found),
           (''duration_seconds'', JFloat (round_to 4 (pr_duration pr)))])
         (probe_items (probe_item cfg pr requests w) (filter (\<lambda>n. n \<in> set scenarios) SCENARIOS)))"

section \<open>Properties\<close>

lemma probe_calls_blocked:
  assumes "ls_enabled cfg" and "1 \<le> limit"
  shows "counter_rel 60 hist (lm_memory s) \<Longrightarrow> sorted nows \<Longrightarrow> (\<forall>x \<in> set hist. \<forall>t \<in> set nows. snd x \<le> t) \<Longrightarrow> (\<forall>t \<in> set nows. t div 60 = u) \<Longrightarrow>
    window_hits 60 hist (limit_key ''probe_api'' ''dry-run'') u = h \<Longrightarrow>
    fst (probe_calls cfg limit nows s) = Inr (max 0 (int (length nows) - max 0 (limit - h)))"
proof (induction nows arbitrary: hist s h)
  case (Cons now nows)
  let ?k = "limit_key ''probe_api'' ''dry-run''"
  have past: "\<forall>x \<in> set hist. snd x \<le> now" and u: "now div 60 = u" using Cons.prems(3,4) by simp_all
  obtain d s1 where c: "check_limit cfg None False now now ''probe_api'' ''dry-run'' limit 60 s = (Inr d, s1)"
    and d: "dn_allowed d = (h < limit)"
    and m: "lm_memory s1 = put_assoc ?k (h + 1, (now div 60 + 1) * 60) (lm_memory s)"
    using check_limit_memory [OF assms(1) _ assms(2) Cons.prems(1) past] Cons.prems(5) u by (metis zero_less_numeral)
  have step: "fst (probe_calls cfg limit nows t) = Inr (max 0 (int (length nows) - max 0 (limit - (h + 1))))" if "lm_memory t = lm_memory s1" for t
  proof (rule Cons.IH)
    have "counter_rel 60 (hist @ [(?k, now)]) (put_assoc ?k (window_hits 60 hist ?k (now div 60) + 1, (now div 60 + 1) * 60) (lm_memory s))"
      using counter_rel_step [OF _ Cons.prems(1) past] by simp
    then show "counter_rel 60 (hist @ [(?k, now)]) (lm_memory t)" using Cons.prems(5) u by (simp add: that m)
    show "window_hits 60 (hist @ [(?k, now)]) ?k u = h + 1" using Cons.prems(5) u by (simp add: window_hits_snoc)
  qed (use Cons.prems in auto)
  have h: "0 \<le> h" using Cons.prems(5) by (simp add: window_hits_def flip: Cons.prems(5))
  show ?case
  proof (cases "h < limit")
    case True
    then show ?thesis using d step [of s1] by (simp add: enforce_limit_def c)
  next
    case False
    then show ?thesis using d by (simp add: enforce_limit_def c step)
  qed
qed simp

text \<open>The API probe blocks half of its requests: within one minute of the clock, exactly the requests beyond \<open>max(1, total // 2)\<close> are refused,
  however the threads interleave; the error rate it reports is that share.\<close>

theorem probe_api_blocks_half:
  assumes "ls_enabled cfg" and "sorted nows" and "int (length nows) = probe_total requests" and "list_all (\<lambda>t. t div 60 = u) nows"
  shows "\<exists>d. probe_api cfg nows latencies requests w = Inr d \<and> dget ''requests'' d = JInt (probe_total requests)
    \<and> dget ''blocked'' d = JInt (probe_total requests - max 1 (probe_total requests div 2))"
proof -
  let ?n = "probe_total requests"
  have n: "1 \<le> ?n" by (simp add: probe_total_def)
  have t: "take (nat ?n) nows = nows" using assms(3) by simp
  have "fst (probe_calls cfg (max 1 (?n div 2)) nows (empty_limiter w)) = Inr (max 0 (int (length nows) - max 0 (max 1 (?n div 2) - 0)))"
    by (rule probe_calls_blocked [where hist = "[]" and u = u])
      (use assms in \<open>simp_all add: empty_limiter_def counter_rel_def list_all_iff window_hits_def\<close>)
  moreover have "max 0 (int (length nows) - max 0 (max 1 (?n div 2) - 0)) = ?n - max 1 (?n div 2)" using n assms(3) by linarith
  ultimately obtain s where "probe_calls cfg (max 1 (?n div 2)) nows (empty_limiter w) = (Inr (?n - max 1 (?n div 2)), s)"
    by (metis prod.collapse)
  then show ?thesis by (simp add: probe_api_def Let_def t dget_simps)
qed

theorem probe_api_blocks_half_witness:
  "\<exists>d. probe_api sample_settings [61, 61, 70, 80] [1 / 100] 4 empty_world = Inr d \<and> dget ''blocked'' d = JInt 2"
proof -
  have p: "probe_total 4 = 4" by code_simp
  have "ls_enabled sample_settings" by code_simp
  from probe_api_blocks_half [OF this, of "[61, 61, 70, 80]" 4 1 "[1 / 100]" empty_world] show ?thesis by (auto simp: p)
qed

end
