(* ===== verification/Spec2Isabelle.thy ===== *)
theory Spec2Isabelle
  imports Worker Conversation Settings_Page Wiki_Eval Probe
begin

text \<open>
  SoulClaw is an agent platform: a FastAPI backend, a Celery worker and a SQL database. This development models
  the Python code under \<open>src/backend\<close> as functions on an explicit state and proves what makes it correct.

  \<^bold>\<open>The state.\<close> \<open>Models\<close> has one record per table of \<open>infra/models.py\<close> and the record \<open>world\<close> that holds all
  tables as lists of rows in insertion order, the event log, the workspace, skill and wiki directories (path to
  content), the trace context and the dispatches waiting for a commit. \<open>session_scope\<close> and \<open>rollback\<close>
  (\<open>infra/db.py\<close>) undo everything but file writes, and events only when they were bound to the session, when the body raises. A raised
  exception is a value of \<open>exc\<close>, and an operation that may raise is a function from a world to a result or an
  exception and a new world (\<open>Ops\<close>: \<open>op_bind\<close>, \<open>op_ok\<close>). JSON values, dictionaries with insertion order,
  truthiness and the conversions \<open>int\<close>, \<open>str\<close>, \<open>float\<close> are in \<open>Py_Values\<close>; instants are rational seconds and
  their ISO text is in \<open>Clock\<close>; \<open>Json\<close> has \<open>json.dumps\<close> and \<open>json.loads\<close> with their round trip. Floats are
  rationals, with not-a-number and the infinities where the code can meet them. Strings are character lists
  (code points 0 to 255).

  \<^bold>\<open>The parts.\<close>
  \<^item> \<open>Jobs\<close> (\<open>domain/jobs.py\<close>): background jobs, the transactional outbox, idempotency keys. \<open>Worker\<close>
    (\<open>worker/tasks.py\<close>) claims, runs and settles a job; \<open>job_step\<close> is the relation of all interleavings of the
    scheduler, the API and the workers, crashes included. \<open>Cron\<close> (\<open>runtime/cron.py\<close>, \<open>domain/cron_schedule.py\<close>).
  \<^item> \<open>Resilience\<close> (\<open>infra/resilience.py\<close>): retries and circuit breaker; \<open>Rate_Limit\<close> (\<open>infra/rate_limit.py\<close>) with
    its refinement of a fixed-window counter; \<open>Trace\<close> (\<open>infra/trace.py\<close>).
  \<^item> \<open>Sandbox\<close> (\<open>runtime/policy.py\<close>, \<open>runtime/host_runtime.py\<close>, \<open>runtime/base.py\<close>).
  \<^item> \<open>Gateway\<close> (\<open>runtime/gateway.py\<close>), \<open>Platform\<close> (\<open>domain/platform.py\<close>), \<open>A2A\<close> (\<open>domain/a2a.py\<close>,
    \<open>runtime/a2a.py\<close>), \<open>Tools\<close> (\<open>domain/tools.py\<close>).
  \<^item> \<open>Workspace\<close> (\<open>domain/workspace.py\<close>), \<open>Retrieval\<close> (the tokens and ranking the searches share), \<open>Memory\<close> and
    \<open>Memory_Props\<close> (\<open>domain/memory.py\<close>), \<open>Skills\<close> and \<open>Skills_Props\<close> (\<open>domain/skills.py\<close>), \<open>Conversation\<close>
    (\<open>domain/conversation.py\<close>), \<open>Wiki\<close> (parser, compiler, file changes, proposals), \<open>Wiki_Service\<close> (search, routing,
    evidence, lint, quality, repair) and \<open>Wiki_Props\<close> (\<open>domain/wiki.py\<close>), \<open>Evolution\<close> (\<open>domain/evolution.py\<close>, \<open>runtime/dream.py\<close>,
    \<open>runtime/heartbeat.py\<close>).
  \<^item> \<open>Llm\<close> (\<open>runtime/llm.py\<close>) builds the request to a chat-completions provider and parses its answer; \<open>Mcp\<close> (\<open>runtime/mcp.py\<close>) refreshes
    MCP servers, installs their tools in the registry and calls them. \<open>Agent\<close> (\<open>runtime/agent.py\<close>) is the turn: context, delegation,
    explicit calls, the model loop, and \<open>resume_turn\<close>, which continues a turn interrupted for an approval; \<open>Agent_Props\<close> has its theorems.
  \<^item> \<open>Security\<close> (\<open>infra/security.py\<close>, \<open>api/admin/auth.py\<close>, \<open>api/admin/deps.py\<close>): password hashes, tokens, login with its failure counter.
    \<open>Serializers\<close> (\<open>api/admin/serializers.py\<close>) turns rows into JSON; \<open>Admin\<close> is the request around a route and the routes of
    \<open>api/admin/control.py\<close>, \<open>platform.py\<close>, \<open>tools.py\<close> and \<open>dream.py\<close>; \<open>admin\<close> handles any of them; \<open>Admin_Props\<close> has the theorems.
    \<open>Content_Routes\<close> has the routes of memories, skills, the wiki, A2A and MCP refreshes, \<open>Content_Props\<close> their theorems.
  \<^item> \<open>Schema\<close> (\<open>infra/db.py\<close>): the reconciliation of an old SQLite schema; \<open>Health\<close> (\<open>infra/config.py\<close>, \<open>infra/health.py\<close>,
    \<open>infra/observability.py\<close>, \<open>infra/events.py\<close>): settings, readiness, alerts, event listings; \<open>Startup\<close> (\<open>app.py\<close>, \<open>worker/bootstrap.py\<close>,
    \<open>worker/scheduler.py\<close>) composes the services as \<open>lifespan\<close> does and has the middlewares; \<open>Settings_Page\<close> is the settings route. \<open>Wiki_Eval\<close>
    (\<open>domain/wiki_eval.py\<close>) and \<open>Probe\<close> (\<open>cli/reliability_probe.py\<close>) are the command-line tools.

  \<^bold>\<open>Interfaces.\<close> \<open>Tables\<close> states what a keyed row store promises (\<open>list_table\<close>), interpreted for the tables; \<open>machine\<close> is the locale of a
  step relation with an invariant, interpreted for jobs, memories and proposals; \<open>outbox_frame\<close> is what an
  outbox run keeps; \<open>proposal_applier\<close> is the contract of every service that applies proposals, interpreted for
  skills, memories, wiki pages and workspace files.

  \<^bold>\<open>Arguments.\<close> What is not in the repository is an argument of the definitions that use it: clocks and fresh
  identifiers, SHA-256 and HMAC, the broker, HTTP clients and language models, the full-text engines, the YAML
  parser, \<open>croniter\<close>, process start and path resolution, random jitter.

  \<^bold>\<open>Loops.\<close> Every loop of the modelled code runs over a finite list or a bounded number of attempts, so the
  definitions are structural recursions or recursions on the remaining attempts; there is no fuel.

  \<^bold>\<open>What is shown.\<close> Job attempts are bounded and a claim is exclusive under every interleaving; a run settles its
  job; enqueueing is idempotent; a tool that needs approval never runs without it except through the
  \<open>_approved\<close> argument; delegated tasks are settled; events are numbered without gaps; replayed messages are
  refused; paths and skill files stay below their roots; searches return only active memories; scores stay in
  their range; archived memories, history records and memory lines round-trip; proposals are applied once and
  closed ones are final; the wiki tables mirror the page files and repairs stay in the control files; every turn returns with an answer, its
  transcript is well formed, it stops at a call that needs an approval, and a resumed turn continues where it stopped; a login identifies its user and
  is locked out after eight failures, and no admin request is served without it; MCP tools that may write are gated and called once; the limiter and the middleware on it are a fixed-window counter; calls end within their attempts; the public A2A
  endpoint needs its key; a started application has its administrator and its tools; schema reconciliation is complete and idempotent; readiness and alerts
  are exact; the settings page shows no secret. In this theory,
  the heartbeat job joins worker, heartbeat runtime, skill service and workspace.

  \<^bold>\<open>Not modelled.\<close> What only calls a library: metrics and tracing registration, engines and connection pools, the Redis client factory, the Celery
  configuration, route registration, argument parsing; reading settings from the environment, which is pydantic's; the Alembic revisions under \<open>src/alembic\<close>,
  whose effect is an argument; the protocol client of MCP, which is a third-party package; splitting a byte stream into server-sent events; modification times of files.
\<close>

section \<open>Maintenance jobs end to end\<close>

text \<open>The services of a worker process with the modelled services in place; those of MCP, which also need the registry and the resilience manager, stay arguments (\<open>base\<close>).\<close>

definition modelled_services :: "skill_env \<Rightarrow> wiki_env \<Rightarrow> seed \<Rightarrow> (nat \<Rightarrow> uuid) \<Rightarrow> task_services \<Rightarrow> task_services" where
  "modelled_services senv wenv seed ids base = base\<lparr>
     sv_wiki_compile := compile_wiki wenv,
     sv_wiki_lint := lint_wiki wenv,
     sv_wiki_repair := (\<lambda>apply_safe error_ids. repair_wiki wenv apply_safe error_ids ''wiki_repair''),
     sv_run_review := run_review senv ids,
     sv_skill_scan := op_bind (skill_scan senv) (\<lambda>n. op_ok [(''skills'', JInt n), (''index'', JStr ''file_mirror'')]),
     sv_heartbeat_check := run_check senv seed ids\<rparr>"

definition heartbeat_body :: "skill_env \<Rightarrow> seed \<Rightarrow> (nat \<Rightarrow> uuid) \<Rightarrow> body" where
  "heartbeat_body senv seed ids w = (case run_check senv seed ids w of
     (Inl e, w1) \<Rightarrow> (Inl e, w1)
   | (Inr r, w1) \<Rightarrow>
       (Inr [(''status'', JStr (hb_status r)), (''active_tasks'', JInt (hb_active_tasks r)),
             (''proposals_created'', JInt (hb_proposals_created r)),
             (''proposal_ids'', JList (map JStr (hb_proposal_ids r)))], w1))"

lemma heartbeat_task_body:
  "heartbeat_check_task (modelled_services senv wenv seed ids base) env jid payload = run_job env jid (heartbeat_body senv seed ids)"
  by (simp add: heartbeat_check_task_def heartbeat_body_def [abs_def] modelled_services_def)

lemma heartbeat_body_outcome:
  "\<exists>d w' qs. heartbeat_body senv seed ids w = (Inr d, w') \<and> background_jobs w' = background_jobs w
     \<and> evolution_proposals w' = evolution_proposals w @ qs
     \<and> (\<forall>q \<in> set qs. ep_status q = ''pending'' \<and> ep_target_type q = ''heartbeat'')
     \<and> dget ''active_tasks'' d = JInt (int (length qs)) \<and> dget ''proposals_created'' d = JInt (int (length qs))
     \<and> dget ''proposal_ids'' d = JList (map (JStr \<circ> ep_id) qs)"
  using run_check_outcome [of senv seed ids w] by (fastforce simp: heartbeat_body_def dget_def)

text \<open>C3: A runnable heartbeat job always succeeds, whatever the heartbeat file contains: the task returns, the job is
  \<open>succeeded\<close> with the returned counters as its result, and the proposals table has grown by exactly the
  reported proposals, one pending proposal per active task.\<close>

theorem heartbeat_job_succeeds:
  assumes "uuid_parse jid = Some i" and "get_job w i = Some j" and "should_run j (rn_now env)" and "1 \<le> job_max_attempts j"
  shows "\<exists>d w' j' qs. heartbeat_check_task (modelled_services senv wenv seed ids base) env jid payload w = (Inr d, w')
    \<and> get_job w' i = Some j' \<and> job_status j' = ''succeeded'' \<and> job_result j' = d
    \<and> evolution_proposals w' = evolution_proposals w @ qs
    \<and> (\<forall>q \<in> set qs. ep_status q = ''pending'' \<and> ep_target_type q = ''heartbeat'')
    \<and> dget ''active_tasks'' d = JInt (int (length qs)) \<and> dget ''proposal_ids'' d = JList (map (JStr \<circ> ep_id) qs)"
proof -
  let ?fn = "heartbeat_body senv seed ids"
  have "body_keeps_jobs ?fn"
    unfolding body_keeps_jobs_def using heartbeat_body_outcome [of senv seed ids] by (metis snd_conv)
  from run_job_row [OF assms this] obtain wb w' j1 where
    r: "run_job env jid ?fn w = (fst (?fn wb), w')" "evolution_proposals wb = evolution_proposals w"
      "evolution_proposals w' = kept_proposals ?fn wb"
      "get_job w' i = Some (settled_row (rn_settled env) (job_attempt_count j + 1) (job_max_attempts j) (fst (?fn wb)) j1)"
    by blast
  obtain d w2 qs where b: "?fn wb = (Inr d, w2)" "evolution_proposals w2 = evolution_proposals wb @ qs"
    "\<forall>q \<in> set qs. ep_status q = ''pending'' \<and> ep_target_type q = ''heartbeat''"
    "dget ''active_tasks'' d = JInt (int (length qs))" "dget ''proposal_ids'' d = JList (map (JStr \<circ> ep_id) qs)"
    using heartbeat_body_outcome [of senv seed ids wb] by blast
  have s: "job_status (settled_row t a m (Inr d) j1) = ''succeeded''" "job_result (settled_row t a m (Inr d) j1) = d"
    for t a m by (simp_all add: settled_row_def)
  let ?j = "settled_row (rn_settled env) (job_attempt_count j + 1) (job_max_attempts j) (Inr d) j1"
  show ?thesis
    by (rule exI [of _ d], rule exI [of _ w'], rule exI [of _ ?j], rule exI [of _ qs])
      (use r b s in \<open>simp add: heartbeat_task_body kept_proposals_def\<close>)
qed

definition no_services :: task_services where
  "no_services = \<lparr>sv_run_review = (\<lambda>_ _ w. (Inl (OtherError ''none''), w)), sv_wiki_compile = failing_body,
     sv_wiki_lint = failing_body, sv_wiki_repair = (\<lambda>_ _. failing_body), sv_skill_scan = failing_body,
     sv_mcp_refresh_server = (\<lambda>_. failing_body), sv_mcp_refresh_all = failing_body,
     sv_heartbeat_check = (\<lambda>w. (Inl (OtherError ''none''), w))\<rparr>"

theorem heartbeat_job_succeeds_witness:
  "\<exists>d w' j'. heartbeat_check_task (modelled_services (sample_skill_env 5) sample_wiki_env None (\<lambda>n. ''h'') no_services) sample_env uuid_a []
       queued_world = (Inr d, w')
     \<and> get_job w' uuid_a = Some j' \<and> job_status j' = ''succeeded'' \<and> job_result j' = d"
proof -
  have "uuid_parse uuid_a = Some uuid_a" "get_job queued_world uuid_a = Some sample_job"
    "should_run sample_job (rn_now sample_env)" "1 \<le> job_max_attempts sample_job"
    by code_simp+
  from heartbeat_job_succeeds [OF this, where senv = "sample_skill_env 5" and wenv = sample_wiki_env and seed = None and ids = "\<lambda>n. ''h''"
      and base = no_services and payload = "[]"]
  show ?thesis by blast
qed

end
